(* ===== verification/Prelude.thy ===== *)
theory Prelude
  imports Main "HOL-Library.Word" "HOL-Library.Char_ord" "HOL-Library.List_Lexorder"
    "HOL-Library.Option_ord" "HOL-Library.Product_Lexorder"
begin

unbundle bit_operations_syntax

text \<open>
  What every component shares: the names of the machine types, results with
  the meaning of Rust's \<open>?\<close>, reading and writing integers as bytes, and the
  lemma collections the component theories add to. Nothing here models a
  function of the repository; it models what the source uses of the language
  and of its standard library.

  Conventions. A \<open>&[u8]\<close> or \<open>Vec<u8>\<close> is a list of 8-bit words. A \<open>String\<close> or
  \<open>&str\<close> is a \<open>string\<close>, whose characters are the bytes of its UTF-8 encoding, so
  that length and order are the ones Rust uses. A \<open>usize\<close> is a \<open>nat\<close>: it counts
  bytes that are in memory, and the sums the source forms from it are of such
  counts and of \<open>u32\<close> values, far below its range. Times are \<open>i64\<close> seconds,
  modelled as \<open>int\<close> with the saturation written out where the source saturates.
\<close>

section \<open>Types and collections\<close>

declare add_2_eq_Suc [simp del] and add_2_eq_Suc' [simp del]

type_synonym u8 = "8 word"
type_synonym u16 = "16 word"
type_synonym u32 = "32 word"
type_synonym u64 = "64 word"
type_synonym bytes = "u8 list"

named_theorems res_simps "what a successful result says about the steps that made it"
named_theorems panic_free "functions that never end in a panic"
named_theorems byte_simps "lengths and values of encoded integers"

section \<open>Results\<close>

text \<open>\<open>e?\<close> followed by the rest of the function.\<close>

definition and_then :: "'e + 'a \<Rightarrow> ('a \<Rightarrow> 'e + 'b) \<Rightarrow> 'e + 'b" where
  "and_then r k = (case r of Inl e \<Rightarrow> Inl e | Inr x \<Rightarrow> k x)"

text \<open>\<open>Result::map_err\<close>, and \<open>Option::ok_or\<close>.\<close>

definition map_err :: "('e \<Rightarrow> 'f) \<Rightarrow> 'e + 'a \<Rightarrow> 'f + 'a" where
  "map_err f r = (case r of Inl e \<Rightarrow> Inl (f e) | Inr x \<Rightarrow> Inr x)"

definition ok_or :: "'e \<Rightarrow> 'a option \<Rightarrow> 'e + 'a" where
  "ok_or e x = (case x of None \<Rightarrow> Inl e | Some v \<Rightarrow> Inr v)"

definition is_ok :: "'e + 'a \<Rightarrow> bool" where
  "is_ok r = (case r of Inl _ \<Rightarrow> False | Inr _ \<Rightarrow> True)"

definition to_option :: "'e + 'a \<Rightarrow> 'a option" where
  "to_option r = (case r of Inl _ \<Rightarrow> None | Inr x \<Rightarrow> Some x)"

text \<open>Mapping a fallible function over a list, stopping at the first error
  (\<open>collect::<Result<Vec<_>>>()\<close>), and running checks in order.\<close>

fun traverse :: "('a \<Rightarrow> 'e + 'b) \<Rightarrow> 'a list \<Rightarrow> 'e + 'b list" where
  "traverse f [] = Inr []"
| "traverse f (x # xs) = and_then (f x) (\<lambda>y. and_then (traverse f xs) (\<lambda>ys. Inr (y # ys)))"

fun check_each :: "('a \<Rightarrow> 'e + unit) \<Rightarrow> 'a list \<Rightarrow> 'e + unit" where
  "check_each f [] = Inr ()"
| "check_each f (x # xs) = and_then (f x) (\<lambda>_. check_each f xs)"

text \<open>\<open>Option<Result<T>>::transpose()\<close>.\<close>

definition transpose_option :: "('e + 'a) option \<Rightarrow> 'e + 'a option" where
  "transpose_option x = (case x of None \<Rightarrow> Inr None | Some r \<Rightarrow> map_sum id Some r)"

lemma and_then_Inl [simp]: "and_then (Inl e) k = Inl e"
  and and_then_Inr [simp]: "and_then (Inr x) k = k x"
  by (simp_all add: and_then_def)

lemma and_then_cong:
  "r = r' \<Longrightarrow> (\<And>x. r' = Inr x \<Longrightarrow> k x = k' x) \<Longrightarrow> and_then r k = and_then r' k'"
  by (cases r') simp_all

lemma and_then_assoc:
  "and_then (and_then r k) l = and_then r (\<lambda>x. and_then (k x) l)"
  by (cases r) simp_all

lemma and_then_Inr_iff [res_simps]:
  "and_then r k = Inr y \<longleftrightarrow> (\<exists>x. r = Inr x \<and> k x = Inr y)"
  by (cases r) simp_all

lemma and_then_Inl_iff:
  "and_then r k = Inl e \<longleftrightarrow> r = Inl e \<or> (\<exists>x. r = Inr x \<and> k x = Inl e)"
  by (cases r) simp_all

lemma and_then_not_Inl [panic_free]:
  "r \<noteq> Inl e \<Longrightarrow> (\<And>x. r = Inr x \<Longrightarrow> k x \<noteq> Inl e) \<Longrightarrow> and_then r k \<noteq> Inl e"
  by (cases r) simp_all

lemma ok_or_simps [simp]: "ok_or e None = Inl e" "ok_or e (Some v) = Inr v"
  by (simp_all add: ok_or_def)

lemma ok_or_Inr_iff [res_simps]: "ok_or e x = Inr v \<longleftrightarrow> x = Some v"
  by (cases x) simp_all

lemma ok_or_Inl_iff: "ok_or e x = Inl f \<longleftrightarrow> x = None \<and> f = e"
  by (cases x) auto

lemma map_err_simps [simp]: "map_err f (Inl e) = Inl (f e)" "map_err f (Inr x) = Inr x"
  by (simp_all add: map_err_def)

lemma map_err_Inr_iff [res_simps]: "map_err f r = Inr x \<longleftrightarrow> r = Inr x"
  by (cases r) simp_all

lemma is_ok_simps [simp]: "is_ok (Inl e) = False" "is_ok (Inr x) = True"
  by (simp_all add: is_ok_def)

lemma is_ok_iff: "is_ok r \<longleftrightarrow> (\<exists>x. r = Inr x)"
  by (cases r) simp_all

lemma to_option_simps [simp]: "to_option (Inl e) = None" "to_option (Inr x) = Some x"
  by (simp_all add: to_option_def)

lemma to_option_Some_iff [simp]: "to_option r = Some x \<longleftrightarrow> r = Inr x"
  by (cases r) simp_all

lemma if_Inr_iff [res_simps]: "(if b then Inl e else r) = Inr y \<longleftrightarrow> \<not> b \<and> r = Inr y"
  by simp

lemma transpose_option_simps [simp]:
  "transpose_option None = Inr None"
  "transpose_option (Some (Inl e)) = Inl e"
  "transpose_option (Some (Inr x)) = Inr (Some x)"
  by (simp_all add: transpose_option_def)

lemma traverse_Inr_iff [res_simps]:
  "traverse f xs = Inr ys \<longleftrightarrow> list_all2 (\<lambda>x y. f x = Inr y) xs ys"
proof (induction xs arbitrary: ys)
  case Nil
  then show ?case by auto
next
  case (Cons x xs)
  then show ?case by (cases ys) (auto simp: and_then_Inr_iff list_all2_Cons1)
qed

lemma length_traverse: "traverse f xs = Inr ys \<Longrightarrow> length ys = length xs"
  by (auto simp: traverse_Inr_iff dest: list_all2_lengthD)

lemma traverse_Inl: "traverse f xs = Inl e \<Longrightarrow> \<exists>x \<in> set xs. f x = Inl e"
  by (induction xs) (auto simp: and_then_Inl_iff)

lemma check_each_Inr_iff [res_simps]:
  "check_each f xs = Inr () \<longleftrightarrow> (\<forall>x \<in> set xs. f x = Inr ())"
  by (induction xs) (auto simp: and_then_Inr_iff)

lemma check_each_Inl: "check_each f xs = Inl e \<Longrightarrow> \<exists>x \<in> set xs. f x = Inl e"
  by (induction xs) (auto simp: and_then_Inl_iff)

section \<open>Slices\<close>

text \<open>\<open>slice xs a b\<close> is \<open>xs[a..b]\<close> where that is in range; \<open>get_range\<close> is
  \<open>xs.get(a..b)\<close>.\<close>

definition slice :: "'a list \<Rightarrow> nat \<Rightarrow> nat \<Rightarrow> 'a list" where
  "slice xs a b = take (b - a) (drop a xs)"

definition get_range :: "'a list \<Rightarrow> nat \<Rightarrow> nat \<Rightarrow> 'a list option" where
  "get_range xs a b = (if a \<le> b \<and> b \<le> length xs then Some (slice xs a b) else None)"

definition get_index :: "'a list \<Rightarrow> nat \<Rightarrow> 'a option" where
  "get_index xs i = (if i < length xs then Some (xs ! i) else None)"

lemma length_slice [simp, byte_simps]: "b \<le> length xs \<Longrightarrow> length (slice xs a b) = b - a"
  by (simp add: slice_def)

lemma length_slice_le: "length (slice xs a b) \<le> b - a"
  by (simp add: slice_def)

lemma slice_empty [simp]: "slice xs a a = []"
  by (simp add: slice_def)

lemma slice_zero [simp]: "slice xs 0 n = take n xs"
  by (simp add: slice_def)

lemma slice_append_left: "b \<le> length xs \<Longrightarrow> slice (xs @ ys) a b = slice xs a b"
  by (simp add: slice_def)

lemma slice_append_right:
  "length xs \<le> a \<Longrightarrow> slice (xs @ ys) a b = slice ys (a - length xs) (b - length xs)"
  by (simp add: slice_def)

lemma slice_split: "a \<le> b \<Longrightarrow> b \<le> c \<Longrightarrow> slice xs a c = slice xs a b @ slice xs b c"
proof -
  assume "a \<le> b" "b \<le> c"
  then obtain m n where b: "b = a + m" and c: "c = b + n"
    by (metis le_Suc_ex)
  show ?thesis
    by (simp add: slice_def b c take_add add.commute)
qed

lemma slice_take: "b \<le> n \<Longrightarrow> slice (take n xs) a b = slice xs a b"
  by (simp add: slice_def drop_take min_def)

lemma nth_slice: "i < b - a \<Longrightarrow> b \<le> length xs \<Longrightarrow> slice xs a b ! i = xs ! (a + i)"
  by (simp add: slice_def)

lemma slice_slice:
  "d \<le> b - a \<Longrightarrow> b \<le> length xs \<Longrightarrow> slice (slice xs a b) c d = slice xs (a + c) (a + d)"
  by (simp add: slice_def drop_take take_take min_def add.commute)

lemma get_range_Some_iff [res_simps]:
  "get_range xs a b = Some ys \<longleftrightarrow> a \<le> b \<and> b \<le> length xs \<and> ys = slice xs a b"
  by (auto simp: get_range_def)

lemma get_index_Some_iff [res_simps]:
  "get_index xs i = Some y \<longleftrightarrow> i < length xs \<and> y = xs ! i"
  by (auto simp: get_index_def)

section \<open>Integers as bytes\<close>

fun le_nat :: "bytes \<Rightarrow> nat" where
  "le_nat [] = 0"
| "le_nat (b # bs) = unat b + 256 * le_nat bs"

fun le_bytes :: "nat \<Rightarrow> nat \<Rightarrow> bytes" where
  "le_bytes 0 n = []"
| "le_bytes (Suc k) n = of_nat (n mod 256) # le_bytes k (n div 256)"

definition be_nat :: "bytes \<Rightarrow> nat" where
  "be_nat bs = le_nat (rev bs)"

definition be_bytes :: "nat \<Rightarrow> nat \<Rightarrow> bytes" where
  "be_bytes k n = rev (le_bytes k n)"

text \<open>\<open>from_le_bytes\<close> and \<open>from_be_bytes\<close> at the widths the source reads.\<close>

definition u16_from_be_bytes :: "bytes \<Rightarrow> u16" where
  "u16_from_be_bytes bs = of_nat (be_nat bs)"

definition u32_from_be_bytes :: "bytes \<Rightarrow> u32" where
  "u32_from_be_bytes bs = of_nat (be_nat bs)"

definition u16_from_le_bytes :: "bytes \<Rightarrow> u16" where
  "u16_from_le_bytes bs = of_nat (le_nat bs)"

definition u32_from_le_bytes :: "bytes \<Rightarrow> u32" where
  "u32_from_le_bytes bs = of_nat (le_nat bs)"

definition u64_from_le_bytes :: "bytes \<Rightarrow> u64" where
  "u64_from_le_bytes bs = of_nat (le_nat bs)"

lemma unat_lt: "unat (w :: 'a::len word) < 2 ^ LENGTH('a)"
  by (simp add: unsigned_less)

lemma unat_u8_less [simp]: "unat (b :: u8) < 256"
  using unat_lt [of b] by simp

lemma length_le_bytes [simp, byte_simps]: "length (le_bytes k n) = k"
  by (induction k n rule: le_bytes.induct) simp_all

lemma length_be_bytes [simp, byte_simps]: "length (be_bytes k n) = k"
  by (simp add: be_bytes_def)

lemma le_nat_bound: "le_nat bs < 256 ^ length bs"
proof (induction bs)
  case Nil
  then show ?case by simp
next
  case (Cons b bs)
  have b: "unat b < 256" by simp
  let ?m = "256 ^ length bs :: nat"
  have "unat b + 256 * le_nat bs < 256 * (le_nat bs + 1)" using b by simp
  also have "\<dots> \<le> 256 * ?m" using Cons.IH by (intro mult_le_mono2) simp
  finally show ?case by simp
qed

lemma le_nat_le_bytes [byte_simps]: "le_nat (le_bytes k n) = n mod 256 ^ k"
proof (induction k n rule: le_bytes.induct)
  case (1 n)
  then show ?case by simp
next
  case (2 k n)
  have "n mod 256 + 256 * (n div 256 mod 256 ^ k) = n mod (256 * 256 ^ k)"
    by (simp add: mod_mult2_eq)
  with 2 show ?case by (simp add: unat_of_nat)
qed

lemma le_bytes_le_nat: "le_bytes (length bs) (le_nat bs) = bs"
proof (induction bs)
  case Nil
  then show ?case by simp
next
  case (Cons b bs)
  have "(unat b + 256 * le_nat bs) mod 256 = unat b"
    by simp
  moreover have "(unat b + 256 * le_nat bs) div 256 = le_nat bs"
    by simp
  ultimately show ?case using Cons by simp
qed

lemma be_nat_be_bytes [byte_simps]: "be_nat (be_bytes k n) = n mod 256 ^ k"
  by (simp add: be_nat_def be_bytes_def le_nat_le_bytes)

lemma be_nat_bound: "be_nat bs < 256 ^ length bs"
  using le_nat_bound [of "rev bs"] by (simp add: be_nat_def)

lemma unat_u16_from_be_bytes [byte_simps]:
  "length bs = 2 \<Longrightarrow> unat (u16_from_be_bytes bs) = be_nat bs"
  using be_nat_bound [of bs] by (simp add: u16_from_be_bytes_def unat_of_nat)

lemma unat_u32_from_be_bytes [byte_simps]:
  "length bs = 4 \<Longrightarrow> unat (u32_from_be_bytes bs) = be_nat bs"
  using be_nat_bound [of bs] by (simp add: u32_from_be_bytes_def unat_of_nat)

lemma unat_u16_from_le_bytes [byte_simps]:
  "length bs = 2 \<Longrightarrow> unat (u16_from_le_bytes bs) = le_nat bs"
  using le_nat_bound [of bs] by (simp add: u16_from_le_bytes_def unat_of_nat)

lemma unat_u32_from_le_bytes [byte_simps]:
  "length bs = 4 \<Longrightarrow> unat (u32_from_le_bytes bs) = le_nat bs"
  using le_nat_bound [of bs] by (simp add: u32_from_le_bytes_def unat_of_nat)

lemma u32_from_le_bytes_le_bytes [byte_simps]:
  "u32_from_le_bytes (le_bytes 4 (unat w)) = w"
proof -
  have "unat w < 256 ^ 4" using unat_lt [of w] by simp
  then show ?thesis by (simp add: u32_from_le_bytes_def le_nat_le_bytes)
qed

lemma u16_from_be_bytes_be_bytes [byte_simps]:
  "u16_from_be_bytes (be_bytes 2 (unat w)) = w"
proof -
  have "unat w < 256 ^ 2" using unat_lt [of w] by simp
  then show ?thesis by (simp add: u16_from_be_bytes_def be_nat_be_bytes)
qed

lemma u32_from_be_bytes_be_bytes [byte_simps]:
  "u32_from_be_bytes (be_bytes 4 (unat w)) = w"
proof -
  have "unat w < 256 ^ 4" using unat_lt [of w] by simp
  then show ?thesis by (simp add: u32_from_be_bytes_def be_nat_be_bytes)
qed

section \<open>Text\<close>

definition str_bytes :: "string \<Rightarrow> bytes" where
  "str_bytes s = map (\<lambda>c. of_nat (of_char c)) s"

definition bytes_str :: "bytes \<Rightarrow> string" where
  "bytes_str bs = map (\<lambda>b. char_of (unat b)) bs"

lemma length_str_bytes [simp]: "length (str_bytes s) = length s"
  by (simp add: str_bytes_def)

lemma length_bytes_str [simp]: "length (bytes_str bs) = length bs"
  by (simp add: bytes_str_def)

lemma bytes_str_str_bytes [simp]: "bytes_str (str_bytes s) = s"
proof -
  have "char_of (unat (of_nat (of_char c) :: u8)) = c" for c :: char
  proof -
    have "of_char c < (256 :: nat)" by simp
    then have "unat (of_nat (of_char c) :: u8) = of_char c" by (simp add: unat_of_nat)
    then show ?thesis by simp
  qed
  then show ?thesis by (simp add: bytes_str_def str_bytes_def comp_def)
qed

lemma str_bytes_bytes_str [simp]: "str_bytes (bytes_str b) = b"
  by (simp add: str_bytes_def bytes_str_def comp_def)

lemma str_bytes_inj [simp]: "str_bytes s = str_bytes t \<longleftrightarrow> s = t"
  by (metis bytes_str_str_bytes)

text \<open>\<open>str::strip_prefix\<close>, \<open>str::contains\<close> and \<open>str::split\<close> at one character.\<close>

fun strip_prefix :: "string \<Rightarrow> string \<Rightarrow> string option" where
  "strip_prefix [] s = Some s"
| "strip_prefix (p # ps) [] = None"
| "strip_prefix (p # ps) (c # cs) = (if p = c then strip_prefix ps cs else None)"

fun contains_str :: "string \<Rightarrow> string \<Rightarrow> bool" where
  "contains_str p [] = (p = [])"
| "contains_str p (c # cs) = (strip_prefix p (c # cs) \<noteq> None \<or> contains_str p cs)"

fun split_on :: "char \<Rightarrow> string \<Rightarrow> string list" where
  "split_on d [] = [[]]"
| "split_on d (c # cs) =
     (if c = d then [] # split_on d cs
      else (case split_on d cs of [] \<Rightarrow> [[c]] | w # ws \<Rightarrow> (c # w) # ws))"

lemma split_on_last: "d \<notin> set a \<Longrightarrow> split_on d a = [a]"
  by (induction a) auto

lemma split_on_append: "d \<notin> set a \<Longrightarrow> split_on d (a @ d # b) = a # split_on d b"
  by (induction a) auto

text \<open>\<open>str::split_once\<close> at one character: what precedes the first occurrence
  and what follows it.\<close>

fun split_once :: "char \<Rightarrow> string \<Rightarrow> (string \<times> string) option" where
  "split_once d [] = None"
| "split_once d (c # cs) =
     (if c = d then Some ([], cs)
      else map_option (\<lambda>(a, b). (c # a, b)) (split_once d cs))"

lemma strip_prefix_Some_iff [res_simps]: "strip_prefix p s = Some r \<longleftrightarrow> s = p @ r"
  by (induction p s rule: strip_prefix.induct) auto

lemma contains_str_iff: "contains_str p s \<longleftrightarrow> (\<exists>a b. s = a @ p @ b)"
proof (induction s)
  case Nil
  then show ?case by auto
next
  case (Cons c s)
  have "strip_prefix p (c # s) \<noteq> None \<longleftrightarrow> (\<exists>b. c # s = p @ b)"
    using strip_prefix_Some_iff [of p "c # s"] by blast
  with Cons show ?case by (auto simp: Cons_eq_append_conv)
qed

lemma split_on_not_Nil [simp]: "split_on d s \<noteq> []"
  by (induction s) (auto split: list.splits)

lemma split_once_Some_iff [res_simps]:
  "split_once d s = Some (a, b) \<longleftrightarrow> s = a @ d # b \<and> d \<notin> set a"
proof (induction s arbitrary: a b)
  case Nil
  then show ?case by simp
next
  case (Cons c s)
  have "split_once d (c # s) = Some (a, b) \<longleftrightarrow>
      (if c = d then a = [] \<and> b = s else (\<exists>a'. a = c # a' \<and> split_once d s = Some (a', b)))"
    by auto
  also have "\<dots> \<longleftrightarrow> c # s = a @ d # b \<and> d \<notin> set a"
    using Cons.IH by (cases a) auto
  finally show ?case .
qed

lemma unat_of_nat_small:
  "n < 2 ^ 32 \<Longrightarrow> unat (of_nat n :: u32) = n" "n < 2 ^ 16 \<Longrightarrow> unat (of_nat n :: u16) = n"
  "x < 256 \<Longrightarrow> unat (of_nat x :: u8) = x" "y < 2 ^ 64 \<Longrightarrow> unat (of_nat y :: u64) = y"
  by (simp_all add: unat_of_nat)

section \<open>Ordered maps\<close>

text \<open>A \<open>BTreeMap\<close> is its list of entries, with strictly increasing keys:
  \<open>insert\<close>, \<open>get\<close> (\<open>map_of\<close>) and iteration in key order.\<close>

fun bt_insert :: "'k::linorder \<Rightarrow> 'v \<Rightarrow> ('k \<times> 'v) list \<Rightarrow> ('k \<times> 'v) list" where
  "bt_insert k v [] = [(k, v)]"
| "bt_insert k v ((k', v') # m) =
     (if k < k' then (k, v) # (k', v') # m
      else if k = k' then (k, v) # m
      else (k', v') # bt_insert k v m)"

definition bt_sorted :: "('k::linorder \<times> 'v) list \<Rightarrow> bool" where
  "bt_sorted m = sorted_wrt (<) (map fst m)"

lemma map_of_bt_insert [simp]: "map_of (bt_insert k v m) = (map_of m)(k \<mapsto> v)"
  by (induction m rule: bt_insert.induct) (auto simp: fun_eq_iff)

lemma keys_bt_insert [simp]: "set (map fst (bt_insert k v m)) = insert k (set (map fst m))"
  by (induction k v m rule: bt_insert.induct) auto

lemma fst_bt_insert [simp]: "fst ` set (bt_insert k v m) = insert k (fst ` set m)"
  using keys_bt_insert [of k v m] by simp

lemma bt_sorted_Nil [simp]: "bt_sorted []"
  by (simp add: bt_sorted_def)

lemma bt_sorted_insert [simp]: "bt_sorted m \<Longrightarrow> bt_sorted (bt_insert k v m)"
  unfolding bt_sorted_def
  by (induction k v m rule: bt_insert.induct) auto

lemma bt_sorted_distinct: "bt_sorted m \<Longrightarrow> distinct (map fst m)"
  unfolding bt_sorted_def
  by (induction m) auto

lemma bt_entry_iff: "bt_sorted m \<Longrightarrow> (k, v) \<in> set m \<longleftrightarrow> map_of m k = Some v"
  using bt_sorted_distinct [of m] by simp

end
