(* ===== verification/Errors.thy ===== *)
theory Errors
  imports Prelude
begin

text \<open>
  \<open>crates/attestation/src/error.rs\<close>: why a vendor fetch failed, and the error
  type of every operation. The text an error carries is kept as the fixed part
  of the message, shortened; the numbers and names the source formats into it
  are left out unless another part of the program reads them.

  One constructor is the model's own: \<open>Panicked\<close> is what an out-of-range index
  or slice does in Rust. Reads that the source writes as \<open>xs[i]\<close> and
  \<open>xs[a..b]\<close> are \<open>at_index\<close> and \<open>at_range\<close>, which panic out of range; reads it
  writes as \<open>get\<close> are \<open>get_index\<close> and \<open>get_range\<close>. That a function never panics
  is then a statement about its result.
\<close>

section \<open>Fetch failures\<close>

record unavailable =
  ua_status :: "nat option"
  ua_retry_after :: "nat option"
  ua_detail :: string

definition ua_detail_only :: "string \<Rightarrow> unavailable" where
  "ua_detail_only d = \<lparr>ua_status = None, ua_retry_after = None, ua_detail = d\<rparr>"

definition offline :: unavailable where
  "offline = ua_detail_only ''not held, and fetching is off''"

definition not_found :: "unavailable \<Rightarrow> bool" where
  "not_found u = (ua_status u = Some 404 \<or> ua_status u = Some 410)"

section \<open>Errors\<close>

datatype attestation_error =
    NoPlatformDetected
  | PlatformNotEnabled string
  | PlatformNotAllowed string
  | InvalidParams string
  | ReportDataTooLarge nat
  | EvidenceDeserialize string
  | SignatureVerificationFailed string
  | CertChainError string
  | CollateralUnavailable string "nat option" string
  | QuoteParseFailed string
  | UnsupportedReportVersion nat nat nat
  | EventlogIntegrityFailed string
  | HardwareAccessFailed string
  | TcbMismatch string
  | EvidenceTooLarge nat nat
  | NvidiaGpuRequired
  | NvidiaGpuBindingMismatch
  | NvidiaGpuSubmoduleNonceMismatch string
  | NvidiaGpuUserNonceMissing
  | NvidiaGpuReportDataRequired
  | NvidiaGpuBindingNotAllowed
  | NvidiaGpuNonceTooShort nat
  | NvidiaGpuBundleEmpty
  | NvidiaGpuTooManyDevices nat nat
  | NrasRequestFailed string
  | NrasResponseParse string
  | JwsVerification string
  | JwksFetch string
  | JwksKidNotFound string
  | NvidiaGpuEvidenceCollection string
  | Other string
  | Panicked

type_synonym 'a res = "attestation_error + 'a"

definition into_error :: "unavailable \<Rightarrow> string \<Rightarrow> attestation_error" where
  "into_error u collateral = CollateralUnavailable collateral (ua_retry_after u) (ua_detail u)"

definition is_retryable :: "attestation_error \<Rightarrow> bool" where
  "is_retryable e = (case e of CollateralUnavailable _ _ _ \<Rightarrow> True | _ \<Rightarrow> False)"

definition err_retry_after :: "attestation_error \<Rightarrow> nat option" where
  "err_retry_after e = (case e of CollateralUnavailable _ r _ \<Rightarrow> r | _ \<Rightarrow> None)"

definition is_invalid_params :: "attestation_error \<Rightarrow> bool" where
  "is_invalid_params e = (case e of
       NvidiaGpuUserNonceMissing \<Rightarrow> True
     | NvidiaGpuReportDataRequired \<Rightarrow> True
     | NvidiaGpuNonceTooShort _ \<Rightarrow> True
     | InvalidParams _ \<Rightarrow> True
     | ReportDataTooLarge _ \<Rightarrow> True
     | _ \<Rightarrow> False)"

text \<open>\<open>if cond { return Err(e) }\<close> as a step: the check passes, or fails with
  the error.\<close>

definition require :: "bool \<Rightarrow> attestation_error \<Rightarrow> unit res" where
  "require b e = (if b then Inr () else Inl e)"

section \<open>Reads that can panic\<close>

definition at_index :: "'a list \<Rightarrow> nat \<Rightarrow> 'a res" where
  "at_index xs i = ok_or Panicked (get_index xs i)"

definition at_range :: "'a list \<Rightarrow> nat \<Rightarrow> nat \<Rightarrow> 'a list res" where
  "at_range xs a b = ok_or Panicked (get_range xs a b)"

section \<open>Lemmas\<close>

lemma require_simps [simp]: "require True e = Inr ()" "require False e = Inl e"
  by (simp_all add: require_def)

lemma require_Inr_iff [res_simps]: "require b e = Inr u \<longleftrightarrow> b"
  by (cases b) simp_all

lemma require_Inl_iff: "require b e = Inl f \<longleftrightarrow> \<not> b \<and> f = e"
  by (cases b) auto

lemma and_then_require: "and_then (require b e) k = (if b then k () else Inl e)"
  by simp

lemma at_index_Inr_iff [res_simps]: "at_index xs i = Inr y \<longleftrightarrow> i < length xs \<and> y = xs ! i"
  by (auto simp: at_index_def get_index_def)

lemma at_range_Inr_iff [res_simps]:
  "at_range xs a b = Inr ys \<longleftrightarrow> a \<le> b \<and> b \<le> length xs \<and> ys = slice xs a b"
  by (auto simp: at_range_def get_range_def)

lemma at_index_in [simp]: "i < length xs \<Longrightarrow> at_index xs i = Inr (xs ! i)"
  by (simp add: at_index_def get_index_def)

lemma at_range_in [simp]: "a \<le> b \<Longrightarrow> b \<le> length xs \<Longrightarrow> at_range xs a b = Inr (slice xs a b)"
  by (simp add: at_range_def get_range_def)

lemma at_index_out [simp]: "\<not> i < length xs \<Longrightarrow> at_index xs i = Inl Panicked"
  by (simp add: at_index_def get_index_def)

lemma at_range_out [simp]: "\<not> (a \<le> b \<and> b \<le> length xs) \<Longrightarrow> at_range xs a b = Inl Panicked"
  by (simp add: at_range_def get_range_def)

lemma at_index_Inl_iff: "at_index xs i = Inl e \<longleftrightarrow> \<not> i < length xs \<and> e = Panicked"
  by (auto simp: at_index_def get_index_def)

lemma at_range_Inl_iff:
  "at_range xs a b = Inl e \<longleftrightarrow> \<not> (a \<le> b \<and> b \<le> length xs) \<and> e = Panicked"
  by (auto simp: at_range_def get_range_def)

text \<open>What a failing result says about the steps that made it.\<close>

lemmas err_simps = and_then_Inl_iff ok_or_Inl_iff require_Inl_iff at_index_Inl_iff at_range_Inl_iff

lemma require_not_panic [panic_free]: "e \<noteq> Panicked \<Longrightarrow> require b e \<noteq> Inl Panicked"
  by (cases b) simp_all

lemma ok_or_not_panic [panic_free]: "e \<noteq> Panicked \<Longrightarrow> ok_or e x \<noteq> Inl Panicked"
  by (cases x) simp_all

lemma if_not_panic [panic_free]:
  "(b \<Longrightarrow> r \<noteq> Inl Panicked) \<Longrightarrow> (\<not> b \<Longrightarrow> s \<noteq> Inl Panicked) \<Longrightarrow> (if b then r else s) \<noteq> Inl Panicked"
  by simp

lemma traverse_not_panic [panic_free]:
  "(\<And>x. x \<in> set xs \<Longrightarrow> f x \<noteq> Inl Panicked) \<Longrightarrow> traverse f xs \<noteq> Inl Panicked"
  using traverse_Inl by metis

lemma check_each_not_panic [panic_free]:
  "(\<And>x. x \<in> set xs \<Longrightarrow> f x \<noteq> Inl Panicked) \<Longrightarrow> check_each f xs \<noteq> Inl Panicked"
  using check_each_Inl by metis

lemma retryable_not_params: "is_retryable e \<Longrightarrow> \<not> is_invalid_params e"
  by (cases e) (simp_all add: is_retryable_def is_invalid_params_def)

lemma into_error_retryable [simp]: "is_retryable (into_error u c)"
  by (simp add: into_error_def is_retryable_def)

end
