(* ===== verification/Json.thy ===== *)
theory Json
  imports Errors
begin

text \<open>
  The part of \<open>serde_json::Value\<close> the source reads: a value, and the accessors
  \<open>get\<close>, \<open>as_str\<close>, \<open>as_bool\<close>, \<open>as_i64\<close> and \<open>as_array\<close>. An object is a list of
  members with distinct keys, which is what the parser returns (the last of two
  members with one key wins there). Parsing JSON text is a parameter of the
  definitions that do it. A number that is not an integer is kept as its text:
  the source never reads one.
\<close>

datatype json =
    JNull
  | JBool bool
  | JInt int
  | JFloat string
  | JStr string
  | JArr "json list"
  | JObj "(string \<times> json) list"

fun json_get :: "string \<Rightarrow> json \<Rightarrow> json option" where
  "json_get k (JObj ms) = map_of ms k"
| "json_get k _ = None"

fun as_str :: "json \<Rightarrow> string option" where
  "as_str (JStr s) = Some s"
| "as_str _ = None"

fun as_bool :: "json \<Rightarrow> bool option" where
  "as_bool (JBool b) = Some b"
| "as_bool _ = None"

text \<open>\<open>as_i64\<close>: an integer in the range of \<open>i64\<close>; \<open>as_u64\<close>, of \<open>u64\<close>.\<close>

fun as_i64 :: "json \<Rightarrow> int option" where
  "as_i64 (JInt i) = (if - (2 ^ 63) \<le> i \<and> i < 2 ^ 63 then Some i else None)"
| "as_i64 _ = None"

fun as_array :: "json \<Rightarrow> json list option" where
  "as_array (JArr xs) = Some xs"
| "as_array _ = None"

fun as_object :: "json \<Rightarrow> (string \<times> json) list option" where
  "as_object (JObj ms) = Some ms"
| "as_object _ = None"

definition get_str :: "string \<Rightarrow> json \<Rightarrow> string option" where
  "get_str k j = Option.bind (json_get k j) as_str"

definition get_bool :: "string \<Rightarrow> json \<Rightarrow> bool option" where
  "get_bool k j = Option.bind (json_get k j) as_bool"

text \<open>\<open>json!\<close>: an object from its members, in key order.\<close>

definition json_obj :: "(string \<times> json) list \<Rightarrow> json" where
  "json_obj ms = JObj (foldl (\<lambda>m (k, v). bt_insert k v m) [] ms)"

text \<open>\<open>json[key] = value\<close> on an object.\<close>

definition object_set :: "string \<Rightarrow> json \<Rightarrow> json \<Rightarrow> json" where
  "object_set k v j = (case j of JObj ms \<Rightarrow> JObj (bt_insert k v ms) | _ \<Rightarrow> j)"

lemma as_str_Some_iff [simp]: "as_str j = Some s \<longleftrightarrow> j = JStr s"
  by (cases j) simp_all

lemma as_bool_Some_iff [simp]: "as_bool j = Some b \<longleftrightarrow> j = JBool b"
  by (cases j) simp_all

lemma as_array_Some_iff [simp]: "as_array j = Some xs \<longleftrightarrow> j = JArr xs"
  by (cases j) simp_all

lemma as_object_Some_iff [simp]: "as_object j = Some ms \<longleftrightarrow> j = JObj ms"
  by (cases j) simp_all

lemma get_str_Some_iff [res_simps]: "get_str k j = Some s \<longleftrightarrow> json_get k j = Some (JStr s)"
  by (cases "json_get k j") (simp_all add: get_str_def)

lemma get_bool_Some_iff [res_simps]: "get_bool k j = Some b \<longleftrightarrow> json_get k j = Some (JBool b)"
  by (cases "json_get k j") (simp_all add: get_bool_def)

end
