(* ===== verification/Collateral.thy ===== *)
theory Collateral
  imports Json
begin

text \<open>
  \<open>crates/attestation/src/collateral/mod.rs\<close>: what every vendor-signed piece
  has in common. The trait \<open>Collateral\<close> is a record of its methods, one value
  of it per kind of piece (\<open>Amd\<close>, \<open>Intel\<close>, \<open>Gce\<close> and \<open>Nvidia\<close> hold them). The
  PEM parser and encoder are parameters.
\<close>

section \<open>Versions and dates\<close>

text \<open>\<open>GRACE\<close>, in seconds.\<close>

definition GRACE :: int where
  "GRACE = 7 * 24 * 3600"

record version_floors =
  amd_crl_milan :: u64
  amd_crl_genoa :: u64
  amd_crl_turin :: u64
  intel_tcb_info :: u64
  intel_qe_identity :: u64

definition default_floors :: version_floors where
  "default_floors = \<lparr>amd_crl_milan = 12, amd_crl_genoa = 11, amd_crl_turin = 8,
     intel_tcb_info = 20, intel_qe_identity = 20\<rparr>"

definition lowers :: "version_floors \<Rightarrow> version_floors \<Rightarrow> bool" where
  "lowers f g =
     (amd_crl_milan f < amd_crl_milan g
      \<or> amd_crl_genoa f < amd_crl_genoa g
      \<or> amd_crl_turin f < amd_crl_turin g
      \<or> intel_tcb_info f < intel_tcb_info g
      \<or> intel_qe_identity f < intel_qe_identity g)"

record dates =
  this_update :: "int option"
  next_update :: "int option"
  dt_version :: "u64 option"

definition no_dates :: dates where
  "no_dates = \<lparr>this_update = None, next_update = None, dt_version = None\<rparr>"

definition window :: "int \<Rightarrow> int \<Rightarrow> u64 option \<Rightarrow> dates" where
  "window t n v = \<lparr>this_update = Some t, next_update = Some n, dt_version = v\<rparr>"

definition is_none_or :: "('a \<Rightarrow> bool) \<Rightarrow> 'a option \<Rightarrow> bool" where
  "is_none_or p x = (case x of None \<Rightarrow> True | Some v \<Rightarrow> p v)"

definition current :: "dates \<Rightarrow> int \<Rightarrow> bool" where
  "current d now = (is_none_or (\<lambda>t. t \<le> now) (this_update d) \<and> is_none_or (\<lambda>t. now \<le> t) (next_update d))"

definition not_older_than :: "dates \<Rightarrow> dates \<Rightarrow> bool" where
  "not_older_than d e = ((dt_version d, this_update d) \<ge> (dt_version e, this_update e))"

text \<open>\<open>crl_number\<close>: \<open>number\<close> is the extension's value as big-endian bytes, if
  the CRL has one.\<close>

definition crl_number :: "bytes option \<Rightarrow> u64 option" where
  "crl_number number = (case number of
       None \<Rightarrow> None
     | Some bs \<Rightarrow>
         if length bs \<le> 8
         then Some (foldl (\<lambda>n b. (push_bit 8 n) OR ucast b) 0 bs)
         else None)"

section \<open>The trait\<close>

record ('id, 'piece) kind =
  named_by_evidence :: bool
  piece_name :: "'id \<Rightarrow> string"
  piece_url :: "'id \<Rightarrow> string"
  piece_verify :: "bytes \<Rightarrow> string option \<Rightarrow> 'id \<Rightarrow> 'piece res"
  piece_dates :: "'piece \<Rightarrow> dates"
  piece_floor :: "'id \<Rightarrow> version_floors \<Rightarrow> u64 option"

definition refused :: "string \<Rightarrow> attestation_error" where
  "refused why = CertChainError why"

datatype amd_key = Vcek | Vlek

datatype pck_ca = PlatformCa | ProcessorCa

fun pck_ca_name :: "pck_ca \<Rightarrow> string" where
  "pck_ca_name PlatformCa = ''platform''"
| "pck_ca_name ProcessorCa = ''processor''"

fun pck_ca_signer :: "pck_ca \<Rightarrow> string" where
  "pck_ca_signer PlatformCa = ''Intel SGX PCK Platform CA''"
| "pck_ca_signer ProcessorCa = ''Intel SGX PCK Processor CA''"

section \<open>Issuer chains without roots\<close>

text \<open>The PEM crate: \<open>parse_many\<close>, the contents of a block, \<open>encode_many\<close>.\<close>

record 'pem pem_lib =
  pem_parse_many :: "string \<Rightarrow> 'pem list option"
  pem_contents :: "'pem \<Rightarrow> bytes"
  pem_encode_many :: "'pem list \<Rightarrow> string"

definition without_roots :: "'pem pem_lib \<Rightarrow> bytes \<Rightarrow> string \<Rightarrow> string" where
  "without_roots pl root pem = (case pem_parse_many pl pem of
       Some certs \<Rightarrow> pem_encode_many pl (filter (\<lambda>c. pem_contents pl c \<noteq> root) certs)
     | None \<Rightarrow> pem)"

section \<open>Lemmas\<close>

lemma is_none_or_simps [simp]: "is_none_or p None" "is_none_or p (Some v) = p v"
  by (simp_all add: is_none_or_def)

lemma not_lowers_refl [simp]: "\<not> lowers f f"
  by (simp add: lowers_def)

lemma lowers_iff_not_all_ge:
  "\<not> lowers f g \<longleftrightarrow>
     amd_crl_milan g \<le> amd_crl_milan f \<and> amd_crl_genoa g \<le> amd_crl_genoa f
     \<and> amd_crl_turin g \<le> amd_crl_turin f \<and> intel_tcb_info g \<le> intel_tcb_info f
     \<and> intel_qe_identity g \<le> intel_qe_identity f"
  by (auto simp: lowers_def not_less)

lemma not_lowers_trans: "\<not> lowers f g \<Longrightarrow> \<not> lowers g h \<Longrightarrow> \<not> lowers f h"
  unfolding lowers_iff_not_all_ge by auto

text \<open>"Not older" compares issues, so it is a total preorder: what the store
  needs to keep the newest copy.\<close>

lemma not_older_refl [simp]: "not_older_than d d"
  by (simp add: not_older_than_def)

lemma not_older_total: "not_older_than d e \<or> not_older_than e d"
  by (auto simp: not_older_than_def)

lemma not_older_trans: "not_older_than d e \<Longrightarrow> not_older_than e f \<Longrightarrow> not_older_than d f"
  unfolding not_older_than_def by (rule order_trans)

lemma not_older_version:
  "not_older_than d e \<Longrightarrow> dt_version e = Some w \<Longrightarrow> \<exists>v. dt_version d = Some v \<and> w \<le> v"
  by (cases "dt_version d") (auto simp: not_older_than_def less_eq_option_def less_option_def
        split: option.splits)

text \<open>A CRL number of at most eight bytes is read without loss.\<close>

lemma shift_or_byte:
  assumes "unat n < 2 ^ 56"
  shows "unat ((push_bit 8 (n :: u64)) OR ucast (b :: u8)) = 256 * unat n + unat b"
proof -
  have "(push_bit 8 n) OR (ucast b :: u64) = push_bit 8 n + ucast b"
  proof (rule disjunctive_add [symmetric])
    fix i :: nat
    have "\<not> bit (ucast b :: u64) i" if "8 \<le> i"
      using that by (auto simp: bit_ucast_iff dest: bit_imp_le_length)
    then show "\<not> bit (push_bit 8 n) i \<or> \<not> bit (ucast b :: u64) i"
      by (cases "8 \<le> i") (auto simp: bit_push_bit_iff)
  qed
  moreover have "unat (push_bit 8 n) = 256 * unat n"
    using assms by (simp add: push_bit_eq_mult unat_word_ariths(2))
  moreover have "unat (ucast b :: u64) = unat b"
    by (simp add: unsigned_ucast_eq take_bit_nat_eq_self unat_lt [of b, THEN order.strict_trans])
  moreover have "256 * unat n + unat b < 18446744073709551616"
  proof -
    have "unat n < 72057594037927936" using assms by simp
    with unat_u8_less [of b] show ?thesis by linarith
  qed
  ultimately show ?thesis
    by (simp add: unat_word_ariths(1))
qed

lemma crl_number_be_nat:
  "length bs \<le> 8 \<Longrightarrow> unat (foldl (\<lambda>n b. (push_bit 8 (n :: u64)) OR ucast b) 0 bs) = be_nat bs"
proof (induction bs rule: rev_induct)
  case Nil
  then show ?case by (simp add: be_nat_def)
next
  case (snoc b bs)
  have "be_nat bs < 256 ^ length bs" by (rule be_nat_bound)
  also have "\<dots> \<le> 256 ^ 7" using snoc.prems by (intro power_increasing) simp_all
  finally have "be_nat bs < 2 ^ 56" by simp
  with snoc show ?case
    by (simp add: shift_or_byte) (simp add: be_nat_def)
qed

end
