(* ===== verification/Types.thy ===== *)
theory Types
  imports Collateral
begin

text \<open>
  \<open>crates/attestation/src/types.rs\<close>: the platforms, the evidence envelope with
  its attached collateral, the claims, and the parameters and results of the GPU
  verifier. Order of constructors is the source's, since \<open>NvidiaGpuArch\<close> is
  ordered by it.
\<close>

section \<open>Platforms and the envelope\<close>

datatype platform_type = Tdx | Snp | AzTdx | AzSnp | GcpSnp | GcpTdx | Dstack

fun platform_name :: "platform_type \<Rightarrow> string" where
  "platform_name Tdx = ''tdx''"
| "platform_name Snp = ''snp''"
| "platform_name AzTdx = ''az-tdx''"
| "platform_name AzSnp = ''az-snp''"
| "platform_name GcpSnp = ''gcp-snp''"
| "platform_name GcpTdx = ''gcp-tdx''"
| "platform_name Dstack = ''dstack''"

record attached_collateral =
  ac_url :: string
  ac_body :: bytes
  ac_issuer_chain :: "string option"

text \<open>\<open>HeldResponse\<close> (context.rs): URL, body and issuer chain.\<close>

type_synonym held_response = "string \<times> bytes \<times> string option"

section \<open>GPU types\<close>

datatype gpu_arch = Hopper | Blackwell | Ls10

datatype gpu_hash_algo = Sha256

datatype gpu_binding = Concat gpu_hash_algo

definition default_binding :: gpu_binding where
  "default_binding = Concat Sha256"

record gpu_device =
  gd_arch :: gpu_arch
  gd_uuid :: string
  gd_evidence_b64 :: string
  gd_cert_chain_b64 :: string

record gpu_bundle =
  gb_devices :: "gpu_device list"
  gb_binding :: gpu_binding

record gpu_device_policy =
  allow_debug :: bool
  require_secboot :: bool
  require_measres_success :: bool

definition default_device_policy :: gpu_device_policy where
  "default_device_policy =
     \<lparr>allow_debug = False, require_secboot = True, require_measres_success = True\<rparr>"

record gpu_params =
  gp_user_nonce :: "bytes option"
  gp_required :: bool
  gp_expected_archs :: "gpu_arch list option"
  gp_allowed_bindings :: "gpu_binding list option"
  gp_device_policy :: gpu_device_policy

definition default_gpu_params :: gpu_params where
  "default_gpu_params = \<lparr>gp_user_nonce = None, gp_required = False, gp_expected_archs = None,
     gp_allowed_bindings = None, gp_device_policy = default_device_policy\<rparr>"

record gpu_device_claims =
  gc_arch :: "gpu_arch option"
  gc_ueid :: "string option"
  gc_hwmodel :: "string option"
  gc_measres :: "string option"
  gc_secboot :: "bool option"
  gc_dbgstat :: "string option"
  gc_driver_version :: "string option"
  gc_vbios_version :: "string option"
  gc_arch_check :: "bool option"
  gc_nonce_match :: "bool option"
  gc_report_signature_verified :: "bool option"
  gc_driver_rim_fetched :: "bool option"
  gc_vbios_rim_fetched :: "bool option"
  gc_raw :: json

record gpu_claims =
  overall_ok :: bool
  eat_nonce :: "string option"
  gpu_devices :: "gpu_device_claims list"
  overall_raw :: json

record gpu_result =
  gr_claims :: gpu_claims
  archs_allowed :: "bool option"
  device_count_match :: bool
  device_policy_met :: bool

definition gpu_passed :: "gpu_result \<Rightarrow> bool" where
  "gpu_passed r = (overall_ok (gr_claims r) \<and> archs_allowed r \<noteq> Some False
     \<and> device_count_match r \<and> device_policy_met r)"

instantiation gpu_arch :: linorder
begin

fun arch_rank :: "gpu_arch \<Rightarrow> nat" where
  "arch_rank Hopper = 0"
| "arch_rank Blackwell = 1"
| "arch_rank Ls10 = 2"

definition less_eq_gpu_arch :: "gpu_arch \<Rightarrow> gpu_arch \<Rightarrow> bool" where
  "a \<le> b = (arch_rank a \<le> arch_rank b)"

definition less_gpu_arch :: "gpu_arch \<Rightarrow> gpu_arch \<Rightarrow> bool" where
  "a < b = (arch_rank a < arch_rank b)"

instance
proof
  fix a b c :: gpu_arch
  show "a < b \<longleftrightarrow> a \<le> b \<and> \<not> b \<le> a" by (auto simp: less_eq_gpu_arch_def less_gpu_arch_def)
  show "a \<le> a" by (simp add: less_eq_gpu_arch_def)
  show "a \<le> b \<Longrightarrow> b \<le> c \<Longrightarrow> a \<le> c" by (simp add: less_eq_gpu_arch_def)
  show "a \<le> b \<Longrightarrow> b \<le> a \<Longrightarrow> a = b" by (cases a; cases b) (simp_all add: less_eq_gpu_arch_def)
  show "a \<le> b \<or> b \<le> a" by (auto simp: less_eq_gpu_arch_def)
qed

end

section \<open>Evidence\<close>

record evidence =
  ev_platform :: platform_type
  ev_evidence :: json
  ev_nvidia_gpu :: "gpu_bundle option"
  ev_collateral :: "attached_collateral list"

text \<open>\<open>AttestationEvidence::held_collateral\<close>: the loop's \<open>chain\<close> is the accumulator.\<close>

fun held_from :: "string option \<Rightarrow> attached_collateral list \<Rightarrow> held_response list" where
  "held_from chain [] = []"
| "held_from chain (c # cs) =
     (let chain' = (if ac_issuer_chain c \<noteq> None then ac_issuer_chain c else chain)
      in (ac_url c, ac_body c, chain') # held_from chain' cs)"

definition held_collateral :: "evidence \<Rightarrow> held_response list" where
  "held_collateral e = held_from None (ev_collateral e)"

text \<open>\<open>AttestationEvidence::attach\<close>: roots removed, a stable sort by chain and URL,
  and a chain written only where it differs from the previous one.\<close>

fun attach_from :: "string option \<Rightarrow> held_response list \<Rightarrow> attached_collateral list" where
  "attach_from previous [] = []"
| "attach_from previous ((url, body, chain) # rs) =
     (if chain \<noteq> None \<and> chain \<noteq> previous
      then \<lparr>ac_url = url, ac_body = body, ac_issuer_chain = chain\<rparr> # attach_from chain rs
      else \<lparr>ac_url = url, ac_body = body, ac_issuer_chain = None\<rparr> # attach_from previous rs)"

definition response_order :: "held_response \<Rightarrow> string option \<times> string" where
  "response_order = (\<lambda>(url, body, chain). (chain, url))"

definition attach :: "'pem pem_lib \<Rightarrow> bytes \<Rightarrow> held_response list \<Rightarrow> evidence \<Rightarrow> evidence" where
  "attach pl root responses e =
     (let stripped = map (\<lambda>(url, body, chain). (url, body, map_option (without_roots pl root) chain))
                         responses
      in e\<lparr>ev_collateral := attach_from None (sort_key response_order stripped)\<rparr>)"

section \<open>Claims and TCB\<close>

datatype tcb_info =
    TcbSnp u8 u8 u8 u8 "u8 option"
  | TcbTdx bytes

record claims =
  launch_digest :: string
  cl_report_data :: bytes
  signed_data :: bytes
  init_data :: bytes
  cl_tcb :: tcb_info
  platform_data :: json

datatype tdx_tcb_status =
    UpToDate
  | SWHardeningNeeded
  | ConfigurationNeeded
  | ConfigurationAndSWHardeningNeeded
  | OutOfDate
  | OutOfDateConfigurationNeeded
  | Revoked
  | NoMatchingLevel

fun tcb_status_name :: "tdx_tcb_status \<Rightarrow> string" where
  "tcb_status_name UpToDate = ''UpToDate''"
| "tcb_status_name SWHardeningNeeded = ''SWHardeningNeeded''"
| "tcb_status_name ConfigurationNeeded = ''ConfigurationNeeded''"
| "tcb_status_name ConfigurationAndSWHardeningNeeded = ''ConfigurationAndSWHardeningNeeded''"
| "tcb_status_name OutOfDate = ''OutOfDate''"
| "tcb_status_name OutOfDateConfigurationNeeded = ''OutOfDateConfigurationNeeded''"
| "tcb_status_name Revoked = ''Revoked''"
| "tcb_status_name NoMatchingLevel = ''NoMatchingLevel''"

record dcap_status =
  ds_tcb_status :: tdx_tcb_status
  ds_fmspc :: string
  ds_advisory_ids :: "string list"
  ds_collateral_expired :: bool
  ds_qe_tcb_status :: "tdx_tcb_status option"

datatype processor_generation = Milan | Genoa | Turin

definition from_cpuid :: "u8 \<Rightarrow> u8 \<Rightarrow> processor_generation option" where
  "from_cpuid family_id model_id =
     (if family_id = 0x19 \<and> model_id \<le> 0x0F then Some Milan
      else if family_id = 0x19 \<and> (0x10 \<le> model_id \<and> model_id \<le> 0x1F \<or> 0xA0 \<le> model_id \<and> model_id \<le> 0xAF)
      then Some Genoa
      else if family_id = 0x1A \<and> model_id \<le> 0x11 then Some Turin
      else None)"

fun product_name :: "processor_generation \<Rightarrow> string" where
  "product_name Milan = ''Milan''"
| "product_name Genoa = ''Genoa''"
| "product_name Turin = ''Turin''"

record snp_tcb =
  tcb_bootloader :: u8
  tcb_tee :: u8
  tcb_snp :: u8
  tcb_microcode :: u8
  tcb_fmc :: "u8 option"

section \<open>Lemmas\<close>

text \<open>Reading back what \<open>attach_from\<close> wrote gives each response its own chain,
  as long as no response without a chain follows one with: the sort puts those
  first.\<close>

definition chains_last :: "string option \<Rightarrow> held_response list \<Rightarrow> bool" where
  "chains_last previous rs =
     ((previous \<noteq> None \<longrightarrow> (\<forall>r \<in> set rs. snd (snd r) \<noteq> None))
      \<and> sorted_wrt (\<lambda>r s. snd (snd r) \<noteq> None \<longrightarrow> snd (snd s) \<noteq> None) rs)"

lemma held_from_attach_from:
  "chains_last previous rs \<Longrightarrow> held_from previous (attach_from previous rs) = rs"
proof (induction previous rs rule: attach_from.induct)
  case (1 previous)
  then show ?case by simp
next
  case (2 previous url body chain rs)
  then show ?case by (auto simp: chains_last_def Let_def)
qed

lemma sort_key_chains_last: "chains_last None (sort_key response_order rs)"
proof -
  have "sorted_wrt (\<lambda>r s. response_order r \<le> response_order s) (sort_key response_order rs)"
    using sorted_sort_key [of response_order rs] by (simp add: sorted_wrt_map)
  then have "sorted_wrt (\<lambda>r s. snd (snd r) \<noteq> None \<longrightarrow> snd (snd s) \<noteq> None) (sort_key response_order rs)"
    by (rule sorted_wrt_mono_rel [rotated])
       (auto simp: response_order_def less_eq_prod_def less_option_def less_eq_option_def
             split: option.splits)
  then show ?thesis by (simp add: chains_last_def)
qed

lemma held_collateral_attach:
  "held_collateral (attach pl root responses e) =
     sort_key response_order
       (map (\<lambda>(url, body, chain). (url, body, map_option (without_roots pl root) chain)) responses)"
  by (simp add: held_collateral_def attach_def Let_def held_from_attach_from sort_key_chains_last)

lemma platform_name_inj [simp]: "platform_name p = platform_name q \<longleftrightarrow> p = q"
  by (cases p; cases q) simp_all

lemma tcb_status_name_inj [simp]: "tcb_status_name p = tcb_status_name q \<longleftrightarrow> p = q"
  by (cases p; cases q) simp_all

lemma from_cpuid_Turin_iff: "from_cpuid f m = Some Turin \<longleftrightarrow> f = 0x1A \<and> m \<le> 0x11"
  by (auto simp: from_cpuid_def)

end
