(* ===== verification/Utils.thy ===== *)
theory Utils
  imports Types
begin

text \<open>
  \<open>crates/attestation/src/utils.rs\<close>: padding, size limits, comparisons, and the
  decoding of params values. The base64 engines are parameters; text that must
  be UTF-8 is checked as \<open>std::str::from_utf8\<close> does.
\<close>

section \<open>Bytes\<close>

definition pad_report_data :: "bytes \<Rightarrow> nat \<Rightarrow> bytes res" where
  "pad_report_data data target_len =
     (if length data > target_len then Inl (ReportDataTooLarge target_len)
      else Inr (data @ replicate (target_len - length data) 0))"

text \<open>\<open>rposition(|&b| b != 0)\<close> finds the last byte that is not zero.\<close>

fun rposition :: "('a \<Rightarrow> bool) \<Rightarrow> 'a list \<Rightarrow> nat option" where
  "rposition p [] = None"
| "rposition p (x # xs) = (case rposition p xs of
       Some i \<Rightarrow> Some (Suc i)
     | None \<Rightarrow> if p x then Some 0 else None)"

definition strip_trailing_nulls :: "bytes \<Rightarrow> bytes" where
  "strip_trailing_nulls data =
     (let last_end = (case rposition (\<lambda>b. b \<noteq> 0) data of None \<Rightarrow> 0 | Some i \<Rightarrow> i + 1)
      in take last_end data)"

definition MAX_EVIDENCE_FIELD_SIZE :: nat where
  "MAX_EVIDENCE_FIELD_SIZE = 1048576"

definition check_field_size :: "string \<Rightarrow> nat \<Rightarrow> unit res" where
  "check_field_size name len =
     (if len > MAX_EVIDENCE_FIELD_SIZE then Inl (EvidenceDeserialize (name @ '' too large''))
      else Inr ())"

definition constant_time_eq :: "bytes \<Rightarrow> bytes \<Rightarrow> bool" where
  "constant_time_eq a b =
     (if length a \<noteq> length b then False
      else fold (\<lambda>(x, y) acc. acc AND (if x = y then (1 :: u8) else 0)) (zip a b) 1 = 1)"

definition match_any :: "bytes \<Rightarrow> bytes list option \<Rightarrow> bool option" where
  "match_any actual allowed =
     map_option (foldl (\<lambda>found v. found \<or> constant_time_eq actual v) False) allowed"

definition check_allowed_set :: "string \<Rightarrow> bytes list option \<Rightarrow> unit res" where
  "check_allowed_set name allowed =
     (if allowed = Some [] then Inl (InvalidParams (name @ '': the allowed set is empty'')) else Inr ())"

section \<open>Hashes and hex\<close>

text \<open>The hash functions and the hex codec the source calls. Every definition
  that uses one takes the record.\<close>

record hash_lib =
  sha256 :: "bytes \<Rightarrow> bytes"
  sha384 :: "bytes \<Rightarrow> bytes"

definition sha256_two :: "hash_lib \<Rightarrow> bytes \<Rightarrow> bytes \<Rightarrow> bytes" where
  "sha256_two h a b = sha256 h (a @ b)"

record hex_lib =
  hex_encode :: "bytes \<Rightarrow> string"
  hex_decode :: "string \<Rightarrow> bytes option"

section \<open>Text\<close>

text \<open>\<open>std::str::from_utf8\<close>: the well-formed byte sequences of the Unicode standard.\<close>

definition continuation :: "u8 \<Rightarrow> bool" where
  "continuation b = (0x80 \<le> b \<and> b \<le> 0xBF)"

fun utf8_valid :: "bytes \<Rightarrow> bool" where
  "utf8_valid [] = True"
| "utf8_valid (a # bs) =
     (if a \<le> 0x7F then utf8_valid bs
      else (case bs of
          [] \<Rightarrow> False
        | b # cs \<Rightarrow>
            if 0xC2 \<le> a \<and> a \<le> 0xDF then continuation b \<and> utf8_valid cs
            else (case cs of
                [] \<Rightarrow> False
              | c # ds \<Rightarrow>
                  if 0xE0 \<le> a \<and> a \<le> 0xEF
                  then continuation b \<and> continuation c \<and> (a = 0xE0 \<longrightarrow> 0xA0 \<le> b)
                       \<and> (a = 0xED \<longrightarrow> b \<le> 0x9F) \<and> utf8_valid ds
                  else (case ds of
                      [] \<Rightarrow> False
                    | d # es \<Rightarrow>
                        0xF0 \<le> a \<and> a \<le> 0xF4 \<and> continuation b \<and> continuation c \<and> continuation d
                        \<and> (a = 0xF0 \<longrightarrow> 0x90 \<le> b) \<and> (a = 0xF4 \<longrightarrow> b \<le> 0x8F) \<and> utf8_valid es))))"

definition from_utf8 :: "bytes \<Rightarrow> string option" where
  "from_utf8 bs = (if utf8_valid bs then Some (bytes_str bs) else None)"

text \<open>\<open>str::trim_start\<close>: the characters with the property White_Space, by their
  UTF-8 encodings.\<close>

fun skip_white_space :: "bytes \<Rightarrow> bytes" where
  "skip_white_space [] = []"
| "skip_white_space (a # bs) =
     (if 0x09 \<le> a \<and> a \<le> 0x0D \<or> a = 0x20 then skip_white_space bs
      else (case bs of
          b # cs \<Rightarrow>
            if a = 0xC2 \<and> (b = 0x85 \<or> b = 0xA0) then skip_white_space cs
            else (case cs of
                c # ds \<Rightarrow>
                  if a = 0xE1 \<and> b = 0x9A \<and> c = 0x80
                     \<or> a = 0xE2 \<and> b = 0x80 \<and> (0x80 \<le> c \<and> c \<le> 0x8A \<or> c = 0xA8 \<or> c = 0xA9 \<or> c = 0xAF)
                     \<or> a = 0xE2 \<and> b = 0x81 \<and> c = 0x9F
                     \<or> a = 0xE3 \<and> b = 0x80 \<and> c = 0x80
                  then skip_white_space ds
                  else a # bs
              | [] \<Rightarrow> a # bs)
        | [] \<Rightarrow> a # bs))"

definition starts_with :: "'a list \<Rightarrow> 'a list \<Rightarrow> bool" where
  "starts_with xs p = (take (length p) xs = p)"

definition is_pem :: "bytes \<Rightarrow> bool" where
  "is_pem data =
     (if utf8_valid data then starts_with (skip_white_space data) (str_bytes ''-----BEGIN'') else False)"

text \<open>\<open>decode_base64url\<close>: the engine takes text without padding, which the
  function removes first.\<close>

definition trim_end_matches :: "char \<Rightarrow> string \<Rightarrow> string" where
  "trim_end_matches c s = rev (dropWhile (\<lambda>x. x = c) (rev s))"

definition decode_base64url :: "(string \<Rightarrow> bytes option) \<Rightarrow> string \<Rightarrow> bytes option" where
  "decode_base64url url_safe_no_pad s = url_safe_no_pad (trim_end_matches (CHR ''='') s)"

definition decode_pem_to_der :: "(bytes \<Rightarrow> bytes option) \<Rightarrow> bytes \<Rightarrow> bytes res" where
  "decode_pem_to_der pem_parse data = ok_or (CertChainError ''PEM decode'') (pem_parse data)"

text \<open>\<open>from_str_radix\<close> and \<open>parse\<close> of the unsigned integers: an optional plus sign,
  at least one digit, and a value in range.\<close>

definition digit_value :: "char \<Rightarrow> nat option" where
  "digit_value c = (let n = of_char c :: nat in
     if 48 \<le> n \<and> n \<le> 57 then Some (n - 48)
     else if 97 \<le> n \<and> n \<le> 122 then Some (n - 87)
     else if 65 \<le> n \<and> n \<le> 90 then Some (n - 55)
     else None)"

fun digits_value :: "nat \<Rightarrow> nat \<Rightarrow> string \<Rightarrow> nat option" where
  "digits_value radix acc [] = Some acc"
| "digits_value radix acc (c # cs) = (case digit_value c of
       None \<Rightarrow> None
     | Some d \<Rightarrow> if d < radix then digits_value radix (radix * acc + d) cs else None)"

definition from_str_radix :: "nat \<Rightarrow> nat \<Rightarrow> string \<Rightarrow> nat option" where
  "from_str_radix bound radix s =
     (let ds = (case s of c # cs \<Rightarrow> if c = CHR ''+'' then cs else s | [] \<Rightarrow> s)
      in if ds = [] then None
         else case digits_value radix 0 ds of
             None \<Rightarrow> None
           | Some n \<Rightarrow> if n < bound then Some n else None)"

text \<open>Decimal formatting.\<close>

definition digit_char :: "nat \<Rightarrow> char" where
  "digit_char n = char_of (48 + n)"

fun dec_string :: "nat \<Rightarrow> string" where
  "dec_string n = (if n < 10 then [digit_char n] else dec_string (n div 10) @ [digit_char (n mod 10)])"

declare dec_string.simps [simp del]

text \<open>\<open>AttestationError\<close> as text (error.rs).\<close>

fun error_display :: "attestation_error \<Rightarrow> string" where
  "error_display NoPlatformDetected = ''no supported TEE platform detected''"
| "error_display (PlatformNotEnabled p) =
     ''platform '' @ p @ '' is not enabled (enable the corresponding cargo feature)''"
| "error_display (PlatformNotAllowed p) =
     ''evidence is for '' @ p @ '', which the policies do not allow''"
| "error_display (InvalidParams m) = ''invalid params: '' @ m"
| "error_display (ReportDataTooLarge n) =
     ''report_data exceeds maximum size ('' @ dec_string n @ '' bytes)''"
| "error_display (EvidenceDeserialize m) = ''evidence deserialization failed: '' @ m"
| "error_display (SignatureVerificationFailed m) =
     ''hardware signature verification failed: '' @ m"
| "error_display (CertChainError m) = ''certificate chain validation failed: '' @ m"
| "error_display (CollateralUnavailable c r d) = ''collateral unavailable: '' @ c @ '': '' @ d"
| "error_display (QuoteParseFailed m) = ''quote parsing failed: '' @ m"
| "error_display (UnsupportedReportVersion v lo hi) =
     ''report version '' @ dec_string v @ '' not supported (min: '' @ dec_string lo @ '', max: ''
       @ dec_string hi @ '')''"
| "error_display (EventlogIntegrityFailed m) = ''eventlog integrity check failed: '' @ m"
| "error_display (HardwareAccessFailed m) = ''TEE hardware access failed: '' @ m"
| "error_display (TcbMismatch m) = ''TCB version mismatch: '' @ m"
| "error_display (EvidenceTooLarge s m) =
     ''evidence too large: '' @ dec_string s @ '' bytes exceeds maximum '' @ dec_string m @ '' bytes''"
| "error_display NvidiaGpuRequired = ''GPU evidence required but envelope has no gpu bundle''"
| "error_display NvidiaGpuBindingMismatch =
     ''GPU nonce binding mismatch (NRAS-attested nonce != derived from gpu_user_nonce)''"
| "error_display (NvidiaGpuSubmoduleNonceMismatch n) =
     ''GPU submodule '' @ n @ '' eat_nonce does not bind to the derived SPDM nonce''"
| "error_display NvidiaGpuUserNonceMissing = ''GPU bundle requires NvidiaGpuParams::user_nonce''"
| "error_display NvidiaGpuReportDataRequired =
     ''the GPU user_nonce is set but the platform report_data is not''"
| "error_display NvidiaGpuBindingNotAllowed = ''GPU bundle binding algorithm not in allowed set''"
| "error_display (NvidiaGpuNonceTooShort n) =
     ''nvidia_gpu_user_nonce too short ('' @ dec_string n @ '' bytes, minimum 16)''"
| "error_display NvidiaGpuBundleEmpty = ''GPU bundle is empty''"
| "error_display (NvidiaGpuTooManyDevices n m) =
     ''GPU bundle has '' @ dec_string n @ '' devices, exceeding maximum of '' @ dec_string m"
| "error_display (NrasRequestFailed m) = ''NRAS request failed: '' @ m"
| "error_display (NrasResponseParse m) = ''NRAS response parse failed: '' @ m"
| "error_display (JwsVerification m) = ''JWS verification failed: '' @ m"
| "error_display (JwksFetch m) = ''JWKS fetch failed: '' @ m"
| "error_display (JwksKidNotFound k) = ''JWKS key with kid '' @ k @ '' not found''"
| "error_display (NvidiaGpuEvidenceCollection m) = ''GPU evidence collection failed: '' @ m"
| "error_display (Other m) = m"
| "error_display Panicked = ''panic''"

text \<open>\<open>str::trim\<close> on ASCII text, and \<open>strip_suffix\<close> and \<open>rsplit_once\<close>.\<close>

definition is_ascii_space :: "char \<Rightarrow> bool" where
  "is_ascii_space c = (let n = of_char c :: nat in 9 \<le> n \<and> n \<le> 13 \<or> n = 32)"

definition trim_ascii :: "string \<Rightarrow> string" where
  "trim_ascii s = rev (dropWhile is_ascii_space (rev (dropWhile is_ascii_space s)))"

definition strip_suffix :: "string \<Rightarrow> string \<Rightarrow> string option" where
  "strip_suffix p s = map_option rev (strip_prefix (rev p) (rev s))"

fun split_once_str :: "string \<Rightarrow> string \<Rightarrow> (string \<times> string) option" where
  "split_once_str d [] = (if d = [] then Some ([], []) else None)"
| "split_once_str d (c # cs) = (case strip_prefix d (c # cs) of
       Some r \<Rightarrow> Some ([], r)
     | None \<Rightarrow> map_option (\<lambda>(a, b). (c # a, b)) (split_once_str d cs))"

definition rsplit_once_str :: "string \<Rightarrow> string \<Rightarrow> (string \<times> string) option" where
  "rsplit_once_str d s =
     map_option (\<lambda>(a, b). (rev b, rev a)) (split_once_str (rev d) (rev s))"

section \<open>Decoding params values\<close>

text \<open>The module \<open>b64\<close>, with \<open>std\<close> the standard base64 decoder. A decoding error
  is only its message. \<open>pcrs\<close> reads the members of the object in order.\<close>

definition b64_decode :: "(string \<Rightarrow> bytes option) \<Rightarrow> string \<Rightarrow> string + bytes" where
  "b64_decode std s = ok_or ''invalid base64'' (std s)"

definition decode_fixed :: "(string \<Rightarrow> bytes option) \<Rightarrow> nat \<Rightarrow> string \<Rightarrow> string + bytes" where
  "decode_fixed std n s = and_then (b64_decode std s) (\<lambda>b.
     if length b = n then Inr b else Inl ''wrong length'')"

datatype one_or_many = One string | Many "string list"

definition digests_deserialize ::
  "(string \<Rightarrow> bytes option) \<Rightarrow> one_or_many option \<Rightarrow> string + bytes list option" where
  "digests_deserialize std value = (case value of
       None \<Rightarrow> Inr None
     | Some v \<Rightarrow>
         (let vals = (case v of One s \<Rightarrow> [s] | Many ss \<Rightarrow> ss)
          in if vals = [] then Inl ''the allowed set is empty''
             else and_then (traverse (decode_fixed std 48) vals) (\<lambda>ds. Inr (Some ds))))"

type_synonym pins = "(u8 \<times> bytes) list"

fun pcrs_visit_map ::
  "(string \<Rightarrow> bytes option) \<Rightarrow> pins \<Rightarrow> (u8 \<times> string) list \<Rightarrow> string + pins" where
  "pcrs_visit_map std m [] = Inr m"
| "pcrs_visit_map std m ((i, s) # es) =
     and_then (decode_fixed std 32 s) (\<lambda>v.
       if map_of m i \<noteq> None then Inl ''pinned more than once''
       else pcrs_visit_map std (bt_insert i v m) es)"

definition pcrs_deserialize ::
  "(string \<Rightarrow> bytes option) \<Rightarrow> (u8 \<times> string) list option \<Rightarrow> string + pins" where
  "pcrs_deserialize std value = (case value of
       None \<Rightarrow> Inr []
     | Some es \<Rightarrow> pcrs_visit_map std [] es)"

section \<open>Lemmas\<close>

lemma from_str_radix_bound: "from_str_radix bound radix s = Some n \<Longrightarrow> n < bound"
  by (auto simp: from_str_radix_def Let_def split: if_splits option.splits)

lemma strip_suffix_Some_iff: "strip_suffix p s = Some r \<longleftrightarrow> s = r @ p"
proof -
  have "strip_suffix p s = Some r \<longleftrightarrow> rev s = rev p @ rev r"
    by (auto simp: strip_suffix_def strip_prefix_Some_iff)
  also have "\<dots> \<longleftrightarrow> s = r @ p" by (metis rev_append rev_rev_ident)
  finally show ?thesis .
qed

lemma split_once_str_Some: "split_once_str d s = Some (a, b) \<Longrightarrow> s = a @ d @ b"
  by (induction d s arbitrary: a b rule: split_once_str.induct)
     (auto simp: strip_prefix_Some_iff split: if_splits option.splits)

lemma rsplit_once_str_Some:
  assumes "rsplit_once_str d s = Some (a, b)" shows "s = a @ d @ b"
proof -
  from assms have "rev s = rev b @ rev d @ rev a"
    by (auto simp: rsplit_once_str_def dest: split_once_str_Some)
  then show ?thesis by (metis append.assoc rev_append rev_rev_ident)
qed

lemma pad_report_data_Inr_iff [res_simps]:
  "pad_report_data d n = Inr p \<longleftrightarrow> length d \<le> n \<and> p = d @ replicate (n - length d) 0"
  by (auto simp: pad_report_data_def)

lemma length_pad_report_data: "pad_report_data d n = Inr p \<Longrightarrow> length p = n"
  by (auto simp: pad_report_data_def split: if_splits)

lemma pad_report_data_not_panic [panic_free]: "pad_report_data d n \<noteq> Inl Panicked"
  by (simp add: pad_report_data_def)

lemma check_field_size_Inr_iff [res_simps]:
  "check_field_size n l = Inr u \<longleftrightarrow> l \<le> MAX_EVIDENCE_FIELD_SIZE"
  by (auto simp: check_field_size_def)

lemma check_field_size_not_panic [panic_free]: "check_field_size n l \<noteq> Inl Panicked"
  by (simp add: check_field_size_def)

lemma fold_ct_zero:
  "fold (\<lambda>(x, y) acc. acc AND (if x = y then (1 :: u8) else 0)) ps 0 = 0"
  by (induction ps) (auto simp: case_prod_unfold)

lemma constant_time_eq_iff [simp]: "constant_time_eq a b \<longleftrightarrow> a = b"
proof (cases "length a = length b")
  case True
  then have "fold (\<lambda>(x, y) acc. acc AND (if x = y then (1 :: u8) else 0)) (zip a b) 1 = 1 \<longleftrightarrow> a = b"
    by (induction a b rule: list_induct2) (auto simp: fold_ct_zero)
  with True show ?thesis by (simp add: constant_time_eq_def)
qed (auto simp: constant_time_eq_def)

lemma foldl_disj: "foldl (\<lambda>found v. found \<or> p v) b xs \<longleftrightarrow> b \<or> (\<exists>x \<in> set xs. p x)"
  by (induction xs arbitrary: b) auto

lemma match_any_simps [simp]:
  "match_any a None = None"
  "match_any a (Some vs) = Some (a \<in> set vs)"
  by (auto simp: match_any_def foldl_disj)

lemma check_allowed_set_Inr_iff [res_simps]: "check_allowed_set n a = Inr u \<longleftrightarrow> a \<noteq> Some []"
  by (auto simp: check_allowed_set_def)

lemma check_allowed_set_Inl: "check_allowed_set n a = Inl e \<Longrightarrow> is_invalid_params e"
  by (auto simp: check_allowed_set_def is_invalid_params_def split: if_splits)

lemma rposition_None_iff: "rposition p xs = None \<longleftrightarrow> (\<forall>x \<in> set xs. \<not> p x)"
  by (induction xs) (auto split: option.splits)

lemma rposition_Some:
  "rposition p xs = Some i \<Longrightarrow> i < length xs \<and> p (xs ! i) \<and> (\<forall>x \<in> set (drop (Suc i) xs). \<not> p x)"
  by (induction xs arbitrary: i) (auto simp: rposition_None_iff split: option.splits if_splits)

text \<open>What is stripped is exactly a run of zeros, and what is left does not end
  with one.\<close>

lemma strip_trailing_nulls_split:
  "\<exists>n. data = strip_trailing_nulls data @ replicate n 0"
proof (cases "rposition (\<lambda>b. b \<noteq> 0) data")
  case None
  then have "\<forall>x \<in> set data. x = 0" by (simp add: rposition_None_iff)
  then have "data = replicate (length data) 0" by (simp add: replicate_eqI)
  with None show ?thesis
    by (intro exI [of _ "length data"]) (simp add: strip_trailing_nulls_def)
next
  case (Some i)
  then have "\<forall>x \<in> set (drop (Suc i) data). x = 0" using rposition_Some [OF Some] by auto
  then have "drop (Suc i) data = replicate (length data - Suc i) 0"
    by (intro replicate_eqI) simp_all
  with Some show ?thesis
    by (intro exI [of _ "length data - Suc i"])
       (simp add: strip_trailing_nulls_def, metis append_take_drop_id)
qed

lemma strip_trailing_nulls_last:
  "strip_trailing_nulls data \<noteq> [] \<Longrightarrow> last (strip_trailing_nulls data) \<noteq> 0"
proof (cases "rposition (\<lambda>b. b \<noteq> 0) data")
  case None
  assume "strip_trailing_nulls data \<noteq> []"
  with None show ?thesis by (simp add: strip_trailing_nulls_def)
next
  case (Some i)
  with rposition_Some [OF Some] show ?thesis
    by (simp add: strip_trailing_nulls_def take_Suc_conv_app_nth)
qed

lemma dropWhile_replicate: "dropWhile (\<lambda>b. b = x) (replicate n x @ ys) = dropWhile (\<lambda>b. b = x) ys"
  by (induction n) simp_all

lemma strip_trailing_nulls_alt: "strip_trailing_nulls xs = rev (dropWhile (\<lambda>b. b = 0) (rev xs))"
proof -
  obtain n where n: "xs = strip_trailing_nulls xs @ replicate n 0"
    using strip_trailing_nulls_split by blast
  let ?s = "strip_trailing_nulls xs"
  have "dropWhile (\<lambda>b. b = 0) (rev xs) = dropWhile (\<lambda>b. b = 0) (rev ?s)"
    by (subst n) (simp add: dropWhile_replicate)
  also have "\<dots> = rev ?s"
    using strip_trailing_nulls_last [of xs] by (cases "rev ?s") (auto simp: last_rev hd_rev)
  finally show ?thesis by simp
qed

lemma strip_trailing_nulls_pad:
  "xs = [] \<or> last xs \<noteq> 0 \<Longrightarrow> strip_trailing_nulls (xs @ replicate n 0) = xs"
  by (cases "rev xs") (auto simp: strip_trailing_nulls_alt dropWhile_replicate)

lemma pcrs_visit_map_sorted: "pcrs_visit_map std m es = Inr m' \<Longrightarrow> bt_sorted m \<Longrightarrow> bt_sorted m'"
  by (induction std m es arbitrary: m' rule: pcrs_visit_map.induct)
     (auto simp: res_simps split: if_splits)

lemma pcrs_visit_map_distinct:
  "pcrs_visit_map std m es = Inr m' \<Longrightarrow>
     distinct (map fst es) \<and> (\<forall>i \<in> set (map fst es). map_of m i = None)"
proof (induction std m es arbitrary: m' rule: pcrs_visit_map.induct)
  case (1 std m)
  then show ?case by simp
next
  case (2 std m i s es)
  then obtain v where "map_of m i = None" and rest: "pcrs_visit_map std (bt_insert i v m) es = Inr m'"
    by (auto simp: res_simps split: if_splits)
  with 2(1) [OF _ rest] show ?case by (auto split: if_splits)
qed

lemma decode_fixed_Inr_iff [res_simps]:
  "decode_fixed std n s = Inr v \<longleftrightarrow> std s = Some v \<and> length v = n"
  by (auto simp: decode_fixed_def b64_decode_def res_simps split: if_splits)

lemma pcrs_visit_map_lookup:
  "pcrs_visit_map std m es = Inr m' \<Longrightarrow>
     map_of m' = map_of m ++ (\<lambda>i. Option.bind (map_of es i) std) \<and>
     (\<forall>(i, s) \<in> set es. \<exists>v. std s = Some v \<and> length v = 32)"
proof (induction std m es arbitrary: m' rule: pcrs_visit_map.induct)
  case (1 std m)
  then show ?case by (simp add: map_add_def)
next
  case (2 std m i s es)
  from 2(2) obtain v where v: "std s = Some v" "length v = 32" "map_of m i = None"
    and rest: "pcrs_visit_map std (bt_insert i v m) es = Inr m'"
    by (auto simp: res_simps split: if_splits)
  have "i \<notin> set (map fst es)" using pcrs_visit_map_distinct [OF rest] by (auto split: if_splits)
  then have "map_of es i = None" by (simp add: map_of_eq_None_iff)
  have IH: "map_of m' = (map_of m)(i \<mapsto> v) ++ (\<lambda>i. Option.bind (map_of es i) std)"
    "\<forall>(i, s) \<in> set es. \<exists>v. std s = Some v \<and> length v = 32"
    using 2(1) [OF _ rest, unfolded map_of_bt_insert] v(3) by blast+
  have "map_of m' j = (map_of m ++ (\<lambda>k. Option.bind (map_of ((i, s) # es) k) std)) j" for j
    by (cases "j = i") (simp_all add: IH(1) map_add_def \<open>map_of es i = None\<close> v(1)
        split: option.splits)
  with IH(2) v show ?case by auto
qed

end
