(* ===== verification/Vendor.thy ===== *)
theory Vendor
  imports Utils
begin

text \<open>
  \<open>crates/attestation/src/collateral/vendor.rs\<close>: fetching a vendor URL from the
  vendor or from a collateral cache, with one retry. The network is a parameter:
  a state \<open>'w\<close> of the outside world and a record of what the code asks of it
  (send a request, sleep, read the clock). Time passes only there. A request
  that times out is one whose \<open>send\<close> fails.
\<close>

section \<open>The outside world\<close>

text \<open>Instants and durations in nanoseconds.\<close>

definition SEC :: nat where
  "SEC = 1000000000"

definition MAX_BODY :: nat where "MAX_BODY = 5 * 1024 * 1024"
definition MAX_RETRY_AFTER :: nat where "MAX_RETRY_AFTER = 5"
definition RETRY_DELAY_MS :: nat where "RETRY_DELAY_MS = 200"
definition VSOCK_PORT :: nat where "VSOCK_PORT = 8455"
definition HOST_CID :: nat where "HOST_CID = 2"
definition REPROBE :: nat where "REPROBE = 60 * SEC"

datatype transport = HttpsOnly | LoopbackHttp | VsockTo nat nat

record request =
  rq_url :: string
  rq_transport :: transport
  rq_bearer :: "string option"

text \<open>\<open>NrasRequest\<close> (provider.rs), and how it is posted.\<close>

record nras_entry =
  ne_evidence :: string
  ne_certificate :: string

record nras_request =
  nq_nonce :: string
  nq_evidence_list :: "nras_entry list"
  nq_arch :: gpu_arch
  nq_claims_version :: string

record post =
  ps_url :: string
  ps_transport :: transport
  ps_body :: nras_request
  ps_allow_hold_cert :: bool
  ps_bearer :: "string option"

record response =
  rs_status :: nat
  rs_header :: "string \<Rightarrow> bytes option"
  rs_content_length :: "nat option"
  rs_chunks :: "(string + bytes) list"

record 'w net =
  clock :: "'w \<Rightarrow> nat"
  send :: "request \<Rightarrow> 'w \<Rightarrow> (string + response) \<times> 'w"
  send_post :: "post \<Rightarrow> 'w \<Rightarrow> (string + response) \<times> 'w"
  sleep :: "nat \<Rightarrow> 'w \<Rightarrow> 'w"
  subsec_nanos :: "'w \<Rightarrow> nat"
  in_cvm :: "'w \<Rightarrow> bool"

section \<open>Which URLs\<close>

text \<open>What \<open>reqwest::Url::parse\<close> returns, as far as the source looks.\<close>

datatype url_host = Domain string | Ipv4 u32 | Ipv6 "128 word"

record parsed_url =
  pu_scheme :: string
  pu_host :: "url_host option"
  pu_has_query :: bool
  pu_has_fragment :: bool
  pu_username :: string
  pu_password :: "string option"

type_synonym url_parser = "string \<Rightarrow> parsed_url option"

definition allowed :: "url_parser \<Rightarrow> string \<Rightarrow> bool" where
  "allowed parse url = (case parse url of
       None \<Rightarrow> False
     | Some u \<Rightarrow> (case pu_host u of
           None \<Rightarrow> False
         | Some h \<Rightarrow>
             if pu_scheme u = ''https''
             then (case h of Domain d \<Rightarrow> d \<noteq> [] | _ \<Rightarrow> True)
             else if pu_scheme u = ''http''
             then (case h of Ipv4 ip \<Rightarrow> drop_bit 24 ip = 127
                           | Ipv6 ip \<Rightarrow> ip = 1
                           | Domain d \<Rightarrow> d = ''localhost'')
             else False))"

datatype upstream =
    Vendors
  | CacheAt string
  | Vsock nat nat
  | Auto
  | TestVendor string

definition upstream_parse :: "url_parser \<Rightarrow> string \<Rightarrow> upstream option" where
  "upstream_parse parse url = (case strip_prefix ''vsock://'' url of
       Some address \<Rightarrow> (case split_once (CHR '':'') address of
           None \<Rightarrow> None
         | Some (cid, port) \<Rightarrow> (case (from_str_radix (2 ^ 32) 10 cid, from_str_radix (2 ^ 32) 10 port) of
               (Some c, Some p) \<Rightarrow> Some (Vsock c p)
             | _ \<Rightarrow> None))
     | None \<Rightarrow>
         let bare = (case parse url of
               None \<Rightarrow> False
             | Some u \<Rightarrow> \<not> pu_has_query u \<and> \<not> pu_has_fragment u \<and> pu_username u = []
                   \<and> pu_password u = None) in
         if bare \<and> allowed parse url then Some (CacheAt (trim_end_matches (CHR ''/'') url)) else None)"

fun is_vendor :: "upstream \<Rightarrow> bool" where
  "is_vendor Vendors = True"
| "is_vendor (TestVendor _) = True"
| "is_vendor _ = False"

fun upstream_name :: "upstream \<Rightarrow> string" where
  "upstream_name Vendors = ''the vendors''"
| "upstream_name (CacheAt base) = ''the cache at '' @ base"
| "upstream_name (Vsock cid port) = ''the cache at vsock://'' @ dec_string cid @ '':'' @ dec_string port"
| "upstream_name Auto = ''a host cache if found, else the vendors''"
| "upstream_name (TestVendor base) = ''the test vendor at '' @ base"

section \<open>Answers\<close>

text \<open>\<open>HeaderValue::to_str\<close>: visible ASCII.\<close>

definition header_str :: "bytes \<Rightarrow> string option" where
  "header_str v = (if list_all (\<lambda>b. 32 \<le> b \<and> b < 127 \<or> b = 9) v then Some (bytes_str v) else None)"

definition retry_after_header :: "response \<Rightarrow> nat option" where
  "retry_after_header r =
     Option.bind (Option.bind (rs_header r ''retry-after'') header_str)
       (\<lambda>v. from_str_radix (2 ^ 64) 10 (trim_ascii v))"

definition check_status :: "response \<Rightarrow> unavailable + unit" where
  "check_status r =
     (let status = rs_status r; retry_after = retry_after_header r in
      if 200 \<le> status \<and> status \<le> 299 then Inr ()
      else Inl \<lparr>ua_status = Some status, ua_retry_after = retry_after,
                ua_detail = (if status = 404 \<or> status = 410
                             then ''not found (HTTP '' @ dec_string status @ '')''
                             else case retry_after of
                                Some s \<Rightarrow> ''HTTP '' @ dec_string status @ '', retry after '' @ dec_string s @ ''s''
                              | None \<Rightarrow> ''HTTP '' @ dec_string status)\<rparr>)"

fun read_chunks :: "(string + bytes) list \<Rightarrow> bytes \<Rightarrow> unavailable + bytes" where
  "read_chunks [] body = Inr body"
| "read_chunks (Inl e # cs) body = Inl (ua_detail_only (''body: '' @ e))"
| "read_chunks (Inr chunk # cs) body =
     (if length body + length chunk > MAX_BODY then Inl (ua_detail_only ''body exceeds the limit'')
      else read_chunks cs (body @ chunk))"

definition read_body :: "response \<Rightarrow> unavailable + bytes" where
  "read_body r = (case rs_content_length r of
       Some l \<Rightarrow> if l > MAX_BODY then Inl (ua_detail_only ''body exceeds the limit'')
                 else read_chunks (rs_chunks r) []
     | None \<Rightarrow> read_chunks (rs_chunks r) [])"

text \<open>\<open>percent_decode\<close>. What it collects is made text with the invalid bytes
  replaced, which is the parameter \<open>lossy\<close>.\<close>

definition hex_pair :: "bytes \<Rightarrow> nat \<Rightarrow> nat option" where
  "hex_pair bs i =
     Option.bind (Option.bind (get_range bs i (i + 2)) from_utf8) (from_str_radix 256 16)"

function percent_bytes :: "bytes \<Rightarrow> nat \<Rightarrow> bytes" where
  "percent_bytes bs i =
     (if i < length bs
      then (case hex_pair bs (i + 1) of
          Some b \<Rightarrow> if bs ! i = 37 then of_nat b # percent_bytes bs (i + 3)
                    else bs ! i # percent_bytes bs (i + 1)
        | None \<Rightarrow> bs ! i # percent_bytes bs (i + 1))
      else [])"
  by pat_completeness auto

termination
  by (relation "measure (\<lambda>(bs, i). length bs - i)") auto

definition percent_decode :: "(bytes \<Rightarrow> string) \<Rightarrow> string \<Rightarrow> string" where
  "percent_decode lossy s = lossy (percent_bytes (str_bytes s) 0)"

definition ISSUER_CHAIN_HEADERS :: "string list" where
  "ISSUER_CHAIN_HEADERS =
     [''TCB-Info-Issuer-Chain'', ''SGX-Enclave-Identity-Issuer-Chain'', ''SGX-PCK-CRL-Issuer-Chain'']"

fun find_header :: "response \<Rightarrow> string list \<Rightarrow> bytes option" where
  "find_header r [] = None"
| "find_header r (h # hs) = (case rs_header r h of Some v \<Rightarrow> Some v | None \<Rightarrow> find_header r hs)"

definition issuer_chain :: "(bytes \<Rightarrow> string) \<Rightarrow> response \<Rightarrow> string option" where
  "issuer_chain lossy r =
     map_option (percent_decode lossy) (Option.bind (find_header r ISSUER_CHAIN_HEADERS) header_str)"

declare percent_bytes.simps [simp del]

section \<open>Requests\<close>

text \<open>The vendor client: its configuration, and what \<open>Upstream::Auto\<close> found so far.\<close>

record vendor =
  vn_upstream :: upstream
  vn_upstream_key :: "string option"
  vn_found :: "upstream option"
  vn_last_probe :: "nat option"

definition new_vendor :: vendor where
  "new_vendor = \<lparr>vn_upstream = Auto, vn_upstream_key = None, vn_found = None, vn_last_probe = None\<rparr>"

text \<open>The parameters of a fetch.\<close>

record 'w fetch_env =
  fe_net :: "'w net"
  fe_url_parse :: url_parser
  fe_lossy :: "bytes \<Rightarrow> string"

definition client_for :: "url_parser \<Rightarrow> string \<Rightarrow> transport" where
  "client_for parse url =
     (if starts_with url ''http://'' \<and> allowed parse url then LoopbackHttp else HttpsOnly)"

definition vsock_get ::
  "'w fetch_env \<Rightarrow> nat \<Rightarrow> nat \<Rightarrow> string \<Rightarrow> 'w \<Rightarrow> (unavailable + bytes \<times> string option) \<times> 'w" where
  "vsock_get env cid port path w =
     (let (r, w') = send (fe_net env)
            \<lparr>rq_url = ''/'' @ path, rq_transport = VsockTo cid port, rq_bearer = None\<rparr> w in
      (and_then (map_err (\<lambda>e. ua_detail_only (''host cache unreachable ('' @ e @ '')'')) r) (\<lambda>resp.
       and_then (check_status resp) (\<lambda>_.
       let chain = issuer_chain (fe_lossy env) resp in
       and_then (read_chunks (rs_chunks resp) []) (\<lambda>body. Inr (body, chain)))), w'))"

definition get_once ::
  "'w fetch_env \<Rightarrow> vendor \<Rightarrow> upstream \<Rightarrow> string \<Rightarrow> 'w
     \<Rightarrow> (unavailable + bytes \<times> string option) \<times> 'w" where
  "get_once env v up url w =
     (let path = strip_prefix ''https://'' url;
          http = (\<lambda>u.
            let bearer = (case up of CacheAt _ \<Rightarrow> vn_upstream_key v | _ \<Rightarrow> None);
                (r, w') = send (fe_net env)
                  \<lparr>rq_url = u, rq_transport = client_for (fe_url_parse env) u, rq_bearer = bearer\<rparr> w in
            (and_then (map_err (\<lambda>e. ua_detail_only (''unreachable ('' @ e @ '')'')) r) (\<lambda>resp.
             and_then (check_status resp) (\<lambda>_.
             and_then (read_body resp) (\<lambda>body.
             Inr (body, issuer_chain (fe_lossy env) resp)))), w'))
      in case (up, path) of
           (CacheAt base, Some p) \<Rightarrow> http (base @ ''/'' @ p)
         | (TestVendor base, Some p) \<Rightarrow> http (base @ ''/'' @ p)
         | (Vsock cid port, Some p) \<Rightarrow> vsock_get env cid port p w
         | _ \<Rightarrow> http url)"

text \<open>\<open>fetch_from\<close>: whether the first failure is tried again, and after how long.\<close>

definition retry_delay :: "'w fetch_env \<Rightarrow> 'w \<Rightarrow> nat" where
  "retry_delay env w = (RETRY_DELAY_MS + subsec_nanos (fe_net env) w mod RETRY_DELAY_MS) * 1000000"

definition retry_wait :: "'w fetch_env \<Rightarrow> unavailable \<Rightarrow> 'w \<Rightarrow> nat option" where
  "retry_wait env err w =
     (if not_found err then None
      else case (ua_status err, ua_retry_after err) of
          (_, Some s) \<Rightarrow> if s > MAX_RETRY_AFTER then None else Some (s * SEC)
        | (None, None) \<Rightarrow> Some (retry_delay env w)
        | (Some s, None) \<Rightarrow>
            if s = 408 \<or> s = 429 \<or> s \<ge> 500 then Some (retry_delay env w) else None)"

definition fetch_from ::
  "'w fetch_env \<Rightarrow> vendor \<Rightarrow> upstream \<Rightarrow> string \<Rightarrow> 'w
     \<Rightarrow> (unavailable + bytes \<times> string option) \<times> 'w" where
  "fetch_from env v up url w =
     (let (first, w1) = get_once env v up url w in
      case first of
        Inr raw \<Rightarrow> (Inr raw, w1)
      | Inl err \<Rightarrow> (case retry_wait env err w1 of
            None \<Rightarrow> (Inl err, w1)
          | Some wait \<Rightarrow> get_once env v up url (sleep (fe_net env) wait w1)))"

text \<open>\<open>Discovery::upstream\<close> with the probe of \<open>Vendor::upstream\<close>: GET /health from the
  host over vsock.\<close>

definition discover :: "'w fetch_env \<Rightarrow> vendor \<Rightarrow> 'w \<Rightarrow> upstream \<times> vendor \<times> 'w" where
  "discover env v w = (case vn_found v of
       Some found \<Rightarrow> (found, v, w)
     | None \<Rightarrow>
         let now = clock (fe_net env) w in
         if (case vn_last_probe v of None \<Rightarrow> False | Some t \<Rightarrow> now - t < REPROBE)
         then (Vendors, v, w)
         else
           let v = v\<lparr>vn_last_probe := Some now\<rparr>;
               (probe, w') = vsock_get env HOST_CID VSOCK_PORT ''health'' w in
           if is_ok probe
           then (Vsock HOST_CID VSOCK_PORT, v\<lparr>vn_found := Some (Vsock HOST_CID VSOCK_PORT)\<rparr>, w')
           else (Vendors, v, w'))"

definition current_upstream :: "'w fetch_env \<Rightarrow> vendor \<Rightarrow> 'w \<Rightarrow> upstream \<times> vendor \<times> 'w" where
  "current_upstream env v w =
     (if vn_upstream v \<noteq> Auto then (vn_upstream v, v, w)
      else if \<not> in_cvm (fe_net env) w then (Vendors, v, w)
      else discover env v w)"

definition vendor_fetch ::
  "'w fetch_env \<Rightarrow> vendor \<Rightarrow> string \<Rightarrow> 'w
     \<Rightarrow> (bool \<times> (unavailable + bytes \<times> string option)) \<times> vendor \<times> 'w" where
  "vendor_fetch env v url w =
     (let (up, v, w) = current_upstream env v w;
          (fetched, w) = fetch_from env v up url w;
          fetched = map_err (\<lambda>e. e\<lparr>ua_detail := ua_detail e @ '' (from '' @ upstream_name up @ '')''\<rparr>) fetched
      in ((is_vendor up, fetched), v, w))"

section \<open>NRAS\<close>

record nras =
  gpu_url :: string
  switch_url :: string
  allow_hold_cert :: bool
  service_key :: "string option"

definition NRAS_GPU_URL :: string where
  "NRAS_GPU_URL = ''https://nras.attestation.nvidia.com/v3/attest/gpu''"

definition NRAS_SWITCH_URL :: string where
  "NRAS_SWITCH_URL = ''https://nras.attestation.nvidia.com/v3/attest/switch''"

definition nras_from_vars :: "url_parser \<Rightarrow> (string \<Rightarrow> string option) \<Rightarrow> nras" where
  "nras_from_vars parse env =
     (let url = (\<lambda>name default. case env name of
            Some u \<Rightarrow> if allowed parse u then u else default
          | None \<Rightarrow> default)
      in \<lparr>gpu_url = url ''NV_NRAS_GPU_URL'' NRAS_GPU_URL,
          switch_url = url ''NV_NRAS_SWITCH_URL'' NRAS_SWITCH_URL,
          allow_hold_cert = (env ''NV_ALLOW_HOLD_CERT'' = Some ''true''),
          service_key = env ''NVIDIA_ATTESTATION_SERVICE_KEY''\<rparr>)"

definition nras_attest ::
  "'w fetch_env \<Rightarrow> nras \<Rightarrow> nras_request \<Rightarrow> 'w \<Rightarrow> bytes res \<times> 'w" where
  "nras_attest env nr req w =
     (let url = (case nq_arch req of Ls10 \<Rightarrow> switch_url nr | _ \<Rightarrow> gpu_url nr);
          (r, w') = send_post (fe_net env)
             \<lparr>ps_url = url, ps_transport = client_for (fe_url_parse env) url, ps_body = req,
              ps_allow_hold_cert = allow_hold_cert nr, ps_bearer = service_key nr\<rparr> w;
          unav = (\<lambda>e. into_error e ''NRAS attestation'')
      in (and_then (map_err (\<lambda>e. unav (ua_detail_only (''unreachable ('' @ e @ '')''))) r) (\<lambda>resp.
          let status = rs_status resp in
          case check_status resp of
            Inl e \<Rightarrow>
              if 500 \<le> status \<and> status \<le> 599 \<or> status = 429 then Inl (unav e)
              else Inl (NrasRequestFailed (''status '' @ dec_string status))
          | Inr _ \<Rightarrow> map_err unav (read_body resp)), w'))"

section \<open>Lemmas\<close>

lemma read_chunks_bound:
  "read_chunks cs b = Inr body \<Longrightarrow> length b \<le> MAX_BODY \<Longrightarrow> length body \<le> MAX_BODY"
  by (induction cs b rule: read_chunks.induct) (auto split: if_splits)

lemma read_body_bound: "read_body r = Inr body \<Longrightarrow> length body \<le> MAX_BODY"
  by (auto simp: read_body_def split: option.splits if_splits intro: read_chunks_bound [of _ "[]"])

lemma get_once_bound:
  "fst (get_once env v up url w) = Inr (body, chain) \<Longrightarrow> length body \<le> MAX_BODY"
  by (auto simp: get_once_def vsock_get_def Let_def and_then_Inr_iff read_body_bound
      split: upstream.splits option.splits prod.splits intro: read_chunks_bound [of _ "[]"])

lemma fetch_from_bound:
  "fst (fetch_from env v up url w) = Inr (body, chain) \<Longrightarrow> length body \<le> MAX_BODY"
  by (auto simp: fetch_from_def Let_def case_prod_beta split: sum.splits option.splits
      dest: get_once_bound)

lemma vendor_fetch_bound:
  "snd (fst (vendor_fetch env v url w)) = Inr (body, chain) \<Longrightarrow> length body \<le> MAX_BODY"
  by (auto simp: vendor_fetch_def Let_def case_prod_beta map_err_Inr_iff dest: fetch_from_bound)

text \<open>A missing piece, a long Retry-After and a client error are not tried again.\<close>

lemma retry_wait_None_iff:
  "retry_wait env e w = None \<longleftrightarrow>
     not_found e \<or>
     (case ua_retry_after e of
        Some s \<Rightarrow> s > MAX_RETRY_AFTER
      | None \<Rightarrow> (case ua_status e of None \<Rightarrow> False | Some s \<Rightarrow> s \<noteq> 408 \<and> s \<noteq> 429 \<and> s < 500))"
  by (auto simp: retry_wait_def not_le split: option.splits)

lemma retry_wait_bound:
  assumes "retry_wait env e w = Some d"
  shows "d \<le> MAX_RETRY_AFTER * SEC"
proof -
  have "subsec_nanos (fe_net env) w mod RETRY_DELAY_MS < 200"
    by (simp add: RETRY_DELAY_MS_def)
  then have "retry_delay env w \<le> 400 * 1000000"
    by (simp add: retry_delay_def RETRY_DELAY_MS_def)
  with assms show ?thesis
    by (auto simp: retry_wait_def MAX_RETRY_AFTER_def SEC_def split: option.splits if_splits)
qed

text \<open>A cache's answer is never the vendor's own, and with an upstream set the
  vendors are not asked.\<close>

lemma current_upstream_fixed:
  "vn_upstream v \<noteq> Auto \<Longrightarrow> current_upstream env v w = (vn_upstream v, v, w)"
  by (simp add: current_upstream_def)

lemma direct_upstream:
  "fst (fst (vendor_fetch env v url w)) \<longleftrightarrow> is_vendor (fst (current_upstream env v w))"
  by (auto simp: vendor_fetch_def Let_def split: prod.splits)

text \<open>Once the host cache was found it is used for good.\<close>

definition found_ok :: "vendor \<Rightarrow> bool" where
  "found_ok v = (\<forall>u. vn_found v = Some u \<longrightarrow> u = Vsock HOST_CID VSOCK_PORT)"

lemma vendor_fetch_found:
  assumes "vn_upstream v = Auto" "vn_found v = Some u" "in_cvm (fe_net env) w"
  shows "current_upstream env v w = (u, v, w)"
  using assms by (simp add: current_upstream_def discover_def)

lemma current_upstream_found_ok:
  "found_ok v \<Longrightarrow> found_ok (fst (snd (current_upstream env v w)))"
  by (auto simp: current_upstream_def discover_def found_ok_def Let_def
      split: option.splits prod.splits)

lemma current_upstream_keeps_found:
  "vn_found v = Some u \<Longrightarrow> vn_found (fst (snd (current_upstream env v w))) = Some u"
  by (auto simp: current_upstream_def discover_def Let_def split: option.splits prod.splits)

lemma current_upstream_config:
  "vn_upstream (fst (snd (current_upstream env v w))) = vn_upstream v"
  "vn_upstream_key (fst (snd (current_upstream env v w))) = vn_upstream_key v"
  by (auto simp: current_upstream_def discover_def Let_def split: option.splits prod.splits)

text \<open>Text without a percent sign is its own decoding.\<close>

lemma percent_bytes_plain:
  "37 \<notin> set (drop i bs) \<Longrightarrow> percent_bytes bs i = drop i bs"
proof (induction bs i rule: percent_bytes.induct)
  case (1 bs i)
  show ?case
  proof (cases "i < length bs")
    case True
    then have d: "drop i bs = bs ! i # drop (i + 1) bs" by (simp add: Cons_nth_drop_Suc)
    with 1(4) have "bs ! i \<noteq> 37" "37 \<notin> set (drop (i + 1) bs)" by auto
    then show ?thesis
      using 1 True d by (subst percent_bytes.simps) (auto split: option.splits)
  qed (subst percent_bytes.simps, simp)
qed

lemma percent_bytes_escape:
  assumes "i < length bs" "bs ! i = 37" "hex_pair bs (i + 1) = Some b"
  shows "percent_bytes bs i = of_nat b # percent_bytes bs (i + 3)"
  using assms by (subst percent_bytes.simps) simp

end
