(* ===== verification/Disk.thy ===== *)
theory Disk
  imports Utils
begin

text \<open>
  \<open>crates/attestation/src/collateral/disk.rs\<close>: the disk cache, one file per
  vendor URL. The directory is a map from file names to contents; a write
  replaces a file whole (it is renamed into place) or does nothing. The JSON
  form of a stored response and its base64 are parameters.
\<close>

definition MAX_FILE :: nat where
  "MAX_FILE = 8 * 2 ^ 20"

record stored =
  sd_url :: string
  sd_body :: string
  sd_issuer_chain :: "string option"

record disk_lib =
  dl_hash :: hash_lib
  dl_hex :: hex_lib
  dl_b64_encode :: "bytes \<Rightarrow> string"
  dl_b64_decode :: "string \<Rightarrow> bytes option"
  dl_to_vec :: "stored \<Rightarrow> bytes"
  dl_from_slice :: "bytes \<Rightarrow> stored option"

type_synonym files = "string \<rightharpoonup> bytes"

definition disk_path :: "disk_lib \<Rightarrow> string \<Rightarrow> string" where
  "disk_path dl url =
     take 32 (hex_encode (dl_hex dl) (sha256 (dl_hash dl) (str_bytes url))) @ ''.json''"

definition disk_read :: "disk_lib \<Rightarrow> files \<Rightarrow> string \<Rightarrow> (bytes \<times> string option) option" where
  "disk_read dl fs url = (case fs (disk_path dl url) of
       None \<Rightarrow> None
     | Some contents \<Rightarrow>
         let bytes = take (MAX_FILE + 1) contents in
         (case dl_from_slice dl bytes of
            None \<Rightarrow> None
          | Some s \<Rightarrow>
              if length bytes \<le> MAX_FILE \<and> sd_url s = url
              then map_option (\<lambda>b. (b, sd_issuer_chain s)) (dl_b64_decode dl (sd_body s))
              else None))"

definition disk_write ::
  "disk_lib \<Rightarrow> bool \<Rightarrow> files \<Rightarrow> string \<Rightarrow> bytes \<Rightarrow> string option \<Rightarrow> files" where
  "disk_write dl ok fs url body chain =
     (if ok
      then fs(disk_path dl url \<mapsto>
              dl_to_vec dl \<lparr>sd_url = url, sd_body = dl_b64_encode dl body, sd_issuer_chain = chain\<rparr>)
      else fs)"

section \<open>Lemmas\<close>

text \<open>What serde and base64 promise: decoding an encoding gives it back.\<close>

definition codec_ok :: "disk_lib \<Rightarrow> bool" where
  "codec_ok dl =
     ((\<forall>s. dl_from_slice dl (dl_to_vec dl s) = Some s)
      \<and> (\<forall>b. dl_b64_decode dl (dl_b64_encode dl b) = Some b))"

lemma disk_read_write:
  assumes "codec_ok dl"
    and "length (dl_to_vec dl \<lparr>sd_url = url, sd_body = dl_b64_encode dl body, sd_issuer_chain = chain\<rparr>)
           \<le> MAX_FILE"
  shows "disk_read dl (disk_write dl True fs url body chain) url = Some (body, chain)"
  using assms by (simp add: disk_read_def disk_write_def codec_ok_def)

text \<open>A file under the name of another URL (the name is half a hash) is never
  taken for this URL's response.\<close>

lemma disk_read_write_other:
  assumes "codec_ok dl" and "url \<noteq> url'"
    and "disk_read dl (disk_write dl ok fs url body chain) url' = Some r"
  shows "disk_read dl fs url' = Some r"
proof (cases "ok \<and> disk_path dl url' = disk_path dl url")
  case True
  let ?v = "dl_to_vec dl \<lparr>sd_url = url, sd_body = dl_b64_encode dl body, sd_issuer_chain = chain\<rparr>"
  show ?thesis
  proof (cases "length ?v \<le> MAX_FILE")
    case short: True
    with True assms show ?thesis
      by (auto simp: disk_read_def disk_write_def codec_ok_def)
  next
    case False
    then have "length (take (MAX_FILE + 1) ?v) > MAX_FILE" by simp
    with True assms show ?thesis
      by (auto simp: disk_read_def disk_write_def Let_def split: option.splits if_splits)
  qed
next
  case False
  with assms show ?thesis
    by (auto simp: disk_read_def disk_write_def split: if_splits)
qed

end
