(* ===== verification/Store.thy ===== *)
theory Store
  imports Vendor Disk "HOL-Library.Signed_Division"
begin

text \<open>
  \<open>crates/attestation/src/collateral/store.rs\<close>: the only place collateral is
  fetched, verified and kept. The state of the native store is the memory cache,
  the failures it remembers, the disk cache and what it knows of each vendor
  host; it is passed and returned by every operation, together with the outside
  world. The memory caches are maps (the cache library may evict an entry at any
  time: a step of \<open>StoreInv\<close>), and concurrent operations on one piece run one
  after the other, as the source makes them. Random refresh times are read from
  the world.
\<close>

section \<open>Pieces and verdicts on them\<close>

datatype source = Held | Attached | Memory | OnDisk | FromVendor | FromCache

record collateral_used =
  cu_name :: string
  cu_from :: source
  cu_version :: "u64 option"
  cu_next_update :: "int option"
  cu_current :: bool
  cu_stale :: bool
  cu_floor :: "u64 option"

definition I64_MAX :: int where "I64_MAX = 2 ^ 63 - 1"

definition sat_i64 :: "int \<Rightarrow> int" where
  "sat_i64 x = max (- (2 ^ 63)) (min I64_MAX x)"

definition used_new :: "string \<Rightarrow> source \<Rightarrow> dates \<Rightarrow> u64 option \<Rightarrow> int \<Rightarrow> collateral_used" where
  "used_new name from d floor now =
     (let cur = current d now;
          in_grace = d\<lparr>next_update := map_option (\<lambda>n. sat_i64 (n + GRACE)) (next_update d)\<rparr>
      in \<lparr>cu_name = name, cu_from = from, cu_version = dt_version d, cu_next_update = next_update d,
          cu_current = cur, cu_stale = (\<not> cur \<and> current in_grace now), cu_floor = floor\<rparr>)"

definition acceptable :: "collateral_used \<Rightarrow> bool" where
  "acceptable u =
     ((cu_current u \<or> cu_stale u)
      \<and> is_none_or (\<lambda>f. case cu_version u of None \<Rightarrow> False | Some v \<Rightarrow> v \<ge> f) (cu_floor u))"

definition refresh_at :: "dates \<Rightarrow> nat \<Rightarrow> int" where
  "refresh_at d random = (case next_update d of
       None \<Rightarrow> I64_MAX
     | Some n \<Rightarrow>
         let latest = n - 24 * 3600;
             earliest = (case this_update d of None \<Rightarrow> latest | Some t \<Rightarrow> t + (n - t) sdiv 4 * 3)
         in if earliest \<ge> latest then latest
            else earliest + int (random mod nat (latest - earliest)))"

record entry =
  en_body :: bytes
  en_chain :: "string option"
  en_dates :: dates
  en_origin :: source
  en_refresh_at :: int
  en_checked_at :: nat

datatype failure =
    FUnavailable unavailable
  | FRefused string
  | FNotPublished string

definition failure_refused :: "attestation_error \<Rightarrow> failure" where
  "failure_refused e = FRefused (case e of CertChainError why \<Rightarrow> why | e \<Rightarrow> error_display e)"

definition failure_into_error :: "failure \<Rightarrow> string \<Rightarrow> attestation_error" where
  "failure_into_error f name = (case f of
       FUnavailable u \<Rightarrow> into_error u name
     | FRefused why \<Rightarrow> CertChainError (name @ '' refused: '' @ why)
     | FNotPublished why \<Rightarrow> CertChainError (name @ '' refused: '' @ why))"

definition check ::
  "('id, 'p) kind \<Rightarrow> 'id \<Rightarrow> nat \<Rightarrow> nat \<Rightarrow> bytes \<Rightarrow> string option \<Rightarrow> source \<Rightarrow> failure + entry" where
  "check k pid now random body chain origin =
     and_then (map_err failure_refused (piece_verify k body chain pid)) (\<lambda>p.
     let d = piece_dates k p in
     Inr \<lparr>en_body = body, en_chain = chain, en_dates = d, en_origin = origin,
          en_refresh_at = refresh_at d random, en_checked_at = now\<rparr>)"

section \<open>The native store\<close>

definition OUTAGE :: nat where "OUTAGE = 10 * SEC"
definition MAX_AGE :: nat where "MAX_AGE = 3600 * SEC"
definition HOST_PAUSE :: nat where "HOST_PAUSE = 10 * SEC"
definition COLD_PER_SECOND :: nat where "COLD_PER_SECOND = 10"

record host_state =
  hs_paused_until :: "nat option"
  hs_second :: "nat option"
  hs_cold :: nat

definition new_host :: host_state where
  "new_host = \<lparr>hs_paused_until = None, hs_second = None, hs_cold = 0\<rparr>"

record native =
  mem :: "string \<rightharpoonup> entry"
  failed :: "string \<rightharpoonup> nat \<times> failure"
  disk :: "files option"
  nv_vendor :: "vendor option"
  recheck :: nat
  hosts :: "string \<rightharpoonup> host_state"

definition new_native :: "vendor option \<Rightarrow> native" where
  "new_native v = \<lparr>mem = Map.empty, failed = Map.empty, disk = None, nv_vendor = v,
     recheck = 300 * SEC, hosts = Map.empty\<rparr>"

record 'w store_env =
  se_fetch :: "'w fetch_env"
  se_disk :: disk_lib
  se_random :: "'w \<Rightarrow> nat"
  se_disk_ok :: "'w \<Rightarrow> bool"

definition se_clock :: "'w store_env \<Rightarrow> 'w \<Rightarrow> nat" where
  "se_clock env w = clock (fe_net (se_fetch env)) w"

text \<open>\<open>host\<close>: up to the first slash or question mark.\<close>

definition url_host_of :: "string \<Rightarrow> string" where
  "url_host_of url =
     (let rest = (case strip_prefix ''https://'' url of Some r \<Rightarrow> r | None \<Rightarrow> url)
      in takeWhile (\<lambda>c. c \<noteq> CHR ''/'' \<and> c \<noteq> CHR ''?'') rest)"

definition wait_failure :: "nat \<Rightarrow> string \<Rightarrow> failure" where
  "wait_failure seconds detail =
     FUnavailable \<lparr>ua_status = None, ua_retry_after = Some (max seconds 1), ua_detail = detail\<rparr>"

definition due :: "native \<Rightarrow> entry \<Rightarrow> int \<Rightarrow> bool \<Rightarrow> nat \<Rightarrow> bool" where
  "due n e now force clk =
     (let age = clk - en_checked_at e in
      age \<ge> recheck n
      \<and> (force \<or> (case next_update (en_dates e) of
            Some _ \<Rightarrow> now \<ge> en_refresh_at e
          | None \<Rightarrow> age \<ge> MAX_AGE)))"

definition host_entry :: "native \<Rightarrow> string \<Rightarrow> host_state" where
  "host_entry n h = (case hosts n h of Some s \<Rightarrow> s | None \<Rightarrow> new_host)"

definition admit_cold :: "nat \<Rightarrow> string \<Rightarrow> native \<Rightarrow> (failure + unit) \<times> native" where
  "admit_cold clk url n =
     (let name = url_host_of url;
          h = host_entry n name;
          h = (if (case hs_second h of None \<Rightarrow> True | Some s \<Rightarrow> clk - s \<ge> SEC)
               then h\<lparr>hs_second := Some clk, hs_cold := 0\<rparr> else h)
      in if hs_cold h \<ge> COLD_PER_SECOND
         then (Inl (wait_failure 1 ''too many new pieces from this vendor at once''),
               n\<lparr>hosts := (hosts n)(name \<mapsto> h)\<rparr>)
         else (Inr (), n\<lparr>hosts := (hosts n)(name \<mapsto> h\<lparr>hs_cold := hs_cold h + 1\<rparr>)\<rparr>))"

text \<open>How long a remembered failure stands.\<close>

definition stands :: "native \<Rightarrow> failure \<Rightarrow> nat" where
  "stands n f = (case f of
       FUnavailable e \<Rightarrow>
         min (recheck n) (case ua_retry_after e of None \<Rightarrow> OUTAGE | Some s \<Rightarrow> max s 1 * SEC)
     | _ \<Rightarrow> recheck n)"

text \<open>What \<open>fetch\<close> answers before it asks the upstream: the offline store, a
  failure that stands, a pause the host asked for, too many cold fetches.\<close>

definition before_fetch :: "nat \<Rightarrow> string \<Rightarrow> bool \<Rightarrow> native \<Rightarrow> (failure + vendor) \<times> native" where
  "before_fetch clk url cold n = (case nv_vendor n of
       None \<Rightarrow> (Inl (FUnavailable offline), n)
     | Some v \<Rightarrow>
         (case (case failed n url of
                  Some (at, f) \<Rightarrow> if clk - at < stands n f then Some f else None
                | None \<Rightarrow> None) of
            Some f \<Rightarrow> (Inl f, n)
          | None \<Rightarrow>
              (case Option.bind (hosts n (url_host_of url)) hs_paused_until of
                 Some until \<Rightarrow>
                   if clk \<le> until
                   then (Inl (wait_failure ((until - clk) div SEC) ''the vendor asked to wait''), n)
                   else if cold then (let (r, n') = admit_cold clk url n in (map_sum id (\<lambda>_. v) r, n'))
                   else (Inr v, n)
               | None \<Rightarrow>
                   if cold then (let (r, n') = admit_cold clk url n in (map_sum id (\<lambda>_. v) r, n'))
                   else (Inr v, n))))"

text \<open>A 429 or 503 from the vendor itself pauses its host, and the error says for
  how long.\<close>

definition pause_host ::
  "nat \<Rightarrow> string \<Rightarrow> bool \<Rightarrow> unavailable \<Rightarrow> native \<Rightarrow> unavailable \<times> native" where
  "pause_host clk url direct e n =
     (if direct \<and> (ua_status e = Some 429 \<or> ua_status e = Some 503)
      then
        let pause = min (recheck n) (case ua_retry_after e of None \<Rightarrow> HOST_PAUSE | Some s \<Rightarrow> max s 1 * SEC);
            name = url_host_of url;
            h = (host_entry n name)\<lparr>hs_paused_until := Some (clk + pause)\<rparr>
        in (e\<lparr>ua_retry_after := Some (case ua_retry_after e of Some s \<Rightarrow> s | None \<Rightarrow> max (pause div SEC) 1)\<rparr>,
            n\<lparr>hosts := (hosts n)(name \<mapsto> h)\<rparr>)
      else (e, n))"

text \<open>Which failure a failed fetch is, and whether it is remembered.\<close>

definition fetch_failure ::
  "bool \<Rightarrow> bool \<Rightarrow> unavailable \<Rightarrow> failure \<times> bool" where
  "fetch_failure named direct e =
     (if not_found e \<or> named \<and> ua_status e = Some 400
      then
        if \<not> named \<or> \<not> direct then (FUnavailable e, False)
        else (FNotPublished (''the vendor does not publish it ('' @ ua_detail e @ '')''), True)
      else (FUnavailable e,
            is_none_or (\<lambda>s. s \<ge> 500 \<or> s = 408 \<or> s = 429) (ua_status e)))"

definition fetch ::
  "'w store_env \<Rightarrow> ('id, 'p) kind \<Rightarrow> 'id \<Rightarrow> string \<Rightarrow> bool \<Rightarrow> native \<Rightarrow> 'w
     \<Rightarrow> (failure + entry) \<times> native \<times> 'w" where
  "fetch env k pid url cold n w =
     (let (before, n) = before_fetch (se_clock env w) url cold n in
      case before of
        Inl f \<Rightarrow> (Inl f, n, w)
      | Inr v \<Rightarrow>
          let ((direct, fetched), v, w) = vendor_fetch (se_fetch env) v url w;
              n = n\<lparr>nv_vendor := Some v\<rparr>;
              clk = se_clock env w
          in case fetched of
               Inl e \<Rightarrow>
                 let (e, n) = pause_host clk url direct e n;
                     (f, remember) = fetch_failure (named_by_evidence k) direct e;
                     n = (if remember then n\<lparr>failed := (failed n)(url \<mapsto> (clk, f))\<rparr> else n)
                 in (Inl f, n, w)
             | Inr (body, chain) \<Rightarrow>
                 (check k pid clk (se_random env w) body chain (if direct then FromVendor else FromCache), n, w))"

text \<open>The disk copy, when it verifies; \<open>Native::store\<close>.\<close>

definition disk_copy ::
  "'w store_env \<Rightarrow> ('id, 'p) kind \<Rightarrow> 'id \<Rightarrow> string \<Rightarrow> native \<Rightarrow> 'w \<Rightarrow> entry option" where
  "disk_copy env k pid url n w =
     Option.bind (Option.bind (disk n) (\<lambda>fs. disk_read (se_disk env) fs url)) (\<lambda>(body, chain).
       to_option (check k pid (se_clock env w) (se_random env w) body chain OnDisk))"

definition store_copy :: "'w store_env \<Rightarrow> string \<Rightarrow> entry \<Rightarrow> native \<Rightarrow> 'w \<Rightarrow> native" where
  "store_copy env url e n w =
     n\<lparr>disk := map_option
          (\<lambda>fs. disk_write (se_disk env) (se_disk_ok env w) fs url (en_body e) (en_chain e)) (disk n)\<rparr>"

definition load ::
  "'w store_env \<Rightarrow> ('id, 'p) kind \<Rightarrow> 'id \<Rightarrow> string \<Rightarrow> int \<Rightarrow> native \<Rightarrow> 'w
     \<Rightarrow> (failure + entry) \<times> native \<times> 'w" where
  "load env k pid url now n w =
     (let on_disk = disk_copy env k pid url n w in
      if (case on_disk of None \<Rightarrow> False | Some e \<Rightarrow> current (en_dates e) now)
      then (Inr (the on_disk), n, w)
      else
        let (fetched, n, w) = fetch env k pid url (on_disk = None) n w in
        case (fetched, on_disk) of
          (Inr new, Some old) \<Rightarrow>
            if \<not> not_older_than (en_dates new) (en_dates old) then (Inr old, n, w)
            else (Inr new, store_copy env url new n w, w)
        | (Inr new, None) \<Rightarrow> (Inr new, store_copy env url new n w, w)
        | (Inl _, Some old) \<Rightarrow> (Inr old, n, w)
        | (Inl e, None) \<Rightarrow> (Inl e, n, w))"

text \<open>\<open>Native::refresh\<close>: the copy now held, whether it was replaced, why a fetch
  failed.\<close>

definition refresh ::
  "'w store_env \<Rightarrow> ('id, 'p) kind \<Rightarrow> 'id \<Rightarrow> string \<Rightarrow> bool \<Rightarrow> int \<Rightarrow> native \<Rightarrow> 'w
     \<Rightarrow> (entry option \<times> bool \<times> failure option) \<times> native \<times> 'w" where
  "refresh env k pid url force now n w =
     (let cur = mem n url in
      if (case cur of None \<Rightarrow> False | Some c \<Rightarrow> \<not> due n c now force (se_clock env w))
      then ((cur, False, None), n, w)
      else
        let (fetched, n, w) = fetch env k pid url False n w;
            failure = (case fetched of Inl f \<Rightarrow> Some f | Inr _ \<Rightarrow> None);
            newer = (case fetched of
                Inr new \<Rightarrow> if is_none_or (\<lambda>c. not_older_than (en_dates new) (en_dates c)) cur
                           then Some new else None
              | Inl _ \<Rightarrow> None)
        in case newer of
             Some new \<Rightarrow>
               ((Some new, True, None),
                (store_copy env url new n w)\<lparr>mem := (mem n)(url \<mapsto> new)\<rparr>, w)
           | None \<Rightarrow>
               (case cur of
                  Some c \<Rightarrow>
                    let c = c\<lparr>en_checked_at := se_clock env w\<rparr>
                    in ((Some c, False, failure), n\<lparr>mem := (mem n)(url \<mapsto> c)\<rparr>, w)
                | None \<Rightarrow> ((None, False, failure), n, w)))"

definition native_entry ::
  "'w store_env \<Rightarrow> ('id, 'p) kind \<Rightarrow> 'id \<Rightarrow> string \<Rightarrow> int \<Rightarrow> native \<Rightarrow> 'w
     \<Rightarrow> (failure + entry \<times> source) \<times> native \<times> 'w" where
  "native_entry env k pid url now n w = (case mem n url of
       Some e \<Rightarrow>
         if due n e now False (se_clock env w)
         then
           let ((held, replaced, _), n, w) = refresh env k pid url False now n w;
               held = (case held of Some h \<Rightarrow> h | None \<Rightarrow> e)
           in (Inr (held, if replaced then en_origin held else Memory), n, w)
         else (Inr (e, Memory), n, w)
     | None \<Rightarrow>
         (case load env k pid url now n w of
            (Inr e, n, w) \<Rightarrow> (Inr (e, en_origin e), n\<lparr>mem := (mem n)(url \<mapsto> e)\<rparr>, w)
          | (Inl f, n, w) \<Rightarrow> (Inl f, n, w)))"

definition cached ::
  "'w store_env \<Rightarrow> ('id, 'p) kind \<Rightarrow> 'id \<Rightarrow> string \<Rightarrow> native \<Rightarrow> 'w \<Rightarrow> entry option" where
  "cached env k pid url n w = (case mem n url of
       Some e \<Rightarrow> Some (e\<lparr>en_origin := Memory\<rparr>)
     | None \<Rightarrow> disk_copy env k pid url n w)"

section \<open>The store of one verdict\<close>

type_synonym responses = "string \<rightharpoonup> bytes \<times> string option"

record store =
  st_held :: responses
  st_attached :: responses
  st_missing :: "string list"
  st_floors :: version_floors
  st_used :: "held_response list option"
  st_native :: "native option"

definition held_only :: store where
  "held_only = \<lparr>st_held = Map.empty, st_attached = Map.empty, st_missing = [],
     st_floors = default_floors, st_used = None, st_native = None\<rparr>"

definition new_store :: "bool \<Rightarrow> store" where
  "new_store is_offline =
     held_only\<lparr>st_native := Some (new_native (if is_offline then None else Some new_vendor))\<rparr>"

definition responses_of :: "held_response list \<Rightarrow> responses" where
  "responses_of rs = foldl (\<lambda>m (url, body, chain). m(url \<mapsto> (body, chain))) Map.empty rs"

definition view :: "store \<Rightarrow> held_response list \<Rightarrow> version_floors \<Rightarrow> bool \<Rightarrow> store" where
  "view s attached floors recording =
     s\<lparr>st_attached := responses_of attached, st_floors := floors,
       st_used := (if recording then Some [] else None)\<rparr>"

text \<open>What a view shares with the store it was made from.\<close>

definition close_view :: "store \<Rightarrow> store \<Rightarrow> store" where
  "close_view s v = s\<lparr>st_missing := st_missing v, st_native := st_native v\<rparr>"

definition record_used :: "string \<Rightarrow> bytes \<Rightarrow> string option \<Rightarrow> store \<Rightarrow> store" where
  "record_used url body chain s = (case st_used s of
       None \<Rightarrow> s
     | Some rs \<Rightarrow>
         if \<exists>r \<in> set rs. fst r = url then s
         else s\<lparr>st_used := Some (rs @ [(url, body, chain)])\<rparr>)"

definition used :: "store \<Rightarrow> held_response list" where
  "used s = (case st_used s of None \<Rightarrow> [] | Some rs \<Rightarrow> rs)"

definition held_body :: "store \<Rightarrow> string \<Rightarrow> bytes option" where
  "held_body s url = map_option fst (case st_held s url of Some r \<Rightarrow> Some r | None \<Rightarrow> st_attached s url)"

definition hold :: "string \<Rightarrow> bytes \<Rightarrow> string option \<Rightarrow> store \<Rightarrow> store" where
  "hold url body chain s = s\<lparr>st_held := (st_held s)(url \<mapsto> (body, chain))\<rparr>"

definition holds :: "store \<Rightarrow> string \<Rightarrow> bool" where
  "holds s url = (case st_native s of None \<Rightarrow> False | Some n \<Rightarrow> mem n url \<noteq> None)"

type_synonym copy = "bytes \<times> string option \<times> source"

definition on_hand ::
  "'w store_env \<Rightarrow> ('id, 'p) kind \<Rightarrow> 'id \<Rightarrow> string \<Rightarrow> store \<Rightarrow> 'w \<Rightarrow> copy list" where
  "on_hand env k pid url s w =
     (case st_held s url of Some (b, c) \<Rightarrow> [(b, c, Held)] | None \<Rightarrow> []) @
     (case st_attached s url of
        Some (b, c) \<Rightarrow>
          (case Option.bind (st_native s) (\<lambda>n. cached env k pid url n w) of
             Some e \<Rightarrow> [(en_body e, en_chain e, en_origin e)]
           | None \<Rightarrow> []) @ [(b, c, Attached)]
      | None \<Rightarrow> [])"

definition store_load ::
  "'w store_env \<Rightarrow> ('id, 'p) kind \<Rightarrow> 'id \<Rightarrow> string \<Rightarrow> int \<Rightarrow> store \<Rightarrow> 'w
     \<Rightarrow> (failure + entry \<times> source) \<times> store \<times> 'w" where
  "store_load env k pid url now s w = (case st_native s of
       Some n \<Rightarrow>
         let (r, n, w) = native_entry env k pid url now n w in (r, s\<lparr>st_native := Some n\<rparr>, w)
     | None \<Rightarrow>
         (Inl (FUnavailable offline),
          (if url \<in> set (st_missing s) then s else s\<lparr>st_missing := st_missing s @ [url]\<rparr>), w))"

type_synonym 'p best = "'p \<times> bytes \<times> string option \<times> source"

text \<open>The loop over the copies on hand: each is verified, and the first of the
  newest is kept.\<close>

definition newer_than_best :: "('id, 'p) kind \<Rightarrow> 'p best option \<Rightarrow> dates \<Rightarrow> bool" where
  "newer_than_best k best d =
     is_none_or (\<lambda>(b, _). \<not> not_older_than (piece_dates k b) d) best"

fun best_of ::
  "('id, 'p) kind \<Rightarrow> 'id \<Rightarrow> 'p best option \<Rightarrow> copy list \<Rightarrow> failure + 'p best option" where
  "best_of k pid best [] = Inr best"
| "best_of k pid best ((body, chain, from) # copies) =
     and_then (map_err failure_refused (piece_verify k body chain pid)) (\<lambda>piece.
     best_of k pid
       (if newer_than_best k best (piece_dates k piece) then Some (piece, body, chain, from) else best)
       copies)"

definition passes :: "('id, 'p) kind \<Rightarrow> u64 option \<Rightarrow> int \<Rightarrow> 'p \<Rightarrow> bool" where
  "passes k floor now p = acceptable (used_new [] Held (piece_dates k p) floor now)"

text \<open>Taking the loaded copy when it is newer. The caller has a copy or has
  returned the error, so the source's \<open>expect\<close> never fires.\<close>

definition take_loaded ::
  "('id, 'p) kind \<Rightarrow> 'id \<Rightarrow> 'p best option \<Rightarrow> failure + entry \<times> source \<Rightarrow> failure + 'p best" where
  "take_loaded k pid best loaded = (case loaded of
       Inr (e, from) \<Rightarrow>
         if newer_than_best k best (en_dates e)
         then and_then (map_err failure_refused (piece_verify k (en_body e) (en_chain e) pid)) (\<lambda>piece.
              Inr (piece, en_body e, en_chain e, from))
         else Inr (the best)
     | Inl f \<Rightarrow> (case best of None \<Rightarrow> Inl f | Some b \<Rightarrow> Inr b))"

definition lookup ::
  "'w store_env \<Rightarrow> ('id, 'p) kind \<Rightarrow> 'id \<Rightarrow> int \<Rightarrow> store \<Rightarrow> 'w
     \<Rightarrow> (failure + 'p \<times> collateral_used) \<times> store \<times> 'w" where
  "lookup env k pid now s w =
     (let url = piece_url k pid; floor = piece_floor k pid (st_floors s) in
      case best_of k pid None (on_hand env k pid url s w) of
        Inl f \<Rightarrow> (Inl f, s, w)
      | Inr best \<Rightarrow>
          let (chosen, s, w) =
                (if is_none_or (\<lambda>(p, _). \<not> passes k floor now p) best
                 then let (loaded, s, w) = store_load env k pid url now s w
                      in (take_loaded k pid best loaded, s, w)
                 else (Inr (the best), s, w))
          in case chosen of
               Inl f \<Rightarrow> (Inl f, s, w)
             | Inr (piece, body, chain, from) \<Rightarrow>
                 (Inr (piece, used_new (piece_name k pid) from (piece_dates k piece) floor now),
                  record_used url body chain s, w))"

definition get ::
  "'w store_env \<Rightarrow> ('id, 'p) kind \<Rightarrow> 'id \<Rightarrow> int \<Rightarrow> store \<Rightarrow> 'w
     \<Rightarrow> ('p \<times> collateral_used) res \<times> store \<times> 'w" where
  "get env k pid now s w =
     (let (r, s, w) = lookup env k pid now s w
      in (map_err (\<lambda>f. failure_into_error f (piece_name k pid)) r, s, w))"

definition get_if_published ::
  "'w store_env \<Rightarrow> ('id, 'p) kind \<Rightarrow> 'id \<Rightarrow> int \<Rightarrow> store \<Rightarrow> 'w
     \<Rightarrow> ('p \<times> collateral_used) option res \<times> store \<times> 'w" where
  "get_if_published env k pid now s w =
     (let (r, s, w) = lookup env k pid now s w
      in ((case r of
             Inr got \<Rightarrow> Inr (Some got)
           | Inl f \<Rightarrow>
               (case f of
                  FUnavailable e \<Rightarrow>
                    if not_found e then Inr None else Inl (failure_into_error f (piece_name k pid))
                | _ \<Rightarrow> Inl (failure_into_error f (piece_name k pid)))), s, w))"

definition store_refresh ::
  "'w store_env \<Rightarrow> ('id, 'p) kind \<Rightarrow> 'id \<Rightarrow> int \<Rightarrow> store \<Rightarrow> 'w \<Rightarrow> unit res \<times> store \<times> 'w" where
  "store_refresh env k pid now s w = (case st_native s of
       Some n \<Rightarrow>
         let url = piece_url k pid in
         if mem n url \<noteq> None
         then
           let ((_, _, f), n, w) = refresh env k pid url True now n w
           in ((case f of None \<Rightarrow> Inr () | Some e \<Rightarrow> Inl (failure_into_error e (piece_name k pid))),
               s\<lparr>st_native := Some n\<rparr>, w)
         else (Inr (), s, w)
     | None \<Rightarrow> (Inl (failure_into_error (FUnavailable offline) (piece_name k pid)), s, w))"

end
