(* ===== verification/StoreInv.thy ===== *)
theory StoreInv
  imports Store
begin

text \<open>
  What the store guarantees. A lookup returns a verified piece that is no older
  than any copy on hand, and refuses the piece when any copy on hand does not
  verify; the native store holds only verified responses, replaces one only by
  an issue that is not older, keeps the old one when a refetch fails, and asks
  the upstream at a bounded rate. Steps of the native store are the relation
  \<open>native_step\<close>, with the invariants by rule induction.
\<close>

section \<open>Recency\<close>

text \<open>What the choice of a copy needs of "not older than": a total preorder.\<close>

locale recency =
  fixes not_older :: "'d \<Rightarrow> 'd \<Rightarrow> bool"
  assumes refl: "not_older d d"
    and total: "not_older d e \<or> not_older e d"
    and trans: "not_older d e \<Longrightarrow> not_older e f \<Longrightarrow> not_older d f"
begin

lemma keep_best:
  assumes "\<forall>d \<in> S. not_older b d"
  shows "\<forall>d \<in> insert x S. not_older (if \<not> not_older b x then x else b) d"
proof (cases "not_older b x")
  case False
  then have "not_older x b" using total by blast
  with False assms show ?thesis using refl trans by auto
qed (use assms in auto)

lemma keep_best_extends: "not_older (if \<not> not_older b x then x else b) b"
  using total [of x b] refl by auto

end

interpretation issue: recency not_older_than
  by unfold_locales (use not_older_total in \<open>auto intro: not_older_trans\<close>)

section \<open>Verdicts on a piece\<close>

lemma used_new_simps [simp]:
  "cu_name (used_new nm from d f now) = nm" "cu_from (used_new nm from d f now) = from"
  "cu_version (used_new nm from d f now) = dt_version d" "cu_floor (used_new nm from d f now) = f"
  "cu_current (used_new nm from d f now) = current d now"
  "cu_next_update (used_new nm from d f now) = next_update d"
  by (simp_all add: used_new_def Let_def)

lemma acceptable_iff:
  "acceptable (used_new nm from d f now) \<longleftrightarrow>
     is_none_or (\<lambda>t. t \<le> now) (this_update d)
     \<and> is_none_or (\<lambda>n. now \<le> n \<or> now \<le> sat_i64 (n + GRACE)) (next_update d)
     \<and> is_none_or (\<lambda>m. \<exists>v. dt_version d = Some v \<and> m \<le> v) f"
  by (auto simp: acceptable_def used_new_def Let_def current_def is_none_or_def split: option.splits)

lemma sat_i64_id: "- (2 ^ 63) \<le> x \<Longrightarrow> x \<le> I64_MAX \<Longrightarrow> sat_i64 x = x"
  by (simp add: sat_i64_def)

lemma passes_iff: "passes k f now p \<longleftrightarrow> acceptable (used_new nm from (piece_dates k p) f now)"
  by (simp add: passes_def acceptable_iff)

section \<open>Copies on hand\<close>

lemma best_of_Inl:
  "best_of k pid best copies = Inl f \<Longrightarrow>
     \<exists>(b, c, src) \<in> set copies. \<exists>e. piece_verify k b c pid = Inl e \<and> f = failure_refused e"
proof (induction k pid best copies rule: best_of.induct)
  case (2 k pid best body chain src copies)
  then show ?case by (cases "piece_verify k body chain pid") auto
qed simp

lemma newer_than_best_Some [simp]:
  "newer_than_best k (Some (p, x)) d \<longleftrightarrow> \<not> not_older_than (piece_dates k p) d"
  "newer_than_best k None d"
  by (simp_all add: newer_than_best_def)

text \<open>The chosen copy was verified, and is not older than any of them nor than
  the copy before.\<close>

definition covers :: "('id, 'p) kind \<Rightarrow> 'p best option \<Rightarrow> dates \<Rightarrow> bool" where
  "covers k best d = (\<exists>p x. best = Some (p, x) \<and> not_older_than (piece_dates k p) d)"

definition best_verified :: "('id, 'p) kind \<Rightarrow> 'id \<Rightarrow> 'p best option \<Rightarrow> bool" where
  "best_verified k pid best =
     (\<forall>p b c src. best = Some (p, b, c, src) \<longrightarrow> piece_verify k b c pid = Inr p)"

lemma covers_step:
  assumes "covers k best d"
  shows "covers k (if newer_than_best k best (piece_dates k q) then Some (q, y) else best) d"
proof -
  from assms obtain p b c src where best: "best = Some (p, b, c, src)"
    and d: "not_older_than (piece_dates k p) d"
    by (cases best) (auto simp: covers_def)
  have "not_older_than (piece_dates k q) d" if "\<not> not_older_than (piece_dates k p) (piece_dates k q)"
    using that d issue.total issue.trans by blast
  with best d show ?thesis by (cases y) (auto simp: covers_def)
qed

lemma covers_new:
  "covers k (if newer_than_best k best (piece_dates k q) then Some (q, y) else best) (piece_dates k q)"
  by (cases best; cases y) (auto simp: covers_def)

lemma best_of_Inr:
  "best_of k pid best copies = Inr r \<Longrightarrow>
     (\<forall>d. covers k best d \<longrightarrow> covers k r d) \<and>
     (best_verified k pid best \<longrightarrow> best_verified k pid r) \<and>
     (\<forall>(b, c, src) \<in> set copies. \<exists>p. piece_verify k b c pid = Inr p \<and> covers k r (piece_dates k p)) \<and>
     (copies \<noteq> [] \<longrightarrow> r \<noteq> None)"
proof (induction k pid best copies rule: best_of.induct)
  case (1 k pid best)
  then show ?case by simp
next
  case (2 k pid best body chain src copies)
  then obtain p where p: "piece_verify k body chain pid = Inr p"
    by (auto simp: res_simps)
  let ?b = "if newer_than_best k best (piece_dates k p) then Some (p, body, chain, src) else best"
  have r: "best_of k pid ?b copies = Inr r" using 2(2) p by simp
  have IH: "(\<forall>d. covers k ?b d \<longrightarrow> covers k r d) \<and> (best_verified k pid ?b \<longrightarrow> best_verified k pid r)
      \<and> (\<forall>(b, c, src) \<in> set copies. \<exists>p. piece_verify k b c pid = Inr p \<and> covers k r (piece_dates k p))
      \<and> (copies \<noteq> [] \<longrightarrow> r \<noteq> None)"
    using 2(1) [OF r] .
  have c: "covers k ?b (piece_dates k p)" by (rule covers_new)
  then have "covers k r (piece_dates k p)" using IH by blast
  moreover have "r \<noteq> None" using calculation by (auto simp: covers_def)
  moreover have "best_verified k pid best \<Longrightarrow> best_verified k pid ?b"
    using p by (auto simp: best_verified_def)
  moreover have "covers k ?b d" if "covers k best d" for d
    using covers_step [OF that] .
  ultimately show ?case using IH p by auto
qed

lemma best_of_bad_copy:
  assumes "(b, c, src) \<in> set copies" "piece_verify k b c pid = Inl e"
  shows "\<exists>f. best_of k pid best copies = Inl f"
proof (cases "best_of k pid best copies")
  case (Inr r)
  with best_of_Inr [OF Inr] assms show ?thesis by auto
qed simp

section \<open>Lookups\<close>

lemma lookup_bad_copy:
  assumes "(b, c, src) \<in> set (on_hand env k pid (piece_url k pid) s w)"
    and "piece_verify k b c pid = Inl e"
  shows "\<exists>why. lookup env k pid now s w = (Inl (FRefused why), s, w)"
proof -
  obtain f where f: "best_of k pid None (on_hand env k pid (piece_url k pid) s w) = Inl f"
    using best_of_bad_copy [OF assms] by blast
  then obtain why where "f = FRefused why"
    using best_of_Inl [OF f] by (auto simp: failure_refused_def)
  with f show ?thesis by (simp add: lookup_def Let_def)
qed

text \<open>The shape of a successful lookup: the copies on hand verify, and what was
  chosen is the best of them or what the native store loaded.\<close>

lemma lookup_Inr:
  assumes "lookup env k pid now s w = (Inr (p, u), s', w')"
  obtains best s1 body chain src where
    "best_of k pid None (on_hand env k pid (piece_url k pid) s w) = Inr best"
    "u = used_new (piece_name k pid) src (piece_dates k p) (piece_floor k pid (st_floors s)) now"
    "s' = record_used (piece_url k pid) body chain s1"
    "(best = Some (p, body, chain, src) \<and> passes k (piece_floor k pid (st_floors s)) now p
        \<and> s1 = s \<and> w' = w)
     \<or> (\<exists>loaded. store_load env k pid (piece_url k pid) now s w = (loaded, s1, w')
          \<and> take_loaded k pid best loaded = Inr (p, body, chain, src))"
  using assms
  by (auto simp: lookup_def Let_def is_none_or_def
      split: sum.splits option.splits prod.splits if_splits)

lemma take_loaded_verified:
  assumes "best_verified k pid best" "take_loaded k pid best loaded = Inr (p, body, chain, src)"
  shows "piece_verify k body chain pid = Inr p"
  using assms
  by (cases best; cases loaded)
     (auto simp: take_loaded_def best_verified_def res_simps split: if_splits)

lemma lookup_verified:
  assumes "lookup env k pid now s w = (Inr (p, u), s', w')"
  shows "\<exists>body chain src. piece_verify k body chain pid = Inr p
           \<and> u = used_new (piece_name k pid) src (piece_dates k p) (piece_floor k pid (st_floors s)) now"
  using assms
proof (rule lookup_Inr)
  fix best s1 body chain src
  assume b: "best_of k pid None (on_hand env k pid (piece_url k pid) s w) = Inr best"
    and u: "u = used_new (piece_name k pid) src (piece_dates k p) (piece_floor k pid (st_floors s)) now"
    and c: "(best = Some (p, body, chain, src) \<and> passes k (piece_floor k pid (st_floors s)) now p
        \<and> s1 = s \<and> w' = w)
     \<or> (\<exists>loaded. store_load env k pid (piece_url k pid) now s w = (loaded, s1, w')
          \<and> take_loaded k pid best loaded = Inr (p, body, chain, src))"
  have "best_verified k pid best" using best_of_Inr [OF b] by (simp add: best_verified_def)
  then have "piece_verify k body chain pid = Inr p"
    using c
  proof (elim disjE exE conjE)
    assume "best = Some (p, body, chain, src)"
    with \<open>best_verified k pid best\<close> show ?thesis by (simp add: best_verified_def)
  next
    fix loaded assume "take_loaded k pid best loaded = Inr (p, body, chain, src)"
    with \<open>best_verified k pid best\<close> show ?thesis by (rule take_loaded_verified)
  qed
  with u show ?thesis by blast
qed

text \<open>A copy on hand that passes answers the lookup: nothing is fetched and no
  state but the record of what was used changes.\<close>

lemma lookup_on_hand:
  assumes "best_of k pid None (on_hand env k pid (piece_url k pid) s w) = Inr (Some (p, b, c, src))"
    and "passes k (piece_floor k pid (st_floors s)) now p"
  shows "lookup env k pid now s w =
    (Inr (p, used_new (piece_name k pid) src (piece_dates k p) (piece_floor k pid (st_floors s)) now),
     record_used (piece_url k pid) b c s, w)"
  using assms by (simp add: lookup_def Let_def)

section \<open>What the native store holds\<close>

text \<open>\<open>V url body chain\<close> is the dates of the response as the piece \<open>url\<close> names,
  when it verifies as that piece. A kind conforms to \<open>V\<close> when its verification
  agrees with it; every kind does for some \<open>V\<close> as long as a URL names one piece.\<close>

type_synonym verdicts = "string \<Rightarrow> bytes \<Rightarrow> string option \<Rightarrow> dates option"

definition conforms :: "verdicts \<Rightarrow> ('id, 'p) kind \<Rightarrow> bool" where
  "conforms V k =
     (\<forall>pid b c p. piece_verify k b c pid = Inr p \<longrightarrow> V (piece_url k pid) b c = Some (piece_dates k p))"

definition entry_ok :: "verdicts \<Rightarrow> string \<Rightarrow> entry \<Rightarrow> bool" where
  "entry_ok V url e = (V url (en_body e) (en_chain e) = Some (en_dates e))"

text \<open>A condition on the entries of a URL that a kind's checks establish, whatever the time of the
  check; and a native store with only such entries in memory.\<close>

definition admits :: "(string \<Rightarrow> entry \<Rightarrow> bool) \<Rightarrow> ('id, 'p) kind \<Rightarrow> bool" where
  "admits P k \<longleftrightarrow>
     (\<forall>pid clk rnd b c src e. check k pid clk rnd b c src = Inr e \<longrightarrow> P (piece_url k pid) e)
     \<and> (\<forall>url e t. P url e \<longrightarrow> P url (e\<lparr>en_checked_at := t\<rparr>))"

definition mem_all :: "(string \<Rightarrow> entry \<Rightarrow> bool) \<Rightarrow> native \<Rightarrow> bool" where
  "mem_all P n = (\<forall>url e. mem n url = Some e \<longrightarrow> P url e)"

definition mem_ok :: "verdicts \<Rightarrow> native \<Rightarrow> bool" where
  "mem_ok V n = mem_all (entry_ok V) n"

lemma mem_all_upd: "mem_all P n \<Longrightarrow> P url e \<Longrightarrow> mem n' = (mem n)(url \<mapsto> e) \<Longrightarrow> mem_all P n'"
  by (simp add: mem_all_def)

lemma check_Inr:
  assumes "check k pid clk rnd b c src = Inr e"
  shows "\<exists>p. piece_verify k b c pid = Inr p \<and> en_dates e = piece_dates k p
          \<and> en_body e = b \<and> en_chain e = c \<and> en_origin e = src \<and> en_checked_at e = clk"
  using assms by (auto simp: check_def res_simps Let_def)

lemma conforms_admits: "conforms V k \<Longrightarrow> admits (entry_ok V) k"
  unfolding admits_def using check_Inr by (fastforce simp: conforms_def entry_ok_def)

lemma admits_checked: "admits P k \<Longrightarrow> P url e \<Longrightarrow> P url (e\<lparr>en_checked_at := t\<rparr>)"
  by (simp add: admits_def)

lemma before_fetch_mem [simp]: "mem (snd (before_fetch clk url cold n)) = mem n"
  by (auto simp: before_fetch_def admit_cold_def Let_def split: option.splits prod.splits)

lemma before_fetch_disk [simp]: "disk (snd (before_fetch clk url cold n)) = disk n"
  by (auto simp: before_fetch_def admit_cold_def Let_def split: option.splits prod.splits)

lemma pause_host_mem [simp]: "mem (snd (pause_host clk url direct e n)) = mem n"
  by (auto simp: pause_host_def Let_def)

lemma fetch_cases:
  assumes "fetch env k pid url cold n w = (r, n', w')"
  obtains (refused_before) f where "r = Inl f" "before_fetch (se_clock env w) url cold n = (Inl f, n')" "w' = w"
  | (failed) v n0 e f where "before_fetch (se_clock env w) url cold n = (Inr v, n0)"
      "snd (fst (vendor_fetch (se_fetch env) v url w)) = Inl e"
      "fst (fetch_failure (named_by_evidence k) (fst (fst (vendor_fetch (se_fetch env) v url w)))
         (fst (pause_host (se_clock env w') url (fst (fst (vendor_fetch (se_fetch env) v url w))) e n0))) = f"
      "r = Inl f" "mem n' = mem n0" "w' = snd (snd (vendor_fetch (se_fetch env) v url w))"
  | (answered) v n0 b c where "before_fetch (se_clock env w) url cold n = (Inr v, n0)"
      "snd (fst (vendor_fetch (se_fetch env) v url w)) = Inr (b, c)"
      "r = check k pid (se_clock env w') (se_random env w') b c
         (if fst (fst (vendor_fetch (se_fetch env) v url w)) then FromVendor else FromCache)"
      "mem n' = mem n0" "w' = snd (snd (vendor_fetch (se_fetch env) v url w))"
proof -
  obtain before n0 where b: "before_fetch (se_clock env w) url cold n = (before, n0)" by fastforce
  show ?thesis
  proof (cases before)
    case (Inl f)
    with b assms show ?thesis by (intro that(1)) (simp_all add: fetch_def Let_def)
  next
    case (Inr v)
    obtain direct fetched v' w1 where vf: "vendor_fetch (se_fetch env) v url w = ((direct, fetched), v', w1)"
      by (metis prod.collapse)
    show ?thesis
    proof (cases fetched)
      case (Inl e)
      let ?n = "n0\<lparr>nv_vendor := Some v'\<rparr>"
      obtain e2 n2 where p: "pause_host (se_clock env w1) url direct e ?n = (e2, n2)" by fastforce
      obtain f rem where ff: "fetch_failure (named_by_evidence k) direct e2 = (f, rem)" by fastforce
      have e2: "fst (pause_host (se_clock env w1) url direct e n0) = e2"
        using p by (auto simp: pause_host_def Let_def split: if_splits)
      have "mem n2 = mem n0" using pause_host_mem [of "se_clock env w1" url direct e ?n] p by simp
      with assms b vf Inl Inr p ff e2 show ?thesis
        by (intro that(2) [of v n0 e f]) (auto simp: fetch_def Let_def split: if_splits)
    next
      case (Inr r')
      obtain b' c' where "r' = (b', c')" by fastforce
      with assms b vf Inr \<open>before = Inr v\<close> show ?thesis
        by (intro that(3) [of v n0 b' c']) (auto simp: fetch_def Let_def)
    qed
  qed
qed

lemma fetch_mem: "fetch env k pid url cold n w = (r, n', w') \<Longrightarrow> mem n' = mem n"
  by (erule fetch_cases) (metis before_fetch_mem snd_conv)+

lemma fetch_admits:
  "fetch env k pid (piece_url k pid) cold n w = (Inr e, n', w') \<Longrightarrow> admits P k \<Longrightarrow> P (piece_url k pid) e"
  by (auto elim!: fetch_cases simp: admits_def dest: sym [of "Inr e"])

lemma fetch_checked_at:
  "fetch env k pid url cold n w = (Inr e, n', w') \<Longrightarrow> en_checked_at e = se_clock env w'"
  by (auto elim!: fetch_cases dest!: check_Inr sym [of "Inr e"])

lemma disk_copy_admits:
  "disk_copy env k pid (piece_url k pid) n w = Some e \<Longrightarrow> admits P k \<Longrightarrow> P (piece_url k pid) e"
  by (auto simp: disk_copy_def bind_eq_Some_conv admits_def split: prod.splits)

lemma store_copy_mem [simp]: "mem (store_copy env url e n w) = mem n"
  by (simp add: store_copy_def)

lemma load_admits:
  assumes "load env k pid (piece_url k pid) now n w = (r, n', w')" "admits P k"
  shows "mem n' = mem n" "r = Inr e \<Longrightarrow> P (piece_url k pid) e"
proof -
  let ?u = "piece_url k pid" and ?d = "disk_copy env k pid (piece_url k pid) n w"
  obtain fr n1 w1 where f: "fetch env k pid ?u (?d = None) n w = (fr, n1, w1)"
    by (metis prod.collapse)
  have m: "mem n1 = mem n" using fetch_mem [OF f] .
  show "mem n' = mem n"
    using assms(1) f m by (auto simp: load_def Let_def split: if_splits sum.splits option.splits)
  have d: "P ?u e'" if "?d = Some e'" for e'
    using disk_copy_admits [OF that assms(2)] .
  have g: "P ?u e'" if "fr = Inr e'" for e'
    using fetch_admits [OF f [unfolded that] assms(2)] .
  show "P ?u e" if "r = Inr e"
    using assms(1) f that d g
    by (auto simp: load_def Let_def split: if_splits sum.splits option.splits)
qed

text \<open>Every copy a refresh leaves in memory is the copy that was there, checked
  now, or a verified copy that is not older.\<close>

lemma refresh_cases:
  assumes "refresh env k pid url force now n w = ((held, replaced, fl), n', w')"
  obtains (not_due) c where "mem n url = Some c" "\<not> due n c now force (se_clock env w)"
      "held = Some c" "\<not> replaced" "fl = None" "n' = n" "w' = w"
  | (replaced) e n1 where "fetch env k pid url False n w = (Inr e, n1, w')"
      "\<And>c. mem n url = Some c \<Longrightarrow> not_older_than (en_dates e) (en_dates c)"
      "held = Some e" "replaced" "fl = None" "mem n' = (mem n)(url \<mapsto> e)"
  | (kept) r n1 c where "fetch env k pid url False n w = (r, n1, w')" "mem n url = Some c"
      "held = Some (c\<lparr>en_checked_at := se_clock env w'\<rparr>)" "\<not> replaced"
      "fl = (case r of Inl f \<Rightarrow> Some f | Inr _ \<Rightarrow> None)"
      "mem n' = (mem n)(url \<mapsto> c\<lparr>en_checked_at := se_clock env w'\<rparr>)"
  | (nothing) f n1 where "fetch env k pid url False n w = (Inl f, n1, w')" "mem n url = None"
      "held = None" "\<not> replaced" "fl = Some f" "mem n' = mem n"
proof -
  obtain r n1 w1 where f: "fetch env k pid url False n w = (r, n1, w1)" by (metis prod.collapse)
  note m = fetch_mem [OF f]
  show ?thesis
  proof (cases "mem n url")
    case None
    show ?thesis
    proof (cases r)
      case (Inl e)
      with None f m assms show ?thesis
        by (intro that(4) [of e n1]) (auto simp: refresh_def Let_def)
    next
      case (Inr e)
      with None f m assms show ?thesis
        by (intro that(2) [of e n1]) (auto simp: refresh_def Let_def)
    qed
  next
    case (Some c)
    show ?thesis
    proof (cases "due n c now force (se_clock env w)")
      case False
      with Some assms show ?thesis by (intro that(1) [of c]) (auto simp: refresh_def Let_def)
    next
      case True
      show ?thesis
      proof (cases "\<exists>e. r = Inr e \<and> not_older_than (en_dates e) (en_dates c)")
        case new: True
        then obtain e where "r = Inr e" "not_older_than (en_dates e) (en_dates c)" by blast
        with Some True f m assms show ?thesis
          by (intro that(2) [of e n1]) (auto simp: refresh_def Let_def)
      next
        case False
        with Some True f m assms show ?thesis
          by (intro that(3) [of r n1 c]) (auto simp: refresh_def Let_def split: sum.splits)
      qed
    qed
  qed
qed

lemma refresh_admits:
  assumes r: "refresh env k pid (piece_url k pid) force now n w = ((held, replaced, fl), n', w')"
    and k: "admits P k" and m: "mem_all P n"
  shows "mem_all P n'" "held = Some e \<Longrightarrow> P (piece_url k pid) e"
proof -
  have "mem_all P n' \<and> (\<forall>e. held = Some e \<longrightarrow> P (piece_url k pid) e)"
    using r
  proof (cases rule: refresh_cases)
    case (replaced e n1)
    from fetch_admits [OF replaced(1) k] mem_all_upd [OF m _ replaced(6)] replaced(3) show ?thesis by simp
  next
    case (kept r n1 c)
    from m kept(2) have "P (piece_url k pid) c" by (simp add: mem_all_def)
    from admits_checked [OF k this] mem_all_upd [OF m _ kept(6)] kept(3) show ?thesis by simp
  qed (use m in \<open>auto simp: mem_all_def\<close>)
  then show "mem_all P n'" "held = Some e \<Longrightarrow> P (piece_url k pid) e" by blast+
qed

lemma native_entry_admits:
  assumes "native_entry env k pid (piece_url k pid) now n w = (r, n', w')"
    and "admits P k" "mem_all P n"
  shows "mem_all P n'" "r = Inr (e, src) \<Longrightarrow> P (piece_url k pid) e"
proof -
  let ?u = "piece_url k pid"
  have "mem_all P n' \<and> (r = Inr (e, src) \<longrightarrow> P ?u e)"
  proof (cases "mem n ?u")
    case None
    obtain lr n1 w1 where l: "load env k pid ?u now n w = (lr, n1, w1)" by (metis prod.collapse)
    have "mem n1 = mem n" "\<And>x. lr = Inr x \<Longrightarrow> P ?u x"
      using load_admits [OF l assms(2)] by blast+
    with None l assms(1,3) show ?thesis
      by (auto simp: native_entry_def mem_all_def split: sum.splits if_splits)
  next
    case (Some c)
    obtain held rep fl n1 w1 where f: "refresh env k pid ?u False now n w = ((held, rep, fl), n1, w1)"
      by (metis prod.collapse)
    have "mem_all P n1" "\<And>x. held = Some x \<Longrightarrow> P ?u x" "P ?u c"
      using refresh_admits [OF f assms(2,3)] Some assms(3) by (auto simp: mem_all_def)
    with Some f assms(1,3) show ?thesis
      by (auto simp: native_entry_def Let_def split: if_splits option.splits)
  qed
  then show "mem_all P n'" "r = Inr (e, src) \<Longrightarrow> P ?u e" by blast+
qed

lemmas native_entry_ok = native_entry_admits [OF _ conforms_admits, folded mem_ok_def]

definition store_ok :: "verdicts \<Rightarrow> store \<Rightarrow> bool" where
  "store_ok V s = (\<forall>n. st_native s = Some n \<longrightarrow> mem_ok V n)"

lemma store_load_ok:
  assumes "store_load env k pid (piece_url k pid) now s w = (r, s', w')" "conforms V k" "store_ok V s"
  shows "store_ok V s'" "r = Inr (e, src) \<Longrightarrow> entry_ok V (piece_url k pid) e"
    "st_floors s' = st_floors s"
  using assms native_entry_ok
  by (auto simp: store_load_def store_ok_def split: option.splits prod.splits if_splits)

lemma record_used_native [simp]: "st_native (record_used u b c s) = st_native s"
  by (simp add: record_used_def split: option.splits)

lemma take_loaded_covers:
  assumes "take_loaded k pid best loaded = Inr (p, body, chain, src)" "conforms V k"
    and e: "\<And>e src. loaded = Inr (e, src) \<Longrightarrow> entry_ok V (piece_url k pid) e"
    and d: "covers k best d"
  shows "not_older_than (piece_dates k p) d"
proof -
  obtain q b c s where best: "best = Some (q, b, c, s)" and q: "not_older_than (piece_dates k q) d"
    using d by (cases best) (auto simp: covers_def)
  show ?thesis
  proof (cases loaded)
    case (Inl f)
    with assms(1) best q show ?thesis by (simp add: take_loaded_def)
  next
    case (Inr x)
    obtain e es where x: "x = (e, es)" by fastforce
    show ?thesis
    proof (cases "newer_than_best k best (en_dates e)")
      case True
      with assms(1) Inr x have "piece_verify k (en_body e) (en_chain e) pid = Inr p"
        by (auto simp: take_loaded_def res_simps)
      then have "piece_dates k p = en_dates e"
        using assms(2) e [OF Inr [unfolded x]] by (fastforce simp: conforms_def entry_ok_def)
      with True best q show ?thesis
        using issue.total issue.trans by (metis newer_than_best_Some(1))
    next
      case False
      with assms(1) best q Inr x show ?thesis by (simp add: take_loaded_def)
    qed
  qed
qed

text \<open>Attached and other copies on hand never push the verifier back: what a
  lookup returns is not older than any of them.\<close>

lemma lookup_newest:
  assumes l: "lookup env k pid now s w = (Inr (p, u), s', w')"
    and V: "conforms V k" "store_ok V s"
    and c: "(b, c, src) \<in> set (on_hand env k pid (piece_url k pid) s w)"
    and q: "piece_verify k b c pid = Inr q"
  shows "not_older_than (piece_dates k p) (piece_dates k q)"
  using l
proof (rule lookup_Inr)
  fix best s1 body chain src'
  assume b: "best_of k pid None (on_hand env k pid (piece_url k pid) s w) = Inr best"
    and ch: "(best = Some (p, body, chain, src') \<and> passes k (piece_floor k pid (st_floors s)) now p
        \<and> s1 = s \<and> w' = w)
     \<or> (\<exists>loaded. store_load env k pid (piece_url k pid) now s w = (loaded, s1, w')
          \<and> take_loaded k pid best loaded = Inr (p, body, chain, src'))"
  have cov: "covers k best (piece_dates k q)"
    using best_of_Inr [OF b] c q by fastforce
  show ?thesis
    using ch
  proof (elim disjE exE conjE)
    assume "best = Some (p, body, chain, src')"
    with cov show ?thesis by (auto simp: covers_def)
  next
    fix loaded
    assume sl: "store_load env k pid (piece_url k pid) now s w = (loaded, s1, w')"
      and tl: "take_loaded k pid best loaded = Inr (p, body, chain, src')"
    show ?thesis
      by (rule take_loaded_covers [OF tl V(1) _ cov]) (rule store_load_ok(2) [OF sl V])
  qed
qed

lemma lookup_store_ok:
  assumes "lookup env k pid now s w = (r, s', w')" "conforms V k" "store_ok V s"
  shows "store_ok V s'"
proof -
  obtain lr s1 w1 where l: "store_load env k pid (piece_url k pid) now s w = (lr, s1, w1)"
    by (metis prod.collapse)
  have "store_ok V s1" using store_load_ok(1) [OF l assms(2,3)] .
  with assms(1,3) l show ?thesis
    by (auto simp: lookup_def Let_def store_ok_def split: sum.splits prod.splits if_splits)
qed

section \<open>Steps of the native store\<close>

text \<open>What can happen to a native store: a lookup reads an entry, a caller refreshes
  one, the memory caches evict, the world moves on.\<close>

inductive native_step ::
  "'w store_env \<Rightarrow> ('id, 'p) kind set \<Rightarrow> native \<times> 'w \<Rightarrow> native \<times> 'w \<Rightarrow> bool"
  for env ks where
  entry: "k \<in> ks \<Longrightarrow> native_entry env k pid (piece_url k pid) now n w = (r, n', w') \<Longrightarrow>
            native_step env ks (n, w) (n', w')"
| refresh: "k \<in> ks \<Longrightarrow> refresh env k pid (piece_url k pid) force now n w = (r, n', w') \<Longrightarrow>
            native_step env ks (n, w) (n', w')"
| evict: "native_step env ks (n, w) (n\<lparr>mem := (mem n)(url := None)\<rparr>, w)"
| forget: "native_step env ks (n, w) (n\<lparr>failed := (failed n)(url := None)\<rparr>, w)"
| tick: "native_step env ks (n, w) (n, w')"

inductive_cases native_stepE: "native_step env ks (n, w) (n', w')"

inductive reachable ::
  "'w store_env \<Rightarrow> ('id, 'p) kind set \<Rightarrow> vendor option \<Rightarrow> native \<times> 'w \<Rightarrow> bool"
  for env ks v where
  start: "reachable env ks v (new_native v, w)"
| step: "reachable env ks v st \<Longrightarrow> native_step env ks st st' \<Longrightarrow> reachable env ks v st'"

lemma native_step_admits:
  assumes "native_step env ks (n, w) (n', w')" "\<forall>k \<in> ks. admits P k" "mem_all P n"
  shows "mem_all P n'"
  using assms(1)
proof (rule native_stepE)
  fix k pid now r
  assume k: "k \<in> ks" and e: "native_entry env k pid (piece_url k pid) now n w = (r, n', w')"
  show ?thesis by (rule native_entry_admits(1) [OF e _ assms(3)]) (use assms(2) k in blast)
next
  fix k pid force now r
  assume k: "k \<in> ks" and e: "refresh env k pid (piece_url k pid) force now n w = (r, n', w')"
  obtain held replaced fl where r: "r = (held, replaced, fl)" by (cases r)
  show ?thesis by (rule refresh_admits(1) [OF e [unfolded r] _ assms(3)]) (use assms(2) k in blast)
qed (use assms(3) in \<open>auto simp: mem_all_def split: if_splits\<close>)

lemma reachable_admits:
  "reachable env ks v st \<Longrightarrow> \<forall>k \<in> ks. admits P k \<Longrightarrow> mem_all P (fst st)"
proof (induction rule: reachable.induct)
  case (start w)
  then show ?case by (simp add: mem_all_def new_native_def)
next
  case (step st st')
  then show ?case using native_step_admits by (metis prod.collapse)
qed

text \<open>A piece in memory is only ever replaced by an issue that is not older:
  every step but an eviction of its URL keeps it or moves forward.\<close>

lemma refresh_monotone:
  assumes "refresh env k pid url force now n w = (r, n', w')" "mem n u = Some c"
  shows "\<exists>c'. mem n' u = Some c' \<and> not_older_than (en_dates c') (en_dates c)"
proof -
  obtain held replaced fl where "r = (held, replaced, fl)" by (cases r)
  with assms show ?thesis
    by (auto elim!: refresh_cases)
qed

lemma native_entry_monotone:
  assumes "native_entry env k pid url now n w = (r, n', w')" "mem n u = Some c" and "conforms V k"
    and url: "url = piece_url k pid"
  shows "\<exists>c'. mem n' u = Some c' \<and> not_older_than (en_dates c') (en_dates c)"
proof (cases "mem n url")
  case None
  obtain lr n1 w1 where l: "load env k pid url now n w = (lr, n1, w1)" by (metis prod.collapse)
  have "mem n1 = mem n" using load_admits(1) [OF l [unfolded url] conforms_admits [OF assms(3)]] .
  with None assms(1,2) l show ?thesis
    by (auto simp: native_entry_def split: sum.splits)
next
  case (Some e)
  obtain rr n1 w1 where f: "refresh env k pid url False now n w = (rr, n1, w1)"
    by (metis prod.collapse)
  obtain held rep fl where "rr = (held, rep, fl)" by (cases rr)
  with Some f assms(1,2) refresh_monotone [OF f assms(2)] show ?thesis
    by (auto simp: native_entry_def Let_def split: if_splits option.splits)
qed

lemma native_step_monotone:
  assumes "native_step env ks (n, w) (n', w')" "\<forall>k \<in> ks. conforms V k"
    and "mem n u = Some c" "mem n' u \<noteq> None"
  shows "\<exists>c'. mem n' u = Some c' \<and> not_older_than (en_dates c') (en_dates c)"
  using assms(1)
proof (rule native_stepE)
  fix k pid now r
  assume k: "k \<in> ks" and e: "native_entry env k pid (piece_url k pid) now n w = (r, n', w')"
  show ?thesis by (rule native_entry_monotone [OF e assms(3) _ refl]) (use assms(2) k in blast)
next
  fix k pid force now r
  assume e: "refresh env k pid (piece_url k pid) force now n w = (r, n', w')"
  show ?thesis by (rule refresh_monotone [OF e assms(3)])
qed (use assms(3,4) in \<open>auto split: if_splits\<close>)

section \<open>Bounded rates\<close>

text \<open>Neither a forced refresh nor a lookup asks the upstream about a piece within
  \<open>recheck\<close> of the last time: until then a refresh changes nothing.\<close>

lemma refresh_not_due:
  assumes "mem n url = Some c" "se_clock env w - en_checked_at c < recheck n"
  shows "refresh env k pid url force now n w = ((Some c, False, None), n, w)"
proof -
  have "\<not> due n c now force (se_clock env w)"
    using assms(2) by (auto simp: due_def Let_def)
  with assms(1) show ?thesis by (simp add: refresh_def)
qed

lemma vendor_fetch_checked:
  assumes "refresh env k pid (piece_url k pid) force now n w = ((Some c, replaced, fl), n', w')"
  shows "(n', w') = (n, w) \<or> en_checked_at c = se_clock env w'"
    and "mem n' (piece_url k pid) = Some c"
  using assms
  by (auto elim!: refresh_cases dest: fetch_checked_at)

lemma refresh_recheck:
  assumes "refresh env k pid (piece_url k pid) force now n w = ((Some c, replaced, fl), n', w')"
    and "se_clock env w'' - en_checked_at c < recheck n'"
  shows "refresh env k pid (piece_url k pid) force' now' n' w'' = ((Some c, False, None), n', w'')"
  using refresh_not_due [OF vendor_fetch_checked(2) [OF assms(1)] assms(2)] .

text \<open>A refetch that fails keeps the copy.\<close>

lemma refresh_failure_keeps:
  assumes "refresh env k pid url force now n w = ((held, replaced, Some f), n', w')"
  shows "\<not> replaced \<and> (\<forall>c. mem n url = Some c \<longrightarrow>
           mem n' url = Some (c\<lparr>en_checked_at := se_clock env w'\<rparr>))"
  using assms by (auto elim!: refresh_cases)

text \<open>Cold fetches: a host admits at most \<open>COLD_PER_SECOND\<close> in the window its
  counter covers, so at most twice that in any interval shorter than a second.\<close>

fun admit_run :: "(nat \<times> string) list \<Rightarrow> native \<Rightarrow> nat \<times> native" where
  "admit_run [] n = (0, n)"
| "admit_run ((clk, url) # rs) n =
     (let (r, n) = admit_cold clk url n; (m, n) = admit_run rs n
      in ((if is_ok r then 1 else 0) + m, n))"

lemma admit_cold_host:
  assumes "admit_cold clk url n = (r, n')" "url_host_of url = h"
  shows "is_ok r \<Longrightarrow> hs_cold (host_entry n' h) \<le> COLD_PER_SECOND \<and> 0 < hs_cold (host_entry n' h)"
    and "\<not> is_ok r \<Longrightarrow> n' = n\<lparr>hosts := (hosts n)(h \<mapsto> host_entry n h)\<rparr>"
    and "hs_second (host_entry n h) = Some s \<Longrightarrow> clk < s + SEC \<Longrightarrow>
           host_entry n' h = (host_entry n h)\<lparr>hs_cold := hs_cold (host_entry n h) + (if is_ok r then 1 else 0)\<rparr>"
    and "hs_second (host_entry n' h) = hs_second (host_entry n h) \<or>
           hs_second (host_entry n' h) = Some clk \<and> hs_cold (host_entry n' h) = 1"
  using assms
  by (auto simp: admit_cold_def Let_def host_entry_def COLD_PER_SECOND_def SEC_def
      split: if_splits option.splits)

lemma admit_run_in_window:
  assumes "\<forall>(clk, url) \<in> set rs. url_host_of url = h \<and> clk < s + SEC"
    and "hs_second (host_entry n h) = Some s"
  shows "fst (admit_run rs n) \<le> COLD_PER_SECOND - hs_cold (host_entry n h)"
  using assms
proof (induction rs arbitrary: n)
  case (Cons a rs)
  obtain clk url where a: "a = (clk, url)" by fastforce
  obtain r n' where ad: "admit_cold clk url n = (r, n')" by fastforce
  have h: "url_host_of url = h" "clk < s + SEC" using Cons.prems(1) a by auto
  have e: "host_entry n' h = (host_entry n h)\<lparr>hs_cold := hs_cold (host_entry n h) + (if is_ok r then 1 else 0)\<rparr>"
    using admit_cold_host(3) [OF ad h(1) Cons.prems(2) h(2)] .
  have "fst (admit_run rs n') \<le> COLD_PER_SECOND - hs_cold (host_entry n' h)"
    using Cons.prems e by (intro Cons.IH) auto
  moreover have "is_ok r \<Longrightarrow> hs_cold (host_entry n' h) \<le> COLD_PER_SECOND \<and> 0 < hs_cold (host_entry n' h)"
    using admit_cold_host(1) [OF ad h(1)] .
  ultimately show ?case
    using ad e by (auto simp: a case_prod_beta Let_def)
qed simp

lemma admit_run_per_second:
  assumes "\<forall>(clk, url) \<in> set rs. url_host_of url = h \<and> t \<le> clk \<and> clk < t + SEC"
  shows "fst (admit_run rs n) \<le> 2 * COLD_PER_SECOND"
proof -
  have "fst (admit_run rs n) \<le> (COLD_PER_SECOND - hs_cold (host_entry n h)) + COLD_PER_SECOND"
    using assms
  proof (induction rs arbitrary: n)
    case (Cons a rs)
    obtain clk url where a: "a = (clk, url)" by fastforce
    obtain r n' where ad: "admit_cold clk url n = (r, n')" by fastforce
    have h: "url_host_of url = h" "t \<le> clk" "clk < t + SEC" using Cons.prems a by auto
    have rec: "fst (admit_run (a # rs) n) = (if is_ok r then 1 else 0) + fst (admit_run rs n')"
      using ad by (simp add: a case_prod_beta Let_def)
    show ?case
    proof (cases "hs_second (host_entry n' h) = Some clk \<and> hs_cold (host_entry n' h) = 1")
      case True
      have "fst (admit_run rs n') \<le> COLD_PER_SECOND - hs_cold (host_entry n' h)"
        using True Cons.prems h by (intro admit_run_in_window [where s = clk]) auto
      with True rec show ?thesis by (simp add: COLD_PER_SECOND_def)
    next
      case False
      have IH: "fst (admit_run rs n') \<le> (COLD_PER_SECOND - hs_cold (host_entry n' h)) + COLD_PER_SECOND"
        using Cons.prems by (intro Cons.IH) auto
      have c: "hs_cold (host_entry n' h) = hs_cold (host_entry n h) + (if is_ok r then 1 else 0)"
        using False ad h(1)
        by (auto simp: admit_cold_def Let_def host_entry_def COLD_PER_SECOND_def
            split: if_splits option.splits)
      have "is_ok r \<Longrightarrow> hs_cold (host_entry n' h) \<le> COLD_PER_SECOND"
        using admit_cold_host(1) [OF ad h(1)] by blast
      with IH c rec show ?thesis by (cases "is_ok r") auto
    qed
  qed simp
  then show ?thesis by simp
qed

section \<open>Failures\<close>

text \<open>Only the vendor itself can say that it does not publish a piece, and only for
  a piece the evidence names; what a cache answers stays retryable.\<close>

lemma fetch_failure_not_published:
  "fst (fetch_failure named direct e) = FNotPublished why \<Longrightarrow>
     named \<and> direct \<and> (not_found e \<or> ua_status e = Some 400)"
  by (auto simp: fetch_failure_def split: if_splits)

lemma fetch_failure_cache:
  "is_retryable (failure_into_error (fst (fetch_failure named False e)) name)"
  by (auto simp: fetch_failure_def failure_into_error_def)

lemma failure_into_error_retryable_iff:
  "is_retryable (failure_into_error f name) \<longleftrightarrow> (\<exists>u. f = FUnavailable u)"
  by (cases f) (simp_all add: failure_into_error_def, simp_all add: is_retryable_def)

text \<open>A held-only store asks nobody, and lists each URL it lacked once.\<close>

lemma store_load_held_only:
  assumes "st_native s = None" "distinct (st_missing s)"
    and "store_load env k pid url now s w = (r, s', w')"
  shows "r = Inl (FUnavailable offline)" "w' = w" "distinct (st_missing s')" "url \<in> set (st_missing s')"
  using assms by (auto simp: store_load_def split: if_splits)

lemma record_used_distinct:
  "distinct (map fst (used s)) \<Longrightarrow> distinct (map fst (used (record_used url b c s)))"
  by (auto simp: used_def record_used_def split: option.splits)

section \<open>Refresh times\<close>

lemma int_mod_nat_less: "0 < k \<Longrightarrow> int (r mod nat k) < k"
proof -
  assume "0 < k"
  then have "r mod nat k < nat k" by simp
  then show ?thesis by (simp only: zless_nat_eq_int_zless)
qed

lemma refresh_at_window:
  assumes "this_update d = Some t" "next_update d = Some n" "t + 4 * (24 * 3600) < n"
  shows "t + (n - t) sdiv 4 * 3 \<le> refresh_at d r" "refresh_at d r < n - 24 * 3600"
proof -
  let ?e = "t + (n - t) sdiv 4 * 3" and ?l = "n - 24 * 3600"
  have "(n - t) sdiv 4 = (n - t) div 4" using assms(3) by (simp add: signed_divide_int_def)
  then have "?e < ?l" using assms(3) by simp
  moreover have "int (r mod nat (?l - ?e)) < ?l - ?e" using \<open>?e < ?l\<close>
    by (intro int_mod_nat_less) simp
  ultimately show "?e \<le> refresh_at d r" "refresh_at d r < ?l"
    using assms(1,2) by (auto simp: refresh_at_def Let_def)
qed

lemma refresh_at_before_next:
  assumes "next_update d = Some n"
  shows "refresh_at d r \<le> n - 24 * 3600"
proof (cases "this_update d")
  case None
  with assms show ?thesis by (simp add: refresh_at_def)
next
  case (Some t)
  let ?e = "t + (n - t) sdiv 4 * 3" and ?l = "n - 24 * 3600"
  have "int (r mod nat (?l - ?e)) < ?l - ?e" if "?e < ?l"
    using that by (intro int_mod_nat_less) simp
  with Some assms show ?thesis by (auto simp: refresh_at_def Let_def not_le)
qed

end
