(* ===== verification/StoreProps.thy ===== *)
theory StoreProps
  imports StoreInv
begin

text \<open>
  What the collateral store promises, stated as properties of its operations, with
  a small kind of piece and a small outside world to show that the hypotheses can
  hold: a body is a piece when it is not empty, its first byte is its version, and
  the network answers every request with one body.
\<close>

section \<open>A kind, a world and a store to try them on\<close>

definition toy_verify :: "bytes \<Rightarrow> string option \<Rightarrow> string \<Rightarrow> u8 res" where
  "toy_verify b chain pid = (case b of [] \<Rightarrow> Inl (refused ''empty'') | v # _ \<Rightarrow> Inr v)"

definition toy_dates :: "u8 \<Rightarrow> dates" where
  "toy_dates v = window 1000 2000000 (Some (ucast v))"

definition toy_kind :: "(string, u8) kind" where
  "toy_kind = \<lparr>named_by_evidence = True, piece_name = (\<lambda>p. p), piece_url = (\<lambda>p. ''https://v/'' @ p),
     piece_verify = toy_verify, piece_dates = toy_dates, piece_floor = (\<lambda>_ _. Some 2)\<rparr>"

definition toy_net :: "nat net" where
  "toy_net = \<lparr>clock = (\<lambda>w. w),
     send = (\<lambda>rq w. (Inr \<lparr>rs_status = 200, rs_header = (\<lambda>_. None), rs_content_length = None,
                          rs_chunks = [Inr [7]]\<rparr>, w + 1)),
     send_post = (\<lambda>_ w. (Inl ''refused'', w)), sleep = (\<lambda>d w. w + d), subsec_nanos = (\<lambda>_. 0),
     in_cvm = (\<lambda>_. False)\<rparr>"

definition toy_fetch :: "nat fetch_env" where
  "toy_fetch = \<lparr>fe_net = toy_net, fe_url_parse = (\<lambda>_. None), fe_lossy = bytes_str\<rparr>"

definition toy_disk :: disk_lib where
  "toy_disk = \<lparr>dl_hash = \<lparr>sha256 = id, sha384 = id\<rparr>, dl_hex = \<lparr>hex_encode = bytes_str, hex_decode = (\<lambda>s. Some (str_bytes s))\<rparr>,
     dl_b64_encode = bytes_str, dl_b64_decode = (\<lambda>s. Some (str_bytes s)),
     dl_to_vec = (\<lambda>_. []), dl_from_slice = (\<lambda>_. None)\<rparr>"

definition toy_env :: "nat store_env" where
  "toy_env = \<lparr>se_fetch = toy_fetch, se_disk = toy_disk, se_random = (\<lambda>_. 0), se_disk_ok = (\<lambda>_. True)\<rparr>"

lemmas toy_defs = toy_kind_def toy_verify_def toy_dates_def toy_env_def toy_fetch_def toy_net_def
  toy_disk_def window_def

section \<open>Lookups\<close>

text \<open>A copy on hand that does not verify ends the lookup with a refusal: it is
  never skipped for another copy, nothing is fetched, and store and world stay as
  they were.\<close>

theorem bad_copy_is_refused:
  assumes "(b, c, src) \<in> set (on_hand env k pid (piece_url k pid) s w)"
    and "piece_verify k b c pid = Inl e"
  shows "\<exists>why. get env k pid now s w = (Inl (CertChainError (piece_name k pid @ '' refused: '' @ why)), s, w)"
proof -
  obtain why where "lookup env k pid now s w = (Inl (FRefused why), s, w)"
    using lookup_bad_copy [OF assms, of now] by blast
  then show ?thesis by (simp add: get_def failure_into_error_def)
qed

theorem bad_copy_is_refused_witness:
  "\<exists>why. get toy_env toy_kind ''x'' 5 (hold ''https://v/x'' [] None (new_store False)) (0 :: nat) =
     (Inl (CertChainError (piece_name toy_kind ''x'' @ '' refused: '' @ why)),
      hold ''https://v/x'' [] None (new_store False), 0)"
  by (rule bad_copy_is_refused [of "[]" None Held _ _ _ _ _ "refused ''empty''"])
     (simp_all add: toy_defs on_hand_def hold_def new_store_def held_only_def)

text \<open>C5: What a lookup hands out has been verified as the piece asked for, is
  reported with its own dates and version floor, and is not older than any copy that
  was on hand and verifies, as long as the native store holds only what it verified.\<close>

theorem lookup_is_newest_verified:
  assumes l: "lookup env k pid now s w = (Inr (p, u), s', w')"
    and V: "conforms V k" "store_ok V s"
  shows "(\<exists>body chain src. piece_verify k body chain pid = Inr p
      \<and> u = used_new (piece_name k pid) src (piece_dates k p) (piece_floor k pid (st_floors s)) now)
    \<and> (\<forall>(b, c, src) \<in> set (on_hand env k pid (piece_url k pid) s w).
         \<exists>q. piece_verify k b c pid = Inr q \<and> not_older_than (piece_dates k p) (piece_dates k q))
    \<and> store_ok V s'"
proof (intro conjI)
  show "\<forall>(b, c, src) \<in> set (on_hand env k pid (piece_url k pid) s w).
      \<exists>q. piece_verify k b c pid = Inr q \<and> not_older_than (piece_dates k p) (piece_dates k q)"
  proof clarify
    fix b c src assume m: "(b, c, src) \<in> set (on_hand env k pid (piece_url k pid) s w)"
    obtain q where q: "piece_verify k b c pid = Inr q"
      using lookup_bad_copy [OF m, of _ now] l by (cases "piece_verify k b c pid") auto
    with lookup_newest [OF l V m q]
    show "\<exists>q. piece_verify k b c pid = Inr q \<and> not_older_than (piece_dates k p) (piece_dates k q)" by blast
  qed
qed (use lookup_verified [OF l] lookup_store_ok [OF l V] in auto)

definition toy_verdicts :: verdicts where
  "toy_verdicts url b c = (case b of [] \<Rightarrow> None | v # _ \<Rightarrow> Some (toy_dates v))"

lemma toy_conforms: "conforms toy_verdicts toy_kind"
  by (auto simp: conforms_def toy_kind_def toy_verdicts_def toy_verify_def split: list.splits)

lemma toy_lookup_held:
  "lookup toy_env toy_kind ''x'' 5000 (hold ''https://v/x'' [3] None (new_store False)) (0 :: nat) =
     (Inr (3, used_new ''x'' Held (toy_dates 3) (Some 2) 5000), hold ''https://v/x'' [3] None (new_store False), 0)"
  by (simp add: lookup_def on_hand_def hold_def new_store_def held_only_def toy_kind_def toy_verify_def
      passes_def acceptable_iff toy_dates_def window_def Let_def record_used_def)

theorem lookup_is_newest_verified_witness:
  "store_ok toy_verdicts (hold ''https://v/x'' [3] None (new_store False))"
  using lookup_is_newest_verified [OF toy_lookup_held toy_conforms]
  by (simp add: store_ok_def mem_ok_def mem_all_def hold_def new_store_def held_only_def new_native_def)

text \<open>A verified copy on hand that is in date and not below its floor answers the
  lookup without the network: the newest such copy is returned, and neither the native
  store nor the world changes.\<close>

theorem usable_copy_needs_no_fetch:
  assumes "best_of k pid None (on_hand env k pid (piece_url k pid) s w) = Inr (Some (p, b, c, src))"
    and "acceptable (used_new (piece_name k pid) src (piece_dates k p) (piece_floor k pid (st_floors s)) now)"
  shows "get env k pid now s w =
    (Inr (p, used_new (piece_name k pid) src (piece_dates k p) (piece_floor k pid (st_floors s)) now),
     record_used (piece_url k pid) b c s, w)
    \<and> st_native (record_used (piece_url k pid) b c s) = st_native s"
  using lookup_on_hand [OF assms(1) iffD2 [OF passes_iff assms(2)]] by (simp add: get_def)

theorem usable_copy_needs_no_fetch_witness:
  "fst (get toy_env toy_kind ''x'' 5000 (hold ''https://v/x'' [3] None (new_store False)) (0 :: nat)) =
     Inr (3, used_new ''x'' Held (toy_dates 3) (Some 2) 5000)"
proof -
  have "best_of toy_kind ''x'' None
      (on_hand toy_env toy_kind ''x'' (piece_url toy_kind ''x'') (hold ''https://v/x'' [3] None (new_store False)) 0) =
      Inr (Some (3, [3], None, Held))"
    by (simp add: toy_defs on_hand_def hold_def new_store_def held_only_def)
  from usable_copy_needs_no_fetch [OF this, of 5000] show ?thesis
    by (simp add: toy_kind_def hold_def new_store_def held_only_def acceptable_iff toy_dates_def window_def)
qed

section \<open>The native store over time\<close>

text \<open>C6: Whatever lookups and refreshes ran, for pieces of whatever kinds, with evictions and the
  passing of time between them, every entry in memory was verified as a piece its URL names, with
  the dates that verification gave. A URL may name several pieces, as the one of a Turin VCEK does.\<close>

theorem memory_holds_only_verified:
  assumes r: "reachable env ks v (n, w)" and m: "mem n url = Some e"
  shows "\<exists>k \<in> ks. \<exists>pid p. url = piece_url k pid \<and> piece_verify k (en_body e) (en_chain e) pid = Inr p
    \<and> en_dates e = piece_dates k p"
proof -
  define P where "P url e \<longleftrightarrow> (\<exists>k \<in> ks. \<exists>pid p. url = piece_url k pid
    \<and> piece_verify k (en_body e) (en_chain e) pid = Inr p \<and> en_dates e = piece_dates k p)" for url and e :: entry
  have "\<forall>k \<in> ks. admits P k" unfolding admits_def P_def using check_Inr by fastforce
  from reachable_admits [OF r this] m show ?thesis by (auto simp: mem_all_def P_def)
qed

definition toy_start :: native where
  "toy_start = new_native (Some (new_vendor\<lparr>vn_upstream := Vendors\<rparr>))"

definition toy_entry_run :: "(failure + entry \<times> source) \<times> native \<times> nat" where
  "toy_entry_run = native_entry toy_env toy_kind ''x'' ''https://v/x'' 5000 toy_start 0"

definition toy_entry :: entry where
  "toy_entry = \<lparr>en_body = [7], en_chain = None, en_dates = toy_dates 7, en_origin = FromVendor,
     en_refresh_at = refresh_at (toy_dates 7) 0, en_checked_at = 1\<rparr>"

lemma toy_vendor_fetch:
  "vendor_fetch toy_fetch (new_vendor\<lparr>vn_upstream := Vendors\<rparr>) ''https://v/x'' w =
     ((True, Inr ([7], None)), new_vendor\<lparr>vn_upstream := Vendors\<rparr>, w + 1)"
  by (simp add: vendor_fetch_def current_upstream_def
      fetch_from_def get_once_def new_vendor_def toy_fetch_def toy_net_def check_status_def
      read_body_def MAX_BODY_def issuer_chain_def ISSUER_CHAIN_HEADERS_def Let_def)

lemma toy_check:
  "check toy_kind ''x'' w 0 [7] None FromVendor = Inr (toy_entry\<lparr>en_checked_at := w\<rparr>)"
  by (simp add: check_def toy_kind_def toy_verify_def toy_entry_def Let_def)

text \<open>A fetch of the piece from a store that asked nobody before.\<close>

lemma toy_fetched:
  assumes "nv_vendor n = Some (new_vendor\<lparr>vn_upstream := Vendors\<rparr>)" "failed n = Map.empty" "hosts n = Map.empty"
  shows "\<exists>h. fetch toy_env toy_kind ''x'' ''https://v/x'' cold n w =
    (Inr (toy_entry\<lparr>en_checked_at := w + 1\<rparr>),
     n\<lparr>hosts := h, nv_vendor := Some (new_vendor\<lparr>vn_upstream := Vendors\<rparr>)\<rparr>, w + 1)"
proof -
  have e: "se_fetch toy_env = toy_fetch" "se_random toy_env x = 0" "se_clock toy_env x = x" for x
    by (simp_all add: toy_env_def se_clock_def toy_fetch_def toy_net_def)
  have "\<exists>h. before_fetch w ''https://v/x'' cold n = (Inr (new_vendor\<lparr>vn_upstream := Vendors\<rparr>), n\<lparr>hosts := h\<rparr>)"
    using assms
    by (cases n) (auto simp: before_fetch_def admit_cold_def COLD_PER_SECOND_def host_entry_def new_host_def Let_def)
  then obtain h where "before_fetch w ''https://v/x'' cold n =
      (Inr (new_vendor\<lparr>vn_upstream := Vendors\<rparr>), n\<lparr>hosts := h\<rparr>)" by blast
  then have "fetch toy_env toy_kind ''x'' ''https://v/x'' cold n w =
      (Inr (toy_entry\<lparr>en_checked_at := w + 1\<rparr>),
       n\<lparr>hosts := h, nv_vendor := Some (new_vendor\<lparr>vn_upstream := Vendors\<rparr>)\<rparr>, w + 1)"
    by (simp add: fetch_def e toy_vendor_fetch toy_check)
  then show ?thesis by blast
qed

lemma toy_start_simps:
  "nv_vendor toy_start = Some (new_vendor\<lparr>vn_upstream := Vendors\<rparr>)" "failed toy_start = Map.empty"
  "hosts toy_start = Map.empty" "mem toy_start = Map.empty" "disk toy_start = None"
  "recheck toy_start = 300 * SEC"
  by (simp_all add: toy_start_def new_native_def)

lemma toy_entry_run: "mem (fst (snd toy_entry_run)) ''https://v/x'' = Some toy_entry"
proof -
  obtain h where "fetch toy_env toy_kind ''x'' ''https://v/x'' True toy_start 0 =
      (Inr (toy_entry\<lparr>en_checked_at := 0 + 1\<rparr>),
       toy_start\<lparr>hosts := h, nv_vendor := Some (new_vendor\<lparr>vn_upstream := Vendors\<rparr>)\<rparr>, 0 + 1)"
    using toy_fetched [of toy_start True 0] by (auto simp: toy_start_simps)
  then show ?thesis
    by (simp add: toy_entry_run_def native_entry_def toy_start_simps load_def disk_copy_def store_copy_def
        toy_entry_def)
qed

text \<open>Two kinds whose pieces share their URLs.\<close>

definition twin_kind :: "(string, u8) kind" where
  "twin_kind = toy_kind\<lparr>piece_verify := (\<lambda>body _ _. if body = [9] then Inr 9 else Inl (CertChainError ''twin''))\<rparr>"

lemma toy_reachable:
  "reachable toy_env {toy_kind, twin_kind} (Some (new_vendor\<lparr>vn_upstream := Vendors\<rparr>)) (snd toy_entry_run)"
proof (rule reachable.step)
  show "native_step toy_env {toy_kind, twin_kind} (toy_start, 0) (snd toy_entry_run)"
    by (cases "toy_entry_run")
       (auto intro!: native_step.entry [of toy_kind _ _ "''x''" 5000] simp: toy_entry_run_def toy_kind_def)
qed (auto simp: toy_start_def intro: reachable.start)

theorem memory_holds_only_verified_witness:
  "\<exists>k \<in> {toy_kind, twin_kind}. \<exists>pid p. ''https://v/x'' = piece_url k pid \<and> piece_verify k [7] None pid = Inr p
    \<and> toy_dates 7 = piece_dates k p"
proof -
  have "reachable toy_env {toy_kind, twin_kind} (Some (new_vendor\<lparr>vn_upstream := Vendors\<rparr>))
      (fst (snd toy_entry_run), snd (snd toy_entry_run))"
    using toy_reachable by simp
  from memory_holds_only_verified [OF this toy_entry_run] show ?thesis
    by (simp add: toy_entry_def)
qed

text \<open>C7: A copy in memory is only ever replaced by an issue that is not older: after
  any step of the store that leaves its URL in memory, the copy there has a version and
  date at least those of the copy before.\<close>

theorem memory_never_goes_back:
  assumes "native_step env ks (n, w) (n', w')" "\<forall>k \<in> ks. conforms V k"
    and "mem n url = Some c" "mem n' url = Some c'"
  shows "not_older_than (en_dates c') (en_dates c)"
  using native_step_monotone [OF assms(1-3)] assms(4) by auto

definition toy_old :: native where
  "toy_old = toy_start\<lparr>mem := [''https://v/x'' \<mapsto> toy_entry\<lparr>en_body := [3], en_dates := toy_dates 3\<rparr>]\<rparr>"

definition toy_refresh_run :: "(entry option \<times> bool \<times> failure option) \<times> native \<times> nat" where
  "toy_refresh_run = refresh toy_env toy_kind ''x'' ''https://v/x'' True 5000 toy_old (400 * SEC)"

lemma toy_refresh_run:
  "fst toy_refresh_run = (Some (toy_entry\<lparr>en_checked_at := 400 * SEC + 1\<rparr>), True, None)"
  "mem (fst (snd toy_refresh_run)) ''https://v/x'' = Some (toy_entry\<lparr>en_checked_at := 400 * SEC + 1\<rparr>)"
  "recheck (fst (snd toy_refresh_run)) = 300 * SEC"
proof -
  have o: "nv_vendor toy_old = Some (new_vendor\<lparr>vn_upstream := Vendors\<rparr>)" "failed toy_old = Map.empty"
    "hosts toy_old = Map.empty" "recheck toy_old = 300 * SEC"
    "mem toy_old ''https://v/x'' = Some (toy_entry\<lparr>en_body := [3], en_dates := toy_dates 3\<rparr>)"
    by (simp_all add: toy_old_def toy_start_simps)
  obtain h where f: "fetch toy_env toy_kind ''x'' ''https://v/x'' False toy_old (400 * SEC) =
      (Inr (toy_entry\<lparr>en_checked_at := 400 * SEC + 1\<rparr>),
       toy_old\<lparr>hosts := h, nv_vendor := Some (new_vendor\<lparr>vn_upstream := Vendors\<rparr>)\<rparr>, 400 * SEC + 1)"
    using toy_fetched [OF o(1-3), of False "400 * SEC"] by blast
  have d: "due toy_old (toy_entry\<lparr>en_body := [3], en_dates := toy_dates 3\<rparr>) 5000 True (400 * SEC)"
    by (simp add: due_def o(4) toy_entry_def SEC_def)
  have n: "not_older_than (toy_dates 7) (toy_dates 3)"
    by (simp add: not_older_than_def toy_dates_def window_def)
  have c: "se_clock toy_env x = x" for x
    by (simp add: toy_env_def se_clock_def toy_fetch_def toy_net_def)
  show "fst toy_refresh_run = (Some (toy_entry\<lparr>en_checked_at := 400 * SEC + 1\<rparr>), True, None)"
    "mem (fst (snd toy_refresh_run)) ''https://v/x'' = Some (toy_entry\<lparr>en_checked_at := 400 * SEC + 1\<rparr>)"
    "recheck (fst (snd toy_refresh_run)) = 300 * SEC"
    using f d n o by (simp_all add: toy_refresh_run_def refresh_def c store_copy_def toy_entry_def Let_def)
qed

theorem memory_never_goes_back_witness:
  "not_older_than (toy_dates 7) (toy_dates 3)"
proof -
  have "native_step toy_env {toy_kind}
      (toy_old, 400 * SEC)
      (fst (snd toy_refresh_run), snd (snd toy_refresh_run))"
    by (rule native_step.refresh [of toy_kind _ _ "''x''" True 5000 _ _ "fst toy_refresh_run"])
       (simp_all add: toy_refresh_run_def toy_kind_def)
  from memory_never_goes_back [OF this, of toy_verdicts "''https://v/x''", OF _ _ toy_refresh_run(2)]
  show ?thesis using toy_conforms by (simp add: toy_entry_def toy_old_def)
qed





text \<open>C35: The upstream is asked about a piece in memory at most once per recheck interval, forced
  refreshes included. A refresh that leaves a copy either was not due and did nothing, or asked, and
  then marks the copy with the time it was done; and within \<open>recheck\<close> of that mark another one
  answers with that copy and changes nothing. If the refresh had failed, the copy is the one held
  before it.\<close>

theorem refresh_asks_once_per_recheck:
  assumes r: "refresh env k pid (piece_url k pid) force now n w = ((Some c, replaced, fl), n', w')"
  shows "((\<exists>old. mem n (piece_url k pid) = Some old \<and> \<not> due n old now force (se_clock env w)
            \<and> c = old \<and> (n', w') = (n, w))
        \<or> en_checked_at c = se_clock env w')
    \<and> (\<forall>force' now' w''. se_clock env w'' - en_checked_at c < recheck n'
         \<longrightarrow> refresh env k pid (piece_url k pid) force' now' n' w'' = ((Some c, False, None), n', w''))
    \<and> (fl \<noteq> None \<longrightarrow> \<not> replaced \<and> (\<exists>old. mem n (piece_url k pid) = Some old
         \<and> c = old\<lparr>en_checked_at := se_clock env w'\<rparr>))"
proof (intro conjI impI allI)
  show "(\<exists>old. mem n (piece_url k pid) = Some old \<and> \<not> due n old now force (se_clock env w)
            \<and> c = old \<and> (n', w') = (n, w)) \<or> en_checked_at c = se_clock env w'"
    using r by (auto elim!: refresh_cases dest: fetch_checked_at)
next
  fix force' now' w'' assume "se_clock env w'' - en_checked_at c < recheck n'"
  then show "refresh env k pid (piece_url k pid) force' now' n' w'' = ((Some c, False, None), n', w'')"
    using refresh_recheck [OF r] by blast
next
  assume "fl \<noteq> None"
  then show "\<not> replaced"  "\<exists>old. mem n (piece_url k pid) = Some old \<and> c = old\<lparr>en_checked_at := se_clock env w'\<rparr>"
    using r by (auto elim!: refresh_cases)
qed

theorem refresh_asks_once_per_recheck_witness:
  "fst (refresh toy_env toy_kind ''x'' ''https://v/x'' True 9000 (fst (snd toy_refresh_run)) (500 * SEC)) =
     (Some (toy_entry\<lparr>en_checked_at := 400 * SEC + 1\<rparr>), False, None)"
proof -
  have "refresh toy_env toy_kind ''x'' (piece_url toy_kind ''x'') True 5000
      toy_old (400 * SEC) =
      ((Some (toy_entry\<lparr>en_checked_at := 400 * SEC + 1\<rparr>), True, None), fst (snd toy_refresh_run), snd (snd toy_refresh_run))"
    using toy_refresh_run(1) by (simp add: toy_refresh_run_def toy_kind_def prod_eq_iff)
  from conjunct1 [OF conjunct2 [OF refresh_asks_once_per_recheck [OF this]], THEN spec [of _ True], THEN spec [of _ 9000],
      THEN spec [of _ "500 * SEC"]] toy_refresh_run(3) show ?thesis
    by (simp add: toy_kind_def se_clock_def toy_env_def toy_fetch_def toy_net_def SEC_def)
qed

text \<open>C36: However many pieces are asked for, one vendor host admits, within any one
  second, at most twice \<open>COLD_PER_SECOND\<close> of the fetches of pieces held nowhere.
  The counter covers a window that starts at a fetch, so a second can touch two.\<close>

theorem cold_fetches_are_limited:
  assumes "\<forall>(clk, url) \<in> set rs. url_host_of url = h \<and> t \<le> clk \<and> clk < t + SEC"
  shows "fst (admit_run rs n) \<le> 2 * COLD_PER_SECOND"
  using admit_run_per_second [OF assms] .

theorem cold_fetches_are_limited_witness:
  "fst (admit_run (replicate 30 (5, ''https://v/x'')) toy_start) \<le> 2 * COLD_PER_SECOND"
  by (rule cold_fetches_are_limited [of _ "''v''" 5])
     (auto simp: url_host_of_def SEC_def set_replicate_conv_if)

text \<open>The window is fixed, so the bound is met but for one: after a single fetch opens it, nine
  more at its end and ten at the start of the next one are all admitted within any short time.\<close>

lemma admit_run_append: "fst (admit_run (rs @ qs) n) = fst (admit_run rs n) + fst (admit_run qs (snd (admit_run rs n)))"
  by (induction rs arbitrary: n) (auto simp: case_prod_beta Let_def)

lemma admit_room:
  assumes "host_entry n (url_host_of u) = \<lparr>hs_paused_until = un, hs_second = Some s, hs_cold = c\<rparr>"
    "clk < s + SEC" "c + k \<le> COLD_PER_SECOND"
  shows "fst (admit_run (replicate k (clk, u)) n) = k
    \<and> host_entry (snd (admit_run (replicate k (clk, u)) n)) (url_host_of u)
        = \<lparr>hs_paused_until = un, hs_second = Some s, hs_cold = c + k\<rparr>"
  using assms
proof (induction k arbitrary: n c)
  case (Suc k)
  have "\<not> SEC \<le> clk - s" using Suc.prems(2) by (simp add: SEC_def)
  then have a: "fst (admit_cold clk u n) = Inr ()"
    "host_entry (snd (admit_cold clk u n)) (url_host_of u) = \<lparr>hs_paused_until = un, hs_second = Some s, hs_cold = Suc c\<rparr>"
    using Suc.prems by (auto simp: admit_cold_def Let_def host_entry_def)
  show ?case
    using Suc.IH [OF a(2) Suc.prems(2)] Suc.prems(3) a(1) by (simp add: case_prod_beta Let_def)
qed simp

lemma admit_opens:
  assumes "host_entry n (url_host_of u) = \<lparr>hs_paused_until = un, hs_second = b, hs_cold = c\<rparr>"
    "case b of None \<Rightarrow> True | Some s \<Rightarrow> SEC \<le> clk - s"
  shows "fst (admit_cold clk u n) = Inr ()"
    "host_entry (snd (admit_cold clk u n)) (url_host_of u) = \<lparr>hs_paused_until = un, hs_second = Some clk, hs_cold = 1\<rparr>"
  using assms by (auto simp: admit_cold_def Let_def host_entry_def COLD_PER_SECOND_def split: option.splits)

lemma nineteen_in_a_moment:
  "fst (admit_run (replicate 9 (SEC - 1, u) @ replicate 10 (SEC, u)) (snd (admit_cold 0 u (new_native v)))) = 19"
proof -
  let ?h = "url_host_of u" and ?n0 = "snd (admit_cold 0 u (new_native v))"
  have "host_entry (new_native v) ?h = \<lparr>hs_paused_until = None, hs_second = None, hs_cold = 0\<rparr>"
    by (simp add: host_entry_def new_native_def new_host_def)
  from admit_opens(2) [OF this] have n0: "host_entry ?n0 ?h = \<lparr>hs_paused_until = None, hs_second = Some 0, hs_cold = 1\<rparr>"
    by simp
  let ?n1 = "snd (admit_run (replicate 9 (SEC - 1, u)) ?n0)"
  have n1: "fst (admit_run (replicate 9 (SEC - 1, u)) ?n0) = 9"
    "host_entry ?n1 ?h = \<lparr>hs_paused_until = None, hs_second = Some 0, hs_cold = 10\<rparr>"
    using admit_room [OF n0, of "SEC - 1" 9] by (simp_all add: COLD_PER_SECOND_def SEC_def)
  have o: "fst (admit_cold SEC u ?n1) = Inr ()"
    "host_entry (snd (admit_cold SEC u ?n1)) ?h = \<lparr>hs_paused_until = None, hs_second = Some SEC, hs_cold = 1\<rparr>"
    using admit_opens [OF n1(2), of SEC] by simp_all
  have "fst (admit_run (replicate 9 (SEC, u)) (snd (admit_cold SEC u ?n1))) = 9"
    using admit_room [OF o(2), of SEC 9] by (simp add: COLD_PER_SECOND_def SEC_def)
  moreover have "replicate 10 (SEC, u) = (SEC, u) # replicate 9 (SEC, u)" by (simp add: numeral_eq_Suc)
  ultimately have "fst (admit_run (replicate 10 (SEC, u)) ?n1) = 10"
    using o(1) by (simp add: case_prod_beta Let_def)
  with n1(1) show ?thesis by (simp add: admit_run_append)
qed

section \<open>Failures, ages and the disk\<close>

text \<open>Only the vendor itself can say a piece is not published, and only for a piece
  the evidence names, by a 404, 410 or 400; everything an intermediate cache answers is
  an error the caller may retry. A refusal of what was fetched is never retryable.\<close>

theorem only_the_vendor_denies_a_piece:
  "(fst (fetch_failure named direct e) = FNotPublished why \<longrightarrow>
      named \<and> direct \<and> (not_found e \<or> ua_status e = Some 400))
   \<and> is_retryable (failure_into_error (fst (fetch_failure named False e)) nm)
   \<and> (is_retryable (failure_into_error f nm) \<longleftrightarrow> (\<exists>u. f = FUnavailable u))"
  using fetch_failure_not_published fetch_failure_cache failure_into_error_retryable_iff by blast

theorem only_the_vendor_denies_a_piece_witness:
  "fst (fetch_failure True True \<lparr>ua_status = Some 404, ua_retry_after = None, ua_detail = ''x''\<rparr>) =
     FNotPublished ''the vendor does not publish it (x)''
   \<and> is_retryable (failure_into_error (fst (fetch_failure True False
       \<lparr>ua_status = Some 404, ua_retry_after = None, ua_detail = ''x''\<rparr>)) ''p'')"
  using only_the_vendor_denies_a_piece [of True True
      "\<lparr>ua_status = Some 404, ua_retry_after = None, ua_detail = ''x''\<rparr>"]
    only_the_vendor_denies_a_piece [of True False
      "\<lparr>ua_status = Some 404, ua_retry_after = None, ua_detail = ''x''\<rparr>" "[]" "''p''"]
  by (simp add: fetch_failure_def not_found_def)

text \<open>A piece is acceptable exactly when it has been issued, its next issue is at
  most seven days overdue, and it is not below its version floor: a piece with no
  version never meets a floor.\<close>

theorem acceptable_window:
  assumes "\<And>n. next_update d = Some n \<Longrightarrow> - (2 ^ 63) \<le> n + GRACE \<and> n + GRACE \<le> I64_MAX"
  shows "acceptable (used_new nm src d f now) \<longleftrightarrow>
    is_none_or (\<lambda>t. t \<le> now) (this_update d) \<and> is_none_or (\<lambda>n. now \<le> n + 7 * 24 * 3600) (next_update d)
    \<and> is_none_or (\<lambda>m. \<exists>v. dt_version d = Some v \<and> m \<le> v) f"
proof -
  have "is_none_or (\<lambda>n. now \<le> n \<or> now \<le> sat_i64 (n + GRACE)) (next_update d) \<longleftrightarrow>
      is_none_or (\<lambda>n. now \<le> n + 7 * 24 * 3600) (next_update d)"
    using assms sat_i64_id by (cases "next_update d") (auto simp: GRACE_def)
  then show ?thesis by (simp add: acceptable_iff)
qed

theorem acceptable_window_witness:
  "acceptable (used_new ''x'' Held (toy_dates 3) (Some 2) 2604800)
   \<and> \<not> acceptable (used_new ''x'' Held (toy_dates 3) (Some 2) 2604801)"
  using acceptable_window [of "toy_dates 3" "''x''" Held "Some 2" 2604800]
    acceptable_window [of "toy_dates 3" "''x''" Held "Some 2" 2604801]
  by (simp add: toy_dates_def window_def GRACE_def I64_MAX_def)

text \<open>A piece with a validity window of more than four days is refreshed in the last
  quarter of the window, at a moment that varies, and always more than a day before its
  next issue is due.\<close>

theorem refreshed_before_due:
  assumes "this_update d = Some t" "next_update d = Some n" "t + 4 * (24 * 3600) < n"
  shows "t + (n - t) div 4 * 3 \<le> refresh_at d r \<and> refresh_at d r < n - 24 * 3600"
proof -
  have "(n - t) sdiv 4 = (n - t) div 4" using assms(3) by (simp add: signed_divide_int_def)
  with refresh_at_window [OF assms] show ?thesis by simp
qed

theorem refreshed_before_due_witness:
  "refresh_at (toy_dates 3) 12345 < 2000000 - 24 * 3600"
  using refreshed_before_due [of "toy_dates 3" 1000 2000000 12345] by (simp add: toy_dates_def window_def)

text \<open>What the disk cache gives back for a URL is what was last written for it; a
  write for another URL never changes it into something else, even when the shortened
  hashes that name the two files collide (then it can only go missing).\<close>

theorem disk_cache_keeps_urls_apart:
  assumes c: "codec_ok dl"
    and l: "length (dl_to_vec dl \<lparr>sd_url = url, sd_body = dl_b64_encode dl body, sd_issuer_chain = ch\<rparr>) \<le> MAX_FILE"
    and n: "url \<noteq> url'"
  shows "disk_read dl (disk_write dl True fs url body ch) url = Some (body, ch)
    \<and> (\<forall>r. disk_read dl (disk_write dl True fs url body ch) url' = Some r \<longrightarrow> disk_read dl fs url' = Some r)"
  using disk_read_write [OF c l] disk_read_write_other [OF c n] by blast

text \<open>A form of stored responses that reads back, with all files under one name.\<close>

definition plain :: "string \<Rightarrow> bytes" where
  "plain s = replicate (length s) 1 @ 0 # str_bytes s"

definition plain_to_vec :: "stored \<Rightarrow> bytes" where
  "plain_to_vec s = plain (sd_url s) @ plain (sd_body s)
     @ (case sd_issuer_chain s of None \<Rightarrow> [] | Some c \<Rightarrow> 1 # str_bytes c)"

definition take_plain :: "bytes \<Rightarrow> string \<times> bytes" where
  "take_plain b = (let n = length (takeWhile (\<lambda>x. x = 1) b); r = drop (n + 1) b
                   in (bytes_str (take n r), drop n r))"

definition plain_from_slice :: "bytes \<Rightarrow> stored option" where
  "plain_from_slice b = (let (url, r) = take_plain b; (body, r) = take_plain r
     in Some \<lparr>sd_url = url, sd_body = body,
              sd_issuer_chain = (case r of [] \<Rightarrow> None | _ # c \<Rightarrow> Some (bytes_str c))\<rparr>)"

definition plain_disk :: disk_lib where
  "plain_disk = toy_disk\<lparr>dl_to_vec := plain_to_vec, dl_from_slice := plain_from_slice,
     dl_hex := \<lparr>hex_encode = (\<lambda>_. []), hex_decode = (\<lambda>_. None)\<rparr>,
     dl_b64_encode := bytes_str, dl_b64_decode := (\<lambda>s. Some (str_bytes s))\<rparr>"

lemma takeWhile_ones: "takeWhile (\<lambda>x. x = (1 :: u8)) (replicate n 1 @ 0 # xs) = replicate n 1"
  by (induction n) simp_all

lemma take_plain: "take_plain (plain s @ r) = (s, r)"
proof -
  have "takeWhile (\<lambda>x. x = 1) (plain s @ r) = replicate (length s) 1"
    by (simp add: plain_def takeWhile_ones)
  moreover have "drop (length s + 1) (plain s @ r) = str_bytes s @ r"
    by (simp add: plain_def)
  ultimately show ?thesis unfolding take_plain_def Let_def by (simp only: length_replicate) simp
qed

lemma plain_codec: "codec_ok plain_disk"
  by (auto simp: codec_ok_def plain_disk_def toy_disk_def plain_from_slice_def plain_to_vec_def take_plain
      split: option.splits list.splits)

theorem disk_cache_keeps_urls_apart_witness:
  "disk_read plain_disk (disk_write plain_disk True Map.empty ''a'' [1, 2] None) ''a'' = Some ([1, 2], None)"
  using disk_cache_keeps_urls_apart [OF plain_codec, of "''a''" "[1, 2]" None "''b''" Map.empty]
  by (simp add: plain_disk_def toy_disk_def plain_to_vec_def plain_def MAX_FILE_def)

end
