(* ===== verification/Tpm.thy ===== *)
theory Tpm
  imports Utils
begin

text \<open>
  \<open>crates/attestation/src/platforms/tpm_common.rs\<close>: the vTPM side of the two
  Azure platforms. The HCL report is split into the TEE report and the
  variable data that holds the AK public key; the quote message (TPMS_ATTEST) is
  parsed for its nonce, its PCR selection and its PCR digest. RSA and the JSON
  parser are parameters. What detects a vTPM on the local machine is left out.
\<close>

section \<open>Constants and readers\<close>

definition INIT_DATA_PCR :: nat where "INIT_DATA_PCR = 8"
definition TPM_ALG_RSA :: u16 where "TPM_ALG_RSA = 0x0001"
definition TPM_ALG_NULL :: u16 where "TPM_ALG_NULL = 0x0010"
definition TPM_ATTEST_MAGIC :: u32 where "TPM_ATTEST_MAGIC = 0xFF544347"
definition RSA_DEFAULT_EXPONENT :: bytes where "RSA_DEFAULT_EXPONENT = [0x01, 0x00, 0x01]"
definition TPM_ST_ATTEST_QUOTE :: u16 where "TPM_ST_ATTEST_QUOTE = 0x8018"
definition TPM_ALG_SHA256 :: u16 where "TPM_ALG_SHA256 = 0x000B"

definition read_be_u16 :: "bytes \<Rightarrow> nat \<Rightarrow> string \<Rightarrow> u16 res" where
  "read_be_u16 data off field =
     ok_or (QuoteParseFailed (''truncated at '' @ field))
       (map_option u16_from_be_bytes (get_range data off (off + 2)))"

definition read_be_u32 :: "bytes \<Rightarrow> nat \<Rightarrow> string \<Rightarrow> u32 res" where
  "read_be_u32 data off field =
     ok_or (QuoteParseFailed (''truncated at '' @ field))
       (map_option u32_from_be_bytes (get_range data off (off + 4)))"

section \<open>The HCL report\<close>

definition HCL_MAGIC :: bytes where "HCL_MAGIC = str_bytes ''HCLA''"
definition HCL_TEE_REPORT_OFFSET :: nat where "HCL_TEE_REPORT_OFFSET = 32"
definition HCL_TEE_REPORT_SIZE :: nat where "HCL_TEE_REPORT_SIZE = 1184"
definition HCL_VARDATA_HEADER_SIZE :: nat where "HCL_VARDATA_HEADER_SIZE = 20"
definition HCL_REPORT_TYPE_SNP :: u32 where "HCL_REPORT_TYPE_SNP = 2"
definition HCL_REPORT_TYPE_TDX :: u32 where "HCL_REPORT_TYPE_TDX = 4"

definition verify_hcl_var_data_binding :: "hash_lib \<Rightarrow> bytes \<Rightarrow> bytes \<Rightarrow> unit res" where
  "verify_hcl_var_data_binding h report_data var_data =
     (let hash = sha256 h var_data in
      and_then (ok_or (QuoteParseFailed ''report_data shorter than 32 bytes'') (get_range report_data 0 32))
        (\<lambda>prefix.
          if \<not> constant_time_eq prefix hash
          then Inl (SignatureVerificationFailed ''HCL var_data binding failed'')
          else Inr ()))"

record hcl_report =
  hcl_tee_report :: bytes
  hcl_report_type :: u32
  hcl_var_data :: bytes

definition parse_hcl_report :: "bytes \<Rightarrow> hcl_report res" where
  "parse_hcl_report r =
     (let tee_report_end = HCL_TEE_REPORT_OFFSET + HCL_TEE_REPORT_SIZE;
          content_start = tee_report_end + HCL_VARDATA_HEADER_SIZE in
      if length r < content_start then Inl (QuoteParseFailed ''HCL report too short'')
      else and_then (at_range r 0 4) (\<lambda>magic.
      if magic \<noteq> HCL_MAGIC then Inl (QuoteParseFailed ''invalid HCL magic'')
      else and_then (at_range r HCL_TEE_REPORT_OFFSET tee_report_end) (\<lambda>tee_report.
      and_then (at_range r tee_report_end content_start) (\<lambda>header.
      and_then (at_range header 8 12) (\<lambda>type_bytes.
      and_then (at_range header 16 20) (\<lambda>length_bytes.
      let report_type = u32_from_le_bytes type_bytes;
          content_length = unat (u32_from_le_bytes length_bytes);
          available = length r - content_start in
      if content_length > available
      then Inl (QuoteParseFailed ''HCL content_length exceeds available data'')
      else and_then (at_range r content_start (content_start + content_length)) (\<lambda>content.
      let trimmed_len = (case rposition (\<lambda>b. b \<noteq> 0) content of None \<Rightarrow> 0 | Some i \<Rightarrow> i + 1) in
      if trimmed_len = 0 then Inl (QuoteParseFailed ''HCL var_data is empty'')
      else and_then (at_range content 0 trimmed_len) (\<lambda>var_data.
      Inr \<lparr>hcl_tee_report = tee_report, hcl_report_type = report_type,
           hcl_var_data = var_data\<rparr>))))))))"

section \<open>The AK public key\<close>

text \<open>\<open>json[key]\<close>: null where there is no such member.\<close>

definition json_index :: "string \<Rightarrow> json \<Rightarrow> json" where
  "json_index k j = (case json_get k j of None \<Rightarrow> JNull | Some v \<Rightarrow> v)"

definition str_or_empty :: "json \<Rightarrow> string" where
  "str_or_empty j = (case as_str j of None \<Rightarrow> [] | Some s \<Rightarrow> s)"

fun find_ak_key :: "(string \<Rightarrow> bytes option) \<Rightarrow> json list \<Rightarrow> (bytes \<times> bytes) res" where
  "find_ak_key b64url [] = Inl (QuoteParseFailed ''no HCLAkPub RSA key'')"
| "find_ak_key b64url (key # keys) =
     (let kid = str_or_empty (json_index ''kid'' key);
          kty = str_or_empty (json_index ''kty'' key) in
      if kid = ''HCLAkPub'' \<and> kty = ''RSA''
      then and_then (ok_or (QuoteParseFailed ''missing n'') (as_str (json_index ''n'' key))) (\<lambda>n_b64.
           and_then (ok_or (QuoteParseFailed ''missing e'') (as_str (json_index ''e'' key))) (\<lambda>e_b64.
           and_then (ok_or (QuoteParseFailed ''n base64'') (b64url n_b64)) (\<lambda>modulus.
           and_then (ok_or (QuoteParseFailed ''e base64'') (b64url e_b64)) (\<lambda>exponent.
           Inr (modulus, exponent)))))
      else find_ak_key b64url keys)"

definition extract_ak_pub_from_jwk_json ::
  "(bytes \<Rightarrow> json option) \<Rightarrow> (string \<Rightarrow> bytes option) \<Rightarrow> bytes \<Rightarrow> (bytes \<times> bytes) res" where
  "extract_ak_pub_from_jwk_json json_from_slice b64url json_bytes =
     and_then (ok_or (QuoteParseFailed ''HCL var_data JSON'') (json_from_slice json_bytes)) (\<lambda>j.
     and_then (ok_or (QuoteParseFailed ''missing keys'') (as_array (json_index ''keys'' j)))
       (find_ak_key b64url))"

definition extract_ak_pub_from_var_data :: "bytes \<Rightarrow> (bytes \<times> bytes) res" where
  "extract_ak_pub_from_var_data d =
     (if length d < 14 then Inl (QuoteParseFailed ''var_data too short'')
      else and_then (read_be_u16 d 0 ''size'') (\<lambda>pub_size.
      if 2 + unat pub_size > length d
      then Inl (QuoteParseFailed ''declared size exceeds available data'')
      else and_then (read_be_u16 d 2 ''type'') (\<lambda>alg_type.
      if alg_type \<noteq> TPM_ALG_RSA then Inl (SignatureVerificationFailed ''AK key type is not RSA'')
      else and_then (read_be_u16 d 4 ''nameAlg'') (\<lambda>_.
      and_then (read_be_u16 d 10 ''authPolicy size'') (\<lambda>auth_size.
      let off = 10 + (2 + unat auth_size) in
      if off + 10 > length d then Inl (QuoteParseFailed ''truncated at RSA params'')
      else and_then (read_be_u16 d off ''symmetric alg'') (\<lambda>sym_alg.
      let off = off + 2; off = (if sym_alg \<noteq> TPM_ALG_NULL then off + 6 else off) in
      and_then (read_be_u16 d off ''scheme alg'') (\<lambda>scheme_alg.
      let off = off + 2; off = (if scheme_alg \<noteq> TPM_ALG_NULL then off + 2 else off) in
      if off + 6 > length d then Inl (QuoteParseFailed ''truncated at keyBits'')
      else and_then (read_be_u16 d off ''keyBits'') (\<lambda>_.
      let off = off + 2 in
      and_then (read_be_u32 d off ''exponent'') (\<lambda>exp_val.
      let off = off + 4;
          exponent = (if exp_val = 0 then RSA_DEFAULT_EXPONENT else be_bytes 4 (unat exp_val)) in
      and_then (read_be_u16 d off ''modulus size'') (\<lambda>mod_size.
      let off = off + 2 in
      if off + unat mod_size > length d then Inl (QuoteParseFailed ''truncated at modulus'')
      else and_then (at_range d off (off + unat mod_size)) (\<lambda>modulus.
      Inr (modulus, exponent))))))))))))"

text \<open>The RSA crate: a key from modulus and exponent, a signature from its
  bytes, PKCS#1 v1.5 verification over SHA-256.\<close>

record ('key, 'sig) rsa_lib =
  rsa_new :: "bytes \<Rightarrow> bytes \<Rightarrow> 'key option"
  rsa_signature :: "bytes \<Rightarrow> 'sig option"
  rsa_verify :: "'key \<Rightarrow> bytes \<Rightarrow> 'sig \<Rightarrow> bool"

definition ak_pub ::
  "(bytes \<Rightarrow> json option) \<Rightarrow> (string \<Rightarrow> bytes option) \<Rightarrow> bytes \<Rightarrow> (bytes \<times> bytes) res" where
  "ak_pub json_from_slice b64url var_data =
     (case extract_ak_pub_from_jwk_json json_from_slice b64url var_data of
        Inr k \<Rightarrow> Inr k
      | Inl _ \<Rightarrow> extract_ak_pub_from_var_data var_data)"

definition verify_tpm_signature ::
  "(bytes \<Rightarrow> json option) \<Rightarrow> (string \<Rightarrow> bytes option) \<Rightarrow> ('key, 'sig) rsa_lib
     \<Rightarrow> bytes \<Rightarrow> bytes \<Rightarrow> bytes \<Rightarrow> unit res" where
  "verify_tpm_signature json_from_slice b64url rsa signature message var_data =
     and_then (ak_pub json_from_slice b64url var_data) (\<lambda>(modulus, exponent).
     and_then (ok_or (SignatureVerificationFailed ''construct RSA key'') (rsa_new rsa modulus exponent)) (\<lambda>key.
     and_then (ok_or (SignatureVerificationFailed ''parse RSA sig'') (rsa_signature rsa signature)) (\<lambda>sig.
     require (rsa_verify rsa key message sig) (SignatureVerificationFailed ''TPM RSA PKCS1v15 SHA-256''))))"

section \<open>Lemmas\<close>

lemma read_be_u16_Inr_iff [res_simps]:
  "read_be_u16 d off f = Inr w \<longleftrightarrow> off + 2 \<le> length d \<and> w = u16_from_be_bytes (slice d off (off + 2))"
  by (auto simp: read_be_u16_def get_range_def)

lemma read_be_u32_Inr_iff [res_simps]:
  "read_be_u32 d off f = Inr w \<longleftrightarrow> off + 4 \<le> length d \<and> w = u32_from_be_bytes (slice d off (off + 4))"
  by (auto simp: read_be_u32_def get_range_def)

lemma read_be_u16_at:
  "b = a + 2 \<Longrightarrow> b \<le> length d \<Longrightarrow> slice d a b = x \<Longrightarrow>
     read_be_u16 d a f = Inr (u16_from_be_bytes x)"
  by (simp add: read_be_u16_Inr_iff)

lemma read_be_u32_at:
  "b = a + 4 \<Longrightarrow> b \<le> length d \<Longrightarrow> slice d a b = x \<Longrightarrow>
     read_be_u32 d a f = Inr (u32_from_be_bytes x)"
  by (simp add: read_be_u32_Inr_iff)

lemma read_be_u16_not_panic [panic_free, simp]: "read_be_u16 d off f \<noteq> Inl Panicked"
  by (auto simp: read_be_u16_def ok_or_Inl_iff)

lemma read_be_u32_not_panic [panic_free, simp]: "read_be_u32 d off f \<noteq> Inl Panicked"
  by (auto simp: read_be_u32_def ok_or_Inl_iff)

lemma verify_hcl_var_data_binding_Inr_iff [res_simps]:
  "verify_hcl_var_data_binding h rd vd = Inr u \<longleftrightarrow> 32 \<le> length rd \<and> take 32 rd = sha256 h vd"
  by (auto simp: verify_hcl_var_data_binding_def res_simps Let_def slice_def)

lemmas hcl_sizes = HCL_TEE_REPORT_OFFSET_def HCL_TEE_REPORT_SIZE_def HCL_VARDATA_HEADER_SIZE_def

lemma parse_hcl_report_not_panic [panic_free]: "parse_hcl_report r \<noteq> Inl Panicked"
proof
  assume "parse_hcl_report r = Inl Panicked"
  then show False
    unfolding parse_hcl_report_def hcl_sizes
    by (auto simp: err_simps res_simps Let_def split: if_splits option.splits dest: rposition_Some)
qed

lemma parse_hcl_report_Inr:
  assumes "parse_hcl_report r = Inr p"
  defines "n \<equiv> unat (u32_from_le_bytes (slice r 1232 1236))"
  shows "1236 + n \<le> length r" and "take 4 r = HCL_MAGIC"
    and "hcl_tee_report p = slice r 32 1216"
    and "hcl_report_type p = u32_from_le_bytes (slice r 1224 1228)"
    and "hcl_var_data p = strip_trailing_nulls (slice r 1236 (1236 + n))"
    and "hcl_var_data p \<noteq> []"
proof -
  let ?c = "slice r 1236 (1236 + n)"
  let ?t = "case rposition (\<lambda>b. b \<noteq> 0) ?c of None \<Rightarrow> 0 | Some i \<Rightarrow> i + 1"
  have len: "1236 \<le> length r"
    using assms(1) unfolding parse_hcl_report_def hcl_sizes by (simp split: if_splits)
  then have *: "1236 + n \<le> length r \<and> take 4 r = HCL_MAGIC \<and> ?t \<noteq> 0 \<and>
      p = \<lparr>hcl_tee_report = slice r 32 1216,
          hcl_report_type = u32_from_le_bytes (slice r 1224 1228), hcl_var_data = take ?t ?c\<rparr>"
    using assms(1) unfolding parse_hcl_report_def hcl_sizes n_def
    by (simp add: res_simps Let_def slice_slice split: if_splits)
  then have "take ?t ?c \<noteq> []" using rposition_Some [of _ ?c] by (auto split: option.splits)
  with * show "1236 + n \<le> length r" "take 4 r = HCL_MAGIC" "hcl_tee_report p = slice r 32 1216"
    "hcl_report_type p = u32_from_le_bytes (slice r 1224 1228)"
    "hcl_var_data p = strip_trailing_nulls ?c" "hcl_var_data p \<noteq> []"
    by (simp_all add: strip_trailing_nulls_def)
qed

text \<open>The layout the parser reads: what Azure's HCL writes.\<close>

definition hcl_report_bytes :: "bytes \<Rightarrow> bytes \<Rightarrow> bytes \<Rightarrow> u32 \<Rightarrow> bytes \<Rightarrow> bytes \<Rightarrow> nat \<Rightarrow> bytes" where
  "hcl_report_bytes rest_of_header tee a ty b var_data pad =
     HCL_MAGIC @ rest_of_header @ tee @ a @ le_bytes 4 (unat ty) @ b
       @ le_bytes 4 (length var_data + pad) @ var_data @ replicate pad 0"

lemma parse_hcl_report_bytes:
  assumes "length rest = 28" "length tee = 1184" "length a = 8" "length b = 4"
    and vd: "vd \<noteq> []" "last vd \<noteq> 0" and n: "length vd + pad < 2 ^ 32"
  shows "parse_hcl_report (hcl_report_bytes rest tee a ty b vd pad) =
           Inr \<lparr>hcl_tee_report = tee, hcl_report_type = ty, hcl_var_data = vd\<rparr>"
proof -
  let ?r = "hcl_report_bytes rest tee a ty b vd pad" and ?c = "vd @ replicate pad 0"
  note lens = assms(1-4)
  have l: "length ?r = 1236 + length ?c"
    by (simp add: hcl_report_bytes_def HCL_MAGIC_def lens)
  have f: "take 4 ?r = HCL_MAGIC" "slice ?r 32 1216 = tee"
    "slice ?r 1224 1228 = le_bytes 4 (unat ty)"
    "slice ?r 1232 1236 = le_bytes 4 (length vd + pad)"
    "slice ?r 1236 (1236 + length ?c) = ?c"
    by (simp_all add: hcl_report_bytes_def HCL_MAGIC_def slice_def lens)
  have cl: "unat (u32_from_le_bytes (le_bytes 4 (length vd + pad))) = length vd + pad"
    using n by (simp add: unat_u32_from_le_bytes le_nat_le_bytes)
  have st: "strip_trailing_nulls ?c = vd" using vd by (intro strip_trailing_nulls_pad) simp
  obtain t where t: "rposition (\<lambda>b. b \<noteq> 0) ?c = Some t" "take (t + 1) ?c = vd"
    using st vd(1) by (cases "rposition (\<lambda>b. b \<noteq> 0) ?c") (auto simp: strip_trailing_nulls_def)
  then have "t + 1 \<le> length ?c" using rposition_Some [OF t(1)] by simp
  with l f cl t show ?thesis
    unfolding parse_hcl_report_def hcl_sizes
    by (simp add: slice_slice Let_def u32_from_le_bytes_le_bytes)
qed

text \<open>The second form of the variable data: a TPM2B_PUBLIC with an RSA key.\<close>

lemma extract_ak_pub_from_var_data_not_panic [panic_free]:
  "extract_ak_pub_from_var_data d \<noteq> Inl Panicked"
proof
  assume "extract_ak_pub_from_var_data d = Inl Panicked"
  then show False
    unfolding extract_ak_pub_from_var_data_def
    by (auto simp: err_simps Let_def split: if_splits)
qed

definition tpm2b_public_bytes :: "u16 \<Rightarrow> bytes \<Rightarrow> bytes \<Rightarrow> u16 \<Rightarrow> u32 \<Rightarrow> bytes \<Rightarrow> bytes" where
  "tpm2b_public_bytes name_alg attrs policy bits e modulus =
     (let body = be_bytes 2 (unat TPM_ALG_RSA) @ be_bytes 2 (unat name_alg) @ attrs
            @ be_bytes 2 (length policy) @ policy
            @ be_bytes 2 (unat TPM_ALG_NULL) @ be_bytes 2 (unat TPM_ALG_NULL)
            @ be_bytes 2 (unat bits) @ be_bytes 4 (unat e)
            @ be_bytes 2 (length modulus) @ modulus
      in be_bytes 2 (length body) @ body)"

lemma u16_be_length [byte_simps]: "n < 65536 \<Longrightarrow> unat (u16_from_be_bytes (be_bytes 2 n)) = n"
  by (simp add: unat_u16_from_be_bytes be_nat_be_bytes)

lemma extract_ak_pub_tpm2b_public:
  assumes "length attrs = 4" and fits: "length policy + length modulus + 22 < 65536"
  shows "extract_ak_pub_from_var_data (tpm2b_public_bytes name_alg attrs policy bits e modulus) =
           Inr (modulus, if e = 0 then RSA_DEFAULT_EXPONENT else be_bytes 4 (unat e))"
proof -
  let ?d = "tpm2b_public_bytes name_alg attrs policy bits e modulus"
  let ?p = "length policy"
  have l: "length ?d = 24 + ?p + length modulus"
    by (simp add: tpm2b_public_bytes_def Let_def assms(1))
  have f: "slice ?d 0 2 = be_bytes 2 (22 + ?p + length modulus)"
    "slice ?d 2 4 = be_bytes 2 (unat TPM_ALG_RSA)"
    "slice ?d 10 12 = be_bytes 2 ?p"
    "slice ?d (12 + ?p) (14 + ?p) = be_bytes 2 (unat TPM_ALG_NULL)"
    "slice ?d (14 + ?p) (16 + ?p) = be_bytes 2 (unat TPM_ALG_NULL)"
    "slice ?d (18 + ?p) (22 + ?p) = be_bytes 4 (unat e)"
    "slice ?d (22 + ?p) (24 + ?p) = be_bytes 2 (length modulus)"
    "slice ?d (24 + ?p) (24 + ?p + length modulus) = modulus"
    by (simp_all add: tpm2b_public_bytes_def Let_def slice_def assms(1) algebra_simps)
  define d where "d = ?d"
  have len: "length d = 24 + ?p + length modulus" by (simp add: d_def l)
  have r4: "\<exists>w. read_be_u16 d 4 x = Inr w" for x
    by (simp add: read_be_u16_def get_range_def len)
  have r16: "\<exists>w. read_be_u16 d (16 + ?p) x = Inr w" for x
    by (simp add: read_be_u16_def get_range_def len)
  have r: "read_be_u16 d 0 x = Inr (u16_from_be_bytes (be_bytes 2 (22 + ?p + length modulus)))"
    "read_be_u16 d 2 x = Inr TPM_ALG_RSA"
    "read_be_u16 d 10 x = Inr (u16_from_be_bytes (be_bytes 2 ?p))"
    "read_be_u16 d (12 + ?p) x = Inr TPM_ALG_NULL"
    "read_be_u16 d (14 + ?p) x = Inr TPM_ALG_NULL"
    "read_be_u32 d (18 + ?p) x = Inr e"
    "read_be_u16 d (22 + ?p) x = Inr (u16_from_be_bytes (be_bytes 2 (length modulus)))"
    "at_range d (24 + ?p) (24 + ?p + length modulus) = Inr modulus" for x
    using f unfolding d_def [symmetric]
    by (simp_all add: read_be_u16_def read_be_u32_def get_range_def len byte_simps)
  have n: "unat (u16_from_be_bytes (be_bytes 2 (22 + ?p + length modulus))) = 22 + ?p + length modulus"
    "unat (u16_from_be_bytes (be_bytes 2 ?p)) = ?p"
    "unat (u16_from_be_bytes (be_bytes 2 (length modulus))) = length modulus"
    using fits by (simp_all only: u16_be_length)
  have o: "10 + (2 + ?p) = 12 + ?p" "12 + ?p + 2 = 14 + ?p" "14 + ?p + 2 = 16 + ?p"
    "16 + ?p + 2 = 18 + ?p" "18 + ?p + 4 = 22 + ?p" "22 + ?p + 2 = 24 + ?p"
    by simp_all
  obtain w4 w16 where "read_be_u16 d 4 ''nameAlg'' = Inr w4" "read_be_u16 d (16 + ?p) ''keyBits'' = Inr w16"
    using r4 r16 by blast
  then show ?thesis
    unfolding extract_ak_pub_from_var_data_def d_def [symmetric]
    by (simp add: len r n o Let_def)
qed

text \<open>A key, wherever it came from, was in the variable data.\<close>

lemma find_ak_key_Inr:
  "find_ak_key b64url keys = Inr (n, e) \<Longrightarrow>
     \<exists>key \<in> set keys. json_get ''kid'' key = Some (JStr ''HCLAkPub'')
       \<and> json_get ''kty'' key = Some (JStr ''RSA'')
       \<and> (\<exists>s t. json_get ''n'' key = Some (JStr s) \<and> b64url s = Some n
              \<and> json_get ''e'' key = Some (JStr t) \<and> b64url t = Some e)"
proof (induction keys)
  case (Cons key keys)
  show ?case
  proof (cases "str_or_empty (json_index ''kid'' key) = ''HCLAkPub''
      \<and> str_or_empty (json_index ''kty'' key) = ''RSA''")
    case True
    with Cons.prems show ?thesis
      by (auto simp: res_simps str_or_empty_def json_index_def split: option.splits)
  qed (use Cons in auto)
qed simp

lemma find_ak_key_not_panic: "find_ak_key b64url keys \<noteq> Inl Panicked"
  by (induction keys) (auto simp: err_simps Let_def)

lemma verify_tpm_signature_Inr_iff [res_simps]:
  "verify_tpm_signature js b64url rsa sig msg vd = Inr u \<longleftrightarrow>
     (\<exists>n e key s. ak_pub js b64url vd = Inr (n, e) \<and> rsa_new rsa n e = Some key
        \<and> rsa_signature rsa sig = Some s \<and> rsa_verify rsa key msg s)"
  by (auto simp: verify_tpm_signature_def res_simps split: prod.splits)

lemma verify_tpm_signature_not_panic [panic_free]:
  "verify_tpm_signature js b64url rsa sig msg vd \<noteq> Inl Panicked"
  using extract_ak_pub_from_var_data_not_panic
  by (auto simp: verify_tpm_signature_def ak_pub_def err_simps split: prod.splits sum.splits)

end
