(* ===== verification/TpmQuote.thy ===== *)
theory TpmQuote
  imports Tpm
begin

text \<open>
  The quote message of \<open>tpm_common.rs\<close>: the nonce, the PCR selection and
  digest, and the checks over them. The loop over PCR selections is a recursion
  on the announced count, which a message can set to any \<open>u32\<close>.
\<close>

section \<open>The nonce\<close>

definition extract_tpm_nonce :: "bytes \<Rightarrow> bytes res" where
  "extract_tpm_nonce m =
     (if length m < 10 then Inl (QuoteParseFailed ''TPM Attest message too short'')
      else and_then (read_be_u32 m 0 ''TPM magic'') (\<lambda>magic.
      if magic \<noteq> TPM_ATTEST_MAGIC then Inl (QuoteParseFailed ''invalid TPM Attest magic'')
      else and_then (read_be_u16 m 6 ''qualifiedSigner size'') (\<lambda>signer_size.
      let off = 6 + (2 + unat signer_size) in
      and_then (read_be_u16 m off ''extraData size'') (\<lambda>nonce_size.
      let off = off + 2 in
      if length m < off + unat nonce_size then Inl (QuoteParseFailed ''truncated at nonce data'')
      else at_range m off (off + unat nonce_size)))))"

definition tpm_nonce_matches :: "bytes \<Rightarrow> bytes \<Rightarrow> bool res" where
  "tpm_nonce_matches m expected =
     and_then (extract_tpm_nonce m) (\<lambda>nonce. Inr (constant_time_eq nonce expected))"

section \<open>The quote\<close>

record quote_info =
  qi_attest_type :: u16
  qi_hash_algs :: "u16 list"
  qi_selected_pcrs :: "nat list"
  qi_digest :: bytes

definition is_sha256_quote :: "quote_info \<Rightarrow> bool" where
  "is_sha256_quote q = (qi_attest_type q = TPM_ST_ATTEST_QUOTE \<and> qi_hash_algs q = [TPM_ALG_SHA256])"

definition byte_pcrs :: "nat \<Rightarrow> u8 \<Rightarrow> nat list" where
  "byte_pcrs byte_idx byte =
     map (\<lambda>bit_idx. byte_idx * 8 + bit_idx)
       (filter (\<lambda>bit_idx. byte AND push_bit bit_idx 1 \<noteq> 0) [0..<8])"

definition bitmap_pcrs :: "bytes \<Rightarrow> nat \<Rightarrow> nat \<Rightarrow> nat list res" where
  "bitmap_pcrs m off select_size =
     and_then (traverse (\<lambda>i. and_then (at_index m (off + i)) (\<lambda>b. Inr (byte_pcrs i b))) [0..<select_size])
       (\<lambda>rows. Inr (concat rows))"

fun parse_selections ::
  "nat \<Rightarrow> bytes \<Rightarrow> nat \<Rightarrow> u16 list \<Rightarrow> nat list \<Rightarrow> (nat \<times> u16 list \<times> nat list) res" where
  "parse_selections 0 m off algs pcrs = Inr (off, algs, pcrs)"
| "parse_selections (Suc n) m off algs pcrs =
     and_then (read_be_u16 m off ''PCR hash alg'') (\<lambda>alg.
     let off = off + 2 in
     if off \<ge> length m then Inl (QuoteParseFailed ''truncated at PCR selection size'')
     else and_then (at_index m off) (\<lambda>size_byte.
     let select_size = unat size_byte; off = off + 1 in
     if off + select_size > length m then Inl (QuoteParseFailed ''truncated at PCR selection bitmap'')
     else and_then (bitmap_pcrs m off select_size) (\<lambda>sel.
     parse_selections n m (off + select_size) (algs @ [alg]) (pcrs @ sel))))"

definition parse_quote_info :: "bytes \<Rightarrow> quote_info res" where
  "parse_quote_info m =
     (if length m < 10 then Inl (QuoteParseFailed ''TPMS_ATTEST too short'')
      else and_then (read_be_u16 m 4 ''attest type'') (\<lambda>attest_type.
      and_then (read_be_u16 m 6 ''qualifiedSigner size'') (\<lambda>signer_size.
      let off = 6 + (2 + unat signer_size) in
      and_then (read_be_u16 m off ''extraData size'') (\<lambda>extra_size.
      let off = off + (2 + unat extra_size) + 17 + 8 in
      and_then (read_be_u32 m off ''PCR selection count'') (\<lambda>count.
      and_then (parse_selections (unat count) m (off + 4) [] []) (\<lambda>(off, hash_algs, selected_pcrs).
      and_then (read_be_u16 m off ''PCR digest size'') (\<lambda>digest_size.
      let off = off + 2 in
      if off + unat digest_size > length m then Inl (QuoteParseFailed ''truncated at PCR digest data'')
      else and_then (at_range m off (off + unat digest_size)) (\<lambda>digest.
      let quote = \<lparr>qi_attest_type = attest_type, qi_hash_algs = hash_algs,
                   qi_selected_pcrs = selected_pcrs, qi_digest = digest\<rparr> in
      if \<not> is_sha256_quote quote
      then Inl (QuoteParseFailed ''not a TPM2_Quote over one SHA-256 PCR selection'')
      else Inr quote))))))))"

text \<open>The loop that concatenates the selected PCR values.\<close>

fun concat_selected :: "bytes list \<Rightarrow> nat list \<Rightarrow> bytes res" where
  "concat_selected pcrs [] = Inr []"
| "concat_selected pcrs (idx # idxs) =
     (if idx \<ge> length pcrs then Inl (QuoteParseFailed ''PCR selection references a missing PCR'')
      else and_then (at_index pcrs idx) (\<lambda>p.
           and_then (concat_selected pcrs idxs) (\<lambda>rest. Inr (p @ rest))))"

definition verify_tpm_pcrs :: "hash_lib \<Rightarrow> bytes \<Rightarrow> bytes list \<Rightarrow> unit res" where
  "verify_tpm_pcrs h m pcrs =
     (if pcrs = [] then Inl (QuoteParseFailed ''no PCR values in TPM quote'')
      else and_then (check_each (\<lambda>p. if length p \<noteq> 32 then Inl (QuoteParseFailed ''PCR size'') else Inr ()) pcrs)
        (\<lambda>_.
      and_then (parse_quote_info m) (\<lambda>q.
      and_then (concat_selected pcrs (qi_selected_pcrs q)) (\<lambda>pcr_concat.
      if \<not> constant_time_eq (sha256 h pcr_concat) (qi_digest q)
      then Inl (QuoteParseFailed ''PCR digest does not match'')
      else Inr ()))))"

section \<open>The evidence and the checks over it\<close>

record tpm_quote =
  tq_signature :: string
  tq_message :: string
  tq_pcrs :: "string list"

definition decode_tpm_quote :: "hex_lib \<Rightarrow> tpm_quote \<Rightarrow> (bytes \<times> bytes \<times> bytes list) res" where
  "decode_tpm_quote hx q =
     and_then (ok_or (EvidenceDeserialize ''TPM sig hex'') (hex_decode hx (tq_signature q))) (\<lambda>sig.
     and_then (ok_or (EvidenceDeserialize ''TPM msg hex'') (hex_decode hx (tq_message q))) (\<lambda>msg.
     and_then (traverse (\<lambda>p. ok_or (EvidenceDeserialize ''PCR hex'') (hex_decode hx p)) (tq_pcrs q)) (\<lambda>pcrs.
     Inr (sig, msg, pcrs))))"

definition check_report_data :: "bytes \<Rightarrow> bytes option \<Rightarrow> bool option res" where
  "check_report_data tpm_msg expected = (case expected of
       None \<Rightarrow> Inr None
     | Some e \<Rightarrow>
         if length e > 64 then Inl (ReportDataTooLarge 64)
         else map_sum id Some (tpm_nonce_matches tpm_msg e))"

definition check_init_data_len :: "bytes option \<Rightarrow> unit res" where
  "check_init_data_len expected = (case expected of
       Some e \<Rightarrow> if length e \<noteq> 32 then Inl (InvalidParams ''init data hash must be exactly 32 bytes'') else Inr ()
     | None \<Rightarrow> Inr ())"

definition check_init_data :: "hash_lib \<Rightarrow> bytes \<Rightarrow> bytes list \<Rightarrow> bytes option \<Rightarrow> bool option res" where
  "check_init_data h tpm_msg tpm_pcrs expected =
     and_then (check_init_data_len expected) (\<lambda>_.
     case expected of
       None \<Rightarrow> Inr None
     | Some e \<Rightarrow>
         and_then (parse_quote_info tpm_msg) (\<lambda>q.
         if INIT_DATA_PCR \<notin> set (qi_selected_pcrs q) then Inr (Some False)
         else if length tpm_pcrs \<le> INIT_DATA_PCR then Inl (QuoteParseFailed ''init_data check requires PCR 8'')
         else
           let extended = sha256_two h (replicate 32 0) e in
           and_then (at_index tpm_pcrs INIT_DATA_PCR) (\<lambda>p. Inr (Some (constant_time_eq p extended)))))"

definition check_pcr_pin_indexes :: "pins \<Rightarrow> unit res" where
  "check_pcr_pin_indexes expected = (case find (\<lambda>i. i > 23) (map fst expected) of
       Some _ \<Rightarrow> Inl (InvalidParams ''PCR index is out of range (0-23)'')
     | None \<Rightarrow> Inr ())"

fun pins_match :: "bytes list \<Rightarrow> nat list \<Rightarrow> pins \<Rightarrow> bool \<Rightarrow> bool" where
  "pins_match tpm_pcrs selected [] all_match = all_match"
| "pins_match tpm_pcrs selected ((i, want) # es) all_match =
     (let index = unat i in
      if index \<notin> set selected then pins_match tpm_pcrs selected es False
      else pins_match tpm_pcrs selected es
             (all_match \<and> (case get_index tpm_pcrs index of
                              None \<Rightarrow> False
                            | Some got \<Rightarrow> constant_time_eq got want)))"

definition check_pcrs :: "bytes \<Rightarrow> bytes list \<Rightarrow> pins \<Rightarrow> bool option res" where
  "check_pcrs tpm_msg tpm_pcrs expected =
     (if expected = [] then Inr None
      else and_then (check_pcr_pin_indexes expected) (\<lambda>_.
      and_then (parse_quote_info tpm_msg) (\<lambda>q.
      if \<not> is_sha256_quote q
      then Inl (QuoteParseFailed ''PCR pins need a TPM2_Quote over one SHA-256 PCR selection'')
      else Inr (Some (pins_match tpm_pcrs (qi_selected_pcrs q) expected True)))))"

section \<open>Claims\<close>

text \<open>\<open>format!("pcr{i:02}")\<close>.\<close>

definition pcr_key :: "nat \<Rightarrow> string" where
  "pcr_key i = ''pcr'' @ (if i < 10 then ''0'' else []) @ dec_string i"

text \<open>\<open>value[key] = v\<close> on a JSON value: null becomes an object, and anything but an
  object panics. The members of an object are kept in key order.\<close>

fun json_set :: "string \<Rightarrow> json \<Rightarrow> json \<Rightarrow> json res" where
  "json_set k v JNull = Inr (JObj [(k, v)])"
| "json_set k v (JObj ms) = Inr (JObj (bt_insert k v ms))"
| "json_set k v _ = Inl Panicked"

definition pcr_map :: "hex_lib \<Rightarrow> bytes list \<Rightarrow> json" where
  "pcr_map hx tpm_pcrs =
     JObj (foldl (\<lambda>m (i, pcr). bt_insert (pcr_key i) (JStr (hex_encode hx pcr)) m) []
             (List.enumerate 0 tpm_pcrs))"

definition tpm_claims :: "hex_lib \<Rightarrow> claims \<Rightarrow> bytes list \<Rightarrow> bytes \<Rightarrow> claims res" where
  "tpm_claims hx base tpm_pcrs tpm_msg =
     (case extract_tpm_nonce tpm_msg of
        Inr nonce \<Rightarrow>
          and_then (json_set ''nonce'' (JStr (hex_encode hx nonce)) (pcr_map hx tpm_pcrs)) (\<lambda>tpm.
          and_then (json_set ''tpm'' tpm (platform_data base)) (\<lambda>pd.
          Inr (base\<lparr>signed_data := strip_trailing_nulls nonce, platform_data := pd\<rparr>)))
      | Inl _ \<Rightarrow>
          and_then (json_set ''tpm'' (pcr_map hx tpm_pcrs) (platform_data base)) (\<lambda>pd.
          Inr (base\<lparr>platform_data := pd\<rparr>)))"

section \<open>Lemmas: the nonce\<close>

lemma extract_tpm_nonce_not_panic [panic_free]: "extract_tpm_nonce m \<noteq> Inl Panicked"
  by (auto simp: extract_tpm_nonce_def err_simps Let_def split: if_splits)

lemma extract_tpm_nonce_magic:
  "extract_tpm_nonce m = Inr n \<Longrightarrow> u32_from_be_bytes (take 4 m) = TPM_ATTEST_MAGIC"
  by (auto simp: extract_tpm_nonce_def res_simps Let_def split: if_splits)

text \<open>A TPMS_ATTEST: magic, type, signer name, extra data, and the rest.\<close>

definition attest_bytes :: "u32 \<Rightarrow> u16 \<Rightarrow> bytes \<Rightarrow> bytes \<Rightarrow> bytes \<Rightarrow> bytes" where
  "attest_bytes magic ty signer extra rest =
     be_bytes 4 (unat magic) @ be_bytes 2 (unat ty) @ be_bytes 2 (length signer) @ signer
       @ be_bytes 2 (length extra) @ extra @ rest"

lemma attest_bytes_reads:
  fixes magic :: u32 and ty :: u16 and rest :: bytes
  assumes "length signer < 65536" "length extra < 65536"
  defines "d \<equiv> attest_bytes magic ty signer extra rest" and "k \<equiv> length signer"
  shows "length d = 10 + k + length extra + length rest"
    and "read_be_u32 d 0 x = Inr magic"
    and "read_be_u16 d 4 x = Inr ty"
    and "\<exists>w. read_be_u16 d 6 x = Inr w \<and> unat w = k"
    and "\<exists>w. read_be_u16 d (8 + k) x = Inr w \<and> unat w = length extra"
    and "slice d (10 + k) (10 + k + length extra) = extra"
    and "drop (10 + k + length extra) d = rest"
proof -
  show len: "length d = 10 + k + length extra + length rest"
    by (simp add: d_def k_def attest_bytes_def)
  have f: "slice d 0 4 = be_bytes 4 (unat magic)" "slice d 4 6 = be_bytes 2 (unat ty)"
    "slice d 6 8 = be_bytes 2 k" "slice d (8 + k) (10 + k) = be_bytes 2 (length extra)"
    and e: "slice d (10 + k) (10 + k + length extra) = extra"
    and r: "drop (10 + k + length extra) d = rest"
    by (simp_all add: d_def k_def attest_bytes_def slice_def)
  show "slice d (10 + k) (10 + k + length extra) = extra" "drop (10 + k + length extra) d = rest"
    by (fact e, fact r)
  show "read_be_u32 d 0 x = Inr magic" "read_be_u16 d 4 x = Inr ty"
    "\<exists>w. read_be_u16 d 6 x = Inr w \<and> unat w = k"
    "\<exists>w. read_be_u16 d (8 + k) x = Inr w \<and> unat w = length extra"
    using f assms(1,2)
    by (simp_all add: read_be_u16_def read_be_u32_def get_range_def len u16_be_length byte_simps k_def)
qed

lemma extract_tpm_nonce_attest_bytes:
  assumes "length signer < 65536" "length extra < 65536"
  shows "extract_tpm_nonce (attest_bytes magic ty signer extra rest) =
           (if magic = TPM_ATTEST_MAGIC then Inr extra
            else Inl (QuoteParseFailed ''invalid TPM Attest magic''))"
proof -
  define d where "d = attest_bytes magic ty signer extra rest"
  define k where "k = length signer"
  note a = attest_bytes_reads [OF assms, of magic ty rest, folded d_def k_def]
  obtain w6 where w6: "read_be_u16 d 6 ''qualifiedSigner size'' = Inr w6" "unat w6 = k"
    using a(4) by blast
  obtain w8 where w8: "read_be_u16 d (8 + k) ''extraData size'' = Inr w8" "unat w8 = length extra"
    using a(5) by blast
  show ?thesis
    unfolding extract_tpm_nonce_def d_def [symmetric]
    using a(1,6) w6 w8 by (simp add: a(2) Let_def add.assoc)
qed

section \<open>Lemmas: the quote\<close>

lemma bitmap_pcrs_Inr_iff:
  "bitmap_pcrs m off n = Inr ps \<longleftrightarrow>
     (n = 0 \<or> off + n \<le> length m) \<and> ps = concat (map (\<lambda>i. byte_pcrs i (m ! (off + i))) [0..<n])"
proof -
  have *: "traverse (\<lambda>i. and_then (at_index m (off + i)) (\<lambda>b. Inr (byte_pcrs i b))) [0..<n] = Inr rows
      \<longleftrightarrow> (\<forall>i < n. off + i < length m) \<and> rows = map (\<lambda>i. byte_pcrs i (m ! (off + i))) [0..<n]" for rows
  proof -
    have "traverse (\<lambda>i. and_then (at_index m (off + i)) (\<lambda>b. Inr (byte_pcrs i b))) [0..<n] = Inr rows
      \<longleftrightarrow> list_all2 (\<lambda>i y. off + i < length m \<and> y = byte_pcrs i (m ! (off + i))) [0..<n] rows"
      unfolding traverse_Inr_iff by (rule arg_cong [where f = "\<lambda>r. list_all2 r _ _"]) (auto simp: fun_eq_iff res_simps)
    also have "\<dots> \<longleftrightarrow> (\<forall>i < n. off + i < length m) \<and> rows = map (\<lambda>i. byte_pcrs i (m ! (off + i))) [0..<n]"
      by (auto simp: list_all2_conv_all_nth intro!: nth_equalityI)
    finally show ?thesis .
  qed
  have "(\<forall>i < n. off + i < length m) \<longleftrightarrow> n = 0 \<or> off + n \<le> length m"
    by (cases n) (auto simp: less_Suc_eq)
  then show ?thesis
    by (auto simp: bitmap_pcrs_def and_then_Inr_iff *)
qed

lemma bitmap_pcrs_ok:
  "off + n \<le> length m \<Longrightarrow>
     bitmap_pcrs m off n = Inr (concat (map (\<lambda>i. byte_pcrs i (m ! (off + i))) [0..<n]))"
  by (simp add: bitmap_pcrs_Inr_iff)

lemma mem_byte_pcrs: "p \<in> set (byte_pcrs i b) \<longleftrightarrow> p div 8 = i \<and> bit b (p mod 8)"
proof -
  have "b AND push_bit k 1 \<noteq> 0 \<longleftrightarrow> bit b k" if "k < 8" for k
    using that by (simp add: and_exp_eq_0_iff_not_bit push_bit_of_1)
  then have "p \<in> set (byte_pcrs i b) \<longleftrightarrow> (\<exists>k < 8. bit b k \<and> p = i * 8 + k)"
    by (auto simp: byte_pcrs_def)
  also have "\<dots> \<longleftrightarrow> p div 8 = i \<and> bit b (p mod 8)"
    by (auto intro!: exI [of _ "p mod 8"])
  finally show ?thesis .
qed

text \<open>A PCR is selected exactly when its bit of the bitmap is set.\<close>

lemma bitmap_pcrs_mem:
  assumes "bitmap_pcrs m off n = Inr ps"
  shows "p \<in> set ps \<longleftrightarrow> p div 8 < n \<and> bit (m ! (off + p div 8)) (p mod 8)"
  using assms by (auto simp: bitmap_pcrs_Inr_iff mem_byte_pcrs)

lemma parse_selections_not_panic:
  "parse_selections n m off algs pcrs \<noteq> Inl Panicked"
proof (induction n arbitrary: off algs pcrs)
  case (Suc n)
  show ?case
    by (auto simp: err_simps Let_def bitmap_pcrs_ok Suc)
qed simp

text \<open>Every selection read takes at least three bytes of the message, so the
  announced count never makes the loop run longer than the message.\<close>

lemma parse_selections_progress:
  "parse_selections n m off algs pcrs = Inr (off', algs', pcrs') \<Longrightarrow>
     off + 3 * n \<le> off' \<and> length algs' = length algs + n \<and> (0 < n \<longrightarrow> off' \<le> length m)"
proof (induction n arbitrary: off algs pcrs)
  case (Suc n)
  from Suc.prems obtain sel where
    r: "parse_selections n m (3 + off + unat (m ! (off + 2)))
          (algs @ [u16_from_be_bytes (slice m off (off + 2))]) (pcrs @ sel) = Inr (off', algs', pcrs')"
    and b: "3 + off + unat (m ! (off + 2)) \<le> length m"
    by (auto simp: res_simps Let_def not_less split: if_splits)
  from Suc.IH [OF r] b r show ?case by (cases n) auto
qed simp

lemma parse_quote_info_not_panic [panic_free]: "parse_quote_info m \<noteq> Inl Panicked"
proof
  assume "parse_quote_info m = Inl Panicked"
  then show False
    by (auto simp: parse_quote_info_def err_simps Let_def parse_selections_not_panic split: if_splits)
qed

lemma parse_quote_info_sha256: "parse_quote_info m = Inr q \<Longrightarrow> is_sha256_quote q"
  by (auto simp: parse_quote_info_def res_simps Let_def split: if_splits)

text \<open>One selection, in the SHA-256 bank, whatever count the message announced.\<close>

lemma parse_quote_info_one_selection:
  assumes "parse_quote_info m = Inr q"
  shows "\<exists>off algs pcrs. parse_selections 1 m off [] [] = Inr (algs, [TPM_ALG_SHA256], pcrs)
           \<and> qi_selected_pcrs q = pcrs"
proof -
  obtain n off off' where p: "parse_selections n m off [] [] = Inr (off', qi_hash_algs q, qi_selected_pcrs q)"
    using assms by (auto simp: parse_quote_info_def res_simps Let_def split: if_splits)
  moreover have a: "qi_hash_algs q = [TPM_ALG_SHA256]"
    using parse_quote_info_sha256 [OF assms] by (simp add: is_sha256_quote_def)
  ultimately have "n = 1" using parse_selections_progress [OF p] by simp
  with p a show ?thesis by auto
qed

text \<open>Nothing of the quote parser reads the first four bytes, the magic.\<close>

lemma skip_prefix:
  assumes "length x = k" "length y = k" "k \<le> off"
  shows "slice (x @ r) off b = slice (y @ r) off b" "(x @ r) ! off = (y @ r) ! off"
    "length (x @ r) = length (y @ r)"
  using assms by (simp_all add: slice_def nth_append)

lemma skip_prefix_reads:
  assumes "length x = k" "length y = k" "k \<le> off"
  shows "read_be_u16 (x @ r) off f = read_be_u16 (y @ r) off f"
    "read_be_u32 (x @ r) off f = read_be_u32 (y @ r) off f"
    "at_range (x @ r) off b = at_range (y @ r) off b"
    "at_index (x @ r) off = at_index (y @ r) off"
  using skip_prefix [OF assms] assms(1,2)
  by (simp_all add: read_be_u16_def read_be_u32_def at_range_def at_index_def get_range_def get_index_def)

lemma skip_prefix_bitmap:
  assumes "length x = k" "length y = k" "k \<le> off"
  shows "bitmap_pcrs (x @ r) off n = bitmap_pcrs (y @ r) off n"
  unfolding bitmap_pcrs_def using skip_prefix_reads(4) [OF assms(1,2)] assms(3) by simp

lemma skip_prefix_selections:
  assumes "length x = k" "length y = k" "k \<le> off"
  shows "parse_selections n (x @ r) off algs pcrs = parse_selections n (y @ r) off algs pcrs"
  using assms(3)
proof (induction n arbitrary: off algs pcrs)
  case (Suc n)
  have l: "length (x @ r) = length (y @ r)" using assms by simp
  show ?case
    unfolding parse_selections.simps Let_def l
    using Suc.prems Suc.IH
    by (intro if_cong refl and_then_cong)
       (simp_all add: skip_prefix_reads [OF assms(1,2)] skip_prefix_bitmap [OF assms(1,2)])
qed simp

lemma parse_quote_info_magic:
  assumes "length x = 4" "length y = 4"
  shows "parse_quote_info (x @ r) = parse_quote_info (y @ r)"
proof -
  have ge: "4 \<le> off'" if "parse_selections n m off [] [] = Inr (off', a, p)" "4 \<le> off" for n m off off' a p
    using parse_selections_progress [OF that(1)] that(2) by simp
  have l: "length (x @ r) = length (y @ r)" using assms by simp
  note eqs = skip_prefix_reads [OF assms] skip_prefix_selections [OF assms]
  show ?thesis
    unfolding parse_quote_info_def Let_def l
    by (intro if_cong refl and_then_cong; simp add: eqs split: prod.splits)
       (auto intro!: and_then_cong simp: eqs dest: ge)
qed

section \<open>Lemmas: PCR values\<close>

lemma concat_selected_Inr_iff [res_simps]:
  "concat_selected pcrs idxs = Inr c \<longleftrightarrow>
     (\<forall>i \<in> set idxs. i < length pcrs) \<and> c = concat (map (\<lambda>i. pcrs ! i) idxs)"
  by (induction idxs arbitrary: c) (auto simp: res_simps)

lemma concat_selected_not_panic: "concat_selected pcrs idxs \<noteq> Inl Panicked"
  by (induction idxs) (auto simp: err_simps)

lemma verify_tpm_pcrs_Inr_iff:
  "verify_tpm_pcrs h m pcrs = Inr u \<longleftrightarrow>
     pcrs \<noteq> [] \<and> (\<forall>p \<in> set pcrs. length p = 32) \<and>
     (\<exists>q. parse_quote_info m = Inr q \<and> (\<forall>i \<in> set (qi_selected_pcrs q). i < length pcrs)
        \<and> sha256 h (concat (map (\<lambda>i. pcrs ! i) (qi_selected_pcrs q))) = qi_digest q)"
  by (auto simp: verify_tpm_pcrs_def res_simps split: if_splits)

lemma verify_tpm_pcrs_not_panic [panic_free]: "verify_tpm_pcrs h m pcrs \<noteq> Inl Panicked"
  by (auto simp: verify_tpm_pcrs_def err_simps concat_selected_not_panic parse_quote_info_not_panic
      dest: check_each_Inl split: if_splits)

text \<open>Values of one length are recovered from their concatenation.\<close>

lemma concat_same_length_inj:
  "concat (map f idxs) = concat (map g idxs) \<Longrightarrow>
   (\<And>i. i \<in> set idxs \<Longrightarrow> length (f i) = n \<and> length (g i) = n) \<Longrightarrow> i \<in> set idxs \<Longrightarrow> f i = g i"
  by (induction idxs) auto

text \<open>Two lists of PCR values accepted for one message agree on every selected
  PCR, if the hash tells their selected values apart.\<close>

lemma verified_pcrs_agree:
  assumes "verify_tpm_pcrs h m pcrs = Inr ()" "verify_tpm_pcrs h m pcrs' = Inr ()"
    and "parse_quote_info m = Inr q" and "i \<in> set (qi_selected_pcrs q)"
    and "inj_on (sha256 h) {concat (map (\<lambda>i. pcrs ! i) (qi_selected_pcrs q)),
                            concat (map (\<lambda>i. pcrs' ! i) (qi_selected_pcrs q))}"
  shows "pcrs ! i = pcrs' ! i"
proof -
  let ?c = "\<lambda>ps. concat (map (\<lambda>i. ps ! i) (qi_selected_pcrs q))"
  have "sha256 h (?c pcrs) = sha256 h (?c pcrs')"
    using assms(1-3) by (auto simp: verify_tpm_pcrs_Inr_iff)
  moreover have "pcrs ! i = pcrs' ! i" if "?c pcrs = ?c pcrs'"
  proof (rule concat_same_length_inj [OF that _ assms(4)])
    fix j assume "j \<in> set (qi_selected_pcrs q)"
    then have "pcrs ! j \<in> set pcrs" "pcrs' ! j \<in> set pcrs'"
      using assms(1-3) by (auto simp: verify_tpm_pcrs_Inr_iff)
    then show "length (pcrs ! j) = 32 \<and> length (pcrs' ! j) = 32"
      using assms(1,2) unfolding verify_tpm_pcrs_Inr_iff by blast
  qed
  ultimately show ?thesis using assms(5) by (auto dest: inj_onD)
qed

lemma pins_match_iff:
  "pins_match pcrs sel es b \<longleftrightarrow>
     b \<and> (\<forall>(i, want) \<in> set es. unat i \<in> set sel \<and> unat i < length pcrs \<and> pcrs ! unat i = want)"
  by (induction pcrs sel es b rule: pins_match.induct)
     (auto simp: Let_def get_index_def split: option.splits if_splits)

lemma check_pcr_pin_indexes_Inr_iff [res_simps]:
  "check_pcr_pin_indexes es = Inr u \<longleftrightarrow> (\<forall>i \<in> set (map fst es). i \<le> 23)"
proof -
  have "check_pcr_pin_indexes es = Inr u \<longleftrightarrow> find (\<lambda>i. i > 23) (map fst es) = None"
    by (simp add: check_pcr_pin_indexes_def split: option.splits)
  then show ?thesis by (auto simp: find_None_iff not_less)
qed

lemma check_pcr_pin_indexes_Inl:
  "check_pcr_pin_indexes es = Inl e \<Longrightarrow> is_invalid_params e"
  by (auto simp: check_pcr_pin_indexes_def is_invalid_params_def split: option.splits)

lemma check_pcrs_Some_iff:
  "check_pcrs m pcrs es = Inr (Some b) \<longleftrightarrow>
     es \<noteq> [] \<and> (\<forall>i \<in> set (map fst es). i \<le> 23) \<and>
     (\<exists>q. parse_quote_info m = Inr q \<and>
        b = (\<forall>(i, want) \<in> set es. unat i \<in> set (qi_selected_pcrs q)
               \<and> unat i < length pcrs \<and> pcrs ! unat i = want))"
  using parse_quote_info_sha256
  by (auto simp: check_pcrs_def res_simps pins_match_iff split: if_splits)

lemma check_pcrs_None_iff: "check_pcrs m pcrs es = Inr None \<longleftrightarrow> es = []"
  by (auto simp: check_pcrs_def res_simps split: if_splits)

lemma check_init_data_len_Inr_iff [res_simps]:
  "check_init_data_len e = Inr u \<longleftrightarrow> (\<forall>d. e = Some d \<longrightarrow> length d = 32)"
  by (auto simp: check_init_data_len_def split: option.splits if_splits)

lemma check_init_data_len_Inl: "check_init_data_len e = Inl x \<Longrightarrow> is_invalid_params x"
  by (auto simp: check_init_data_len_def is_invalid_params_def split: option.splits if_splits)

lemma check_init_data_Some_True_iff:
  "check_init_data h m pcrs e = Inr (Some True) \<longleftrightarrow>
     (\<exists>d q. e = Some d \<and> length d = 32 \<and> parse_quote_info m = Inr q
        \<and> INIT_DATA_PCR \<in> set (qi_selected_pcrs q) \<and> INIT_DATA_PCR < length pcrs
        \<and> pcrs ! INIT_DATA_PCR = sha256 h (replicate 32 0 @ d))"
  by (auto simp: check_init_data_def res_simps Let_def sha256_two_def not_le
      split: option.splits if_splits)

lemma check_report_data_Some_True_iff:
  "check_report_data m e = Inr (Some True) \<longleftrightarrow>
     (\<exists>d. e = Some d \<and> length d \<le> 64 \<and> extract_tpm_nonce m = Inr d)"
  by (cases "extract_tpm_nonce m")
     (auto simp: check_report_data_def tpm_nonce_matches_def split: option.splits if_splits)

text \<open>A quote message over one selection of the SHA-256 bank, as a TPM writes it:
  \<open>clock\<close> holds clockInfo and firmwareVersion.\<close>

definition quote_bytes :: "u32 \<Rightarrow> bytes \<Rightarrow> bytes \<Rightarrow> bytes \<Rightarrow> bytes \<Rightarrow> bytes \<Rightarrow> bytes" where
  "quote_bytes magic signer extra clock bitmap digest =
     attest_bytes magic TPM_ST_ATTEST_QUOTE signer extra
       (clock @ be_bytes 4 1 @ be_bytes 2 (unat TPM_ALG_SHA256) @ [of_nat (length bitmap)] @ bitmap
          @ be_bytes 2 (length digest) @ digest)"

definition bitmap_indices :: "bytes \<Rightarrow> nat list" where
  "bitmap_indices bitmap = concat (map (\<lambda>i. byte_pcrs i (bitmap ! i)) [0..<length bitmap])"

lemma nth_drop_eq: "drop b d = r \<Longrightarrow> i < length r \<Longrightarrow> d ! (b + i) = r ! i"
  by auto

lemma slice_drop_eq: "drop b d = r \<Longrightarrow> slice d (b + i) (b + j) = slice r i j"
  by (auto simp: slice_def add.commute)

lemma parse_quote_info_quote_bytes:
  assumes "length signer < 65536" "length extra < 65536" "length clock = 25"
    and "length bitmap < 256" "length digest < 65536"
  shows "parse_quote_info (quote_bytes magic signer extra clock bitmap digest) =
    Inr \<lparr>qi_attest_type = TPM_ST_ATTEST_QUOTE, qi_hash_algs = [TPM_ALG_SHA256],
         qi_selected_pcrs = bitmap_indices bitmap, qi_digest = digest\<rparr>"
proof -
  define rest where "rest = clock @ be_bytes 4 1 @ be_bytes 2 (unat TPM_ALG_SHA256)
    @ [of_nat (length bitmap)] @ bitmap @ be_bytes 2 (length digest) @ digest"
  define d where "d = quote_bytes magic signer extra clock bitmap digest"
  define b where "b = 10 + length signer + length extra"
  let ?n = "length bitmap"
  have dd: "d = attest_bytes magic TPM_ST_ATTEST_QUOTE signer extra rest"
    by (simp add: d_def quote_bytes_def rest_def)
  note a = attest_bytes_reads [OF assms(1,2), of magic TPM_ST_ATTEST_QUOTE rest, folded dd]
  have rl: "length rest = 34 + ?n + length digest" by (simp add: rest_def assms(3))
  have len: "length d = b + 34 + ?n + length digest" using a(1) rl by (simp add: b_def)
  have dr: "drop b d = rest" using a(7) by (simp add: b_def)
  have f: "slice rest 25 29 = be_bytes 4 1" "slice rest 29 31 = be_bytes 2 (unat TPM_ALG_SHA256)"
    "rest ! 31 = of_nat ?n" "slice rest (32 + ?n) (34 + ?n) = be_bytes 2 (length digest)"
    "slice rest (34 + ?n) (34 + ?n + length digest) = digest" "\<And>i. i < ?n \<Longrightarrow> rest ! (32 + i) = bitmap ! i"
    by (simp_all add: rest_def slice_def assms(3) nth_append nth_Cons' drop_Cons' take_Cons')
  obtain w6 where w6: "read_be_u16 d 6 ''qualifiedSigner size'' = Inr w6" "unat w6 = length signer"
    using a(4) by blast
  obtain w8 where w8: "read_be_u16 d (8 + length signer) ''extraData size'' = Inr w8"
    "unat w8 = length extra"
    using a(5) by blast
  have one: "u32_from_be_bytes (be_bytes 4 1) = 1" by (simp add: u32_from_be_bytes_def be_nat_be_bytes)
  have sz: "unat (of_nat ?n :: u8) = ?n" using assms(4) by (simp add: unat_of_nat)
  have r: "read_be_u32 d (b + 25) x = Inr 1" "read_be_u16 d (b + 29) x = Inr TPM_ALG_SHA256"
    "at_index d (b + 31) = Inr (of_nat ?n)"
    "read_be_u16 d (b + 32 + ?n) x = Inr (u16_from_be_bytes (be_bytes 2 (length digest)))"
    "at_range d (b + 34 + ?n) (b + 34 + ?n + length digest) = Inr digest"
    "bitmap_pcrs d (b + 32) ?n = Inr (bitmap_indices bitmap)" for x
  proof -
    have s: "slice d (b + i) (b + j) = slice rest i j" for i j by (rule slice_drop_eq [OF dr])
    have t: "d ! (b + i) = rest ! i" if "i < length rest" for i by (rule nth_drop_eq [OF dr that])
    have "read_be_u32 d (b + 25) x = Inr (u32_from_be_bytes (be_bytes 4 1))"
      by (rule read_be_u32_at [of "b + 29"]) (use s [of 25 29] f(1) len in simp_all)
    then show "read_be_u32 d (b + 25) x = Inr 1" unfolding one .
    have "read_be_u16 d (b + 29) x = Inr (u16_from_be_bytes (be_bytes 2 (unat TPM_ALG_SHA256)))"
      by (rule read_be_u16_at [of "b + 31"]) (use s [of 29 31] f(2) len in simp_all)
    then show "read_be_u16 d (b + 29) x = Inr TPM_ALG_SHA256" by (simp add: byte_simps)
    show "at_index d (b + 31) = Inr (of_nat ?n)" using t [of 31] f(3) len rl by simp
    show "read_be_u16 d (b + 32 + ?n) x = Inr (u16_from_be_bytes (be_bytes 2 (length digest)))"
      using s [of "32 + ?n" "34 + ?n"] f(4) len
      by (intro read_be_u16_at [of "b + 34 + ?n"]) (simp_all add: add.assoc)
    show "at_range d (b + 34 + ?n) (b + 34 + ?n + length digest) = Inr digest"
      using s [of "34 + ?n" "34 + ?n + length digest"] f(5) len by (simp add: add.assoc)
    have "d ! (b + 32 + i) = bitmap ! i" if "i < ?n" for i
      using t [of "32 + i"] f(6) [OF that] that rl by (simp add: add.assoc)
    then show "bitmap_pcrs d (b + 32) ?n = Inr (bitmap_indices bitmap)"
      using len by (auto simp: bitmap_pcrs_Inr_iff bitmap_indices_def intro!: arg_cong [where f = concat])
  qed
  have p1: "parse_selections (Suc 0) d (b + 29) [] [] =
      Inr (b + 32 + ?n, [TPM_ALG_SHA256], bitmap_indices bitmap)"
  proof -
    have "d ! (31 + b) = of_nat ?n" "bitmap_pcrs d (32 + b) ?n = Inr (bitmap_indices bitmap)"
      using r(3,6) len by (simp_all add: add.commute [of b])
    then show ?thesis using len by (simp add: r sz Let_def)
  qed
  have o: "6 + (2 + length signer) = 8 + length signer"
    "35 + (length signer + length extra) = b + 25" "39 + (length signer + length extra) = b + 29"
    "b + 32 + ?n + 2 = b + 34 + ?n"
    by (simp_all add: b_def)
  have ds: "unat (u16_from_be_bytes (be_bytes 2 (length digest))) = length digest"
    using assms(5) by (rule u16_be_length)
  show ?thesis
    unfolding parse_quote_info_def d_def [symmetric] using len
    by (simp add: a(3) w6 w8 o p1 r ds Let_def is_sha256_quote_def b_def [symmetric]
        del: parse_selections.simps)
qed

end
