(* ===== verification/TpmProps.thy ===== *)
theory TpmProps
  imports TpmQuote
begin

text \<open>
  What the vTPM checks of \<open>tpm_common.rs\<close> promise: that a TPM quote and an HCL report
  are read back as they were written, and that the nonce and the PCR values a verdict
  accepts are the ones under the TPM's signature. The hash function is a parameter; where
  a property needs it to tell two inputs apart, it says which two.
\<close>

definition toy_hash :: hash_lib where
  "toy_hash = \<lparr>sha256 = id, sha384 = id\<rparr>"

section \<open>The quote message\<close>

text \<open>A quote message over one selection of the SHA-256 bank, laid out as a TPM lays
  it out, is parsed back to its parts, whatever precedes the selection; and a PCR counts as
  selected exactly when its bit is set in the bitmap.\<close>

theorem quote_message_roundtrip:
  assumes "length signer < 65536" "length extra < 65536" "length clock = 25"
    and "length bitmap < 256" "length digest < 65536"
  shows "\<exists>ps. parse_quote_info (quote_bytes magic signer extra clock bitmap digest) =
      Inr \<lparr>qi_attest_type = TPM_ST_ATTEST_QUOTE, qi_hash_algs = [TPM_ALG_SHA256],
           qi_selected_pcrs = ps, qi_digest = digest\<rparr>
    \<and> (\<forall>p. p \<in> set ps \<longleftrightarrow> p div 8 < length bitmap \<and> bit (bitmap ! (p div 8)) (p mod 8))"
proof (intro exI conjI allI)
  show "parse_quote_info (quote_bytes magic signer extra clock bitmap digest) =
      Inr \<lparr>qi_attest_type = TPM_ST_ATTEST_QUOTE, qi_hash_algs = [TPM_ALG_SHA256],
           qi_selected_pcrs = bitmap_indices bitmap, qi_digest = digest\<rparr>"
    by (rule parse_quote_info_quote_bytes [OF assms])
  have b: "bitmap_pcrs bitmap 0 (length bitmap) = Inr (bitmap_indices bitmap)"
    by (auto simp: bitmap_pcrs_Inr_iff bitmap_indices_def)
  show "p \<in> set (bitmap_indices bitmap) \<longleftrightarrow> p div 8 < length bitmap \<and> bit (bitmap ! (p div 8)) (p mod 8)" for p
    using bitmap_pcrs_mem [OF b, of p] by simp
qed

theorem quote_message_roundtrip_witness:
  "\<exists>ps. parse_quote_info (quote_bytes TPM_ATTEST_MAGIC [1] [2, 3] (replicate 25 0) [0, 1] [9]) =
      Inr \<lparr>qi_attest_type = TPM_ST_ATTEST_QUOTE, qi_hash_algs = [TPM_ALG_SHA256],
           qi_selected_pcrs = ps, qi_digest = [9]\<rparr> \<and> 8 \<in> set ps"
  using quote_message_roundtrip [of "[1]" "[2, 3]" "replicate 25 0" "[0, 1]" "[9]" TPM_ATTEST_MAGIC]
  by auto

text \<open>The nonce check compares the expected data with the nonce the TPM signed, byte
  for byte and with its length: it passes for that nonce and for nothing else, and a
  message that does not start with the TPM's magic number is an error.\<close>

theorem nonce_check_reads_the_signed_nonce:
  assumes "length signer < 65536" "length nonce < 65536" "length d \<le> 64"
  shows "check_report_data (attest_bytes magic ty signer nonce rest) (Some d) =
    (if magic = TPM_ATTEST_MAGIC then Inr (Some (nonce = d))
     else Inl (QuoteParseFailed ''invalid TPM Attest magic''))"
  using assms(3)
  by (simp add: check_report_data_def tpm_nonce_matches_def extract_tpm_nonce_attest_bytes [OF assms(1,2)])

theorem nonce_check_reads_the_signed_nonce_witness:
  "check_report_data (attest_bytes TPM_ATTEST_MAGIC TPM_ST_ATTEST_QUOTE [1] [5, 6] [0]) (Some [5, 6]) = Inr (Some True)
   \<and> check_report_data (attest_bytes TPM_ATTEST_MAGIC TPM_ST_ATTEST_QUOTE [1] [5, 6] [0]) (Some [5, 6, 0]) = Inr (Some False)"
  using nonce_check_reads_the_signed_nonce [of "[1]" "[5, 6]" "[5, 6]" TPM_ATTEST_MAGIC TPM_ST_ATTEST_QUOTE "[0]"]
    nonce_check_reads_the_signed_nonce [of "[1]" "[5, 6]" "[5, 6, 0]" TPM_ATTEST_MAGIC TPM_ST_ATTEST_QUOTE "[0]"]
  by simp

section \<open>The registers\<close>

text \<open>C25: When the quoted registers verify against the signed message and the pins pass,
  every pinned register is one the TPM signed for and holds the pinned value; and another
  list of register values that verifies against the same message holds it there too, as
  long as the hash tells the two lists' selected values apart.\<close>

theorem pinned_registers_are_signed:
  assumes v: "verify_tpm_pcrs h m pcrs = Inr ()"
    and c: "check_pcrs m pcrs pins = Inr (Some True)"
    and pin: "(i, want) \<in> set pins"
  shows "\<exists>q. parse_quote_info m = Inr q \<and> is_sha256_quote q \<and> i \<le> 23 \<and> unat i \<in> set (qi_selected_pcrs q)
    \<and> unat i < length pcrs \<and> pcrs ! unat i = want
    \<and> (\<forall>pcrs'. verify_tpm_pcrs h m pcrs' = Inr () \<and>
          inj_on (sha256 h) {concat (map (\<lambda>i. pcrs ! i) (qi_selected_pcrs q)),
                             concat (map (\<lambda>i. pcrs' ! i) (qi_selected_pcrs q))}
        \<longrightarrow> pcrs' ! unat i = want)"
proof -
  obtain q where q: "parse_quote_info m = Inr q" and p: "unat i \<in> set (qi_selected_pcrs q)"
      "unat i < length pcrs" "pcrs ! unat i = want" and i: "i \<le> 23"
    using c pin by (fastforce simp: check_pcrs_Some_iff)
  then show ?thesis
    using parse_quote_info_sha256 [OF q] verified_pcrs_agree [OF v _ q p(1)] by metis
qed

definition toy_message :: bytes where
  "toy_message = quote_bytes TPM_ATTEST_MAGIC [] [] (replicate 25 0) [1] (replicate 32 7)"

lemma toy_message: "parse_quote_info toy_message = Inr
  \<lparr>qi_attest_type = TPM_ST_ATTEST_QUOTE, qi_hash_algs = [TPM_ALG_SHA256], qi_selected_pcrs = [0],
   qi_digest = replicate 32 7\<rparr>"
proof -
  have "bitmap_indices [1] = [0]" by code_simp
  then show ?thesis
    unfolding toy_message_def by (subst parse_quote_info_quote_bytes) simp_all
qed

theorem pinned_registers_are_signed_witness:
  "\<exists>q. parse_quote_info toy_message = Inr q \<and> 0 \<in> set (qi_selected_pcrs q)"
proof -
  have v: "verify_tpm_pcrs toy_hash toy_message [replicate 32 7] = Inr ()"
    by (simp add: verify_tpm_pcrs_Inr_iff toy_message toy_hash_def)
  have c: "check_pcrs toy_message [replicate 32 7] [(0, replicate 32 7)] = Inr (Some True)"
    by (simp add: check_pcrs_Some_iff toy_message)
  from pinned_registers_are_signed [OF v c, of 0 "replicate 32 7"] show ?thesis by auto
qed

text \<open>The init-data check passes exactly when register 8 is one the TPM signed for and
  holds what one extension of a zeroed register with the expected hash leaves there.\<close>

theorem init_data_is_measured:
  "check_init_data h m pcrs (Some d) = Inr (Some True) \<longleftrightarrow>
    length d = 32 \<and> (\<exists>q. parse_quote_info m = Inr q \<and> 8 \<in> set (qi_selected_pcrs q) \<and> 8 < length pcrs
      \<and> pcrs ! 8 = sha256 h (replicate 32 0 @ d))"
  by (auto simp: check_init_data_Some_True_iff INIT_DATA_PCR_def)

section \<open>The HCL report\<close>

text \<open>A report in the layout of the Azure paravisor is read back to the TEE report, the
  report type and the variable data, with the zero padding after the data removed.\<close>

theorem hcl_report_roundtrip:
  assumes "length rest = 28" "length tee = 1184" "length a = 8" "length b = 4"
    and "vd \<noteq> []" "last vd \<noteq> 0" and "length vd + pad < 2 ^ 32"
  shows "parse_hcl_report (hcl_report_bytes rest tee a ty b vd pad) =
    Inr \<lparr>hcl_tee_report = tee, hcl_report_type = ty, hcl_var_data = vd\<rparr>"
  by (rule parse_hcl_report_bytes [OF assms])

theorem hcl_report_roundtrip_witness:
  "parse_hcl_report (hcl_report_bytes (replicate 28 0) (replicate 1184 0) (replicate 8 0)
      HCL_REPORT_TYPE_SNP (replicate 4 0) [123, 125] 3) =
    Inr \<lparr>hcl_tee_report = replicate 1184 0, hcl_report_type = HCL_REPORT_TYPE_SNP, hcl_var_data = [123, 125]\<rparr>"
  by (rule hcl_report_roundtrip) simp_all

text \<open>The RSA key of a TPM public area is read back: the modulus as written and the
  exponent in four bytes, or the TPM's default exponent where the area has zero.\<close>

theorem attestation_key_roundtrip:
  assumes "length attrs = 4" "length policy + length modulus + 22 < 65536"
  shows "extract_ak_pub_from_var_data (tpm2b_public_bytes name_alg attrs policy bits e modulus) =
    Inr (modulus, if e = 0 then RSA_DEFAULT_EXPONENT else be_bytes 4 (unat e))"
  by (rule extract_ak_pub_tpm2b_public [OF assms])

theorem attestation_key_roundtrip_witness:
  "extract_ak_pub_from_var_data (tpm2b_public_bytes TPM_ALG_SHA256 (replicate 4 0) [] 2048 0 [3, 5]) =
    Inr ([3, 5], RSA_DEFAULT_EXPONENT)"
  using attestation_key_roundtrip [of "replicate 4 0" "[]" "[3, 5]" TPM_ALG_SHA256 2048 0] by simp

end
