(* ===== verification/X509.thy ===== *)
theory X509
  imports Utils
begin

text \<open>
  The libraries the certificate and signature checks call, as parameters: what
  the X.509, CRL and ASN.1 parsers return, as far as the source reads it, and
  elliptic-curve signature verification. The text a parsed name prints as, and
  whether a key or signature parses, come from the library.
\<close>

text \<open>A parsed certificate (\<open>x509_parser\<close>). A common name is \<open>None\<close> when it is not
  text; \<open>basicConstraints\<close> and \<open>keyUsage\<close> are \<open>None\<close> when absent, \<open>Inl\<close> when they
  do not parse.\<close>

record cert =
  ct_subject_raw :: bytes
  ct_issuer_raw :: bytes
  ct_subject_text :: string
  ct_issuer_text :: string
  ct_subject_cns :: "string option list"
  ct_issuer_cns :: "string option list"
  ct_raw_serial :: bytes
  ct_not_before :: int
  ct_not_after :: int
  ct_extensions :: "(string \<times> bytes) list"
  ct_public_key :: bytes
  ct_is_ca :: bool
  ct_key_cert_sign :: "(string + bool) option"

text \<open>What \<open>x509_cert\<close> reads: the signed part encoded again, the signature, the
  subject key.\<close>

record cert_data =
  cd_tbs :: bytes
  cd_signature :: bytes
  cd_pub_key :: bytes

record crl =
  cl_issuer_raw :: bytes
  cl_alg :: string
  cl_same_alg :: bool
  cl_signature :: bytes
  cl_tbs :: bytes
  cl_last_update :: int
  cl_next_update :: "int option"
  cl_number :: "bytes option"
  cl_revoked :: "bytes list"

datatype ber =
    BSeq "ber list"
  | BOid string
  | BOctets bytes
  | BInt bytes
  | BOther

record x509_lib =
  x_cert :: "bytes \<Rightarrow> cert option"
  x_cert_data :: "bytes \<Rightarrow> cert_data option"
  x_crl :: "bytes \<Rightarrow> (bytes \<times> crl) option"
  x_der_sequence :: "bytes \<Rightarrow> ber option"
  x_pem_parse :: "bytes \<Rightarrow> bytes option"
  x_b64 :: "string \<Rightarrow> bytes option"
  x_time_ok :: "int \<Rightarrow> bool"

text \<open>ECDSA over one curve: keys from SEC1 bytes, the uncompressed point of a key,
  signatures from fixed-size and from DER bytes, verification of a message and of
  a hash.\<close>

record ('k, 's) ec_lib =
  ec_key :: "bytes \<Rightarrow> 'k option"
  ec_point :: "'k \<Rightarrow> bytes"
  ec_sig :: "bytes \<Rightarrow> 's option"
  ec_sig_der :: "bytes \<Rightarrow> 's option"
  ec_verify :: "'k \<Rightarrow> bytes \<Rightarrow> 's \<Rightarrow> bool"
  ec_verify_prehash :: "'k \<Rightarrow> bytes \<Rightarrow> 's \<Rightarrow> bool"

text \<open>\<open>asn1_time\<close> (utils.rs): times compare as their Unix seconds.\<close>

definition asn1_time :: "x509_lib \<Rightarrow> int \<Rightarrow> int res" where
  "asn1_time x now = (if x_time_ok x now then Inr now else Inl (InvalidParams ''evaluation time out of range''))"

section \<open>PEM text\<close>

text \<open>\<open>str::lines\<close>: split at line feeds, without a final empty line and without the
  carriage return at the end of a line.\<close>

definition strip_cr :: "string \<Rightarrow> string" where
  "strip_cr l = (if l \<noteq> [] \<and> last l = CHR 0x0D then butlast l else l)"

definition str_lines :: "string \<Rightarrow> string list" where
  "str_lines s =
     (let ls = split_on (CHR 0x0A) s
      in map strip_cr (if last ls = [] then butlast ls else ls))"

text \<open>\<open>str::trim\<close>: a suffix of white space is one that skipping consumes whole.\<close>

fun trim_end_bytes :: "bytes \<Rightarrow> bytes" where
  "trim_end_bytes [] = []"
| "trim_end_bytes (b # bs) = (if skip_white_space (b # bs) = [] then [] else b # trim_end_bytes bs)"

definition str_trim :: "string \<Rightarrow> string" where
  "str_trim s = bytes_str (trim_end_bytes (skip_white_space (str_bytes s)))"

text \<open>\<open>split_pem_to_der\<close> (dcap.rs): the loop over lines, with its three variables.\<close>

fun pem_loop :: "(string \<Rightarrow> bytes option) \<Rightarrow> string list \<Rightarrow> bytes list \<Rightarrow> string \<Rightarrow> bool \<Rightarrow> bytes list res" where
  "pem_loop b64 [] certs cur in_cert = Inr certs"
| "pem_loop b64 (line # ls) certs cur in_cert =
     (if contains_str ''BEGIN CERTIFICATE'' line then pem_loop b64 ls certs [] True
      else if contains_str ''END CERTIFICATE'' line
      then and_then (ok_or (CertChainError ''PEM base64 decode'') (b64 (str_trim cur))) (\<lambda>der.
           pem_loop b64 ls (certs @ [der]) cur False)
      else if in_cert then pem_loop b64 ls certs (cur @ str_trim line) in_cert
      else pem_loop b64 ls certs cur in_cert)"

definition split_pem_to_der :: "x509_lib \<Rightarrow> string \<Rightarrow> bytes list res" where
  "split_pem_to_der x pem =
     and_then (pem_loop (x_b64 x) (str_lines pem) [] [] False) (\<lambda>certs.
     if certs = [] then Inl (CertChainError ''PEM data contains no certificate blocks'') else Inr certs)"

definition parse_pem_to_der :: "x509_lib \<Rightarrow> bytes \<Rightarrow> bytes list res" where
  "parse_pem_to_der x pem =
     and_then (ok_or (CertChainError ''PEM not UTF-8'') (from_utf8 pem)) (split_pem_to_der x)"

lemma pem_loop_length:
  "pem_loop b64 ls certs cur ic = Inr r \<Longrightarrow> length certs \<le> length r \<and> length r \<le> length certs + length ls"
  by (induction b64 ls certs cur ic arbitrary: r rule: pem_loop.induct)
     (fastforce simp: and_then_Inr_iff split: if_splits)+

lemma split_pem_to_der_not_Nil: "split_pem_to_der x pem = Inr ds \<Longrightarrow> ds \<noteq> []"
  by (auto simp: split_pem_to_der_def res_simps split: if_splits)

lemma pem_loop_not_panic: "pem_loop b64 ls certs cur ic \<noteq> Inl Panicked"
  by (induction b64 ls certs cur ic rule: pem_loop.induct) (auto simp: err_simps)

lemma split_pem_to_der_not_panic [panic_free, simp]: "split_pem_to_der x pem \<noteq> Inl Panicked"
  by (auto simp: split_pem_to_der_def err_simps pem_loop_not_panic)

lemma parse_pem_to_der_not_panic [panic_free, simp]: "parse_pem_to_der x pem \<noteq> Inl Panicked"
  by (auto simp: parse_pem_to_der_def err_simps)

end
