(* ===== verification/TdxQuote.thy ===== *)
theory TdxQuote
  imports X509
begin

text \<open>
  The quote part of \<open>crates/attestation/src/platforms/tdx/verify.rs\<close>, and the
  claims of \<open>tdx/claims.rs\<close>: header and report body at fixed offsets, quote
  versions 4 and 5, and the ECDSA signature over header and body.
\<close>

section \<open>Data\<close>

record quote_header =
  qh_version :: u16
  qh_att_key_type :: u16
  qh_tee_type :: u32
  qh_reserved :: bytes
  qh_vendor_id :: bytes
  qh_user_data :: bytes

record tdx_body =
  tee_tcb_svn :: bytes
  mr_seam :: bytes
  mrsigner_seam :: bytes
  seam_attributes :: bytes
  td_attributes :: bytes
  xfam :: bytes
  mr_td :: bytes
  mr_config_id :: bytes
  mr_owner :: bytes
  mr_owner_config :: bytes
  rtmr_0 :: bytes
  rtmr_1 :: bytes
  rtmr_2 :: bytes
  rtmr_3 :: bytes
  td_report_data :: bytes
  tee_tcb_svn2 :: "bytes option"
  mr_servicetd :: "bytes option"

datatype quote_version = V4 | V5Tdx10 | V5Tdx15

record tdx_quote =
  tq_header :: quote_header
  tq_body :: tdx_body
  tq_version :: quote_version

definition QUOTE_HEADER_SIZE :: nat where "QUOTE_HEADER_SIZE = 48"
definition REPORT_BODY_SIZE :: nat where "REPORT_BODY_SIZE = 584"
definition TDX_TEE_TYPE :: u32 where "TDX_TEE_TYPE = 0x81"

section \<open>Parsing\<close>

text \<open>\<open>pread_with\<close> at a width: an error when out of range.\<close>

definition pread_u16 :: "bytes \<Rightarrow> nat \<Rightarrow> string \<Rightarrow> u16 res" where
  "pread_u16 d off field =
     ok_or (QuoteParseFailed field) (map_option u16_from_le_bytes (get_range d off (off + 2)))"

definition pread_u32 :: "bytes \<Rightarrow> nat \<Rightarrow> string \<Rightarrow> u32 res" where
  "pread_u32 d off field =
     ok_or (QuoteParseFailed field) (map_option u32_from_le_bytes (get_range d off (off + 4)))"

definition header_from_bytes :: "bytes \<Rightarrow> quote_header res" where
  "header_from_bytes d =
     (if length d < QUOTE_HEADER_SIZE then Inl (QuoteParseFailed ''quote header too short'')
      else and_then (pread_u16 d 0 ''version'') (\<lambda>version.
      and_then (pread_u16 d 2 ''att_key_type'') (\<lambda>att_key_type.
      and_then (pread_u32 d 4 ''tee_type'') (\<lambda>tee_type.
      and_then (at_range d 8 10) (\<lambda>reserved.
      and_then (at_range d 12 28) (\<lambda>vendor_id.
      and_then (at_range d 28 48) (\<lambda>user_data.
      Inr \<lparr>qh_version = version, qh_att_key_type = att_key_type, qh_tee_type = tee_type,
           qh_reserved = reserved, qh_vendor_id = vendor_id, qh_user_data = user_data\<rparr>)))))))"

text \<open>The macro \<open>read_bytes\<close>: the next \<open>size\<close> bytes, and the offset after them.\<close>

fun read_fields :: "bytes \<Rightarrow> nat \<Rightarrow> nat list \<Rightarrow> bytes list res" where
  "read_fields d off [] = Inr []"
| "read_fields d off (len # sizes) =
     and_then (at_range d off (off + len)) (\<lambda>f.
     and_then (read_fields d (off + len) sizes) (\<lambda>fs. Inr (f # fs)))"

definition body_sizes :: "nat list" where
  "body_sizes = [16, 48, 48, 8, 8, 8, 48, 48, 48, 48, 48, 48, 48, 48, 64]"

definition body_from_bytes :: "bytes \<Rightarrow> tdx_body res" where
  "body_from_bytes d =
     (if length d < REPORT_BODY_SIZE then Inl (QuoteParseFailed ''report body too short'')
      else and_then (read_fields d 0 body_sizes) (\<lambda>f.
      let off = 584 in
      and_then (if length d \<ge> off + 64 then map_sum id Some (read_fields d off [16, 48]) else Inr None) (\<lambda>extra.
      Inr \<lparr>tee_tcb_svn = f ! 0, mr_seam = f ! 1, mrsigner_seam = f ! 2, seam_attributes = f ! 3,
           td_attributes = f ! 4, xfam = f ! 5, mr_td = f ! 6, mr_config_id = f ! 7, mr_owner = f ! 8,
           mr_owner_config = f ! 9, rtmr_0 = f ! 10, rtmr_1 = f ! 11, rtmr_2 = f ! 12, rtmr_3 = f ! 13,
           td_report_data = f ! 14, tee_tcb_svn2 = map_option (\<lambda>e. e ! 0) extra,
           mr_servicetd = map_option (\<lambda>e. e ! 1) extra\<rparr>)))"

text \<open>An addition of \<open>usize\<close> values, of \<open>bits\<close> bits, in code that reads the slice \<open>d\<close>: the build
  checks it for overflow (\<open>overflow-checks\<close>), and panics. No slice is longer than half the address
  space, so of longer lists nothing is said. Servers and command line run on 64 bits, and the
  functions without a width are theirs; the verifier for browsers is built for 32.\<close>

definition usize_add :: "nat \<Rightarrow> bytes \<Rightarrow> nat \<Rightarrow> nat \<Rightarrow> nat res" where
  "usize_add bits d a b =
     (if length d < 2 ^ (bits - 1) \<and> 2 ^ bits \<le> a + b then Inl Panicked else Inr (a + b))"

definition parse_tdx_quote_on :: "nat \<Rightarrow> bytes \<Rightarrow> tdx_quote res" where
  "parse_tdx_quote_on bits d =
     and_then (header_from_bytes d) (\<lambda>header.
     if qh_tee_type header \<noteq> TDX_TEE_TYPE then Inl (QuoteParseFailed ''invalid TEE type'')
     else if qh_version header = 4
     then
       (if length d < QUOTE_HEADER_SIZE + REPORT_BODY_SIZE then Inl (QuoteParseFailed ''v4 quote too short'')
        else and_then (at_range d QUOTE_HEADER_SIZE (QUOTE_HEADER_SIZE + REPORT_BODY_SIZE)) (\<lambda>b.
        and_then (body_from_bytes b) (\<lambda>body.
        Inr \<lparr>tq_header = header, tq_body = body, tq_version = V4\<rparr>)))
     else if qh_version header = 5
     then
       (if length d < QUOTE_HEADER_SIZE + 6
        then Inl (QuoteParseFailed ''v5 quote too short for type/size fields'')
        else and_then (pread_u16 d QUOTE_HEADER_SIZE ''v5 type'') (\<lambda>body_type.
        and_then (pread_u32 d (QUOTE_HEADER_SIZE + 2) ''v5 size'') (\<lambda>len.
        let body_size = unat len;
            expected = (if body_type = 2 then REPORT_BODY_SIZE
                        else if body_type = 3 then REPORT_BODY_SIZE + 64 else 0) in
        if expected > 0 \<and> body_size \<noteq> expected then Inl (QuoteParseFailed ''v5 body_size'')
        else
          let body_offset = QUOTE_HEADER_SIZE + 6 in
          and_then (usize_add bits d body_offset body_size) (\<lambda>body_end.
          if length d < body_end then Inl (QuoteParseFailed ''v5 quote too short'')
          else and_then (at_range d body_offset body_end) (\<lambda>b.
          and_then (body_from_bytes b) (\<lambda>body.
          if body_type = 2 then Inr \<lparr>tq_header = header, tq_body = body, tq_version = V5Tdx10\<rparr>
          else if body_type = 3 then Inr \<lparr>tq_header = header, tq_body = body, tq_version = V5Tdx15\<rparr>
          else Inl (QuoteParseFailed ''unknown v5 body type'')))))))
     else Inl (QuoteParseFailed ''unsupported quote version''))"

definition parse_tdx_quote :: "bytes \<Rightarrow> tdx_quote res" where
  "parse_tdx_quote = parse_tdx_quote_on 64"

text \<open>\<open>compute_body_end\<close> (dcap.rs).\<close>

definition compute_body_end_on :: "nat \<Rightarrow> bytes \<Rightarrow> quote_version \<Rightarrow> nat res" where
  "compute_body_end_on bits d v = (case v of
       V4 \<Rightarrow> Inr (QUOTE_HEADER_SIZE + REPORT_BODY_SIZE)
     | _ \<Rightarrow> and_then (pread_u32 d (QUOTE_HEADER_SIZE + 2) ''v5 body size'') (\<lambda>len.
            usize_add bits d (QUOTE_HEADER_SIZE + 6) (unat len)))"

definition compute_body_end :: "bytes \<Rightarrow> quote_version \<Rightarrow> nat res" where
  "compute_body_end = compute_body_end_on 64"

text \<open>The signature is the pair of scalars \<open>r\<close>, \<open>s\<close>: their 64 bytes.\<close>

definition verify_quote_signature ::
  "hash_lib \<Rightarrow> ('k, 's) ec_lib \<Rightarrow> bytes \<Rightarrow> tdx_quote \<Rightarrow> bool res" where
  "verify_quote_signature h ec d quote =
     and_then (compute_body_end d (tq_version quote)) (\<lambda>body_end.
     if length d < body_end + 132 then Inl (QuoteParseFailed ''quote too short for auth data'')
     else and_then (pread_u32 d body_end ''sig_data_len'') (\<lambda>sig_data_len.
     if unat sig_data_len < 128 then Inl (QuoteParseFailed ''sig_data_len too small'')
     else
       let sig_offset = body_end + 4; key_offset = sig_offset + 64 in
       and_then (at_range d sig_offset (sig_offset + 32)) (\<lambda>r.
       and_then (at_range d (sig_offset + 32) (sig_offset + 64)) (\<lambda>s.
       and_then (at_range d key_offset (key_offset + 32)) (\<lambda>key_x.
       and_then (at_range d (key_offset + 32) (key_offset + 64)) (\<lambda>key_y.
       and_then (at_range d 0 body_end) (\<lambda>signed_data.
       let hash = sha256 h signed_data in
       and_then (ok_or (SignatureVerificationFailed ''construct P-256 sig'') (ec_sig ec (r @ s))) (\<lambda>signature.
       and_then (ok_or (SignatureVerificationFailed ''parse attestation key'')
                  (ec_key ec (4 # key_x @ key_y))) (\<lambda>key.
       if ec_verify_prehash ec key hash signature then Inr True
       else Inl (SignatureVerificationFailed ''ECDSA P-256 DCAP''))))))))))"

section \<open>Claims\<close>

definition hex_digit :: "nat \<Rightarrow> char" where
  "hex_digit n = char_of (if n < 10 then 48 + n else 87 + n)"

fun hex_string :: "nat \<Rightarrow> string" where
  "hex_string n = (if n < 16 then [hex_digit n] else hex_string (n div 16) @ [hex_digit (n mod 16)])"

declare hex_string.simps [simp del]

fun version_debug :: "quote_version \<Rightarrow> string" where
  "version_debug V4 = ''V4''"
| "version_debug V5Tdx10 = ''V5Tdx10''"
| "version_debug V5Tdx15 = ''V5Tdx15''"

definition parse_td_attributes :: "bytes \<Rightarrow> json" where
  "parse_td_attributes raw =
     (let bits = u64_from_le_bytes raw;
          flag = (\<lambda>i. JBool (bits AND push_bit i 1 \<noteq> 0))
      in json_obj [(''debug'', flag 0), (''septve_disable'', flag 28), (''protection_keys'', flag 30),
                   (''key_locker'', flag 31), (''perfmon'', flag 63)])"

definition tdx_extract_claims :: "hex_lib \<Rightarrow> tdx_quote \<Rightarrow> claims" where
  "tdx_extract_claims hx q =
     (let b = tq_body q;
          hex = (\<lambda>x. JStr (hex_encode hx x));
          extra = (\<lambda>k x. case x of None \<Rightarrow> [] | Some v \<Rightarrow> [(k, hex v)])
      in \<lparr>launch_digest = hex_encode hx (mr_td b), cl_report_data = td_report_data b,
          signed_data = strip_trailing_nulls (td_report_data b), init_data = mr_config_id b,
          cl_tcb = TcbTdx (tee_tcb_svn b),
          platform_data = json_obj
            ([(''quote_version'', JStr (version_debug (tq_version q))),
              (''tee_type'', JStr (''0x'' @ hex_string (unat (qh_tee_type (tq_header q))))),
              (''mr_seam'', hex (mr_seam b)), (''mrsigner_seam'', hex (mrsigner_seam b)),
              (''seam_attributes'', hex (seam_attributes b)), (''td_attributes'', hex (td_attributes b)),
              (''td_attributes_parsed'', parse_td_attributes (td_attributes b)), (''xfam'', hex (xfam b)),
              (''mr_config_id'', hex (mr_config_id b)), (''mr_owner'', hex (mr_owner b)),
              (''mr_owner_config'', hex (mr_owner_config b)), (''rtmr_0'', hex (rtmr_0 b)),
              (''rtmr_1'', hex (rtmr_1 b)), (''rtmr_2'', hex (rtmr_2 b)), (''rtmr_3'', hex (rtmr_3 b))]
             @ extra ''tee_tcb_svn2'' (tee_tcb_svn2 b) @ extra ''mr_servicetd'' (mr_servicetd b))\<rparr>)"

section \<open>Lemmas\<close>

lemma slice_at: "d = pre @ xs @ post \<Longrightarrow> off = length pre \<Longrightarrow> n = off + length xs \<Longrightarrow> slice d off n = xs"
  by (simp add: slice_def)

lemma pread_u16_at:
  assumes "d = pre @ le_bytes 2 n @ post" "n < 2 ^ 16" "off = length pre"
  shows "pread_u16 d off f = Inr (of_nat n)"
proof -
  have "slice d off (off + 2) = le_bytes 2 n" using assms by (intro slice_at) simp_all
  with assms show ?thesis
    by (simp add: pread_u16_def get_range_def u16_from_le_bytes_def le_nat_le_bytes)
qed

lemma pread_u32_at:
  assumes "d = pre @ le_bytes 4 n @ post" "n < 2 ^ 32" "off = length pre"
  shows "pread_u32 d off f = Inr (of_nat n)"
proof -
  have "slice d off (off + 4) = le_bytes 4 n" using assms by (intro slice_at) simp_all
  with assms show ?thesis
    by (simp add: pread_u32_def get_range_def u32_from_le_bytes_def le_nat_le_bytes)
qed

lemma pread_u16_Inr_iff [res_simps]:
  "pread_u16 d off f = Inr w \<longleftrightarrow> off + 2 \<le> length d \<and> w = u16_from_le_bytes (slice d off (off + 2))"
  by (auto simp: pread_u16_def get_range_def)

lemma pread_u32_Inr_iff [res_simps]:
  "pread_u32 d off f = Inr w \<longleftrightarrow> off + 4 \<le> length d \<and> w = u32_from_le_bytes (slice d off (off + 4))"
  by (auto simp: pread_u32_def get_range_def)

lemma pread_not_panic [panic_free, simp]:
  "pread_u16 d off f \<noteq> Inl Panicked" "pread_u32 d off f \<noteq> Inl Panicked"
  by (auto simp: pread_u16_def pread_u32_def ok_or_Inl_iff)

lemma header_from_bytes_not_panic [panic_free]: "header_from_bytes d \<noteq> Inl Panicked"
  by (auto simp: header_from_bytes_def QUOTE_HEADER_SIZE_def err_simps)

lemma read_fields_not_panic: "off + sum_list sizes \<le> length d \<Longrightarrow> read_fields d off sizes \<noteq> Inl Panicked"
  by (induction d off sizes rule: read_fields.induct) (auto simp: err_simps)

text \<open>The fields cut the bytes they cover into pieces of the given sizes.\<close>

lemma read_fields_Inr:
  "read_fields d off sizes = Inr fs \<Longrightarrow>
     map length fs = sizes \<and> concat fs = slice d off (off + sum_list sizes)
     \<and> (sizes \<noteq> [] \<longrightarrow> off + sum_list sizes \<le> length d)"
proof (induction d off sizes arbitrary: fs rule: read_fields.induct)
  case (1 d off)
  then show ?case by simp
next
  case (2 d off len sizes)
  then obtain gs where g: "read_fields d (off + len) sizes = Inr gs"
    and fs: "fs = slice d off (off + len) # gs" and l: "off + len \<le> length d"
    by (auto simp: res_simps)
  have "slice d off (off + (len + sum_list sizes)) =
      slice d off (off + len) @ slice d (off + len) (off + len + sum_list sizes)"
    using slice_split [of off "off + len" "off + len + sum_list sizes" d] by (simp add: add.assoc)
  with 2(1) [OF g] fs l show ?case by (cases sizes) (auto simp: add.assoc)
qed

lemma body_sizes_sum: "sum_list body_sizes = 584"
  by (simp add: body_sizes_def)

lemma body_from_bytes_not_panic [panic_free]: "body_from_bytes d \<noteq> Inl Panicked"
  using read_fields_not_panic [of 0 body_sizes d] read_fields_not_panic [of 584 "[16, 48]" d]
  by (cases "read_fields d 584 [16, 48]")
     (auto simp: body_from_bytes_def REPORT_BODY_SIZE_def body_sizes_sum err_simps Let_def split: if_splits)

section \<open>Sums of sizes\<close>

text \<open>On 64 bits no sum of a size that was read overflows. On 32 bits one may, and then it is past the
  end of the slice, so what traps there is refused here.\<close>

lemma usize_add_64 [simp]: "a \<le> length d \<Longrightarrow> usize_add 64 d a (unat (x :: u32)) = Inr (a + unat x)"
  using unsigned_less [of x, where 'a = nat] by (simp add: usize_add_def)

lemma usize_add_cases: "usize_add bits d a b = Inr (a + b) \<or> usize_add bits d a b = Inl Panicked \<and> length d < a + b"
proof -
  have "(2 :: nat) ^ (bits - 1) \<le> 2 ^ bits" by (rule power_increasing) simp_all
  then have "length d < 2 ^ (bits - 1) \<Longrightarrow> 2 ^ bits \<le> a + b \<Longrightarrow> length d < a + b" by linarith
  then show ?thesis by (simp add: usize_add_def del: One_nat_def)
qed

text \<open>Two results of one parser at two widths: the same, or the first is a panic where the second is an
  error.\<close>

definition same_or_panics :: "'a res \<Rightarrow> 'a res \<Rightarrow> bool" where
  "same_or_panics r r' \<longleftrightarrow> r = r' \<or> r = Inl Panicked \<and> (\<exists>e. r' = Inl e)"

lemma same_or_panics_refl: "same_or_panics r r"
  by (simp add: same_or_panics_def)

lemma same_or_panics_steps:
  "(\<And>v. r = Inr v \<Longrightarrow> same_or_panics (k v) (k' v)) \<Longrightarrow> same_or_panics (and_then r k) (and_then r k')"
  "(c \<Longrightarrow> same_or_panics x x') \<Longrightarrow> (\<not> c \<Longrightarrow> same_or_panics y y') \<Longrightarrow> same_or_panics (if c then x else y) (if c then x' else y')"
  by (cases r; simp add: same_or_panics_def) (simp add: same_or_panics_def)

lemma same_or_panics_sum:
  "same_or_panics (g (a + b)) g' \<Longrightarrow>
     same_or_panics (and_then (usize_add bits d a b) (\<lambda>n. if length d < n then Inl f else g n))
       (if length d < a + b then Inl f else g')"
  using usize_add_cases [of bits d a b] by (auto simp: same_or_panics_def)

lemmas same_or_panics_intro = same_or_panics_refl same_or_panics_sum same_or_panics_steps

lemma parse_tdx_quote_eq:
  "parse_tdx_quote d =
     and_then (header_from_bytes d) (\<lambda>header.
     if qh_tee_type header \<noteq> TDX_TEE_TYPE then Inl (QuoteParseFailed ''invalid TEE type'')
     else if qh_version header = 4
     then
       (if length d < QUOTE_HEADER_SIZE + REPORT_BODY_SIZE then Inl (QuoteParseFailed ''v4 quote too short'')
        else and_then (at_range d QUOTE_HEADER_SIZE (QUOTE_HEADER_SIZE + REPORT_BODY_SIZE)) (\<lambda>b.
        and_then (body_from_bytes b) (\<lambda>body.
        Inr \<lparr>tq_header = header, tq_body = body, tq_version = V4\<rparr>)))
     else if qh_version header = 5
     then
       (if length d < QUOTE_HEADER_SIZE + 6
        then Inl (QuoteParseFailed ''v5 quote too short for type/size fields'')
        else and_then (pread_u16 d QUOTE_HEADER_SIZE ''v5 type'') (\<lambda>body_type.
        and_then (pread_u32 d (QUOTE_HEADER_SIZE + 2) ''v5 size'') (\<lambda>len.
        let body_size = unat len;
            expected = (if body_type = 2 then REPORT_BODY_SIZE
                        else if body_type = 3 then REPORT_BODY_SIZE + 64 else 0) in
        if expected > 0 \<and> body_size \<noteq> expected then Inl (QuoteParseFailed ''v5 body_size'')
        else
          let body_offset = QUOTE_HEADER_SIZE + 6 in
          if length d < body_offset + body_size then Inl (QuoteParseFailed ''v5 quote too short'')
          else and_then (at_range d body_offset (body_offset + body_size)) (\<lambda>b.
          and_then (body_from_bytes b) (\<lambda>body.
          if body_type = 2 then Inr \<lparr>tq_header = header, tq_body = body, tq_version = V5Tdx10\<rparr>
          else if body_type = 3 then Inr \<lparr>tq_header = header, tq_body = body, tq_version = V5Tdx15\<rparr>
          else Inl (QuoteParseFailed ''unknown v5 body type''))))))
     else Inl (QuoteParseFailed ''unsupported quote version''))"
  by (simp add: parse_tdx_quote_def parse_tdx_quote_on_def Let_def and_then_Inr cong: if_cong)

lemma compute_body_end_eq:
  "compute_body_end d v = (case v of
       V4 \<Rightarrow> Inr (QUOTE_HEADER_SIZE + REPORT_BODY_SIZE)
     | _ \<Rightarrow> and_then (pread_u32 d (QUOTE_HEADER_SIZE + 2) ''v5 body size'') (\<lambda>len.
            Inr (QUOTE_HEADER_SIZE + 6 + unat len)))"
  by (cases v; cases "pread_u32 d (QUOTE_HEADER_SIZE + 2) ''v5 body size''")
     (auto simp: compute_body_end_def compute_body_end_on_def pread_u32_def QUOTE_HEADER_SIZE_def res_simps get_range_def)

text \<open>What another width does with a quote: the same, or it panics where 64 bits refuse the size.\<close>

lemma parse_tdx_quote_width: "same_or_panics (parse_tdx_quote_on bits d) (parse_tdx_quote d)"
  unfolding parse_tdx_quote_eq parse_tdx_quote_on_def Let_def by (rule same_or_panics_intro)+

text \<open>A quote of version 5 whose size is \<open>u32::MAX\<close> makes the browser's build panic.\<close>

definition overflowing_quote :: bytes where
  "overflowing_quote = [5, 0, 0, 0, 0x81, 0, 0, 0] @ replicate 40 0 @ [7, 0, 0xFF, 0xFF, 0xFF, 0xFF]"

lemma browser_build_panics: "parse_tdx_quote_on 32 overflowing_quote = Inl Panicked"
proof -
  note reads = overflowing_quote_def QUOTE_HEADER_SIZE_def pread_u16_def pread_u32_def get_range_def at_range_def
    slice_def u16_from_le_bytes_def u32_from_le_bytes_def min_def
  have "header_from_bytes overflowing_quote = Inr \<lparr>qh_version = 5, qh_att_key_type = 0, qh_tee_type = 0x81,
      qh_reserved = replicate 2 0, qh_vendor_id = replicate 16 0, qh_user_data = replicate 20 0\<rparr>"
    by (simp add: header_from_bytes_def reads)
  moreover have "pread_u16 overflowing_quote 48 f = Inr 7" "pread_u32 overflowing_quote 50 f = Inr 0xFFFFFFFF"
    "length overflowing_quote = 54" for f
    by (simp_all add: reads)
  ultimately show ?thesis
    by (simp add: parse_tdx_quote_on_def usize_add_def QUOTE_HEADER_SIZE_def TDX_TEE_TYPE_def)
qed

lemma parse_tdx_quote_not_panic [panic_free]: "parse_tdx_quote d \<noteq> Inl Panicked"
  using header_from_bytes_not_panic body_from_bytes_not_panic
  by (auto simp: parse_tdx_quote_eq QUOTE_HEADER_SIZE_def REPORT_BODY_SIZE_def err_simps Let_def
      split: if_splits)

lemma compute_body_end_not_panic [panic_free, simp]: "compute_body_end d v \<noteq> Inl Panicked"
  by (cases v) (auto simp: compute_body_end_eq err_simps)

lemma verify_quote_signature_not_panic [panic_free]:
  "verify_quote_signature h ec d q \<noteq> Inl Panicked"
  by (auto simp: verify_quote_signature_def err_simps Let_def split: if_splits)


text \<open>Where a parsed quote's signed part ends.\<close>

lemma parse_tdx_quote_body_end:
  assumes p: "parse_tdx_quote d = Inr q"
  shows "\<exists>e. compute_body_end d (tq_version q) = Inr e \<and> 632 \<le> e \<and> e \<le> length d"
proof -
  have "tq_version q = V4 \<and> 632 \<le> length d \<or>
    tq_version q \<noteq> V4 \<and> 584 \<le> unat (u32_from_le_bytes (slice d 50 54))
      \<and> 54 + unat (u32_from_le_bytes (slice d 50 54)) \<le> length d"
    using p
    by (auto simp: parse_tdx_quote_eq body_from_bytes_def QUOTE_HEADER_SIZE_def REPORT_BODY_SIZE_def
        Let_def res_simps split: if_splits)
  then show ?thesis
    by (cases "tq_version q")
       (auto simp: compute_body_end_eq QUOTE_HEADER_SIZE_def REPORT_BODY_SIZE_def pread_u32_def get_range_def)
qed

lemma pread_take:
  "off + 2 \<le> n \<Longrightarrow> n \<le> length d \<Longrightarrow> pread_u16 (take n d) off f = pread_u16 d off f"
  "off + 4 \<le> n \<Longrightarrow> n \<le> length d \<Longrightarrow> pread_u32 (take n d) off f = pread_u32 d off f"
  by (simp_all add: pread_u16_def pread_u32_def get_range_def slice_take)

lemma at_range_take: "b \<le> n \<Longrightarrow> n \<le> length d \<Longrightarrow> at_range (take n d) a b = at_range d a b"
  by (simp add: at_range_def get_range_def slice_take)

lemma header_from_bytes_take:
  "48 \<le> n \<Longrightarrow> n \<le> length d \<Longrightarrow> header_from_bytes (take n d) = header_from_bytes d"
  by (simp add: header_from_bytes_def QUOTE_HEADER_SIZE_def pread_take at_range_take slice_take)

text \<open>Nothing after the signed part reaches the parsed quote.\<close>

lemma parse_tdx_quote_take:
  assumes p: "parse_tdx_quote d = Inr q" and e: "compute_body_end d (tq_version q) = Inr e"
  shows "parse_tdx_quote (take e d) = Inr q"
proof -
  have b: "632 \<le> e" "e \<le> length d" using parse_tdx_quote_body_end [OF p] e by auto
  note h = header_from_bytes_take [OF _ b(2)] pread_take [OF _ b(2)] at_range_take [OF _ b(2)]
  show ?thesis
  proof (cases "tq_version q = V4")
    case True
    with p have "qh_version (tq_header q) = 4" "header_from_bytes d = Inr (tq_header q)"
      by (auto simp: parse_tdx_quote_eq res_simps Let_def split: if_splits)
    with p b show ?thesis
      by (auto simp: parse_tdx_quote_eq h QUOTE_HEADER_SIZE_def REPORT_BODY_SIZE_def slice_take split: if_splits)
  next
    case False
    with p have v: "qh_version (tq_header q) = 5" "header_from_bytes d = Inr (tq_header q)"
      by (auto simp: parse_tdx_quote_eq res_simps Let_def split: if_splits)
    from False e have e': "e = 54 + unat (u32_from_le_bytes (slice d 50 54))"
      by (cases "tq_version q") (auto simp: compute_body_end_eq res_simps QUOTE_HEADER_SIZE_def)
    have w: "pread_u32 d 50 f = Inr (u32_from_le_bytes (slice d 50 54))" for f
      using b by (simp add: pread_u32_def get_range_def)
    from p v b w show ?thesis
      by (auto simp: parse_tdx_quote_eq h QUOTE_HEADER_SIZE_def REPORT_BODY_SIZE_def e' [symmetric] Let_def
          slice_take res_simps split: if_splits)
  qed
qed

text \<open>What a verified signature covers.\<close>

lemma verify_quote_signature_Inr:
  assumes v: "verify_quote_signature h ec d q = Inr b" and e: "compute_body_end d (tq_version q) = Inr e"
  shows "b \<and> (\<exists>k s. ec_key ec (4 # slice d (e + 68) (e + 132)) = Some k
           \<and> ec_sig ec (slice d (e + 4) (e + 68)) = Some s
           \<and> ec_verify_prehash ec k (sha256 h (take e d)) s)"
proof -
  have s: "slice d (e + 4) (e + 68) = slice d (e + 4) (e + 36) @ slice d (e + 36) (e + 68)"
    "slice d (e + 68) (e + 132) = slice d (e + 68) (e + 100) @ slice d (e + 100) (e + 132)"
    using slice_split [of "e + 4" "e + 36" "e + 68" d] slice_split [of "e + 68" "e + 100" "e + 132" d]
    by simp_all
  from v e show ?thesis
    by (auto simp: verify_quote_signature_def res_simps Let_def s add.commute split: if_splits)
qed

end
