(* ===== verification/Dcap.thy ===== *)
theory Dcap
  imports TdxQuote
begin

text \<open>
  The chain half of \<open>crates/attestation/src/platforms/tdx/dcap.rs\<close>: the
  authentication data after a quote's body, Intel's certificate chains, the
  quoting enclave's report and its binding of the attestation key.
\<close>

section \<open>Data\<close>

record quote_auth_data =
  attestation_pub_key :: bytes
  qe_report_body :: bytes
  qe_report_signature :: bytes
  qe_auth_data :: bytes
  pck_cert_chain_pem :: bytes

text \<open>What Intel's JSON says, as far as the source reads it.\<close>

record tcb_level =
  lv_sgx :: "u8 list"
  lv_pcesvn :: u16
  lv_tdx :: "u8 list option"
  lv_status :: string
  lv_advisories :: "string list"

record tcb_info_json =
  ti_levels :: "tcb_level list"
  ti_next_update :: "string option"

record enclave_fields =
  ef_mrsigner :: string
  ef_isvprodid :: u16
  ef_miscselect :: string
  ef_miscselect_mask :: string
  ef_attributes :: string
  ef_attributes_mask :: string
  ef_levels :: "(u16 \<times> string) list"

record qe_identity =
  qi_mrsigner :: bytes
  qi_isvprodid :: u16
  qi_miscselect :: bytes
  qi_miscselect_mask :: bytes
  qi_attributes :: bytes
  qi_attributes_mask :: bytes
  qi_levels :: "(u16 \<times> string) list"

text \<open>The libraries, and the bundled root certificate file. An envelope is the raw
  text that is signed and the signature text.\<close>

record ('k, 's) dcap_lib =
  dc_hash :: hash_lib
  dc_hex :: hex_lib
  dc_ec :: "('k, 's) ec_lib"
  dc_x509 :: x509_lib
  dc_root_ca :: bytes
  dc_tcb_envelope :: "bytes \<Rightarrow> (bytes \<times> string) option"
  dc_tcb_info :: "bytes \<Rightarrow> tcb_info_json option"
  dc_qe_envelope :: "bytes \<Rightarrow> (bytes \<times> string) option"
  dc_qe_fields :: "bytes \<Rightarrow> enclave_fields option"
  dc_rfc3339 :: "string \<Rightarrow> int option"

definition INTEL_SGX_ROOT_CA_PUB_DER :: bytes where
  "INTEL_SGX_ROOT_CA_PUB_DER =
     [0x04,
      0x0b, 0xa9, 0xc4, 0xc0, 0xc0, 0xc8, 0x61, 0x93, 0xa3, 0xfe, 0x23, 0xd6, 0xb0, 0x2c, 0xda, 0x10,
      0xa8, 0xbb, 0xd4, 0xe8, 0x8e, 0x48, 0xb4, 0x45, 0x85, 0x61, 0xa3, 0x6e, 0x70, 0x55, 0x25, 0xf5,
      0x67, 0x91, 0x8e, 0x2e, 0xdc, 0x88, 0xe4, 0x0d, 0x86, 0x0b, 0xd0, 0xcc, 0x4e, 0xe2, 0x6a, 0xac,
      0xc9, 0x88, 0xe5, 0x05, 0xa9, 0x53, 0x55, 0x8c, 0x45, 0x3f, 0x6b, 0x09, 0x04, 0xae, 0x73, 0x94]"

definition QE_REPORT_BODY_SIZE :: nat where "QE_REPORT_BODY_SIZE = 384"
definition CERT_DATA_TYPE_ECDSA_SIG_AUX :: u16 where "CERT_DATA_TYPE_ECDSA_SIG_AUX = 6"
definition CERT_DATA_TYPE_PCK_CHAIN :: u16 where "CERT_DATA_TYPE_PCK_CHAIN = 5"
definition TCB_SIGNING :: string where "TCB_SIGNING = ''Intel SGX TCB Signing''"

section \<open>Authentication data\<close>

text \<open>Of the sums, only those with a 32-bit size can overflow: \<open>body_end\<close> is in the quote.\<close>

definition parse_auth_data_on :: "nat \<Rightarrow> bytes \<Rightarrow> nat \<Rightarrow> quote_auth_data res" where
  "parse_auth_data_on bits d body_end =
     (let attest_key_offset = body_end + 4 + 64 in
      if length d < attest_key_offset + 64
      then Inl (QuoteParseFailed ''quote too short for attestation key'')
      else and_then (at_range d attest_key_offset (attest_key_offset + 64)) (\<lambda>attestation_key.
      let cert_type_offset = attest_key_offset + 64 in
      if length d < cert_type_offset + 6
      then Inl (QuoteParseFailed ''quote too short for cert data header'')
      else and_then (pread_u16 d cert_type_offset ''cert_data_type'') (\<lambda>cert_data_type.
      if cert_data_type \<noteq> CERT_DATA_TYPE_ECDSA_SIG_AUX
      then Inl (QuoteParseFailed ''expected cert_data_type'')
      else and_then (pread_u32 d (cert_type_offset + 2) ''cert_data_size'') (\<lambda>cert_data_size.
      let cert_data_start = cert_type_offset + 6 in
      and_then (usize_add bits d cert_data_start (unat cert_data_size)) (\<lambda>cert_data_end.
      if length d < cert_data_end
      then Inl (QuoteParseFailed ''quote too short for cert data'')
      else and_then (at_range d cert_data_start cert_data_end) (\<lambda>cert_data.
      if length cert_data < QE_REPORT_BODY_SIZE + 64
      then Inl (QuoteParseFailed ''cert data too short for QE report + signature'')
      else and_then (at_range cert_data 0 QE_REPORT_BODY_SIZE) (\<lambda>report.
      and_then (at_range cert_data QE_REPORT_BODY_SIZE (QE_REPORT_BODY_SIZE + 64)) (\<lambda>signature.
      let auth_size_offset = QE_REPORT_BODY_SIZE + 64 in
      if length cert_data < auth_size_offset + 2
      then Inl (QuoteParseFailed ''cert data too short for qe_auth_data_size'')
      else and_then (pread_u16 cert_data auth_size_offset ''qe_auth_data_size'') (\<lambda>auth_size.
      let auth_start = auth_size_offset + 2 in
      if length cert_data < auth_start + unat auth_size
      then Inl (QuoteParseFailed ''cert data too short for qe_auth_data'')
      else and_then (at_range cert_data auth_start (auth_start + unat auth_size)) (\<lambda>auth.
      let nested_offset = auth_start + unat auth_size in
      if length cert_data < nested_offset + 6
      then Inl (QuoteParseFailed ''cert data too short for nested cert data header'')
      else and_then (pread_u16 cert_data nested_offset ''nested cert_data_type'') (\<lambda>nested_type.
      if nested_type \<noteq> CERT_DATA_TYPE_PCK_CHAIN
      then Inl (QuoteParseFailed ''expected nested cert_data_type'')
      else and_then (pread_u32 cert_data (nested_offset + 2) ''nested cert_data_size'') (\<lambda>nested_size.
      let pem_start = nested_offset + 6 in
      and_then (usize_add bits cert_data pem_start (unat nested_size)) (\<lambda>pem_end.
      if length cert_data < pem_end
      then Inl (QuoteParseFailed ''cert data too short for PEM cert chain'')
      else and_then (at_range cert_data pem_start pem_end) (\<lambda>pem.
      Inr \<lparr>attestation_pub_key = attestation_key, qe_report_body = report,
           qe_report_signature = signature, qe_auth_data = auth,
           pck_cert_chain_pem = pem\<rparr>))))))))))))))"

definition parse_auth_data :: "bytes \<Rightarrow> nat \<Rightarrow> quote_auth_data res" where
  "parse_auth_data = parse_auth_data_on 64"

definition verify_qe_report_binding :: "hash_lib \<Rightarrow> quote_auth_data \<Rightarrow> unit res" where
  "verify_qe_report_binding h a =
     (let digest = sha256 h (attestation_pub_key a @ qe_auth_data a) in
      and_then (at_range (qe_report_body a) 320 384) (\<lambda>user_report_data.
      and_then (at_range user_report_data 0 32) (\<lambda>lower.
      if \<not> constant_time_eq lower digest
      then Inl (SignatureVerificationFailed ''QE report binding failed: hash'')
      else and_then (at_range user_report_data 32 64) (\<lambda>upper.
      if list_ex (\<lambda>b. b \<noteq> 0) upper
      then Inl (SignatureVerificationFailed ''QE report binding failed: padding'')
      else Inr ()))))"

definition verify_qe_report_signature ::
  "('k, 's) ec_lib \<Rightarrow> quote_auth_data \<Rightarrow> 'k \<Rightarrow> unit res" where
  "verify_qe_report_signature ec a pck_key =
     and_then (ok_or (SignatureVerificationFailed ''QE report signature parse'')
                (ec_sig ec (qe_report_signature a))) (\<lambda>sig.
     require (ec_verify ec pck_key (qe_report_body a) sig)
       (SignatureVerificationFailed ''QE report signature verification''))"

section \<open>Certificate chains\<close>

definition parse_x509_cert :: "x509_lib \<Rightarrow> bytes \<Rightarrow> cert_data res" where
  "parse_x509_cert x der = ok_or (CertChainError ''cert DER parse'') (x_cert_data x der)"

definition extract_p256_pub_key :: "('k, 's) ec_lib \<Rightarrow> bytes \<Rightarrow> 'k res" where
  "extract_p256_pub_key ec b = ok_or (CertChainError ''public key parse'') (ec_key ec b)"

definition verify_cert_signature :: "('k, 's) ec_lib \<Rightarrow> cert_data \<Rightarrow> 'k \<Rightarrow> unit res" where
  "verify_cert_signature ec c issuer_key =
     and_then (ok_or (CertChainError ''signature parse'') (ec_sig_der ec (cd_signature c))) (\<lambda>sig.
     require (ec_verify ec issuer_key (cd_tbs c) sig) (CertChainError ''signature verification''))"

definition verify_cert_validity_period :: "x509_lib \<Rightarrow> int \<Rightarrow> bytes \<Rightarrow> unit res" where
  "verify_cert_validity_period x now der =
     and_then (ok_or (CertChainError ''x509 parse for validity'') (x_cert x der)) (\<lambda>cert.
     and_then (asn1_time x now) (\<lambda>now.
     if now < ct_not_before cert then Inl (CertChainError ''certificate is not yet valid'')
     else if now > ct_not_after cert then Inl (CertChainError ''certificate has expired'')
     else Inr ()))"

definition check_signer :: "x509_lib \<Rightarrow> bytes \<Rightarrow> string \<Rightarrow> unit res" where
  "check_signer x der signer =
     and_then (ok_or (CertChainError ''signer x509 parse'') (x_cert x der)) (\<lambda>cert.
     let cn = (case ct_subject_cns cert of [] \<Rightarrow> None | c # _ \<Rightarrow> c) in
     if cn \<noteq> Some signer then Inl (CertChainError ''signer'') else Inr ())"

text \<open>The pin: the root's key is Intel's, and the root signed itself.\<close>

definition verify_pinned_root :: "('k, 's) ec_lib \<Rightarrow> cert_data \<Rightarrow> 'k res" where
  "verify_pinned_root ec root_cert =
     and_then (extract_p256_pub_key ec (cd_pub_key root_cert)) (\<lambda>root_pub_key.
     and_then (ok_or (CertChainError ''Intel Root CA key parse'')
                (ec_key ec INTEL_SGX_ROOT_CA_PUB_DER)) (\<lambda>intel_root_key.
     if ec_point ec root_pub_key \<noteq> ec_point ec intel_root_key
     then Inl (CertChainError ''Root CA public key does not match Intel SGX Root CA'')
     else and_then (verify_cert_signature ec root_cert root_pub_key) (\<lambda>_. Inr root_pub_key)))"

definition verify_pck_cert_chain :: "('k, 's) dcap_lib \<Rightarrow> bytes \<Rightarrow> int \<Rightarrow> 'k res" where
  "verify_pck_cert_chain L pem now =
     (let x = dc_x509 L; ec = dc_ec L in
      and_then (ok_or (CertChainError ''PEM data is not valid UTF-8'') (from_utf8 pem)) (\<lambda>pem_str.
      and_then (split_pem_to_der x pem_str) (\<lambda>ders.
      if length ders < 3 then Inl (CertChainError ''expected at least 3 certificates in PCK chain'')
      else and_then (parse_x509_cert x (ders ! 0)) (\<lambda>leaf_cert.
      and_then (parse_x509_cert x (ders ! 1)) (\<lambda>intermediate_cert.
      and_then (parse_x509_cert x (ders ! 2)) (\<lambda>root_cert.
      and_then (verify_pinned_root ec root_cert) (\<lambda>root_pub_key.
      and_then (extract_p256_pub_key ec (cd_pub_key intermediate_cert)) (\<lambda>intermediate_pub_key.
      and_then (verify_cert_signature ec intermediate_cert root_pub_key) (\<lambda>_.
      and_then (verify_cert_signature ec leaf_cert intermediate_pub_key) (\<lambda>_.
      and_then (check_each (verify_cert_validity_period x now) [ders ! 0, ders ! 1, ders ! 2]) (\<lambda>_.
      extract_p256_pub_key ec (cd_pub_key leaf_cert))))))))))))"

definition verify_signing_cert_chain ::
  "('k, 's) dcap_lib \<Rightarrow> bytes \<Rightarrow> int \<Rightarrow> string \<Rightarrow> 'k res" where
  "verify_signing_cert_chain L pem now signer =
     (let x = dc_x509 L; ec = dc_ec L in
      and_then (ok_or (CertChainError ''signing chain PEM not UTF-8'') (from_utf8 pem)) (\<lambda>pem_str.
      and_then (split_pem_to_der x pem_str) (\<lambda>ders.
      let ders = (if length ders = 1 then ders @ [dc_root_ca L] else ders) in
      if length ders < 2 then Inl (CertChainError ''expected at least 2 certificates in signing chain'')
      else and_then (parse_x509_cert x (ders ! 0)) (\<lambda>signing_cert.
      and_then (parse_x509_cert x (ders ! 1)) (\<lambda>root_cert.
      and_then (verify_pinned_root ec root_cert) (\<lambda>root_pub_key.
      and_then (verify_cert_signature ec signing_cert root_pub_key) (\<lambda>_.
      and_then (check_signer x (ders ! 0) signer) (\<lambda>_.
      and_then (check_each (verify_cert_validity_period x now) [ders ! 0, ders ! 1]) (\<lambda>_.
      extract_p256_pub_key ec (cd_pub_key signing_cert))))))))))"

text \<open>\<open>verify_dcap_chain\<close>.\<close>

definition verify_dcap_chain :: "('k, 's) dcap_lib \<Rightarrow> bytes \<Rightarrow> quote_version \<Rightarrow> int \<Rightarrow> unit res" where
  "verify_dcap_chain L d v now =
     and_then (compute_body_end d v) (\<lambda>body_end.
     and_then (parse_auth_data d body_end) (\<lambda>auth.
     and_then (verify_pck_cert_chain L (pck_cert_chain_pem auth) now) (\<lambda>pck_pub_key.
     and_then (verify_qe_report_signature (dc_ec L) auth pck_pub_key) (\<lambda>_.
     verify_qe_report_binding (dc_hash L) auth))))"

section \<open>Lemmas\<close>

lemma parse_auth_data_eq:
  "parse_auth_data d body_end =
     (let attest_key_offset = body_end + 4 + 64 in
      if length d < attest_key_offset + 64
      then Inl (QuoteParseFailed ''quote too short for attestation key'')
      else and_then (at_range d attest_key_offset (attest_key_offset + 64)) (\<lambda>attestation_key.
      let cert_type_offset = attest_key_offset + 64 in
      if length d < cert_type_offset + 6
      then Inl (QuoteParseFailed ''quote too short for cert data header'')
      else and_then (pread_u16 d cert_type_offset ''cert_data_type'') (\<lambda>cert_data_type.
      if cert_data_type \<noteq> CERT_DATA_TYPE_ECDSA_SIG_AUX
      then Inl (QuoteParseFailed ''expected cert_data_type'')
      else and_then (pread_u32 d (cert_type_offset + 2) ''cert_data_size'') (\<lambda>cert_data_size.
      let cert_data_start = cert_type_offset + 6 in
      if length d < cert_data_start + unat cert_data_size
      then Inl (QuoteParseFailed ''quote too short for cert data'')
      else and_then (at_range d cert_data_start (cert_data_start + unat cert_data_size)) (\<lambda>cert_data.
      if length cert_data < QE_REPORT_BODY_SIZE + 64
      then Inl (QuoteParseFailed ''cert data too short for QE report + signature'')
      else and_then (at_range cert_data 0 QE_REPORT_BODY_SIZE) (\<lambda>report.
      and_then (at_range cert_data QE_REPORT_BODY_SIZE (QE_REPORT_BODY_SIZE + 64)) (\<lambda>signature.
      let auth_size_offset = QE_REPORT_BODY_SIZE + 64 in
      if length cert_data < auth_size_offset + 2
      then Inl (QuoteParseFailed ''cert data too short for qe_auth_data_size'')
      else and_then (pread_u16 cert_data auth_size_offset ''qe_auth_data_size'') (\<lambda>auth_size.
      let auth_start = auth_size_offset + 2 in
      if length cert_data < auth_start + unat auth_size
      then Inl (QuoteParseFailed ''cert data too short for qe_auth_data'')
      else and_then (at_range cert_data auth_start (auth_start + unat auth_size)) (\<lambda>auth.
      let nested_offset = auth_start + unat auth_size in
      if length cert_data < nested_offset + 6
      then Inl (QuoteParseFailed ''cert data too short for nested cert data header'')
      else and_then (pread_u16 cert_data nested_offset ''nested cert_data_type'') (\<lambda>nested_type.
      if nested_type \<noteq> CERT_DATA_TYPE_PCK_CHAIN
      then Inl (QuoteParseFailed ''expected nested cert_data_type'')
      else and_then (pread_u32 cert_data (nested_offset + 2) ''nested cert_data_size'') (\<lambda>nested_size.
      let pem_start = nested_offset + 6 in
      if length cert_data < pem_start + unat nested_size
      then Inl (QuoteParseFailed ''cert data too short for PEM cert chain'')
      else and_then (at_range cert_data pem_start (pem_start + unat nested_size)) (\<lambda>pem.
      Inr \<lparr>attestation_pub_key = attestation_key, qe_report_body = report,
           qe_report_signature = signature, qe_auth_data = auth,
           pck_cert_chain_pem = pem\<rparr>))))))))))))"
  by (simp add: parse_auth_data_def parse_auth_data_on_def Let_def and_then_Inr cong: if_cong)

lemmas auth_defs = parse_auth_data_eq QE_REPORT_BODY_SIZE_def

lemma parse_auth_data_width: "same_or_panics (parse_auth_data_on bits d e) (parse_auth_data d e)"
  unfolding parse_auth_data_eq parse_auth_data_on_def Let_def by (rule same_or_panics_intro)+

lemma parse_auth_data_not_panic [panic_free, simp]: "parse_auth_data d e \<noteq> Inl Panicked"
  by (auto simp: auth_defs err_simps res_simps Let_def split: if_splits)

text \<open>Authentication data as a quote carries it, after the body: the quote's own
  signature, the attestation key, and the nested certification data.\<close>

definition cert_data_bytes :: "quote_auth_data \<Rightarrow> bytes" where
  "cert_data_bytes a =
     qe_report_body a @ qe_report_signature a @ le_bytes 2 (length (qe_auth_data a)) @ qe_auth_data a
     @ le_bytes 2 5 @ le_bytes 4 (length (pck_cert_chain_pem a)) @ pck_cert_chain_pem a"

definition auth_data_bytes :: "bytes \<Rightarrow> quote_auth_data \<Rightarrow> bytes" where
  "auth_data_bytes signature a =
     le_bytes 4 (64 + 64 + 6 + length (cert_data_bytes a)) @ signature @ attestation_pub_key a
     @ le_bytes 2 6 @ le_bytes 4 (length (cert_data_bytes a)) @ cert_data_bytes a"

definition auth_data_ok :: "bytes \<Rightarrow> quote_auth_data \<Rightarrow> bool" where
  "auth_data_ok signature a \<longleftrightarrow>
     length signature = 64 \<and> length (attestation_pub_key a) = 64 \<and> length (qe_report_body a) = 384
     \<and> length (qe_report_signature a) = 64 \<and> length (qe_auth_data a) < 2 ^ 16
     \<and> length (cert_data_bytes a) < 2 ^ 32"

text \<open>The nested part first, on its own.\<close>

lemma cert_data_reads:
  assumes ok: "auth_data_ok s a"
  defines "c \<equiv> cert_data_bytes a" and "n \<equiv> length (qe_auth_data a)"
  shows "slice c 0 384 = qe_report_body a" and "slice c 384 448 = qe_report_signature a"
    and "pread_u16 c 448 f = Inr (of_nat n)" and "slice c 450 (450 + n) = qe_auth_data a"
    and "pread_u16 c (450 + n) f = Inr 5"
    and "pread_u32 c (452 + n) f = Inr (of_nat (length (pck_cert_chain_pem a)))"
    and "slice c (456 + n) (456 + n + length (pck_cert_chain_pem a)) = pck_cert_chain_pem a"
    and "length c = 456 + n + length (pck_cert_chain_pem a)"
proof -
  let ?b = "qe_report_body a" and ?g = "qe_report_signature a"
  let ?n = "le_bytes 2 (length (qe_auth_data a))" and ?q = "qe_auth_data a"
  let ?m = "le_bytes 4 (length (pck_cert_chain_pem a))"
  note d = c_def n_def cert_data_bytes_def
  show l: "length c = 456 + n + length (pck_cert_chain_pem a)"
    using ok by (simp add: d auth_data_ok_def)
  have pem: "length (pck_cert_chain_pem a) < 2 ^ 32"
    using ok l by (simp add: c_def auth_data_ok_def)
  show "slice c 0 384 = qe_report_body a"
    using ok by (simp add: d auth_data_ok_def)
  show "slice c 384 448 = qe_report_signature a"
    using ok by (intro slice_at [of _ ?b]) (simp_all add: d auth_data_ok_def)
  show "pread_u16 c 448 f = Inr (of_nat n)"
    using ok by (intro pread_u16_at [of _ "?b @ ?g"]) (simp_all add: d auth_data_ok_def)
  show "slice c 450 (450 + n) = qe_auth_data a"
    using ok by (intro slice_at [of _ "?b @ ?g @ ?n"]) (simp_all add: d auth_data_ok_def)
  show "pread_u16 c (450 + n) f = Inr 5"
    using pread_u16_at [of c "?b @ ?g @ ?n @ ?q" 5 _ "450 + n" f] ok by (simp add: d auth_data_ok_def)
  show "pread_u32 c (452 + n) f = Inr (of_nat (length (pck_cert_chain_pem a)))"
    using ok pem
    by (intro pread_u32_at [of _ "?b @ ?g @ ?n @ ?q @ le_bytes 2 5"]) (simp_all add: d auth_data_ok_def)
  show "slice c (456 + n) (456 + n + length (pck_cert_chain_pem a)) = pck_cert_chain_pem a"
    using ok by (intro slice_at [of _ "?b @ ?g @ ?n @ ?q @ le_bytes 2 5 @ ?m" _ "[]"])
      (simp_all add: d auth_data_ok_def)
qed

lemma parse_auth_data_bytes:
  assumes ok: "auth_data_ok s a"
  shows "parse_auth_data (pre @ auth_data_bytes s a @ post) (length pre) = Inr a"
proof -
  let ?d = "pre @ auth_data_bytes s a @ post" and ?p = "length pre" and ?c = "cert_data_bytes a"
  let ?h = "le_bytes 4 (64 + 64 + 6 + length ?c)" and ?k = "attestation_pub_key a"
  note d = auth_data_bytes_def auth_data_ok_def
  note r = cert_data_reads [OF ok]
  have l: "length ?d = ?p + 138 + length ?c + length post"
    using ok by (simp add: d)
  have k: "slice ?d (?p + 68) (?p + 132) = ?k"
    using ok by (intro slice_at [of _ "pre @ ?h @ s"]) (simp_all add: d)
  have t: "pread_u16 ?d (?p + 132) f = Inr 6" for f
    using pread_u16_at [of ?d "pre @ ?h @ s @ ?k" 6 _ "?p + 132" f] ok by (simp add: d)
  have z: "pread_u32 ?d (?p + 134) f = Inr (of_nat (length ?c))" for f
    using ok by (intro pread_u32_at [of _ "pre @ ?h @ s @ ?k @ le_bytes 2 6"]) (simp_all add: d)
  have c: "slice ?d (?p + 138) (?p + 138 + length ?c) = ?c"
    using ok by (intro slice_at [of _ "pre @ ?h @ s @ ?k @ le_bytes 2 6 @ le_bytes 4 (length ?c)"])
      (simp_all add: d)
  have b: "length ?c < 2 ^ 32" "length (qe_auth_data a) < 2 ^ 16" "length (pck_cert_chain_pem a) < 2 ^ 32"
    using ok r(8) by (simp_all add: auth_data_ok_def)
  have u: "unat (of_nat (length ?c) :: u32) = length ?c"
    "unat (of_nat (length (qe_auth_data a)) :: u16) = length (qe_auth_data a)"
    "unat (of_nat (length (pck_cert_chain_pem a)) :: u32) = length (pck_cert_chain_pem a)"
    using b by (simp_all only: unat_of_nat_small)
  show ?thesis
    using l k t z c u r
    by (simp add: auth_defs Let_def CERT_DATA_TYPE_ECDSA_SIG_AUX_def CERT_DATA_TYPE_PCK_CHAIN_def
        add.assoc add.commute)
qed

text \<open>The chain of trust a passed verification stands on.\<close>

definition signed_by :: "('k, 's) ec_lib \<Rightarrow> 'k \<Rightarrow> cert_data \<Rightarrow> bool" where
  "signed_by ec k c \<longleftrightarrow> (\<exists>s. ec_sig_der ec (cd_signature c) = Some s \<and> ec_verify ec k (cd_tbs c) s)"

definition valid_at :: "x509_lib \<Rightarrow> int \<Rightarrow> bytes \<Rightarrow> bool" where
  "valid_at x now der \<longleftrightarrow> (\<exists>c. x_cert x der = Some c \<and> ct_not_before c \<le> now \<and> now \<le> ct_not_after c)"

definition intel_root :: "('k, 's) ec_lib \<Rightarrow> 'k \<Rightarrow> bool" where
  "intel_root ec k \<longleftrightarrow>
     (\<exists>r. ec_key ec INTEL_SGX_ROOT_CA_PUB_DER = Some r \<and> ec_point ec k = ec_point ec r)"

definition pck_chain :: "('k, 's) dcap_lib \<Rightarrow> bytes \<Rightarrow> int \<Rightarrow> 'k \<Rightarrow> bool" where
  "pck_chain L pem now leaf_key \<longleftrightarrow>
     (\<exists>s ders leaf inter root rk ik.
        from_utf8 pem = Some s \<and> split_pem_to_der (dc_x509 L) s = Inr ders \<and> 3 \<le> length ders
        \<and> x_cert_data (dc_x509 L) (ders ! 0) = Some leaf \<and> x_cert_data (dc_x509 L) (ders ! 1) = Some inter
        \<and> x_cert_data (dc_x509 L) (ders ! 2) = Some root
        \<and> ec_key (dc_ec L) (cd_pub_key root) = Some rk \<and> intel_root (dc_ec L) rk
        \<and> signed_by (dc_ec L) rk root \<and> signed_by (dc_ec L) rk inter
        \<and> ec_key (dc_ec L) (cd_pub_key inter) = Some ik \<and> signed_by (dc_ec L) ik leaf
        \<and> ec_key (dc_ec L) (cd_pub_key leaf) = Some leaf_key
        \<and> (\<forall>i < 3. valid_at (dc_x509 L) now (ders ! i)))"

lemma verify_cert_signature_Inr_iff [res_simps]:
  "verify_cert_signature ec c k = Inr u \<longleftrightarrow> signed_by ec k c"
  by (auto simp: verify_cert_signature_def signed_by_def res_simps)

lemma validity_Inr_iff [res_simps]:
  "verify_cert_validity_period x now der = Inr u \<longleftrightarrow> x_time_ok x now \<and> valid_at x now der"
  by (auto simp: verify_cert_validity_period_def valid_at_def asn1_time_def res_simps)

lemma verify_pinned_root_Inr_iff [res_simps]:
  "verify_pinned_root ec c = Inr k \<longleftrightarrow> ec_key ec (cd_pub_key c) = Some k \<and> intel_root ec k \<and> signed_by ec k c"
  by (auto simp: verify_pinned_root_def extract_p256_pub_key_def intel_root_def res_simps)

lemma all_less_3: "(\<forall>i < 3. P i) \<longleftrightarrow> P 0 \<and> P 1 \<and> P (2 :: nat)"
  by (auto simp: less_Suc_eq numeral_eq_Suc)

lemma verify_pck_cert_chain_Inr:
  "verify_pck_cert_chain L pem now = Inr k \<Longrightarrow> pck_chain L pem now k"
  unfolding pck_chain_def all_less_3
  by (auto simp: verify_pck_cert_chain_def parse_x509_cert_def extract_p256_pub_key_def res_simps Let_def)

lemma verify_pck_cert_chain_iff:
  assumes "x_time_ok (dc_x509 L) now"
  shows "verify_pck_cert_chain L pem now = Inr k \<longleftrightarrow> pck_chain L pem now k"
  unfolding pck_chain_def all_less_3
  using assms
  by (auto simp: verify_pck_cert_chain_def parse_x509_cert_def extract_p256_pub_key_def res_simps Let_def)

definition qe_bound :: "hash_lib \<Rightarrow> quote_auth_data \<Rightarrow> bool" where
  "qe_bound h a \<longleftrightarrow>
     slice (qe_report_body a) 320 384 = sha256 h (attestation_pub_key a @ qe_auth_data a) @ replicate 32 0"

lemma halves_eq:
  "xs = take n xs @ ys \<Longrightarrow> n \<le> length xs \<Longrightarrow> length ys = length zs \<Longrightarrow>
     take n xs = d \<and> ys = zs \<longleftrightarrow> length d = n \<and> xs = d @ zs"
  by (metis append_eq_append_conv length_take min.absorb2)

lemma verify_qe_report_binding_Inr_iff:
  assumes l: "length (qe_report_body a) = 384"
  shows "verify_qe_report_binding h a = Inr () \<longleftrightarrow>
    length (sha256 h (attestation_pub_key a @ qe_auth_data a)) = 32 \<and> qe_bound h a"
proof -
  let ?u = "slice (qe_report_body a) 320 384"
  have u: "length ?u = 64" "?u = take 32 ?u @ slice ?u 32 64" "length (slice ?u 32 64) = 32"
    using l slice_split [of 320 352 384 "qe_report_body a"] by (simp_all add: slice_def)
  have z: "\<not> list_ex (\<lambda>b. b \<noteq> 0) xs \<longleftrightarrow> xs = replicate (length xs) 0" for xs :: bytes
    by (induction xs) auto
  have "verify_qe_report_binding h a = Inr () \<longleftrightarrow>
      take 32 ?u = sha256 h (attestation_pub_key a @ qe_auth_data a) \<and> slice ?u 32 64 = replicate 32 0"
    using l u z [of "slice ?u 32 64"] by (auto simp: verify_qe_report_binding_def res_simps Let_def)
  also have "\<dots> \<longleftrightarrow> length (sha256 h (attestation_pub_key a @ qe_auth_data a)) = 32 \<and> qe_bound h a"
    unfolding qe_bound_def using u by (intro halves_eq) simp_all
  finally show ?thesis .
qed

lemma parse_auth_data_Inr:
  "parse_auth_data d e = Inr a \<Longrightarrow>
     attestation_pub_key a = slice d (e + 68) (e + 132) \<and> length (qe_report_body a) = 384
     \<and> length (qe_report_signature a) = 64"
  by (auto simp: auth_defs res_simps Let_def add.commute split: if_splits)

text \<open>What \<open>verify_dcap_chain\<close> establishes, in one statement.\<close>

definition dcap_trust ::
  "('k, 's) dcap_lib \<Rightarrow> bytes \<Rightarrow> nat \<Rightarrow> int \<Rightarrow> quote_auth_data \<Rightarrow> bool" where
  "dcap_trust L d e now a \<longleftrightarrow>
     parse_auth_data d e = Inr a
     \<and> (\<exists>k s. pck_chain L (pck_cert_chain_pem a) now k
          \<and> ec_sig (dc_ec L) (qe_report_signature a) = Some s
          \<and> ec_verify (dc_ec L) k (qe_report_body a) s)
     \<and> qe_bound (dc_hash L) a"

lemma verify_dcap_chain_Inr:
  assumes "verify_dcap_chain L d v now = Inr ()" and "compute_body_end d v = Inr e"
  shows "\<exists>a. dcap_trust L d e now a"
proof -
  from assms obtain a k where a: "parse_auth_data d e = Inr a"
    and k: "verify_pck_cert_chain L (pck_cert_chain_pem a) now = Inr k"
    and s: "verify_qe_report_signature (dc_ec L) a k = Inr ()"
    and b: "verify_qe_report_binding (dc_hash L) a = Inr ()"
    by (auto simp: verify_dcap_chain_def and_then_Inr_iff)
  have "length (qe_report_body a) = 384" using parse_auth_data_Inr [OF a] by simp
  then have "qe_bound (dc_hash L) a" using b by (simp add: verify_qe_report_binding_Inr_iff)
  moreover have "\<exists>g. ec_sig (dc_ec L) (qe_report_signature a) = Some g
      \<and> ec_verify (dc_ec L) k (qe_report_body a) g"
    using s by (auto simp: verify_qe_report_signature_def res_simps)
  ultimately show ?thesis
    using a verify_pck_cert_chain_Inr [OF k] unfolding dcap_trust_def by blast
qed

lemma chain_parts_not_panic [panic_free, simp]:
  "parse_x509_cert x der \<noteq> Inl Panicked" "extract_p256_pub_key ec b \<noteq> Inl Panicked"
  "verify_cert_signature ec c k \<noteq> Inl Panicked" "verify_cert_validity_period x now der \<noteq> Inl Panicked"
  "check_signer x der signer \<noteq> Inl Panicked" "verify_pinned_root ec c \<noteq> Inl Panicked"
  by (auto simp: parse_x509_cert_def extract_p256_pub_key_def verify_cert_signature_def
      verify_cert_validity_period_def check_signer_def verify_pinned_root_def asn1_time_def err_simps Let_def)

lemma chains_not_panic [panic_free, simp]:
  "verify_pck_cert_chain L pem now \<noteq> Inl Panicked" "verify_signing_cert_chain L pem now signer \<noteq> Inl Panicked"
  by (auto simp: verify_pck_cert_chain_def verify_signing_cert_chain_def Let_def and_then_Inl_iff
      ok_or_Inl_iff dest!: check_each_Inl)

lemma verify_dcap_chain_not_panic [panic_free]: "verify_dcap_chain L d v now \<noteq> Inl Panicked"
proof
  assume p: "verify_dcap_chain L d v now = Inl Panicked"
  then obtain e a where a: "parse_auth_data d e = Inr a"
    and b: "verify_qe_report_binding (dc_hash L) a = Inl Panicked"
    by (auto simp: verify_dcap_chain_def verify_qe_report_signature_def err_simps)
  have "length (qe_report_body a) = 384" using parse_auth_data_Inr [OF a] by simp
  with b show False
    by (auto simp: verify_qe_report_binding_def err_simps res_simps Let_def split: if_splits)
qed

text \<open>A signing chain: the signing certificate is under Intel's root, has the name
  asked for, and both are in date.\<close>

definition signing_chain :: "('k, 's) dcap_lib \<Rightarrow> bytes \<Rightarrow> int \<Rightarrow> string \<Rightarrow> 'k \<Rightarrow> bool" where
  "signing_chain L pem now signer k \<longleftrightarrow>
     (\<exists>s ders c leaf root rk rest.
        from_utf8 pem = Some s \<and> split_pem_to_der (dc_x509 L) s = Inr ders
        \<and> x_cert_data (dc_x509 L) (ders ! 0) = Some leaf
        \<and> x_cert_data (dc_x509 L) (if length ders = 1 then dc_root_ca L else ders ! 1) = Some root
        \<and> ec_key (dc_ec L) (cd_pub_key root) = Some rk \<and> intel_root (dc_ec L) rk
        \<and> signed_by (dc_ec L) rk root \<and> signed_by (dc_ec L) rk leaf
        \<and> x_cert (dc_x509 L) (ders ! 0) = Some c \<and> ct_subject_cns c = Some signer # rest
        \<and> valid_at (dc_x509 L) now (ders ! 0)
        \<and> ec_key (dc_ec L) (cd_pub_key leaf) = Some k)"

lemma check_signer_Inr_iff [res_simps]:
  "check_signer x der signer = Inr u \<longleftrightarrow>
     (\<exists>c rest. x_cert x der = Some c \<and> ct_subject_cns c = Some signer # rest)"
proof (cases "x_cert x der")
  case (Some c)
  then show ?thesis by (cases "ct_subject_cns c") (auto simp: check_signer_def Let_def)
qed (simp add: check_signer_def)

lemma verify_signing_cert_chain_Inr:
  assumes v: "verify_signing_cert_chain L pem now signer = Inr k"
  shows "signing_chain L pem now signer k"
proof -
  obtain s ders where s: "from_utf8 pem = Some s" "split_pem_to_der (dc_x509 L) s = Inr ders"
    using v by (auto simp: verify_signing_cert_chain_def res_simps Let_def)
  have "ders \<noteq> []" using split_pem_to_der_not_Nil [OF s(2)] .
  then show ?thesis
    using v s unfolding signing_chain_def
    by (cases "length ders = 1")
       (auto simp: verify_signing_cert_chain_def parse_x509_cert_def extract_p256_pub_key_def
          nth_append res_simps Let_def split: if_splits)
qed

end
