(* ===== verification/DcapTcb.thy ===== *)
theory DcapTcb
  imports Dcap Collateral
begin

text \<open>
  The collateral half of \<open>crates/attestation/src/platforms/tdx/dcap.rs\<close>: the
  SGX extensions of a PCK certificate, Intel's signed TCB Info and QE Identity,
  the TCB status they give a quote, and revocation lists. Parsing JSON text
  into the source's structures is a parameter.
\<close>

section \<open>SGX extensions\<close>

definition SGX_EXTENSIONS_OID :: string where "SGX_EXTENSIONS_OID = ''1.2.840.113741.1.13.1''"
definition FMSPC_OID :: string where "FMSPC_OID = ''1.2.840.113741.1.13.1.4''"
definition TCB_OID :: string where "TCB_OID = ''1.2.840.113741.1.13.1.2''"

fun ref_iter :: "ber \<Rightarrow> ber list" where
  "ref_iter (BSeq items) = items"
| "ref_iter _ = []"

fun fmspc_items :: "ber list \<Rightarrow> bytes res" where
  "fmspc_items [] = Inl (CertChainError ''FMSPC OID not found in SGX extension'')"
| "fmspc_items (BSeq (BOid oid # v # vs) # items) =
     (if oid = FMSPC_OID
      then (case v of
          BOctets b \<Rightarrow> if length b = 6 then Inr b
                       else Inl (CertChainError ''FMSPC found but has unexpected length'')
        | _ \<Rightarrow> Inl (CertChainError ''FMSPC OID found but value is not an OCTET STRING''))
      else fmspc_items items)"
| "fmspc_items (_ # items) = fmspc_items items"

definition extract_fmspc_from_sgx_extension :: "x509_lib \<Rightarrow> bytes \<Rightarrow> bytes res" where
  "extract_fmspc_from_sgx_extension x b =
     and_then (ok_or (CertChainError ''SGX extension parse'') (x_der_sequence x b)) (\<lambda>s.
     fmspc_items (ref_iter s))"

definition extract_fmspc_from_pck_der :: "x509_lib \<Rightarrow> bytes list \<Rightarrow> bytes res" where
  "extract_fmspc_from_pck_der x ders = (case ders of
       [] \<Rightarrow> Inl (CertChainError ''no certificates found in PEM data'')
     | leaf # _ \<Rightarrow>
         and_then (ok_or (CertChainError ''PCK leaf x509 parse'') (x_cert x leaf)) (\<lambda>cert.
         case find (\<lambda>(oid, _). oid = SGX_EXTENSIONS_OID) (ct_extensions cert) of
           Some (_, v) \<Rightarrow> extract_fmspc_from_sgx_extension x v
         | None \<Rightarrow> Inl (CertChainError ''SGX extensions OID not found in PCK certificate'')))"

definition shift_in :: "bytes \<Rightarrow> u64" where
  "shift_in bs = foldl (\<lambda>v b. push_bit 8 v OR ucast b) 0 bs"

fun extract_integer_value :: "ber \<Rightarrow> u64 res" where
  "extract_integer_value (BInt b) = Inr (shift_in b)"
| "extract_integer_value (BOctets b) = Inr (shift_in b)"
| "extract_integer_value _ = Inl (CertChainError ''unexpected ASN.1 type in TCB extension'')"

definition TCB_OID_PREFIX :: string where "TCB_OID_PREFIX = ''1.2.840.113741.1.13.1.2.''"

definition tcb_index :: "string \<Rightarrow> nat option" where
  "tcb_index oid = Option.bind (strip_prefix TCB_OID_PREFIX oid) (from_str_radix (2 ^ 64) 10)"

fun tcb_items :: "ber list \<Rightarrow> u8 list \<Rightarrow> u16 \<Rightarrow> (u8 list \<times> u16) res" where
  "tcb_items [] compsvn pcesvn = Inr (compsvn, pcesvn)"
| "tcb_items (BSeq (BOid oid # v # vs) # items) compsvn pcesvn = (case tcb_index oid of
       None \<Rightarrow> tcb_items items compsvn pcesvn
     | Some idx \<Rightarrow>
         and_then (extract_integer_value v) (\<lambda>val.
         if 1 \<le> idx \<and> idx \<le> 16 then tcb_items items (compsvn[idx - 1 := ucast val]) pcesvn
         else if idx = 17 then tcb_items items compsvn (ucast val)
         else tcb_items items compsvn pcesvn))"
| "tcb_items (_ # items) compsvn pcesvn = tcb_items items compsvn pcesvn"

fun parse_tcb_sequence :: "ber \<Rightarrow> (u8 list \<times> u16) res" where
  "parse_tcb_sequence (BSeq items) = tcb_items items (replicate 16 0) 0"
| "parse_tcb_sequence _ = Inl (CertChainError ''TCB value is not a SEQUENCE'')"

fun find_tcb :: "ber list \<Rightarrow> ber option" where
  "find_tcb [] = None"
| "find_tcb (BSeq (BOid oid # v # vs) # items) = (if oid = TCB_OID then Some v else find_tcb items)"
| "find_tcb (_ # items) = find_tcb items"

fun tcb_extensions :: "x509_lib \<Rightarrow> (string \<times> bytes) list \<Rightarrow> (u8 list \<times> u16) res" where
  "tcb_extensions x [] = Inl (CertChainError ''TCB OID not found in SGX extension'')"
| "tcb_extensions x ((oid, v) # exts) =
     (if oid = SGX_EXTENSIONS_OID
      then and_then (ok_or (CertChainError ''SGX extension parse'') (x_der_sequence x v)) (\<lambda>s.
           case find_tcb (ref_iter s) of
             Some t \<Rightarrow> parse_tcb_sequence t
           | None \<Rightarrow> tcb_extensions x exts)
      else tcb_extensions x exts)"

definition extract_pck_tcb_components_from_der :: "x509_lib \<Rightarrow> bytes list \<Rightarrow> (u8 list \<times> u16) res" where
  "extract_pck_tcb_components_from_der x ders = (case ders of
       [] \<Rightarrow> Inl (CertChainError ''no certificates found'')
     | leaf # _ \<Rightarrow>
         and_then (ok_or (CertChainError ''PCK leaf x509 parse'') (x_cert x leaf)) (\<lambda>cert.
         tcb_extensions x (ct_extensions cert)))"

section \<open>TCB status\<close>

definition verify_envelope_signature ::
  "('k, 's) dcap_lib \<Rightarrow> (bytes \<times> string) option \<Rightarrow> bytes \<Rightarrow> int \<Rightarrow> unit res" where
  "verify_envelope_signature L envelope pem now =
     and_then (ok_or (CertChainError ''envelope parse'') envelope) (\<lambda>(raw, sig_hex).
     and_then (ok_or (CertChainError ''signature hex decode'') (hex_decode (dc_hex L) sig_hex)) (\<lambda>sig_bytes.
     and_then (ok_or (CertChainError ''signature parse'') (ec_sig (dc_ec L) sig_bytes)) (\<lambda>signature.
     and_then (verify_signing_cert_chain L pem now TCB_SIGNING) (\<lambda>signing_key.
     require (ec_verify (dc_ec L) signing_key raw signature)
       (CertChainError ''signature verification failed'')))))"

definition verify_tcb_info_signature :: "('k, 's) dcap_lib \<Rightarrow> bytes \<Rightarrow> bytes \<Rightarrow> int \<Rightarrow> unit res" where
  "verify_tcb_info_signature L json pem now = verify_envelope_signature L (dc_tcb_envelope L json) pem now"

definition verify_qe_identity_signature :: "('k, 's) dcap_lib \<Rightarrow> bytes \<Rightarrow> bytes \<Rightarrow> int \<Rightarrow> unit res" where
  "verify_qe_identity_signature L json pem now = verify_envelope_signature L (dc_qe_envelope L json) pem now"

definition parse_tcb_status :: "string \<Rightarrow> tdx_tcb_status res" where
  "parse_tcb_status s =
     (if s = ''UpToDate'' then Inr UpToDate
      else if s = ''SWHardeningNeeded'' then Inr SWHardeningNeeded
      else if s = ''ConfigurationNeeded'' then Inr ConfigurationNeeded
      else if s = ''ConfigurationAndSWHardeningNeeded'' then Inr ConfigurationAndSWHardeningNeeded
      else if s = ''OutOfDate'' then Inr OutOfDate
      else if s = ''OutOfDateConfigurationNeeded'' then Inr OutOfDateConfigurationNeeded
      else if s = ''Revoked'' then Inr Revoked
      else Inl (CertChainError ''unknown TCB status in Intel collateral''))"

definition chrono_parse_is_past :: "(string \<Rightarrow> int option) \<Rightarrow> string \<Rightarrow> int \<Rightarrow> bool option" where
  "chrono_parse_is_past rfc3339 ts now = map_option (\<lambda>t. now > t) (rfc3339 (str_trim ts))"

definition no_matching_level :: "string \<Rightarrow> bool \<Rightarrow> dcap_status" where
  "no_matching_level fmspc expired =
     \<lparr>ds_tcb_status = NoMatchingLevel, ds_fmspc = fmspc, ds_advisory_ids = [],
      ds_collateral_expired = expired, ds_qe_tcb_status = None\<rparr>"

text \<open>The closures of the two passes over the levels.\<close>

definition sgx_match :: "u8 list \<Rightarrow> u16 \<Rightarrow> tcb_level \<Rightarrow> bool" where
  "sgx_match compsvn pcesvn lv =
     (length (lv_sgx lv) \<ge> 16
      \<and> list_all (\<lambda>(pck, l). pck \<ge> l) (zip compsvn (lv_sgx lv))
      \<and> pcesvn \<ge> lv_pcesvn lv)"

definition tdx_match :: "bytes \<Rightarrow> tcb_level \<Rightarrow> bool" where
  "tdx_match svns lv = (case lv_tdx lv of
       Some comps \<Rightarrow> list_all (\<lambda>(comp, svn). svn \<ge> comp) (zip comps svns)
     | None \<Rightarrow> True)"

definition level_status :: "string \<Rightarrow> bool \<Rightarrow> tcb_level \<Rightarrow> dcap_status res" where
  "level_status fmspc expired lv =
     and_then (parse_tcb_status (lv_status lv)) (\<lambda>status.
     Inr \<lparr>ds_tcb_status = status, ds_fmspc = fmspc, ds_advisory_ids = lv_advisories lv,
          ds_collateral_expired = expired, ds_qe_tcb_status = None\<rparr>)"

fun position :: "('a \<Rightarrow> bool) \<Rightarrow> 'a list \<Rightarrow> nat option" where
  "position p [] = None"
| "position p (x # xs) = (if p x then Some 0 else map_option Suc (position p xs))"

definition evaluate_tcb_status ::
  "('k, 's) dcap_lib \<Rightarrow> bytes \<Rightarrow> bytes \<Rightarrow> bytes list \<Rightarrow> int \<Rightarrow> dcap_status res" where
  "evaluate_tcb_status L json svns pck_der now =
     and_then (ok_or (CertChainError ''TCB Info JSON parse'') (dc_tcb_info L json)) (\<lambda>info.
     let expired = (case Option.bind (ti_next_update info) (\<lambda>ts. chrono_parse_is_past (dc_rfc3339 L) ts now) of
                      Some b \<Rightarrow> b | None \<Rightarrow> False) in
     and_then (extract_pck_tcb_components_from_der (dc_x509 L) pck_der) (\<lambda>(compsvn, pcesvn).
     and_then (extract_fmspc_from_pck_der (dc_x509 L) pck_der) (\<lambda>fmspc.
     let fmspc = hex_encode (dc_hex L) fmspc; levels = ti_levels info in
     case position (sgx_match compsvn pcesvn) levels of
       None \<Rightarrow> Inr (no_matching_level fmspc expired)
     | Some idx \<Rightarrow>
         if \<not> list_ex (\<lambda>v. v \<noteq> 0) svns
         then and_then (at_index levels idx) (level_status fmspc expired)
         else (case find (tdx_match svns) (drop idx levels) of
             Some lv \<Rightarrow> level_status fmspc expired lv
           | None \<Rightarrow> Inr (no_matching_level fmspc expired)))))"

definition pck_ca_of_name :: "string \<Rightarrow> pck_ca res" where
  "pck_ca_of_name name =
     (if contains_str ''PCK Platform CA'' name then Inr PlatformCa
      else if contains_str ''PCK Processor CA'' name then Inr ProcessorCa
      else Inl (CertChainError ''not an Intel PCK CA''))"

definition determine_ca_type_from_der :: "x509_lib \<Rightarrow> bytes list \<Rightarrow> pck_ca res" where
  "determine_ca_type_from_der x ders = (case ders of
       [] \<Rightarrow> Inl (CertChainError ''no certificates found'')
     | leaf # _ \<Rightarrow>
         and_then (ok_or (CertChainError ''PCK leaf x509 parse'') (x_cert x leaf)) (\<lambda>cert.
         pck_ca_of_name (ct_issuer_text cert)))"

section \<open>The quoting enclave\<close>

definition hex_bytes :: "hex_lib \<Rightarrow> nat \<Rightarrow> string \<Rightarrow> bytes res" where
  "hex_bytes hx n s = ok_or (CertChainError ''QE Identity field length'')
     (Option.bind (hex_decode hx s) (\<lambda>b. if length b = n then Some b else None))"

definition parse_qe_identity :: "('k, 's) dcap_lib \<Rightarrow> bytes \<Rightarrow> qe_identity res" where
  "parse_qe_identity L json =
     (let hx = dc_hex L in
      and_then (ok_or (CertChainError ''QE Identity envelope parse'') (dc_qe_envelope L json)) (\<lambda>(raw, _).
      and_then (ok_or (CertChainError ''QE Identity fields parse'') (dc_qe_fields L raw)) (\<lambda>f.
      and_then (ok_or (CertChainError ''QE Identity MRSIGNER hex decode'')
                 (hex_decode hx (ef_mrsigner f))) (\<lambda>mrsigner.
      and_then (hex_bytes hx 4 (ef_miscselect f)) (\<lambda>miscselect.
      and_then (hex_bytes hx 4 (ef_miscselect_mask f)) (\<lambda>miscselect_mask.
      and_then (hex_bytes hx 16 (ef_attributes f)) (\<lambda>attributes.
      and_then (hex_bytes hx 16 (ef_attributes_mask f)) (\<lambda>attributes_mask.
      Inr \<lparr>qi_mrsigner = mrsigner, qi_isvprodid = ef_isvprodid f, qi_miscselect = miscselect,
           qi_miscselect_mask = miscselect_mask, qi_attributes = attributes,
           qi_attributes_mask = attributes_mask, qi_levels = ef_levels f\<rparr>))))))))"

definition masked_eq :: "bytes \<Rightarrow> bytes \<Rightarrow> bytes \<Rightarrow> bool" where
  "masked_eq actual expected msk =
     list_all (\<lambda>((a, e), m). a AND m = e AND m) (zip (zip actual expected) msk)"

definition check_qe_report :: "bytes \<Rightarrow> qe_identity \<Rightarrow> tdx_tcb_status res" where
  "check_qe_report body identity =
     (if length body < QE_REPORT_BODY_SIZE then Inl (QuoteParseFailed ''QE report body too short'')
      else and_then (at_range body 16 20) (\<lambda>qe_miscselect.
      and_then (at_range body 48 64) (\<lambda>qe_attributes.
      and_then (at_range body 128 160) (\<lambda>qe_mrsigner.
      and_then (at_range body 256 258) (\<lambda>prodid.
      and_then (at_range body 258 260) (\<lambda>svn.
      let qe_isvprodid = u16_from_le_bytes prodid; qe_isvsvn = u16_from_le_bytes svn in
      if \<not> constant_time_eq qe_mrsigner (qi_mrsigner identity)
      then Inl (CertChainError ''QE MRSIGNER does not match Intel QE Identity'')
      else if qe_isvprodid \<noteq> qi_isvprodid identity
      then Inl (CertChainError ''QE ISVPRODID does not match expected'')
      else if \<not> masked_eq qe_miscselect (qi_miscselect identity) (qi_miscselect_mask identity)
      then Inl (CertChainError ''QE MISCSELECT does not match Intel QE Identity (masked)'')
      else if \<not> masked_eq qe_attributes (qi_attributes identity) (qi_attributes_mask identity)
      then Inl (CertChainError ''QE ATTRIBUTES does not match Intel QE Identity (masked)'')
      else (case find (\<lambda>(isvsvn, _). qe_isvsvn \<ge> isvsvn) (qi_levels identity) of
          Some (_, status) \<Rightarrow> parse_tcb_status status
        | None \<Rightarrow> Inr NoMatchingLevel)))))))"

fun combine_tcb_status :: "tdx_tcb_status \<Rightarrow> tdx_tcb_status \<Rightarrow> tdx_tcb_status" where
  "combine_tcb_status Revoked qe = Revoked"
| "combine_tcb_status NoMatchingLevel qe = NoMatchingLevel"
| "combine_tcb_status platform Revoked = Revoked"
| "combine_tcb_status platform NoMatchingLevel = NoMatchingLevel"
| "combine_tcb_status UpToDate OutOfDate = OutOfDate"
| "combine_tcb_status UpToDate OutOfDateConfigurationNeeded = OutOfDate"
| "combine_tcb_status SWHardeningNeeded OutOfDate = OutOfDate"
| "combine_tcb_status SWHardeningNeeded OutOfDateConfigurationNeeded = OutOfDate"
| "combine_tcb_status ConfigurationNeeded OutOfDate = OutOfDateConfigurationNeeded"
| "combine_tcb_status ConfigurationNeeded OutOfDateConfigurationNeeded = OutOfDateConfigurationNeeded"
| "combine_tcb_status ConfigurationAndSWHardeningNeeded OutOfDate = OutOfDateConfigurationNeeded"
| "combine_tcb_status ConfigurationAndSWHardeningNeeded OutOfDateConfigurationNeeded =
     OutOfDateConfigurationNeeded"
| "combine_tcb_status platform qe = platform"

section \<open>Revocation lists\<close>

definition normalize_crl_to_der :: "x509_lib \<Rightarrow> bytes \<Rightarrow> bytes res" where
  "normalize_crl_to_der x b =
     (if is_pem b then map_err (\<lambda>_. CertChainError ''CRL PEM decode failed'') (decode_pem_to_der (x_pem_parse x) b)
      else Inr b)"

definition listed :: "crl \<Rightarrow> bytes \<Rightarrow> bool" where
  "listed c serial = list_ex (\<lambda>r. r = serial) (cl_revoked c)"

definition intermediate_ca_revoked_from_der :: "x509_lib \<Rightarrow> bytes list \<Rightarrow> bytes \<Rightarrow> bool res" where
  "intermediate_ca_revoked_from_der x ders crl =
     (if length ders < 2 then Inl (CertChainError ''need at least 2 certs to check intermediate CA revocation'')
      else and_then (ok_or (CertChainError ''Intermediate CA parse'') (x_cert x (ders ! 1))) (\<lambda>inter.
      and_then (normalize_crl_to_der x crl) (\<lambda>der.
      and_then (ok_or (CertChainError ''Root CA CRL parse'') (x_crl x der)) (\<lambda>(_, c).
      Inr (listed c (ct_raw_serial inter))))))"

definition cert_revoked_from_der :: "x509_lib \<Rightarrow> bytes list \<Rightarrow> bytes \<Rightarrow> bool res" where
  "cert_revoked_from_der x ders crl = (case ders of
       [] \<Rightarrow> Inl (CertChainError ''no certificates found'')
     | leaf # _ \<Rightarrow>
         and_then (ok_or (CertChainError ''certificate parse'') (x_cert x leaf)) (\<lambda>cert.
         and_then (normalize_crl_to_der x crl) (\<lambda>der.
         and_then (ok_or (CertChainError ''CRL DER parse'') (x_crl x der)) (\<lambda>(_, c).
         Inr (listed c (ct_raw_serial cert))))))"

definition OID_ECDSA_WITH_SHA256 :: string where "OID_ECDSA_WITH_SHA256 = ''1.2.840.10045.4.3.2''"

definition check_crl ::
  "('k, 's) dcap_lib \<Rightarrow> bytes \<Rightarrow> bytes \<Rightarrow> (bytes \<times> int \<times> int \<times> u64 option) res" where
  "check_crl L crl issuer_der =
     (let x = dc_x509 L; ec = dc_ec L in
      and_then (normalize_crl_to_der x crl) (\<lambda>crl_der.
      and_then (ok_or (CertChainError ''parse'') (x_crl x crl_der)) (\<lambda>(rest, parsed).
      if rest \<noteq> [] then Inl (CertChainError ''trailing bytes'')
      else and_then (ok_or (CertChainError ''issuer parse'') (x_cert x issuer_der)) (\<lambda>issuer.
      if cl_issuer_raw parsed \<noteq> ct_subject_raw issuer then Inl (CertChainError ''issued by another'')
      else if cl_alg parsed \<noteq> OID_ECDSA_WITH_SHA256
      then Inl (CertChainError ''signature algorithm is not ecdsa-with-SHA256'')
      else if \<not> cl_same_alg parsed then Inl (CertChainError ''outer and signed signature algorithms differ'')
      else and_then (extract_p256_pub_key ec (ct_public_key issuer)) (\<lambda>key.
      and_then (ok_or (CertChainError ''signature parse'') (ec_sig_der ec (cl_signature parsed))) (\<lambda>sig.
      if \<not> ec_verify ec key (cl_tbs parsed) sig then Inl (CertChainError ''signature verification'')
      else and_then (ok_or (CertChainError ''has no nextUpdate'') (cl_next_update parsed)) (\<lambda>next.
      Inr (crl_der, cl_last_update parsed, next, crl_number (cl_number parsed)))))))))"

section \<open>Lemmas on the SGX extensions\<close>

lemma length_tcb_items:
  "tcb_items items cs p = Inr (ds, q) \<Longrightarrow> length ds = length cs"
  by (induction items cs p rule: tcb_items.induct) (auto simp: res_simps split: option.splits if_splits)

lemma length_parse_tcb_sequence: "parse_tcb_sequence b = Inr (ds, q) \<Longrightarrow> length ds = 16"
  by (cases b) (auto dest: length_tcb_items)

lemma length_tcb_extensions: "tcb_extensions x exts = Inr (ds, q) \<Longrightarrow> length ds = 16"
proof (induction exts)
  case Nil
  then show ?case by simp
next
  case (Cons e exts)
  obtain oid v where e: "e = (oid, v)" by fastforce
  show ?case
  proof (cases "oid = SGX_EXTENSIONS_OID")
    case True
    with Cons.prems obtain sq where "x_der_sequence x v = Some sq" by (auto simp: e res_simps)
    with Cons True show ?thesis
      by (cases "find_tcb (ref_iter sq)") (auto simp: e length_parse_tcb_sequence)
  next
    case False
    with Cons show ?thesis by (simp add: e)
  qed
qed

lemma length_pck_tcb_components:
  "extract_pck_tcb_components_from_der x ders = Inr (cs, p) \<Longrightarrow> length cs = 16"
  by (auto simp: extract_pck_tcb_components_from_der_def res_simps length_tcb_extensions split: list.splits)

text \<open>Intel's TCB sequence: sixteen component SVNs, the PCE's SVN, and CPUSVN, which
  no rule reads.\<close>

definition tcb_member :: "nat \<Rightarrow> ber \<Rightarrow> ber" where
  "tcb_member i v = BSeq [BOid (TCB_OID_PREFIX @ dec_string i), v]"

definition tcb_sequence :: "u8 list \<Rightarrow> u16 \<Rightarrow> bytes \<Rightarrow> ber" where
  "tcb_sequence comps pcesvn cpusvn =
     BSeq (map (\<lambda>i. tcb_member (i + 1) (BInt [comps ! i])) [0..<16]
           @ [tcb_member 17 (BInt (be_bytes 2 (unat pcesvn))), tcb_member 18 (BOctets cpusvn)])"

lemma strip_prefix_append [simp]: "strip_prefix p (p @ s) = Some s"
  by (induction p) simp_all

lemma digits_value_append:
  "digits_value r a (xs @ [c]) =
     (case digits_value r a xs of None \<Rightarrow> None
      | Some n \<Rightarrow> (case digit_value c of None \<Rightarrow> None
                 | Some d \<Rightarrow> if d < r then Some (r * n + d) else None))"
  by (induction r a xs rule: digits_value.induct) (auto split: option.splits)

lemma digit_value_digit_char: "n < 10 \<Longrightarrow> digit_value (digit_char n) = Some n"
  by (simp add: digit_value_def digit_char_def)

lemma dec_string_value: "digits_value 10 0 (dec_string n) = Some n"
proof (induction n rule: dec_string.induct)
  case (1 n)
  then show ?case
    by (subst dec_string.simps)
       (auto simp: digits_value_append digit_value_digit_char mult.commute)
qed

lemma dec_string_hd: "\<exists>n cs. dec_string m = digit_char n # cs \<and> n < 10"
proof (induction m rule: dec_string.induct)
  case (1 m)
  then show ?case by (subst dec_string.simps) fastforce
qed

lemma from_str_radix_dec_string: "n < bound \<Longrightarrow> from_str_radix bound 10 (dec_string n) = Some n"
proof -
  assume b: "n < bound"
  obtain d cs where d: "dec_string n = digit_char d # cs" "d < 10" using dec_string_hd by blast
  have "digit_char d \<noteq> CHR ''+''"
    using digit_value_digit_char [OF d(2)] by (auto simp: digit_value_def)
  with b d(1) dec_string_value [of n] show ?thesis by (simp add: from_str_radix_def)
qed

lemma tcb_index_dec: "i < 2 ^ 64 \<Longrightarrow> tcb_index (TCB_OID_PREFIX @ dec_string i) = Some i"
  by (simp add: tcb_index_def from_str_radix_dec_string)

lemma ucast_ucast_u8 [simp]: "ucast (ucast c :: u64) = (c :: u8)"
  by (rule bit_word_eqI) (simp add: bit_simps)

lemma tcb_items_component:
  "1 \<le> i \<Longrightarrow> i \<le> 16 \<Longrightarrow>
     tcb_items (tcb_member i (BInt [c]) # items) cs p = tcb_items items (cs[i - 1 := c]) p"
  by (simp add: tcb_member_def tcb_index_dec shift_in_def)

lemma tcb_items_components:
  "n \<le> 16 \<Longrightarrow> length cs = 16 \<Longrightarrow> length comps = 16 \<Longrightarrow>
     tcb_items (map (\<lambda>i. tcb_member (i + 1) (BInt [comps ! i])) [0..<n] @ items) cs p =
     tcb_items items (take n comps @ drop n cs) p"
proof (induction n arbitrary: items)
  case 0
  then show ?case by simp
next
  case (Suc n)
  have u: "(take n comps @ drop n cs)[n := comps ! n] = take (Suc n) comps @ drop (Suc n) cs"
    using Suc.prems by (intro nth_equalityI) (auto simp: nth_list_update nth_append less_Suc_eq)
  show ?case
    using Suc.IH [of "tcb_member (Suc n) (BInt [comps ! n]) # items"] Suc.prems
      tcb_items_component [of "Suc n" "comps ! n" items "take n comps @ drop n cs" p]
    by (simp add: u)
qed

lemma shift_in_be_bytes: "ucast (shift_in (be_bytes 2 (unat (w :: u16)))) = w"
proof -
  have "be_bytes 2 (unat w) = [of_nat (unat w div 256 mod 256), of_nat (unat w mod 256)]"
    by (simp add: be_bytes_def numeral_2_eq_2)
  moreover have "(of_nat (unat w mod 256) :: u8) = ucast w"
    by (simp add: word_unat_eq_iff unat_of_nat unsigned_ucast_eq take_bit_eq_mod)
  moreover have "(of_nat (unat w div 256 mod 256) :: u8) = ucast (drop_bit 8 w)"
    by (simp add: word_unat_eq_iff unat_of_nat unsigned_ucast_eq unsigned_drop_bit_eq take_bit_eq_mod
        drop_bit_eq_div unat_div_distrib)
  ultimately have "shift_in (be_bytes 2 (unat w)) =
      push_bit 8 (ucast (ucast (drop_bit 8 w) :: u8)) OR ucast (ucast w :: u8)"
    by (simp add: shift_in_def)
  also have "ucast \<dots> = w"
    by (rule bit_word_eqI) (auto simp: bit_simps)
  finally show ?thesis .
qed

lemma tcb_members_step:
  "tcb_items [tcb_member 17 (BInt b), tcb_member 18 (BOctets c)] cs p = Inr (cs, ucast (shift_in b))"
  by (simp add: tcb_member_def tcb_index_dec)

lemma parse_tcb_sequence_tcb:
  "length comps = 16 \<Longrightarrow> parse_tcb_sequence (tcb_sequence comps pcesvn cpusvn) = Inr (comps, pcesvn)"
  using tcb_items_components [of 16 "replicate 16 0" comps]
  by (simp add: tcb_sequence_def tcb_members_step shift_in_be_bytes)

section \<open>Lemmas on the status\<close>

lemma parse_tcb_status_name: "s \<noteq> NoMatchingLevel \<Longrightarrow> parse_tcb_status (tcb_status_name s) = Inr s"
  by (cases s) (simp_all add: parse_tcb_status_def)

lemma parse_tcb_status_Inr: "parse_tcb_status t = Inr s \<Longrightarrow> t = tcb_status_name s \<and> s \<noteq> NoMatchingLevel"
  by (auto simp: parse_tcb_status_def split: if_splits)

lemma parse_tcb_status_not_panic [panic_free, simp]: "parse_tcb_status t \<noteq> Inl Panicked"
  by (simp add: parse_tcb_status_def)

lemma sgx_match_iff:
  "length compsvn = 16 \<Longrightarrow>
     sgx_match compsvn pcesvn lv \<longleftrightarrow>
       16 \<le> length (lv_sgx lv) \<and> (\<forall>i < 16. lv_sgx lv ! i \<le> compsvn ! i) \<and> lv_pcesvn lv \<le> pcesvn"
  by (auto simp: sgx_match_def list_all_length)

lemma tdx_match_iff:
  "length svns = 16 \<Longrightarrow>
     tdx_match svns lv \<longleftrightarrow>
       (\<forall>cs. lv_tdx lv = Some cs \<longrightarrow> (\<forall>i < min (length cs) 16. cs ! i \<le> svns ! i))"
  by (auto simp: tdx_match_def list_all_length split: option.splits)

lemma position_Some_iff:
  "position p xs = Some i \<longleftrightarrow> i < length xs \<and> p (xs ! i) \<and> (\<forall>j < i. \<not> p (xs ! j))"
proof (induction xs arbitrary: i)
  case (Cons x xs)
  then show ?case by (cases i) (auto simp: less_Suc_eq_0_disj)
qed simp

lemma position_None_iff: "position p xs = None \<longleftrightarrow> (\<forall>x \<in> set xs. \<not> p x)"
  by (induction xs) auto

text \<open>The two passes over the levels as one: the first level both matches hold for, when
  a platform that meets a level meets every later one.\<close>

definition levels_descend :: "(tcb_level \<Rightarrow> bool) \<Rightarrow> tcb_level list \<Rightarrow> bool" where
  "levels_descend p levels \<longleftrightarrow> sorted_wrt (\<lambda>a b. p a \<longrightarrow> p b) levels"

lemma find_after_position:
  "levels_descend p levels \<Longrightarrow>
     (case position p levels of None \<Rightarrow> None | Some i \<Rightarrow> find q (drop i levels)) =
     find (\<lambda>lv. p lv \<and> q lv) levels"
proof (induction levels)
  case (Cons lv levels)
  show ?case
  proof (cases "p lv")
    case True
    with Cons.prems have "\<forall>l \<in> set levels. p l" by (simp add: levels_descend_def)
    then have "find q levels = find (\<lambda>l. p l \<and> q l) levels" by (induction levels) simp_all
    with True show ?thesis by simp
  next
    case False
    with Cons show ?thesis
      by (cases "position p levels") (simp_all add: levels_descend_def)
  qed
qed (simp add: levels_descend_def)

lemma evaluate_tcb_status_two_pass:
  assumes info: "dc_tcb_info L json = Some info"
    and pck: "extract_pck_tcb_components_from_der (dc_x509 L) ders = Inr (cs, p)"
    and fm: "extract_fmspc_from_pck_der (dc_x509 L) ders = Inr f"
    and nz: "list_ex (\<lambda>v. v \<noteq> 0) svns"
    and desc: "levels_descend (sgx_match cs p) (ti_levels info)"
  shows "\<exists>expired. evaluate_tcb_status L json svns ders now =
    (case find (\<lambda>lv. sgx_match cs p lv \<and> tdx_match svns lv) (ti_levels info) of
       Some lv \<Rightarrow> level_status (hex_encode (dc_hex L) f) expired lv
     | None \<Rightarrow> Inr (no_matching_level (hex_encode (dc_hex L) f) expired))"
  unfolding find_after_position [OF desc, symmetric]
  by (auto simp: evaluate_tcb_status_def info pck fm nz Let_def split: option.splits)

lemma level_status_Inr:
  "level_status f e lv = Inr ds \<Longrightarrow>
     parse_tcb_status (lv_status lv) = Inr (ds_tcb_status ds) \<and> ds_advisory_ids ds = lv_advisories lv"
  by (auto simp: level_status_def res_simps)

lemma level_status_not_panic [simp]: "level_status f e lv \<noteq> Inl Panicked"
  by (simp add: level_status_def and_then_Inl_iff)

text \<open>A status other than \<open>NoMatchingLevel\<close> is that of a level the platform meets.\<close>

lemma evaluate_tcb_status_met:
  assumes e: "evaluate_tcb_status L json svns ders now = Inr ds" and n: "ds_tcb_status ds \<noteq> NoMatchingLevel"
  shows "\<exists>info cs p lv i. dc_tcb_info L json = Some info
    \<and> extract_pck_tcb_components_from_der (dc_x509 L) ders = Inr (cs, p)
    \<and> lv \<in> set (ti_levels info) \<and> lv_status lv = tcb_status_name (ds_tcb_status ds)
    \<and> ds_advisory_ids ds = lv_advisories lv
    \<and> position (sgx_match cs p) (ti_levels info) = Some i
    \<and> (list_ex (\<lambda>v. v \<noteq> 0) svns \<longrightarrow> tdx_match svns lv)"
proof -
  obtain info cs p f expired where i: "dc_tcb_info L json = Some info"
    "extract_pck_tcb_components_from_der (dc_x509 L) ders = Inr (cs, p)"
    and r: "(case position (sgx_match cs p) (ti_levels info) of
       None \<Rightarrow> Inr (no_matching_level f expired)
     | Some idx \<Rightarrow>
         if \<not> list_ex (\<lambda>v. v \<noteq> 0) svns
         then and_then (at_index (ti_levels info) idx) (level_status f expired)
         else (case find (tdx_match svns) (drop idx (ti_levels info)) of
             Some lv \<Rightarrow> level_status f expired lv
           | None \<Rightarrow> Inr (no_matching_level f expired))) = Inr ds"
    using e by (auto simp: evaluate_tcb_status_def and_then_Inr_iff ok_or_Inr_iff Let_def)
  obtain k where k: "position (sgx_match cs p) (ti_levels info) = Some k"
    using r n by (cases "position (sgx_match cs p) (ti_levels info)") (auto simp: no_matching_level_def)
  then have lt: "k < length (ti_levels info)" by (simp add: position_Some_iff)
  have "\<exists>lv \<in> set (ti_levels info). level_status f expired lv = Inr ds
      \<and> (list_ex (\<lambda>v. v \<noteq> 0) svns \<longrightarrow> tdx_match svns lv)"
  proof (cases "list_ex (\<lambda>v. v \<noteq> 0) svns")
    case False
    with r k lt show ?thesis by auto
  next
    case True
    with r k n obtain lv where lv: "find (tdx_match svns) (drop k (ti_levels info)) = Some lv"
      "level_status f expired lv = Inr ds"
      by (auto simp: no_matching_level_def split: option.splits)
    then have "tdx_match svns lv" "lv \<in> set (ti_levels info)"
      by (auto simp: find_Some_iff)
    with lv show ?thesis by auto
  qed
  with i k show ?thesis by (meson level_status_Inr parse_tcb_status_Inr)
qed

section \<open>Lemmas on the quoting enclave\<close>

lemma masked_eq_iff:
  "length actual = length expected \<Longrightarrow> length expected = length m \<Longrightarrow>
     masked_eq actual expected m \<longleftrightarrow> (\<forall>i < length m. actual ! i AND m ! i = expected ! i AND m ! i)"
  by (auto simp: masked_eq_def list_all_length)

lemma check_qe_report_Inr:
  "check_qe_report body q = Inr s \<Longrightarrow>
     384 \<le> length body \<and> slice body 128 160 = qi_mrsigner q
     \<and> u16_from_le_bytes (slice body 256 258) = qi_isvprodid q
     \<and> masked_eq (slice body 16 20) (qi_miscselect q) (qi_miscselect_mask q)
     \<and> masked_eq (slice body 48 64) (qi_attributes q) (qi_attributes_mask q)
     \<and> (s \<noteq> NoMatchingLevel \<longrightarrow>
          (\<exists>svn. (svn, tcb_status_name s) \<in> set (qi_levels q)
             \<and> svn \<le> u16_from_le_bytes (slice body 258 260)))"
  by (auto simp: check_qe_report_def QE_REPORT_BODY_SIZE_def res_simps Let_def
      find_Some_iff set_conv_nth dest!: parse_tcb_status_Inr split: if_splits option.splits)

lemma check_qe_report_not_panic [panic_free]: "check_qe_report body q \<noteq> Inl Panicked"
  by (auto simp: check_qe_report_def QE_REPORT_BODY_SIZE_def err_simps Let_def split: option.splits)

text \<open>Severity: a combined status is never better than either part, where the QE's own
  configuration statuses do not count.\<close>

fun severity :: "tdx_tcb_status \<Rightarrow> nat" where
  "severity UpToDate = 0"
| "severity SWHardeningNeeded = 1"
| "severity ConfigurationNeeded = 2"
| "severity ConfigurationAndSWHardeningNeeded = 3"
| "severity OutOfDate = 4"
| "severity OutOfDateConfigurationNeeded = 5"
| "severity Revoked = 6"
| "severity NoMatchingLevel = 6"

lemma combine_severity:
  "severity p \<le> severity (combine_tcb_status p q)"
  "4 \<le> severity q \<Longrightarrow> 4 \<le> severity (combine_tcb_status p q)"
  "severity q = 6 \<Longrightarrow> severity (combine_tcb_status p q) = 6"
  by (cases p; cases q; simp)+

lemma combine_fine: "severity q < 4 \<Longrightarrow> combine_tcb_status p q = p"
  by (cases p; cases q) simp_all

lemma combine_idem: "combine_tcb_status (combine_tcb_status p q) q = combine_tcb_status p q"
  by (cases p; cases q) simp_all

text \<open>What a status says is wrong, and what Intel says of combining two: trust lost on either side is
  lost; an outdated enclave makes the platform outdated and says nothing else of it; and what an
  outdated platform would need beside is not reported, its configuration excepted.\<close>

datatype tcb_defect = Untrusted | Outdated | Misconfigured | Unhardened

fun tcb_defects :: "tdx_tcb_status \<Rightarrow> tcb_defect set" where
  "tcb_defects UpToDate = {}"
| "tcb_defects SWHardeningNeeded = {Unhardened}"
| "tcb_defects ConfigurationNeeded = {Misconfigured}"
| "tcb_defects ConfigurationAndSWHardeningNeeded = {Misconfigured, Unhardened}"
| "tcb_defects OutOfDate = {Outdated}"
| "tcb_defects OutOfDateConfigurationNeeded = {Outdated, Misconfigured}"
| "tcb_defects Revoked = {Untrusted}"
| "tcb_defects NoMatchingLevel = {Untrusted}"

definition reported_defects :: "tcb_defect set \<Rightarrow> tcb_defect set" where
  "reported_defects D =
     (if Untrusted \<in> D then {Untrusted} else if Outdated \<in> D then D - {Unhardened} else D)"

definition combined_defects :: "tcb_defect set \<Rightarrow> tcb_defect set \<Rightarrow> tcb_defect set" where
  "combined_defects P Q = reported_defects (P \<union> Q \<inter> {Untrusted, Outdated})"

definition at_least_as_bad :: "tcb_defect set \<Rightarrow> tcb_defect set \<Rightarrow> bool" where
  "at_least_as_bad D' D \<longleftrightarrow> Untrusted \<in> D' \<or> Untrusted \<notin> D \<and> D - {Unhardened} \<subseteq> D'"

lemma combine_refines: "tcb_defects (combine_tcb_status p q) = combined_defects (tcb_defects p) (tcb_defects q)"
  by (cases p; cases q) (auto simp: combined_defects_def reported_defects_def)

lemma combined_defects_mono:
  "at_least_as_bad P' P \<Longrightarrow> at_least_as_bad Q' Q \<Longrightarrow> at_least_as_bad (combined_defects P' Q') (combined_defects P Q)"
  by (auto simp: at_least_as_bad_def combined_defects_def reported_defects_def split: if_splits)

lemma combine_untrusted: "severity p = 6 \<Longrightarrow> combine_tcb_status p q = p" "severity p < 6 \<Longrightarrow> severity q = 6 \<Longrightarrow> combine_tcb_status p q = q"
  by (cases p; cases q; simp)+

section \<open>Lemmas on signatures and revocation\<close>

lemma verify_envelope_signature_Inr:
  "verify_envelope_signature L env pem now = Inr u \<Longrightarrow>
     \<exists>raw sh b g k. env = Some (raw, sh) \<and> hex_decode (dc_hex L) sh = Some b \<and> ec_sig (dc_ec L) b = Some g
       \<and> signing_chain L pem now TCB_SIGNING k \<and> ec_verify (dc_ec L) k raw g"
  using verify_signing_cert_chain_Inr [of L pem now TCB_SIGNING]
  by (auto simp: verify_envelope_signature_def res_simps)

lemma check_crl_Inr:
  assumes "check_crl L b issuer_der = Inr (der, t, n, v)"
  shows "\<exists>c i k g. normalize_crl_to_der (dc_x509 L) b = Inr der
    \<and> x_crl (dc_x509 L) der = Some ([], c) \<and> x_cert (dc_x509 L) issuer_der = Some i
    \<and> cl_issuer_raw c = ct_subject_raw i \<and> ec_key (dc_ec L) (ct_public_key i) = Some k
    \<and> ec_sig_der (dc_ec L) (cl_signature c) = Some g \<and> ec_verify (dc_ec L) k (cl_tbs c) g
    \<and> cl_next_update c = Some n \<and> t = cl_last_update c \<and> v = crl_number (cl_number c)"
  using assms
  by (auto simp: check_crl_def extract_p256_pub_key_def res_simps Let_def split: if_splits)

lemma normalize_crl_not_panic [panic_free, simp]: "normalize_crl_to_der x b \<noteq> Inl Panicked"
  by (cases "decode_pem_to_der (x_pem_parse x) b") (simp_all add: normalize_crl_to_der_def)

lemma revocation_not_panic [panic_free, simp]:
  "intermediate_ca_revoked_from_der x ders c \<noteq> Inl Panicked" "cert_revoked_from_der x ders c \<noteq> Inl Panicked"
  by (auto simp: intermediate_ca_revoked_from_der_def cert_revoked_from_der_def err_simps
      split: if_splits list.splits)

lemma check_crl_not_panic [panic_free, simp]: "check_crl L b i \<noteq> Inl Panicked"
  by (auto simp: check_crl_def err_simps Let_def split: if_splits)

lemma fmspc_items_not_panic [simp]: "fmspc_items items \<noteq> Inl Panicked"
  by (induction items rule: fmspc_items.induct) (auto split: ber.splits if_splits)

lemma extract_integer_not_panic [simp]: "extract_integer_value v \<noteq> Inl Panicked"
  by (cases v) simp_all

lemma tcb_items_not_panic [simp]: "tcb_items items cs p \<noteq> Inl Panicked"
  by (induction items cs p rule: tcb_items.induct) (auto simp: err_simps split: option.splits if_splits)

lemma parse_tcb_sequence_not_panic [simp]: "parse_tcb_sequence b \<noteq> Inl Panicked"
  by (cases b) simp_all

lemma tcb_extensions_not_panic [simp]: "tcb_extensions x exts \<noteq> Inl Panicked"
  by (induction x exts rule: tcb_extensions.induct) (auto simp: err_simps split: option.splits)

lemma extract_not_panic [panic_free, simp]:
  "extract_fmspc_from_pck_der x ders \<noteq> Inl Panicked"
  "extract_pck_tcb_components_from_der x ders \<noteq> Inl Panicked"
  by (auto simp: extract_fmspc_from_pck_der_def extract_fmspc_from_sgx_extension_def
      extract_pck_tcb_components_from_der_def err_simps split: list.splits option.splits)

lemma evaluate_tcb_status_not_panic [panic_free]: "evaluate_tcb_status L json svns ders now \<noteq> Inl Panicked"
  by (auto simp: evaluate_tcb_status_def err_simps Let_def position_Some_iff
      split: option.splits if_splits)

end
