(* ===== verification/Intel.thy ===== *)
theory Intel
  imports DcapTcb StoreInv
begin

text \<open>
  \<open>crates/attestation/src/collateral/intel.rs\<close>: Intel's TCB Info, QE Identity and
  the CRLs of its PCK and root CAs, each a piece kind the store can keep. Reading
  a JSON body is a parameter.
\<close>

record tcb_info_piece =
  tp_json :: bytes
  tp_fmspc :: bytes
  tp_issue_date :: int
  tp_next_update :: int
  tp_evaluation :: u64
  tp_signer :: bytes

record qe_identity_piece =
  qp_identity :: qe_identity
  qp_issue_date :: int
  qp_next_update :: int
  qp_evaluation :: u64
  qp_signer :: bytes

record pck_crl_piece =
  pp_der :: bytes
  pp_ca :: pck_ca
  pp_this_update :: int
  pp_next_update :: int
  pp_number :: "u64 option"

record root_crl_piece =
  rp_der :: bytes
  rp_this_update :: int
  rp_next_update :: int
  rp_number :: "u64 option"

record signed_body =
  sb_id :: string
  sb_issue_date :: string
  sb_next_update :: string
  sb_evaluation :: u64
  sb_fmspc :: "string option"

text \<open>The JSON of a body: the member of an envelope with this name, read as a
  \<open>SignedBody\<close>; \<open>None\<close> when any of it fails.\<close>

type_synonym body_lib = "bytes \<Rightarrow> string \<Rightarrow> signed_body option"

definition intel_signed_body ::
  "body_lib \<Rightarrow> (string \<Rightarrow> int option) \<Rightarrow> bytes \<Rightarrow> string \<Rightarrow> (signed_body \<times> int \<times> int) res" where
  "intel_signed_body bl rfc3339 json field =
     and_then (ok_or (refused field) (bl json field)) (\<lambda>body.
     and_then (ok_or (refused ''issueDate'') (rfc3339 (sb_issue_date body))) (\<lambda>issued.
     and_then (ok_or (refused ''nextUpdate'') (rfc3339 (sb_next_update body))) (\<lambda>next.
     Inr (body, issued, next))))"

definition intel_chain :: "string option \<Rightarrow> bytes res" where
  "intel_chain chain_pem = ok_or (refused ''no issuer chain'') (map_option str_bytes chain_pem)"

definition list_first :: "'a list \<Rightarrow> 'a option" where
  "list_first xs = (case xs of [] \<Rightarrow> None | x # _ \<Rightarrow> Some x)"

definition intel_signer :: "x509_lib \<Rightarrow> bytes \<Rightarrow> bytes res" where
  "intel_signer x chain =
     and_then (parse_pem_to_der x chain) (\<lambda>ders.
     ok_or (refused ''empty issuer chain'') (list_first ders))"

definition INTEL_PCS :: string where "INTEL_PCS = ''https://api.trustedservices.intel.com''"
definition INTEL_CERTS :: string where "INTEL_CERTS = ''https://certificates.trustedservices.intel.com''"

section \<open>TCB Info\<close>

definition tcb_info_verify ::
  "('k, 's) dcap_lib \<Rightarrow> body_lib \<Rightarrow> bytes \<Rightarrow> string option \<Rightarrow> bytes \<Rightarrow> tcb_info_piece res" where
  "tcb_info_verify L bl json chain_pem fmspc =
     and_then (intel_signed_body bl (dc_rfc3339 L) json ''tcbInfo'') (\<lambda>(body, issue_date, next_update).
     and_then (intel_chain chain_pem) (\<lambda>chain.
     and_then (verify_tcb_info_signature L json chain issue_date) (\<lambda>_.
     if sb_id body \<noteq> ''TDX'' then Inl (refused ''TCB Info is not for TDX'')
     else if Option.bind (sb_fmspc body) (hex_decode (dc_hex L)) \<noteq> Some fmspc
     then Inl (refused ''TCB Info is not for FMSPC'')
     else and_then (intel_signer (dc_x509 L) chain) (\<lambda>signer.
     Inr \<lparr>tp_json = json, tp_fmspc = fmspc, tp_issue_date = issue_date, tp_next_update = next_update,
          tp_evaluation = sb_evaluation body, tp_signer = signer\<rparr>))))"

definition tcb_info_kind :: "('k, 's) dcap_lib \<Rightarrow> body_lib \<Rightarrow> (bytes, tcb_info_piece) kind" where
  "tcb_info_kind L bl =
     \<lparr>named_by_evidence = True,
      piece_name = (\<lambda>fmspc. ''tcb-info '' @ hex_encode (dc_hex L) fmspc),
      piece_url = (\<lambda>fmspc. INTEL_PCS @ ''/tdx/certification/v4/tcb?fmspc='' @ hex_encode (dc_hex L) fmspc),
      piece_verify = tcb_info_verify L bl,
      piece_dates = (\<lambda>p. window (tp_issue_date p) (tp_next_update p) (Some (tp_evaluation p))),
      piece_floor = (\<lambda>_ floors. Some (intel_tcb_info floors))\<rparr>"

section \<open>QE Identity\<close>

definition qe_identity_verify ::
  "('k, 's) dcap_lib \<Rightarrow> body_lib \<Rightarrow> bytes \<Rightarrow> string option \<Rightarrow> unit \<Rightarrow> qe_identity_piece res" where
  "qe_identity_verify L bl json chain_pem _ =
     and_then (intel_signed_body bl (dc_rfc3339 L) json ''enclaveIdentity'')
       (\<lambda>(body, issue_date, next_update).
     and_then (intel_chain chain_pem) (\<lambda>chain.
     and_then (verify_qe_identity_signature L json chain issue_date) (\<lambda>_.
     if sb_id body \<noteq> ''TD_QE'' then Inl (refused ''QE Identity is not for TD_QE'')
     else and_then (parse_qe_identity L json) (\<lambda>identity.
     and_then (intel_signer (dc_x509 L) chain) (\<lambda>signer.
     Inr \<lparr>qp_identity = identity, qp_issue_date = issue_date, qp_next_update = next_update,
          qp_evaluation = sb_evaluation body, qp_signer = signer\<rparr>)))))"

definition qe_identity_kind :: "('k, 's) dcap_lib \<Rightarrow> body_lib \<Rightarrow> (unit, qe_identity_piece) kind" where
  "qe_identity_kind L bl =
     \<lparr>named_by_evidence = False,
      piece_name = (\<lambda>_. ''qe-identity''),
      piece_url = (\<lambda>_. INTEL_PCS @ ''/tdx/certification/v4/qe/identity''),
      piece_verify = qe_identity_verify L bl,
      piece_dates = (\<lambda>p. window (qp_issue_date p) (qp_next_update p) (Some (qp_evaluation p))),
      piece_floor = (\<lambda>_ floors. Some (intel_qe_identity floors))\<rparr>"

section \<open>CRLs\<close>

definition pck_crl_verify ::
  "('k, 's) dcap_lib \<Rightarrow> bytes \<Rightarrow> string option \<Rightarrow> pck_ca \<Rightarrow> pck_crl_piece res" where
  "pck_crl_verify L crl chain_pem ca =
     and_then (intel_chain chain_pem) (\<lambda>pem.
     and_then (parse_pem_to_der (dc_x509 L) pem) (\<lambda>issuers.
     and_then (ok_or (refused ''empty issuer chain'')
                (list_first issuers)) (\<lambda>issuer.
     and_then (check_crl L crl issuer) (\<lambda>(der, this, next, number).
     and_then (verify_signing_cert_chain L pem this (pck_ca_signer ca)) (\<lambda>_.
     Inr \<lparr>pp_der = der, pp_ca = ca, pp_this_update = this, pp_next_update = next,
          pp_number = number\<rparr>)))))"

definition pck_crl_kind :: "('k, 's) dcap_lib \<Rightarrow> (pck_ca, pck_crl_piece) kind" where
  "pck_crl_kind L =
     \<lparr>named_by_evidence = False,
      piece_name = (\<lambda>ca. ''pck-crl '' @ pck_ca_name ca),
      piece_url = (\<lambda>ca. INTEL_PCS @ ''/sgx/certification/v4/pckcrl?ca='' @ pck_ca_name ca),
      piece_verify = pck_crl_verify L,
      piece_dates = (\<lambda>p. window (pp_this_update p) (pp_next_update p) (pp_number p)),
      piece_floor = (\<lambda>_ _. None)\<rparr>"

definition root_crl_verify ::
  "('k, 's) dcap_lib \<Rightarrow> bytes \<Rightarrow> string option \<Rightarrow> unit \<Rightarrow> root_crl_piece res" where
  "root_crl_verify L crl _ _ =
     and_then (check_crl L crl (dc_root_ca L)) (\<lambda>(der, this, next, number).
     Inr \<lparr>rp_der = der, rp_this_update = this, rp_next_update = next, rp_number = number\<rparr>)"

definition root_crl_kind :: "('k, 's) dcap_lib \<Rightarrow> (unit, root_crl_piece) kind" where
  "root_crl_kind L =
     \<lparr>named_by_evidence = False,
      piece_name = (\<lambda>_. ''root-crl''),
      piece_url = (\<lambda>_. INTEL_CERTS @ ''/IntelSGXRootCA.der''),
      piece_verify = root_crl_verify L,
      piece_dates = (\<lambda>p. window (rp_this_update p) (rp_next_update p) (rp_number p)),
      piece_floor = (\<lambda>_ _. None)\<rparr>"

section \<open>Lemmas\<close>

lemma list_first_Some_iff [res_simps]: "list_first xs = Some x \<longleftrightarrow> (\<exists>ys. xs = x # ys)"
  by (cases xs) (auto simp: list_first_def)

lemma tcb_info_kind_simps [simp]:
  "named_by_evidence (tcb_info_kind L bl)"
  "piece_verify (tcb_info_kind L bl) = tcb_info_verify L bl"
  "piece_dates (tcb_info_kind L bl) p = window (tp_issue_date p) (tp_next_update p) (Some (tp_evaluation p))"
  "piece_floor (tcb_info_kind L bl) pid fl = Some (intel_tcb_info fl)"
  by (simp_all add: tcb_info_kind_def)

lemma intel_verify_simps [simp]:
  "piece_verify (qe_identity_kind L bl) = qe_identity_verify L bl"
  "piece_verify (pck_crl_kind L) = pck_crl_verify L"
  "piece_verify (root_crl_kind L) = root_crl_verify L"
  by (simp_all add: qe_identity_kind_def pck_crl_kind_def root_crl_kind_def)

lemma intel_chain_Inr_iff [res_simps]: "intel_chain c = Inr b \<longleftrightarrow> (\<exists>s. c = Some s \<and> b = str_bytes s)"
  by (auto simp: intel_chain_def res_simps)

text \<open>A verified TCB Info is Intel's: its raw text is signed under the pinned root, by
  the signing certificate that was in date when it was issued, for this platform.\<close>

lemma tcb_info_verify_Inr:
  assumes "tcb_info_verify L bl json chain fmspc = Inr p"
  shows "\<exists>body pem raw sh b g k. chain = Some pem \<and> bl json ''tcbInfo'' = Some body
    \<and> sb_id body = ''TDX'' \<and> Option.bind (sb_fmspc body) (hex_decode (dc_hex L)) = Some fmspc
    \<and> dc_tcb_envelope L json = Some (raw, sh) \<and> hex_decode (dc_hex L) sh = Some b
    \<and> ec_sig (dc_ec L) b = Some g \<and> signing_chain L (str_bytes pem) (tp_issue_date p) TCB_SIGNING k
    \<and> ec_verify (dc_ec L) k raw g \<and> tp_json p = json \<and> tp_fmspc p = fmspc
    \<and> tp_evaluation p = sb_evaluation body"
  using assms
  by (auto simp: tcb_info_verify_def intel_signed_body_def verify_tcb_info_signature_def res_simps
      dest!: verify_envelope_signature_Inr split: if_splits)

lemma qe_identity_verify_Inr:
  assumes "qe_identity_verify L bl json chain u = Inr p"
  shows "\<exists>body pem raw sh b g k. chain = Some pem \<and> bl json ''enclaveIdentity'' = Some body
    \<and> sb_id body = ''TD_QE'' \<and> dc_qe_envelope L json = Some (raw, sh) \<and> hex_decode (dc_hex L) sh = Some b
    \<and> ec_sig (dc_ec L) b = Some g \<and> signing_chain L (str_bytes pem) (qp_issue_date p) TCB_SIGNING k
    \<and> ec_verify (dc_ec L) k raw g \<and> parse_qe_identity L json = Inr (qp_identity p)"
  using assms
  by (auto simp: qe_identity_verify_def intel_signed_body_def verify_qe_identity_signature_def res_simps
      dest!: verify_envelope_signature_Inr split: if_splits)

lemma pck_crl_verify_Inr:
  assumes "pck_crl_verify L crl chain ca = Inr p"
  shows "\<exists>pem issuer issuers k. chain = Some pem
    \<and> parse_pem_to_der (dc_x509 L) (str_bytes pem) = Inr (issuer # issuers)
    \<and> check_crl L crl issuer = Inr (pp_der p, pp_this_update p, pp_next_update p, pp_number p)
    \<and> signing_chain L (str_bytes pem) (pp_this_update p) (pck_ca_signer ca) k \<and> pp_ca p = ca"
  using assms
  by (auto simp: pck_crl_verify_def res_simps dest!: verify_signing_cert_chain_Inr)

lemma root_crl_verify_Inr:
  assumes "root_crl_verify L crl chain u = Inr p"
  shows "check_crl L crl (dc_root_ca L) = Inr (rp_der p, rp_this_update p, rp_next_update p, rp_number p)"
  using assms by (auto simp: root_crl_verify_def res_simps)

text \<open>No two pieces share an address: the four kinds use different paths, and within a
  kind the address names the platform.\<close>

lemma tcb_info_url_inj:
  "(\<And>a b. hex_encode (dc_hex L) a = hex_encode (dc_hex L) b \<Longrightarrow> a = b) \<Longrightarrow>
     piece_url (tcb_info_kind L bl) f = piece_url (tcb_info_kind L bl) g \<Longrightarrow> f = g"
  by (simp add: tcb_info_kind_def)

lemma envelope_not_panic [simp]: "verify_envelope_signature L env pem now \<noteq> Inl Panicked"
  by (auto simp: verify_envelope_signature_def err_simps)

lemma hex_bytes_not_panic [simp]: "hex_bytes hx n s \<noteq> Inl Panicked"
  by (simp add: hex_bytes_def ok_or_Inl_iff)

lemma intel_verify_not_panic [panic_free]:
  "tcb_info_verify L bl json chain fmspc \<noteq> Inl Panicked"
  "qe_identity_verify L bl json chain u \<noteq> Inl Panicked"
  "pck_crl_verify L crl chain ca \<noteq> Inl Panicked" "root_crl_verify L crl chain v \<noteq> Inl Panicked"
  by (auto simp: tcb_info_verify_def qe_identity_verify_def pck_crl_verify_def root_crl_verify_def
      intel_signed_body_def intel_chain_def intel_signer_def verify_tcb_info_signature_def
      verify_qe_identity_signature_def parse_qe_identity_def refused_def err_simps Let_def
      split: if_splits list.splits)

end
