(* ===== verification/Extend.thy ===== *)
theory Extend
  imports Utils
begin

text \<open>
  Measurement registers that can only be extended: a register starts at zero, and an
  extension replaces its value by the SHA-384 hash of the old value and a digest. TDX's
  RTMRs and the measurement registers of an SNP guest's kernel work this way.
\<close>

definition extend_all :: "hash_lib \<Rightarrow> bytes list \<Rightarrow> bytes" where
  "extend_all h ds = foldl (\<lambda>r d. sha384 h (r @ d)) (replicate 48 0) ds"

text \<open>The inputs a replay hashes. If the hash tells them apart and never gives the
  initial value, a register's value fixes the digests extended into it.\<close>

definition hashed :: "hash_lib \<Rightarrow> bytes list \<Rightarrow> bytes set" where
  "hashed h ds = (\<lambda>n. extend_all h (take n ds) @ ds ! n) ` {..<length ds}"

lemma extend_all_snoc: "extend_all h (ds @ [d]) = sha384 h (extend_all h ds @ d)"
  by (simp add: extend_all_def)

lemma hashed_snoc: "hashed h (ds @ [d]) = insert (extend_all h ds @ d) (hashed h ds)"
proof -
  have "{..<length (ds @ [d])} = insert (length ds) {..<length ds}" by auto
  then show ?thesis by (auto simp: hashed_def nth_append)
qed

lemma extend_all_inj:
  assumes "\<forall>d \<in> set ds \<union> set es. length d = 48"
    and "inj_on (sha384 h) (hashed h ds \<union> hashed h es)"
    and "replicate 48 0 \<notin> sha384 h ` (hashed h ds \<union> hashed h es)"
    and "extend_all h ds = extend_all h es"
  shows "ds = es"
  using assms
proof (induction ds arbitrary: es rule: rev_induct)
  case Nil
  then show ?case
    by (cases es rule: rev_cases) (auto simp: extend_all_snoc hashed_snoc, simp add: extend_all_def)
next
  case (snoc d ds)
  show ?case
  proof (cases es rule: rev_cases)
    case Nil
    with snoc.prems show ?thesis
      by (auto simp: extend_all_snoc hashed_snoc, simp add: extend_all_def)
  next
    case (snoc es' e)
    have "extend_all h ds @ d = extend_all h es' @ e"
      using inj_onD [OF snoc.prems(2), of "extend_all h ds @ d" "extend_all h es' @ e"] snoc.prems(4)
      by (simp add: snoc extend_all_snoc hashed_snoc)
    moreover have "length d = length e" using snoc.prems(1) by (simp add: snoc)
    ultimately have "extend_all h ds = extend_all h es'" "d = e" by simp_all
    with snoc.IH [of es'] snoc.prems show ?thesis
      by (auto simp: snoc hashed_snoc intro: inj_on_subset)
  qed
qed

end
