(* ===== verification/Ccel.thy ===== *)
theory Ccel
  imports TdxQuote Extend
begin

text \<open>
  \<open>crates/attestation/src/platforms/tdx/ccel.rs\<close>: the parser of the firmware's
  event log, the replay of its events into the run-time measurement registers,
  and the comparison with the registers of a quote.
\<close>

section \<open>Operations\<close>

definition MAX_DIGEST_ALGORITHMS :: u32 where "MAX_DIGEST_ALGORITHMS = 16"

text \<open>An end past \<open>usize::MAX\<close> is past the data too.\<close>

definition exceeds :: "bytes \<Rightarrow> nat \<Rightarrow> nat \<Rightarrow> bool" where
  "exceeds d off n \<longleftrightarrow> off + n > length d"

definition read_le_u32 :: "bytes \<Rightarrow> nat \<Rightarrow> u32 res" where
  "read_le_u32 d off = and_then (at_range d off (off + 4)) (\<lambda>bs. Inr (u32_from_le_bytes bs))"

definition read_le_u16 :: "bytes \<Rightarrow> nat \<Rightarrow> u16 res" where
  "read_le_u16 d off = and_then (at_range d off (off + 2)) (\<lambda>bs. Inr (u16_from_le_bytes bs))"

record ccel_event =
  ev_mr_index :: u32
  ev_type :: u32
  ev_digest :: bytes
  ev_data :: bytes

definition digest_size :: "u16 \<Rightarrow> nat res" where
  "digest_size algo =
     (if algo = 0x000C then Inr 48
      else if algo = 0x000D then Inr 64
      else if algo = 0x000B then Inr 32
      else if algo = 0x0004 then Inr 20
      else Inl (EventlogIntegrityFailed ''unsupported digest algorithm''))"

text \<open>The loop over an event's digests: the position after them and the last SHA-384
  digest, \<open>None\<close> when the data ends first (\<open>truncated\<close>).\<close>

fun read_digests :: "nat \<Rightarrow> bytes \<Rightarrow> nat \<Rightarrow> bytes \<Rightarrow> (nat \<times> bytes) option res" where
  "read_digests 0 d pos sha = Inr (Some (pos, sha))"
| "read_digests (Suc n) d pos sha =
     (if exceeds d pos 2 then Inr None
      else and_then (read_le_u16 d pos) (\<lambda>algo.
           let pos = pos + 2 in
           and_then (digest_size algo) (\<lambda>k.
           if exceeds d pos k then Inr None
           else and_then (if algo = 0x000C then at_range d pos (pos + k) else Inr sha) (\<lambda>sha.
                read_digests n d (pos + k) sha))))"

text \<open>The rest of a round, after the digests: the event's data and where it ends.\<close>

definition ccel_rest ::
  "bytes \<Rightarrow> u32 \<Rightarrow> u32 \<Rightarrow> nat \<Rightarrow> bytes \<Rightarrow> (ccel_event option \<times> nat) option res" where
  "ccel_rest d mr_index event_type pos sha384_digest =
     (if exceeds d pos 4 then Inr None
      else and_then (read_le_u32 d pos) (\<lambda>event_data_size.
      let pos = pos + 4; event_end = pos + unat event_data_size in
      if event_end > length d then Inr None
      else if event_type = 0 \<and> mr_index = 0 \<and> event_data_size = 0 then Inr None
      else and_then (at_range d pos event_end) (\<lambda>event_data.
      Inr (Some (if sha384_digest \<noteq> []
                 then Some \<lparr>ev_mr_index = mr_index, ev_type = event_type,
                            ev_digest = sha384_digest, ev_data = event_data\<rparr>
                 else None, event_end)))))"

text \<open>One round of the loop over the log: \<open>None\<close> is a \<open>break\<close>; otherwise the event,
  if it has a SHA-384 digest, and where the next one starts.\<close>

definition ccel_step :: "bytes \<Rightarrow> nat \<Rightarrow> (ccel_event option \<times> nat) option res" where
  "ccel_step d offset =
     (if exceeds d offset 8 then Inr None
      else and_then (read_le_u32 d offset) (\<lambda>mr_index.
      and_then (read_le_u32 d (offset + 4)) (\<lambda>event_type.
      let pos = offset + 8 in
      if exceeds d pos 4 then Inr None
      else and_then (read_le_u32 d pos) (\<lambda>digest_count.
      let pos = pos + 4 in
      if digest_count > MAX_DIGEST_ALGORITHMS then Inr None
      else and_then (read_digests (unat digest_count) d pos []) (\<lambda>digests.
      case digests of
        None \<Rightarrow> Inr None
      | Some (pos, sha384_digest) \<Rightarrow> ccel_rest d mr_index event_type pos sha384_digest)))))"

lemma read_digests_pos:
  "read_digests n d pos sha = Inr (Some (p, s)) \<Longrightarrow> pos \<le> p"
  by (induction n d pos sha rule: read_digests.induct)
     (fastforce simp: res_simps Let_def split: if_splits)+

text \<open>Every round that goes on consumes sixteen bytes or more.\<close>

lemma ccel_rest_progress:
  "ccel_rest d m t pos sha = Inr (Some (ev, e)) \<Longrightarrow> pos + 4 \<le> e \<and> e \<le> length d"
  by (auto simp: ccel_rest_def res_simps Let_def split: if_splits)

lemma ccel_step_progress:
  assumes "ccel_step d off = Inr (Some (ev, e))"
  shows "off + 16 \<le> e \<and> e \<le> length d"
proof -
  obtain n m t pos sha where "read_digests n d (off + 8 + 4) [] = Inr (Some (pos, sha))"
    and "ccel_rest d m t pos sha = Inr (Some (ev, e))"
    using assms by (auto simp: ccel_step_def and_then_Inr_iff Let_def split: if_splits option.splits)
  then show ?thesis using read_digests_pos ccel_rest_progress by force
qed

function ccel_loop :: "bytes \<Rightarrow> nat \<Rightarrow> ccel_event list res" where
  "ccel_loop d off =
     (if off < length d
      then (case ccel_step d off of
          Inl e \<Rightarrow> Inl e
        | Inr None \<Rightarrow> Inr []
        | Inr (Some (ev, event_end)) \<Rightarrow>
            and_then (ccel_loop d event_end) (\<lambda>evs.
            Inr (case ev of None \<Rightarrow> evs | Some x \<Rightarrow> x # evs)))
      else Inr [])"
  by pat_completeness auto

termination
  by (relation "measure (\<lambda>(d, off). length d - off)") (auto dest: ccel_step_progress)

declare ccel_loop.simps [simp del]

definition parse_ccel :: "bytes \<Rightarrow> ccel_event list res" where
  "parse_ccel d =
     (if length d < 32 then Inl (EventlogIntegrityFailed ''CCEL data too short'')
      else and_then (at_range d 28 32) (\<lambda>bs.
      let offset = 32 + unat (u32_from_le_bytes bs) in
      if offset > length d then Inl (EventlogIntegrityFailed ''Spec ID Event size exceeds CCEL data'')
      else ccel_loop d offset))"

fun mr_slot :: "u32 \<Rightarrow> nat option" where
  "mr_slot m = (if m = 1 then Some 0 else if m = 2 then Some 1
                else if m = 3 then Some 2 else if m = 4 then Some 3 else None)"

declare mr_slot.simps [simp del]

definition replay_event :: "hash_lib \<Rightarrow> bytes list \<Rightarrow> ccel_event \<Rightarrow> bytes list" where
  "replay_event h rtmrs ev = (case mr_slot (ev_mr_index ev) of
       None \<Rightarrow> rtmrs
     | Some i \<Rightarrow> rtmrs[i := sha384 h (rtmrs ! i @ ev_digest ev)])"

definition replay_rtmrs :: "hash_lib \<Rightarrow> ccel_event list \<Rightarrow> bytes list" where
  "replay_rtmrs h evs = foldl (replay_event h) (replicate 4 (replicate 48 0)) evs"

text \<open>A mismatch of the fourth register only logs a warning.\<close>

definition verify_ccel_against_rtmrs ::
  "hash_lib \<Rightarrow> bytes \<Rightarrow> bytes \<Rightarrow> bytes \<Rightarrow> bytes \<Rightarrow> bytes \<Rightarrow> unit res" where
  "verify_ccel_against_rtmrs h ccel_data r0 r1 r2 r3 =
     and_then (parse_ccel ccel_data) (\<lambda>events.
     let replayed = replay_rtmrs h events in
     check_each (\<lambda>(got, want).
       if \<not> constant_time_eq got want then Inl (EventlogIntegrityFailed ''RTMR mismatch'') else Inr ())
       (zip replayed [r0, r1, r2]))"

section \<open>Parsing\<close>

lemma read_le_not_panic:
  "\<not> exceeds d off 4 \<Longrightarrow> read_le_u32 d off \<noteq> Inl Panicked"
  "\<not> exceeds d off 2 \<Longrightarrow> read_le_u16 d off \<noteq> Inl Panicked"
  by (auto simp: read_le_u32_def read_le_u16_def exceeds_def)

lemma digest_size_not_panic [simp]: "digest_size a \<noteq> Inl Panicked"
  by (simp add: digest_size_def)

lemma read_digests_not_panic: "read_digests n d pos sha \<noteq> Inl Panicked"
  using read_le_not_panic(2) [of d]
  by (induction n arbitrary: pos sha) (auto simp: and_then_Inl_iff Let_def exceeds_def at_range_Inl_iff)

lemma ccel_rest_not_panic: "ccel_rest d m t pos sha \<noteq> Inl Panicked"
  using read_le_not_panic(1) [of d pos] by (auto simp: ccel_rest_def err_simps Let_def split: if_splits)

lemma ccel_step_not_panic: "ccel_step d off \<noteq> Inl Panicked"
  using ccel_rest_not_panic read_digests_not_panic
  by (auto simp: ccel_step_def err_simps Let_def read_le_u32_def exceeds_def split: option.splits)

lemma ccel_loop_not_panic: "ccel_loop d off \<noteq> Inl Panicked"
proof (induction d off rule: ccel_loop.induct)
  case (1 d off)
  then show ?case
    using ccel_step_not_panic [of d off]
    by (subst ccel_loop.simps) (auto simp: err_simps split: sum.splits option.splits)
qed

lemma parse_ccel_not_panic [panic_free]: "parse_ccel d \<noteq> Inl Panicked"
  by (auto simp: parse_ccel_def err_simps Let_def ccel_loop_not_panic)


text \<open>Every event the parser keeps has a digest of 48 bytes.\<close>

lemma read_digests_sha:
  "read_digests n d pos sha = Inr (Some (p, s)) \<Longrightarrow> length sha \<in> {0, 48} \<Longrightarrow> length s \<in> {0, 48}"
proof (induction n d pos sha rule: read_digests.induct)
  case (2 n d pos sha)
  then show ?case
    by (auto simp: and_then_Inr_iff Let_def at_range_def ok_or_Inr_iff get_range_Some_iff digest_size_def
        split: if_splits)
qed simp

lemma ccel_step_digest:
  assumes "ccel_step d off = Inr (Some (Some ev, e))"
  shows "length (ev_digest ev) = 48"
proof -
  obtain n m t pos sha where r: "read_digests n d (off + 8 + 4) [] = Inr (Some (pos, sha))"
    and "ccel_rest d m t pos sha = Inr (Some (Some ev, e))"
    using assms by (auto simp: ccel_step_def and_then_Inr_iff Let_def split: if_splits option.splits)
  then have "ev_digest ev = sha \<and> sha \<noteq> []"
    by (auto simp: ccel_rest_def res_simps Let_def split: if_splits)
  with read_digests_sha [OF r] show ?thesis by auto
qed

lemma ccel_loop_digests: "ccel_loop d off = Inr evs \<Longrightarrow> ev \<in> set evs \<Longrightarrow> length (ev_digest ev) = 48"
proof (induction d off arbitrary: evs rule: ccel_loop.induct)
  case (1 d off)
  from "1.prems" "1.IH" show ?case
    by (subst (asm) ccel_loop.simps)
       (fastforce simp: and_then_Inr_iff dest: ccel_step_digest split: if_splits sum.splits option.splits)
qed

lemma parse_ccel_digests: "parse_ccel d = Inr evs \<Longrightarrow> ev \<in> set evs \<Longrightarrow> length (ev_digest ev) = 48"
  by (auto simp: parse_ccel_def res_simps Let_def dest: ccel_loop_digests split: if_splits)

section \<open>Round trip\<close>

text \<open>An event as the firmware writes it, with its SHA-384 digest alone, and a log:
  the Spec ID event's header, its data, and the events.\<close>

definition event_bytes :: "ccel_event \<Rightarrow> bytes" where
  "event_bytes ev =
     le_bytes 4 (unat (ev_mr_index ev)) @ le_bytes 4 (unat (ev_type ev)) @ le_bytes 4 1 @ le_bytes 2 12
     @ ev_digest ev @ le_bytes 4 (length (ev_data ev)) @ ev_data ev"

definition log_bytes :: "bytes \<Rightarrow> bytes \<Rightarrow> ccel_event list \<Rightarrow> bytes \<Rightarrow> bytes" where
  "log_bytes header spec evs pad =
     header @ le_bytes 4 (length spec) @ spec @ concat (map event_bytes evs) @ pad"

definition event_ok :: "ccel_event \<Rightarrow> bool" where
  "event_ok ev \<longleftrightarrow> length (ev_digest ev) = 48 \<and> length (ev_data ev) < 2 ^ 32
     \<and> \<not> (ev_type ev = 0 \<and> ev_mr_index ev = 0 \<and> ev_data ev = [])"

lemma read_le_u32_at:
  assumes "d = pre @ le_bytes 4 n @ post" "n < 2 ^ 32" "off = length pre"
  shows "read_le_u32 d off = Inr (of_nat n)"
proof -
  have "slice d off (off + 4) = le_bytes 4 n"
    using assms by (intro slice_at) simp_all
  with assms show ?thesis
    by (simp add: read_le_u32_def u32_from_le_bytes_def le_nat_le_bytes)
qed

lemma read_le_u16_at:
  assumes "d = pre @ le_bytes 2 n @ post" "n < 2 ^ 16" "off = length pre"
  shows "read_le_u16 d off = Inr (of_nat n)"
proof -
  have "slice d off (off + 2) = le_bytes 2 n"
    using assms by (intro slice_at) simp_all
  with assms show ?thesis
    by (simp add: read_le_u16_def u16_from_le_bytes_def le_nat_le_bytes)
qed

lemma read_digests_sha384:
  assumes "d = pre @ le_bytes 2 12 @ dig @ post" "length dig = 48" "pos = length pre"
  shows "read_digests 1 d pos sha = Inr (Some (pos + 50, dig))"
proof -
  have "read_le_u16 d pos = Inr 12"
    using read_le_u16_at [of d pre 12 "dig @ post" pos] assms by simp
  moreover have "slice d (pos + 2) (pos + 50) = dig"
    using assms by (intro slice_at [of _ "pre @ le_bytes 2 12" _ post]) simp_all
  ultimately show ?thesis
    using assms by (simp add: exceeds_def digest_size_def Let_def add.commute)
qed

lemma ccel_rest_at:
  assumes "d = pre @ le_bytes 4 (length dat) @ dat @ post" "length dat < 2 ^ 32" "pos = length pre"
    and "\<not> (t = 0 \<and> m = 0 \<and> dat = [])" and "sha \<noteq> []"
  shows "ccel_rest d m t pos sha =
    Inr (Some (Some \<lparr>ev_mr_index = m, ev_type = t, ev_digest = sha, ev_data = dat\<rparr>, pos + 4 + length dat))"
proof -
  have r: "read_le_u32 d pos = Inr (of_nat (length dat))"
    using read_le_u32_at [of d pre "length dat" "dat @ post" pos] assms by simp
  have u: "unat (of_nat (length dat) :: u32) = length dat"
    using assms(2) by (simp add: unat_of_nat)
  have z: "(of_nat (length dat) :: u32) = 0 \<longleftrightarrow> dat = []"
    using u unat_eq_zero [of "of_nat (length dat) :: u32"] by simp
  have s: "slice d (pos + 4) (pos + 4 + length dat) = dat"
    using assms by (intro slice_at [of _ "pre @ le_bytes 4 (length dat)" _ post]) simp_all
  have "length d = pos + 4 + length dat + length post"
    using assms(1,3) by simp
  then show ?thesis
    using assms(4,5) by (simp add: ccel_rest_def exceeds_def r u z s Let_def)
qed

lemma ccel_step_event:
  assumes d: "d = pre @ event_bytes ev @ post" and ok: "event_ok ev" and o: "off = length pre"
  shows "ccel_step d off = Inr (Some (Some ev, off + length (event_bytes ev)))"
proof -
  let ?m = "le_bytes 4 (unat (ev_mr_index ev))" and ?t = "le_bytes 4 (unat (ev_type ev))"
  let ?one = "le_bytes 4 1" and ?alg = "le_bytes 2 12"
  let ?len = "le_bytes 4 (length (ev_data ev))"
  have l: "unat (ev_mr_index ev) < 2 ^ 32" "unat (ev_type ev) < 2 ^ 32"
    using unat_lt [of "ev_mr_index ev"] unat_lt [of "ev_type ev"] by simp_all
  have r1: "read_le_u32 d off = Inr (ev_mr_index ev)"
    using read_le_u32_at [of d pre "unat (ev_mr_index ev)" _ off] d o l by (simp add: event_bytes_def)
  have r2: "read_le_u32 d (off + 4) = Inr (ev_type ev)"
    using read_le_u32_at [of d "pre @ ?m" "unat (ev_type ev)" _ "off + 4"] d o l
    by (simp add: event_bytes_def)
  have r3: "read_le_u32 d (off + 8) = Inr 1"
    using read_le_u32_at [of d "pre @ ?m @ ?t" 1 _ "off + 8"] d o by (simp add: event_bytes_def)
  have r4: "read_digests 1 d (off + 12) [] = Inr (Some (off + 62, ev_digest ev))"
    using read_digests_sha384 [of d "pre @ ?m @ ?t @ ?one" "ev_digest ev" _ "off + 12" "[]"] d o ok
    by (simp add: event_bytes_def event_ok_def add.commute del: One_nat_def read_digests.simps)
  have ev: "\<lparr>ev_mr_index = ev_mr_index ev, ev_type = ev_type ev, ev_digest = ev_digest ev,
      ev_data = ev_data ev\<rparr> = ev" by simp
  have dig: "ev_digest ev \<noteq> []" using ok by (auto simp: event_ok_def)
  have r5: "ccel_rest d (ev_mr_index ev) (ev_type ev) (off + 62) (ev_digest ev) =
      Inr (Some (Some ev, off + 66 + length (ev_data ev)))"
    using dig ev ccel_rest_at [of d "pre @ ?m @ ?t @ ?one @ ?alg @ ev_digest ev" "ev_data ev" post "off + 62"
        "ev_type ev" "ev_mr_index ev" "ev_digest ev"] d o ok
    by (auto simp: event_bytes_def event_ok_def add.commute)
  have n: "\<not> exceeds d off 8" "\<not> exceeds d (off + 8) 4"
    using d o by (simp_all add: exceeds_def event_bytes_def)
  show ?thesis
    using n r4 r5 ok
    by (simp add: ccel_step_def r1 r2 r3 Let_def MAX_DIGEST_ALGORITHMS_def event_bytes_def event_ok_def
        add.commute del: One_nat_def read_digests.simps)
qed

text \<open>Zero padding ends the log: fewer than twelve bytes of it are no event, and more
  are the terminator or too short to be one.\<close>

lemma le_nat_replicate_0: "le_nat (replicate n 0) = 0"
  by (induction n) simp_all

lemma read_le_u32_pad:
  assumes "d = pre @ replicate k 0" "off \<ge> length pre" "off + 4 \<le> length d"
  shows "read_le_u32 d off = Inr 0"
proof -
  have "slice d off (off + 4) = replicate 4 0"
    using assms by (simp add: slice_def drop_append min_def)
  with assms show ?thesis by (simp add: read_le_u32_def u32_from_le_bytes_def le_nat_replicate_0)
qed

lemma ccel_step_pad:
  assumes "d = pre @ replicate k 0" "off = length pre"
  shows "ccel_step d off = Inr None"
  using assms
  by (auto simp: ccel_step_def ccel_rest_def exceeds_def read_le_u32_pad Let_def MAX_DIGEST_ALGORITHMS_def)

lemma ccel_loop_events:
  "d = pre @ concat (map event_bytes evs) @ replicate k 0 \<Longrightarrow> off = length pre \<Longrightarrow>
     \<forall>ev \<in> set evs. event_ok ev \<Longrightarrow> ccel_loop d off = Inr evs"
proof (induction evs arbitrary: pre off)
  case Nil
  then have "ccel_step d off = Inr None" by (intro ccel_step_pad) simp_all
  then show ?case by (subst ccel_loop.simps) (simp only: sum.case option.case if_cancel)
next
  case (Cons ev evs)
  have "ccel_step d off = Inr (Some (Some ev, off + length (event_bytes ev)))"
    using Cons.prems by (intro ccel_step_event [of d pre]) simp_all
  moreover have "ccel_loop d (off + length (event_bytes ev)) = Inr evs"
    using Cons.prems by (intro Cons.IH [of "pre @ event_bytes ev"]) simp_all
  moreover have "off < length d"
    using Cons.prems by (simp add: event_bytes_def)
  ultimately show ?case by (subst ccel_loop.simps) simp
qed

lemma parse_ccel_log_bytes:
  assumes "length header = 28" "length spec < 2 ^ 32" "\<forall>ev \<in> set evs. event_ok ev"
  shows "parse_ccel (log_bytes header spec evs (replicate k 0)) = Inr evs"
proof -
  let ?d = "log_bytes header spec evs (replicate k 0)"
  have s: "slice ?d 28 32 = le_bytes 4 (length spec)"
    using assms by (intro slice_at) (simp_all add: log_bytes_def)
  have u: "unat (u32_from_le_bytes (le_bytes 4 (length spec))) = length spec"
    using assms by (simp add: unat_u32_from_le_bytes le_nat_le_bytes)
  have "ccel_loop ?d (32 + length spec) = Inr evs"
    using assms by (intro ccel_loop_events [of _ "header @ le_bytes 4 (length spec) @ spec"])
      (simp_all add: log_bytes_def)
  moreover have "length ?d \<ge> 32 + length spec"
    using assms by (simp add: log_bytes_def)
  ultimately show ?thesis by (simp add: parse_ccel_def s u Let_def)
qed

section \<open>Replay\<close>

text \<open>One register on its own: its digests, in the order of the log.\<close>

definition digests_of :: "nat \<Rightarrow> ccel_event list \<Rightarrow> bytes list" where
  "digests_of i evs = map ev_digest (filter (\<lambda>ev. mr_slot (ev_mr_index ev) = Some i) evs)"

lemma mr_slot_less: "mr_slot m = Some i \<Longrightarrow> i < 4"
  by (auto simp: mr_slot.simps split: if_splits)

lemma replay_event_nth:
  "length rs = 4 \<Longrightarrow> i < 4 \<Longrightarrow>
     replay_event h rs ev ! i =
     (if mr_slot (ev_mr_index ev) = Some i then sha384 h (rs ! i @ ev_digest ev) else rs ! i)"
  by (auto simp: replay_event_def nth_list_update split: option.splits)

lemma length_replay_event [simp]: "length (replay_event h rs ev) = length rs"
  by (simp add: replay_event_def split: option.splits)

lemma length_foldl_replay: "length (foldl (replay_event h) rs evs) = length rs"
  by (induction evs arbitrary: rs) simp_all

lemma foldl_replay_nth:
  "length rs = 4 \<Longrightarrow> i < 4 \<Longrightarrow>
     foldl (replay_event h) rs evs ! i = foldl (\<lambda>r d. sha384 h (r @ d)) (rs ! i) (digests_of i evs)"
  by (induction evs arbitrary: rs) (simp_all add: digests_of_def replay_event_nth)

lemma replay_rtmrs_nth: "i < 4 \<Longrightarrow> replay_rtmrs h evs ! i = extend_all h (digests_of i evs)"
  by (simp add: replay_rtmrs_def foldl_replay_nth extend_all_def)

lemma length_replay_rtmrs [simp]: "length (replay_rtmrs h evs) = 4"
  by (simp add: replay_rtmrs_def length_foldl_replay)

lemma replay_rtmrs_list:
  "replay_rtmrs h evs = map (\<lambda>i. extend_all h (digests_of i evs)) [0, 1, 2, 3]"
  by (rule nth_equalityI) (auto simp: replay_rtmrs_nth less_Suc_eq numeral_eq_Suc)

lemma verify_ccel_Inr_iff:
  "verify_ccel_against_rtmrs h d r0 r1 r2 r3 = Inr () \<longleftrightarrow>
     (\<exists>evs. parse_ccel d = Inr evs \<and> extend_all h (digests_of 0 evs) = r0
        \<and> extend_all h (digests_of 1 evs) = r1 \<and> extend_all h (digests_of 2 evs) = r2)"
  by (auto simp: verify_ccel_against_rtmrs_def replay_rtmrs_list res_simps Let_def)

end
