(* ===== verification/Platform.thy ===== *)
theory Platform
  imports StoreInv Types Utils
begin

text \<open>
  The contract of \<open>crates/attestation/src/platform.rs\<close>: the trait \<open>Platform\<close> as a
  record of its operations, one value per platform, and \<open>run\<close> of
  \<open>crates/attestation/src/lib.rs\<close>, which takes evidence through it. Decoding the
  JSON of the evidence is a field, as the derived code does it.
\<close>

record ('ev, 'pa, 're, 'set, 'w) platform =
  pf_kind :: platform_type
  pf_decode :: "json \<Rightarrow> 'ev option"
  pf_validate :: "'pa \<Rightarrow> unit res"
  pf_gather :: "'ev \<Rightarrow> int \<Rightarrow> store \<Rightarrow> 'w \<Rightarrow> ('set \<times> collateral_used list) res \<times> store \<times> 'w"
  pf_verify :: "'ev \<Rightarrow> 'pa \<Rightarrow> 'set \<Rightarrow> int \<Rightarrow> 're res"

definition run ::
  "('ev, 'pa, 're, 'set, 'w) platform \<Rightarrow> json \<Rightarrow> 'pa option \<Rightarrow> int \<Rightarrow> store \<Rightarrow> 'w
     \<Rightarrow> ('re \<times> collateral_used list) res \<times> store \<times> 'w" where
  "run pf evidence params now s w = (case params of
       None \<Rightarrow> (Inl (PlatformNotAllowed (platform_name (pf_kind pf))), s, w)
     | Some params \<Rightarrow>
         (case pf_decode pf evidence of
            None \<Rightarrow> (Inl (EvidenceDeserialize ''evidence''), s, w)
          | Some ev \<Rightarrow>
              (case pf_validate pf params of
                 Inl e \<Rightarrow> (Inl e, s, w)
               | Inr _ \<Rightarrow>
                   let (gathered, s, w) = pf_gather pf ev now s w
                   in (and_then gathered (\<lambda>(collateral, used).
                       and_then (pf_verify pf ev params collateral now) (\<lambda>result. Inr (result, used))), s, w))))"

definition all_held :: "bool option list \<Rightarrow> bool" where
  "all_held checks = list_all (\<lambda>c. c \<noteq> Some False) checks"

lemma all_held_iff [simp]: "all_held cs \<longleftrightarrow> Some False \<notin> set cs"
  by (auto simp: all_held_def list_all_iff)

text \<open>\<open>Option::map\<close> of a fallible check, then \<open>transpose\<close>.\<close>

definition map_check :: "('a \<Rightarrow> 'b res) \<Rightarrow> 'a option \<Rightarrow> 'b option res" where
  "map_check f x = transpose_option (map_option f x)"

lemma map_check_simps [simp]:
  "map_check f None = Inr None"
  "map_check f (Some x) = and_then (f x) (\<lambda>y. Inr (Some y))"
  by (simp add: map_check_def, cases "f x", simp_all add: map_check_def)

lemma map_check_Inr_iff [res_simps]:
  "map_check f x = Inr y \<longleftrightarrow> (x = None \<and> y = None) \<or> (\<exists>a b. x = Some a \<and> y = Some b \<and> f a = Inr b)"
  by (cases x) (auto simp: and_then_Inr_iff)

lemma map_check_Inl_iff: "map_check f x = Inl e \<longleftrightarrow> (\<exists>a. x = Some a \<and> f a = Inl e)"
  by (cases x) (auto simp: and_then_Inl_iff)

text \<open>What the checks of a verdict ask of the measured value: to be one of the pinned
  ones, to be the expected one with zeros after it.\<close>

definition pinned :: "bytes list option \<Rightarrow> bytes \<Rightarrow> bool" where
  "pinned pins actual \<longleftrightarrow> (\<forall>vs. pins = Some vs \<longrightarrow> actual \<in> set vs)"

definition padded_to :: "nat \<Rightarrow> bytes option \<Rightarrow> bytes \<Rightarrow> bool" where
  "padded_to n expected actual \<longleftrightarrow> (\<forall>x. expected = Some x \<longrightarrow> actual = x @ replicate (n - length x) 0)"

lemma match_any_pinned [simp]: "match_any a p \<noteq> Some False \<longleftrightarrow> pinned p a"
  by (cases p) (auto simp: pinned_def)

lemma map_option_padded [simp]:
  "map_option (\<lambda>x. a = x @ replicate (n - length x) 0) e \<noteq> Some False \<longleftrightarrow> padded_to n e a"
  by (cases e) (auto simp: padded_to_def)

section \<open>Runs\<close>

lemma run_Inr:
  assumes "run pf j params now s w = (Inr (r, us), s', w')"
  obtains p ev set where "params = Some p" "pf_decode pf j = Some ev" "pf_validate pf p = Inr ()"
    "pf_gather pf ev now s w = (Inr (set, us), s', w')" "pf_verify pf ev p set now = Inr r"
proof -
  from assms obtain p ev where pe: "params = Some p" "pf_decode pf j = Some ev" "pf_validate pf p = Inr ()"
    by (auto simp: run_def split: option.splits sum.splits)
  obtain g s1 w1 where g: "pf_gather pf ev now s w = (g, s1, w1)" by (metis prod.collapse)
  with assms pe obtain set where "g = Inr (set, us)" "pf_verify pf ev p set now = Inr r" "s1 = s'" "w1 = w'"
    by (auto simp: run_def res_simps split: sum.splits)
  with g pe that show thesis by simp
qed

text \<open>Params that do not validate, or evidence that does not decode, stop a run before
  it can touch the store.\<close>

lemma run_refused_before_gather:
  assumes "params = None \<or> pf_decode pf j = None \<or> (\<exists>p e. params = Some p \<and> pf_validate pf p = Inl e)"
  shows "\<exists>e. run pf j params now s w = (Inl e, s, w)"
  using assms by (cases params; cases "pf_decode pf j") (auto simp: run_def split: sum.splits)

section \<open>The contract\<close>

text \<open>What the documentation of the trait promises of every platform. \<open>admissible\<close> is what
  evidence must be before any collateral is asked for, \<open>genuine\<close> what a verdict is about
  (it may depend on the collateral); both are stated per platform, without its operations.\<close>

locale checked_platform =
  fixes pf :: "('ev, 'pa, 're, 'set, 'w) platform"
    and admissible :: "'ev \<Rightarrow> int \<Rightarrow> bool"
    and genuine :: "'ev \<Rightarrow> 'set \<Rightarrow> int \<Rightarrow> bool"
  assumes forged_asks_nothing: "\<not> admissible ev now \<Longrightarrow> \<exists>e. pf_gather pf ev now s w = (Inl e, s, w)"
    and misuse: "pf_validate pf p = Inl e \<Longrightarrow> is_invalid_params e"
    and verdict_genuine: "pf_verify pf ev p c now = Inr r \<Longrightarrow> genuine ev c now"
begin

lemma run_forged:
  assumes "\<And>ev. pf_decode pf j = Some ev \<Longrightarrow> \<not> admissible ev now"
  shows "\<exists>e. run pf j params now s w = (Inl e, s, w)"
proof (cases "params = None \<or> pf_decode pf j = None")
  case False
  then obtain p ev where pe: "params = Some p" "pf_decode pf j = Some ev" by auto
  from forged_asks_nothing [OF assms [OF pe(2)]] obtain e where "pf_gather pf ev now s w = (Inl e, s, w)" by blast
  with pe show ?thesis by (cases "pf_validate pf p") (simp_all add: run_def)
qed (auto simp: run_def split: option.splits)

lemma run_misuse:
  assumes "\<And>p. params = Some p \<Longrightarrow> pf_validate pf p \<noteq> Inr ()"
  shows "\<exists>e. run pf j params now s w = (Inl e, s, w) \<and> \<not> is_retryable e"
proof (cases params)
  case (Some p)
  with assms [of p] obtain e where e: "pf_validate pf p = Inl e" by (cases "pf_validate pf p") auto
  from misuse [OF e] have "\<not> is_retryable e" by (auto dest: retryable_not_params)
  with Some e show ?thesis by (cases "pf_decode pf j") (simp_all add: run_def is_retryable_def)
qed (simp add: run_def is_retryable_def)

lemma run_verdict:
  assumes "run pf j params now s w = (Inr (r, us), s', w')"
  obtains p ev c where "params = Some p" "pf_decode pf j = Some ev" "pf_validate pf p = Inr ()"
    "pf_gather pf ev now s w = (Inr (c, us), s', w')" "pf_verify pf ev p c now = Inr r"
    "admissible ev now" "genuine ev c now"
  using assms
proof (rule run_Inr)
  fix p ev c
  assume a: "params = Some p" "pf_decode pf j = Some ev" "pf_validate pf p = Inr ()"
    and g: "pf_gather pf ev now s w = (Inr (c, us), s', w')" and v: "pf_verify pf ev p c now = Inr r"
  have "admissible ev now"
    using forged_asks_nothing [of ev now s w] g by (cases "admissible ev now") auto
  then show thesis by (rule that [OF a g v _ verdict_genuine [OF v]])
qed

lemma run_genuine:
  "run pf j params now s w = (Inr (r, us), s', w') \<Longrightarrow> \<exists>ev c. pf_decode pf j = Some ev \<and> genuine ev c now"
  by (erule run_verdict) blast

end

text \<open>What the store hands out has been verified.\<close>

lemma get_Inr:
  assumes "get env k pid now s w = (Inr (p, u), s', w')"
  shows "\<exists>body chain src. piece_verify k body chain pid = Inr p
    \<and> u = used_new (piece_name k pid) src (piece_dates k p) (piece_floor k pid (st_floors s)) now"
proof -
  obtain r where r: "lookup env k pid now s w = (r, s', w')"
    using assms by (auto simp: get_def split: prod.splits)
  with assms have "r = Inr (p, u)" by (auto simp: get_def res_simps)
  with r show ?thesis using lookup_verified by metis
qed

lemma get_if_published_Inr:
  assumes "get_if_published env k pid now s w = (Inr (Some (p, u)), s', w')"
  shows "\<exists>body chain src. piece_verify k body chain pid = Inr p
    \<and> u = used_new (piece_name k pid) src (piece_dates k p) (piece_floor k pid (st_floors s)) now"
proof -
  obtain r where r: "lookup env k pid now s w = (r, s', w')"
    using assms by (auto simp: get_if_published_def split: prod.splits)
  with assms have "r = Inr (p, u)"
    by (auto simp: get_if_published_def split: sum.splits failure.splits if_splits)
  with r show ?thesis using lookup_verified by metis
qed

lemma get_store_ok:
  "get env k pid now s w = (r, s', w') \<Longrightarrow> conforms V k \<Longrightarrow> store_ok V s \<Longrightarrow> store_ok V s'"
  by (auto simp: get_def split: prod.splits dest: lookup_store_ok)

end
