(* ===== verification/Tdx.thy ===== *)
theory Tdx
  imports Intel Ccel Platform
begin

text \<open>
  The platform half of \<open>crates/attestation/src/platforms/tdx/verify.rs\<close>: params,
  result, the collateral set, and the verification of bare-metal TDX evidence.
  The other TDX platforms are built on these operations.
\<close>

section \<open>Data\<close>

record tdx_evidence =
  te_quote :: string
  te_eventlog :: "string option"

record tdx_params =
  tp_report_data :: "bytes option"
  tp_init_data :: "bytes option"
  tp_mrtd :: "bytes list option"
  tp_rtmr0 :: "bytes list option"
  tp_rtmr1 :: "bytes list option"
  tp_rtmr2 :: "bytes list option"
  tp_rtmr3 :: "bytes list option"
  tp_allow_debug :: bool
  tp_accepted :: "tdx_tcb_status list"

definition default_tdx_params :: tdx_params where
  "default_tdx_params = \<lparr>tp_report_data = None, tp_init_data = None, tp_mrtd = None, tp_rtmr0 = None,
     tp_rtmr1 = None, tp_rtmr2 = None, tp_rtmr3 = None, tp_allow_debug = False,
     tp_accepted = [UpToDate, SWHardeningNeeded, ConfigurationNeeded, ConfigurationAndSWHardeningNeeded,
       OutOfDate, OutOfDateConfigurationNeeded]\<rparr>"

definition tdx_validate :: "tdx_params \<Rightarrow> unit res" where
  "tdx_validate p =
     (if (case tp_report_data p of None \<Rightarrow> False | Some d \<Rightarrow> length d > 64) then Inl (ReportDataTooLarge 64)
      else if (case tp_init_data p of None \<Rightarrow> False | Some d \<Rightarrow> length d > 48)
      then Inl (InvalidParams ''init_data exceeds 48 bytes'')
      else if tp_accepted p = [] then Inl (InvalidParams ''accepted_tcb_statuses is empty'')
      else and_then (check_allowed_set ''mrtd'' (tp_mrtd p)) (\<lambda>_.
      check_each (\<lambda>(name, r). check_allowed_set name r)
        [(''rtmr0'', tp_rtmr0 p), (''rtmr1'', tp_rtmr1 p), (''rtmr2'', tp_rtmr2 p), (''rtmr3'', tp_rtmr3 p)]))"

record tdx_result =
  tr_claims :: claims
  tr_report_data_match :: "bool option"
  tr_init_data_match :: "bool option"
  tr_mrtd_match :: "bool option"
  tr_rtmr_match :: "bool option list"
  tr_debug :: bool
  tr_allow_debug :: bool
  tr_crl_ok :: "bool option"
  tr_tcb_status :: "dcap_status option"
  tr_tcb_status_accepted :: "bool option"

definition tdx_passed :: "tdx_result \<Rightarrow> bool" where
  "tdx_passed r =
     (all_held ([tr_report_data_match r, tr_init_data_match r, tr_mrtd_match r] @ tr_rtmr_match r
                @ [tr_crl_ok r, tr_tcb_status_accepted r])
      \<and> (\<not> tr_debug r \<or> tr_allow_debug r))"

record tdx_set =
  ts_tcb_info :: tcb_info_piece
  ts_qe_identity :: qe_identity_piece
  ts_pck_crl :: pck_crl_piece
  ts_root_crl :: root_crl_piece

text \<open>The libraries of a TDX verification, and the store's environment.\<close>

record ('k, 's, 'w) tdx_env =
  ev_lib :: "('k, 's) dcap_lib"
  ev_body :: body_lib
  ev_base64 :: "string \<Rightarrow> bytes option"
  ev_store :: "'w store_env"

section \<open>The PCK chain and the collateral set\<close>

record pck_chain_of =
  pc_der :: "bytes list"
  pc_fmspc :: bytes
  pc_ca :: pck_ca

definition pck_of :: "('k, 's) dcap_lib \<Rightarrow> bytes \<Rightarrow> tdx_quote \<Rightarrow> pck_chain_of res" where
  "pck_of L d quote =
     and_then (compute_body_end d (tq_version quote)) (\<lambda>body_end.
     and_then (parse_auth_data d body_end) (\<lambda>auth.
     and_then (parse_pem_to_der (dc_x509 L) (pck_cert_chain_pem auth)) (\<lambda>der.
     and_then (extract_fmspc_from_pck_der (dc_x509 L) der) (\<lambda>fmspc.
     and_then (determine_ca_type_from_der (dc_x509 L) der) (\<lambda>ca.
     Inr \<lparr>pc_der = der, pc_fmspc = fmspc, pc_ca = ca\<rparr>)))))"

text \<open>\<open>TdxCollateralSet::gather\<close>: the four pieces one after the other; their errors
  are looked at once all have been asked for.\<close>

definition tdx_set_gather ::
  "('k, 's, 'w) tdx_env \<Rightarrow> bytes \<Rightarrow> tdx_quote \<Rightarrow> int \<Rightarrow> store \<Rightarrow> 'w
     \<Rightarrow> (tdx_set \<times> collateral_used list) res \<times> store \<times> 'w" where
  "tdx_set_gather E d quote now s w =
     (let L = ev_lib E; env = ev_store E in
      case pck_of L d quote of
        Inl e \<Rightarrow> (Inl e, s, w)
      | Inr pck \<Rightarrow>
          let (r1, s, w) = get env (tcb_info_kind L (ev_body E)) (pc_fmspc pck) now s w;
              (r2, s, w) = get env (qe_identity_kind L (ev_body E)) () now s w;
              (r3, s, w) = get env (pck_crl_kind L) (pc_ca pck) now s w;
              (r4, s, w) = get env (root_crl_kind L) () now s w
          in (and_then r1 (\<lambda>(tcb, u1). and_then r2 (\<lambda>(qe, u2). and_then r3 (\<lambda>(pck, u3).
              and_then r4 (\<lambda>(root, u4).
              Inr (\<lparr>ts_tcb_info = tcb, ts_qe_identity = qe, ts_pck_crl = pck, ts_root_crl = root\<rparr>,
                   [u1, u2, u3, u4]))))), s, w))"

section \<open>Verification\<close>

definition decode_quote :: "(string \<Rightarrow> bytes option) \<Rightarrow> tdx_evidence \<Rightarrow> bytes res" where
  "decode_quote b64 ev =
     and_then (check_field_size ''quote'' (length (te_quote ev))) (\<lambda>_.
     ok_or (EvidenceDeserialize ''quote base64'') (b64 (te_quote ev)))"

definition verify_quote :: "('k, 's) dcap_lib \<Rightarrow> bytes \<Rightarrow> tdx_params \<Rightarrow> int \<Rightarrow> (tdx_quote \<times> tdx_result) res" where
  "verify_quote L d params now =
     and_then (parse_tdx_quote d) (\<lambda>quote.
     and_then (verify_quote_signature (dc_hash L) (dc_ec L) d quote) (\<lambda>_.
     and_then (verify_dcap_chain L d (tq_version quote) now) (\<lambda>_.
     let b = tq_body quote; compare = (\<lambda>allowed actual. match_any actual allowed) in
     and_then (at_index (td_attributes b) 0) (\<lambda>attr.
     Inr (quote,
       \<lparr>tr_claims = tdx_extract_claims (dc_hex L) quote, tr_report_data_match = None,
        tr_init_data_match = None, tr_mrtd_match = compare (tp_mrtd params) (mr_td b),
        tr_rtmr_match = [compare (tp_rtmr0 params) (rtmr_0 b), compare (tp_rtmr1 params) (rtmr_1 b),
                         compare (tp_rtmr2 params) (rtmr_2 b), compare (tp_rtmr3 params) (rtmr_3 b)],
        tr_debug = (attr AND 1 \<noteq> 0), tr_allow_debug = tp_allow_debug params, tr_crl_ok = None,
        tr_tcb_status = None, tr_tcb_status_accepted = None\<rparr>)))))"

definition genuine_quote :: "('k, 's, 'w) tdx_env \<Rightarrow> tdx_evidence \<Rightarrow> int \<Rightarrow> (bytes \<times> tdx_quote) res" where
  "genuine_quote E ev now =
     (let L = ev_lib E in
      and_then (decode_quote (ev_base64 E) ev) (\<lambda>d.
      and_then (parse_tdx_quote d) (\<lambda>quote.
      and_then (verify_quote_signature (dc_hash L) (dc_ec L) d quote) (\<lambda>_.
      and_then (verify_dcap_chain L d (tq_version quote) now) (\<lambda>_.
      Inr (d, quote))))))"

text \<open>The steps of \<open>check_collateral\<close>: the signers against Intel's root CRL, the PCK
  chain against both CRLs (the second is read only when the first does not list the
  leaf), and the TCB status combined with the quoting enclave's.\<close>

definition check_signers :: "x509_lib \<Rightarrow> tdx_set \<Rightarrow> unit res" where
  "check_signers x collateral =
     check_each (\<lambda>signer.
       and_then (cert_revoked_from_der x [signer] (rp_der (ts_root_crl collateral))) (\<lambda>revoked.
       if revoked then Inl (CertChainError ''Intel revoked the TCB Signing certificate'') else Inr ()))
       [tp_signer (ts_tcb_info collateral), qp_signer (ts_qe_identity collateral)]"

definition pck_revoked :: "x509_lib \<Rightarrow> bytes list \<Rightarrow> tdx_set \<Rightarrow> bool res" where
  "pck_revoked x der collateral =
     and_then (cert_revoked_from_der x der (pp_der (ts_pck_crl collateral))) (\<lambda>leaf.
     if leaf then Inr True
     else intermediate_ca_revoked_from_der x der (rp_der (ts_root_crl collateral)))"

definition quote_status ::
  "('k, 's) dcap_lib \<Rightarrow> bytes \<Rightarrow> tdx_quote \<Rightarrow> bytes list \<Rightarrow> tdx_set \<Rightarrow> int \<Rightarrow> dcap_status res" where
  "quote_status L d quote der collateral now =
     and_then (compute_body_end d (tq_version quote)) (\<lambda>body_end.
     and_then (parse_auth_data d body_end) (\<lambda>auth.
     and_then (evaluate_tcb_status L (tp_json (ts_tcb_info collateral)) (tee_tcb_svn (tq_body quote))
                 der now) (\<lambda>status.
     and_then (check_qe_report (qe_report_body auth) (qp_identity (ts_qe_identity collateral))) (\<lambda>qe_status.
     Inr (status\<lparr>ds_tcb_status := combine_tcb_status (ds_tcb_status status) qe_status,
                 ds_qe_tcb_status := Some qe_status\<rparr>)))))"

definition check_collateral ::
  "('k, 's) dcap_lib \<Rightarrow> tdx_result \<Rightarrow> bytes \<Rightarrow> tdx_quote \<Rightarrow> tdx_params \<Rightarrow> tdx_set \<Rightarrow> int \<Rightarrow> tdx_result res" where
  "check_collateral L result d quote params collateral now =
     and_then (pck_of L d quote) (\<lambda>pck.
     if tp_fmspc (ts_tcb_info collateral) \<noteq> pc_fmspc pck \<or> pp_ca (ts_pck_crl collateral) \<noteq> pc_ca pck
     then Inl (CertChainError ''the collateral is not for this quote's platform'')
     else and_then (check_signers (dc_x509 L) collateral) (\<lambda>_.
     and_then (pck_revoked (dc_x509 L) (pc_der pck) collateral) (\<lambda>revoked.
     and_then (quote_status L d quote (pc_der pck) collateral now) (\<lambda>status.
     Inr (result\<lparr>tr_tcb_status_accepted := Some (ds_tcb_status status \<in> set (tp_accepted params)),
                 tr_tcb_status := Some status, tr_crl_ok := Some (\<not> revoked)\<rparr>)))))"

definition tdx_verify ::
  "('k, 's, 'w) tdx_env \<Rightarrow> tdx_evidence \<Rightarrow> tdx_params \<Rightarrow> tdx_set \<Rightarrow> int \<Rightarrow> tdx_result res" where
  "tdx_verify E ev params collateral now =
     (let L = ev_lib E in
      and_then (tdx_validate params) (\<lambda>_.
      and_then (decode_quote (ev_base64 E) ev) (\<lambda>d.
      and_then (verify_quote L d params now) (\<lambda>(quote, result).
      and_then (map_check (\<lambda>expected. and_then (pad_report_data expected 64) (\<lambda>padded.
                  Inr (constant_time_eq (td_report_data (tq_body quote)) padded))) (tp_report_data params)) (\<lambda>rd.
      and_then (map_check (\<lambda>expected. and_then (pad_report_data expected 48) (\<lambda>padded.
                  Inr (constant_time_eq (mr_config_id (tq_body quote)) padded))) (tp_init_data params)) (\<lambda>idm.
      let result = result\<lparr>tr_report_data_match := rd, tr_init_data_match := idm\<rparr> in
      and_then (case te_eventlog ev of
          None \<Rightarrow> Inr ()
        | Some log \<Rightarrow>
            and_then (check_field_size ''cc_eventlog'' (length log)) (\<lambda>_.
            and_then (ok_or (EventlogIntegrityFailed ''CCEL base64'') (ev_base64 E log)) (\<lambda>ccel.
            let b = tq_body quote in
            verify_ccel_against_rtmrs (dc_hash L) ccel (rtmr_0 b) (rtmr_1 b) (rtmr_2 b) (rtmr_3 b)))) (\<lambda>_.
      check_collateral L result d quote params collateral now)))))))"

definition tdx_gather ::
  "('k, 's, 'w) tdx_env \<Rightarrow> tdx_evidence \<Rightarrow> int \<Rightarrow> store \<Rightarrow> 'w
     \<Rightarrow> (tdx_set \<times> collateral_used list) res \<times> store \<times> 'w" where
  "tdx_gather E ev now s w = (case genuine_quote E ev now of
       Inl e \<Rightarrow> (Inl e, s, w)
     | Inr (d, quote) \<Rightarrow> tdx_set_gather E d quote now s w)"

definition tdx_platform ::
  "('k, 's, 'w) tdx_env \<Rightarrow> (json \<Rightarrow> tdx_evidence option)
     \<Rightarrow> (tdx_evidence, tdx_params, tdx_result, tdx_set, 'w) platform" where
  "tdx_platform E dec = \<lparr>pf_kind = Tdx, pf_decode = dec, pf_validate = tdx_validate,
     pf_gather = tdx_gather E, pf_verify = tdx_verify E\<rparr>"

section \<open>Params\<close>

lemma tdx_validate_Inl: "tdx_validate p = Inl e \<Longrightarrow> is_invalid_params e"
  by (auto simp: tdx_validate_def is_invalid_params_def and_then_Inl_iff split: if_splits
      dest!: check_allowed_set_Inl [unfolded is_invalid_params_def])

lemma tdx_validate_Inr_iff:
  "tdx_validate p = Inr () \<longleftrightarrow>
     (\<forall>d. tp_report_data p = Some d \<longrightarrow> length d \<le> 64) \<and> (\<forall>d. tp_init_data p = Some d \<longrightarrow> length d \<le> 48)
     \<and> tp_accepted p \<noteq> []
     \<and> (\<forall>r \<in> {tp_mrtd p, tp_rtmr0 p, tp_rtmr1 p, tp_rtmr2 p, tp_rtmr3 p}. r \<noteq> Some [])"
  by (auto simp: tdx_validate_def res_simps not_less split: option.splits)

lemma tdx_validate_not_panic [panic_free]: "tdx_validate p \<noteq> Inl Panicked"
  using tdx_validate_Inl [of p Panicked] by (auto simp: is_invalid_params_def)

section \<open>Genuine quotes\<close>

text \<open>What makes a quote genuine: the key that signed header and body is the one the
  quoting enclave's report names, and that report is signed under Intel's root.\<close>

definition quote_trust :: "('k, 's) dcap_lib \<Rightarrow> bytes \<Rightarrow> tdx_quote \<Rightarrow> int \<Rightarrow> bool" where
  "quote_trust L d q now \<longleftrightarrow> parse_tdx_quote d = Inr q
     \<and> (\<exists>e a k s. compute_body_end d (tq_version q) = Inr e \<and> dcap_trust L d e now a
          \<and> ec_key (dc_ec L) (4 # attestation_pub_key a) = Some k
          \<and> ec_sig (dc_ec L) (slice d (e + 4) (e + 68)) = Some s
          \<and> ec_verify_prehash (dc_ec L) k (sha256 (dc_hash L) (take e d)) s)"

lemma quote_trustI:
  assumes p: "parse_tdx_quote d = Inr q"
    and v: "verify_quote_signature (dc_hash L) (dc_ec L) d q = Inr b"
    and c: "verify_dcap_chain L d (tq_version q) now = Inr ()"
  shows "quote_trust L d q now"
proof -
  obtain e where e: "compute_body_end d (tq_version q) = Inr e"
    using parse_tdx_quote_body_end [OF p] by blast
  obtain a where a: "dcap_trust L d e now a"
    using verify_dcap_chain_Inr [OF c e] by blast
  then have k: "attestation_pub_key a = slice d (e + 68) (e + 132)"
    by (auto simp: dcap_trust_def dest: parse_auth_data_Inr)
  from verify_quote_signature_Inr [OF v e] p e a show ?thesis
    unfolding quote_trust_def k [symmetric] by blast
qed

lemma genuine_quote_Inr:
  assumes "genuine_quote E ev now = Inr (d, q)"
  shows "decode_quote (ev_base64 E) ev = Inr d \<and> quote_trust (ev_lib E) d q now"
  using assms by (auto simp: genuine_quote_def res_simps Let_def intro: quote_trustI)

lemma tdx_gather_not_genuine:
  "genuine_quote E ev now = Inl e \<Longrightarrow> tdx_gather E ev now s w = (Inl e, s, w)"
  by (simp add: tdx_gather_def)

lemma verify_quote_Inr:
  "verify_quote L d params now = Inr (q, r) \<Longrightarrow>
     quote_trust L d q now
     \<and> r = \<lparr>tr_claims = tdx_extract_claims (dc_hex L) q, tr_report_data_match = None,
        tr_init_data_match = None, tr_mrtd_match = match_any (mr_td (tq_body q)) (tp_mrtd params),
        tr_rtmr_match = [match_any (rtmr_0 (tq_body q)) (tp_rtmr0 params),
          match_any (rtmr_1 (tq_body q)) (tp_rtmr1 params),
          match_any (rtmr_2 (tq_body q)) (tp_rtmr2 params),
          match_any (rtmr_3 (tq_body q)) (tp_rtmr3 params)],
        tr_debug = (td_attributes (tq_body q) ! 0 AND 1 \<noteq> 0), tr_allow_debug = tp_allow_debug params,
        tr_crl_ok = None, tr_tcb_status = None, tr_tcb_status_accepted = None\<rparr>"
  by (auto simp: verify_quote_def res_simps Let_def intro: quote_trustI)

text \<open>Gathering and verifying accept the same quotes.\<close>

lemma verify_quote_genuine:
  "decode_quote (ev_base64 E) ev = Inr d \<Longrightarrow> verify_quote (ev_lib E) d params now = Inr (q, r) \<Longrightarrow>
     genuine_quote E ev now = Inr (d, q)"
  by (auto simp: verify_quote_def genuine_quote_def res_simps Let_def)

section \<open>Collateral\<close>

lemma pck_of_Inr:
  "pck_of L d q = Inr pck \<Longrightarrow>
     \<exists>e a. compute_body_end d (tq_version q) = Inr e \<and> parse_auth_data d e = Inr a
       \<and> parse_pem_to_der (dc_x509 L) (pck_cert_chain_pem a) = Inr (pc_der pck)
       \<and> extract_fmspc_from_pck_der (dc_x509 L) (pc_der pck) = Inr (pc_fmspc pck)
       \<and> determine_ca_type_from_der (dc_x509 L) (pc_der pck) = Inr (pc_ca pck)"
  by (auto simp: pck_of_def res_simps)

definition signer_ok :: "x509_lib \<Rightarrow> bytes \<Rightarrow> bytes \<Rightarrow> bool" where
  "signer_ok x signer root_crl \<longleftrightarrow> cert_revoked_from_der x [signer] root_crl = Inr False"

lemma check_signers_Inr_iff [res_simps]:
  "check_signers x c = Inr u \<longleftrightarrow> signer_ok x (tp_signer (ts_tcb_info c)) (rp_der (ts_root_crl c))
     \<and> signer_ok x (qp_signer (ts_qe_identity c)) (rp_der (ts_root_crl c))"
  by (auto simp: check_signers_def signer_ok_def res_simps)

lemma pck_revoked_Inr_False:
  "pck_revoked x ders c = Inr False \<longleftrightarrow> cert_revoked_from_der x ders (pp_der (ts_pck_crl c)) = Inr False
     \<and> intermediate_ca_revoked_from_der x ders (rp_der (ts_root_crl c)) = Inr False"
  by (auto simp: pck_revoked_def res_simps)

lemma quote_status_Inr:
  "quote_status L d q ders c now = Inr st \<Longrightarrow>
     \<exists>e a st0 qe. compute_body_end d (tq_version q) = Inr e \<and> parse_auth_data d e = Inr a
       \<and> evaluate_tcb_status L (tp_json (ts_tcb_info c)) (tee_tcb_svn (tq_body q)) ders now = Inr st0
       \<and> check_qe_report (qe_report_body a) (qp_identity (ts_qe_identity c)) = Inr qe
       \<and> ds_tcb_status st = combine_tcb_status (ds_tcb_status st0) qe \<and> ds_qe_tcb_status st = Some qe
       \<and> ds_advisory_ids st = ds_advisory_ids st0"
  by (fastforce simp: quote_status_def and_then_Inr_iff)

lemma check_collateral_Inr:
  assumes "check_collateral L r d q params c now = Inr r'"
  obtains pck st rev where
    "pck_of L d q = Inr pck" "tp_fmspc (ts_tcb_info c) = pc_fmspc pck" "pp_ca (ts_pck_crl c) = pc_ca pck"
    "signer_ok (dc_x509 L) (tp_signer (ts_tcb_info c)) (rp_der (ts_root_crl c))"
    "signer_ok (dc_x509 L) (qp_signer (ts_qe_identity c)) (rp_der (ts_root_crl c))"
    "pck_revoked (dc_x509 L) (pc_der pck) c = Inr rev"
    "quote_status L d q (pc_der pck) c now = Inr st"
    "r' = r\<lparr>tr_tcb_status_accepted := Some (ds_tcb_status st \<in> set (tp_accepted params)),
            tr_tcb_status := Some st, tr_crl_ok := Some (\<not> rev)\<rparr>"
  using assms by (auto simp: check_collateral_def res_simps)

lemma padded_match:
  "map_check (\<lambda>expected. and_then (pad_report_data expected n) (\<lambda>padded.
     Inr (constant_time_eq actual padded))) x = Inr y \<Longrightarrow>
   y = map_option (\<lambda>d. actual = d @ replicate (n - length d) 0) x"
  by (cases x) (auto simp: res_simps)

text \<open>What a verdict says, rule by rule.\<close>

lemma tdx_verify_Inr:
  assumes v: "tdx_verify E ev params c now = Inr r"
  obtains d q r0 where
    "tdx_validate params = Inr ()" "decode_quote (ev_base64 E) ev = Inr d" "quote_trust (ev_lib E) d q now"
    "genuine_quote E ev now = Inr (d, q)"
    "tr_report_data_match r = map_option (\<lambda>x. td_report_data (tq_body q) = x @ replicate (64 - length x) 0)
       (tp_report_data params)"
    "tr_init_data_match r = map_option (\<lambda>x. mr_config_id (tq_body q) = x @ replicate (48 - length x) 0)
       (tp_init_data params)"
    "tr_mrtd_match r = match_any (mr_td (tq_body q)) (tp_mrtd params)"
    "tr_rtmr_match r = [match_any (rtmr_0 (tq_body q)) (tp_rtmr0 params),
       match_any (rtmr_1 (tq_body q)) (tp_rtmr1 params), match_any (rtmr_2 (tq_body q)) (tp_rtmr2 params),
       match_any (rtmr_3 (tq_body q)) (tp_rtmr3 params)]"
    "tr_debug r \<longleftrightarrow> td_attributes (tq_body q) ! 0 AND 1 \<noteq> 0" "tr_allow_debug r = tp_allow_debug params"
    "tr_claims r = tdx_extract_claims (dc_hex (ev_lib E)) q"
    "check_collateral (ev_lib E) r0 d q params c now = Inr r"
    "\<forall>log. te_eventlog ev = Some log \<longrightarrow> (\<exists>ccel. ev_base64 E log = Some ccel
       \<and> verify_ccel_against_rtmrs (dc_hash (ev_lib E)) ccel (rtmr_0 (tq_body q)) (rtmr_1 (tq_body q))
           (rtmr_2 (tq_body q)) (rtmr_3 (tq_body q)) = Inr ())"
proof -
  from v obtain d q r1 rd idm u where val: "tdx_validate params = Inr ()"
    and d: "decode_quote (ev_base64 E) ev = Inr d" and vq: "verify_quote (ev_lib E) d params now = Inr (q, r1)"
    and rd0: "map_check (\<lambda>expected. and_then (pad_report_data expected 64) (\<lambda>padded.
        Inr (constant_time_eq (td_report_data (tq_body q)) padded))) (tp_report_data params) = Inr rd"
    and idm0: "map_check (\<lambda>expected. and_then (pad_report_data expected 48) (\<lambda>padded.
        Inr (constant_time_eq (mr_config_id (tq_body q)) padded))) (tp_init_data params) = Inr idm"
    and log0: "(case te_eventlog ev of
          None \<Rightarrow> Inr ()
        | Some log \<Rightarrow>
            and_then (check_field_size ''cc_eventlog'' (length log)) (\<lambda>_.
            and_then (ok_or (EventlogIntegrityFailed ''CCEL base64'') (ev_base64 E log)) (\<lambda>ccel.
            let b = tq_body q in
            verify_ccel_against_rtmrs (dc_hash (ev_lib E)) ccel (rtmr_0 b) (rtmr_1 b) (rtmr_2 b) (rtmr_3 b)))) =
        Inr u"
    and c: "check_collateral (ev_lib E) (r1\<lparr>tr_report_data_match := rd, tr_init_data_match := idm\<rparr>)
      d q params c now = Inr r"
    unfolding tdx_verify_def Let_def by (auto simp: and_then_Inr_iff)
  note rd = padded_match [OF rd0] and idm = padded_match [OF idm0]
  have log: "\<forall>log. te_eventlog ev = Some log \<longrightarrow> (\<exists>ccel. ev_base64 E log = Some ccel
       \<and> verify_ccel_against_rtmrs (dc_hash (ev_lib E)) ccel (rtmr_0 (tq_body q)) (rtmr_1 (tq_body q))
           (rtmr_2 (tq_body q)) (rtmr_3 (tq_body q)) = Inr ())"
    using log0 by (auto simp: res_simps Let_def)
  note q = verify_quote_Inr [OF vq]
  have r: "tr_report_data_match r = rd \<and> tr_init_data_match r = idm \<and> tr_mrtd_match r = tr_mrtd_match r1
      \<and> tr_rtmr_match r = tr_rtmr_match r1 \<and> tr_debug r = tr_debug r1 \<and> tr_allow_debug r = tr_allow_debug r1
      \<and> tr_claims r = tr_claims r1"
    using c by (rule check_collateral_Inr) simp
  show thesis
    by (rule that [OF val d _ verify_quote_genuine [OF d vq] _ _ _ _ _ _ _ c log])
       (use q r rd idm in simp_all)
qed

text \<open>Passing, in terms of the quote.\<close>

definition body_meets :: "tdx_params \<Rightarrow> tdx_body \<Rightarrow> bool" where
  "body_meets p b \<longleftrightarrow> padded_to 64 (tp_report_data p) (td_report_data b)
     \<and> padded_to 48 (tp_init_data p) (mr_config_id b) \<and> pinned (tp_mrtd p) (mr_td b)
     \<and> pinned (tp_rtmr0 p) (rtmr_0 b) \<and> pinned (tp_rtmr1 p) (rtmr_1 b) \<and> pinned (tp_rtmr2 p) (rtmr_2 b)
     \<and> pinned (tp_rtmr3 p) (rtmr_3 b) \<and> (td_attributes b ! 0 AND 1 \<noteq> 0 \<longrightarrow> tp_allow_debug p)"

text \<open>The whole meaning of a passing verdict.\<close>

lemma tdx_verify_passed_iff:
  assumes v: "tdx_verify E ev params c now = Inr r"
  obtains d q pck st rev where
    "genuine_quote E ev now = Inr (d, q)" "quote_trust (ev_lib E) d q now"
    "pck_of (ev_lib E) d q = Inr pck" "tp_fmspc (ts_tcb_info c) = pc_fmspc pck"
    "pp_ca (ts_pck_crl c) = pc_ca pck"
    "pck_revoked (dc_x509 (ev_lib E)) (pc_der pck) c = Inr rev"
    "quote_status (ev_lib E) d q (pc_der pck) c now = Inr st"
    "tdx_passed r \<longleftrightarrow> body_meets params (tq_body q) \<and> \<not> rev \<and> ds_tcb_status st \<in> set (tp_accepted params)"
  using v
proof (rule tdx_verify_Inr)
  fix d q r0
  assume q: "quote_trust (ev_lib E) d q now" "genuine_quote E ev now = Inr (d, q)"
    and m: "tr_report_data_match r =
      map_option (\<lambda>x. td_report_data (tq_body q) = x @ replicate (64 - length x) 0) (tp_report_data params)"
      "tr_init_data_match r =
      map_option (\<lambda>x. mr_config_id (tq_body q) = x @ replicate (48 - length x) 0) (tp_init_data params)"
      "tr_mrtd_match r = match_any (mr_td (tq_body q)) (tp_mrtd params)"
      "tr_rtmr_match r = [match_any (rtmr_0 (tq_body q)) (tp_rtmr0 params),
       match_any (rtmr_1 (tq_body q)) (tp_rtmr1 params), match_any (rtmr_2 (tq_body q)) (tp_rtmr2 params),
       match_any (rtmr_3 (tq_body q)) (tp_rtmr3 params)]"
      "tr_debug r \<longleftrightarrow> td_attributes (tq_body q) ! 0 AND 1 \<noteq> 0" "tr_allow_debug r = tp_allow_debug params"
    and c: "check_collateral (ev_lib E) r0 d q params c now = Inr r"
  from c show thesis
  proof (rule check_collateral_Inr)
    fix pck st rev
    assume p: "pck_of (ev_lib E) d q = Inr pck" "tp_fmspc (ts_tcb_info c) = pc_fmspc pck"
        "pp_ca (ts_pck_crl c) = pc_ca pck" "pck_revoked (dc_x509 (ev_lib E)) (pc_der pck) c = Inr rev"
        "quote_status (ev_lib E) d q (pc_der pck) c now = Inr st"
      and r: "r = r0\<lparr>tr_tcb_status_accepted := Some (ds_tcb_status st \<in> set (tp_accepted params)),
          tr_tcb_status := Some st, tr_crl_ok := Some (\<not> rev)\<rparr>"
    have k: "tr_crl_ok r = Some (\<not> rev)"
      "tr_tcb_status_accepted r = Some (ds_tcb_status st \<in> set (tp_accepted params))"
      by (simp_all add: r)
    have a: "all_held (x # xs) \<longleftrightarrow> x \<noteq> Some False \<and> all_held xs" "all_held []" for x xs
      by (auto simp: all_held_def)
    have "tdx_passed r \<longleftrightarrow>
        body_meets params (tq_body q) \<and> \<not> rev \<and> ds_tcb_status st \<in> set (tp_accepted params)"
      unfolding tdx_passed_def m k append.simps a match_any_pinned map_option_padded body_meets_def
      by (auto simp: all_held_def)
    with q p show thesis by (intro that) simp_all
  qed
qed

section \<open>Runs\<close>

text \<open>The set that comes with a gathered quote is Intel's, for its platform.\<close>

lemma tdx_set_gather_Inr:
  assumes g: "tdx_set_gather E d q now s w = (Inr (c, us), s', w')"
  obtains pck b1 c1 b2 c2 b3 c3 b4 c4 where
    "pck_of (ev_lib E) d q = Inr pck"
    "tcb_info_verify (ev_lib E) (ev_body E) b1 c1 (pc_fmspc pck) = Inr (ts_tcb_info c)"
    "qe_identity_verify (ev_lib E) (ev_body E) b2 c2 () = Inr (ts_qe_identity c)"
    "pck_crl_verify (ev_lib E) b3 c3 (pc_ca pck) = Inr (ts_pck_crl c)"
    "root_crl_verify (ev_lib E) b4 c4 () = Inr (ts_root_crl c)"
    "length us = 4"
proof -
  let ?L = "ev_lib E" and ?b = "ev_body E" and ?e = "ev_store E"
  from g obtain pck where pck: "pck_of ?L d q = Inr pck"
    by (auto simp: tdx_set_gather_def Let_def split: sum.splits)
  obtain r1 s1 w1 where 1: "get ?e (tcb_info_kind ?L ?b) (pc_fmspc pck) now s w = (r1, s1, w1)"
    by (metis prod.collapse)
  obtain r2 s2 w2 where 2: "get ?e (qe_identity_kind ?L ?b) () now s1 w1 = (r2, s2, w2)"
    by (metis prod.collapse)
  obtain r3 s3 w3 where 3: "get ?e (pck_crl_kind ?L) (pc_ca pck) now s2 w2 = (r3, s3, w3)"
    by (metis prod.collapse)
  obtain r4 s4 w4 where 4: "get ?e (root_crl_kind ?L) () now s3 w3 = (r4, s4, w4)"
    by (metis prod.collapse)
  from g pck 1 2 3 4 obtain u1 u2 u3 u4 where
    "r1 = Inr (ts_tcb_info c, u1)" "r2 = Inr (ts_qe_identity c, u2)" "r3 = Inr (ts_pck_crl c, u3)"
    "r4 = Inr (ts_root_crl c, u4)" and us: "us = [u1, u2, u3, u4]"
    by (auto simp: tdx_set_gather_def Let_def res_simps)
  note g = 1 [unfolded this(1)] 2 [unfolded this(2)] 3 [unfolded this(3)] 4 [unfolded this(4)]
  have "\<exists>b c'. tcb_info_verify ?L ?b b c' (pc_fmspc pck) = Inr (ts_tcb_info c)"
    "\<exists>b c'. qe_identity_verify ?L ?b b c' () = Inr (ts_qe_identity c)"
    "\<exists>b c'. pck_crl_verify ?L b c' (pc_ca pck) = Inr (ts_pck_crl c)"
    "\<exists>b c'. root_crl_verify ?L b c' () = Inr (ts_root_crl c)"
    using get_Inr [OF g(1)] get_Inr [OF g(2)] get_Inr [OF g(3)] get_Inr [OF g(4)] by auto
  with pck us that show thesis by auto
qed

lemma tdx_gather_Inr:
  "tdx_gather E ev now s w = (Inr (c, us), s', w') \<Longrightarrow>
     \<exists>d q. genuine_quote E ev now = Inr (d, q) \<and> tdx_set_gather E d q now s w = (Inr (c, us), s', w')"
  by (auto simp: tdx_gather_def split: sum.splits)

section \<open>No panics\<close>

lemma body_from_bytes_attributes:
  "body_from_bytes b = Inr body \<Longrightarrow> \<exists>f. read_fields b 0 body_sizes = Inr f \<and> td_attributes body = f ! 4"
  by (auto simp: body_from_bytes_def res_simps Let_def split: if_splits)

lemma td_attributes_length:
  assumes "parse_tdx_quote d = Inr q"
  shows "length (td_attributes (tq_body q)) = 8"
proof -
  obtain b where "body_from_bytes b = Inr (tq_body q)"
    using assms by (auto simp: parse_tdx_quote_eq res_simps Let_def split: if_splits)
  then obtain f where f: "read_fields b 0 body_sizes = Inr f" "td_attributes (tq_body q) = f ! 4"
    using body_from_bytes_attributes by blast
  have "map length f = body_sizes" using read_fields_Inr [OF f(1)] by simp
  then have m: "map length f = [16, 48, 48, 8, 8, 8, 48, 48, 48, 48, 48, 48, 48, 48, 64]"
    by (simp add: body_sizes_def)
  have "length f = 15" using arg_cong [OF m, of length] unfolding length_map by simp
  then have "length (f ! 4) = map length f ! 4" by simp
  then show ?thesis by (simp add: f(2) m)
qed

lemma verify_quote_not_panic [panic_free]: "verify_quote L d params now \<noteq> Inl Panicked"
  by (auto simp: verify_quote_def err_simps Let_def parse_tdx_quote_not_panic
      verify_quote_signature_not_panic verify_dcap_chain_not_panic dest!: td_attributes_length)

lemma pck_of_not_panic [panic_free, simp]: "pck_of L d q \<noteq> Inl Panicked"
  by (auto simp: pck_of_def determine_ca_type_from_der_def pck_ca_of_name_def err_simps
      split: if_splits list.splits)

lemma collateral_parts_not_panic [simp]:
  "check_signers x c \<noteq> Inl Panicked" "pck_revoked x ders c \<noteq> Inl Panicked"
  "quote_status L d q ders c now \<noteq> Inl Panicked"
  by (auto simp: check_signers_def pck_revoked_def quote_status_def err_simps
      evaluate_tcb_status_not_panic check_qe_report_not_panic split: if_splits dest!: check_each_Inl)

lemma check_collateral_not_panic [panic_free]: "check_collateral L r d q params c now \<noteq> Inl Panicked"
  by (auto simp: check_collateral_def and_then_Inl_iff)

lemma verify_ccel_not_panic [panic_free]: "verify_ccel_against_rtmrs h d r0 r1 r2 r3 \<noteq> Inl Panicked"
  by (auto simp: verify_ccel_against_rtmrs_def and_then_Inl_iff parse_ccel_not_panic Let_def
      dest!: check_each_Inl split: if_splits)

lemma tdx_verify_not_panic [panic_free]: "tdx_verify E ev params c now \<noteq> Inl Panicked"
  by (auto simp: tdx_verify_def decode_quote_def err_simps Let_def map_check_Inl_iff tdx_validate_not_panic
      verify_quote_not_panic check_collateral_not_panic verify_ccel_not_panic check_field_size_not_panic
      pad_report_data_not_panic split: option.splits)

section \<open>The platform contract\<close>

definition tdx_genuine :: "('k, 's, 'w) tdx_env \<Rightarrow> tdx_evidence \<Rightarrow> int \<Rightarrow> bool" where
  "tdx_genuine E ev now \<longleftrightarrow> (\<exists>d q. decode_quote (ev_base64 E) ev = Inr d \<and> quote_trust (ev_lib E) d q now)"

lemma genuine_quote_tdx_genuine: "genuine_quote E ev now = Inr (d, q) \<Longrightarrow> tdx_genuine E ev now"
  using genuine_quote_Inr unfolding tdx_genuine_def by blast

lemma tdx_gather_forged: "\<not> tdx_genuine E ev now \<Longrightarrow> \<exists>e. tdx_gather E ev now s w = (Inl e, s, w)"
  using genuine_quote_tdx_genuine by (cases "genuine_quote E ev now") (force simp: tdx_gather_def)+

lemma tdx_verify_genuine: "tdx_verify E ev p c now = Inr r \<Longrightarrow> tdx_genuine E ev now"
  by (erule tdx_verify_Inr) (rule genuine_quote_tdx_genuine)

interpretation tdx_code: checked_platform "tdx_platform E dec" "tdx_genuine E" "\<lambda>ev _. tdx_genuine E ev"
  for E :: "('k, 's, 'w) tdx_env" and dec
  by unfold_locales
    (auto simp: tdx_platform_def tdx_gather_forged intro: tdx_validate_Inl tdx_verify_genuine)

end
