(* ===== verification/TdxToy.thy ===== *)
theory TdxToy
  imports Tdx
begin

text \<open>
  A small instance of the libraries a TDX verification is given, and evidence that is
  genuine in it: one certificate for every role, keys and signatures that all verify, a hash
  that is constant, and Intel's documents with one TCB level. The quote is a version-4 quote
  of zeroed registers with its authentication data. It shows that the hypotheses of the TDX
  properties can hold together.
\<close>

definition toy_sha :: hash_lib where
  "toy_sha = \<lparr>sha256 = (\<lambda>_. replicate 32 0), sha384 = (\<lambda>_. replicate 48 0)\<rparr>"

definition toy_hex :: hex_lib where
  "toy_hex = \<lparr>hex_encode = bytes_str, hex_decode = (\<lambda>s. Some (str_bytes s))\<rparr>"

definition toy_ec :: "(unit, unit) ec_lib" where
  "toy_ec = \<lparr>ec_key = (\<lambda>_. Some ()), ec_point = (\<lambda>_. []), ec_sig = (\<lambda>_. Some ()), ec_sig_der = (\<lambda>_. Some ()),
     ec_verify = (\<lambda>_ _ _. True), ec_verify_prehash = (\<lambda>_ _ _. True)\<rparr>"

definition toy_cert :: cert where
  "toy_cert = \<lparr>ct_subject_raw = [], ct_issuer_raw = [], ct_subject_text = ''PCK Platform CA'',
     ct_issuer_text = ''PCK Platform CA'', ct_subject_cns = [Some TCB_SIGNING], ct_issuer_cns = [],
     ct_raw_serial = [1], ct_not_before = 0, ct_not_after = 100, ct_extensions = [(SGX_EXTENSIONS_OID, [7])],
     ct_public_key = [], ct_is_ca = True, ct_key_cert_sign = None\<rparr>"

definition toy_ca_cert :: cert where
  "toy_ca_cert = toy_cert\<lparr>ct_subject_cns := [Some ''Intel SGX PCK Platform CA'']\<rparr>"

definition toy_crl :: crl where
  "toy_crl = \<lparr>cl_issuer_raw = [], cl_alg = OID_ECDSA_WITH_SHA256, cl_same_alg = True, cl_signature = [],
     cl_tbs = [], cl_last_update = 0, cl_next_update = Some 100, cl_number = None, cl_revoked = []\<rparr>"

definition toy_sgx_extension :: ber where
  "toy_sgx_extension = BSeq [BSeq [BOid FMSPC_OID, BOctets (replicate 6 0)],
     BSeq [BOid TCB_OID, tcb_sequence (replicate 16 3) 2 []]]"

definition toy_x509 :: x509_lib where
  "toy_x509 = \<lparr>x_cert = (\<lambda>d. Some (if d = [1, 80] then toy_ca_cert else toy_cert)),
     x_cert_data = (\<lambda>_. Some \<lparr>cd_tbs = [], cd_signature = [], cd_pub_key = []\<rparr>),
     x_crl = (\<lambda>_. Some ([], toy_crl)), x_der_sequence = (\<lambda>_. Some toy_sgx_extension),
     x_pem_parse = (\<lambda>_. None), x_b64 = (\<lambda>s. Some (1 # str_bytes s)), x_time_ok = (\<lambda>_. True)\<rparr>"

definition toy_level :: tcb_level where
  "toy_level = \<lparr>lv_sgx = replicate 16 3, lv_pcesvn = 2, lv_tdx = None, lv_status = ''UpToDate'', lv_advisories = []\<rparr>"

definition toy_dcap :: "(unit, unit) dcap_lib" where
  "toy_dcap = \<lparr>dc_hash = toy_sha, dc_hex = toy_hex, dc_ec = toy_ec, dc_x509 = toy_x509, dc_root_ca = [],
     dc_tcb_envelope = (\<lambda>_. Some ([], [])),
     dc_tcb_info = (\<lambda>_. Some \<lparr>ti_levels = [toy_level], ti_next_update = None\<rparr>),
     dc_qe_envelope = (\<lambda>_. Some ([], [])), 
     dc_qe_fields = (\<lambda>_. Some \<lparr>ef_mrsigner = bytes_str (replicate 32 0), ef_isvprodid = 0,
       ef_miscselect = bytes_str (replicate 4 0), ef_miscselect_mask = bytes_str (replicate 4 0),
       ef_attributes = bytes_str (replicate 16 0), ef_attributes_mask = bytes_str (replicate 16 0),
       ef_levels = [(0, ''UpToDate'')]\<rparr>),
     dc_rfc3339 = (\<lambda>t. Some (if t = ''issued'' then 0 else 100))\<rparr>"

lemma toy_libs [simp]:
  "dc_hash toy_dcap = toy_sha" "dc_hex toy_dcap = toy_hex" "dc_ec toy_dcap = toy_ec" "dc_x509 toy_dcap = toy_x509"
  "dc_tcb_info toy_dcap j = Some \<lparr>ti_levels = [toy_level], ti_next_update = None\<rparr>"
  "x_cert toy_x509 d = Some (if d = [1, 80] then toy_ca_cert else toy_cert)" "x_crl toy_x509 d = Some ([], toy_crl)" "x_time_ok toy_x509 t"
  "x_cert_data toy_x509 d = Some \<lparr>cd_tbs = [], cd_signature = [], cd_pub_key = []\<rparr>"
  "x_der_sequence toy_x509 d = Some toy_sgx_extension"
  "ec_key toy_ec d = Some ()" "ec_point toy_ec k = []" "ec_sig toy_ec d = Some ()" "ec_sig_der toy_ec d = Some ()"
  "ec_verify toy_ec k m g" "ec_verify_prehash toy_ec k m g"
  by (simp_all add: toy_dcap_def toy_x509_def toy_ec_def)

section \<open>The quote\<close>

definition toy_pem_text :: string where
  "toy_pem_text = concat (replicate 3 (''BEGIN CERTIFICATE'' @ [CHR 0x0A] @ ''END CERTIFICATE'' @ [CHR 0x0A]))"

definition toy_pem :: bytes where
  "toy_pem = str_bytes toy_pem_text"

definition toy_auth :: quote_auth_data where
  "toy_auth = \<lparr>attestation_pub_key = replicate 64 0, qe_report_body = replicate 384 0,
     qe_report_signature = replicate 64 0, qe_auth_data = [], pck_cert_chain_pem = toy_pem\<rparr>"

definition toy_head :: bytes where
  "toy_head = [4, 0, 2, 0, 0x81, 0, 0, 0] @ replicate 40 0"

definition toy_quote_bytes :: bytes where
  "toy_quote_bytes = (toy_head @ replicate 584 0) @ auth_data_bytes (replicate 64 0) toy_auth"

definition toy_quote :: tdx_quote where
  "toy_quote = \<lparr>tq_header = \<lparr>qh_version = 4, qh_att_key_type = 2, qh_tee_type = 0x81, qh_reserved = replicate 2 0,
       qh_vendor_id = replicate 16 0, qh_user_data = replicate 20 0\<rparr>,
     tq_body = \<lparr>tee_tcb_svn = replicate 16 0, mr_seam = replicate 48 0, mrsigner_seam = replicate 48 0,
       seam_attributes = replicate 8 0, td_attributes = replicate 8 0, xfam = replicate 8 0,
       mr_td = replicate 48 0, mr_config_id = replicate 48 0, mr_owner = replicate 48 0,
       mr_owner_config = replicate 48 0, rtmr_0 = replicate 48 0, rtmr_1 = replicate 48 0,
       rtmr_2 = replicate 48 0, rtmr_3 = replicate 48 0, td_report_data = replicate 64 0,
       tee_tcb_svn2 = None, mr_servicetd = None\<rparr>,
     tq_version = V4\<rparr>"

lemma toy_pem_length: "length toy_pem = 102"
  by code_simp

lemma toy_from_utf8: "from_utf8 toy_pem = Some toy_pem_text"
  by code_simp

lemma toy_split_pem: "split_pem_to_der toy_x509 toy_pem_text = Inr [[1], [1], [1]]"
  by code_simp

lemma toy_auth_ok: "auth_data_ok (replicate 64 0) toy_auth"
  by (simp add: auth_data_ok_def toy_auth_def cert_data_bytes_def toy_pem_length)

lemma toy_auth_data: "parse_auth_data toy_quote_bytes 632 = Inr toy_auth"
  using parse_auth_data_bytes [OF toy_auth_ok, of "toy_head @ replicate 584 0" "[]"]
  by (simp add: toy_quote_bytes_def toy_head_def)

lemma read_fields_zero:
  "off + sum_list sizes \<le> n \<Longrightarrow>
     read_fields (replicate n 0) off sizes = Inr (map (\<lambda>len. replicate len 0) sizes)"
  by (induction sizes arbitrary: off) (simp_all add: at_range_def get_range_def slice_def add.assoc min_def)

lemma toy_parse: "parse_tdx_quote toy_quote_bytes = Inr toy_quote"
proof -
  have b: "slice toy_quote_bytes 48 632 = replicate 584 0" "632 \<le> length toy_quote_bytes"
    by (rule slice_at [of _ toy_head _ "auth_data_bytes (replicate 64 0) toy_auth"])
       (simp_all add: toy_quote_bytes_def toy_head_def)
  have h: "header_from_bytes toy_quote_bytes = Inr (tq_header toy_quote)"
    by (simp add: header_from_bytes_def toy_quote_bytes_def toy_head_def QUOTE_HEADER_SIZE_def pread_u16_def
        pread_u32_def get_range_def at_range_def slice_def toy_quote_def u16_from_le_bytes_def
        u32_from_le_bytes_def min_def)
  have "body_from_bytes (replicate 584 0) = Inr (tq_body toy_quote)"
    by (simp add: body_from_bytes_def REPORT_BODY_SIZE_def read_fields_zero body_sizes_def toy_quote_def
        slice_def min_def)
  then show ?thesis
    using b by (simp add: parse_tdx_quote_eq h toy_quote_def TDX_TEE_TYPE_def QUOTE_HEADER_SIZE_def
        REPORT_BODY_SIZE_def at_range_def get_range_def)
qed

definition toy_se :: "nat store_env" where
  "toy_se = \<lparr>se_fetch = \<lparr>fe_net = \<lparr>clock = (\<lambda>w. w), send = (\<lambda>_ w. (Inl ''refused'', w)),
       send_post = (\<lambda>_ w. (Inl ''refused'', w)), sleep = (\<lambda>d w. w + d), subsec_nanos = (\<lambda>_. 0),
       in_cvm = (\<lambda>_. False)\<rparr>, fe_url_parse = (\<lambda>_. None), fe_lossy = bytes_str\<rparr>,
     se_disk = \<lparr>dl_hash = toy_sha, dl_hex = toy_hex, dl_b64_encode = bytes_str, dl_b64_decode = (\<lambda>s. Some (str_bytes s)),
       dl_to_vec = (\<lambda>_. []), dl_from_slice = (\<lambda>_. None)\<rparr>,
     se_random = (\<lambda>_. 0), se_disk_ok = (\<lambda>_. True)\<rparr>"

section \<open>A genuine quote, and a verdict that passes\<close>

definition toy_qe_identity :: qe_identity where
  "toy_qe_identity = \<lparr>qi_mrsigner = replicate 32 0, qi_isvprodid = 0, qi_miscselect = replicate 4 0,
     qi_miscselect_mask = replicate 4 0, qi_attributes = replicate 16 0, qi_attributes_mask = replicate 16 0,
     qi_levels = [(0, ''UpToDate'')]\<rparr>"

definition toy_set :: tdx_set where
  "toy_set = \<lparr>ts_tcb_info = \<lparr>tp_json = [], tp_fmspc = replicate 6 0, tp_issue_date = 0, tp_next_update = 100,
       tp_evaluation = 20, tp_signer = [1]\<rparr>,
     ts_qe_identity = \<lparr>qp_identity = toy_qe_identity, qp_issue_date = 0, qp_next_update = 100,
       qp_evaluation = 20, qp_signer = [1]\<rparr>,
     ts_pck_crl = \<lparr>pp_der = [], pp_ca = PlatformCa, pp_this_update = 0, pp_next_update = 100, pp_number = None\<rparr>,
     ts_root_crl = \<lparr>rp_der = [], rp_this_update = 0, rp_next_update = 100, rp_number = None\<rparr>\<rparr>"

definition toy_evidence :: tdx_evidence where
  "toy_evidence = \<lparr>te_quote = ''q'', te_eventlog = None\<rparr>"

definition toy_tdx_env :: "'w store_env \<Rightarrow> (unit, unit, 'w) tdx_env" where
  "toy_tdx_env se = \<lparr>ev_lib = toy_dcap, 
     ev_body = (\<lambda>_ field. Some \<lparr>sb_id = (if field = ''tcbInfo'' then ''TDX'' else ''TD_QE''), sb_issue_date = ''issued'',
       sb_next_update = ''next'', sb_evaluation = 20, sb_fmspc = Some (bytes_str (replicate 6 0))\<rparr>), ev_base64 = (\<lambda>_. Some toy_quote_bytes), ev_store = se\<rparr>"

lemma toy_body_end: "compute_body_end toy_quote_bytes (tq_version toy_quote) = Inr 632"
  by (simp add: compute_body_end_eq toy_quote_def QUOTE_HEADER_SIZE_def REPORT_BODY_SIZE_def)

lemma toy_signature: "verify_quote_signature toy_sha toy_ec toy_quote_bytes toy_quote = Inr True"
proof -
  have l: "length toy_quote_bytes = 1328"
    by (simp add: toy_quote_bytes_def toy_head_def auth_data_bytes_def toy_auth_def cert_data_bytes_def toy_pem_length)
  have "pread_u32 toy_quote_bytes 632 ''sig_data_len'' = Inr (of_nat 692)"
    by (rule pread_u32_at [of _ "toy_head @ replicate 584 0"])
       (simp_all add: toy_quote_bytes_def auth_data_bytes_def toy_head_def toy_auth_def cert_data_bytes_def toy_pem_length)
  then show ?thesis
    by (simp add: verify_quote_signature_def toy_body_end l at_range_def get_range_def)
qed

lemma toy_chain: "verify_dcap_chain toy_dcap toy_quote_bytes (tq_version toy_quote) 50 = Inr ()"
proof -
  have "verify_pck_cert_chain toy_dcap toy_pem 50 = Inr ()"
    by (simp add: verify_pck_cert_chain_def toy_from_utf8 toy_split_pem parse_x509_cert_def
        verify_pinned_root_def extract_p256_pub_key_def
        verify_cert_signature_def require_def verify_cert_validity_period_def asn1_time_def toy_cert_def)
  moreover have "verify_qe_report_binding toy_sha toy_auth = Inr ()"
    by (subst verify_qe_report_binding_Inr_iff) (simp_all add: toy_auth_def qe_bound_def toy_sha_def slice_def min_def replicate_add [symmetric])
  ultimately show ?thesis
    by (simp add: verify_dcap_chain_def toy_body_end toy_auth_data)
       (simp add: toy_auth_def verify_qe_report_signature_def require_def)
qed

lemma toy_genuine: "genuine_quote (toy_tdx_env se) toy_evidence 50 = Inr (toy_quote_bytes, toy_quote)"
  using toy_signature toy_chain
  by (simp add: genuine_quote_def toy_tdx_env_def decode_quote_def toy_evidence_def check_field_size_def
      MAX_EVIDENCE_FIELD_SIZE_def toy_parse)

lemma toy_pck: "pck_of toy_dcap toy_quote_bytes toy_quote =
  Inr \<lparr>pc_der = [[1], [1], [1]], pc_fmspc = replicate 6 0, pc_ca = PlatformCa\<rparr>"
proof -
  have "contains_str ''PCK Platform CA'' ''PCK Platform CA''" by code_simp
  then show ?thesis
    by (simp add: pck_of_def toy_body_end toy_auth_data)
       (simp add: toy_auth_def parse_pem_to_der_def toy_from_utf8 toy_split_pem extract_fmspc_from_pck_der_def
        determine_ca_type_from_der_def pck_ca_of_name_def toy_cert_def
        extract_fmspc_from_sgx_extension_def toy_sgx_extension_def)
qed

lemma toy_components: "extract_pck_tcb_components_from_der (dc_x509 toy_dcap) [[1], [1], [1]] = Inr (replicate 16 3, 2)"
  using parse_tcb_sequence_tcb [of "replicate 16 3" 2 "[]"]
  by (simp add: extract_pck_tcb_components_from_der_def toy_cert_def toy_sgx_extension_def TCB_OID_def FMSPC_OID_def)

lemma toy_fmspc: "extract_fmspc_from_pck_der (dc_x509 toy_dcap) [[1], [1], [1]] = Inr (replicate 6 0)"
  by (simp add: extract_fmspc_from_pck_der_def toy_cert_def extract_fmspc_from_sgx_extension_def toy_sgx_extension_def)

lemma toy_tcb: "evaluate_tcb_status toy_dcap j (replicate 16 0) [[1], [1], [1]] 50 =
  Inr \<lparr>ds_tcb_status = UpToDate, ds_fmspc = bytes_str (replicate 6 0), ds_advisory_ids = [],
       ds_collateral_expired = False, ds_qe_tcb_status = None\<rparr>"
proof -
  note c = toy_components [simplified] and f = toy_fmspc [simplified]
  have m: "sgx_match (replicate 16 3) 2 toy_level"
    by (simp add: sgx_match_iff toy_level_def)
  show ?thesis
    by (simp add: evaluate_tcb_status_def c f m Let_def at_index_def get_index_def list_ex_length)
       (simp add: level_status_def toy_level_def parse_tcb_status_def toy_hex_def)
qed

lemma toy_qe: "check_qe_report (replicate 384 0) toy_qe_identity = Inr UpToDate"
proof -
  have "u16_from_le_bytes (replicate 2 0) = 0" by code_simp
  then show ?thesis
    by (simp add: check_qe_report_def QE_REPORT_BODY_SIZE_def at_range_def get_range_def slice_def min_def
        toy_qe_identity_def masked_eq_def list_all_length parse_tcb_status_def)
qed

definition toy_status :: dcap_status where
  "toy_status = \<lparr>ds_tcb_status = UpToDate, ds_fmspc = bytes_str (replicate 6 0), ds_advisory_ids = [],
    ds_collateral_expired = False, ds_qe_tcb_status = Some UpToDate\<rparr>"

lemma toy_check_collateral: "check_collateral toy_dcap r toy_quote_bytes toy_quote p toy_set 50 =
  Inr (r\<lparr>tr_tcb_status_accepted := Some (UpToDate \<in> set (tp_accepted p)), tr_tcb_status := Some toy_status,
         tr_crl_ok := Some True\<rparr>)"
proof -
  have s: "quote_status toy_dcap toy_quote_bytes toy_quote [[1], [1], [1]] toy_set 50 = Inr toy_status"
    by (simp add: quote_status_def toy_body_end toy_auth_data)
       (simp add: toy_quote_def toy_tcb toy_auth_def toy_set_def toy_qe toy_status_def)
  have i: "cert_revoked_from_der toy_x509 [[1]] [] = Inr False"
    "cert_revoked_from_der toy_x509 [[1], [1], [1]] [] = Inr False"
    "intermediate_ca_revoked_from_der toy_x509 [[1], [1], [1]] [] = Inr False"
    by (simp_all add: cert_revoked_from_der_def intermediate_ca_revoked_from_der_def normalize_crl_to_der_def
        is_pem_def starts_with_def str_bytes_def listed_def toy_crl_def)
  show ?thesis
    by (simp add: check_collateral_def toy_pck s check_signers_def pck_revoked_def)
       (simp add: toy_set_def i toy_status_def)
qed

definition toy_params :: "bytes option \<Rightarrow> tdx_params" where
  "toy_params rd = default_tdx_params\<lparr>tp_report_data := rd\<rparr>"

lemma toy_params_None: "toy_params None = default_tdx_params"
  by (simp add: toy_params_def default_tdx_params_def)

lemma toy_params_valid: "rd \<in> {None, Some (replicate 16 0)} \<Longrightarrow> tdx_validate (toy_params rd) = Inr ()"
  by (auto simp: tdx_validate_def toy_params_def default_tdx_params_def check_allowed_set_def)

lemma toy_challenge_passes:
  assumes "rd \<in> {None, Some (replicate 16 0)}"
  shows "\<exists>r. tdx_verify (toy_tdx_env se) toy_evidence (toy_params rd) toy_set 50 = Inr r \<and> tdx_passed r"
proof -
  have d: "decode_quote (ev_base64 (toy_tdx_env se)) toy_evidence = Inr toy_quote_bytes" "te_eventlog toy_evidence = None"
      "ev_lib (toy_tdx_env se) = toy_dcap"
    by (simp_all add: decode_quote_def toy_tdx_env_def toy_evidence_def check_field_size_def MAX_EVIDENCE_FIELD_SIZE_def)
  have p: "tp_report_data (toy_params x) = x" "tp_init_data (toy_params x) = None" "tp_allow_debug (toy_params x) = False"
      "UpToDate \<in> set (tp_accepted (toy_params x))" for x
    by (simp_all add: toy_params_def default_tdx_params_def)
  have b: "td_attributes (tq_body toy_quote) = replicate 8 0" "td_report_data (tq_body toy_quote) = replicate 64 0"
    by (simp_all add: toy_quote_def)
  have q: "verify_quote toy_dcap toy_quote_bytes (toy_params x) 50 = Inr (toy_quote,
      \<lparr>tr_claims = tdx_extract_claims toy_hex toy_quote, tr_report_data_match = None,
        tr_init_data_match = None, tr_mrtd_match = None, tr_rtmr_match = [None, None, None, None],
        tr_debug = False, tr_allow_debug = False, tr_crl_ok = None, tr_tcb_status = None,
        tr_tcb_status_accepted = None\<rparr>)" for x
    using toy_signature toy_chain
    by (simp add: verify_quote_def toy_parse at_index_def get_index_def b Let_def toy_params_def default_tdx_params_def
        match_any_def)
  have m: "rd = None \<or> rd = Some (replicate 16 0)" using assms by simp
  show ?thesis
    using m toy_params_valid [OF assms]
    by (elim disjE)
       (simp_all add: tdx_verify_def d q toy_check_collateral p b tdx_passed_def pad_report_data_def
         replicate_add [symmetric] all_held_def)
qed

lemma toy_verify_passes:
  "\<exists>r. tdx_verify (toy_tdx_env se) toy_evidence default_tdx_params toy_set 50 = Inr r \<and> tdx_passed r"
  using toy_challenge_passes [of None] by (simp add: toy_params_None)

section \<open>A run against held collateral\<close>

definition toy_ca_pem :: string where
  "toy_ca_pem = ''BEGIN CERTIFICATE'' @ [CHR 0x0A] @ ''P'' @ [CHR 0x0A] @ ''END CERTIFICATE'' @ [CHR 0x0A]"

definition toy_store :: store where
  "toy_store = held_only\<lparr>st_held := (\<lambda>url. Some ([],
     Some (if url = piece_url (pck_crl_kind toy_dcap) PlatformCa then toy_ca_pem else toy_pem_text)))\<rparr>"

lemma toy_ca_chain: "from_utf8 (str_bytes toy_ca_pem) = Some toy_ca_pem"
  "split_pem_to_der toy_x509 toy_ca_pem = Inr [[1, 80]]"
  by code_simp+

lemma toy_signing_chain:
  "verify_signing_cert_chain toy_dcap (str_bytes toy_pem_text) 0 TCB_SIGNING = Inr ()"
  "verify_signing_cert_chain toy_dcap (str_bytes toy_ca_pem) 0 ''Intel SGX PCK Platform CA'' = Inr ()"
  using toy_from_utf8
  by (simp_all add: verify_signing_cert_chain_def toy_split_pem toy_ca_chain toy_pem_def parse_x509_cert_def
      verify_pinned_root_def extract_p256_pub_key_def verify_cert_signature_def require_def check_signer_def
      verify_cert_validity_period_def asn1_time_def toy_cert_def toy_ca_cert_def)

lemma toy_check_crl: "check_crl toy_dcap [] d = Inr ([], 0, 100, None)"
  by (simp add: check_crl_def normalize_crl_to_der_def is_pem_def starts_with_def str_bytes_def toy_crl_def
      toy_cert_def toy_ca_cert_def extract_p256_pub_key_def crl_number_def)

lemma toy_pieces:
  "tcb_info_verify toy_dcap (ev_body (toy_tdx_env se)) [] (Some toy_pem_text) (replicate 6 0) = Inr (ts_tcb_info toy_set)"
  "qe_identity_verify toy_dcap (ev_body (toy_tdx_env se)) [] (Some toy_pem_text) () = Inr (ts_qe_identity toy_set)"
  "pck_crl_verify toy_dcap [] (Some toy_ca_pem) PlatformCa = Inr (ts_pck_crl toy_set)"
  "root_crl_verify toy_dcap [] c () = Inr (ts_root_crl toy_set)"
proof -
  have rf: "dc_rfc3339 toy_dcap t = Some (if t = ''issued'' then 0 else 100)" for t
    by (simp add: toy_dcap_def)
  have p: "parse_pem_to_der toy_x509 (str_bytes toy_pem_text) = Inr [[1], [1], [1]]"
    "parse_pem_to_der toy_x509 (str_bytes toy_ca_pem) = Inr [[1, 80]]"
    using toy_from_utf8 by (simp_all add: parse_pem_to_der_def toy_split_pem toy_ca_chain toy_pem_def)
  have h: "hex_decode toy_hex s = Some (str_bytes s)" for s
    by (simp add: toy_hex_def)
  have q: "parse_qe_identity toy_dcap [] = Inr toy_qe_identity"
    by (simp add: parse_qe_identity_def hex_bytes_def h)
       (simp add: toy_dcap_def toy_qe_identity_def)
  have e: "dc_tcb_envelope toy_dcap j = Some ([], [])" "dc_qe_envelope toy_dcap j = Some ([], [])" for j
    by (simp_all add: toy_dcap_def)
  show "tcb_info_verify toy_dcap (ev_body (toy_tdx_env se)) [] (Some toy_pem_text) (replicate 6 0) = Inr (ts_tcb_info toy_set)"
    by (simp add: tcb_info_verify_def intel_signed_body_def toy_tdx_env_def rf intel_chain_def p h e
        verify_tcb_info_signature_def verify_envelope_signature_def toy_signing_chain require_def intel_signer_def
        list_first_def toy_set_def)
  show "qe_identity_verify toy_dcap (ev_body (toy_tdx_env se)) [] (Some toy_pem_text) () = Inr (ts_qe_identity toy_set)"
    by (simp add: qe_identity_verify_def intel_signed_body_def toy_tdx_env_def rf intel_chain_def p h e q
        verify_qe_identity_signature_def verify_envelope_signature_def toy_signing_chain require_def intel_signer_def
        list_first_def toy_set_def)
  show "pck_crl_verify toy_dcap [] (Some toy_ca_pem) PlatformCa = Inr (ts_pck_crl toy_set)"
    by (simp add: pck_crl_verify_def intel_chain_def p list_first_def toy_check_crl toy_signing_chain toy_set_def)
  show "root_crl_verify toy_dcap [] c () = Inr (ts_root_crl toy_set)"
    by (simp add: root_crl_verify_def toy_check_crl toy_set_def)
qed

lemma get_on_hand_acceptable:
  assumes "on_hand env k pid (piece_url k pid) s w = [(b, c, src)]" "st_used s = None"
    and "piece_verify k b c pid = Inr p" and "passes k (piece_floor k pid (st_floors s)) now p"
  shows "\<exists>u. get env k pid now s w = (Inr (p, u), s, w) \<and> acceptable u"
proof -
  have "best_of k pid None (on_hand env k pid (piece_url k pid) s w) = Inr (Some (p, b, c, src))"
    using assms by (simp add: newer_than_best_def is_none_or_def)
  from lookup_on_hand [OF this assms(4)] assms(2,4) show ?thesis
    by (simp add: get_def record_used_def passes_def acceptable_iff)
qed

lemma get_held:
  assumes "st_held s (piece_url k pid) = Some (b, c)" "st_attached s = Map.empty" "st_used s = None"
    and "piece_verify k b c pid = Inr p" and "passes k (piece_floor k pid (st_floors s)) now p"
  shows "\<exists>u. get env k pid now s w = (Inr (p, u), s, w)"
  using get_on_hand_acceptable [OF _ assms(3-5), of env w Held] assms(1,2) by (auto simp: on_hand_def)

text \<open>A store that offers each piece of the toy quote's collateral once: held by the caller, or attached
  to the evidence with nothing in memory and no disk.\<close>

definition toy_urls :: "string list" where
  "toy_urls = [piece_url (tcb_info_kind toy_dcap (ev_body (toy_tdx_env toy_se))) (replicate 6 0), piece_url (qe_identity_kind toy_dcap (ev_body (toy_tdx_env toy_se))) (),
     piece_url (pck_crl_kind toy_dcap) PlatformCa, piece_url (root_crl_kind toy_dcap) ()]"

definition toy_response :: "string \<Rightarrow> bytes \<times> string option" where
  "toy_response url =
     ([], Some (if url = piece_url (pck_crl_kind toy_dcap) PlatformCa then toy_ca_pem else toy_pem_text))"

definition toy_offers :: "store \<Rightarrow> bool" where
  "toy_offers s \<longleftrightarrow> st_used s = None \<and> st_floors s = default_floors \<and> (\<forall>url \<in> set toy_urls.
     st_held s url = Some (toy_response url) \<and> st_attached s url = None
     \<or> st_held s url = None \<and> st_attached s url = Some (toy_response url)
       \<and> (\<forall>n. st_native s = Some n \<longrightarrow> mem n url = None \<and> disk n = None))"

lemma toy_on_hand:
  assumes "toy_offers s" "piece_url k pid \<in> set toy_urls"
  shows "\<exists>src. on_hand env k pid (piece_url k pid) s w =
    [(fst (toy_response (piece_url k pid)), snd (toy_response (piece_url k pid)), src)]"
  using assms by (cases "st_native s") (auto simp: toy_offers_def on_hand_def cached_def disk_copy_def split: prod.splits)

lemma toy_get:
  assumes "toy_offers s" "piece_url k pid \<in> set toy_urls"
    and "piece_verify k [] (snd (toy_response (piece_url k pid))) pid = Inr p"
    and "passes k (piece_floor k pid default_floors) now p"
  shows "\<exists>u. get env k pid now s w = (Inr (p, u), s, w) \<and> acceptable u"
proof -
  obtain src where "on_hand env k pid (piece_url k pid) s w = [([], snd (toy_response (piece_url k pid)), src)]"
    using toy_on_hand [OF assms(1,2), of env w] by (auto simp: toy_response_def)
  from get_on_hand_acceptable [OF this _ assms(3)] assms(1,4) show ?thesis by (simp add: toy_offers_def)
qed

lemma toy_offered_gathers:
  assumes o: "toy_offers s"
  shows "\<exists>us. tdx_set_gather (toy_tdx_env se) toy_quote_bytes toy_quote 50 s w = (Inr (toy_set, us), s, w)
    \<and> list_all acceptable us"
proof -
  let ?E = "toy_tdx_env se"
  have ok: "acceptable (used_new n src (window 0 100 v) fl 50)" if "v = fl \<or> fl = None" for n src v fl
    using that by (auto simp: acceptable_iff window_def is_none_or_def split: option.splits)
  have "\<exists>u. get (ev_store ?E) (tcb_info_kind toy_dcap (ev_body ?E)) (replicate 6 0) 50 s w
      = (Inr (ts_tcb_info toy_set, u), s, w) \<and> acceptable u"
    by (rule toy_get [OF o])
       (simp_all add: toy_pieces passes_def toy_urls_def toy_response_def,
        simp_all add: toy_pieces tcb_info_kind_def pck_crl_kind_def INTEL_PCS_def default_floors_def toy_set_def ok)
  moreover have "\<exists>u. get (ev_store ?E) (qe_identity_kind toy_dcap (ev_body ?E)) () 50 s w
      = (Inr (ts_qe_identity toy_set, u), s, w) \<and> acceptable u"
    by (rule toy_get [OF o])
       (simp_all add: toy_pieces passes_def toy_urls_def toy_response_def,
        simp_all add: toy_pieces qe_identity_kind_def pck_crl_kind_def INTEL_PCS_def default_floors_def toy_set_def ok)
  moreover have "\<exists>u. get (ev_store ?E) (pck_crl_kind toy_dcap) PlatformCa 50 s w
      = (Inr (ts_pck_crl toy_set, u), s, w) \<and> acceptable u"
    by (rule toy_get [OF o])
       (simp_all add: toy_pieces passes_def toy_urls_def toy_response_def,
        simp_all add: pck_crl_kind_def default_floors_def toy_set_def ok)
  moreover have "\<exists>u. get (ev_store ?E) (root_crl_kind toy_dcap) () 50 s w
      = (Inr (ts_root_crl toy_set, u), s, w) \<and> acceptable u"
    by (rule toy_get [OF o])
       (simp_all add: toy_pieces passes_def toy_urls_def toy_response_def,
        simp_all add: root_crl_kind_def pck_crl_kind_def INTEL_PCS_def INTEL_CERTS_def default_floors_def toy_set_def ok)
  moreover have "ev_lib ?E = toy_dcap" by (simp add: toy_tdx_env_def)
  ultimately show ?thesis
    by (auto simp: tdx_set_gather_def toy_pck)
qed

lemma toy_offered_run:
  assumes "rd \<in> {None, Some (replicate 16 0)}" and o: "toy_offers s"
  shows "\<exists>r us. run (tdx_platform (toy_tdx_env se) (\<lambda>_. Some toy_evidence)) JNull (Some (toy_params rd)) 50 s w
     = (Inr (r, us), s, w) \<and> tdx_passed r \<and> list_all acceptable us"
proof -
  obtain r where r: "tdx_verify (toy_tdx_env se) toy_evidence (toy_params rd) toy_set 50 = Inr r" "tdx_passed r"
    using toy_challenge_passes [OF assms(1)] by blast
  obtain us where u: "tdx_set_gather (toy_tdx_env se) toy_quote_bytes toy_quote 50 s w =
      (Inr (toy_set, us), s, w)" "list_all acceptable us"
    using toy_offered_gathers [OF o] by metis
  have g: "tdx_gather (toy_tdx_env se) toy_evidence 50 s w = (Inr (toy_set, us), s, w)"
    by (simp add: tdx_gather_def toy_genuine u(1))
  show ?thesis
    using r u(2) by (simp add: run_def tdx_platform_def toy_params_valid [OF assms(1)] g)
qed

lemma toy_store_offers: "toy_offers toy_store"
  by (simp add: toy_offers_def toy_store_def toy_response_def held_only_def)

lemma toy_set_gathers:
  "\<exists>us. tdx_set_gather (toy_tdx_env se) toy_quote_bytes toy_quote 50 toy_store w = (Inr (toy_set, us), toy_store, w)
    \<and> list_all acceptable us"
  by (rule toy_offered_gathers [OF toy_store_offers])

lemma toy_challenge_run:
  assumes "rd \<in> {None, Some (replicate 16 0)}"
  shows "\<exists>r us. run (tdx_platform (toy_tdx_env se) (\<lambda>_. Some toy_evidence)) JNull (Some (toy_params rd)) 50 toy_store w
     = (Inr (r, us), toy_store, w) \<and> tdx_passed r \<and> list_all acceptable us"
  by (rule toy_offered_run [OF assms toy_store_offers])

lemma toy_run:
  "\<exists>r us. run (tdx_platform (toy_tdx_env se) (\<lambda>_. Some toy_evidence)) JNull (Some default_tdx_params) 50 toy_store w
     = (Inr (r, us), toy_store, w) \<and> tdx_passed r"
  using toy_challenge_run [of None, where se = se and w = w] by (auto simp: toy_params_None)

end
