(* ===== verification/TdxProps.thy ===== *)
theory TdxProps
  imports TdxToy
begin

text \<open>
  What a TDX verification promises, from the bytes of a quote and an event log to the
  verdict. Signatures, certificates and hashing are parameters; where a property needs the
  hash to tell inputs apart, it says which.
\<close>

section \<open>The verdict\<close>

text \<open>C3: A verdict is about a quote whose signature chain leads to Intel's root, and it
  passes exactly when the quote's registers, report data and init data meet the params, the
  debug bit is off or allowed, neither the PCK certificate nor its CA is revoked, and the TCB
  status of platform and quoting enclave together is one the params accept.\<close>

theorem passing_verdict_meaning:
  assumes v: "tdx_verify E ev params c now = Inr r"
  shows "\<exists>d q pck st rev. decode_quote (ev_base64 E) ev = Inr d \<and> quote_trust (ev_lib E) d q now
    \<and> tr_claims r = tdx_extract_claims (dc_hex (ev_lib E)) q
    \<and> pck_of (ev_lib E) d q = Inr pck \<and> tp_fmspc (ts_tcb_info c) = pc_fmspc pck
    \<and> pp_ca (ts_pck_crl c) = pc_ca pck
    \<and> pck_revoked (dc_x509 (ev_lib E)) (pc_der pck) c = Inr rev
    \<and> quote_status (ev_lib E) d q (pc_der pck) c now = Inr st
    \<and> (tdx_passed r \<longleftrightarrow>
         body_meets params (tq_body q) \<and> \<not> rev \<and> ds_tcb_status st \<in> set (tp_accepted params))"
proof -
  obtain d q where g: "genuine_quote E ev now = Inr (d, q)" "tr_claims r = tdx_extract_claims (dc_hex (ev_lib E)) q"
    by (rule tdx_verify_Inr [OF v])
  show ?thesis
    by (rule tdx_verify_passed_iff [OF v]) (use g genuine_quote_Inr [OF g(1)] in auto)
qed

theorem passing_verdict_meaning_witness:
  "\<exists>r d q. tdx_verify (toy_tdx_env toy_se) toy_evidence default_tdx_params toy_set 50 = Inr r \<and> tdx_passed r
    \<and> quote_trust toy_dcap d q 50 \<and> body_meets default_tdx_params (tq_body q)"
proof -
  obtain r where r: "tdx_verify (toy_tdx_env toy_se) toy_evidence default_tdx_params toy_set 50 = Inr r" "tdx_passed r"
    using toy_verify_passes by blast
  with passing_verdict_meaning [OF r(1)] show ?thesis
    by (auto simp: toy_tdx_env_def)
qed

text \<open>C8: The collateral a run judges a quote by was verified as Intel's and as the one for
  that quote: TCB info for its FMSPC, the CRL of the CA that issued its PCK certificate, the
  quoting enclave's identity and the root CRL; and the verdict of the run is about that
  quote.\<close>

theorem run_judges_by_intels_collateral:
  assumes r: "run (tdx_platform E dec) j params now s w = (Inr (r, us), s', w')"
  shows "\<exists>p ev d q pck c. params = Some p \<and> dec j = Some ev \<and> genuine_quote E ev now = Inr (d, q)
    \<and> quote_trust (ev_lib E) d q now \<and> pck_of (ev_lib E) d q = Inr pck \<and> tdx_verify E ev p c now = Inr r
    \<and> (\<exists>b h. tcb_info_verify (ev_lib E) (ev_body E) b h (pc_fmspc pck) = Inr (ts_tcb_info c))
    \<and> (\<exists>b h. qe_identity_verify (ev_lib E) (ev_body E) b h () = Inr (ts_qe_identity c))
    \<and> (\<exists>b h. pck_crl_verify (ev_lib E) b h (pc_ca pck) = Inr (ts_pck_crl c))
    \<and> (\<exists>b h. root_crl_verify (ev_lib E) b h () = Inr (ts_root_crl c))"
proof -
  obtain p ev c where p: "params = Some p" "dec j = Some ev" "tdx_verify E ev p c now = Inr r"
    and g: "tdx_gather E ev now s w = (Inr (c, us), s', w')"
    by (rule run_Inr [OF r]) (auto simp: tdx_platform_def)
  obtain d q where q: "genuine_quote E ev now = Inr (d, q)" "tdx_set_gather E d q now s w = (Inr (c, us), s', w')"
    using tdx_gather_Inr [OF g] by blast
  obtain pck where "pck_of (ev_lib E) d q = Inr pck"
    "\<exists>b h. tcb_info_verify (ev_lib E) (ev_body E) b h (pc_fmspc pck) = Inr (ts_tcb_info c)"
    "\<exists>b h. qe_identity_verify (ev_lib E) (ev_body E) b h () = Inr (ts_qe_identity c)"
    "\<exists>b h. pck_crl_verify (ev_lib E) b h (pc_ca pck) = Inr (ts_pck_crl c)"
    "\<exists>b h. root_crl_verify (ev_lib E) b h () = Inr (ts_root_crl c)"
    by (rule tdx_set_gather_Inr [OF q(2)]) blast
  with p q(1) genuine_quote_Inr [OF q(1)] show ?thesis by blast
qed

theorem run_judges_by_intels_collateral_witness:
  "\<exists>d q pck (c :: tdx_set). quote_trust toy_dcap d q 50 \<and> pck_of toy_dcap d q = Inr pck
    \<and> (\<exists>b h. root_crl_verify toy_dcap b h () = Inr (ts_root_crl c))"
proof -
  obtain r us where r: "run (tdx_platform (toy_tdx_env toy_se) (\<lambda>_. Some toy_evidence)) JNull
      (Some default_tdx_params) 50 toy_store (0 :: nat) = (Inr (r, us), toy_store, 0)"
    using toy_run by metis
  have e: "ev_lib (toy_tdx_env toy_se) = toy_dcap"
    by (simp add: toy_tdx_env_def)
  from run_judges_by_intels_collateral [OF r] show ?thesis
    unfolding e by (elim exE conjE) (intro exI conjI, assumption+)
qed

section \<open>The quote's bytes\<close>

text \<open>C37: The bytes a quote's signature covers decide everything that is read from it:
  dropping all that follows them leaves the same header, body and version.\<close>

theorem signed_bytes_decide_the_quote:
  assumes "parse_tdx_quote d = Inr q"
  shows "\<exists>e. compute_body_end d (tq_version q) = Inr e \<and> e \<le> length d \<and> parse_tdx_quote (take e d) = Inr q"
  using parse_tdx_quote_body_end [OF assms] parse_tdx_quote_take [OF assms] by blast

theorem signed_bytes_decide_the_quote_witness:
  "\<exists>e. compute_body_end toy_quote_bytes V4 = Inr e \<and> parse_tdx_quote (take e toy_quote_bytes) = Inr toy_quote"
  using signed_bytes_decide_the_quote [OF toy_parse] by (auto simp: toy_quote_def)

text \<open>Authentication data in the layout of a quote is read back part by part, wherever
  the quote's body ends and whatever follows.\<close>

theorem auth_data_roundtrip:
  assumes "auth_data_ok signature a"
  shows "parse_auth_data (body @ auth_data_bytes signature a @ rest) (length body) = Inr a"
  by (rule parse_auth_data_bytes [OF assms])

theorem auth_data_roundtrip_witness:
  "parse_auth_data ([1, 2, 3] @ auth_data_bytes (replicate 64 0) toy_auth @ [9]) 3 = Inr toy_auth"
  using auth_data_roundtrip [OF toy_auth_ok, of "[1, 2, 3]" "[9]"] by (simp add: eval_nat_numeral)

section \<open>The event log\<close>

text \<open>A log in the layout of the firmware is read back event by event, with any zero
  padding after the last one.\<close>

theorem event_log_roundtrip:
  assumes "length header = 28" "length spec < 2 ^ 32" "\<forall>ev \<in> set evs. event_ok ev"
  shows "parse_ccel (log_bytes header spec evs (replicate k 0)) = Inr evs"
  by (rule parse_ccel_log_bytes [OF assms])

definition toy_event :: ccel_event where
  "toy_event = \<lparr>ev_mr_index = 1, ev_type = 2, ev_digest = replicate 48 5, ev_data = [1]\<rparr>"

definition toy_log :: bytes where
  "toy_log = log_bytes (replicate 28 0) [] [toy_event] (replicate 20 0)"

theorem event_log_roundtrip_witness: "parse_ccel toy_log = Inr [toy_event]"
  unfolding toy_log_def by (rule event_log_roundtrip) (simp_all add: event_ok_def toy_event_def)

text \<open>C27: Two logs that both replay to a quote's measurement registers 0 to 2 extended the
  same digests into each of them, in the same order, as long as SHA-384 tells the replayed
  inputs apart and none of them hashes to the register's initial value.\<close>

theorem replayed_registers_fix_the_log:
  assumes v: "verify_ccel_against_rtmrs h d r0 r1 r2 r3 = Inr ()"
      "verify_ccel_against_rtmrs h d' r0 r1 r2 r3' = Inr ()"
    and p: "parse_ccel d = Inr evs" "parse_ccel d' = Inr evs'" and i: "i < 3"
    and inj: "inj_on (sha384 h) (hashed h (digests_of i evs) \<union> hashed h (digests_of i evs'))"
    and init: "replicate 48 0 \<notin> sha384 h ` (hashed h (digests_of i evs) \<union> hashed h (digests_of i evs'))"
  shows "digests_of i evs = digests_of i evs'"
proof (rule extend_all_inj [OF _ inj init])
  show "\<forall>x \<in> set (digests_of i evs) \<union> set (digests_of i evs'). length x = 48"
    using parse_ccel_digests [OF p(1)] parse_ccel_digests [OF p(2)] by (auto simp: digests_of_def)
  from i have "i = 0 \<or> i = 1 \<or> i = 2" by auto
  then show "extend_all h (digests_of i evs) = extend_all h (digests_of i evs')"
    using v p by (auto simp: verify_ccel_Inr_iff)
qed

definition toy_event' :: ccel_event where
  "toy_event' = toy_event\<lparr>ev_type := 3, ev_data := [2, 2]\<rparr>"

definition toy_log' :: bytes where
  "toy_log' = log_bytes (replicate 28 0) [7] [toy_event'] []"

theorem replayed_registers_fix_the_log_witness:
  "digests_of 0 [toy_event] = digests_of 0 [toy_event']"
proof -
  define h where "h = \<lparr>sha256 = id, sha384 = (\<lambda>b :: bytes. b)\<rparr>"
  have l: "parse_ccel toy_log = Inr [toy_event]" "parse_ccel toy_log' = Inr [toy_event']"
    unfolding toy_log_def toy_log'_def
    using parse_ccel_log_bytes [of "replicate 28 0" "[7]" "[toy_event']" 0]
    by (auto intro!: parse_ccel_log_bytes simp: event_ok_def toy_event_def toy_event'_def)
  have d: "digests_of i [toy_event'] = digests_of i [toy_event]" for i
    by (simp add: digests_of_def toy_event_def toy_event'_def)
  have v: "verify_ccel_against_rtmrs h toy_log (extend_all h (digests_of 0 [toy_event]))
      (extend_all h (digests_of 1 [toy_event])) (extend_all h (digests_of 2 [toy_event])) r3 = Inr ()"
    "verify_ccel_against_rtmrs h toy_log' (extend_all h (digests_of 0 [toy_event]))
      (extend_all h (digests_of 1 [toy_event])) (extend_all h (digests_of 2 [toy_event])) r3 = Inr ()" for r3
    using l by (simp_all add: verify_ccel_Inr_iff d)
  have "replicate 48 (0 :: u8) \<noteq> replicate 48 0 @ replicate 48 5" by (simp add: append_eq_conv_conj)
  moreover have "digests_of 0 [toy_event] = [replicate 48 5]"
    by (simp add: digests_of_def toy_event_def mr_slot.simps)
  ultimately show ?thesis
    by (intro replayed_registers_fix_the_log [OF v l])
       (auto simp: h_def hashed_def extend_all_def d)
qed

section \<open>The TCB status\<close>

text \<open>C28: Intel's two passes over the TCB levels find the first level that both the SGX
  and the TDX components meet, wherever the SGX part of the list is ordered so that a level
  met once stays met; the optimised search and the plain one agree on status, FMSPC and
  advisories.\<close>

theorem two_passes_find_the_first_met_level:
  assumes "dc_tcb_info L json = Some info"
    and "extract_pck_tcb_components_from_der (dc_x509 L) ders = Inr (cs, p)"
    and "extract_fmspc_from_pck_der (dc_x509 L) ders = Inr f"
    and "list_ex (\<lambda>v. v \<noteq> 0) svns"
    and "levels_descend (sgx_match cs p) (ti_levels info)"
  shows "\<exists>expired. evaluate_tcb_status L json svns ders now =
    (case find (\<lambda>lv. sgx_match cs p lv \<and> tdx_match svns lv) (ti_levels info) of
       Some lv \<Rightarrow> level_status (hex_encode (dc_hex L) f) expired lv
     | None \<Rightarrow> Inr (no_matching_level (hex_encode (dc_hex L) f) expired))"
  by (rule evaluate_tcb_status_two_pass [OF assms])

theorem two_passes_find_the_first_met_level_witness:
  "\<exists>ds. evaluate_tcb_status toy_dcap [] (replicate 16 1) [[1], [1], [1]] 50 = Inr ds
     \<and> ds_tcb_status ds = UpToDate"
proof -
  have m: "sgx_match (replicate 16 3) 2 toy_level" "tdx_match (replicate 16 1) toy_level"
    by (simp_all add: sgx_match_iff tdx_match_def toy_level_def)
  have nz: "list_ex (\<lambda>v. v \<noteq> 0) (replicate 16 (1 :: u8))" by (simp add: list_ex_iff)
  have "\<exists>expired. evaluate_tcb_status toy_dcap [] (replicate 16 1) [[1], [1], [1]] 50 =
      level_status (hex_encode toy_hex (replicate 6 0)) expired toy_level"
    using two_passes_find_the_first_met_level [of toy_dcap "[]" _ "[[1], [1], [1]]" "replicate 16 3" 2
        "replicate 6 0" "replicate 16 1" 50, OF _ toy_components toy_fmspc nz]
    by (simp add: m levels_descend_def)
  then show ?thesis
    by (auto simp: level_status_def toy_level_def parse_tcb_status_def)
qed

text \<open>C38: Combining the platform's status with the quoting enclave's is what Intel specifies: in
  terms of what is wrong, trust lost on either side is lost, and an outdated enclave makes the
  platform outdated and adds nothing else. So the result is never better than the platform's; an
  enclave in good standing leaves it as it is, an outdated or revoked one makes it at least as bad; a
  platform or enclave with more wrong never gives a result with less wrong (software hardening aside,
  which is not reported of an outdated platform); and combining again changes nothing.\<close>

theorem combined_status_never_improves:
  "tcb_defects (combine_tcb_status p q) = combined_defects (tcb_defects p) (tcb_defects q)
   \<and> severity p \<le> severity (combine_tcb_status p q)
   \<and> (severity q < 4 \<longrightarrow> combine_tcb_status p q = p)
   \<and> (severity q \<ge> 4 \<longrightarrow> severity (combine_tcb_status p q) \<ge> 4)
   \<and> (severity p = 6 \<longrightarrow> combine_tcb_status p q = p)
   \<and> (severity p < 6 \<and> severity q = 6 \<longrightarrow> combine_tcb_status p q = q)
   \<and> (at_least_as_bad (tcb_defects p') (tcb_defects p) \<and> at_least_as_bad (tcb_defects q') (tcb_defects q)
      \<longrightarrow> at_least_as_bad (tcb_defects (combine_tcb_status p' q')) (tcb_defects (combine_tcb_status p q)))
   \<and> combine_tcb_status (combine_tcb_status p q) q = combine_tcb_status p q"
  using combine_severity combine_fine combine_idem combine_untrusted combine_refines combined_defects_mono by metis

theorem combined_status_never_improves_witness:
  "severity (combine_tcb_status UpToDate OutOfDate) \<ge> 4 \<and> combine_tcb_status OutOfDate SWHardeningNeeded = OutOfDate
   \<and> at_least_as_bad (tcb_defects (combine_tcb_status ConfigurationNeeded OutOfDate))
       (tcb_defects (combine_tcb_status ConfigurationNeeded UpToDate))"
  using combined_status_never_improves [of UpToDate OutOfDate]
    combined_status_never_improves [of OutOfDate SWHardeningNeeded]
    combined_status_never_improves [of ConfigurationNeeded UpToDate ConfigurationNeeded OutOfDate]
  by (simp add: at_least_as_bad_def)

end
