(* ===== verification/TypeProps.thy ===== *)
theory TypeProps
  imports TdxProps
begin

text \<open>
  The arrays of the source have lengths in their types; the model has lists. What a quote
  is parsed into keeps those types, and loses nothing of the signed body.
\<close>

definition body_fields :: "tdx_body \<Rightarrow> bytes list" where
  "body_fields b =
     [tee_tcb_svn b, mr_seam b, mrsigner_seam b, seam_attributes b, td_attributes b, xfam b, mr_td b, mr_config_id b,
      mr_owner b, mr_owner_config b, rtmr_0 b, rtmr_1 b, rtmr_2 b, rtmr_3 b, td_report_data b]
     @ (case tee_tcb_svn2 b of Some x \<Rightarrow> [x] | None \<Rightarrow> []) @ (case mr_servicetd b of Some x \<Rightarrow> [x] | None \<Rightarrow> [])"

text \<open>The sizes in the order of the fields, of the body alone and of the one with the fields of
  TDX 1.5.\<close>

definition field_sizes :: "quote_version \<Rightarrow> nat list" where
  "field_sizes v = body_sizes @ (if v = V5Tdx15 then [16, 48] else [])"

definition quote_typed :: "tdx_quote \<Rightarrow> bool" where
  "quote_typed q \<longleftrightarrow> length (qh_reserved (tq_header q)) = 2 \<and> length (qh_vendor_id (tq_header q)) = 16
     \<and> length (qh_user_data (tq_header q)) = 20 \<and> qh_tee_type (tq_header q) = TDX_TEE_TYPE
     \<and> qh_version (tq_header q) = (if tq_version q = V4 then 4 else 5)
     \<and> map length (body_fields (tq_body q)) = field_sizes (tq_version q)
     \<and> (tee_tcb_svn2 (tq_body q) = None \<longleftrightarrow> tq_version q \<noteq> V5Tdx15)
     \<and> (mr_servicetd (tq_body q) = None \<longleftrightarrow> tq_version q \<noteq> V5Tdx15)"

lemma list_of_nths: "length xs = n \<Longrightarrow> map ((!) xs) [0..<n] = xs"
  using map_nth [of xs] by simp

lemma fifteen: "length f = 15 \<Longrightarrow> [f ! 0, f ! 1, f ! 2, f ! 3, f ! 4, f ! 5, f ! 6, f ! 7, f ! 8, f ! 9, f ! 10, f ! 11,
    f ! 12, f ! 13, f ! 14] = f"
  using list_of_nths [of f 15] by (simp add: upt_rec eval_nat_numeral)

lemma two: "length f = 2 \<Longrightarrow> [f ! 0, f ! 1] = f"
  using list_of_nths [of f 2] by (simp add: upt_rec eval_nat_numeral)

text \<open>A body of either size is cut into its fields.\<close>

lemma body_from_bytes_fields:
  assumes p: "body_from_bytes d = Inr b" and len: "length d = 584 \<or> length d = 648"
  shows "map length (body_fields b) = body_sizes @ (if length d = 648 then [16, 48] else [])"
    "concat (body_fields b) = d" "tee_tcb_svn2 b = None \<longleftrightarrow> length d = 584" "mr_servicetd b = None \<longleftrightarrow> length d = 584"
proof -
  obtain f where f: "read_fields d 0 body_sizes = Inr f"
    using p by (auto simp: body_from_bytes_def and_then_Inr_iff split: if_splits)
  have g: "map length f = body_sizes" "concat f = slice d 0 584"
    using read_fields_Inr [OF f] by (simp_all add: body_sizes_sum)
  have l: "length f = 15" using arg_cong [OF g(1), of length] by (simp add: body_sizes_def)
  have "map length (body_fields b) = body_sizes @ (if length d = 648 then [16, 48] else []) \<and> concat (body_fields b) = d
    \<and> (tee_tcb_svn2 b = None \<longleftrightarrow> length d = 584) \<and> (mr_servicetd b = None \<longleftrightarrow> length d = 584)"
    using len
  proof
    assume d: "length d = 584"
    then have "body_fields b = f" "tee_tcb_svn2 b = None" "mr_servicetd b = None"
      using p f fifteen [OF l] by (auto simp: body_from_bytes_def body_fields_def Let_def REPORT_BODY_SIZE_def)
    with g d show ?thesis by simp
  next
    assume d: "length d = 648"
    then obtain e where e: "read_fields d 584 [16, 48] = Inr e"
      using p f by (auto simp: body_from_bytes_def and_then_Inr_iff Let_def REPORT_BODY_SIZE_def)
    have h: "map length e = [16, 48]" "concat e = slice d 584 648"
      using read_fields_Inr [OF e] by simp_all
    have m: "length e = 2" using arg_cong [OF h(1), of length] by simp
    have s: "tee_tcb_svn2 b = Some (e ! 0)" "mr_servicetd b = Some (e ! 1)"
      using p f e d by (auto simp: body_from_bytes_def Let_def REPORT_BODY_SIZE_def)
    have "body_fields b = f @ e"
      using p f e d fifteen [OF l] two [OF m] by (auto simp: body_from_bytes_def body_fields_def Let_def REPORT_BODY_SIZE_def)
    moreover have "slice d 0 584 @ slice d 584 648 = d"
      using slice_split [of 0 584 648 d] d by simp
    ultimately show ?thesis using g h s d by simp
  qed
  then show "map length (body_fields b) = body_sizes @ (if length d = 648 then [16, 48] else [])"
    "concat (body_fields b) = d" "tee_tcb_svn2 b = None \<longleftrightarrow> length d = 584" "mr_servicetd b = None \<longleftrightarrow> length d = 584"
    by simp_all
qed

lemma header_from_bytes_typed:
  "header_from_bytes d = Inr h \<Longrightarrow> length (qh_reserved h) = 2 \<and> length (qh_vendor_id h) = 16 \<and> length (qh_user_data h) = 20"
  by (auto simp: header_from_bytes_def and_then_Inr_iff at_range_def ok_or_Inr_iff get_range_Some_iff QUOTE_HEADER_SIZE_def
      split: if_splits)

text \<open>C31: A parsed quote is well typed: every array has the length its type has in the source,
  the two fields of TDX 1.5 are there exactly in its version, and header and version agree. Nothing
  of the body is dropped or read twice: its fields, in order, are the bytes between the
  header (and the type and size of version 5) and the end of what the signature covers.\<close>

theorem parsed_quote_is_typed:
  assumes "parse_tdx_quote d = Inr q"
  shows "quote_typed q \<and> (\<exists>e. compute_body_end d (tq_version q) = Inr e \<and> e \<le> length d
     \<and> concat (body_fields (tq_body q)) = slice d (if tq_version q = V4 then 48 else 54) e)"
proof -
  obtain h where h: "header_from_bytes d = Inr h" "qh_tee_type h = TDX_TEE_TYPE" "tq_header q = h"
    using assms by (auto simp: parse_tdx_quote_eq and_then_Inr_iff Let_def split: if_splits)
  note t = header_from_bytes_typed [OF h(1)]
  have "(tq_version q = V4 \<and> qh_version h = 4 \<and> 632 \<le> length d \<and> body_from_bytes (slice d 48 632) = Inr (tq_body q))
    \<or> (\<exists>n. unat (u32_from_le_bytes (slice d 50 54)) = n \<and> 54 + n \<le> length d \<and> qh_version h = 5
         \<and> body_from_bytes (slice d 54 (54 + n)) = Inr (tq_body q)
         \<and> (tq_version q = V5Tdx10 \<and> n = 584 \<or> tq_version q = V5Tdx15 \<and> n = 648))"
    using assms h
    by (cases q) (auto simp: parse_tdx_quote_eq QUOTE_HEADER_SIZE_def REPORT_BODY_SIZE_def Let_def res_simps at_range_def ok_or_Inr_iff
        split: if_splits)
  then show ?thesis
  proof
    assume v: "tq_version q = V4 \<and> qh_version h = 4 \<and> 632 \<le> length d \<and> body_from_bytes (slice d 48 632) = Inr (tq_body q)"
    then have "length (slice d 48 632) = 584" by simp
    with body_from_bytes_fields [of "slice d 48 632" "tq_body q"] v t h(2,3) show ?thesis
      by (simp add: quote_typed_def field_sizes_def compute_body_end_eq QUOTE_HEADER_SIZE_def REPORT_BODY_SIZE_def)
  next
    assume "\<exists>n. unat (u32_from_le_bytes (slice d 50 54)) = n \<and> 54 + n \<le> length d \<and> qh_version h = 5
         \<and> body_from_bytes (slice d 54 (54 + n)) = Inr (tq_body q)
         \<and> (tq_version q = V5Tdx10 \<and> n = 584 \<or> tq_version q = V5Tdx15 \<and> n = 648)"
    then obtain n where n: "unat (u32_from_le_bytes (slice d 50 54)) = n" "54 + n \<le> length d" "qh_version h = 5"
      "body_from_bytes (slice d 54 (54 + n)) = Inr (tq_body q)"
      "tq_version q = V5Tdx10 \<and> n = 584 \<or> tq_version q = V5Tdx15 \<and> n = 648" by blast
    have len: "length (slice d 54 (54 + n)) = n" using n(2) by simp
    have "compute_body_end d (tq_version q) = Inr (54 + n)"
      using n(1,2,5) by (auto simp: compute_body_end_eq QUOTE_HEADER_SIZE_def pread_u32_def get_range_def)
    with body_from_bytes_fields [OF n(4)] len n(2,3,5) t h(2,3) show ?thesis
      by (auto simp: quote_typed_def field_sizes_def)
  qed
qed

theorem parsed_quote_is_typed_witness: "quote_typed toy_quote \<and> length (mr_td (tq_body toy_quote)) = 48"
  using parsed_quote_is_typed [OF toy_parse] by (simp add: quote_typed_def body_fields_def field_sizes_def body_sizes_def)

end
