(* ===== verification/SnpRegisters.thy ===== *)
theory SnpRegisters
  imports Extend Prelude
begin

text \<open>
  \<open>crates/attestation/src/platforms/snp/measurement_registers.rs\<close>: the sixteen registers
  of an SNP guest's kernel, the log of their extensions, and the commitment to them in a
  report's \<open>REPORT_DATA\<close>. An array of the source has its length by its type; here the
  lengths are what the operations give and what the lemmas assume.
\<close>

section \<open>Operations\<close>

definition REGISTER_COUNT :: nat where "REGISTER_COUNT = 16"
definition ENTRY_LEN :: nat where "ENTRY_LEN = 49"
definition KMR_TAG :: bytes where "KMR_TAG = str_bytes ''snp-kmr-v1''"

record measurement_registers =
  mr_event_count :: u32
  mr_registers :: "bytes list"

definition kmr_extend :: "hash_lib \<Rightarrow> bytes \<Rightarrow> bytes \<Rightarrow> bytes" where
  "kmr_extend h register digest = sha384 h (register @ digest)"

definition kmr_header :: "u32 \<Rightarrow> bytes" where
  "kmr_header event_count = le_bytes 4 (unat event_count) @ replicate 12 0"

definition kmr_report_data :: "hash_lib \<Rightarrow> u32 \<Rightarrow> bytes list \<Rightarrow> bytes \<Rightarrow> bytes" where
  "kmr_report_data h event_count registers caller_data =
     kmr_header event_count
       @ sha384 h (KMR_TAG @ kmr_header event_count @ concat registers @ caller_data)"

text \<open>\<open>as_chunks\<close>: the whole entries of a log.\<close>

definition kmr_entries :: "bytes \<Rightarrow> bytes list" where
  "kmr_entries log = map (\<lambda>k. slice log (ENTRY_LEN * k) (ENTRY_LEN * k + ENTRY_LEN)) [0..<length log div ENTRY_LEN]"

definition kmr_step :: "hash_lib \<Rightarrow> bytes list \<Rightarrow> bytes \<Rightarrow> bytes list" where
  "kmr_step h registers e =
     registers[unat (hd e) := kmr_extend h (registers ! unat (hd e)) (tl e)]"

definition kmr_replay :: "hash_lib \<Rightarrow> bytes \<Rightarrow> u32 \<Rightarrow> bytes list option res" where
  "kmr_replay h log event_count =
     (if length log mod ENTRY_LEN \<noteq> 0 then Inl (EvidenceDeserialize ''SNP event log: not whole entries'')
      else if list_ex (\<lambda>e. unat (hd e) \<ge> REGISTER_COUNT) (kmr_entries log)
      then Inl (EvidenceDeserialize ''SNP event log: register index above 15'')
      else if length log div ENTRY_LEN < unat event_count then Inr None
      else Inr (Some (foldl (kmr_step h) (replicate REGISTER_COUNT (replicate 48 0))
                        (take (unat event_count) (kmr_entries log)))))"

definition kmr_verify :: "hash_lib \<Rightarrow> bytes \<Rightarrow> bytes \<Rightarrow> bytes \<Rightarrow> measurement_registers option res" where
  "kmr_verify h reported log caller_data =
     (let event_count = u32_from_le_bytes (take 4 reported) in
      and_then (kmr_replay h log event_count) (\<lambda>replayed.
      case replayed of
        None \<Rightarrow> Inr None
      | Some registers \<Rightarrow>
          let expected = kmr_report_data h event_count registers caller_data in
          Inr (if constant_time_eq reported expected
               then Some \<lparr>mr_event_count = event_count, mr_registers = registers\<rparr> else None)))"

section \<open>Entries\<close>

definition kmr_entry :: "u8 \<times> bytes \<Rightarrow> bytes" where
  "kmr_entry e = fst e # snd e"

definition kmr_log :: "(u8 \<times> bytes) list \<Rightarrow> bytes" where
  "kmr_log es = concat (map kmr_entry es)"

definition kmr_entry_ok :: "u8 \<times> bytes \<Rightarrow> bool" where
  "kmr_entry_ok e \<longleftrightarrow> unat (fst e) < REGISTER_COUNT \<and> length (snd e) = 48"

lemma length_kmr_log: "\<forall>e \<in> set es. length (snd e) = 48 \<Longrightarrow> length (kmr_log es) = ENTRY_LEN * length es"
  by (induction es) (simp_all add: kmr_log_def kmr_entry_def ENTRY_LEN_def)

lemma kmr_entries_Cons:
  assumes "length e = ENTRY_LEN"
  shows "kmr_entries (e @ log) = e # kmr_entries log"
proof -
  have "length (e @ log) div ENTRY_LEN = Suc (length log div ENTRY_LEN)"
    using assms by (simp add: ENTRY_LEN_def)
  moreover have "slice (e @ log) (ENTRY_LEN * Suc k) (ENTRY_LEN * Suc k + ENTRY_LEN) =
      slice log (ENTRY_LEN * k) (ENTRY_LEN * k + ENTRY_LEN)" for k
    using assms by (simp add: slice_append_right add.commute)
  moreover have "slice (e @ log) 0 ENTRY_LEN = e" using assms by simp
  ultimately show ?thesis
    by (simp add: kmr_entries_def upt_conv_Cons map_Suc_upt [symmetric] comp_def del: upt_Suc)
qed

lemma kmr_entries_log: "\<forall>e \<in> set es. length (snd e) = 48 \<Longrightarrow> kmr_entries (kmr_log es) = map kmr_entry es"
proof (induction es)
  case Nil
  then show ?case by (simp add: kmr_log_def kmr_entries_def)
next
  case (Cons e es)
  have "kmr_log (e # es) = kmr_entry e @ kmr_log es" by (simp add: kmr_log_def)
  moreover have "length (kmr_entry e) = ENTRY_LEN" using Cons.prems by (simp add: kmr_entry_def ENTRY_LEN_def)
  ultimately show ?case using Cons by (simp add: kmr_entries_Cons)
qed

text \<open>A log the replay accepts is a list of such entries.\<close>

lemma kmr_entry_length: "e \<in> set (kmr_entries log) \<Longrightarrow> length e = ENTRY_LEN"
proof -
  assume "e \<in> set (kmr_entries log)"
  then obtain k where k: "k < length log div ENTRY_LEN" and e: "e = slice log (ENTRY_LEN * k) (ENTRY_LEN * k + ENTRY_LEN)"
    by (auto simp: kmr_entries_def)
  have "ENTRY_LEN * k + ENTRY_LEN \<le> ENTRY_LEN * (length log div ENTRY_LEN)"
    using k mult_le_mono2 [of "Suc k" "length log div ENTRY_LEN" ENTRY_LEN] by simp
  also have "\<dots> \<le> length log" by simp
  finally show ?thesis by (simp add: e)
qed

definition kmr_digests :: "nat \<Rightarrow> (u8 \<times> bytes) list \<Rightarrow> bytes list" where
  "kmr_digests i es = map snd (filter (\<lambda>e. unat (fst e) = i) es)"

section \<open>Replay\<close>

lemma length_kmr_step [simp]: "length (kmr_step h rs e) = length rs"
  by (simp add: kmr_step_def)

lemma length_foldl_kmr [simp]: "length (foldl (kmr_step h) rs es) = length rs"
  by (induction es arbitrary: rs) simp_all

lemma foldl_kmr_nth:
  "i < length rs \<Longrightarrow> \<forall>e \<in> set es. unat (fst e) < length rs \<Longrightarrow>
     foldl (kmr_step h) rs (map kmr_entry es) ! i = foldl (\<lambda>r d. sha384 h (r @ d)) (rs ! i) (kmr_digests i es)"
proof (induction es arbitrary: rs)
  case (Cons e es)
  then show ?case
    by (cases "unat (fst e) = i")
       (simp_all add: kmr_step_def kmr_entry_def kmr_extend_def kmr_digests_def)
qed (simp add: kmr_digests_def)

lemma kmr_replay_log:
  assumes "\<forall>e \<in> set es. kmr_entry_ok e"
  shows "kmr_replay h (kmr_log es) n = Inr
    (if length es < unat n then None
     else Some (map (\<lambda>i. extend_all h (kmr_digests i (take (unat n) es))) [0..<16]))"
proof -
  have l: "\<forall>e \<in> set es. length (snd e) = 48" using assms by (simp add: kmr_entry_ok_def)
  have len: "length (kmr_log es) mod ENTRY_LEN = 0" "length (kmr_log es) div ENTRY_LEN = length es"
    using length_kmr_log [OF l] by (simp_all add: ENTRY_LEN_def)
  have ok: "\<not> list_ex (\<lambda>e. unat (hd e) \<ge> REGISTER_COUNT) (kmr_entries (kmr_log es))"
    using assms by (auto simp: kmr_entries_log [OF l] list_ex_iff kmr_entry_def kmr_entry_ok_def)
  have "foldl (kmr_step h) (replicate REGISTER_COUNT (replicate 48 0)) (take (unat n) (map kmr_entry es))
      = map (\<lambda>i. extend_all h (kmr_digests i (take (unat n) es))) [0..<16]"
  proof (rule nth_equalityI)
    fix i assume "i < length (foldl (kmr_step h) (replicate REGISTER_COUNT (replicate 48 0)) (take (unat n) (map kmr_entry es)))"
    then have i: "i < 16" by (simp add: REGISTER_COUNT_def)
    have "\<forall>e \<in> set (take (unat n) es). unat (fst e) < 16"
      using assms by (auto simp: kmr_entry_ok_def REGISTER_COUNT_def dest: in_set_takeD)
    with i show "foldl (kmr_step h) (replicate REGISTER_COUNT (replicate 48 0)) (take (unat n) (map kmr_entry es)) ! i
        = map (\<lambda>i. extend_all h (kmr_digests i (take (unat n) es))) [0..<16] ! i"
      by (simp add: take_map foldl_kmr_nth REGISTER_COUNT_def extend_all_def)
  qed (simp add: REGISTER_COUNT_def)
  then show ?thesis
    using ok by (simp add: kmr_replay_def len kmr_entries_log [OF l])
qed

text \<open>Every log that a replay accepts is the log of its entries.\<close>

lemma kmr_log_entries:
  assumes "length log mod ENTRY_LEN = 0"
  shows "\<exists>es. log = kmr_log es \<and> (\<forall>e \<in> set es. length (snd e) = 48)"
  using assms
proof (induction "length log div ENTRY_LEN" arbitrary: log)
  case 0
  then have "log = []" by (auto simp: ENTRY_LEN_def div_eq_0_iff)
  then show ?case by (intro exI [of _ "[]"]) (simp add: kmr_log_def)
next
  case (Suc n)
  have l: "49 \<le> length log" using Suc.hyps(2) by (auto simp: ENTRY_LEN_def)
  then obtain b bs where t: "take 49 log = b # bs" by (cases "take 49 log") auto
  then have bs: "length bs = 48" using l arg_cong [OF t, of length] unfolding length_take by simp
  have r: "n = length (drop 49 log) div ENTRY_LEN" "length (drop 49 log) mod ENTRY_LEN = 0"
    using Suc.hyps(2) Suc.prems l by (simp_all add: ENTRY_LEN_def le_div_geq le_mod_geq)
  obtain es where es: "drop 49 log = kmr_log es" "\<forall>e \<in> set es. length (snd e) = 48"
    using Suc.hyps(1) [OF r] by blast
  have "log = kmr_log ((b, bs) # es)"
    using t es(1) append_take_drop_id [of 49 log] by (simp add: kmr_log_def kmr_entry_def)
  then show ?case using es(2) bs by (intro exI [of _ "(b, bs) # es"]) simp
qed

lemma kmr_replay_Inr:
  assumes "kmr_replay h log n = Inr (Some rs)"
  obtains es where "log = kmr_log es" "\<forall>e \<in> set es. kmr_entry_ok e" "unat n \<le> length es"
    "rs = map (\<lambda>i. extend_all h (kmr_digests i (take (unat n) es))) [0..<16]"
proof -
  from assms have m: "length log mod ENTRY_LEN = 0" and i: "\<not> list_ex (\<lambda>e. unat (hd e) \<ge> REGISTER_COUNT) (kmr_entries log)"
    by (auto simp: kmr_replay_def split: if_splits)
  obtain es where es: "log = kmr_log es" "\<forall>e \<in> set es. length (snd e) = 48"
    using kmr_log_entries [OF m] by blast
  with i have ok: "\<forall>e \<in> set es. kmr_entry_ok e"
    by (auto simp: kmr_entries_log list_ex_iff kmr_entry_def kmr_entry_ok_def not_le)
  have "unat n \<le> length es \<and> rs = map (\<lambda>i. extend_all h (kmr_digests i (take (unat n) es))) [0..<16]"
    using assms es(1) kmr_replay_log [OF ok, of h n] by (auto split: if_splits)
  with es(1) ok that show thesis by blast
qed

section \<open>The commitment\<close>

lemma length_kmr_header [simp]: "length (kmr_header n) = 16"
  by (simp add: kmr_header_def)

lemma kmr_header_inj: "kmr_header m = kmr_header n \<longleftrightarrow> m = n"
proof
  assume "kmr_header m = kmr_header n"
  then have "le_nat (le_bytes 4 (unat m)) = le_nat (le_bytes 4 (unat n))"
    by (simp add: kmr_header_def)
  then have "unat m = unat n"
    by (simp add: le_nat_le_bytes unat_lt [of m, simplified] unat_lt [of n, simplified])
  then show "m = n" by (rule unsigned_word_eqI)
qed simp

lemma kmr_verify_Some:
  assumes "kmr_verify h reported log caller = Inr (Some m)"
  shows "kmr_replay h log (mr_event_count m) = Inr (Some (mr_registers m))
    \<and> reported = kmr_report_data h (mr_event_count m) (mr_registers m) caller"
  using assms by (auto simp: kmr_verify_def res_simps Let_def split: option.splits if_splits)

lemma kmr_verify_Some_iff:
  assumes "length caller = 64"
  shows "kmr_verify h reported log caller = Inr (Some m) \<longleftrightarrow>
    kmr_replay h log (mr_event_count m) = Inr (Some (mr_registers m))
    \<and> reported = kmr_report_data h (mr_event_count m) (mr_registers m) caller"
proof
  assume r: "kmr_replay h log (mr_event_count m) = Inr (Some (mr_registers m))
    \<and> reported = kmr_report_data h (mr_event_count m) (mr_registers m) caller"
  then have "u32_from_le_bytes (take 4 reported) = mr_event_count m"
    by (simp add: kmr_report_data_def kmr_header_def u32_from_le_bytes_def le_nat_le_bytes
        unat_lt [of "mr_event_count m", simplified])
  with r show "kmr_verify h reported log caller = Inr (Some m)"
    by (simp add: kmr_verify_def)
qed (rule kmr_verify_Some)

text \<open>Registers of one length are recovered from their concatenation, so what a report
  commits to is fixed by it where the hash tells the two commitments apart.\<close>

lemma concat_inj_length:
  "length xs = length ys \<Longrightarrow> \<forall>x \<in> set xs \<union> set ys. length x = n \<Longrightarrow> concat xs @ a = concat ys @ b \<Longrightarrow> xs = ys \<and> a = b"
  by (induction xs ys rule: list_induct2) auto

lemma kmr_report_data_inj:
  assumes "kmr_report_data h m rs a = kmr_report_data h n qs b"
    and "length rs = length qs" "\<forall>r \<in> set rs \<union> set qs. length r = 48"
    and "inj_on (sha384 h) {KMR_TAG @ kmr_header m @ concat rs @ a, KMR_TAG @ kmr_header n @ concat qs @ b}"
  shows "m = n \<and> rs = qs \<and> a = b"
proof -
  have c: "kmr_header m = kmr_header n
    \<and> sha384 h (KMR_TAG @ kmr_header m @ concat rs @ a) = sha384 h (KMR_TAG @ kmr_header n @ concat qs @ b)"
    using assms(1) unfolding kmr_report_data_def by (rule iffD1 [OF append_eq_append_conv, rotated]) simp
  then have m: "m = n" by (simp add: kmr_header_inj)
  have "KMR_TAG @ kmr_header m @ concat rs @ a = KMR_TAG @ kmr_header n @ concat qs @ b"
    by (rule inj_onD [OF assms(4) conjunct2 [OF c]]) simp_all
  with m have "concat rs @ a = concat qs @ b" by simp
  with concat_inj_length [OF assms(2,3)] m show ?thesis by simp
qed

lemma kmr_verify_not_panic [panic_free]: "kmr_verify h reported log caller \<noteq> Inl Panicked"
  by (auto simp: kmr_verify_def kmr_replay_def and_then_Inl_iff Let_def split: option.splits if_splits)

end
