(* ===== verification/SnpReport.thy ===== *)
theory SnpReport
  imports X509 Collateral SnpRegisters
begin

text \<open>
  The report half of \<open>crates/attestation/src/platforms/snp/verify.rs\<close>, with
  \<open>snp/claims.rs\<close> and \<open>snp/certs.rs\<close>: an SEV-SNP report as the \<open>sev\<close> crate parses it, its
  claims, the AMD chain of the key that signed it, and the binding of that key to the chip
  and TCB of the report. The \<open>sev\<close> crate, the certificate parsers, the signature schemes
  and the bundled AMD certificates are parameters.
\<close>

section \<open>Data\<close>

record tcb_version =
  tv_bootloader :: u8
  tv_tee :: u8
  tv_snp :: u8
  tv_microcode :: u8
  tv_fmc :: "u8 option"

record guest_policy =
  gp_abi_major :: u8
  gp_abi_minor :: u8
  gp_smt_allowed :: bool
  gp_migrate_ma :: bool
  gp_debug :: bool
  gp_single_socket :: bool
  gp_raw :: u64

record fw_version =
  fw_build :: u8
  fw_minor :: u8
  fw_major :: u8

record snp_report =
  sr_version :: u32
  sr_guest_svn :: u32
  sr_policy :: guest_policy
  sr_vmpl :: u32
  sr_sig_algo :: u32
  sr_tsme_enabled :: bool
  sr_smt_enabled :: bool
  sr_current :: fw_version
  sr_committed :: fw_version
  sr_report_data :: bytes
  sr_measurement :: bytes
  sr_host_data :: bytes
  sr_chip_id :: bytes
  sr_reported_tcb :: tcb_version
  sr_committed_tcb :: tcb_version
  sr_launch_tcb :: tcb_version
  sr_cpuid_fam_id :: "u8 option"
  sr_cpuid_mod_id :: "u8 option"

text \<open>The certificate files bundled for each generation (\<open>certs.rs\<close>).\<close>

record amd_roots =
  MILAN_ARK :: bytes
  MILAN_ASK :: bytes
  MILAN_ASVK :: bytes
  GENOA_ARK :: bytes
  GENOA_ASK :: bytes
  GENOA_ASVK :: bytes
  TURIN_ARK :: bytes
  TURIN_ASK :: bytes
  TURIN_ASVK :: bytes

record ('rk, 'rs) pss_lib =
  pss_key :: "bytes \<Rightarrow> 'rk option"
  pss_sig :: "bytes \<Rightarrow> 'rs option"
  pss_verify :: "'rk \<Rightarrow> bytes \<Rightarrow> 'rs \<Rightarrow> bool"

text \<open>The libraries: the report parser and the chain and report checks of the \<open>sev\<close> crate,
  DER integers, octet strings and elements, what follows a certificate, the subject key
  info of a certificate, P-384 keys, RSA-PSS.\<close>

record ('k, 's, 'rk, 'rs) snp_lib =
  sn_hash :: hash_lib
  sn_hex :: hex_lib
  sn_base64 :: "string \<Rightarrow> bytes option"
  sn_x509 :: x509_lib
  sn_roots :: amd_roots
  sn_report :: "bytes \<Rightarrow> snp_report option"
  sn_chain_parses :: "bytes \<Rightarrow> bytes \<Rightarrow> bytes \<Rightarrow> bool"
  sn_chain_verifies :: "bytes \<Rightarrow> bytes \<Rightarrow> bytes \<Rightarrow> bool"
  sn_cert_parses :: "bytes \<Rightarrow> bool"
  sn_signed_by :: "bytes \<Rightarrow> snp_report \<Rightarrow> bool"
  sn_der_u8 :: "bytes \<Rightarrow> u8 option"
  sn_der_octets :: "bytes \<Rightarrow> bytes option"
  sn_der_header :: "bytes \<Rightarrow> (bool \<times> bytes) option"
  sn_der_tlv :: "bytes \<Rightarrow> bytes option"
  sn_after_cert :: "bytes \<Rightarrow> bytes"
  sn_spki :: "cert \<Rightarrow> bytes"
  sn_p384 :: "('k, 's) ec_lib"
  sn_p384_spki :: "bytes \<Rightarrow> 'k option"
  sn_pss :: "('rk, 'rs) pss_lib"

section \<open>Bundled certificates\<close>

fun get_bundled_certs :: "amd_roots \<Rightarrow> processor_generation \<Rightarrow> bytes \<times> bytes" where
  "get_bundled_certs r Milan = (MILAN_ARK r, MILAN_ASK r)"
| "get_bundled_certs r Genoa = (GENOA_ARK r, GENOA_ASK r)"
| "get_bundled_certs r Turin = (TURIN_ARK r, TURIN_ASK r)"

fun get_asvk :: "amd_roots \<Rightarrow> processor_generation \<Rightarrow> bytes" where
  "get_asvk r Milan = MILAN_ASVK r"
| "get_asvk r Genoa = GENOA_ASVK r"
| "get_asvk r Turin = TURIN_ASVK r"

definition get_ark :: "amd_roots \<Rightarrow> processor_generation \<Rightarrow> bytes" where
  "get_ark r gen = fst (get_bundled_certs r gen)"

definition get_ask :: "amd_roots \<Rightarrow> processor_generation \<Rightarrow> bytes" where
  "get_ask r gen = snd (get_bundled_certs r gen)"

section \<open>The report\<close>

definition parse_report :: "('k, 's, 'rk, 'rs) snp_lib \<Rightarrow> bytes \<Rightarrow> snp_report res" where
  "parse_report L b = ok_or (QuoteParseFailed ''SNP report parse'') (sn_report L b)"

definition snp_tcb_of :: "tcb_version \<Rightarrow> snp_tcb" where
  "snp_tcb_of t = \<lparr>tcb_bootloader = tv_bootloader t, tcb_tee = tv_tee t, tcb_snp = tv_snp t,
     tcb_microcode = tv_microcode t, tcb_fmc = tv_fmc t\<rparr>"

definition snp_extract_claims :: "hex_lib \<Rightarrow> snp_report \<Rightarrow> claims" where
  "snp_extract_claims hx r =
     (let p = sr_policy r; t = sr_reported_tcb r; n8 = (\<lambda>x :: u8. JInt (uint x)); n32 = (\<lambda>x :: u32. JInt (uint x)) in
      \<lparr>launch_digest = hex_encode hx (sr_measurement r), cl_report_data = sr_report_data r,
       signed_data = strip_trailing_nulls (sr_report_data r), init_data = sr_host_data r,
       cl_tcb = TcbSnp (tv_bootloader t) (tv_tee t) (tv_snp t) (tv_microcode t) (tv_fmc t),
       platform_data = json_obj
         [(''policy'', json_obj
            [(''abi_major'', n8 (gp_abi_major p)), (''abi_minor'', n8 (gp_abi_minor p)),
             (''smt_allowed'', JBool (gp_smt_allowed p)), (''migrate_ma'', JBool (gp_migrate_ma p)),
             (''debug_allowed'', JBool (gp_debug p)), (''single_socket'', JBool (gp_single_socket p))]),
          (''platform_info'', json_obj
            [(''tsme_enabled'', JBool (sr_tsme_enabled r)), (''smt_enabled'', JBool (sr_smt_enabled r))]),
          (''vmpl'', n32 (sr_vmpl r)), (''chip_id'', JStr (hex_encode hx (sr_chip_id r))),
          (''current_build'', n8 (fw_build (sr_current r))), (''current_minor'', n8 (fw_minor (sr_current r))),
          (''current_major'', n8 (fw_major (sr_current r))),
          (''committed_build'', n8 (fw_build (sr_committed r))),
          (''committed_minor'', n8 (fw_minor (sr_committed r))),
          (''committed_major'', n8 (fw_major (sr_committed r))),
          (''guest_svn'', n32 (sr_guest_svn r)), (''signature_algo'', n32 (sr_sig_algo r))]\<rparr>)"

definition min_tcb_met :: "snp_tcb \<Rightarrow> snp_tcb \<Rightarrow> bool" where
  "min_tcb_met t m =
     (let fmc_below = (case (tcb_fmc m, tcb_fmc t) of
          (Some min_fmc, Some report_fmc) \<Rightarrow> report_fmc < min_fmc
        | (Some _, None) \<Rightarrow> True
        | _ \<Rightarrow> False)
      in \<not> (tcb_bootloader t < tcb_bootloader m \<or> tcb_tee t < tcb_tee m \<or> tcb_snp t < tcb_snp m
            \<or> tcb_microcode t < tcb_microcode m \<or> fmc_below))"

section \<open>The key that signed it\<close>

definition verify_cert_chain :: "('k, 's, 'rk, 'rs) snp_lib \<Rightarrow> bytes \<Rightarrow> bytes \<Rightarrow> bytes \<Rightarrow> unit res" where
  "verify_cert_chain L ark ask vcek =
     and_then (require (sn_chain_parses L ark ask vcek) (CertChainError ''chain parse'')) (\<lambda>_.
     require (sn_chain_verifies L ark ask vcek) (CertChainError ''chain verify''))"

definition vek_common_name :: "cert \<Rightarrow> string res" where
  "vek_common_name c = (case ct_subject_cns c of
       [] \<Rightarrow> Inl (CertChainError ''VEK certificate has no Common Name'')
     | cn # _ \<Rightarrow> ok_or (CertChainError ''VEK Common Name is not valid UTF-8'') cn)"

definition is_vlek_cert :: "x509_lib \<Rightarrow> bytes \<Rightarrow> bool res" where
  "is_vlek_cert x vek_der =
     and_then (ok_or (CertChainError ''VEK x509 parse'') (x_cert x vek_der)) (\<lambda>c.
     and_then (vek_common_name c) (\<lambda>cn. Inr (contains_str ''VLEK'' cn)))"

definition vek_issuer :: "('k, 's, 'rk, 'rs) snp_lib \<Rightarrow> bytes \<Rightarrow> processor_generation \<Rightarrow> bytes res" where
  "vek_issuer L vek_der gen =
     and_then (is_vlek_cert (sn_x509 L) vek_der) (\<lambda>vlek.
     Inr (if vlek then get_asvk (sn_roots L) gen else get_ask (sn_roots L) gen))"

definition verify_vek_validity_period :: "x509_lib \<Rightarrow> bytes \<Rightarrow> int \<Rightarrow> unit res" where
  "verify_vek_validity_period x vek_der now =
     and_then (ok_or (CertChainError ''VEK x509 parse for validity'') (x_cert x vek_der)) (\<lambda>c.
     and_then (asn1_time x now) (\<lambda>now.
     if now < ct_not_before c then Inl (CertChainError ''VEK certificate is not yet valid'')
     else if now > ct_not_after c then Inl (CertChainError ''VEK certificate has expired'')
     else Inr ()))"

definition HW_ID_OID :: string where "HW_ID_OID = ''1.3.6.1.4.1.3704.1.4''"
definition UCODE_SPL_OID :: string where "UCODE_SPL_OID = ''1.3.6.1.4.1.3704.1.3.8''"
definition SNP_SPL_OID :: string where "SNP_SPL_OID = ''1.3.6.1.4.1.3704.1.3.3''"
definition TEE_SPL_OID :: string where "TEE_SPL_OID = ''1.3.6.1.4.1.3704.1.3.2''"
definition LOADER_SPL_OID :: string where "LOADER_SPL_OID = ''1.3.6.1.4.1.3704.1.3.1''"
definition FMC_SPL_OID :: string where "FMC_SPL_OID = ''1.3.6.1.4.1.3704.1.3.9''"

definition get_oid_octets :: "(bytes \<Rightarrow> bytes option) \<Rightarrow> bytes \<Rightarrow> bytes option" where
  "get_oid_octets der_octets v = (case der_octets v of
       Some b \<Rightarrow> Some b
     | None \<Rightarrow> if v \<noteq> [] then Some v else None)"

definition find_ext :: "string \<Rightarrow> cert \<Rightarrow> bytes option" where
  "find_ext oid c = map_option snd (find (\<lambda>(o', _). o' = oid) (ct_extensions c))"

text \<open>The comparison of chip identifiers: a prefix on Turin, the whole elsewhere.\<close>

definition chip_id_ok :: "processor_generation \<Rightarrow> bytes \<Rightarrow> bytes \<Rightarrow> bool" where
  "chip_id_ok gen hw_id chip_id =
     (let prefix_len = length hw_id in
      if gen = Turin
      then 8 \<le> prefix_len \<and> prefix_len \<le> length chip_id
           \<and> constant_time_eq hw_id (take prefix_len chip_id)
           \<and> list_all (\<lambda>b. b = 0) (drop prefix_len chip_id)
      else prefix_len = length chip_id \<and> constant_time_eq hw_id chip_id)"

definition check_hw_id ::
  "('k, 's, 'rk, 'rs) snp_lib \<Rightarrow> cert \<Rightarrow> bytes \<Rightarrow> processor_generation \<Rightarrow> unit res" where
  "check_hw_id L c chip_id gen =
     and_then (ok_or (TcbMismatch ''VCEK missing required HW_ID OID extension'') (find_ext HW_ID_OID c)) (\<lambda>v.
     and_then (ok_or (TcbMismatch ''VCEK HW_ID OID has unparseable value'')
                (get_oid_octets (sn_der_octets L) v)) (\<lambda>hw_id.
     require (chip_id_ok gen hw_id chip_id) (TcbMismatch ''VCEK chip_id does not match report chip_id'')))"

definition check_spl :: "('k, 's, 'rk, 'rs) snp_lib \<Rightarrow> cert \<Rightarrow> string \<times> u8 \<Rightarrow> unit res" where
  "check_spl L c spl = (case spl of (oid, expected) \<Rightarrow>
     and_then (ok_or (TcbMismatch ''VCEK missing required OID extension'') (find_ext oid c)) (\<lambda>v.
     and_then (ok_or (TcbMismatch ''VCEK OID has unparseable value'') (sn_der_u8 L v)) (\<lambda>cert_val.
     if cert_val \<noteq> expected then Inl (TcbMismatch ''VCEK SPL does not match report'') else Inr ())))"

definition check_fmc ::
  "('k, 's, 'rk, 'rs) snp_lib \<Rightarrow> cert \<Rightarrow> u8 option \<Rightarrow> processor_generation \<Rightarrow> unit res" where
  "check_fmc L c fmc gen = (case fmc of
       None \<Rightarrow> Inr ()
     | Some expected \<Rightarrow>
         (case find_ext FMC_SPL_OID c of
            Some v \<Rightarrow>
              and_then (ok_or (TcbMismatch ''VCEK FMC OID has unparseable value'') (sn_der_u8 L v)) (\<lambda>cert_val.
              if cert_val \<noteq> expected then Inl (TcbMismatch ''VCEK fmc SPL does not match report'') else Inr ())
          | None \<Rightarrow>
              if expected \<noteq> 0 \<or> gen = Turin
              then Inl (TcbMismatch ''VCEK certificate lacks FMC OID extension'') else Inr ()))"

definition check_vek_binding ::
  "('k, 's, 'rk, 'rs) snp_lib \<Rightarrow> bytes \<Rightarrow> bytes \<Rightarrow> snp_tcb \<Rightarrow> processor_generation \<Rightarrow> unit res" where
  "check_vek_binding L vcek_der chip_id t gen =
     and_then (ok_or (CertChainError ''VCEK x509 parse'') (x_cert (sn_x509 L) vcek_der)) (\<lambda>c.
     and_then (vek_common_name c) (\<lambda>cn.
     and_then (if \<not> contains_str ''VLEK'' cn then check_hw_id L c chip_id gen else Inr ()) (\<lambda>_.
     and_then (check_each (check_spl L c)
       [(LOADER_SPL_OID, tcb_bootloader t), (TEE_SPL_OID, tcb_tee t), (SNP_SPL_OID, tcb_snp t),
        (UCODE_SPL_OID, tcb_microcode t)]) (\<lambda>_.
     check_fmc L c (tcb_fmc t) gen))))"

definition verify_vcek_tcb ::
  "('k, 's, 'rk, 'rs) snp_lib \<Rightarrow> snp_report \<Rightarrow> bytes \<Rightarrow> processor_generation \<Rightarrow> unit res" where
  "verify_vcek_tcb L r vcek_der gen =
     check_vek_binding L vcek_der (sr_chip_id r) (snp_tcb_of (sr_reported_tcb r)) gen"

definition verify_vek_endorsement ::
  "('k, 's, 'rk, 'rs) snp_lib \<Rightarrow> snp_report \<Rightarrow> bytes \<Rightarrow> processor_generation \<Rightarrow> int \<Rightarrow> unit res" where
  "verify_vek_endorsement L r vek_der gen now =
     and_then (vek_issuer L vek_der gen) (\<lambda>issuer.
     and_then (verify_cert_chain L (get_ark (sn_roots L) gen) issuer vek_der) (\<lambda>_.
     and_then (verify_vek_validity_period (sn_x509 L) vek_der now) (\<lambda>_.
     verify_vcek_tcb L r vek_der gen)))"

definition verify_report_signature :: "('k, 's, 'rk, 'rs) snp_lib \<Rightarrow> bytes \<Rightarrow> bytes \<Rightarrow> unit res" where
  "verify_report_signature L report_bytes vcek_der =
     and_then (ok_or (QuoteParseFailed ''SNP report parse'') (sn_report L report_bytes)) (\<lambda>r.
     and_then (require (sn_cert_parses L vcek_der) (CertChainError ''VCEK parse'')) (\<lambda>_.
     require (sn_signed_by L vcek_der r) (SignatureVerificationFailed ''report'')))"

definition check_report ::
  "('k, 's, 'rk, 'rs) snp_lib \<Rightarrow> snp_report \<Rightarrow> bytes \<Rightarrow> processor_generation \<Rightarrow> int \<Rightarrow> unit res" where
  "check_report L r vek gen now =
     and_then (verify_vek_endorsement L r vek gen now) (\<lambda>_.
     and_then (require (sn_cert_parses L vek) (CertChainError ''VEK to sev Certificate'')) (\<lambda>_.
     require (sn_signed_by L vek r) (SignatureVerificationFailed ''report'')))"

section \<open>The signature of a CRL\<close>

definition OID_RSA_PSS :: string where "OID_RSA_PSS = ''1.2.840.113549.1.1.10''"
definition OID_ECDSA_WITH_SHA384 :: string where "OID_ECDSA_WITH_SHA384 = ''1.2.840.10045.4.3.3''"

definition extract_tbs_from_crl_der :: "('k, 's, 'rk, 'rs) snp_lib \<Rightarrow> bytes \<Rightarrow> bytes res" where
  "extract_tbs_from_crl_der L crl_der =
     and_then (ok_or (CertChainError ''CRL DER header'') (sn_der_header L crl_der)) (\<lambda>(is_sequence, content).
     and_then (require is_sequence (CertChainError ''CRL: expected SEQUENCE'')) (\<lambda>_.
     ok_or (CertChainError ''CRL TBS extract'') (sn_der_tlv L content)))"

definition verify_crl_signature :: "('k, 's, 'rk, 'rs) snp_lib \<Rightarrow> crl \<Rightarrow> bytes \<Rightarrow> cert \<Rightarrow> unit res" where
  "verify_crl_signature L c crl_der issuer_cert =
     (if \<not> cl_same_alg c then Inl (CertChainError ''CRL signature algorithm differs from the signed one'')
      else and_then (extract_tbs_from_crl_der L crl_der) (\<lambda>tbs.
      if cl_alg c = OID_RSA_PSS
      then and_then (ok_or (CertChainError ''CRL issuer RSA key parse'')
                       (pss_key (sn_pss L) (sn_spki L issuer_cert))) (\<lambda>key.
           and_then (ok_or (CertChainError ''CRL RSA-PSS signature parse'')
                       (pss_sig (sn_pss L) (cl_signature c))) (\<lambda>sig.
           require (pss_verify (sn_pss L) key tbs sig)
             (CertChainError ''CRL RSA-PSS signature verification failed'')))
      else if cl_alg c = OID_ECDSA_WITH_SHA384
      then and_then (ok_or (CertChainError ''CRL issuer ECDSA key parse'')
                       (case ec_key (sn_p384 L) (ct_public_key issuer_cert) of
                          Some k \<Rightarrow> Some k
                        | None \<Rightarrow> sn_p384_spki L (sn_spki L issuer_cert))) (\<lambda>key.
           and_then (ok_or (CertChainError ''CRL ECDSA signature parse'')
                       (ec_sig_der (sn_p384 L) (cl_signature c))) (\<lambda>sig.
           require (ec_verify (sn_p384 L) key tbs sig)
             (CertChainError ''CRL ECDSA signature verification failed'')))
      else Inl (CertChainError ''unsupported CRL signature algorithm OID'')))"

section \<open>Lemmas\<close>

lemma min_tcb_met_iff:
  "min_tcb_met t m \<longleftrightarrow>
     tcb_bootloader m \<le> tcb_bootloader t \<and> tcb_tee m \<le> tcb_tee t \<and> tcb_snp m \<le> tcb_snp t
     \<and> tcb_microcode m \<le> tcb_microcode t \<and> (\<forall>f. tcb_fmc m = Some f \<longrightarrow> (\<exists>g. tcb_fmc t = Some g \<and> f \<le> g))"
  by (auto simp: min_tcb_met_def Let_def not_less split: option.splits)

lemma min_tcb_met_refl [simp]: "min_tcb_met t t"
  by (simp add: min_tcb_met_iff)

lemma min_tcb_met_trans: "min_tcb_met a b \<Longrightarrow> min_tcb_met b c \<Longrightarrow> min_tcb_met a c"
  by (fastforce simp: min_tcb_met_iff intro: order_trans)

lemma min_tcb_met_antisym: "min_tcb_met a b \<Longrightarrow> min_tcb_met b a \<Longrightarrow> a = b"
  by (cases "tcb_fmc a"; cases "tcb_fmc b") (auto simp: min_tcb_met_iff intro!: snp_tcb.equality)

text \<open>What a key certificate says: its name, the chip and the TCB levels.\<close>

definition spl_is :: "('k, 's, 'rk, 'rs) snp_lib \<Rightarrow> cert \<Rightarrow> string \<Rightarrow> u8 \<Rightarrow> bool" where
  "spl_is L c oid level \<longleftrightarrow> (\<exists>v. find_ext oid c = Some v \<and> sn_der_u8 L v = Some level)"

definition chip_is :: "('k, 's, 'rk, 'rs) snp_lib \<Rightarrow> cert \<Rightarrow> processor_generation \<Rightarrow> bytes \<Rightarrow> bool" where
  "chip_is L c gen chip_id \<longleftrightarrow>
     (\<exists>v hw_id. find_ext HW_ID_OID c = Some v \<and> get_oid_octets (sn_der_octets L) v = Some hw_id
        \<and> (if gen = Turin
           then 8 \<le> length hw_id \<and> (\<exists>n. chip_id = hw_id @ replicate n 0)
           else chip_id = hw_id))"

lemma list_all_zero_iff: "list_all (\<lambda>b. b = 0) xs \<longleftrightarrow> (\<exists>n. xs = replicate n 0)"
proof
  assume "list_all (\<lambda>b. b = 0) xs"
  then have "xs = replicate (length xs) 0" by (simp add: list_all_iff replicate_length_same)
  then show "\<exists>n. xs = replicate n 0" ..
qed (auto simp: list_all_length)

lemma chip_id_ok_iff:
  "chip_id_ok gen hw_id chip_id \<longleftrightarrow>
     (if gen = Turin then 8 \<le> length hw_id \<and> (\<exists>n. chip_id = hw_id @ replicate n 0) else chip_id = hw_id)"
proof (cases "gen = Turin")
  case True
  have "(length hw_id \<le> length chip_id \<and> hw_id = take (length hw_id) chip_id
      \<and> list_all (\<lambda>b. b = 0) (drop (length hw_id) chip_id)) \<longleftrightarrow> (\<exists>n. chip_id = hw_id @ replicate n 0)"
    by (auto simp: list_all_zero_iff) (metis append_take_drop_id)
  with True show ?thesis by (auto simp: chip_id_ok_def)
qed (auto simp: chip_id_ok_def)

lemma check_spl_Inr_iff [res_simps]: "check_spl L c (oid, level) = Inr u \<longleftrightarrow> spl_is L c oid level"
  by (auto simp: check_spl_def spl_is_def res_simps)

lemma check_fmc_Inr_iff:
  "check_fmc L c fmc gen = Inr u \<longleftrightarrow> (\<forall>level. fmc = Some level \<longrightarrow>
     spl_is L c FMC_SPL_OID level \<or> find_ext FMC_SPL_OID c = None \<and> level = 0 \<and> gen \<noteq> Turin)"
  by (auto simp: check_fmc_def spl_is_def res_simps split: option.splits)

lemma check_hw_id_Inr_iff: "check_hw_id L c chip gen = Inr u \<longleftrightarrow> chip_is L c gen chip"
  by (auto simp: check_hw_id_def chip_is_def res_simps chip_id_ok_iff)

lemma vek_common_name_Inr_iff [res_simps]:
  "vek_common_name c = Inr cn \<longleftrightarrow> (\<exists>cns. ct_subject_cns c = Some cn # cns)"
  by (auto simp: vek_common_name_def res_simps split: list.splits)

lemma check_vek_binding_Inr_iff:
  "check_vek_binding L der chip t gen = Inr u \<longleftrightarrow>
     (\<exists>c cn cns. x_cert (sn_x509 L) der = Some c \<and> ct_subject_cns c = Some cn # cns
        \<and> (contains_str ''VLEK'' cn \<or> chip_is L c gen chip)
        \<and> spl_is L c LOADER_SPL_OID (tcb_bootloader t) \<and> spl_is L c TEE_SPL_OID (tcb_tee t)
        \<and> spl_is L c SNP_SPL_OID (tcb_snp t) \<and> spl_is L c UCODE_SPL_OID (tcb_microcode t)
        \<and> (\<forall>level. tcb_fmc t = Some level \<longrightarrow> spl_is L c FMC_SPL_OID level
             \<or> find_ext FMC_SPL_OID c = None \<and> level = 0 \<and> gen \<noteq> Turin))"
  by (auto simp: check_vek_binding_def res_simps check_fmc_Inr_iff check_hw_id_Inr_iff split: if_splits)

text \<open>A key certificate is for one TCB.\<close>

lemma spl_is_unique: "spl_is L c oid a \<Longrightarrow> spl_is L c oid b \<Longrightarrow> a = b"
  by (auto simp: spl_is_def)

lemma check_report_Inr_iff:
  "check_report L r vek gen now = Inr u \<longleftrightarrow>
     verify_vek_endorsement L r vek gen now = Inr () \<and> sn_cert_parses L vek \<and> sn_signed_by L vek r"
  by (auto simp: check_report_def res_simps)

end
