(* ===== verification/Amd.thy ===== *)
theory Amd
  imports SnpReport StoreInv
begin

text \<open>
  \<open>crates/attestation/src/collateral/amd.rs\<close>: the certificate of one chip's signing key
  and AMD's revocation lists, each a piece kind the store can keep. Both are checked
  against the certificates bundled for their generation.
\<close>

definition AMD_KDS :: string where "AMD_KDS = ''https://kdsintf.amd.com''"

section \<open>VCEKs\<close>

record vcek_piece =
  vp_der :: bytes
  vp_not_before :: int
  vp_not_after :: int

type_synonym vcek_id = "processor_generation \<times> bytes \<times> snp_tcb"

text \<open>\<open>{}\<close> and \<open>{:02}\<close> of a byte.\<close>

definition u8_dec :: "u8 \<Rightarrow> string" where
  "u8_dec b = dec_string (unat b)"

definition u8_dec2 :: "u8 \<Rightarrow> string" where
  "u8_dec2 b = (if b < 10 then CHR ''0'' # u8_dec b else u8_dec b)"

fun lower_name :: "processor_generation \<Rightarrow> string" where
  "lower_name Milan = ''milan''"
| "lower_name Genoa = ''genoa''"
| "lower_name Turin = ''turin''"

definition vcek_name :: "hex_lib \<Rightarrow> vcek_id \<Rightarrow> string" where
  "vcek_name hx = (\<lambda>(generation, chip_id, t).
     let fmc = (case tcb_fmc t of None \<Rightarrow> [] | Some f \<Rightarrow> ''.'' @ u8_dec f) in
     ''vcek '' @ lower_name generation @ '' '' @ hex_encode hx (take 8 chip_id) @ '' tcb ''
       @ u8_dec (tcb_bootloader t) @ ''.'' @ u8_dec (tcb_tee t) @ ''.'' @ u8_dec (tcb_snp t)
       @ ''.'' @ u8_dec (tcb_microcode t) @ fmc)"

definition vcek_url :: "hex_lib \<Rightarrow> vcek_id \<Rightarrow> string" where
  "vcek_url hx = (\<lambda>(generation, chip_id, t).
     let chip_id = (case generation of
           Turin \<Rightarrow> hex_encode hx (take 8 chip_id)
         | _ \<Rightarrow> hex_encode hx chip_id);
         url = AMD_KDS @ ''/vcek/v1/'' @ product_name generation @ ''/'' @ chip_id
           @ ''?blSPL='' @ u8_dec2 (tcb_bootloader t) @ ''&teeSPL='' @ u8_dec2 (tcb_tee t)
           @ ''&snpSPL='' @ u8_dec2 (tcb_snp t) @ ''&ucodeSPL='' @ u8_dec2 (tcb_microcode t)
     in (case tcb_fmc t of None \<Rightarrow> url | Some fmc \<Rightarrow> url @ ''&fmcSPL='' @ u8_dec2 fmc))"

definition vcek_verify ::
  "('k, 's, 'rk, 'rs) snp_lib \<Rightarrow> bytes \<Rightarrow> string option \<Rightarrow> vcek_id \<Rightarrow> vcek_piece res" where
  "vcek_verify L der _ = (\<lambda>(generation, chip_id, t).
     if generation = Turin \<and> tcb_fmc t = None then Inl (refused ''a Turin VCEK is named by its FMC SPL'')
     else
     and_then (verify_cert_chain L (get_ark (sn_roots L) generation) (get_ask (sn_roots L) generation) der) (\<lambda>_.
     and_then (check_vek_binding L der chip_id t generation) (\<lambda>_.
     and_then (ok_or (refused ''VCEK'') (x_cert (sn_x509 L) der)) (\<lambda>c.
     if sn_after_cert L der \<noteq> [] then Inl (refused ''VCEK has trailing bytes'')
     else Inr \<lparr>vp_der = der, vp_not_before = ct_not_before c, vp_not_after = ct_not_after c\<rparr>))))"

definition vcek_kind :: "('k, 's, 'rk, 'rs) snp_lib \<Rightarrow> (vcek_id, vcek_piece) kind" where
  "vcek_kind L =
     \<lparr>named_by_evidence = True,
      piece_name = vcek_name (sn_hex L),
      piece_url = vcek_url (sn_hex L),
      piece_verify = vcek_verify L,
      piece_dates = (\<lambda>p. window (vp_not_before p) (vp_not_after p) None),
      piece_floor = (\<lambda>_ _. None)\<rparr>"

section \<open>CRLs\<close>

record amd_crl_piece =
  ap_der :: bytes
  ap_generation :: processor_generation
  ap_key :: amd_key
  ap_this_update :: int
  ap_next_update :: int
  ap_number :: "u64 option"

type_synonym amd_crl_id = "processor_generation \<times> amd_key"

definition amd_crl_name :: "amd_crl_id \<Rightarrow> string" where
  "amd_crl_name = (\<lambda>(generation, key).
     ''amd-crl '' @ lower_name generation @ (if key = Vlek then '' vlek'' else []))"

definition amd_crl_url :: "amd_crl_id \<Rightarrow> string" where
  "amd_crl_url = (\<lambda>(generation, key).
     AMD_KDS @ ''/'' @ (case key of Vcek \<Rightarrow> ''vcek'' | Vlek \<Rightarrow> ''vlek'')
       @ ''/v1/'' @ product_name generation @ ''/crl'')"

definition amd_crl_verify ::
  "('k, 's, 'rk, 'rs) snp_lib \<Rightarrow> bytes \<Rightarrow> string option \<Rightarrow> amd_crl_id \<Rightarrow> amd_crl_piece res" where
  "amd_crl_verify L der _ = (\<lambda>(generation, key).
     and_then (ok_or (refused ''AMD CRL'') (x_crl (sn_x509 L) der)) (\<lambda>(rest, crl).
     if rest \<noteq> [] then Inl (refused ''AMD CRL has trailing bytes'')
     else and_then (ok_or (refused ''bundled ARK'') (x_cert (sn_x509 L) (get_ark (sn_roots L) generation))) (\<lambda>ark.
     if cl_issuer_raw crl \<noteq> ct_subject_raw ark then Inl (refused ''AMD CRL is not issued by the ARK'')
     else and_then (verify_crl_signature L crl der ark) (\<lambda>_.
     and_then (ok_or (refused ''AMD CRL has no nextUpdate'') (cl_next_update crl)) (\<lambda>next.
     Inr \<lparr>ap_der = der, ap_generation = generation, ap_key = key, ap_this_update = cl_last_update crl,
          ap_next_update = next, ap_number = crl_number (cl_number crl)\<rparr>)))))"

definition amd_crl_floor :: "amd_crl_id \<Rightarrow> version_floors \<Rightarrow> u64 option" where
  "amd_crl_floor = (\<lambda>(generation, _) floors. Some (case generation of
       Milan \<Rightarrow> amd_crl_milan floors
     | Genoa \<Rightarrow> amd_crl_genoa floors
     | Turin \<Rightarrow> amd_crl_turin floors))"

definition amd_crl_kind :: "('k, 's, 'rk, 'rs) snp_lib \<Rightarrow> (amd_crl_id, amd_crl_piece) kind" where
  "amd_crl_kind L =
     \<lparr>named_by_evidence = False,
      piece_name = amd_crl_name,
      piece_url = amd_crl_url,
      piece_verify = amd_crl_verify L,
      piece_dates = (\<lambda>p. window (ap_this_update p) (ap_next_update p) (ap_number p)),
      piece_floor = amd_crl_floor\<rparr>"

definition of_vek :: "x509_lib \<Rightarrow> bytes \<Rightarrow> amd_key res" where
  "of_vek x vek_der = and_then (is_vlek_cert x vek_der) (\<lambda>vlek. Inr (if vlek then Vlek else Vcek))"

section \<open>Lemmas\<close>

lemma amd_verify_simps [simp]:
  "piece_verify (vcek_kind L) = vcek_verify L" "piece_verify (amd_crl_kind L) = amd_crl_verify L"
  by (simp_all add: vcek_kind_def amd_crl_kind_def)

lemma vcek_verify_Inr:
  assumes "vcek_verify L der chain (gen, chip, t) = Inr p"
  shows "verify_cert_chain L (get_ark (sn_roots L) gen) (get_ask (sn_roots L) gen) der = Inr ()
    \<and> check_vek_binding L der chip t gen = Inr () \<and> vp_der p = der
    \<and> (gen = Turin \<longrightarrow> tcb_fmc t \<noteq> None)"
  using assms by (auto simp: vcek_verify_def res_simps split: if_splits)

lemma amd_crl_verify_Inr:
  assumes "amd_crl_verify L der chain (gen, key) = Inr p"
  obtains crl ark where "x_crl (sn_x509 L) der = Some ([], crl)"
    "x_cert (sn_x509 L) (get_ark (sn_roots L) gen) = Some ark" "cl_issuer_raw crl = ct_subject_raw ark"
    "verify_crl_signature L crl der ark = Inr ()" "ap_der p = der" "ap_generation p = gen" "ap_key p = key"
  using assms by (auto simp: amd_crl_verify_def res_simps split: if_splits)

lemma vek_common_name_not_panic [simp]: "vek_common_name c \<noteq> Inl Panicked"
  by (auto simp: vek_common_name_def err_simps split: list.splits)

lemma of_vek_not_panic [panic_free, simp]: "of_vek x d \<noteq> Inl Panicked" "is_vlek_cert x d \<noteq> Inl Panicked"
  by (auto simp: of_vek_def is_vlek_cert_def err_simps)

lemma check_vek_binding_not_panic [panic_free, simp]: "check_vek_binding L d chip t gen \<noteq> Inl Panicked"
  by (auto simp: check_vek_binding_def check_hw_id_def check_spl_def check_fmc_def err_simps
      split: if_splits option.splits prod.splits dest!: check_each_Inl)

lemma verify_crl_signature_not_panic [panic_free, simp]: "verify_crl_signature L c d i \<noteq> Inl Panicked"
  by (auto simp: verify_crl_signature_def extract_tbs_from_crl_der_def err_simps
      split: if_splits prod.splits)

lemma amd_verify_not_panic [panic_free]:
  "vcek_verify L der chain pid \<noteq> Inl Panicked" "amd_crl_verify L der chain cid \<noteq> Inl Panicked"
  by (auto simp: vcek_verify_def amd_crl_verify_def verify_cert_chain_def refused_def err_simps
      split: if_splits prod.splits)

text \<open>The address of a revocation list names it.\<close>

lemma amd_crl_url_inj: "amd_crl_url a = amd_crl_url b \<longleftrightarrow> a = b"
  by (cases a; cases b; cases "fst a"; cases "fst b"; cases "snd a"; cases "snd b")
     (simp_all add: amd_crl_url_def)

end
