(* ===== verification/Snp.thy ===== *)
theory Snp
  imports Amd Platform
begin

text \<open>
  The platform half of \<open>crates/attestation/src/platforms/snp/verify.rs\<close>: params, result,
  the collateral set, and the verification of bare-metal SEV-SNP evidence, with the
  measurement-register mode. Azure and Google guests are checked with the same operations.
\<close>

section \<open>Data\<close>

record snp_cert_chain =
  sc_vcek :: string
  sc_ask :: "string option"
  sc_ark :: "string option"

record snp_evidence =
  sne_report :: string
  sne_cert_chain :: "snp_cert_chain option"
  sne_event_log :: "string option"

record snp_params =
  sp_report_data :: "bytes option"
  sp_host_data :: "bytes option"
  sp_launch_digest :: "bytes list option"
  sp_allow_debug :: bool
  sp_min_tcb :: "snp_tcb option"
  sp_max_vmpl :: u32
  sp_registers :: "bytes list option"

definition default_snp_params :: snp_params where
  "default_snp_params = \<lparr>sp_report_data = None, sp_host_data = None, sp_launch_digest = None,
     sp_allow_debug = False, sp_min_tcb = None, sp_max_vmpl = 0, sp_registers = None\<rparr>"

definition snp_validate :: "snp_params \<Rightarrow> unit res" where
  "snp_validate p =
     (if (case sp_report_data p of None \<Rightarrow> False | Some d \<Rightarrow> length d > 64) then Inl (ReportDataTooLarge 64)
      else if (case sp_host_data p of None \<Rightarrow> False | Some d \<Rightarrow> length d > 32)
      then Inl (InvalidParams ''host_data exceeds 32 bytes'')
      else if (case sp_registers p of None \<Rightarrow> False | Some registers \<Rightarrow>
                 length registers > REGISTER_COUNT
                 \<or> (case sp_report_data p of None \<Rightarrow> True | Some d \<Rightarrow> length d \<noteq> 64)
                 \<or> sp_launch_digest p = None \<or> sp_max_vmpl p \<noteq> 0)
      then Inl (InvalidParams ''measurement_registers needs at most 16 values, a 64-byte report_data, launch_digest and VMPL 0'')
      else check_allowed_set ''launch_digest'' (sp_launch_digest p))"

record snp_result =
  sv_claims :: claims
  sv_report_data_match :: "bool option"
  sv_host_data_match :: "bool option"
  sv_launch_digest_match :: "bool option"
  sv_debug :: bool
  sv_allow_debug :: bool
  sv_migrate_ma :: bool
  sv_vmpl :: u32
  sv_max_vmpl :: u32
  sv_reported_tcb :: snp_tcb
  sv_min_tcb_met :: "bool option"
  sv_crl_ok :: "bool option"
  sv_registers :: "measurement_registers option"
  sv_registers_match :: "bool option"

definition snp_passed :: "snp_result \<Rightarrow> bool" where
  "snp_passed r =
     (all_held [sv_report_data_match r, sv_host_data_match r, sv_launch_digest_match r,
                sv_min_tcb_met r, sv_crl_ok r, sv_registers_match r]
      \<and> (\<not> sv_debug r \<or> sv_allow_debug r) \<and> \<not> sv_migrate_ma r \<and> sv_vmpl r \<le> sv_max_vmpl r)"

definition evaluate_report :: "hex_lib \<Rightarrow> snp_report \<Rightarrow> snp_params \<Rightarrow> bool option \<Rightarrow> snp_result" where
  "evaluate_report hx r p crl_ok =
     \<lparr>sv_claims = snp_extract_claims hx r, sv_report_data_match = None, sv_host_data_match = None,
      sv_launch_digest_match = match_any (sr_measurement r) (sp_launch_digest p),
      sv_debug = gp_debug (sr_policy r), sv_allow_debug = sp_allow_debug p,
      sv_migrate_ma = gp_migrate_ma (sr_policy r), sv_vmpl = sr_vmpl r, sv_max_vmpl = sp_max_vmpl p,
      sv_reported_tcb = snp_tcb_of (sr_reported_tcb r),
      sv_min_tcb_met = map_option (\<lambda>min. list_all (\<lambda>t. min_tcb_met (snp_tcb_of t) min)
        [sr_reported_tcb r, sr_committed_tcb r, sr_launch_tcb r]) (sp_min_tcb p),
      sv_crl_ok = crl_ok, sv_registers = None, sv_registers_match = None\<rparr>"

record snp_set =
  ss_vek :: bytes
  ss_crl :: amd_crl_piece

text \<open>The libraries of an SNP verification, and the store's environment.\<close>

record ('k, 's, 'rk, 'rs, 'w) snp_env =
  en_lib :: "('k, 's, 'rk, 'rs) snp_lib"
  en_store :: "'w store_env"

section \<open>Evidence\<close>

definition MIN_REPORT_VERSION :: u32 where "MIN_REPORT_VERSION = 3"
definition MAX_REPORT_VERSION :: u32 where "MAX_REPORT_VERSION = 5"

definition parse_evidence ::
  "('k, 's, 'rk, 'rs) snp_lib \<Rightarrow> snp_evidence \<Rightarrow> (bytes \<times> snp_report \<times> processor_generation) res" where
  "parse_evidence L ev =
     and_then (check_field_size ''attestation_report'' (length (sne_report ev))) (\<lambda>_.
     and_then (ok_or (EvidenceDeserialize ''base64 decode'') (sn_base64 L (sne_report ev))) (\<lambda>report_bytes.
     and_then (parse_report L report_bytes) (\<lambda>r.
     if sr_version r < MIN_REPORT_VERSION \<or> sr_version r > MAX_REPORT_VERSION
     then Inl (UnsupportedReportVersion (unat (sr_version r)) (unat MIN_REPORT_VERSION) (unat MAX_REPORT_VERSION))
     else (case (sr_cpuid_fam_id r, sr_cpuid_mod_id r) of
         (Some family, Some model) \<Rightarrow>
           and_then (ok_or (QuoteParseFailed ''unknown processor'') (from_cpuid family model)) (\<lambda>gen.
           Inr (report_bytes, r, gen))
       | _ \<Rightarrow> Inl (QuoteParseFailed ''v3+ SNP report missing CPUID fields'')))))"

definition inline_vek :: "('k, 's, 'rk, 'rs) snp_lib \<Rightarrow> snp_evidence \<Rightarrow> bytes option res" where
  "inline_vek L ev =
     map_check (\<lambda>chain. ok_or (CertChainError ''VCEK base64'') (sn_base64 L (sc_vcek chain))) (sne_cert_chain ev)"

definition genuine_report ::
  "('k, 's, 'rk, 'rs) snp_lib \<Rightarrow> snp_evidence \<Rightarrow> int \<Rightarrow> (snp_report \<times> processor_generation \<times> bytes option) res" where
  "genuine_report L ev now =
     and_then (parse_evidence L ev) (\<lambda>(_, r, gen).
     and_then (inline_vek L ev) (\<lambda>inline.
     and_then (case inline of None \<Rightarrow> Inr () | Some vek \<Rightarrow> check_report L r vek gen now) (\<lambda>_.
     Inr (r, gen, inline))))"

section \<open>Collateral\<close>

text \<open>\<open>SnpCollateralSet::gather\<close>: the two pieces are asked for one after the other, and
  their errors are looked at once both have been.\<close>

definition snp_set_gather ::
  "('k, 's, 'rk, 'rs, 'w) snp_env \<Rightarrow> snp_report \<Rightarrow> processor_generation \<Rightarrow> bytes option \<Rightarrow> int \<Rightarrow> store \<Rightarrow> 'w
     \<Rightarrow> (snp_set \<times> collateral_used list) res \<times> store \<times> 'w" where
  "snp_set_gather E r gen inline now s w =
     (let L = en_lib E; env = en_store E in
      case inline of
        Some vek \<Rightarrow>
          (case of_vek (sn_x509 L) vek of
             Inl e \<Rightarrow> (Inl e, s, w)
           | Inr key \<Rightarrow>
               let (got, s, w) = get env (amd_crl_kind L) (gen, key) now s w
               in (and_then got (\<lambda>(crl, u). Inr (\<lparr>ss_vek = vek, ss_crl = crl\<rparr>, [u])), s, w))
      | None \<Rightarrow>
          if list_all (\<lambda>b. b = 0) (sr_chip_id r)
          then (Inl (CertChainError ''evidence carries no VEK and the CHIP_ID is masked''), s, w)
          else
            let t = snp_tcb_of (sr_reported_tcb r) in
            if gen = Turin \<and> tcb_fmc t = None
            then (Inl (QuoteParseFailed ''Turin report missing FMC TCB field''), s, w)
            else
              let (r1, s, w) = get env (vcek_kind L) (gen, sr_chip_id r, t) now s w;
                  (r2, s, w) = get env (amd_crl_kind L) (gen, Vcek) now s w
              in (and_then r1 (\<lambda>(vcek, u1).
                  and_then (check_report L r (vp_der vcek) gen now) (\<lambda>_.
                  and_then r2 (\<lambda>(crl, u2).
                  Inr (\<lparr>ss_vek = vp_der vcek, ss_crl = crl\<rparr>, [u1, u2])))), s, w))"

definition snp_gather ::
  "('k, 's, 'rk, 'rs, 'w) snp_env \<Rightarrow> snp_evidence \<Rightarrow> int \<Rightarrow> store \<Rightarrow> 'w
     \<Rightarrow> (snp_set \<times> collateral_used list) res \<times> store \<times> 'w" where
  "snp_gather E ev now s w = (case genuine_report (en_lib E) ev now of
       Inl e \<Rightarrow> (Inl e, s, w)
     | Inr (r, gen, inline) \<Rightarrow> snp_set_gather E r gen inline now s w)"

definition vek_revoked ::
  "('k, 's, 'rk, 'rs) snp_lib \<Rightarrow> bytes \<Rightarrow> amd_crl_piece \<Rightarrow> processor_generation \<Rightarrow> bool res" where
  "vek_revoked L vek_der crl gen =
     and_then (of_vek (sn_x509 L) vek_der) (\<lambda>key.
     if (ap_generation crl, ap_key crl) \<noteq> (gen, key) then Inl (CertChainError ''collateral has another CRL'')
     else and_then (vek_issuer L vek_der gen) (\<lambda>issuer_der.
     and_then (ok_or (CertChainError ''VEK issuer x509 parse'') (x_cert (sn_x509 L) issuer_der)) (\<lambda>issuer.
     and_then (ok_or (CertChainError ''AMD CRL parse'') (x_crl (sn_x509 L) (ap_der crl))) (\<lambda>(_, l).
     Inr (list_ex (\<lambda>serial. serial = ct_raw_serial issuer) (cl_revoked l))))))"

section \<open>Verification\<close>

definition padded_match :: "bytes option \<Rightarrow> bytes \<Rightarrow> bool option res" where
  "padded_match expected actual =
     map_check (\<lambda>e. and_then (pad_report_data e (length actual)) (\<lambda>padded.
       Inr (constant_time_eq actual padded))) expected"

definition check_report_bindings :: "snp_result \<Rightarrow> snp_report \<Rightarrow> snp_params \<Rightarrow> snp_result res" where
  "check_report_bindings result r p =
     and_then (padded_match (sp_report_data p) (sr_report_data r)) (\<lambda>report_data.
     and_then (padded_match (sp_host_data p) (sr_host_data r)) (\<lambda>host_data.
     Inr (result\<lparr>sv_report_data_match := report_data, sv_host_data_match := host_data\<rparr>)))"

definition registers_match :: "bytes list \<Rightarrow> bytes list \<Rightarrow> bool" where
  "registers_match registers expected =
     list_all (\<lambda>(i, value). value = (case get_index expected i of Some e \<Rightarrow> e | None \<Rightarrow> replicate 48 0))
       (enumerate 0 registers)"

definition check_measurement_registers ::
  "('k, 's, 'rk, 'rs) snp_lib \<Rightarrow> snp_result \<Rightarrow> bytes \<Rightarrow> string option \<Rightarrow> bytes \<Rightarrow> bytes list \<Rightarrow> snp_result res" where
  "check_measurement_registers L result report_data event_log caller_data expected =
     (let event_log = (case event_log of Some l \<Rightarrow> l | None \<Rightarrow> []) in
      and_then (check_field_size ''event_log'' (length event_log)) (\<lambda>_.
      and_then (ok_or (EvidenceDeserialize ''event_log base64'') (sn_base64 L event_log)) (\<lambda>log.
      and_then (kmr_verify (sn_hash L) report_data log caller_data) (\<lambda>verified.
      let registers = (if sv_launch_digest_match result = Some True then verified else None);
          result = result\<lparr>sv_report_data_match := Some (registers \<noteq> None)\<rparr>;
          result = result\<lparr>sv_registers_match := Some (case registers of
              None \<Rightarrow> False | Some m \<Rightarrow> registers_match (mr_registers m) expected)\<rparr>
      in Inr (result\<lparr>sv_registers := (if snp_passed result then registers else None)\<rparr>)))))"

text \<open>The byte array of the caller's data has a length by its type; the conversion that
  cannot fail after \<open>validate\<close> is a read that panics.\<close>

definition snp_verify ::
  "('k, 's, 'rk, 'rs) snp_lib \<Rightarrow> snp_evidence \<Rightarrow> snp_params \<Rightarrow> snp_set \<Rightarrow> int \<Rightarrow> snp_result res" where
  "snp_verify L ev p c now =
     and_then (snp_validate p) (\<lambda>_.
     and_then (parse_evidence L ev) (\<lambda>(_, r, gen).
     and_then (check_report L r (ss_vek c) gen now) (\<lambda>_.
     and_then (vek_revoked L (ss_vek c) (ss_crl c) gen) (\<lambda>revoked.
     and_then (check_report_bindings (evaluate_report (sn_hex L) r p (Some (\<not> revoked))) r p) (\<lambda>result.
     case sp_registers p of
       None \<Rightarrow> Inr result
     | Some expected \<Rightarrow>
         and_then (ok_or Panicked (case sp_report_data p of
             Some d \<Rightarrow> if length d = 64 then Some d else None
           | None \<Rightarrow> None)) (\<lambda>caller_data.
         check_measurement_registers L result (sr_report_data r) (sne_event_log ev) caller_data expected))))))"

definition snp_platform ::
  "(json \<Rightarrow> snp_evidence option) \<Rightarrow> ('k, 's, 'rk, 'rs, 'w) snp_env
     \<Rightarrow> (snp_evidence, snp_params, snp_result, snp_set, 'w) platform" where
  "snp_platform decode E =
     \<lparr>pf_kind = Snp, pf_decode = decode, pf_validate = snp_validate,
      pf_gather = snp_gather E, pf_verify = snp_verify (en_lib E)\<rparr>"

section \<open>Params\<close>

lemma snp_validate_Inr_iff:
  "snp_validate p = Inr () \<longleftrightarrow>
     (\<forall>d. sp_report_data p = Some d \<longrightarrow> length d \<le> 64) \<and> (\<forall>d. sp_host_data p = Some d \<longrightarrow> length d \<le> 32)
     \<and> (\<forall>rs. sp_registers p = Some rs \<longrightarrow> length rs \<le> 16 \<and> (\<exists>d. sp_report_data p = Some d \<and> length d = 64)
          \<and> sp_launch_digest p \<noteq> None \<and> sp_max_vmpl p = 0)
     \<and> sp_launch_digest p \<noteq> Some []"
  by (auto simp: snp_validate_def res_simps not_less REGISTER_COUNT_def split: option.splits)

lemma snp_validate_Inl: "snp_validate p = Inl e \<Longrightarrow> is_invalid_params e"
  by (auto simp: snp_validate_def is_invalid_params_def split: if_splits
      dest!: check_allowed_set_Inl [unfolded is_invalid_params_def])

lemma snp_validate_not_panic [panic_free]: "snp_validate p \<noteq> Inl Panicked"
  using snp_validate_Inl [of p Panicked] by (auto simp: is_invalid_params_def)

section \<open>Reports\<close>

lemma parse_evidence_Inr:
  assumes "parse_evidence L ev = Inr (d, r, gen)"
  shows "sn_base64 L (sne_report ev) = Some d \<and> sn_report L d = Some r \<and> 3 \<le> sr_version r \<and> sr_version r \<le> 5
    \<and> (\<exists>f m. sr_cpuid_fam_id r = Some f \<and> sr_cpuid_mod_id r = Some m \<and> from_cpuid f m = Some gen)"
  using assms
  by (auto simp: parse_evidence_def parse_report_def res_simps not_less MIN_REPORT_VERSION_def
      MAX_REPORT_VERSION_def split: if_splits option.splits)

lemma genuine_report_Inr:
  assumes "genuine_report L ev now = Inr (r, gen, inline)"
  shows "\<exists>d. parse_evidence L ev = Inr (d, r, gen)
    \<and> (\<forall>vek. inline = Some vek \<longrightarrow> check_report L r vek gen now = Inr ())
    \<and> (inline = None \<longleftrightarrow> sne_cert_chain ev = None)"
  using assms by (auto simp: genuine_report_def inline_vek_def res_simps split: option.splits)

text \<open>What is checked of a report in either mode, and what of its \<open>REPORT_DATA\<close>.\<close>

definition report_meets :: "snp_params \<Rightarrow> snp_report \<Rightarrow> bool" where
  "report_meets p r \<longleftrightarrow> pinned (sp_launch_digest p) (sr_measurement r)
     \<and> padded_to (length (sr_host_data r)) (sp_host_data p) (sr_host_data r)
     \<and> (gp_debug (sr_policy r) \<longrightarrow> sp_allow_debug p) \<and> \<not> gp_migrate_ma (sr_policy r)
     \<and> sr_vmpl r \<le> sp_max_vmpl p
     \<and> (\<forall>m. sp_min_tcb p = Some m \<longrightarrow> min_tcb_met (snp_tcb_of (sr_reported_tcb r)) m
          \<and> min_tcb_met (snp_tcb_of (sr_committed_tcb r)) m \<and> min_tcb_met (snp_tcb_of (sr_launch_tcb r)) m)"

text \<open>The registers that a report commits to, for the caller's bytes: those of the log
  prefix that \<open>REPORT_DATA\<close> names.\<close>

definition commits_to ::
  "('k, 's, 'rk, 'rs) snp_lib \<Rightarrow> snp_evidence \<Rightarrow> snp_report \<Rightarrow> bytes \<Rightarrow> measurement_registers \<Rightarrow> bool" where
  "commits_to L ev r caller m \<longleftrightarrow>
     (\<exists>log. sn_base64 L (case sne_event_log ev of Some l \<Rightarrow> l | None \<Rightarrow> []) = Some log
        \<and> kmr_verify (sn_hash L) (sr_report_data r) log caller = Inr (Some m))"

definition caller_meets ::
  "('k, 's, 'rk, 'rs) snp_lib \<Rightarrow> snp_params \<Rightarrow> snp_evidence \<Rightarrow> snp_report \<Rightarrow> bool" where
  "caller_meets L p ev r \<longleftrightarrow> (case sp_registers p of
       None \<Rightarrow> padded_to (length (sr_report_data r)) (sp_report_data p) (sr_report_data r)
     | Some expected \<Rightarrow> (\<exists>d m. sp_report_data p = Some d \<and> commits_to L ev r d m
         \<and> registers_match (mr_registers m) expected))"

lemma padded_match_Inr [res_simps]:
  "padded_match e a = Inr b \<longleftrightarrow> (\<forall>x. e = Some x \<longrightarrow> length x \<le> length a)
     \<and> b = map_option (\<lambda>x. a = x @ replicate (length a - length x) 0) e"
  by (cases e) (auto simp: padded_match_def res_simps)

lemma commits_to_unique: "commits_to L ev r caller m \<Longrightarrow> commits_to L ev r caller n \<Longrightarrow> m = n"
  by (auto simp: commits_to_def)

lemma check_registers_Inr:
  assumes "check_measurement_registers L res (sr_report_data r) (sne_event_log ev) caller expected = Inr res'"
  obtains verified where
    "verified = (if sv_launch_digest_match res = Some True then verified else None)"
    "\<And>m. verified = Some m \<longleftrightarrow> sv_launch_digest_match res = Some True \<and> commits_to L ev r caller m"
    "sv_report_data_match res' = Some (verified \<noteq> None)"
    "sv_registers_match res' = Some (case verified of None \<Rightarrow> False | Some m \<Rightarrow> registers_match (mr_registers m) expected)"
    "sv_registers res' = (if snp_passed res' then verified else None)"
    "res' = res\<lparr>sv_report_data_match := sv_report_data_match res', sv_registers_match := sv_registers_match res',
       sv_registers := sv_registers res'\<rparr>"
proof -
  from assms obtain log v where
    l: "sn_base64 L (case sne_event_log ev of Some l \<Rightarrow> l | None \<Rightarrow> []) = Some log"
      "kmr_verify (sn_hash L) (sr_report_data r) log caller = Inr v"
    by (auto simp: check_measurement_registers_def res_simps Let_def)
  define u where "u = (if sv_launch_digest_match res = Some True then v else None)"
  have "res' = (let result = res\<lparr>sv_report_data_match := Some (u \<noteq> None),
       sv_registers_match := Some (case u of None \<Rightarrow> False | Some m \<Rightarrow> registers_match (mr_registers m) expected)\<rparr>
     in result\<lparr>sv_registers := (if snp_passed result then u else None)\<rparr>)"
    using assms l by (auto simp: check_measurement_registers_def res_simps Let_def u_def)
  then show thesis
    by (intro that [of u]) (use l in \<open>auto simp: u_def commits_to_def Let_def snp_passed_def\<close>)
qed

lemma snp_verify_Inr:
  assumes "snp_verify L ev p c now = Inr res"
  obtains d r gen rev res0 where
    "snp_validate p = Inr ()" "parse_evidence L ev = Inr (d, r, gen)"
    "check_report L r (ss_vek c) gen now = Inr ()" "vek_revoked L (ss_vek c) (ss_crl c) gen = Inr rev"
    "check_report_bindings (evaluate_report (sn_hex L) r p (Some (\<not> rev))) r p = Inr res0"
    "sp_registers p = None \<Longrightarrow> res = res0"
    "\<And>expected. sp_registers p = Some expected \<Longrightarrow> \<exists>caller. sp_report_data p = Some caller
       \<and> check_measurement_registers L res0 (sr_report_data r) (sne_event_log ev) caller expected = Inr res"
proof -
  from assms have v: "snp_validate p = Inr ()" by (simp add: snp_verify_def res_simps)
  from assms obtain d r gen where e: "parse_evidence L ev = Inr (d, r, gen)"
    by (auto simp: snp_verify_def res_simps)
  from assms v e have k: "check_report L r (ss_vek c) gen now = Inr ()"
    by (simp add: snp_verify_def res_simps)
  from assms v e k obtain rev res0 where
    b: "vek_revoked L (ss_vek c) (ss_crl c) gen = Inr rev"
      "check_report_bindings (evaluate_report (sn_hex L) r p (Some (\<not> rev))) r p = Inr res0"
    by (auto simp: snp_verify_def res_simps)
  show thesis
    by (rule that [OF v e k b]) (use assms v e k b in \<open>auto simp: snp_verify_def res_simps split: if_splits option.splits\<close>)
qed

text \<open>The whole meaning of a passing verdict.\<close>

lemma all_held_Cons: "all_held (x # xs) \<longleftrightarrow> x \<noteq> Some False \<and> all_held xs" "all_held []"
  by (auto simp: all_held_def)

lemma map_option_bool [simp]: "map_option P x \<noteq> Some False \<longleftrightarrow> (\<forall>y. x = Some y \<longrightarrow> P y)"
  by (cases x) auto

lemma bindings_passed_iff:
  assumes "check_report_bindings (evaluate_report hx r p (Some (\<not> rvk))) r p = Inr res"
  shows "snp_passed res \<longleftrightarrow>
      report_meets p r \<and> padded_to (length (sr_report_data r)) (sp_report_data p) (sr_report_data r) \<and> \<not> rvk"
    and "snp_passed (res\<lparr>sv_report_data_match := Some a, sv_registers_match := Some b, sv_registers := x\<rparr>) \<longleftrightarrow>
      report_meets p r \<and> a \<and> b \<and> \<not> rvk"
    and "sv_launch_digest_match res = match_any (sr_measurement r) (sp_launch_digest p)"
    and "sv_registers res = None"
proof -
  have res: "res = (evaluate_report hx r p (Some (\<not> rvk)))\<lparr>
      sv_report_data_match := map_option (\<lambda>x. sr_report_data r = x @ replicate (length (sr_report_data r) - length x) 0) (sp_report_data p),
      sv_host_data_match := map_option (\<lambda>x. sr_host_data r = x @ replicate (length (sr_host_data r) - length x) 0) (sp_host_data p)\<rparr>"
    using assms by (auto simp: check_report_bindings_def res_simps)
  note s = res evaluate_report_def snp_passed_def all_held_Cons report_meets_def
  show "snp_passed res \<longleftrightarrow>
      report_meets p r \<and> padded_to (length (sr_report_data r)) (sp_report_data p) (sr_report_data r) \<and> \<not> rvk"
    unfolding s by (simp del: all_held_iff map_option_bool) (auto simp: padded_to_def)
  show "snp_passed (res\<lparr>sv_report_data_match := Some a, sv_registers_match := Some b, sv_registers := x\<rparr>) \<longleftrightarrow>
      report_meets p r \<and> a \<and> b \<and> \<not> rvk"
    unfolding s by (simp del: all_held_iff map_option_bool) (auto simp: padded_to_def)
qed (use assms in \<open>auto simp: check_report_bindings_def evaluate_report_def res_simps\<close>)

lemma snp_verify_passed_iff:
  assumes v: "snp_verify L ev p c now = Inr res"
  obtains d r gen rev where
    "parse_evidence L ev = Inr (d, r, gen)" "check_report L r (ss_vek c) gen now = Inr ()"
    "vek_revoked L (ss_vek c) (ss_crl c) gen = Inr rev"
    "snp_passed res \<longleftrightarrow> report_meets p r \<and> caller_meets L p ev r \<and> \<not> rev"
    "\<And>m. sv_registers res = Some m \<longleftrightarrow> snp_passed res \<and> sp_registers p \<noteq> None
       \<and> (\<exists>caller. sp_report_data p = Some caller \<and> commits_to L ev r caller m)"
  using v
proof (rule snp_verify_Inr)
  fix d r gen rev res0
  assume v: "snp_validate p = Inr ()"
    and e: "parse_evidence L ev = Inr (d, r, gen)" "check_report L r (ss_vek c) gen now = Inr ()"
      "vek_revoked L (ss_vek c) (ss_crl c) gen = Inr rev"
    and b: "check_report_bindings (evaluate_report (sn_hex L) r p (Some (\<not> rev))) r p = Inr res0"
    and n: "sp_registers p = None \<Longrightarrow> res = res0"
    and s: "\<And>expected. sp_registers p = Some expected \<Longrightarrow> \<exists>caller. sp_report_data p = Some caller
       \<and> check_measurement_registers L res0 (sr_report_data r) (sne_event_log ev) caller expected = Inr res"
  note bp = bindings_passed_iff [OF b]
  show thesis
  proof (cases "sp_registers p")
    case None
    with n have "res = res0" by simp
    with None bp(1,4) show thesis by (intro that [OF e]) (auto simp: caller_meets_def)
  next
    case (Some expected)
    from s [OF this] obtain caller where rd: "sp_report_data p = Some caller"
      and k: "check_measurement_registers L res0 (sr_report_data r) (sne_event_log ev) caller expected = Inr res"
      by blast
    obtain pins where pins: "sp_launch_digest p = Some pins"
      using v Some by (auto simp: snp_validate_Inr_iff)
    from k show thesis
    proof (rule check_registers_Inr)
      fix u
      assume u: "\<And>m. u = Some m \<longleftrightarrow> sv_launch_digest_match res0 = Some True \<and> commits_to L ev r caller m"
        and m: "sv_report_data_match res = Some (u \<noteq> None)"
          "sv_registers_match res = Some (case u of None \<Rightarrow> False | Some m \<Rightarrow> registers_match (mr_registers m) expected)"
          "sv_registers res = (if snp_passed res then u else None)"
        and r: "res = res0\<lparr>sv_report_data_match := sv_report_data_match res,
          sv_registers_match := sv_registers_match res, sv_registers := sv_registers res\<rparr>"
      have "snp_passed res \<longleftrightarrow> snp_passed (res0\<lparr>sv_report_data_match := Some (u \<noteq> None),
          sv_registers_match := Some (case u of None \<Rightarrow> False | Some m \<Rightarrow> registers_match (mr_registers m) expected),
          sv_registers := sv_registers res\<rparr>)"
        using r m by metis
      then have pass: "snp_passed res \<longleftrightarrow> report_meets p r \<and> u \<noteq> None
          \<and> (case u of None \<Rightarrow> False | Some m \<Rightarrow> registers_match (mr_registers m) expected) \<and> \<not> rev"
        by (simp add: bp(2))
      have l: "sv_launch_digest_match res0 = Some True" if "report_meets p r"
        using that bp(3) pins by (auto simp: report_meets_def pinned_def)
      have "snp_passed res \<longleftrightarrow> report_meets p r \<and> caller_meets L p ev r \<and> \<not> rev"
        unfolding pass caller_meets_def using l u Some rd by (cases u) (auto dest: commits_to_unique)
      moreover have "sv_registers res = Some x \<longleftrightarrow> snp_passed res \<and> sp_registers p \<noteq> None
          \<and> (\<exists>caller. sp_report_data p = Some caller \<and> commits_to L ev r caller x)" for x
        using m(3) u l pass Some rd by auto
      ultimately show thesis by (intro that [OF e])
    qed
  qed
qed

section \<open>Collateral\<close>

lemma snp_gather_not_genuine:
  "genuine_report (en_lib E) ev now = Inl e \<Longrightarrow> snp_gather E ev now s w = (Inl e, s, w)"
  by (simp add: snp_gather_def)

lemma snp_set_gather_Inr:
  assumes g: "snp_set_gather E r gen inline now s w = (Inr (c, us), s', w')"
  obtains key b ch where "of_vek (sn_x509 (en_lib E)) (ss_vek c) = Inr key \<or> inline = None \<and> key = Vcek"
    "amd_crl_verify (en_lib E) b ch (gen, key) = Inr (ss_crl c)"
    "inline = Some (ss_vek c) \<or> inline = None \<and> check_report (en_lib E) r (ss_vek c) gen now = Inr ()
       \<and> (\<exists>b ch vp. vcek_verify (en_lib E) b ch (gen, sr_chip_id r, snp_tcb_of (sr_reported_tcb r)) = Inr vp
            \<and> ss_vek c = vp_der vp)"
proof (cases inline)
  case (Some vek)
  with g obtain key where key: "of_vek (sn_x509 (en_lib E)) vek = Inr key"
    by (auto simp: snp_set_gather_def Let_def split: sum.splits)
  obtain r1 s1 w1 where 1: "get (en_store E) (amd_crl_kind (en_lib E)) (gen, key) now s w = (r1, s1, w1)"
    by (metis prod.collapse)
  from g Some key 1 obtain u1 where "r1 = Inr (ss_crl c, u1)" and v: "ss_vek c = vek"
    by (auto simp: snp_set_gather_def Let_def res_simps)
  with get_Inr [OF 1 [unfolded this(1)]] key Some that show thesis by auto
next
  case None
  let ?id = "(gen, sr_chip_id r, snp_tcb_of (sr_reported_tcb r))"
  obtain r1 s1 w1 where 1: "get (en_store E) (vcek_kind (en_lib E)) ?id now s w = (r1, s1, w1)"
    by (metis prod.collapse)
  obtain r2 s2 w2 where 2: "get (en_store E) (amd_crl_kind (en_lib E)) (gen, Vcek) now s1 w1 = (r2, s2, w2)"
    by (metis prod.collapse)
  from g None 1 2 obtain vp u1 u2 where "r1 = Inr (vp, u1)" "r2 = Inr (ss_crl c, u2)"
      and k: "check_report (en_lib E) r (vp_der vp) gen now = Inr ()" "ss_vek c = vp_der vp"
    by (auto simp: snp_set_gather_def Let_def res_simps split: if_splits)
  note g = get_Inr [OF 1 [unfolded this(1)]] get_Inr [OF 2 [unfolded this(2)]]
  from g(2) obtain b ch where "amd_crl_verify (en_lib E) b ch (gen, Vcek) = Inr (ss_crl c)" by auto
  with g(1) k None show thesis by (intro that [of Vcek b ch]) auto
qed

section \<open>No panics\<close>

lemma padded_match_not_panic [simp]: "padded_match e a \<noteq> Inl Panicked"
  by (auto simp: padded_match_def map_check_Inl_iff err_simps pad_report_data_not_panic)

lemma check_report_not_panic [panic_free, simp]: "check_report L r vek gen now \<noteq> Inl Panicked"
  by (auto simp: check_report_def verify_vek_endorsement_def verify_cert_chain_def vek_issuer_def
      verify_vek_validity_period_def verify_vcek_tcb_def asn1_time_def err_simps split: if_splits)

lemma parse_evidence_not_panic [panic_free, simp]: "parse_evidence L ev \<noteq> Inl Panicked"
  by (auto simp: parse_evidence_def parse_report_def err_simps check_field_size_not_panic
      split: if_splits option.splits)

lemma genuine_report_not_panic [panic_free, simp]: "genuine_report L ev now \<noteq> Inl Panicked"
  by (auto simp: genuine_report_def inline_vek_def err_simps map_check_Inl_iff split: option.splits)

lemma vek_revoked_not_panic [panic_free, simp]: "vek_revoked L vek crl gen \<noteq> Inl Panicked"
  by (auto simp: vek_revoked_def vek_issuer_def err_simps split: if_splits)

lemma check_registers_not_panic [panic_free, simp]:
  "check_measurement_registers L res rd log caller expected \<noteq> Inl Panicked"
  by (auto simp: check_measurement_registers_def err_simps check_field_size_not_panic
      kmr_verify_not_panic Let_def)

lemma snp_verify_not_panic [panic_free]: "snp_verify L ev p c now \<noteq> Inl Panicked"
  by (auto simp: snp_verify_def and_then_Inl_iff ok_or_Inl_iff snp_validate_not_panic
      check_report_bindings_def snp_validate_Inr_iff split: option.splits if_splits)

section \<open>The platform contract\<close>

text \<open>Before any fetch: the report parses, and a VEK that came with it has signed it.\<close>

definition snp_admissible :: "('k, 's, 'rk, 'rs) snp_lib \<Rightarrow> snp_evidence \<Rightarrow> int \<Rightarrow> bool" where
  "snp_admissible L ev now \<longleftrightarrow> (\<exists>d r gen. parse_evidence L ev = Inr (d, r, gen)
     \<and> (\<forall>chain. sne_cert_chain ev = Some chain \<longrightarrow>
          (\<exists>vek. sn_base64 L (sc_vcek chain) = Some vek \<and> check_report L r vek gen now = Inr ())))"

definition snp_genuine :: "('k, 's, 'rk, 'rs) snp_lib \<Rightarrow> snp_evidence \<Rightarrow> bytes \<Rightarrow> int \<Rightarrow> bool" where
  "snp_genuine L ev vek now \<longleftrightarrow>
     (\<exists>d r gen. parse_evidence L ev = Inr (d, r, gen) \<and> check_report L r vek gen now = Inr ())"

lemma genuine_report_admissible: "genuine_report L ev now = Inr x \<Longrightarrow> snp_admissible L ev now"
  by (auto simp: genuine_report_def inline_vek_def snp_admissible_def res_simps split: option.splits)

lemma snp_gather_forged: "\<not> snp_admissible (en_lib E) ev now \<Longrightarrow> \<exists>e. snp_gather E ev now s w = (Inl e, s, w)"
  using genuine_report_admissible by (cases "genuine_report (en_lib E) ev now") (force simp: snp_gather_def)+

lemma snp_verify_genuine: "snp_verify L ev p c now = Inr r \<Longrightarrow> snp_genuine L ev (ss_vek c) now"
  by (erule snp_verify_Inr) (auto simp: snp_genuine_def)

interpretation snp_code: checked_platform "snp_platform dec E" "snp_admissible (en_lib E)"
    "\<lambda>ev c. snp_genuine (en_lib E) ev (ss_vek c)"
  for dec and E :: "('k, 's, 'rk, 'rs, 'w) snp_env"
  by unfold_locales
    (auto simp: snp_platform_def snp_gather_forged intro: snp_validate_Inl snp_verify_genuine)

end
