(* ===== verification/SnpToy.thy ===== *)
theory SnpToy
  imports Snp TdxToy
begin

text \<open>
  A small instance of the libraries of an SNP verification, and evidence that passes in it:
  a Milan report with its key certificate, whose \<open>REPORT_DATA\<close> commits to a log of one
  event. It shows that the hypotheses of the SNP properties can hold together.
\<close>

text \<open>The stand-in for SHA-384 gives 48 bytes and keeps the last ones it is given.\<close>

definition toy_rev_sha :: hash_lib where
  "toy_rev_sha = \<lparr>sha256 = (\<lambda>_. replicate 32 0), sha384 = (\<lambda>b. take 48 (rev b @ replicate 48 0))\<rparr>"

definition toy_events :: "(u8 \<times> bytes) list" where
  "toy_events = [(0, replicate 48 5)]"

definition toy_registers :: "bytes list" where
  "toy_registers = map (\<lambda>i. extend_all toy_rev_sha (kmr_digests i toy_events)) [0..<16]"

definition toy_caller :: bytes where
  "toy_caller = replicate 64 7"

definition toy_tcb :: tcb_version where
  "toy_tcb = \<lparr>tv_bootloader = 2, tv_tee = 2, tv_snp = 2, tv_microcode = 2, tv_fmc = None\<rparr>"

definition toy_report :: snp_report where
  "toy_report = \<lparr>sr_version = 3, sr_guest_svn = 0,
     sr_policy = \<lparr>gp_abi_major = 0, gp_abi_minor = 0, gp_smt_allowed = False, gp_migrate_ma = False,
       gp_debug = False, gp_single_socket = False, gp_raw = 0\<rparr>,
     sr_vmpl = 0, sr_sig_algo = 1, sr_tsme_enabled = False, sr_smt_enabled = False,
     sr_current = \<lparr>fw_build = 0, fw_minor = 0, fw_major = 0\<rparr>,
     sr_committed = \<lparr>fw_build = 0, fw_minor = 0, fw_major = 0\<rparr>,
     sr_report_data = kmr_report_data toy_rev_sha 1 toy_registers toy_caller,
     sr_measurement = replicate 48 3, sr_host_data = replicate 32 0, sr_chip_id = replicate 64 1,
     sr_reported_tcb = toy_tcb, sr_committed_tcb = toy_tcb, sr_launch_tcb = toy_tcb,
     sr_cpuid_fam_id = Some 0x19, sr_cpuid_mod_id = Some 1\<rparr>"

definition toy_vek_cert :: cert where
  "toy_vek_cert = toy_cert\<lparr>ct_subject_cns := [Some ''SEV-VCEK''],
     ct_extensions := [(HW_ID_OID, replicate 64 1), (LOADER_SPL_OID, [2]), (TEE_SPL_OID, [2]),
       (SNP_SPL_OID, [2]), (UCODE_SPL_OID, [2])]\<rparr>"

definition toy_amd_crl :: crl where
  "toy_amd_crl = toy_crl\<lparr>cl_alg := OID_ECDSA_WITH_SHA384, cl_number := Some [12]\<rparr>"

definition toy_snp_x509 :: x509_lib where
  "toy_snp_x509 = toy_x509\<lparr>x_cert := (\<lambda>_. Some toy_vek_cert), x_crl := (\<lambda>_. Some ([], toy_amd_crl))\<rparr>"

definition toy_snp_lib :: "(unit, unit, unit, unit) snp_lib" where
  "toy_snp_lib = \<lparr>sn_hash = toy_rev_sha, sn_hex = toy_hex,
     sn_base64 = (\<lambda>s. Some (if s = ''log'' then kmr_log toy_events else [])), sn_x509 = toy_snp_x509,
     sn_roots = \<lparr>MILAN_ARK = [1], MILAN_ASK = [2], MILAN_ASVK = [3], GENOA_ARK = [4], GENOA_ASK = [5],
       GENOA_ASVK = [6], TURIN_ARK = [7], TURIN_ASK = [8], TURIN_ASVK = [9]\<rparr>,
     sn_report = (\<lambda>_. Some toy_report), sn_chain_parses = (\<lambda>_ _ _. True), sn_chain_verifies = (\<lambda>_ _ _. True),
     sn_cert_parses = (\<lambda>_. True), sn_signed_by = (\<lambda>_ _. True),
     sn_der_u8 = (\<lambda>v. Some (hd v)), sn_der_octets = (\<lambda>_. None), sn_der_header = (\<lambda>d. Some (True, d)),
     sn_der_tlv = (\<lambda>d. Some d), sn_after_cert = (\<lambda>_. []), sn_spki = (\<lambda>_. []), sn_p384 = toy_ec,
     sn_p384_spki = (\<lambda>_. None), sn_pss = \<lparr>pss_key = (\<lambda>_. None), pss_sig = (\<lambda>_. None), pss_verify = (\<lambda>_ _ _. False)\<rparr>\<rparr>"

definition toy_snp_evidence :: snp_evidence where
  "toy_snp_evidence = \<lparr>sne_report = ''report'',
     sne_cert_chain = Some \<lparr>sc_vcek = ''vek'', sc_ask = None, sc_ark = None\<rparr>, sne_event_log = Some ''log''\<rparr>"

definition toy_snp_params :: snp_params where
  "toy_snp_params = \<lparr>sp_report_data = Some toy_caller, sp_host_data = Some [], 
     sp_launch_digest = Some [replicate 48 3], sp_allow_debug = False,
     sp_min_tcb = Some (snp_tcb_of toy_tcb), sp_max_vmpl = 0, sp_registers = Some toy_registers\<rparr>"

definition toy_snp_set :: snp_set where
  "toy_snp_set = \<lparr>ss_vek = [], ss_crl = \<lparr>ap_der = [], ap_generation = Milan, ap_key = Vcek,
     ap_this_update = 0, ap_next_update = 100, ap_number = Some 12\<rparr>\<rparr>"

definition toy_snp_env :: "'w store_env \<Rightarrow> (unit, unit, unit, unit, 'w) snp_env" where
  "toy_snp_env se = \<lparr>en_lib = toy_snp_lib, en_store = se\<rparr>"

definition toy_store_of :: "(string \<Rightarrow> bytes) \<Rightarrow> store" where
  "toy_store_of body = held_only\<lparr>st_held := (\<lambda>url. Some (body url, None))\<rparr>"

definition toy_snp_store :: store where
  "toy_snp_store = toy_store_of (\<lambda>_. [])"

lemma toy_snp_simps [simp]:
  "sn_hash toy_snp_lib = toy_rev_sha" "sn_hex toy_snp_lib = toy_hex" "sn_x509 toy_snp_lib = toy_snp_x509"
  "sn_base64 toy_snp_lib s = Some (if s = ''log'' then kmr_log toy_events else [])"
  "sn_report toy_snp_lib d = Some toy_report" "sn_chain_parses toy_snp_lib a b c" "sn_chain_verifies toy_snp_lib a b c"
  "sn_cert_parses toy_snp_lib d" "sn_signed_by toy_snp_lib d r" "sn_der_u8 toy_snp_lib v = Some (hd v)"
  "sn_der_octets toy_snp_lib v = None" "sn_p384 toy_snp_lib = toy_ec"
  "sn_der_header toy_snp_lib d = Some (True, d)" "sn_der_tlv toy_snp_lib d = Some d"
  "x_cert toy_snp_x509 d = Some toy_vek_cert" "x_crl toy_snp_x509 d = Some ([], toy_amd_crl)" "x_time_ok toy_snp_x509 t"
  by (simp_all add: toy_snp_lib_def toy_snp_x509_def)

lemma toy_vlek: "is_vlek_cert toy_snp_x509 d = Inr False"
proof -
  have "\<not> contains_str ''VLEK'' ''SEV-VCEK''" by code_simp
  then show ?thesis by (simp add: is_vlek_cert_def vek_common_name_def toy_vek_cert_def)
qed

lemma toy_parse_evidence: "parse_evidence toy_snp_lib toy_snp_evidence = Inr ([], toy_report, Milan)"
  by (simp add: parse_evidence_def parse_report_def toy_snp_evidence_def toy_report_def check_field_size_def
      MAX_EVIDENCE_FIELD_SIZE_def MIN_REPORT_VERSION_def MAX_REPORT_VERSION_def from_cpuid_def)

lemma toy_spls:
  "spl_is toy_snp_lib toy_vek_cert LOADER_SPL_OID 2" "spl_is toy_snp_lib toy_vek_cert TEE_SPL_OID 2"
  "spl_is toy_snp_lib toy_vek_cert SNP_SPL_OID 2" "spl_is toy_snp_lib toy_vek_cert UCODE_SPL_OID 2"
  by (simp_all add: spl_is_def find_ext_def toy_vek_cert_def LOADER_SPL_OID_def TEE_SPL_OID_def
      SNP_SPL_OID_def UCODE_SPL_OID_def HW_ID_OID_def)

lemma toy_binding: "check_vek_binding toy_snp_lib d (replicate 64 1) (snp_tcb_of toy_tcb) Milan = Inr ()"
proof -
  have c: "chip_is toy_snp_lib toy_vek_cert Milan (replicate 64 1)"
    by (simp add: chip_is_def find_ext_def toy_vek_cert_def get_oid_octets_def)
  have "ct_subject_cns toy_vek_cert = [Some ''SEV-VCEK'']" by (simp add: toy_vek_cert_def)
  with c toy_spls show ?thesis
    by (simp add: check_vek_binding_Inr_iff snp_tcb_of_def toy_tcb_def)
qed

lemma toy_check_report: "check_report toy_snp_lib toy_report d Milan 50 = Inr ()"
proof -
  have "verify_vek_validity_period toy_snp_x509 d 50 = Inr ()"
    by (simp add: verify_vek_validity_period_def asn1_time_def toy_vek_cert_def toy_cert_def)
  moreover have "verify_vcek_tcb toy_snp_lib toy_report d Milan = Inr ()"
    using toy_binding by (simp add: verify_vcek_tcb_def toy_report_def)
  ultimately show ?thesis
    by (simp add: check_report_Inr_iff verify_vek_endorsement_def vek_issuer_def toy_vlek verify_cert_chain_def)
qed

lemma toy_of_vek: "of_vek toy_snp_x509 d = Inr Vcek"
  by (simp add: of_vek_def toy_vlek)

lemma toy_not_revoked: "vek_revoked toy_snp_lib d (ss_crl toy_snp_set) Milan = Inr False"
  by (simp add: vek_revoked_def toy_of_vek vek_issuer_def toy_vlek toy_snp_set_def toy_amd_crl_def toy_crl_def)

lemma toy_rev_sha_length: "length (sha384 toy_rev_sha b) = 48"
  by (simp add: toy_rev_sha_def)

lemma toy_replay: "kmr_replay toy_rev_sha (kmr_log toy_events) 1 = Inr (Some toy_registers)"
  by (subst kmr_replay_log) (simp_all add: toy_events_def kmr_entry_ok_def REGISTER_COUNT_def toy_registers_def)

lemma toy_commits:
  "commits_to toy_snp_lib toy_snp_evidence toy_report toy_caller \<lparr>mr_event_count = 1, mr_registers = toy_registers\<rparr>"
proof -
  have "length toy_caller = 64" by (simp add: toy_caller_def)
  then show ?thesis
    by (simp add: commits_to_def toy_snp_evidence_def kmr_verify_Some_iff toy_replay) (simp add: toy_report_def)
qed

lemma registers_match_refl: "registers_match rs rs"
  by (auto simp: registers_match_def list_all_iff in_set_enumerate_eq get_index_def)

lemma toy_snp_validate: "snp_validate toy_snp_params = Inr ()"
  by (simp add: snp_validate_Inr_iff toy_snp_params_def toy_caller_def toy_registers_def)

lemma toy_snp_verifies: "\<exists>res. snp_verify toy_snp_lib toy_snp_evidence toy_snp_params toy_snp_set 50 = Inr res"
proof -
  obtain m where m: "kmr_verify toy_rev_sha (sr_report_data toy_report) (kmr_log toy_events) toy_caller = Inr m"
    using toy_commits by (auto simp: commits_to_def toy_snp_evidence_def)
  have "length (sr_report_data toy_report) = 64" "length (sr_host_data toy_report) = 32" "length toy_caller = 64"
    by (simp_all add: toy_report_def kmr_report_data_def toy_rev_sha_def toy_caller_def)
  then have b: "\<exists>res0. check_report_bindings res1 toy_report toy_snp_params = Inr res0" for res1
    by (simp add: check_report_bindings_def res_simps toy_snp_params_def)
  have r: "sp_registers toy_snp_params = Some toy_registers" "sp_report_data toy_snp_params = Some toy_caller"
    "length toy_caller = 64" "sne_event_log toy_snp_evidence = Some ''log''"
    by (simp_all add: toy_snp_params_def toy_caller_def toy_snp_evidence_def)
  have k: "\<exists>res. check_measurement_registers toy_snp_lib res0 (sr_report_data toy_report) (Some ''log'') toy_caller toy_registers
      = Inr res" for res0
    by (simp add: check_measurement_registers_def check_field_size_def MAX_EVIDENCE_FIELD_SIZE_def m Let_def)
  obtain res0 where "check_report_bindings (evaluate_report toy_hex toy_report toy_snp_params (Some True)) toy_report toy_snp_params
      = Inr res0"
    using b by blast
  then show ?thesis
    using k by (simp add: snp_verify_def toy_snp_validate toy_parse_evidence toy_check_report toy_not_revoked r)
qed

lemma toy_report_meets: "report_meets toy_snp_params toy_report" "caller_meets toy_snp_lib toy_snp_params toy_snp_evidence toy_report"
proof -
  show "report_meets toy_snp_params toy_report"
    by (simp add: report_meets_def toy_snp_params_def toy_report_def pinned_def padded_to_def)
  show "caller_meets toy_snp_lib toy_snp_params toy_snp_evidence toy_report"
    using toy_commits registers_match_refl [of toy_registers]
    by (auto simp: caller_meets_def toy_snp_params_def intro!: exI [of _ "\<lparr>mr_event_count = 1, mr_registers = toy_registers\<rparr>"])
qed

section \<open>A run against held collateral\<close>

lemma toy_amd_crl_verifies: "amd_crl_verify toy_snp_lib [] c (Milan, Vcek) = Inr (ss_crl toy_snp_set)"
  by (simp add: amd_crl_verify_def toy_snp_set_def verify_crl_signature_def extract_tbs_from_crl_der_def
      toy_amd_crl_def toy_crl_def toy_vek_cert_def toy_cert_def OID_ECDSA_WITH_SHA384_def OID_RSA_PSS_def
      require_def crl_number_def)

lemma toy_genuine_report: "genuine_report toy_snp_lib toy_snp_evidence 50 = Inr (toy_report, Milan, Some [])"
  by (simp add: genuine_report_def toy_parse_evidence inline_vek_def)
     (simp add: toy_snp_evidence_def toy_check_report)

lemma toy_snp_set_gathers:
  assumes "body (amd_crl_url (Milan, Vcek)) = []"
  shows "\<exists>us. snp_set_gather (toy_snp_env se) toy_report Milan (Some []) 50 (toy_store_of body) w
    = (Inr (toy_snp_set, us), toy_store_of body, w)"
proof -
  have "\<exists>u. get se (amd_crl_kind toy_snp_lib) (Milan, Vcek) 50 (toy_store_of body) w
      = (Inr (ss_crl toy_snp_set, u), toy_store_of body, w)"
    by (rule get_held [of _ _ _ "[]" None])
       (simp_all add: assms toy_amd_crl_verifies toy_store_of_def held_only_def passes_def amd_crl_kind_def
          amd_crl_floor_def default_floors_def acceptable_iff window_def is_none_or_def toy_snp_set_def)
  then show ?thesis
    by (auto simp: toy_snp_env_def snp_set_gather_def toy_of_vek) (simp add: toy_snp_set_def)
qed

lemma toy_snp_gathers:
  "\<exists>us. snp_gather (toy_snp_env se) toy_snp_evidence 50 toy_snp_store w = (Inr (toy_snp_set, us), toy_snp_store, w)"
proof -
  have "en_lib (toy_snp_env se) = toy_snp_lib" by (simp add: toy_snp_env_def)
  then show ?thesis
    using toy_snp_set_gathers [of "\<lambda>_. []" se w] by (simp add: snp_gather_def toy_genuine_report toy_snp_store_def)
qed

lemma toy_snp_run:
  "\<exists>r us. run (snp_platform (\<lambda>_. Some toy_snp_evidence) (toy_snp_env se)) JNull (Some toy_snp_params) 50 toy_snp_store w
     = (Inr (r, us), toy_snp_store, w)"
proof -
  obtain us where "snp_gather (toy_snp_env se) toy_snp_evidence 50 toy_snp_store w = (Inr (toy_snp_set, us), toy_snp_store, w)"
    using toy_snp_gathers by metis
  moreover obtain r where "snp_verify toy_snp_lib toy_snp_evidence toy_snp_params toy_snp_set 50 = Inr r"
    using toy_snp_verifies by blast
  moreover have "en_lib (toy_snp_env se) = toy_snp_lib" by (simp add: toy_snp_env_def)
  ultimately show ?thesis
    by (simp add: run_def snp_platform_def toy_snp_validate)
qed

end
