(* ===== verification/SnpProps.thy ===== *)
theory SnpProps
  imports SnpToy
begin

text \<open>
  The properties of SEV-SNP verification: what a passing verdict means, which collateral it
  was reached with, what a key certificate vouches for, and what the measurement registers
  say about the guest's event log.
\<close>

section \<open>Verdicts\<close>

text \<open>C4: A verdict on SNP evidence is about a report of version 3 to 5 that the VEK of the
  collateral signed, and it passes exactly when the report meets the params (launch digest,
  HOST_DATA, debug, migration, VMPL, and the minimum TCB by the reported, the committed and
  the launch TCB), its REPORT_DATA is the expected one, or in measurement-register mode
  commits to the log and the caller's bytes with the expected registers, and AMD's CRL does
  not list the issuer of the VEK. Registers are reported only in that mode, with a passing
  verdict, and are the ones the report commits to.\<close>

theorem snp_verdict_meaning:
  assumes "snp_verify L ev p c now = Inr res"
  shows "\<exists>d r gen rvk. parse_evidence L ev = Inr (d, r, gen) \<and> 3 \<le> sr_version r \<and> sr_version r \<le> 5
    \<and> check_report L r (ss_vek c) gen now = Inr () \<and> vek_revoked L (ss_vek c) (ss_crl c) gen = Inr rvk
    \<and> (snp_passed res \<longleftrightarrow> report_meets p r \<and> caller_meets L p ev r \<and> \<not> rvk)
    \<and> (\<forall>m. sv_registers res = Some m \<longleftrightarrow> snp_passed res \<and> sp_registers p \<noteq> None
         \<and> (\<exists>caller. sp_report_data p = Some caller \<and> commits_to L ev r caller m))"
  by (rule snp_verify_passed_iff [OF assms]) (use parse_evidence_Inr in blast)

theorem snp_verdict_meaning_witness:
  "\<exists>res m. snp_verify toy_snp_lib toy_snp_evidence toy_snp_params toy_snp_set 50 = Inr res
    \<and> snp_passed res \<and> sv_registers res = Some m \<and> mr_registers m = toy_registers"
proof -
  obtain res where res: "snp_verify toy_snp_lib toy_snp_evidence toy_snp_params toy_snp_set 50 = Inr res"
    using toy_snp_verifies by blast
  have p: "sp_registers toy_snp_params \<noteq> None" "sp_report_data toy_snp_params = Some toy_caller"
    by (simp_all add: toy_snp_params_def)
  from snp_verdict_meaning [OF res] have "snp_passed res"
    "\<And>m. sv_registers res = Some m \<longleftrightarrow> commits_to toy_snp_lib toy_snp_evidence toy_report toy_caller m"
    using toy_report_meets by (auto simp: toy_parse_evidence toy_not_revoked p)
  with res toy_commits show ?thesis by auto
qed

text \<open>Whether the checks can be made does not depend on the minimum TCB.\<close>

lemma check_registers_total:
  "check_measurement_registers L res rd log caller expected = Inr res0 \<Longrightarrow>
     \<exists>res'. check_measurement_registers L res1 rd log caller expected = Inr res'"
  unfolding check_measurement_registers_def Let_def and_then_Inr_iff by blast

lemma snp_verifies_min_tcb:
  assumes "snp_verify L ev p c now = Inr res"
  shows "\<exists>res'. snp_verify L ev (p\<lparr>sp_min_tcb := x\<rparr>) c now = Inr res'"
  using assms
proof (rule snp_verify_Inr)
  fix d r gen rvk res0
  let ?p = "p\<lparr>sp_min_tcb := x\<rparr>"
  assume v: "snp_validate p = Inr ()"
    and e: "parse_evidence L ev = Inr (d, r, gen)" "check_report L r (ss_vek c) gen now = Inr ()"
      "vek_revoked L (ss_vek c) (ss_crl c) gen = Inr rvk"
    and b: "check_report_bindings (evaluate_report (sn_hex L) r p (Some (\<not> rvk))) r p = Inr res0"
    and s: "\<And>expected. sp_registers p = Some expected \<Longrightarrow> \<exists>caller. sp_report_data p = Some caller
       \<and> check_measurement_registers L res0 (sr_report_data r) (sne_event_log ev) caller expected = Inr res"
  have v': "snp_validate ?p = Inr ()"
    using v by (simp add: snp_validate_Inr_iff)
  obtain res1 where b': "check_report_bindings (evaluate_report (sn_hex L) r ?p (Some (\<not> rvk))) r ?p = Inr res1"
    using b by (auto simp: check_report_bindings_def res_simps)
  show ?thesis
  proof (cases "sp_registers p")
    case None
    then show ?thesis by (simp add: snp_verify_def v' e b')
  next
    case (Some expected)
    with s obtain caller where c: "sp_report_data p = Some caller" "length caller = 64"
      "check_measurement_registers L res0 (sr_report_data r) (sne_event_log ev) caller expected = Inr res"
      using v by (auto simp: snp_validate_Inr_iff)
    then obtain res2 where
      "check_measurement_registers L res1 (sr_report_data r) (sne_event_log ev) caller expected = Inr res2"
      using check_registers_total by blast
    with Some c show ?thesis by (simp add: snp_verify_def v' e b')
  qed
qed

text \<open>A guest that passes with a minimum TCB passes with every lower minimum, the rest of
  the params and the collateral unchanged.\<close>

theorem lower_minimum_still_passes:
  assumes "snp_verify L ev p c now = Inr res" "snp_passed res"
    and "sp_min_tcb p = Some m" "min_tcb_met m m'"
  shows "\<exists>res'. snp_verify L ev (p\<lparr>sp_min_tcb := Some m'\<rparr>) c now = Inr res' \<and> snp_passed res'"
proof -
  have "\<exists>res'. snp_verify L ev (p\<lparr>sp_min_tcb := Some m'\<rparr>) c now = Inr res'"
    by (rule snp_verifies_min_tcb [OF assms(1)])
  then obtain res' where r: "snp_verify L ev (p\<lparr>sp_min_tcb := Some m'\<rparr>) c now = Inr res'" ..
  have lower: "report_meets p r \<Longrightarrow> report_meets (p\<lparr>sp_min_tcb := Some m'\<rparr>) r" for r
    using assms(3,4) by (auto simp: report_meets_def intro: min_tcb_met_trans)
  have "caller_meets L (p\<lparr>sp_min_tcb := Some m'\<rparr>) ev r = caller_meets L p ev r" for r
    by (cases "sp_registers p") (simp_all add: caller_meets_def)
  then have "snp_passed res'"
    by (rule_tac snp_verify_passed_iff [OF assms(1)], rule_tac snp_verify_passed_iff [OF r])
       (use assms(2) lower in auto)
  with r show ?thesis by blast
qed

theorem lower_minimum_still_passes_witness:
  "\<exists>res. snp_verify toy_snp_lib toy_snp_evidence
      (toy_snp_params\<lparr>sp_min_tcb := Some (snp_tcb_of (toy_tcb\<lparr>tv_snp := 1\<rparr>))\<rparr>) toy_snp_set 50 = Inr res \<and> snp_passed res"
proof -
  obtain res where res: "snp_verify toy_snp_lib toy_snp_evidence toy_snp_params toy_snp_set 50 = Inr res"
    using toy_snp_verifies by blast
  have "snp_passed res"
    by (rule snp_verify_passed_iff [OF res])
       (use toy_report_meets in \<open>simp add: toy_parse_evidence toy_not_revoked\<close>)
  then show ?thesis
    using lower_minimum_still_passes [OF res, of "snp_tcb_of toy_tcb" "snp_tcb_of (toy_tcb\<lparr>tv_snp := 1\<rparr>)"]
    by (simp add: toy_snp_params_def min_tcb_met_iff snp_tcb_of_def toy_tcb_def)
qed

section \<open>Collateral\<close>

text \<open>C9: A run judges a report that the carried VEK signed or, when none is carried, the
  VCEK fetched for the report's chip and TCB; and the revocation list it looks at was signed
  by the bundled ARK of the report's generation and is the one for that kind of key.\<close>

theorem snp_run_trusts_amds_collateral:
  assumes r: "run (snp_platform dec E) j params now s w = (Inr (res, us), s', w')"
  shows "\<exists>p ev d r gen c key crl ark. params = Some p \<and> dec j = Some ev
    \<and> parse_evidence (en_lib E) ev = Inr (d, r, gen) \<and> snp_verify (en_lib E) ev p c now = Inr res
    \<and> check_report (en_lib E) r (ss_vek c) gen now = Inr ()
    \<and> (case sne_cert_chain ev of
         Some chain \<Rightarrow> sn_base64 (en_lib E) (sc_vcek chain) = Some (ss_vek c)
       | None \<Rightarrow> check_vek_binding (en_lib E) (ss_vek c) (sr_chip_id r) (snp_tcb_of (sr_reported_tcb r)) gen = Inr ())
    \<and> of_vek (sn_x509 (en_lib E)) (ss_vek c) = Inr key \<and> ap_key (ss_crl c) = key \<and> ap_generation (ss_crl c) = gen
    \<and> x_crl (sn_x509 (en_lib E)) (ap_der (ss_crl c)) = Some ([], crl)
    \<and> x_cert (sn_x509 (en_lib E)) (get_ark (sn_roots (en_lib E)) gen) = Some ark
    \<and> cl_issuer_raw crl = ct_subject_raw ark
    \<and> verify_crl_signature (en_lib E) crl (ap_der (ss_crl c)) ark = Inr ()"
proof -
  let ?L = "en_lib E"
  obtain p ev c where p: "params = Some p" "dec j = Some ev" "snp_verify ?L ev p c now = Inr res"
    and g: "snp_gather E ev now s w = (Inr (c, us), s', w')"
    by (rule run_Inr [OF r]) (auto simp: snp_platform_def)
  obtain r gen inline where gr: "genuine_report ?L ev now = Inr (r, gen, inline)"
    and sg: "snp_set_gather E r gen inline now s w = (Inr (c, us), s', w')"
    using g by (auto simp: snp_gather_def split: sum.splits)
  obtain d where d: "parse_evidence ?L ev = Inr (d, r, gen)"
    using genuine_report_Inr [OF gr] by blast
  have iv: "inline_vek ?L ev = Inr inline"
    using gr by (auto simp: genuine_report_def res_simps)
  obtain rvk where k: "check_report ?L r (ss_vek c) gen now = Inr ()"
      "vek_revoked ?L (ss_vek c) (ss_crl c) gen = Inr rvk"
    by (rule snp_verify_Inr [OF p(3)]) (use d in auto)
  then obtain key where key: "of_vek (sn_x509 ?L) (ss_vek c) = Inr key" "ap_key (ss_crl c) = key"
      "ap_generation (ss_crl c) = gen"
    by (auto simp: vek_revoked_def res_simps split: if_splits)
  obtain key' b ch where crl: "amd_crl_verify ?L b ch (gen, key') = Inr (ss_crl c)"
    and vek: "inline = Some (ss_vek c) \<or> inline = None \<and> (\<exists>b ch vp.
        vcek_verify ?L b ch (gen, sr_chip_id r, snp_tcb_of (sr_reported_tcb r)) = Inr vp \<and> ss_vek c = vp_der vp)"
    by (rule snp_set_gather_Inr [OF sg]) blast
  have "case sne_cert_chain ev of
         Some chain \<Rightarrow> sn_base64 ?L (sc_vcek chain) = Some (ss_vek c)
       | None \<Rightarrow> check_vek_binding ?L (ss_vek c) (sr_chip_id r) (snp_tcb_of (sr_reported_tcb r)) gen = Inr ()"
    using iv vek by (auto simp: inline_vek_def res_simps split: option.splits dest!: vcek_verify_Inr)
  with amd_crl_verify_Inr [OF crl] p d k(1) key show ?thesis by metis
qed

theorem snp_run_trusts_amds_collateral_witness:
  "\<exists>(c :: snp_set) key crl. of_vek toy_snp_x509 (ss_vek c) = Inr key
    \<and> x_crl toy_snp_x509 (ap_der (ss_crl c)) = Some ([], crl) \<and> cl_issuer_raw crl = ct_subject_raw toy_vek_cert"
proof -
  obtain r us where r: "run (snp_platform (\<lambda>_. Some toy_snp_evidence) (toy_snp_env toy_se)) JNull
      (Some toy_snp_params) 50 toy_snp_store (0 :: nat) = (Inr (r, us), toy_snp_store, 0)"
    using toy_snp_run by metis
  have e: "en_lib (toy_snp_env toy_se) = toy_snp_lib" by (simp add: toy_snp_env_def)
  from snp_run_trusts_amds_collateral [OF r] show ?thesis
    unfolding e by (auto intro: exI [of _ toy_snp_set] toy_of_vek)
qed

text \<open>One key certificate vouches for one TCB, and for one chip unless it is a VLEK: two
  reports of a generation that verify under it agree on the four security levels of their
  reported TCB, and on the chip identifier when the fields have one length.\<close>

theorem one_key_one_tcb:
  assumes "check_report L r vek gen now = Inr ()" "check_report L r' vek gen now' = Inr ()"
  shows "tv_bootloader (sr_reported_tcb r) = tv_bootloader (sr_reported_tcb r')
    \<and> tv_tee (sr_reported_tcb r) = tv_tee (sr_reported_tcb r')
    \<and> tv_snp (sr_reported_tcb r) = tv_snp (sr_reported_tcb r')
    \<and> tv_microcode (sr_reported_tcb r) = tv_microcode (sr_reported_tcb r')
    \<and> (is_vlek_cert (sn_x509 L) vek = Inr True \<or> length (sr_chip_id r) \<noteq> length (sr_chip_id r')
       \<or> sr_chip_id r = sr_chip_id r')"
proof -
  have b: "check_vek_binding L vek (sr_chip_id r) (snp_tcb_of (sr_reported_tcb r)) gen = Inr ()"
    "check_vek_binding L vek (sr_chip_id r') (snp_tcb_of (sr_reported_tcb r')) gen = Inr ()"
    using assms by (auto simp: check_report_Inr_iff verify_vek_endorsement_def verify_vcek_tcb_def res_simps)
  then obtain c cn cns where c: "x_cert (sn_x509 L) vek = Some c" "ct_subject_cns c = Some cn # cns"
    by (auto simp: check_vek_binding_Inr_iff)
  have chip: "sr_chip_id r = sr_chip_id r'"
    if "chip_is L c gen (sr_chip_id r)" "chip_is L c gen (sr_chip_id r')" "length (sr_chip_id r) = length (sr_chip_id r')"
    using that by (auto simp: chip_is_def split: if_splits)
  show ?thesis
    using b c chip unfolding check_vek_binding_Inr_iff
    by (auto simp: snp_tcb_of_def is_vlek_cert_def vek_common_name_def intro: spl_is_unique)
qed

theorem one_key_one_tcb_witness:
  "sr_chip_id toy_report = sr_chip_id toy_report \<and> is_vlek_cert toy_snp_x509 [] \<noteq> Inr True"
  using one_key_one_tcb [OF toy_check_report toy_check_report] by (simp add: toy_vlek)

section \<open>Measurement registers\<close>

text \<open>C26: A report's REPORT_DATA fixes what it commits to: two logs and callers' bytes that
  verify against the same value have the same registers and the same caller's bytes, and the
  committed prefixes of the logs extended the same digests into each register in the same
  order, as long as SHA-384 tells the hashed inputs apart and gives no register's initial
  value.\<close>

theorem report_data_fixes_the_registers:
  assumes v: "kmr_verify h reported (kmr_log es) caller = Inr (Some m)"
      "kmr_verify h reported (kmr_log es') caller' = Inr (Some m')"
    and ok: "\<forall>e \<in> set es \<union> set es'. kmr_entry_ok e"
    and len: "\<forall>b. length (sha384 h b) = 48"
    and inj: "inj_on (sha384 h) {KMR_TAG @ kmr_header (mr_event_count m) @ concat (mr_registers m) @ caller,
        KMR_TAG @ kmr_header (mr_event_count m') @ concat (mr_registers m') @ caller'}"
    and inj': "\<forall>i < 16. inj_on (sha384 h) (hashed h (kmr_digests i (take (unat (mr_event_count m)) es))
        \<union> hashed h (kmr_digests i (take (unat (mr_event_count m)) es')))"
    and init: "\<forall>i < 16. replicate 48 0 \<notin> sha384 h ` (hashed h (kmr_digests i (take (unat (mr_event_count m)) es))
        \<union> hashed h (kmr_digests i (take (unat (mr_event_count m)) es')))"
  shows "m = m' \<and> caller = caller' \<and> (\<forall>i < 16. kmr_digests i (take (unat (mr_event_count m)) es)
    = kmr_digests i (take (unat (mr_event_count m)) es'))"
proof -
  have r: "mr_registers m = map (\<lambda>i. extend_all h (kmr_digests i (take (unat (mr_event_count m)) es))) [0..<16]"
    "mr_registers m' = map (\<lambda>i. extend_all h (kmr_digests i (take (unat (mr_event_count m')) es'))) [0..<16]"
    using kmr_verify_Some [OF v(1)] kmr_verify_Some [OF v(2)] ok by (simp_all add: kmr_replay_log split: if_splits)
  have l: "length (extend_all h ds) = 48" for ds
    by (cases ds rule: rev_cases) (simp_all add: extend_all_snoc len, simp add: extend_all_def)
  have "kmr_report_data h (mr_event_count m) (mr_registers m) caller
      = kmr_report_data h (mr_event_count m') (mr_registers m') caller'"
    using kmr_verify_Some [OF v(1)] kmr_verify_Some [OF v(2)] by simp
  moreover have "length (mr_registers m) = length (mr_registers m')"
    "\<forall>x \<in> set (mr_registers m) \<union> set (mr_registers m'). length x = 48"
    unfolding r using l by auto
  ultimately have
    e: "mr_event_count m = mr_event_count m' \<and> mr_registers m = mr_registers m' \<and> caller = caller'"
    using inj by (rule kmr_report_data_inj)
  then have mm: "m = m'" by simp
  have "kmr_digests i (take (unat (mr_event_count m)) es) = kmr_digests i (take (unat (mr_event_count m)) es')"
    if i: "i < 16" for i
  proof (rule extend_all_inj)
    show "extend_all h (kmr_digests i (take (unat (mr_event_count m)) es))
        = extend_all h (kmr_digests i (take (unat (mr_event_count m)) es'))"
    proof -
      have "mr_registers m ! i = extend_all h (kmr_digests i (take (unat (mr_event_count m)) es))"
        "mr_registers m' ! i = extend_all h (kmr_digests i (take (unat (mr_event_count m')) es'))"
        unfolding r using i by simp_all
      with mm show ?thesis by simp
    qed
    show "\<forall>d \<in> set (kmr_digests i (take (unat (mr_event_count m)) es))
        \<union> set (kmr_digests i (take (unat (mr_event_count m)) es')). length d = 48"
      using ok by (auto simp: kmr_digests_def kmr_entry_ok_def dest!: in_set_takeD)
  qed (use inj' init i in blast)+
  with e mm show ?thesis by blast
qed

theorem report_data_fixes_the_registers_witness:
  "kmr_digests 0 (take 1 toy_events) = kmr_digests 0 (take 1 (toy_events @ [(1, replicate 48 6)]))"
proof -
  define m where "m = \<lparr>mr_event_count = 1 :: u32, mr_registers = toy_registers\<rparr>"
  let ?es = "toy_events @ [(1, replicate 48 6)]"
  have "kmr_replay toy_rev_sha (kmr_log ?es) 1 = Inr (Some toy_registers)"
    by (subst kmr_replay_log) (simp_all add: toy_events_def kmr_entry_ok_def REGISTER_COUNT_def toy_registers_def)
  then have v: "kmr_verify toy_rev_sha (sr_report_data toy_report) (kmr_log toy_events) toy_caller = Inr (Some m)"
    "kmr_verify toy_rev_sha (sr_report_data toy_report) (kmr_log ?es) toy_caller = Inr (Some m)"
    using toy_replay by (simp_all add: kmr_verify_Some_iff toy_caller_def m_def) (simp_all add: toy_report_def toy_caller_def)
  have d: "take (unat (mr_event_count m)) ?es = toy_events" "take (unat (mr_event_count m)) toy_events = toy_events"
    by (simp_all add: toy_events_def m_def)
  have h: "hashed toy_rev_sha (kmr_digests i toy_events) = (if i = 0 then {replicate 48 0 @ replicate 48 5} else {})" for i
    by (auto simp: toy_events_def kmr_digests_def hashed_def extend_all_def)
  have "sha384 toy_rev_sha (replicate 48 0 @ replicate 48 5) = replicate 48 5"
    by (simp add: toy_rev_sha_def)
  moreover have "replicate 48 (0 :: u8) \<noteq> replicate 48 5" by simp
  moreover have "\<forall>e \<in> set toy_events \<union> set ?es. kmr_entry_ok e"
    by (simp add: toy_events_def kmr_entry_ok_def REGISTER_COUNT_def)
  ultimately have "kmr_digests 0 toy_events = kmr_digests 0 toy_events \<and> m = m"
    using report_data_fixes_the_registers [OF v, unfolded d] by (simp add: toy_rev_sha_length h)
  with d show ?thesis by (simp add: m_def)
qed

end
