(* ===== verification/Azure.thy ===== *)
theory Azure
  imports Snp Tdx TpmQuote
begin

text \<open>
  \<open>crates/attestation/src/platforms/az_snp/verify.rs\<close> and \<open>az_tdx/verify.rs\<close>: Azure guests,
  whose hardware report names a vTPM. The report binds the runtime data of the HCL report,
  the runtime data names the attestation key, the key signs a quote over the vTPM's
  registers, and the quote's nonce is the requester's. Both platforms compose the checks of
  \<open>tpm_common.rs\<close> with those of SNP or TDX.
\<close>

text \<open>The libraries of the vTPM checks: base64 without padding, JSON, RSA.\<close>

record ('key, 'sig) tpm_lib =
  tl_hash :: hash_lib
  tl_hex :: hex_lib
  tl_b64url :: "string \<Rightarrow> bytes option"
  tl_json :: "bytes \<Rightarrow> json option"
  tl_rsa :: "('key, 'sig) rsa_lib"

text \<open>The checks over a quote that both platforms make in this order: its signature under
  the key of the runtime data, the nonce, the register values, the pins.\<close>

definition tpm_layer ::
  "('key, 'sig) tpm_lib \<Rightarrow> bytes \<Rightarrow> bytes \<Rightarrow> bytes list \<Rightarrow> bytes \<Rightarrow> bytes option \<Rightarrow> pins
     \<Rightarrow> (bool option \<times> bool option) res" where
  "tpm_layer T sig msg tpm_pcrs var_data expected pcrs =
     and_then (verify_tpm_signature (tl_json T) (decode_base64url (tl_b64url T)) (tl_rsa T) sig msg var_data) (\<lambda>_.
     and_then (check_report_data msg expected) (\<lambda>report_data_match.
     and_then (verify_tpm_pcrs (tl_hash T) msg tpm_pcrs) (\<lambda>_.
     and_then (check_pcrs msg tpm_pcrs pcrs) (\<lambda>pcrs_match.
     Inr (report_data_match, pcrs_match)))))"

section \<open>Azure SNP\<close>

record az_snp_evidence =
  as_version :: u32
  as_tpm_quote :: tpm_quote
  as_hcl_report :: string
  as_vcek :: string

record az_snp_params =
  asp_snp :: snp_params
  asp_pcrs :: pins

definition default_az_snp_params :: az_snp_params where
  "default_az_snp_params = \<lparr>asp_snp = default_snp_params, asp_pcrs = []\<rparr>"

definition az_snp_validate :: "az_snp_params \<Rightarrow> unit res" where
  "az_snp_validate p =
     and_then (snp_validate (asp_snp p)) (\<lambda>_.
     if sp_registers (asp_snp p) \<noteq> None
     then Inl (InvalidParams ''measurement registers are bare-metal SNP only'')
     else and_then (check_init_data_len (sp_host_data (asp_snp p))) (\<lambda>_.
     check_pcr_pin_indexes (asp_pcrs p)))"

record az_snp_result =
  asr_snp :: snp_result
  asr_pcrs_match :: "bool option"

definition az_snp_passed :: "az_snp_result \<Rightarrow> bool" where
  "az_snp_passed r = (snp_passed (asr_snp r) \<and> asr_pcrs_match r \<noteq> Some False)"

record verified_report =
  vr_result :: az_snp_result
  vr_gen :: processor_generation
  vr_vcek :: bytes
  vr_version :: u32

text \<open>The generations to try, and the first whose roots the key chains to; the last error
  when none does.\<close>

definition az_gens :: "snp_report \<Rightarrow> processor_generation list" where
  "az_gens r =
     (let fam = (case sr_cpuid_fam_id r of Some f \<Rightarrow> f | None \<Rightarrow> 0);
          model = (case sr_cpuid_mod_id r of Some m \<Rightarrow> m | None \<Rightarrow> 0)
      in case from_cpuid fam model of Some g \<Rightarrow> [g] | None \<Rightarrow> [Milan, Genoa, Turin])"

fun first_gen ::
  "(processor_generation \<Rightarrow> unit res) \<Rightarrow> processor_generation list \<Rightarrow> attestation_error option
     \<Rightarrow> processor_generation res" where
  "first_gen endorsed [] last_err =
     Inl (case last_err of Some e \<Rightarrow> e | None \<Rightarrow> CertChainError ''no matching AMD root cert found'')"
| "first_gen endorsed (gen # gens) last_err = (case endorsed gen of
       Inr _ \<Rightarrow> Inr gen
     | Inl e \<Rightarrow> first_gen endorsed gens (Some e))"

definition AZ_MIN_REPORT_VERSION :: u32 where "AZ_MIN_REPORT_VERSION = 2"

text \<open>The first part of \<open>verify_report\<close>: everything is decoded and bounded before anything
  is verified.\<close>

definition az_snp_decode ::
  "('k, 's, 'rk, 'rs) snp_lib \<Rightarrow> ('key, 'sig) tpm_lib \<Rightarrow> az_snp_evidence
     \<Rightarrow> (hcl_report \<times> bytes \<times> (bytes \<times> bytes \<times> bytes list) \<times> snp_report) res" where
  "az_snp_decode L T ev =
     (if as_version ev \<noteq> 1 then Inl (EvidenceDeserialize ''unsupported az_snp evidence version'')
     else
     and_then (check_field_size ''hcl_report'' (length (as_hcl_report ev))) (\<lambda>_.
     and_then (check_field_size ''vcek'' (length (as_vcek ev))) (\<lambda>_.
     and_then (check_field_size ''tpm_quote.signature'' (length (tq_signature (as_tpm_quote ev)))) (\<lambda>_.
     and_then (check_field_size ''tpm_quote.message'' (length (tq_message (as_tpm_quote ev)))) (\<lambda>_.
     and_then (ok_or (EvidenceDeserialize ''HCL report base64'') (decode_base64url (tl_b64url T) (as_hcl_report ev)))
       (\<lambda>hcl_bytes.
     and_then (parse_hcl_report hcl_bytes) (\<lambda>hcl.
     if hcl_report_type hcl \<noteq> HCL_REPORT_TYPE_SNP
     then Inl (QuoteParseFailed ''HCL report_type is not SNP'')
     else
     and_then (ok_or (EvidenceDeserialize ''VCEK base64'') (decode_base64url (tl_b64url T) (as_vcek ev))) (\<lambda>vcek.
     and_then (decode_tpm_quote (tl_hex T) (as_tpm_quote ev)) (\<lambda>quote.
     and_then (parse_report L (hcl_tee_report hcl)) (\<lambda>r.
     if sr_version r < AZ_MIN_REPORT_VERSION \<or> sr_version r > MAX_REPORT_VERSION
     then Inl (UnsupportedReportVersion (unat (sr_version r)) (unat AZ_MIN_REPORT_VERSION) (unat MAX_REPORT_VERSION))
     else Inr (hcl, vcek, quote, r)))))))))))"

definition az_snp_verify_report ::
  "('k, 's, 'rk, 'rs) snp_lib \<Rightarrow> ('key, 'sig) tpm_lib \<Rightarrow> az_snp_evidence \<Rightarrow> az_snp_params \<Rightarrow> int
     \<Rightarrow> verified_report res" where
  "az_snp_verify_report L T ev params now =
     and_then (az_snp_validate params) (\<lambda>_.
     let pcrs = asp_pcrs params; p = asp_snp params in
     and_then (az_snp_decode L T ev) (\<lambda>(hcl, vcek, (sig, msg, tpm_pcrs), r).
     and_then (tpm_layer T sig msg tpm_pcrs (hcl_var_data hcl) (sp_report_data p) pcrs)
       (\<lambda>(report_data_match, pcrs_match).
     and_then (verify_hcl_var_data_binding (tl_hash T) (sr_report_data r) (hcl_var_data hcl)) (\<lambda>_.
     and_then (first_gen (\<lambda>gen. verify_vek_endorsement L r vcek gen now) (az_gens r) None) (\<lambda>gen.
     and_then (verify_report_signature L (hcl_tee_report hcl) vcek) (\<lambda>_.
     let snp = (evaluate_report (sn_hex L) r p None)\<lparr>sv_report_data_match := report_data_match\<rparr> in
     and_then (check_init_data (tl_hash T) msg tpm_pcrs (sp_host_data p)) (\<lambda>host_data_match.
     and_then (tpm_claims (tl_hex T) (sv_claims snp) tpm_pcrs msg) (\<lambda>cl.
     Inr \<lparr>vr_result = \<lparr>asr_snp = snp\<lparr>sv_host_data_match := host_data_match, sv_claims := cl\<rparr>,
            asr_pcrs_match = pcrs_match\<rparr>,
          vr_gen = gen, vr_vcek = vcek, vr_version = sr_version r\<rparr>))))))))"

definition az_snp_gather ::
  "('k, 's, 'rk, 'rs, 'w) snp_env \<Rightarrow> ('key, 'sig) tpm_lib \<Rightarrow> az_snp_evidence \<Rightarrow> int \<Rightarrow> store \<Rightarrow> 'w
     \<Rightarrow> (amd_crl_piece \<times> collateral_used list) res \<times> store \<times> 'w" where
  "az_snp_gather E T ev now s w =
     (let L = en_lib E in
      case and_then (az_snp_verify_report L T ev default_az_snp_params now) (\<lambda>verified.
           and_then (of_vek (sn_x509 L) (vr_vcek verified)) (\<lambda>key. Inr (verified, key))) of
        Inl e \<Rightarrow> (Inl e, s, w)
      | Inr (verified, key) \<Rightarrow>
          let (got, s, w) = get (en_store E) (amd_crl_kind L) (vr_gen verified, key) now s w
          in (and_then got (\<lambda>(crl, u). Inr (crl, [u])), s, w))"

definition az_snp_verify ::
  "('k, 's, 'rk, 'rs) snp_lib \<Rightarrow> ('key, 'sig) tpm_lib \<Rightarrow> az_snp_evidence \<Rightarrow> az_snp_params \<Rightarrow> amd_crl_piece \<Rightarrow> int
     \<Rightarrow> az_snp_result res" where
  "az_snp_verify L T ev params crl now =
     and_then (az_snp_verify_report L T ev params now) (\<lambda>verified.
     and_then (vek_revoked L (vr_vcek verified) crl (vr_gen verified)) (\<lambda>revoked.
     let result = vr_result verified
     in Inr (result\<lparr>asr_snp := (asr_snp result)\<lparr>sv_crl_ok := Some (\<not> revoked)\<rparr>\<rparr>)))"

definition az_snp_platform ::
  "(json \<Rightarrow> az_snp_evidence option) \<Rightarrow> ('k, 's, 'rk, 'rs, 'w) snp_env \<Rightarrow> ('key, 'sig) tpm_lib
     \<Rightarrow> (az_snp_evidence, az_snp_params, az_snp_result, amd_crl_piece, 'w) platform" where
  "az_snp_platform decode E T =
     \<lparr>pf_kind = AzSnp, pf_decode = decode, pf_validate = az_snp_validate,
      pf_gather = az_snp_gather E T, pf_verify = az_snp_verify (en_lib E) T\<rparr>"

section \<open>Azure TDX\<close>

record az_tdx_evidence =
  at_version :: u32
  at_tpm_quote :: tpm_quote
  at_hcl_report :: string
  at_td_quote :: string

record az_tdx_params =
  atp_tdx :: tdx_params
  atp_pcrs :: pins

definition default_az_tdx_params :: az_tdx_params where
  "default_az_tdx_params = \<lparr>atp_tdx = default_tdx_params, atp_pcrs = []\<rparr>"

definition az_tdx_validate :: "az_tdx_params \<Rightarrow> unit res" where
  "az_tdx_validate p =
     and_then (tdx_validate (atp_tdx p)) (\<lambda>_.
     and_then (check_init_data_len (tp_init_data (atp_tdx p))) (\<lambda>_.
     check_pcr_pin_indexes (atp_pcrs p)))"

record az_tdx_result =
  atr_tdx :: tdx_result
  atr_pcrs_match :: "bool option"

definition az_tdx_passed :: "az_tdx_result \<Rightarrow> bool" where
  "az_tdx_passed r = (tdx_passed (atr_tdx r) \<and> atr_pcrs_match r \<noteq> Some False)"

definition az_tdx_decode ::
  "('key, 'sig) tpm_lib \<Rightarrow> az_tdx_evidence \<Rightarrow> (hcl_report \<times> bytes \<times> (bytes \<times> bytes \<times> bytes list)) res" where
  "az_tdx_decode T ev =
     (if at_version ev \<noteq> 1 then Inl (EvidenceDeserialize ''unsupported az_tdx evidence version'')
     else
     and_then (check_field_size ''hcl_report'' (length (at_hcl_report ev))) (\<lambda>_.
     and_then (check_field_size ''td_quote'' (length (at_td_quote ev))) (\<lambda>_.
     and_then (check_field_size ''tpm_quote.signature'' (length (tq_signature (at_tpm_quote ev)))) (\<lambda>_.
     and_then (check_field_size ''tpm_quote.message'' (length (tq_message (at_tpm_quote ev)))) (\<lambda>_.
     and_then (ok_or (EvidenceDeserialize ''HCL report base64'') (decode_base64url (tl_b64url T) (at_hcl_report ev)))
       (\<lambda>hcl_bytes.
     and_then (parse_hcl_report hcl_bytes) (\<lambda>hcl.
     if hcl_report_type hcl \<noteq> HCL_REPORT_TYPE_TDX
     then Inl (QuoteParseFailed ''HCL report_type is not TDX'')
     else
     and_then (ok_or (EvidenceDeserialize ''TD quote base64'') (decode_base64url (tl_b64url T) (at_td_quote ev))) (\<lambda>d.
     and_then (decode_tpm_quote (tl_hex T) (at_tpm_quote ev)) (\<lambda>quote.
     Inr (hcl, d, quote))))))))))"

definition az_tdx_verify_evidence ::
  "('k, 's) dcap_lib \<Rightarrow> ('key, 'sig) tpm_lib \<Rightarrow> az_tdx_evidence \<Rightarrow> az_tdx_params \<Rightarrow> int
     \<Rightarrow> (bytes \<times> tdx_quote \<times> az_tdx_result) res" where
  "az_tdx_verify_evidence L T ev params now =
     and_then (az_tdx_validate params) (\<lambda>_.
     let pcrs = atp_pcrs params; p = atp_tdx params in
     and_then (az_tdx_decode T ev) (\<lambda>(hcl, d, (sig, msg, tpm_pcrs)).
     and_then (tpm_layer T sig msg tpm_pcrs (hcl_var_data hcl) (tp_report_data p) pcrs)
       (\<lambda>(report_data_match, pcrs_match).
     and_then (verify_quote L d p now) (\<lambda>(quote, tdx).
     and_then (verify_hcl_var_data_binding (tl_hash T) (td_report_data (tq_body quote)) (hcl_var_data hcl)) (\<lambda>_.
     and_then (check_init_data (tl_hash T) msg tpm_pcrs (tp_init_data p)) (\<lambda>init_data_match.
     and_then (tpm_claims (tl_hex T) (tr_claims tdx) tpm_pcrs msg) (\<lambda>cl.
     Inr (d, quote,
       \<lparr>atr_tdx = tdx\<lparr>tr_report_data_match := report_data_match, tr_init_data_match := init_data_match,
          tr_claims := cl\<rparr>, atr_pcrs_match = pcrs_match\<rparr>))))))))"

definition az_tdx_gather ::
  "('k, 's, 'w) tdx_env \<Rightarrow> ('key, 'sig) tpm_lib \<Rightarrow> az_tdx_evidence \<Rightarrow> int \<Rightarrow> store \<Rightarrow> 'w
     \<Rightarrow> (tdx_set \<times> collateral_used list) res \<times> store \<times> 'w" where
  "az_tdx_gather E T ev now s w =
     (case az_tdx_verify_evidence (ev_lib E) T ev default_az_tdx_params now of
        Inl e \<Rightarrow> (Inl e, s, w)
      | Inr (d, quote, _) \<Rightarrow> tdx_set_gather E d quote now s w)"

definition az_tdx_verify ::
  "('k, 's, 'w) tdx_env \<Rightarrow> ('key, 'sig) tpm_lib \<Rightarrow> az_tdx_evidence \<Rightarrow> az_tdx_params \<Rightarrow> tdx_set \<Rightarrow> int
     \<Rightarrow> az_tdx_result res" where
  "az_tdx_verify E T ev params collateral now =
     and_then (az_tdx_verify_evidence (ev_lib E) T ev params now) (\<lambda>(d, quote, result).
     and_then (check_collateral (ev_lib E) (atr_tdx result) d quote (atp_tdx params) collateral now) (\<lambda>tdx.
     Inr (result\<lparr>atr_tdx := tdx\<rparr>)))"

definition az_tdx_platform ::
  "(json \<Rightarrow> az_tdx_evidence option) \<Rightarrow> ('k, 's, 'w) tdx_env \<Rightarrow> ('key, 'sig) tpm_lib
     \<Rightarrow> (az_tdx_evidence, az_tdx_params, az_tdx_result, tdx_set, 'w) platform" where
  "az_tdx_platform decode E T =
     \<lparr>pf_kind = AzTdx, pf_decode = decode, pf_validate = az_tdx_validate,
      pf_gather = az_tdx_gather E T, pf_verify = az_tdx_verify E T\<rparr>"

section \<open>The vTPM layer\<close>

lemma tpm_layer_Inr_iff [res_simps]:
  "tpm_layer T sig msg ps vd e pins = Inr (rd, pm) \<longleftrightarrow>
     verify_tpm_signature (tl_json T) (decode_base64url (tl_b64url T)) (tl_rsa T) sig msg vd = Inr ()
     \<and> check_report_data msg e = Inr rd \<and> verify_tpm_pcrs (tl_hash T) msg ps = Inr () \<and> check_pcrs msg ps pins = Inr pm"
  by (auto simp: tpm_layer_def and_then_Inr_iff)

text \<open>What the params ask of a quote: its nonce, the init-data register, the pinned ones.\<close>

definition tpm_meets :: "hash_lib \<Rightarrow> bytes \<Rightarrow> bytes list \<Rightarrow> bytes option \<Rightarrow> bytes option \<Rightarrow> pins \<Rightarrow> bool" where
  "tpm_meets h msg ps nonce init pins \<longleftrightarrow>
     (\<forall>d. nonce = Some d \<longrightarrow> extract_tpm_nonce msg = Inr d)
     \<and> (\<forall>d. init = Some d \<longrightarrow> (\<exists>q. parse_quote_info msg = Inr q \<and> 8 \<in> set (qi_selected_pcrs q)
          \<and> ps ! 8 = sha256 h (replicate 32 0 @ d)))
     \<and> (\<forall>(i, want) \<in> set pins. \<exists>q. parse_quote_info msg = Inr q \<and> unat i \<in> set (qi_selected_pcrs q)
          \<and> unat i < length ps \<and> ps ! unat i = want)"

lemma check_report_data_held:
  "check_report_data msg e = Inr rd \<Longrightarrow> rd \<noteq> Some False \<longleftrightarrow> (\<forall>d. e = Some d \<longrightarrow> extract_tpm_nonce msg = Inr d)"
  by (cases "extract_tpm_nonce msg")
     (auto simp: check_report_data_def tpm_nonce_matches_def split: option.splits if_splits)

lemma check_init_data_held:
  "check_init_data h msg ps e = Inr im \<Longrightarrow> im \<noteq> Some False \<longleftrightarrow>
     (\<forall>d. e = Some d \<longrightarrow> (\<exists>q. parse_quote_info msg = Inr q \<and> 8 \<in> set (qi_selected_pcrs q)
          \<and> ps ! 8 = sha256 h (replicate 32 0 @ d)))"
  by (cases e) (auto simp: check_init_data_def res_simps sha256_two_def Let_def INIT_DATA_PCR_def split: if_splits)

lemma check_pcrs_held:
  "check_pcrs msg ps pins = Inr pm \<Longrightarrow> pm \<noteq> Some False \<longleftrightarrow>
     (\<forall>(i, want) \<in> set pins. \<exists>q. parse_quote_info msg = Inr q \<and> unat i \<in> set (qi_selected_pcrs q)
          \<and> unat i < length ps \<and> ps ! unat i = want)"
  by (cases pm) (auto simp: check_pcrs_None_iff check_pcrs_Some_iff)

lemma first_gen_Inr:
  "first_gen endorsed gens e = Inr g \<Longrightarrow> g \<in> set gens \<and> endorsed g = Inr ()"
  by (induction endorsed gens e rule: first_gen.induct) (auto split: sum.splits)

lemma verify_report_signature_Inr_iff [res_simps]:
  "verify_report_signature L b vek = Inr u \<longleftrightarrow> (\<exists>r. sn_report L b = Some r \<and> sn_cert_parses L vek \<and> sn_signed_by L vek r)"
  by (auto simp: verify_report_signature_def res_simps)

section \<open>Azure SNP: verdicts\<close>

text \<open>What makes Azure SNP evidence genuine: AMD's key signed the report, the report names
  the runtime data, and the key in the runtime data signed the quote over the registers.\<close>

definition az_snp_genuine ::
  "('k, 's, 'rk, 'rs) snp_lib \<Rightarrow> ('key, 'sig) tpm_lib \<Rightarrow> az_snp_evidence \<Rightarrow> int \<Rightarrow> snp_report \<Rightarrow> bytes
     \<Rightarrow> processor_generation \<Rightarrow> bytes \<Rightarrow> bytes list \<Rightarrow> bool" where
  "az_snp_genuine L T ev now r vcek gen msg ps \<longleftrightarrow>
     (\<exists>hcl sig. az_snp_decode L T ev = Inr (hcl, vcek, (sig, msg, ps), r)
        \<and> gen \<in> set (az_gens r) \<and> verify_vek_endorsement L r vcek gen now = Inr () \<and> sn_signed_by L vcek r
        \<and> take 32 (sr_report_data r) = sha256 (tl_hash T) (hcl_var_data hcl)
        \<and> verify_tpm_signature (tl_json T) (decode_base64url (tl_b64url T)) (tl_rsa T) sig msg (hcl_var_data hcl) = Inr ()
        \<and> verify_tpm_pcrs (tl_hash T) msg ps = Inr ())"

lemma az_snp_decode_Inr:
  assumes "az_snp_decode L T ev = Inr (hcl, vcek, q, r)"
  shows "(\<exists>hb. decode_base64url (tl_b64url T) (as_hcl_report ev) = Some hb \<and> parse_hcl_report hb = Inr hcl)
    \<and> hcl_report_type hcl = HCL_REPORT_TYPE_SNP \<and> decode_base64url (tl_b64url T) (as_vcek ev) = Some vcek
    \<and> decode_tpm_quote (tl_hex T) (as_tpm_quote ev) = Inr q \<and> sn_report L (hcl_tee_report hcl) = Some r
    \<and> 2 \<le> sr_version r \<and> sr_version r \<le> 5"
  using assms unfolding az_snp_decode_def
  by (auto simp: and_then_Inr_iff ok_or_Inr_iff parse_report_def not_less AZ_MIN_REPORT_VERSION_def
      MAX_REPORT_VERSION_def split: if_splits)

lemma az_snp_verify_report_Inr:
  assumes "az_snp_verify_report L T ev params now = Inr v"
  obtains r msg ps rd hd pm cl where
    "az_snp_validate params = Inr ()" "az_snp_genuine L T ev now r (vr_vcek v) (vr_gen v) msg ps"
    "check_report_data msg (sp_report_data (asp_snp params)) = Inr rd"
    "check_init_data (tl_hash T) msg ps (sp_host_data (asp_snp params)) = Inr hd"
    "check_pcrs msg ps (asp_pcrs params) = Inr pm"
    "vr_result v = \<lparr>asr_snp = (evaluate_report (sn_hex L) r (asp_snp params) None)
        \<lparr>sv_report_data_match := rd, sv_host_data_match := hd, sv_claims := cl\<rparr>, asr_pcrs_match = pm\<rparr>"
proof -
  from assms have val: "az_snp_validate params = Inr ()"
    by (simp add: az_snp_verify_report_def and_then_Inr_iff)
  with assms obtain hcl vcek sig msg ps r where d: "az_snp_decode L T ev = Inr (hcl, vcek, (sig, msg, ps), r)"
    by (auto simp: az_snp_verify_report_def Let_def and_then_Inr_iff)
  with assms val obtain rd pm where
    t: "tpm_layer T sig msg ps (hcl_var_data hcl) (sp_report_data (asp_snp params)) (asp_pcrs params) = Inr (rd, pm)"
    by (auto simp: az_snp_verify_report_def Let_def and_then_Inr_iff)
  with assms val d obtain gen hd cl where
    b: "verify_hcl_var_data_binding (tl_hash T) (sr_report_data r) (hcl_var_data hcl) = Inr ()"
    and g: "first_gen (\<lambda>gen. verify_vek_endorsement L r vcek gen now) (az_gens r) None = Inr gen"
    and s: "verify_report_signature L (hcl_tee_report hcl) vcek = Inr ()"
    and i: "check_init_data (tl_hash T) msg ps (sp_host_data (asp_snp params)) = Inr hd"
    and v: "v = \<lparr>vr_result = \<lparr>asr_snp = (evaluate_report (sn_hex L) r (asp_snp params) None)
        \<lparr>sv_report_data_match := rd, sv_host_data_match := hd, sv_claims := cl\<rparr>, asr_pcrs_match = pm\<rparr>,
        vr_gen = gen, vr_vcek = vcek, vr_version = sr_version r\<rparr>"
    by (auto simp: az_snp_verify_report_def Let_def and_then_Inr_iff)
  have "sn_signed_by L vcek r"
    using s conjunct2 [OF az_snp_decode_Inr [OF d]] by (auto simp: res_simps)
  then have "az_snp_genuine L T ev now r (vr_vcek v) (vr_gen v) msg ps"
    unfolding az_snp_genuine_def v using d t b first_gen_Inr [OF g]
    by (auto simp: tpm_layer_Inr_iff verify_hcl_var_data_binding_Inr_iff)
  with val t i v show thesis
    by (intro that [of r msg ps rd hd pm cl]) (simp_all add: tpm_layer_Inr_iff)
qed

text \<open>The whole meaning of a passing verdict. The requester's bytes and the init data are
  looked for in the quote, not in the report.\<close>

lemma az_snp_passed_iff:
  assumes "az_snp_verify L T ev params crl now = Inr res"
  obtains r vcek gen msg ps rvk where
    "az_snp_genuine L T ev now r vcek gen msg ps" "vek_revoked L vcek crl gen = Inr rvk"
    "az_snp_passed res \<longleftrightarrow> report_meets ((asp_snp params)\<lparr>sp_host_data := None\<rparr>) r
       \<and> tpm_meets (tl_hash T) msg ps (sp_report_data (asp_snp params)) (sp_host_data (asp_snp params)) (asp_pcrs params)
       \<and> \<not> rvk"
proof -
  from assms obtain v rvk where v: "az_snp_verify_report L T ev params now = Inr v"
    and k: "vek_revoked L (vr_vcek v) crl (vr_gen v) = Inr rvk"
    and res: "res = (vr_result v)\<lparr>asr_snp := (asr_snp (vr_result v))\<lparr>sv_crl_ok := Some (\<not> rvk)\<rparr>\<rparr>"
    by (auto simp: az_snp_verify_def and_then_Inr_iff Let_def)
  show thesis
  proof (rule az_snp_verify_report_Inr [OF v])
    fix r msg ps rd hd pm cl
    assume g: "az_snp_genuine L T ev now r (vr_vcek v) (vr_gen v) msg ps"
      and c: "check_report_data msg (sp_report_data (asp_snp params)) = Inr rd"
        "check_init_data (tl_hash T) msg ps (sp_host_data (asp_snp params)) = Inr hd"
        "check_pcrs msg ps (asp_pcrs params) = Inr pm"
      and e: "vr_result v = \<lparr>asr_snp = (evaluate_report (sn_hex L) r (asp_snp params) None)
        \<lparr>sv_report_data_match := rd, sv_host_data_match := hd, sv_claims := cl\<rparr>, asr_pcrs_match = pm\<rparr>"
    have tm: "tpm_meets (tl_hash T) msg ps (sp_report_data (asp_snp params)) (sp_host_data (asp_snp params))
        (asp_pcrs params) \<longleftrightarrow> rd \<noteq> Some False \<and> hd \<noteq> Some False \<and> pm \<noteq> Some False"
      unfolding tpm_meets_def check_report_data_held [OF c(1)] check_init_data_held [OF c(2)]
        check_pcrs_held [OF c(3)] ..
    have "az_snp_passed res \<longleftrightarrow> report_meets ((asp_snp params)\<lparr>sp_host_data := None\<rparr>) r
        \<and> tpm_meets (tl_hash T) msg ps (sp_report_data (asp_snp params)) (sp_host_data (asp_snp params)) (asp_pcrs params)
        \<and> \<not> rvk"
      unfolding tm res e az_snp_passed_def snp_passed_def evaluate_report_def all_held_Cons report_meets_def
      by (simp del: all_held_iff map_option_bool) (auto simp: padded_to_def)
    with g k show thesis by (rule that)
  qed
qed

section \<open>Azure TDX: verdicts\<close>

definition az_tdx_genuine ::
  "('k, 's) dcap_lib \<Rightarrow> ('key, 'sig) tpm_lib \<Rightarrow> az_tdx_evidence \<Rightarrow> int \<Rightarrow> bytes \<Rightarrow> tdx_quote
     \<Rightarrow> bytes \<Rightarrow> bytes list \<Rightarrow> bool" where
  "az_tdx_genuine L T ev now d q msg ps \<longleftrightarrow>
     (\<exists>hcl sig. az_tdx_decode T ev = Inr (hcl, d, (sig, msg, ps)) \<and> quote_trust L d q now
        \<and> take 32 (td_report_data (tq_body q)) = sha256 (tl_hash T) (hcl_var_data hcl)
        \<and> verify_tpm_signature (tl_json T) (decode_base64url (tl_b64url T)) (tl_rsa T) sig msg (hcl_var_data hcl) = Inr ()
        \<and> verify_tpm_pcrs (tl_hash T) msg ps = Inr ())"

lemma az_tdx_verify_evidence_Inr:
  assumes "az_tdx_verify_evidence L T ev params now = Inr (d, q, res)"
  obtains msg ps rd im pm r0 cl where
    "az_tdx_validate params = Inr ()" "az_tdx_genuine L T ev now d q msg ps"
    "check_report_data msg (tp_report_data (atp_tdx params)) = Inr rd"
    "check_init_data (tl_hash T) msg ps (tp_init_data (atp_tdx params)) = Inr im"
    "check_pcrs msg ps (atp_pcrs params) = Inr pm" "verify_quote L d (atp_tdx params) now = Inr (q, r0)"
    "res = \<lparr>atr_tdx = r0\<lparr>tr_report_data_match := rd, tr_init_data_match := im, tr_claims := cl\<rparr>,
       atr_pcrs_match = pm\<rparr>"
proof -
  from assms have val: "az_tdx_validate params = Inr ()"
    by (simp add: az_tdx_verify_evidence_def and_then_Inr_iff)
  with assms obtain hcl d' sig msg ps where dc: "az_tdx_decode T ev = Inr (hcl, d', (sig, msg, ps))"
    by (auto simp: az_tdx_verify_evidence_def Let_def and_then_Inr_iff)
  with assms val obtain rd pm where
    t: "tpm_layer T sig msg ps (hcl_var_data hcl) (tp_report_data (atp_tdx params)) (atp_pcrs params) = Inr (rd, pm)"
    by (auto simp: az_tdx_verify_evidence_def Let_def and_then_Inr_iff)
  with assms val dc obtain r0 im cl where d': "d' = d"
    and vq: "verify_quote L d (atp_tdx params) now = Inr (q, r0)"
    and b: "verify_hcl_var_data_binding (tl_hash T) (td_report_data (tq_body q)) (hcl_var_data hcl) = Inr ()"
    and i: "check_init_data (tl_hash T) msg ps (tp_init_data (atp_tdx params)) = Inr im"
    and res: "res = \<lparr>atr_tdx = r0\<lparr>tr_report_data_match := rd, tr_init_data_match := im, tr_claims := cl\<rparr>,
       atr_pcrs_match = pm\<rparr>"
    by (auto simp: az_tdx_verify_evidence_def Let_def and_then_Inr_iff)
  have "az_tdx_genuine L T ev now d q msg ps"
    unfolding az_tdx_genuine_def using dc t b verify_quote_Inr [OF vq]
    by (auto simp: d' tpm_layer_Inr_iff verify_hcl_var_data_binding_Inr_iff)
  with val t i vq res show thesis
    by (intro that [of msg ps rd im pm r0 cl]) (simp_all add: tpm_layer_Inr_iff)
qed

lemma az_tdx_passed_iff:
  assumes "az_tdx_verify E T ev params c now = Inr res"
  obtains d q msg ps pck st rvk where
    "az_tdx_genuine (ev_lib E) T ev now d q msg ps" "pck_of (ev_lib E) d q = Inr pck"
    "tp_fmspc (ts_tcb_info c) = pc_fmspc pck" "pp_ca (ts_pck_crl c) = pc_ca pck"
    "pck_revoked (dc_x509 (ev_lib E)) (pc_der pck) c = Inr rvk"
    "quote_status (ev_lib E) d q (pc_der pck) c now = Inr st"
    "az_tdx_passed res \<longleftrightarrow>
       body_meets ((atp_tdx params)\<lparr>tp_report_data := None, tp_init_data := None\<rparr>) (tq_body q)
       \<and> tpm_meets (tl_hash T) msg ps (tp_report_data (atp_tdx params)) (tp_init_data (atp_tdx params)) (atp_pcrs params)
       \<and> \<not> rvk \<and> ds_tcb_status st \<in> set (tp_accepted (atp_tdx params))"
proof -
  from assms obtain d q r1 tdx where v: "az_tdx_verify_evidence (ev_lib E) T ev params now = Inr (d, q, r1)"
    and k: "check_collateral (ev_lib E) (atr_tdx r1) d q (atp_tdx params) c now = Inr tdx"
    and res: "res = r1\<lparr>atr_tdx := tdx\<rparr>"
    by (auto simp: az_tdx_verify_def and_then_Inr_iff)
  show thesis
  proof (rule az_tdx_verify_evidence_Inr [OF v], rule check_collateral_Inr [OF k])
    fix msg ps rd im pm r0 cl pck st rvk
    assume g: "az_tdx_genuine (ev_lib E) T ev now d q msg ps"
      and h: "check_report_data msg (tp_report_data (atp_tdx params)) = Inr rd"
        "check_init_data (tl_hash T) msg ps (tp_init_data (atp_tdx params)) = Inr im"
        "check_pcrs msg ps (atp_pcrs params) = Inr pm"
      and vq: "verify_quote (ev_lib E) d (atp_tdx params) now = Inr (q, r0)"
      and r1: "r1 = \<lparr>atr_tdx = r0\<lparr>tr_report_data_match := rd, tr_init_data_match := im, tr_claims := cl\<rparr>,
         atr_pcrs_match = pm\<rparr>"
      and p: "pck_of (ev_lib E) d q = Inr pck" "tp_fmspc (ts_tcb_info c) = pc_fmspc pck"
        "pp_ca (ts_pck_crl c) = pc_ca pck" "pck_revoked (dc_x509 (ev_lib E)) (pc_der pck) c = Inr rvk"
        "quote_status (ev_lib E) d q (pc_der pck) c now = Inr st"
      and tdx: "tdx = (atr_tdx r1)\<lparr>tr_tcb_status_accepted := Some (ds_tcb_status st \<in> set (tp_accepted (atp_tdx params))),
        tr_tcb_status := Some st, tr_crl_ok := Some (\<not> rvk)\<rparr>"
    have tm: "tpm_meets (tl_hash T) msg ps (tp_report_data (atp_tdx params)) (tp_init_data (atp_tdx params))
        (atp_pcrs params) \<longleftrightarrow> rd \<noteq> Some False \<and> im \<noteq> Some False \<and> pm \<noteq> Some False"
      unfolding tpm_meets_def check_report_data_held [OF h(1)] check_init_data_held [OF h(2)]
        check_pcrs_held [OF h(3)] ..
    have r0: "r0 = \<lparr>tr_claims = tdx_extract_claims (dc_hex (ev_lib E)) q, tr_report_data_match = None,
        tr_init_data_match = None, tr_mrtd_match = match_any (mr_td (tq_body q)) (tp_mrtd (atp_tdx params)),
        tr_rtmr_match = [match_any (rtmr_0 (tq_body q)) (tp_rtmr0 (atp_tdx params)),
          match_any (rtmr_1 (tq_body q)) (tp_rtmr1 (atp_tdx params)),
          match_any (rtmr_2 (tq_body q)) (tp_rtmr2 (atp_tdx params)),
          match_any (rtmr_3 (tq_body q)) (tp_rtmr3 (atp_tdx params))],
        tr_debug = (td_attributes (tq_body q) ! 0 AND 1 \<noteq> 0), tr_allow_debug = tp_allow_debug (atp_tdx params),
        tr_crl_ok = None, tr_tcb_status = None, tr_tcb_status_accepted = None\<rparr>"
      using verify_quote_Inr [OF vq] by blast
    have "az_tdx_passed res \<longleftrightarrow>
       body_meets ((atp_tdx params)\<lparr>tp_report_data := None, tp_init_data := None\<rparr>) (tq_body q)
       \<and> tpm_meets (tl_hash T) msg ps (tp_report_data (atp_tdx params)) (tp_init_data (atp_tdx params)) (atp_pcrs params)
       \<and> \<not> rvk \<and> ds_tcb_status st \<in> set (tp_accepted (atp_tdx params))"
      unfolding tm res tdx r1 r0 az_tdx_passed_def tdx_passed_def body_meets_def all_held_Cons
      by (simp del: all_held_iff) (auto simp: all_held_Cons padded_to_def simp del: all_held_iff)
    with g p show thesis by (rule that)
  qed
qed

section \<open>No panics\<close>

lemma az_snp_validate_Inl: "az_snp_validate p = Inl e \<Longrightarrow> is_invalid_params e"
  by (auto simp: az_snp_validate_def and_then_Inl_iff is_invalid_params_def split: if_splits
      dest!: snp_validate_Inl [unfolded is_invalid_params_def] check_init_data_len_Inl [unfolded is_invalid_params_def]
        check_pcr_pin_indexes_Inl [unfolded is_invalid_params_def])

lemma az_tdx_validate_Inl: "az_tdx_validate p = Inl e \<Longrightarrow> is_invalid_params e"
  by (auto simp: az_tdx_validate_def and_then_Inl_iff is_invalid_params_def split: if_splits
      dest!: tdx_validate_Inl [unfolded is_invalid_params_def] check_init_data_len_Inl [unfolded is_invalid_params_def]
        check_pcr_pin_indexes_Inl [unfolded is_invalid_params_def])

lemma az_validate_not_panic [panic_free, simp]:
  "az_snp_validate p \<noteq> Inl Panicked" "az_tdx_validate q \<noteq> Inl Panicked"
  using az_snp_validate_Inl [of p Panicked] az_tdx_validate_Inl [of q Panicked]
  by (auto simp: is_invalid_params_def)

lemma check_report_data_not_panic [simp]: "check_report_data m e \<noteq> Inl Panicked"
  using extract_tpm_nonce_not_panic [of m]
  by (cases "extract_tpm_nonce m") (auto simp: check_report_data_def tpm_nonce_matches_def split: option.splits)

lemma check_init_data_not_panic [simp]: "check_init_data h m ps e \<noteq> Inl Panicked"
  using check_init_data_len_Inl [of e Panicked] parse_quote_info_not_panic
  by (auto simp: check_init_data_def err_simps is_invalid_params_def Let_def not_le split: option.splits if_splits)

lemma check_pcrs_not_panic [simp]: "check_pcrs m ps pins \<noteq> Inl Panicked"
  using check_pcr_pin_indexes_Inl [of pins Panicked] parse_quote_info_not_panic
  by (auto simp: check_pcrs_def err_simps is_invalid_params_def split: if_splits)

lemma tpm_layer_not_panic [simp]: "tpm_layer T sig msg ps vd e pins \<noteq> Inl Panicked"
  by (auto simp: tpm_layer_def and_then_Inl_iff verify_tpm_signature_not_panic verify_tpm_pcrs_not_panic)

lemma decode_tpm_quote_not_panic [simp]: "decode_tpm_quote hx q \<noteq> Inl Panicked"
  by (auto simp: decode_tpm_quote_def err_simps dest!: traverse_Inl)

lemma az_decode_not_panic [simp]: "az_snp_decode L T ev \<noteq> Inl Panicked" "az_tdx_decode T ev' \<noteq> Inl Panicked"
  by (auto simp: az_snp_decode_def az_tdx_decode_def parse_report_def err_simps check_field_size_not_panic
      parse_hcl_report_not_panic split: if_splits)

text \<open>The claims of a report and of a quote are objects, which the vTPM's part is added to.\<close>

lemma tpm_claims_not_panic: "platform_data base = JObj ms \<Longrightarrow> tpm_claims hx base ps msg \<noteq> Inl Panicked"
  by (auto simp: tpm_claims_def pcr_map_def err_simps split: sum.splits)

lemma first_gen_not_panic:
  "(\<And>g. endorsed g \<noteq> Inl Panicked) \<Longrightarrow> e \<noteq> Some Panicked \<Longrightarrow> first_gen endorsed gens e \<noteq> Inl Panicked"
  by (induction endorsed gens e rule: first_gen.induct) (auto split: option.splits sum.splits)

lemma vek_endorsement_not_panic [simp]: "verify_vek_endorsement L r vek gen now \<noteq> Inl Panicked"
  by (auto simp: verify_vek_endorsement_def verify_cert_chain_def vek_issuer_def
      verify_vek_validity_period_def verify_vcek_tcb_def asn1_time_def err_simps split: if_splits)

lemma verify_hcl_binding_not_panic [simp]: "verify_hcl_var_data_binding h rd vd \<noteq> Inl Panicked"
  by (auto simp: verify_hcl_var_data_binding_def err_simps Let_def)

lemma az_snp_verify_not_panic [panic_free]: "az_snp_verify L T ev p crl now \<noteq> Inl Panicked"
proof -
  have "tpm_claims hx (snp_extract_claims hx' r) ps msg \<noteq> Inl Panicked" for hx hx' r ps msg
    by (rule tpm_claims_not_panic) (simp add: snp_extract_claims_def json_obj_def Let_def del: bt_insert.simps)
  then have "az_snp_verify_report L T ev p now \<noteq> Inl Panicked"
    by (auto simp: az_snp_verify_report_def and_then_Inl_iff first_gen_not_panic evaluate_report_def
        verify_report_signature_def ok_or_Inl_iff require_Inl_iff Let_def split: prod.splits)
  then show ?thesis by (auto simp: az_snp_verify_def and_then_Inl_iff Let_def)
qed

lemma az_tdx_verify_not_panic [panic_free]: "az_tdx_verify E T ev p c now \<noteq> Inl Panicked"
proof -
  have c: "tpm_claims hx (tdx_extract_claims hx' q) ps msg \<noteq> Inl Panicked" for hx hx' q ps msg
    by (rule tpm_claims_not_panic) (simp add: tdx_extract_claims_def json_obj_def Let_def)
  have "tpm_claims hx (tr_claims r0) ps msg \<noteq> Inl Panicked"
    if "verify_quote (ev_lib E) d q now = Inr (qu, r0)" for hx r0 ps msg d q qu
    using verify_quote_Inr [OF that] c by auto
  then have "az_tdx_verify_evidence (ev_lib E) T ev p now \<noteq> Inl Panicked"
    by (auto simp: az_tdx_verify_evidence_def and_then_Inl_iff verify_quote_not_panic Let_def split: prod.splits)
  then show ?thesis by (auto simp: az_tdx_verify_def and_then_Inl_iff check_collateral_not_panic)
qed

section \<open>The platform contract\<close>

lemma az_snp_gather_forged:
  assumes "\<not> (\<exists>r vcek gen msg ps. az_snp_genuine (en_lib E) T ev now r vcek gen msg ps)"
  shows "\<exists>e. az_snp_gather E T ev now s w = (Inl e, s, w)"
proof (cases "az_snp_verify_report (en_lib E) T ev default_az_snp_params now")
  case (Inr v)
  then have False by (rule az_snp_verify_report_Inr) (use assms in blast)
  then show ?thesis ..
qed (simp add: az_snp_gather_def Let_def)

lemma az_tdx_gather_forged:
  assumes "\<not> (\<exists>d q msg ps. az_tdx_genuine (ev_lib E) T ev now d q msg ps)"
  shows "\<exists>e. az_tdx_gather E T ev now s w = (Inl e, s, w)"
proof (cases "az_tdx_verify_evidence (ev_lib E) T ev default_az_tdx_params now")
  case (Inr v)
  then obtain d q res where "az_tdx_verify_evidence (ev_lib E) T ev default_az_tdx_params now = Inr (d, q, res)"
    by (cases v) auto
  then have False by (rule az_tdx_verify_evidence_Inr) (use assms in blast)
  then show ?thesis ..
qed (simp add: az_tdx_gather_def)

lemma az_snp_verify_genuine:
  assumes "az_snp_verify L T ev p crl now = Inr res"
  shows "\<exists>r vcek gen msg ps. az_snp_genuine L T ev now r vcek gen msg ps"
  by (rule az_snp_passed_iff [OF assms]) blast

lemma az_tdx_verify_genuine:
  assumes "az_tdx_verify E T ev p c now = Inr res"
  shows "\<exists>d q msg ps. az_tdx_genuine (ev_lib E) T ev now d q msg ps"
  by (rule az_tdx_passed_iff [OF assms]) blast

interpretation az_snp_code: checked_platform "az_snp_platform dec E T"
    "\<lambda>ev now. \<exists>r vcek gen msg ps. az_snp_genuine (en_lib E) T ev now r vcek gen msg ps"
    "\<lambda>ev _ now. \<exists>r vcek gen msg ps. az_snp_genuine (en_lib E) T ev now r vcek gen msg ps"
  for dec and E :: "('k, 's, 'rk, 'rs, 'w) snp_env" and T :: "('key, 'sig) tpm_lib"
  by (unfold_locales, unfold az_snp_platform_def platform.select_convs)
    (fact az_snp_gather_forged az_snp_validate_Inl az_snp_verify_genuine)+

interpretation az_tdx_code: checked_platform "az_tdx_platform dec E T"
    "\<lambda>ev now. \<exists>d q msg ps. az_tdx_genuine (ev_lib E) T ev now d q msg ps"
    "\<lambda>ev _ now. \<exists>d q msg ps. az_tdx_genuine (ev_lib E) T ev now d q msg ps"
  for dec and E :: "('k, 's, 'w) tdx_env" and T :: "('key, 'sig) tpm_lib"
  by (unfold_locales, unfold az_tdx_platform_def platform.select_convs)
    (fact az_tdx_gather_forged az_tdx_validate_Inl az_tdx_verify_genuine)+

end
