(* ===== verification/Protobuf.thy ===== *)
theory Protobuf
  imports Prelude
begin

text \<open>
  The protobuf reader of \<open>crates/attestation/src/platforms/gcp_endorsement.rs\<close>: variable
  length integers in their one shortest form, and a message split into its fields. The
  errors of these functions are text.
\<close>

type_synonym 'a sres = "string + 'a"

section \<open>Operations\<close>

datatype field = Varint u64 | FBytes bytes | Fixed

fun field_varint :: "field \<Rightarrow> u64 sres" where
  "field_varint (Varint v) = Inr v"
| "field_varint _ = Inl ''protobuf: expected a varint field''"

text \<open>\<open>T::try_from\<close> of a type that holds the values below the bound.\<close>

definition field_int :: "nat \<Rightarrow> field \<Rightarrow> nat sres" where
  "field_int bound f =
     and_then (field_varint f) (\<lambda>v.
     if unat v < bound then Inr (unat v) else Inl ''protobuf: integer out of range'')"

fun field_bytes :: "field \<Rightarrow> bytes sres" where
  "field_bytes (FBytes b) = Inr b"
| "field_bytes _ = Inl ''protobuf: expected a length-delimited field''"

fun pb_varint_from :: "nat list \<Rightarrow> u64 \<Rightarrow> bytes \<Rightarrow> (u64 \<times> bytes) sres" where
  "pb_varint_from [] v buf = Inl ''protobuf: varint too long''"
| "pb_varint_from (shift # shifts) v [] = Inl ''protobuf: truncated varint''"
| "pb_varint_from (shift # shifts) v (byte # rest) =
     (if shift = 63 \<and> byte > 1 then Inl ''protobuf: varint overflows 64 bits''
      else if shift > 0 \<and> byte = 0 then Inl ''protobuf: over-long varint''
      else
        let v = v OR push_bit shift (ucast (byte AND 0x7F)) in
        if byte AND 0x80 = 0 then Inr (v, rest) else pb_varint_from shifts v rest)"

definition pb_varint :: "bytes \<Rightarrow> (u64 \<times> bytes) sres" where
  "pb_varint buf = pb_varint_from (map ((*) 7) [0..<10]) 0 buf"

definition pb_take :: "bytes \<Rightarrow> u64 \<Rightarrow> (bytes \<times> bytes) sres" where
  "pb_take buf len =
     (if unat len \<le> length buf then Inr (take (unat len) buf, drop (unat len) buf)
      else Inl ''protobuf: truncated field'')"

definition pb_field :: "bytes \<Rightarrow> ((u64 \<times> field) \<times> bytes) sres" where
  "pb_field buf =
     and_then (pb_varint buf) (\<lambda>(key, buf).
     if drop_bit 3 key = 0 then Inl ''protobuf: field number 0''
     else and_then
       (let wire = key AND 7 in
        if wire = 0 then and_then (pb_varint buf) (\<lambda>(v, buf). Inr (Varint v, buf))
        else if wire = 1 then and_then (pb_take buf 8) (\<lambda>(_, buf). Inr (Fixed, buf))
        else if wire = 2
        then and_then (pb_varint buf) (\<lambda>(len, buf).
             and_then (pb_take buf len) (\<lambda>(b, buf). Inr (FBytes b, buf)))
        else if wire = 5 then and_then (pb_take buf 4) (\<lambda>(_, buf). Inr (Fixed, buf))
        else Inl ''protobuf: unsupported wire type'')
       (\<lambda>(f, buf). Inr ((drop_bit 3 key, f), buf)))"

lemma pb_varint_from_shorter:
  "pb_varint_from shifts v buf = Inr (w, rest) \<Longrightarrow> length rest < length buf"
  by (induction shifts v buf arbitrary: w rest rule: pb_varint_from.induct)
     (fastforce simp: Let_def split: if_splits)+

lemma pb_varint_shorter: "pb_varint buf = Inr (w, rest) \<Longrightarrow> length rest < length buf"
  unfolding pb_varint_def by (rule pb_varint_from_shorter)

lemma pb_take_Inr_iff [res_simps]:
  "pb_take buf len = Inr (a, b) \<longleftrightarrow> unat len \<le> length buf \<and> a = take (unat len) buf \<and> b = drop (unat len) buf"
  by (auto simp: pb_take_def)

lemma pb_field_shorter:
  assumes "pb_field buf = Inr (f, rest)"
  shows "length rest < length buf"
proof -
  obtain key b where k: "pb_varint buf = Inr (key, b)"
    using assms by (auto simp: pb_field_def and_then_Inr_iff)
  have "length rest \<le> length b"
    using assms k by (auto simp: pb_field_def and_then_Inr_iff pb_take_Inr_iff Let_def
        dest!: pb_varint_shorter split: if_splits)
  with pb_varint_shorter [OF k] show ?thesis by simp
qed

text \<open>The loop of \<open>fields\<close>: every field takes at least one byte.\<close>

function pb_fields :: "bytes \<Rightarrow> (u64 \<times> field) list sres" where
  "pb_fields buf =
     (if buf = [] then Inr []
      else (case pb_field buf of
          Inl e \<Rightarrow> Inl e
        | Inr (f, rest) \<Rightarrow> and_then (pb_fields rest) (\<lambda>fs. Inr (f # fs))))"
  by auto
termination by (relation "measure length") (auto dest: pb_field_shorter)

declare pb_fields.simps [simp del]

text \<open>\<open>for (n, f) in fields\<close>, with the variables the loop updates as a state.\<close>

fun fold_fields :: "('s \<Rightarrow> u64 \<times> field \<Rightarrow> 's sres) \<Rightarrow> 's \<Rightarrow> (u64 \<times> field) list \<Rightarrow> 's sres" where
  "fold_fields step s [] = Inr s"
| "fold_fields step s (f # fs) = and_then (step s f) (\<lambda>s. fold_fields step s fs)"

section \<open>Variable length integers\<close>

text \<open>The shortest form of an integer.\<close>

fun varint_bytes :: "nat \<Rightarrow> bytes" where
  "varint_bytes n =
     (if n < 128 then [of_nat n] else of_nat (n mod 128 + 128) # varint_bytes (n div 128))"

declare varint_bytes.simps [simp del]

lemma low_bits: "unat ((b :: u8) AND 0x7F) = unat b mod 128"
proof -
  have "(b AND 0x7F) = take_bit 7 b" by (simp add: take_bit_eq_mask mask_eq_exp_minus_1)
  then show ?thesis by (simp add: unsigned_take_bit_eq take_bit_nat_def)
qed

lemma no_continuation: "(b :: u8) AND 0x80 = 0 \<longleftrightarrow> unat b < 128"
proof -
  have "b AND 0x80 = 0 \<longleftrightarrow> \<not> bit b 7"
    using and_exp_eq_0_iff_not_bit [of b 7] by simp
  also have "\<dots> \<longleftrightarrow> even (unat b div 128)"
  proof -
    have "bit b 7 \<longleftrightarrow> bit (unat b) 7" by (simp add: bit_unsigned_iff)
    then show ?thesis by (simp add: bit_iff_odd)
  qed
  also have "\<dots> \<longleftrightarrow> unat b < 128"
  proof -
    have "unat b div 128 < 2" using unat_u8_less [of b] by (simp add: less_mult_imp_div_less)
    then have "unat b div 128 = 0 \<or> unat b div 128 = 1" by linarith
    then show ?thesis by (auto simp: div_eq_0_iff)
  qed
  finally show ?thesis .
qed

lemma or_push_bit:
  assumes "unat v < 2 ^ s" "s < 64"
  shows "(v :: u64) OR push_bit s w = v + w * 2 ^ s"
proof -
  have "\<not> bit v i" if "s \<le> i" for i
  proof -
    have "unat v < 2 ^ i" using assms(1) that power_increasing [of s i "2 :: nat"] by linarith
    then have "\<not> bit (unat v) i" by (simp add: bit_iff_odd)
    then show ?thesis by (simp add: bit_unsigned_iff)
  qed
  then have "v OR push_bit s w = v + push_bit s w"
    by (intro disjunctive_add [symmetric]) (auto simp: bit_push_bit_iff)
  then show ?thesis by (simp add: push_bit_eq_mult)
qed

text \<open>One byte of an integer, with the rest of it above.\<close>

lemma varint_step:
  fixes v :: u64 and b :: u8
  assumes k: "k < 10" and v: "unat v < 2 ^ (7 * k)" and b: "unat b = n mod 128 \<or> unat b = n mod 128 + 128"
  shows "v OR push_bit (7 * k) (ucast (b AND 0x7F)) = v + of_nat (2 ^ (7 * k) * (n mod 128))"
    and "k < 9 \<Longrightarrow> unat (v + of_nat (2 ^ (7 * k) * (n mod 128)) :: u64) < 2 ^ (7 * Suc k)"
proof -
  have m: "unat (b AND 0x7F) = n mod 128" using b by (auto simp: low_bits)
  have "(ucast (b AND 0x7F) :: u64) = of_nat (n mod 128)"
    unfolding m [symmetric] by (simp add: of_nat_unat)
  then show "v OR push_bit (7 * k) (ucast (b AND 0x7F)) = v + of_nat (2 ^ (7 * k) * (n mod 128))"
    using or_push_bit [OF v] k by (simp add: mult.commute)
  assume k9: "k < 9"
  have le: "2 ^ (7 * k) * (n mod 128) \<le> 2 ^ (7 * k) * (127 :: nat)" by (intro mult_le_mono2) simp
  have "(2 :: nat) ^ (7 * Suc k) = 2 ^ (7 * k) * 127 + 2 ^ (7 * k)" by (simp add: power_add)
  with v le have s: "unat v + 2 ^ (7 * k) * (n mod 128) < 2 ^ (7 * Suc k)" by linarith
  also have "(2 :: nat) ^ (7 * Suc k) \<le> 2 ^ 63" using k9 by (intro power_increasing) simp_all
  finally have l: "unat v + 2 ^ (7 * k) * (n mod 128) < 2 ^ 64" by simp
  then have "unat (of_nat (2 ^ (7 * k) * (n mod 128)) :: u64) = 2 ^ (7 * k) * (n mod 128)"
    by (intro unat_of_nat_small) linarith
  with s l show "unat (v + of_nat (2 ^ (7 * k) * (n mod 128)) :: u64) < 2 ^ (7 * Suc k)"
    unfolding unat_word_ariths(1) by simp
qed

lemma shifts_from: "k < 10 \<Longrightarrow> map ((*) 7) [k..<10] = 7 * k # map ((*) 7) [Suc k..<10]"
  by (simp add: upt_conv_Cons)

lemma pb_varint_from_bytes:
  assumes "k < 10" "n < 2 ^ (64 - 7 * k)" "0 < k \<longrightarrow> 0 < n" "unat v < 2 ^ (7 * k)"
  shows "pb_varint_from (map ((*) 7) [k..<10]) v (varint_bytes n @ rest) = Inr (v + of_nat (2 ^ (7 * k) * n), rest)"
  using assms
proof (induction n arbitrary: k v rule: varint_bytes.induct)
  case (1 n)
  show ?case
  proof (cases "n < 128")
    case True
    define b :: u8 where "b = of_nat n"
    have b: "unat b = n" using True by (simp add: b_def unat_of_nat)
    have two: "7 * k = 63 \<Longrightarrow> n < 2" using "1.prems"(2) by simp
    have big: "\<not> (7 * k = 63 \<and> b > 1)"
      using b two by (auto simp: word_less_nat_alt)
    have bz: "0 < k \<longrightarrow> b \<noteq> 0" using b "1.prems"(3) by auto
    show ?thesis
      using varint_step(1) [OF "1.prems"(1,4), of b n] b big bz True
      by (auto simp: varint_bytes.simps [of n] shifts_from [OF "1.prems"(1)] b_def [symmetric] no_continuation Let_def)
  next
    case False
    define b :: u8 where "b = of_nat (n mod 128 + 128)"
    have "n mod 128 + 128 < 256" by simp
    then have b: "unat b = n mod 128 + 128" unfolding b_def by (rule unat_of_nat_small)
    have k9: "k < 9"
    proof (rule ccontr)
      assume "\<not> k < 9"
      then have "k = 9" using "1.prems"(1) by simp
      with "1.prems"(2) False show False by simp
    qed
    have bz: "b \<noteq> 0" using b by auto
    have "(2 :: nat) ^ (64 - 7 * k) = 128 * 2 ^ (64 - 7 * Suc k)"
    proof -
      have "64 - 7 * k = 7 + (64 - 7 * Suc k)" using k9 by simp
      then show ?thesis by (simp only: power_add) simp
    qed
    with "1.prems"(2) have n: "n div 128 < 2 ^ (64 - 7 * Suc k)" by (simp add: less_mult_imp_div_less mult.commute)
    let ?v = "v + of_nat (2 ^ (7 * k) * (n mod 128))"
    have "pb_varint_from (map ((*) 7) [Suc k..<10]) ?v (varint_bytes (n div 128) @ rest)
        = Inr (?v + of_nat (2 ^ (7 * Suc k) * (n div 128)), rest)"
      using False k9 n varint_step(2) [OF "1.prems"(1,4) _ k9, of b n] b
      by (intro "1.IH") (simp_all add: div_greater_zero_iff)
    moreover have "?v + of_nat (2 ^ (7 * Suc k) * (n div 128)) = v + of_nat (2 ^ (7 * k) * n)"
    proof -
      have "p * a + p * 128 * c = p * (a + 128 * c)" for p a c :: nat
        by (simp add: distrib_left)
      from this [of "2 ^ (7 * k)" "n mod 128" "n div 128"]
      have "2 ^ (7 * k) * (n mod 128) + 2 ^ (7 * Suc k) * (n div 128) = 2 ^ (7 * k) * n"
        by (simp add: power_add mult.commute mult.left_commute)
      then have "(of_nat (2 ^ (7 * k) * (n mod 128) + 2 ^ (7 * Suc k) * (n div 128)) :: u64) = of_nat (2 ^ (7 * k) * n)"
        by (rule arg_cong)
      then show ?thesis by (simp only: of_nat_add add.assoc)
    qed
    moreover have "varint_bytes n = b # varint_bytes (n div 128)"
      using False by (subst varint_bytes.simps) (simp only: b_def if_False)
    moreover have "\<not> unat b < 128" "\<not> (7 * k = 63 \<and> b > 1)" using b k9 by auto
    moreover have "v OR push_bit (7 * k) (ucast (b AND 0x7F)) = ?v"
      using varint_step(1) [OF "1.prems"(1,4), of b n] b by blast
    ultimately show ?thesis
      using bz by (simp only: shifts_from [OF "1.prems"(1)] append_Cons pb_varint_from.simps no_continuation Let_def
          if_False simp_thms)
  qed
qed

lemma pb_varint_bytes: "pb_varint (varint_bytes (unat v) @ rest) = Inr (v, rest)"
proof -
  have "unat v < 2 ^ 64" using unat_lt [of v] by simp
  then show ?thesis
    using pb_varint_from_bytes [of 0 "unat v" 0 rest] by (simp add: pb_varint_def)
qed

lemma varint_bytes_step: "0 < n \<Longrightarrow> 128 \<le> unat (b :: u8) \<Longrightarrow>
  varint_bytes (unat b - 128 + 128 * n) = b # varint_bytes n"
proof -
  assume n: "0 < n" and b: "128 \<le> unat b"
  have l: "unat b - 128 < 128" using b unat_u8_less [of b] by linarith
  then have d: "(unat b - 128 + 128 * n) mod 128 = unat b - 128" "(unat b - 128 + 128 * n) div 128 = n" by simp_all
  have "\<not> unat b - 128 + 128 * n < 128" using n by simp
  moreover have "of_nat (unat b - 128 + 128) = b"
  proof -
    have "unat b - 128 + 128 = unat b" using b by simp
    moreover have "of_nat (unat b) = b" by simp
    ultimately show ?thesis by (simp only:)
  qed
  ultimately show ?thesis by (subst varint_bytes.simps) (simp only: d if_False)
qed

lemma pb_varint_from_canonical:
  "pb_varint_from (map ((*) 7) [k..<10]) v buf = Inr (w, rest) \<Longrightarrow>
     \<exists>n. buf = varint_bytes n @ rest \<and> n < 2 ^ (64 - 7 * k) \<and> (0 < k \<longrightarrow> 0 < n)"
proof (induction buf arbitrary: k v)
  case Nil
  then show ?case by (cases "k < 10") (simp_all add: shifts_from)
next
  case (Cons b buf)
  have k: "k < 10" using Cons.prems by (rule_tac ccontr) simp
  let ?v = "v OR push_bit (7 * k) (ucast (b AND 0x7F))"
  have ok: "\<not> (7 * k = 63 \<and> b > 1)" "\<not> (0 < k \<and> b = 0)"
    and r: "(if b AND 0x80 = 0 then Inr (?v, buf) else pb_varint_from (map ((*) 7) [Suc k..<10]) ?v buf) = Inr (w, rest)"
    using Cons.prems by (auto simp: shifts_from [OF k] Let_def split: if_splits)
  show ?case
  proof (cases "unat b < 128")
    case True
    then have "varint_bytes (unat b) = [b]" by (subst varint_bytes.simps) simp
    moreover have "rest = buf" using r True by (simp add: no_continuation)
    moreover have "unat b < 2 ^ (64 - 7 * k)"
    proof (cases "k = 9")
      case True
      with ok(1) show ?thesis by (simp add: word_less_nat_alt not_less)
    next
      case False
      then have "(2 :: nat) ^ 8 \<le> 2 ^ (64 - 7 * k)" using k by (intro power_increasing) simp_all
      with \<open>unat b < 128\<close> show ?thesis by simp
    qed
    moreover have "0 < k \<longrightarrow> 0 < unat b" using ok(2) by (auto simp: unat_gt_0)
    ultimately show ?thesis by (intro exI [of _ "unat b"]) simp
  next
    case False
    have "k \<noteq> 9" using ok(1) False by (auto simp: word_less_nat_alt)
    then have k9: "k < 9" using k by simp
    have "pb_varint_from (map ((*) 7) [Suc k..<10]) ?v buf = Inr (w, rest)"
      using r False by (simp add: no_continuation)
    from Cons.IH [OF this] obtain n where n: "buf = varint_bytes n @ rest" "n < 2 ^ (64 - 7 * Suc k)" "0 < n"
      by auto
    have "64 - 7 * k = 7 + (64 - 7 * Suc k)" using k9 by simp
    then have e: "(2 :: nat) ^ (64 - 7 * k) = 128 * 2 ^ (64 - 7 * Suc k)" by (simp only: power_add) simp
    have "unat b - 128 < 128" using unat_u8_less [of b] False by linarith
    then have "unat b - 128 + 128 * n < 128 * Suc n" by simp
    also have "\<dots> \<le> 128 * 2 ^ (64 - 7 * Suc k)" using n(2) by (intro mult_le_mono2) simp
    finally have "unat b - 128 + 128 * n < 2 ^ (64 - 7 * k)" by (simp only: e)
    then show ?thesis
      using n varint_bytes_step [of n b] False by (intro exI [of _ "unat b - 128 + 128 * n"]) simp
  qed
qed

lemma pb_varint_iff: "pb_varint buf = Inr (v, rest) \<longleftrightarrow> buf = varint_bytes (unat v) @ rest"
proof
  assume p: "pb_varint buf = Inr (v, rest)"
  then obtain n where n: "buf = varint_bytes n @ rest" "n < 2 ^ 64"
    using pb_varint_from_canonical [of 0] by (fastforce simp: pb_varint_def)
  have "pb_varint buf = Inr (of_nat n, rest)"
    using pb_varint_bytes [of "of_nat n" rest] n by (simp add: unat_of_nat_small(4))
  with p n show "buf = varint_bytes (unat v) @ rest" by (auto simp: unat_of_nat_small(4))
qed (simp add: pb_varint_bytes)

section \<open>Messages\<close>

text \<open>The bytes of a field, as a writer that uses varint and length-delimited fields only
  makes them.\<close>

fun pb_field_bytes :: "u64 \<times> field \<Rightarrow> bytes" where
  "pb_field_bytes (n, Varint v) = varint_bytes (8 * unat n) @ varint_bytes (unat v)"
| "pb_field_bytes (n, FBytes b) = varint_bytes (8 * unat n + 2) @ varint_bytes (length b) @ b"
| "pb_field_bytes (n, Fixed) = varint_bytes (8 * unat n + 5) @ replicate 4 0"

definition pb_field_ok :: "u64 \<times> field \<Rightarrow> bool" where
  "pb_field_ok f \<longleftrightarrow> 0 < unat (fst f) \<and> unat (fst f) < 2 ^ 61
     \<and> (case snd f of FBytes b \<Rightarrow> length b < 2 ^ 64 | _ \<Rightarrow> True)"

lemma field_key:
  assumes "unat (n :: u64) < 2 ^ 61" "w < 8"
  shows "pb_varint (varint_bytes (8 * unat n + w) @ rest) = Inr (of_nat (8 * unat n + w), rest)"
    "drop_bit 3 (of_nat (8 * unat n + w) :: u64) = n" "(of_nat (8 * unat n + w) :: u64) AND 7 = of_nat w"
proof -
  have "8 * unat n + w < 2 ^ 64" using assms by simp
  then have u: "unat (of_nat (8 * unat n + w) :: u64) = 8 * unat n + w" by (rule unat_of_nat_small)
  then show "pb_varint (varint_bytes (8 * unat n + w) @ rest) = Inr (of_nat (8 * unat n + w), rest)"
    by (simp only: pb_varint_iff)
  have "unat (drop_bit 3 (of_nat (8 * unat n + w) :: u64)) = (8 * unat n + w) div 8"
    by (simp only: unat_drop_bit_eq u) (simp add: drop_bit_eq_div)
  then show "drop_bit 3 (of_nat (8 * unat n + w) :: u64) = n"
    using assms(2) by (intro unsigned_word_eqI) simp
  have "(of_nat (8 * unat n + w) :: u64) AND 7 = take_bit 3 (of_nat (8 * unat n + w))"
    by (simp only: take_bit_eq_mask) (simp add: mask_eq_exp_minus_1)
  moreover have "unat (take_bit 3 (of_nat (8 * unat n + w) :: u64)) = w"
    using assms(2) by (simp only: unsigned_take_bit_eq u) (simp add: take_bit_nat_def)
  moreover have "unat (of_nat w :: u64) = w" using assms(2) by (intro unat_of_nat_small) simp
  ultimately show "(of_nat (8 * unat n + w) :: u64) AND 7 = of_nat w"
    by (simp only: word_unat_eq_iff)
qed

lemma pb_field_field_bytes:
  assumes "pb_field_ok f"
  shows "pb_field (pb_field_bytes f @ rest) = Inr (f, rest)"
proof (cases f)
  case (Pair n fv)
  with assms have n: "unat n < 2 ^ 61" "n \<noteq> 0" by (auto simp: pb_field_ok_def unat_gt_0)
  show ?thesis
  proof (cases fv)
    case (Varint v)
    with Pair n field_key [of n 0, OF n(1)] show ?thesis
      by (simp add: pb_field_def pb_varint_bytes Let_def)
  next
    case (FBytes b)
    with assms Pair have l: "unat (of_nat (length b) :: u64) = length b"
      by (intro unat_of_nat_small) (simp add: pb_field_ok_def)
    have "pb_varint (varint_bytes (length b) @ b @ rest) = Inr (of_nat (length b), b @ rest)"
      by (simp only: pb_varint_iff l)
    with Pair FBytes n field_key [of n 2, OF n(1)] l show ?thesis
      by (simp add: pb_field_def pb_take_def)
  next
    case Fixed
    with Pair n field_key [of n 5, OF n(1)] show ?thesis
      by (simp add: pb_field_def pb_take_def)
  qed
qed

lemma pb_field_bytes_not_Nil: "pb_field_bytes f \<noteq> []"
  by (cases f rule: pb_field_bytes.cases) (simp_all add: varint_bytes.simps [of "8 * _"] varint_bytes.simps [of "8 * _ + _"])

lemma pb_fields_message: "\<forall>f \<in> set fs. pb_field_ok f \<Longrightarrow> pb_fields (concat (map pb_field_bytes fs)) = Inr fs"
  by (induction fs) (simp_all add: pb_fields.simps [of "[]"] pb_fields.simps [of "_ @ _"] pb_field_field_bytes
      pb_field_bytes_not_Nil)

end
