(* ===== verification/Gce.thy ===== *)
theory Gce
  imports Protobuf StoreInv SnpReport
begin

text \<open>
  \<open>crates/attestation/src/platforms/gcp_endorsement.rs\<close> and \<open>collateral/gce.rs\<close>: Google's
  signed launch endorsements, the check of their signature, signer and provenance, and the
  piece kind the store keeps them as. Certificates, their parameters and RSA-PSS are
  parameters.
\<close>

section \<open>Golden measurements\<close>

record sev_snp_golden =
  sg_svn :: nat
  sg_measurements :: "(nat \<times> bytes) list"
  sg_policy :: u64
  sg_svsm_measurement :: bytes

record tdx_golden_measurement =
  tm_ram_gib :: nat
  tm_early_accept :: bool
  tm_mrtd :: bytes

record tdx_golden =
  tg_svn :: nat
  tg_measurements :: "tdx_golden_measurement list"

record golden_measurement =
  gm_timestamp :: nat
  gm_cl_spec :: u64
  gm_commit :: bytes
  gm_cert :: bytes
  gm_digest :: bytes
  gm_sev_snp :: "sev_snp_golden option"
  gm_tdx :: "tdx_golden option"

definition default_golden :: golden_measurement where
  "default_golden = \<lparr>gm_timestamp = 0, gm_cl_spec = 0, gm_commit = [], gm_cert = [], gm_digest = [],
     gm_sev_snp = None, gm_tdx = None\<rparr>"

definition snp_endorsed :: "sev_snp_golden \<Rightarrow> bytes list" where
  "snp_endorsed g = map snd (sg_measurements g) @ (if sg_svsm_measurement g \<noteq> [] then [sg_svsm_measurement g] else [])"

definition snp_endorses :: "sev_snp_golden \<Rightarrow> bytes \<Rightarrow> bool" where
  "snp_endorses g measurement = list_ex (\<lambda>m. m = measurement) (snp_endorsed g)"

definition tdx_endorsed :: "tdx_golden \<Rightarrow> bytes list" where
  "tdx_endorsed g = map tm_mrtd (tg_measurements g)"

definition tdx_endorses :: "tdx_golden \<Rightarrow> bytes \<Rightarrow> bool" where
  "tdx_endorses g mrtd = list_ex (\<lambda>m. m = mrtd) (tdx_endorsed g)"

section \<open>Reading them\<close>

text \<open>The bounds of \<open>u32\<close> and of \<open>i64\<close>.\<close>

abbreviation U32 :: nat where "U32 \<equiv> 2 ^ 32"
abbreviation I64 :: nat where "I64 \<equiv> 2 ^ 63"

definition last_bytes :: "bytes \<Rightarrow> u64 \<Rightarrow> bytes option sres" where
  "last_bytes message number =
     and_then (pb_fields message) (\<lambda>fs.
     fold_fields (\<lambda>value (n, f). if n = number then and_then (field_bytes f) (\<lambda>b. Inr (Some b)) else Inr value)
       None fs)"

definition snp_entry_step :: "nat \<times> bytes \<Rightarrow> u64 \<times> field \<Rightarrow> (nat \<times> bytes) sres" where
  "snp_entry_step = (\<lambda>(key, value) (n, f).
     if n = 1 then and_then (field_int U32 f) (\<lambda>k. Inr (k, value))
     else if n = 2 then and_then (field_bytes f) (\<lambda>v. Inr (key, v))
     else Inr (key, value))"

definition snp_golden_step :: "sev_snp_golden \<Rightarrow> u64 \<times> field \<Rightarrow> sev_snp_golden sres" where
  "snp_golden_step g = (\<lambda>(number, f).
     if number = 1 then and_then (field_int U32 f) (\<lambda>v. Inr (g\<lparr>sg_svn := v\<rparr>))
     else if number = 2
     then and_then (field_bytes f) (\<lambda>b.
          and_then (pb_fields b) (\<lambda>fs.
          and_then (fold_fields snp_entry_step (0, []) fs) (\<lambda>(key, value).
          Inr (g\<lparr>sg_measurements := bt_insert key value (sg_measurements g)\<rparr>))))
     else if number = 5 then and_then (field_varint f) (\<lambda>v. Inr (g\<lparr>sg_policy := v\<rparr>))
     else if number = 7 then and_then (field_bytes f) (\<lambda>b. Inr (g\<lparr>sg_svsm_measurement := b\<rparr>))
     else Inr g)"

definition parse_sev_snp :: "bytes \<Rightarrow> sev_snp_golden sres" where
  "parse_sev_snp buf =
     and_then (pb_fields buf)
       (fold_fields snp_golden_step \<lparr>sg_svn = 0, sg_measurements = [], sg_policy = 0, sg_svsm_measurement = []\<rparr>)"

definition tdx_entry_step :: "tdx_golden_measurement \<Rightarrow> u64 \<times> field \<Rightarrow> tdx_golden_measurement sres" where
  "tdx_entry_step m = (\<lambda>(n, f).
     if n = 1 then and_then (field_int U32 f) (\<lambda>v. Inr (m\<lparr>tm_ram_gib := v\<rparr>))
     else if n = 2 then and_then (field_varint f) (\<lambda>v. Inr (m\<lparr>tm_early_accept := (v \<noteq> 0)\<rparr>))
     else if n = 3 then and_then (field_bytes f) (\<lambda>b. Inr (m\<lparr>tm_mrtd := b\<rparr>))
     else Inr m)"

definition tdx_golden_step :: "tdx_golden \<Rightarrow> u64 \<times> field \<Rightarrow> tdx_golden sres" where
  "tdx_golden_step g = (\<lambda>(number, f).
     if number = 1 then and_then (field_int U32 f) (\<lambda>v. Inr (g\<lparr>tg_svn := v\<rparr>))
     else if number = 2
     then and_then (field_bytes f) (\<lambda>b.
          and_then (pb_fields b) (\<lambda>fs.
          and_then (fold_fields tdx_entry_step \<lparr>tm_ram_gib = 0, tm_early_accept = False, tm_mrtd = []\<rparr> fs) (\<lambda>m.
          Inr (g\<lparr>tg_measurements := tg_measurements g @ [m]\<rparr>))))
     else Inr g)"

definition parse_tdx_golden :: "bytes \<Rightarrow> tdx_golden sres" where
  "parse_tdx_golden buf =
     and_then (pb_fields buf) (fold_fields tdx_golden_step \<lparr>tg_svn = 0, tg_measurements = []\<rparr>)"

definition golden_step :: "golden_measurement \<Rightarrow> u64 \<times> field \<Rightarrow> golden_measurement sres" where
  "golden_step g = (\<lambda>(number, f).
     if number = 1
     then and_then (field_bytes f) (\<lambda>b.
          and_then (pb_fields b) (\<lambda>fs.
          fold_fields (\<lambda>g (n, f).
            if n = 1 then and_then (field_int I64 f) (\<lambda>t. Inr (g\<lparr>gm_timestamp := t\<rparr>)) else Inr g) g fs))
     else if number = 2 then and_then (field_varint f) (\<lambda>v. Inr (g\<lparr>gm_cl_spec := v\<rparr>))
     else if number = 3 then and_then (field_bytes f) (\<lambda>b. Inr (g\<lparr>gm_commit := b\<rparr>))
     else if number = 4 then and_then (field_bytes f) (\<lambda>b. Inr (g\<lparr>gm_cert := b\<rparr>))
     else if number = 5 then and_then (field_bytes f) (\<lambda>b. Inr (g\<lparr>gm_digest := b\<rparr>))
     else if number = 7
     then and_then (field_bytes f) (\<lambda>b. and_then (parse_sev_snp b) (\<lambda>s. Inr (g\<lparr>gm_sev_snp := Some s\<rparr>)))
     else if number = 8
     then and_then (field_bytes f) (\<lambda>b. and_then (parse_tdx_golden b) (\<lambda>t. Inr (g\<lparr>gm_tdx := Some t\<rparr>)))
     else Inr g)"

definition parse_golden :: "bytes \<Rightarrow> golden_measurement sres" where
  "parse_golden buf = and_then (pb_fields buf) (fold_fields golden_step default_golden)"

section \<open>Signatures\<close>

text \<open>What the source reads of a certificate of the \<open>x509_cert\<close> crate: names as their
  encoding, the parameters of a PSS signature (hash, mask generator, its hash, salt), the
  attributes of the subject in order, and the two extensions, \<open>Inl\<close> when they do not parse.\<close>

datatype der_tag = Utf8String | PrintableString | OtherTag

record pss_params =
  ps_hash :: string
  ps_mask_gen :: string
  ps_mask_hash :: "string option"
  ps_salt_len :: nat

record gce_cert =
  gc_issuer :: bytes
  gc_subject :: bytes
  gc_attributes :: "(string \<times> der_tag \<times> bytes) list"
  gc_algorithm :: string
  gc_parameters :: "pss_params option option"
  gc_tbs_der :: "bytes option"
  gc_signature :: bytes
  gc_spki :: "bytes option"
  gc_not_before :: nat
  gc_not_after :: nat
  gc_key_usage :: "string + bool option"
  gc_is_ca :: "string + bool option"

record ('rk, 'rs) gce_lib =
  gl_root :: bytes
  gl_cert :: "bytes \<Rightarrow> gce_cert option"
  gl_pss :: "('rk, 'rs) pss_lib"
  gl_hex :: hex_lib

definition SIGNER_CN :: string where "SIGNER_CN = ''GCE-uefi-signer''"
definition PROVENANCE_REQUIRED_AFTER :: nat where "PROVENANCE_REQUIRED_AFTER = 1722556800"
definition ID_RSASSA_PSS :: string where "ID_RSASSA_PSS = ''1.2.840.113549.1.1.10''"
definition ID_SHA_256 :: string where "ID_SHA_256 = ''2.16.840.1.101.3.4.2.1''"
definition ID_MGF_1 :: string where "ID_MGF_1 = ''1.2.840.113549.1.1.8''"
definition ID_CN :: string where "ID_CN = ''2.5.4.3''"

definition check_pss_sha256 :: "gce_cert \<Rightarrow> unit sres" where
  "check_pss_sha256 c =
     (if gc_algorithm c \<noteq> ID_RSASSA_PSS then Inl ''cert signature algorithm is not RSASSA-PSS''
      else and_then (ok_or ''cert has no RSASSA-PSS parameters'' (gc_parameters c)) (\<lambda>ps.
           and_then (ok_or ''cert RSASSA-PSS parameters'' ps) (\<lambda>p.
           if ps_hash p \<noteq> ID_SHA_256 \<or> ps_mask_gen p \<noteq> ID_MGF_1 \<or> ps_mask_hash p \<noteq> Some ID_SHA_256
              \<or> ps_salt_len p \<noteq> 32
           then Inl ''cert RSASSA-PSS parameters are not SHA-256, MGF1-SHA-256, salt 32'' else Inr ())))"

definition check_signer_role :: "gce_cert \<Rightarrow> unit sres" where
  "check_signer_role c =
     (let common_name = Option.bind (find (\<lambda>(oid, _, _). oid = ID_CN) (gc_attributes c))
            (\<lambda>(_, tag, v). if tag = Utf8String \<or> tag = PrintableString then Some v else None) in
      if common_name \<noteq> Some (str_bytes SIGNER_CN) then Inl ''cert subject is not GCE-uefi-signer''
      else and_then (gc_key_usage c) (\<lambda>usage.
           if usage \<noteq> Some True then Inl ''cert key usage does not allow digitalSignature''
           else and_then (gc_is_ca c) (\<lambda>ca.
           if ca \<noteq> Some False then Inl ''cert is not marked cA=false'' else Inr ())))"

definition gce_rsa_key :: "('rk, 'rs) gce_lib \<Rightarrow> gce_cert \<Rightarrow> 'rk sres" where
  "gce_rsa_key G c =
     and_then (ok_or ''cert key'' (gc_spki c)) (\<lambda>spki. ok_or ''cert key'' (pss_key (gl_pss G) spki))"

definition unix_secs :: "nat \<Rightarrow> int" where
  "unix_secs s = (if s < I64 then int s else 2 ^ 63 - 1)"

definition signer_key :: "('rk, 'rs) gce_lib \<Rightarrow> bytes \<Rightarrow> ('rk \<times> int \<times> int) sres" where
  "signer_key G cert_der =
     and_then (ok_or ''bundled GCE-cc-tcb-root'' (gl_cert G (gl_root G))) (\<lambda>root.
     and_then (ok_or ''cert'' (gl_cert G cert_der)) (\<lambda>c.
     if gc_issuer c \<noteq> gc_subject root then Inl ''cert is not issued by GCE-cc-tcb-root''
     else
     and_then (check_pss_sha256 c) (\<lambda>_.
     and_then (ok_or ''cert'' (gc_tbs_der c)) (\<lambda>tbs.
     and_then (ok_or ''cert signature'' (pss_sig (gl_pss G) (gc_signature c))) (\<lambda>sig.
     and_then (gce_rsa_key G root) (\<lambda>root_key.
     if \<not> pss_verify (gl_pss G) root_key tbs sig then Inl ''cert is not signed by GCE-cc-tcb-root''
     else
       let not_before = max (unix_secs (gc_not_before root)) (unix_secs (gc_not_before c));
           not_after = min (unix_secs (gc_not_after root)) (unix_secs (gc_not_after c)) in
       and_then (check_signer_role c) (\<lambda>_.
       and_then (gce_rsa_key G c) (\<lambda>key.
       Inr (key, not_before, not_after)))))))))"

definition check_endorsement ::
  "('rk, 'rs) gce_lib \<Rightarrow> bytes \<Rightarrow> (golden_measurement \<times> int \<times> int) sres" where
  "check_endorsement G endorsement =
     and_then (last_bytes endorsement 1) (\<lambda>g.
     and_then (ok_or ''no serialized_uefi_golden'' g) (\<lambda>golden_bytes.
     and_then (last_bytes endorsement 2) (\<lambda>s.
     and_then (ok_or ''no signature'' s) (\<lambda>sig_bytes.
     and_then (last_bytes golden_bytes 4) (\<lambda>c.
     and_then (ok_or ''no signing cert'' c) (\<lambda>cert.
     and_then (ok_or ''signature'' (pss_sig (gl_pss G) sig_bytes)) (\<lambda>sig.
     and_then (signer_key G cert) (\<lambda>(key, window).
     if \<not> pss_verify (gl_pss G) key golden_bytes sig then Inl ''signature does not verify''
     else and_then (parse_golden golden_bytes) (\<lambda>golden.
     if gm_timestamp golden > PROVENANCE_REQUIRED_AFTER \<and> gm_cl_spec golden = 0 \<and> gm_commit golden = []
     then Inl ''missing provenance (cl_spec or commit)''
     else Inr (golden, window))))))))))"

section \<open>Matching\<close>

definition endorses_tdx :: "golden_measurement \<Rightarrow> bytes \<Rightarrow> bool" where
  "endorses_tdx golden mrtd = (case gm_tdx golden of None \<Rightarrow> False | Some t \<Rightarrow> tdx_endorses t mrtd)"

definition GRANTS :: u64 where
  "GRANTS = push_bit 16 1 OR push_bit 18 1 OR push_bit 19 1 OR push_bit 21 1"

definition RESTRICTIONS :: u64 where
  "RESTRICTIONS = push_bit 20 1 OR push_bit 22 1 OR push_bit 23 1 OR push_bit 24 1 OR push_bit 25 1"

definition ABI :: u64 where "ABI = 0xFFFF"

definition check_snp_policy :: "u64 \<Rightarrow> u64 \<Rightarrow> unit sres" where
  "check_snp_policy policy endorsed =
     (if policy AND NOT endorsed AND GRANTS \<noteq> 0 \<or> endorsed AND NOT policy AND RESTRICTIONS \<noteq> 0
         \<or> policy AND ABI < endorsed AND ABI
      then Inl ''guest policy exceeds the endorsed policy'' else Inr ())"

definition endorses_snp :: "golden_measurement \<Rightarrow> bytes \<Rightarrow> u64 \<Rightarrow> bool" where
  "endorses_snp golden measurement policy = (case gm_sev_snp golden of
       None \<Rightarrow> False
     | Some snp \<Rightarrow>
         (case check_snp_policy policy (sg_policy snp) of
            Inl _ \<Rightarrow> False
          | Inr _ \<Rightarrow> snp_endorses snp measurement))"

section \<open>The piece\<close>

definition GCE_TCB_INTEGRITY :: string where
  "GCE_TCB_INTEGRITY = ''https://storage.googleapis.com/gce_tcb_integrity/ovmf_x64_csm''"

record gce_piece =
  ge_golden :: golden_measurement
  ge_not_before :: int
  ge_not_after :: int

definition gce_dir :: "platform_type \<Rightarrow> string" where
  "gce_dir p = (if p = GcpTdx then ''tdx'' else ''sevsnp'')"

definition gce_verify ::
  "('rk, 'rs) gce_lib \<Rightarrow> bytes \<Rightarrow> string option \<Rightarrow> platform_type \<times> bytes \<Rightarrow> gce_piece res" where
  "gce_verify G body _ = (\<lambda>(platform, measurement).
     and_then (map_err refused (check_endorsement G body)) (\<lambda>(golden, not_before, not_after).
     let endorsed =
       (if platform = GcpTdx
        then (case gm_tdx golden of None \<Rightarrow> False | Some t \<Rightarrow> tdx_endorses t measurement)
        else (case gm_sev_snp golden of None \<Rightarrow> False | Some s \<Rightarrow> snp_endorses s measurement)) in
     if \<not> endorsed then Inl (refused ''does not endorse the measurement'')
     else Inr \<lparr>ge_golden = golden, ge_not_before = not_before, ge_not_after = not_after\<rparr>))"

definition gce_kind :: "('rk, 'rs) gce_lib \<Rightarrow> (platform_type \<times> bytes, gce_piece) kind" where
  "gce_kind G =
     \<lparr>named_by_evidence = False,
      piece_name = (\<lambda>(platform, m). ''gce-endorsement '' @ gce_dir platform @ '' ''
        @ hex_encode (gl_hex G) (take (min (length m) 8) m)),
      piece_url = (\<lambda>(platform, measurement). GCE_TCB_INTEGRITY @ ''/'' @ gce_dir platform @ ''/''
        @ hex_encode (gl_hex G) measurement @ ''.binarypb''),
      piece_verify = gce_verify G,
      piece_dates = (\<lambda>p. window (ge_not_before p) (ge_not_after p) None),
      piece_floor = (\<lambda>_ _. None)\<rparr>"

section \<open>Lemmas\<close>

lemma snp_endorses_iff: "snp_endorses g m \<longleftrightarrow> m \<in> set (snp_endorsed g)"
  by (auto simp: snp_endorses_def list_ex_iff)

lemma tdx_endorses_iff: "tdx_endorses g m \<longleftrightarrow> m \<in> set (tdx_endorsed g)"
  by (auto simp: tdx_endorses_def list_ex_iff)

text \<open>The policy check, bit by bit.\<close>

lemma bit_push_bit_one: "bit (push_bit n 1 :: u64) i \<longleftrightarrow> n < 64 \<and> i = n"
  by (auto simp: bit_exp_iff)

lemma masked_zero_iff: "(p :: u64) AND NOT e AND m = 0 \<longleftrightarrow> (\<forall>i. bit m i \<longrightarrow> bit p i \<longrightarrow> bit e i)"
proof -
  have "p AND NOT e AND m = 0 \<longleftrightarrow> (\<forall>i. \<not> bit (p AND NOT e AND m) i)"
    by (metis bit_eqI bit_0_eq bot_apply bot_bool_def)
  also have "\<dots> \<longleftrightarrow> (\<forall>i. bit m i \<longrightarrow> bit p i \<longrightarrow> bit e i)"
    using bit_imp_le_length [of p, simplified] by (auto simp: bit_and_iff bit_not_iff)
  finally show ?thesis .
qed

lemma masks_bits:
  "bit GRANTS i \<longleftrightarrow> i \<in> {16, 18, 19, 21}" "bit RESTRICTIONS i \<longleftrightarrow> i \<in> {20, 22, 23, 24, 25}"
  unfolding GRANTS_def RESTRICTIONS_def bit_or_iff bit_push_bit_one by auto

lemma abi_bits: "unat (p AND ABI) = unat p mod 2 ^ 16"
proof -
  have "p AND ABI = take_bit 16 p" by (simp add: ABI_def take_bit_eq_mask mask_eq_exp_minus_1)
  then show ?thesis by (simp add: unsigned_take_bit_eq take_bit_nat_def)
qed

lemma check_snp_policy_iff:
  "check_snp_policy p e = Inr u \<longleftrightarrow>
     (\<forall>i \<in> {16, 18, 19, 21}. bit p i \<longrightarrow> bit e i) \<and> (\<forall>i \<in> {20, 22, 23, 24, 25}. bit e i \<longrightarrow> bit p i)
     \<and> unat e mod 2 ^ 16 \<le> unat p mod 2 ^ 16"
  unfolding check_snp_policy_def masked_zero_iff masks_bits word_less_nat_alt abi_bits
  by (auto simp: not_less)

lemma endorses_snp_iff:
  "endorses_snp golden m policy \<longleftrightarrow>
     (\<exists>s. gm_sev_snp golden = Some s \<and> check_snp_policy policy (sg_policy s) = Inr () \<and> m \<in> set (snp_endorsed s))"
  by (auto simp: endorses_snp_def snp_endorses_iff split: option.splits sum.splits)

lemma endorses_tdx_iff:
  "endorses_tdx golden m \<longleftrightarrow> (\<exists>t. gm_tdx golden = Some t \<and> m \<in> set (tdx_endorsed t))"
  by (auto simp: endorses_tdx_def tdx_endorses_iff split: option.splits)

text \<open>What a signed endorsement is: the golden bytes are signed by a key whose certificate
  the pinned root signed, for the signer's role.\<close>

definition google_signed :: "('rk, 'rs) gce_lib \<Rightarrow> bytes \<Rightarrow> bytes \<Rightarrow> bool" where
  "google_signed G cert_der golden_bytes \<longleftrightarrow>
     (\<exists>root c tbs csig rk sig k sb. gl_cert G (gl_root G) = Some root \<and> gl_cert G cert_der = Some c
        \<and> gc_issuer c = gc_subject root \<and> check_pss_sha256 c = Inr () \<and> gc_tbs_der c = Some tbs
        \<and> pss_sig (gl_pss G) (gc_signature c) = Some csig \<and> gce_rsa_key G root = Inr rk
        \<and> pss_verify (gl_pss G) rk tbs csig \<and> check_signer_role c = Inr () \<and> gce_rsa_key G c = Inr k
        \<and> pss_sig (gl_pss G) sb = Some sig \<and> pss_verify (gl_pss G) k golden_bytes sig)"

lemma signer_key_Inr:
  assumes "signer_key G cert_der = Inr (k, nb, na)"
  shows "\<exists>root c tbs csig rk. gl_cert G (gl_root G) = Some root \<and> gl_cert G cert_der = Some c
        \<and> gc_issuer c = gc_subject root \<and> check_pss_sha256 c = Inr () \<and> gc_tbs_der c = Some tbs
        \<and> pss_sig (gl_pss G) (gc_signature c) = Some csig \<and> gce_rsa_key G root = Inr rk
        \<and> pss_verify (gl_pss G) rk tbs csig \<and> check_signer_role c = Inr () \<and> gce_rsa_key G c = Inr k
        \<and> nb = max (unix_secs (gc_not_before root)) (unix_secs (gc_not_before c))
        \<and> na = min (unix_secs (gc_not_after root)) (unix_secs (gc_not_after c))"
  using assms by (auto simp: signer_key_def and_then_Inr_iff ok_or_Inr_iff Let_def split: if_splits)

lemma check_endorsement_Inr:
  assumes "check_endorsement G e = Inr (golden, nb, na)"
  obtains golden_bytes cert where "last_bytes e 1 = Inr (Some golden_bytes)"
    "last_bytes golden_bytes 4 = Inr (Some cert)" "google_signed G cert golden_bytes"
    "parse_golden golden_bytes = Inr golden"
    "gm_timestamp golden > PROVENANCE_REQUIRED_AFTER \<Longrightarrow> gm_cl_spec golden \<noteq> 0 \<or> gm_commit golden \<noteq> []"
proof -
  from assms obtain gb sb cert sig k w where g: "last_bytes e 1 = Inr (Some gb)" "last_bytes gb 4 = Inr (Some cert)"
      "pss_sig (gl_pss G) sb = Some sig" "signer_key G cert = Inr (k, w)" "pss_verify (gl_pss G) k gb sig"
      "parse_golden gb = Inr golden"
    and p: "\<not> (gm_timestamp golden > PROVENANCE_REQUIRED_AFTER \<and> gm_cl_spec golden = 0 \<and> gm_commit golden = [])"
    unfolding check_endorsement_def by (auto simp: and_then_Inr_iff ok_or_Inr_iff split: if_splits)
  obtain nb' na' where "w = (nb', na')" by (cases w)
  with g signer_key_Inr [of G cert k nb' na'] have "google_signed G cert gb"
    unfolding google_signed_def by blast
  with g p that show thesis by blast
qed

lemma gce_verify_Inr:
  assumes "gce_verify G body chain (platform, measurement) = Inr p"
  shows "\<exists>nb na. check_endorsement G body = Inr (ge_golden p, nb, na)
    \<and> (if platform = GcpTdx then \<exists>t. gm_tdx (ge_golden p) = Some t \<and> measurement \<in> set (tdx_endorsed t)
       else \<exists>s. gm_sev_snp (ge_golden p) = Some s \<and> measurement \<in> set (snp_endorsed s))"
proof -
  from assms obtain golden nb na where e: "check_endorsement G body = Inr (golden, nb, na)"
    by (auto simp: gce_verify_def and_then_Inr_iff map_err_Inr_iff)
  with assms have "p = \<lparr>ge_golden = golden, ge_not_before = nb, ge_not_after = na\<rparr>"
    "if platform = GcpTdx then (case gm_tdx golden of None \<Rightarrow> False | Some t \<Rightarrow> tdx_endorses t measurement)
        else (case gm_sev_snp golden of None \<Rightarrow> False | Some s \<Rightarrow> snp_endorses s measurement)"
    by (auto simp: gce_verify_def Let_def split: if_splits)
  with e show ?thesis
    by (auto simp: tdx_endorses_iff snp_endorses_iff split: if_splits option.splits)
qed

lemma gce_verify_simp [simp]: "piece_verify (gce_kind G) = gce_verify G"
  by (simp add: gce_kind_def)

lemma gce_verify_not_panic [panic_free]: "gce_verify G body chain pid \<noteq> Inl Panicked"
  by (cases "check_endorsement G body")
     (auto simp: gce_verify_def refused_def Let_def split: prod.splits if_splits)

end
