(* ===== verification/Google.thy ===== *)
theory Google
  imports Gce Snp Tdx
begin

text \<open>
  \<open>crates/attestation/src/platforms/gcp_snp/verify.rs\<close>, \<open>gcp_tdx/verify.rs\<close> and
  \<open>dstack/verify.rs\<close>: guests whose evidence is bare-metal SNP or TDX evidence. Google's add
  the launch endorsement of the firmware as collateral; dstack's quotes may be hex.
\<close>

section \<open>GCP SNP\<close>

record gcp_snp_params =
  gsp_snp :: snp_params

record gcp_snp_result =
  gsr_snp :: snp_result
  gsr_endorsement_match :: "bool option"

definition gcp_snp_passed :: "gcp_snp_result \<Rightarrow> bool" where
  "gcp_snp_passed r = (snp_passed (gsr_snp r) \<and> gsr_endorsement_match r \<noteq> Some False)"

record gcp_snp_set =
  gss_snp :: snp_set
  gss_endorsement :: "gce_piece option"

definition gcp_snp_validate :: "gcp_snp_params \<Rightarrow> unit res" where
  "gcp_snp_validate p =
     (if sp_registers (gsp_snp p) \<noteq> None
      then Inl (InvalidParams ''measurement registers are bare-metal SNP only'')
      else snp_validate (gsp_snp p))"

text \<open>\<open>endorsement?.map(|(e, u)| { used.push(u); e })\<close>.\<close>

definition push_used :: "('p \<times> collateral_used) option \<Rightarrow> collateral_used list \<Rightarrow> 'p option \<times> collateral_used list" where
  "push_used got us = (case got of None \<Rightarrow> (None, us) | Some (p, u) \<Rightarrow> (Some p, us @ [u]))"

definition gcp_snp_gather ::
  "('k, 's, 'rk, 'rs, 'w) snp_env \<Rightarrow> ('grk, 'grs) gce_lib \<Rightarrow> snp_evidence \<Rightarrow> int \<Rightarrow> store \<Rightarrow> 'w
     \<Rightarrow> (gcp_snp_set \<times> collateral_used list) res \<times> store \<times> 'w" where
  "gcp_snp_gather E G ev now s w = (case genuine_report (en_lib E) ev now of
       Inl e \<Rightarrow> (Inl e, s, w)
     | Inr (r, gen, inline) \<Rightarrow>
         let (snp, s, w) = snp_set_gather E r gen inline now s w;
             (endorsement, s, w) = get_if_published (en_store E) (gce_kind G) (GcpSnp, sr_measurement r) now s w
         in (and_then snp (\<lambda>(snp, us).
             and_then endorsement (\<lambda>got.
             let (endorsement, us) = push_used got us
             in Inr (\<lparr>gss_snp = snp, gss_endorsement = endorsement\<rparr>, us))), s, w))"

text \<open>\<open>gcp_endorsement::snp_report\<close>.\<close>

definition report_of :: "('k, 's, 'rk, 'rs) snp_lib \<Rightarrow> snp_evidence \<Rightarrow> snp_report res" where
  "report_of L ev =
     and_then (ok_or (EvidenceDeserialize ''base64 decode'') (sn_base64 L (sne_report ev))) (parse_report L)"

definition gcp_snp_verify ::
  "('k, 's, 'rk, 'rs) snp_lib \<Rightarrow> snp_evidence \<Rightarrow> gcp_snp_params \<Rightarrow> gcp_snp_set \<Rightarrow> int \<Rightarrow> gcp_snp_result res" where
  "gcp_snp_verify L ev p c now =
     and_then (gcp_snp_validate p) (\<lambda>_.
     and_then (snp_verify L ev (gsp_snp p) (gss_snp c) now) (\<lambda>snp.
     and_then (report_of L ev) (\<lambda>r.
     let endorsement_match = (case gss_endorsement c of
           None \<Rightarrow> False
         | Some e \<Rightarrow> endorses_snp (ge_golden e) (sr_measurement r) (gp_raw (sr_policy r)))
     in Inr \<lparr>gsr_snp = snp, gsr_endorsement_match = Some endorsement_match\<rparr>)))"

definition gcp_snp_platform ::
  "(json \<Rightarrow> snp_evidence option) \<Rightarrow> ('k, 's, 'rk, 'rs, 'w) snp_env \<Rightarrow> ('grk, 'grs) gce_lib
     \<Rightarrow> (snp_evidence, gcp_snp_params, gcp_snp_result, gcp_snp_set, 'w) platform" where
  "gcp_snp_platform decode E G =
     \<lparr>pf_kind = GcpSnp, pf_decode = decode, pf_validate = gcp_snp_validate,
      pf_gather = gcp_snp_gather E G, pf_verify = gcp_snp_verify (en_lib E)\<rparr>"

section \<open>GCP TDX\<close>

record gcp_tdx_params =
  gtp_tdx :: tdx_params

record gcp_tdx_result =
  gtr_tdx :: tdx_result
  gtr_endorsement_match :: "bool option"

definition gcp_tdx_passed :: "gcp_tdx_result \<Rightarrow> bool" where
  "gcp_tdx_passed r = (tdx_passed (gtr_tdx r) \<and> gtr_endorsement_match r \<noteq> Some False)"

record gcp_tdx_set =
  gts_tdx :: tdx_set
  gts_endorsement :: "gce_piece option"

definition gcp_tdx_gather ::
  "('k, 's, 'w) tdx_env \<Rightarrow> ('grk, 'grs) gce_lib \<Rightarrow> tdx_evidence \<Rightarrow> int \<Rightarrow> store \<Rightarrow> 'w
     \<Rightarrow> (gcp_tdx_set \<times> collateral_used list) res \<times> store \<times> 'w" where
  "gcp_tdx_gather E G ev now s w = (case genuine_quote E ev now of
       Inl e \<Rightarrow> (Inl e, s, w)
     | Inr (d, quote) \<Rightarrow>
         let (tdx, s, w) = tdx_set_gather E d quote now s w;
             (endorsement, s, w) = get_if_published (ev_store E) (gce_kind G) (GcpTdx, mr_td (tq_body quote)) now s w
         in (and_then tdx (\<lambda>(tdx, us).
             and_then endorsement (\<lambda>got.
             let (endorsement, us) = push_used got us
             in Inr (\<lparr>gts_tdx = tdx, gts_endorsement = endorsement\<rparr>, us))), s, w))"

definition tdx_mrtd :: "(string \<Rightarrow> bytes option) \<Rightarrow> tdx_evidence \<Rightarrow> bytes res" where
  "tdx_mrtd b64 ev =
     and_then (ok_or (EvidenceDeserialize ''quote base64'') (b64 (te_quote ev))) (\<lambda>d.
     and_then (parse_tdx_quote d) (\<lambda>q. Inr (mr_td (tq_body q))))"

definition gcp_tdx_verify ::
  "('k, 's, 'w) tdx_env \<Rightarrow> tdx_evidence \<Rightarrow> gcp_tdx_params \<Rightarrow> gcp_tdx_set \<Rightarrow> int \<Rightarrow> gcp_tdx_result res" where
  "gcp_tdx_verify E ev p c now =
     and_then (tdx_verify E ev (gtp_tdx p) (gts_tdx c) now) (\<lambda>tdx.
     and_then (tdx_mrtd (ev_base64 E) ev) (\<lambda>measurement.
     let endorsement_match = (case gts_endorsement c of
           None \<Rightarrow> False
         | Some e \<Rightarrow> endorses_tdx (ge_golden e) measurement)
     in Inr \<lparr>gtr_tdx = tdx, gtr_endorsement_match = Some endorsement_match\<rparr>))"

definition gcp_tdx_platform ::
  "(json \<Rightarrow> tdx_evidence option) \<Rightarrow> ('k, 's, 'w) tdx_env \<Rightarrow> ('grk, 'grs) gce_lib
     \<Rightarrow> (tdx_evidence, gcp_tdx_params, gcp_tdx_result, gcp_tdx_set, 'w) platform" where
  "gcp_tdx_platform decode E G =
     \<lparr>pf_kind = GcpTdx, pf_decode = decode, pf_validate = (\<lambda>p. tdx_validate (gtp_tdx p)),
      pf_gather = gcp_tdx_gather E G, pf_verify = gcp_tdx_verify E\<rparr>"

section \<open>dstack\<close>

record dstack_evidence =
  de_quote :: string
  de_event_log :: "string option"
  de_vm_config :: "string option"

record dstack_result =
  dr_tdx :: tdx_result

definition dstack_passed :: "dstack_result \<Rightarrow> bool" where
  "dstack_passed r = tdx_passed (dr_tdx r)"

definition MIN_TDX_QUOTE_HEX_LEN :: nat where "MIN_TDX_QUOTE_HEX_LEN = 1264"

definition normalize_quote_to_base64 :: "hex_lib \<Rightarrow> (bytes \<Rightarrow> string) \<Rightarrow> string \<Rightarrow> string" where
  "normalize_quote_to_base64 hx b64_encode quote =
     (if length quote \<ge> MIN_TDX_QUOTE_HEX_LEN
      then (case hex_decode hx quote of Some raw \<Rightarrow> b64_encode raw | None \<Rightarrow> quote)
      else quote)"

definition dstack_tdx_evidence :: "hex_lib \<Rightarrow> (bytes \<Rightarrow> string) \<Rightarrow> dstack_evidence \<Rightarrow> tdx_evidence res" where
  "dstack_tdx_evidence hx b64_encode ev =
     and_then (check_field_size ''quote'' (length (de_quote ev))) (\<lambda>_.
     Inr \<lparr>te_quote = normalize_quote_to_base64 hx b64_encode (de_quote ev), te_eventlog = None\<rparr>)"

definition dstack_gather ::
  "('k, 's, 'w) tdx_env \<Rightarrow> (bytes \<Rightarrow> string) \<Rightarrow> dstack_evidence \<Rightarrow> int \<Rightarrow> store \<Rightarrow> 'w
     \<Rightarrow> (tdx_set \<times> collateral_used list) res \<times> store \<times> 'w" where
  "dstack_gather E b64_encode ev now s w =
     (case dstack_tdx_evidence (dc_hex (ev_lib E)) b64_encode ev of
        Inl e \<Rightarrow> (Inl e, s, w)
      | Inr tdx \<Rightarrow> tdx_gather E tdx now s w)"

definition dstack_verify ::
  "('k, 's, 'w) tdx_env \<Rightarrow> (bytes \<Rightarrow> string) \<Rightarrow> dstack_evidence \<Rightarrow> tdx_params \<Rightarrow> tdx_set \<Rightarrow> int
     \<Rightarrow> dstack_result res" where
  "dstack_verify E b64_encode ev p c now =
     and_then (dstack_tdx_evidence (dc_hex (ev_lib E)) b64_encode ev) (\<lambda>tdx.
     and_then (tdx_verify E tdx p c now) (\<lambda>r. Inr \<lparr>dr_tdx = r\<rparr>))"

definition dstack_platform ::
  "(json \<Rightarrow> dstack_evidence option) \<Rightarrow> ('k, 's, 'w) tdx_env \<Rightarrow> (bytes \<Rightarrow> string)
     \<Rightarrow> (dstack_evidence, tdx_params, dstack_result, tdx_set, 'w) platform" where
  "dstack_platform decode E b64_encode =
     \<lparr>pf_kind = Dstack, pf_decode = decode, pf_validate = tdx_validate,
      pf_gather = dstack_gather E b64_encode, pf_verify = dstack_verify E b64_encode\<rparr>"

section \<open>Lemmas\<close>

lemma gcp_snp_verify_Inr:
  assumes "gcp_snp_verify L ev p c now = Inr res"
  obtains d r gen where "gcp_snp_validate p = Inr ()" "snp_verify L ev (gsp_snp p) (gss_snp c) now = Inr (gsr_snp res)"
    "parse_evidence L ev = Inr (d, r, gen)"
    "gsr_endorsement_match res = Some (\<exists>e. gss_endorsement c = Some e
       \<and> endorses_snp (ge_golden e) (sr_measurement r) (gp_raw (sr_policy r)))"
proof -
  from assms obtain snp r where v: "gcp_snp_validate p = Inr ()" "snp_verify L ev (gsp_snp p) (gss_snp c) now = Inr snp"
    and r: "report_of L ev = Inr r"
    and res: "res = \<lparr>gsr_snp = snp, gsr_endorsement_match = Some (case gss_endorsement c of
           None \<Rightarrow> False
         | Some e \<Rightarrow> endorses_snp (ge_golden e) (sr_measurement r) (gp_raw (sr_policy r)))\<rparr>"
    by (auto simp: gcp_snp_verify_def and_then_Inr_iff Let_def)
  obtain d r' gen where e: "parse_evidence L ev = Inr (d, r', gen)"
    by (rule snp_verify_Inr [OF v(2)])
  have "r' = r"
    using parse_evidence_Inr [OF e] r by (auto simp: report_of_def parse_report_def and_then_Inr_iff ok_or_Inr_iff)
  with e v res show thesis by (intro that [of d r gen]) (auto split: option.splits)
qed

lemma gcp_tdx_verify_Inr:
  assumes "gcp_tdx_verify E ev p c now = Inr res"
  obtains d q where "tdx_verify E ev (gtp_tdx p) (gts_tdx c) now = Inr (gtr_tdx res)"
    "genuine_quote E ev now = Inr (d, q)"
    "gtr_endorsement_match res = Some (\<exists>e. gts_endorsement c = Some e \<and> endorses_tdx (ge_golden e) (mr_td (tq_body q)))"
proof -
  from assms obtain tdx m where v: "tdx_verify E ev (gtp_tdx p) (gts_tdx c) now = Inr tdx"
    and m: "tdx_mrtd (ev_base64 E) ev = Inr m"
    and res: "res = \<lparr>gtr_tdx = tdx, gtr_endorsement_match = Some (case gts_endorsement c of
           None \<Rightarrow> False | Some e \<Rightarrow> endorses_tdx (ge_golden e) m)\<rparr>"
    by (auto simp: gcp_tdx_verify_def and_then_Inr_iff Let_def)
  obtain d q where g: "genuine_quote E ev now = Inr (d, q)"
    by (rule tdx_verify_Inr [OF v])
  have "m = mr_td (tq_body q)"
    using genuine_quote_Inr [OF g] m
    by (auto simp: tdx_mrtd_def decode_quote_def quote_trust_def and_then_Inr_iff ok_or_Inr_iff)
  with g v res show thesis by (intro that [of d q]) (auto split: option.splits)
qed

text \<open>An endorsement that comes with a gathered set was verified for the measurement.\<close>

lemma push_used_fst [simp]: "fst (push_used got us) = map_option fst got"
  by (auto simp: push_used_def split: option.splits)

lemma gcp_snp_gather_Inr:
  assumes "gcp_snp_gather E G ev now s w = (Inr (c, us), s', w')"
  obtains r gen inline s1 w1 us1 where "genuine_report (en_lib E) ev now = Inr (r, gen, inline)"
    "snp_set_gather E r gen inline now s w = (Inr (gss_snp c, us1), s1, w1)"
    "\<And>e. gss_endorsement c = Some e \<Longrightarrow> \<exists>b ch. gce_verify G b ch (GcpSnp, sr_measurement r) = Inr e"
proof -
  from assms obtain r gen inline where g: "genuine_report (en_lib E) ev now = Inr (r, gen, inline)"
    by (auto simp: gcp_snp_gather_def split: sum.splits)
  obtain r1 s1 w1 where 1: "snp_set_gather E r gen inline now s w = (r1, s1, w1)" by (metis prod.collapse)
  obtain r2 s2 w2 where 2: "get_if_published (en_store E) (gce_kind G) (GcpSnp, sr_measurement r) now s1 w1 = (r2, s2, w2)"
    by (metis prod.collapse)
  from assms g 1 2 obtain us1 got where r1: "r1 = Inr (gss_snp c, us1)" and r2: "r2 = Inr got"
    and c: "gss_endorsement c = map_option fst got"
    by (auto simp: gcp_snp_gather_def and_then_Inr_iff Let_def push_used_def split: prod.splits option.splits)
  have "\<exists>b ch. gce_verify G b ch (GcpSnp, sr_measurement r) = Inr e" if "gss_endorsement c = Some e" for e
  proof -
    from that c obtain u where "got = Some (e, u)" by auto
    with 2 r2 get_if_published_Inr show ?thesis by (metis gce_verify_simp)
  qed
  with g 1 r1 that show thesis by blast
qed

lemma gcp_tdx_gather_Inr:
  assumes "gcp_tdx_gather E G ev now s w = (Inr (c, us), s', w')"
  obtains d q s1 w1 us1 where "genuine_quote E ev now = Inr (d, q)"
    "tdx_set_gather E d q now s w = (Inr (gts_tdx c, us1), s1, w1)"
    "\<And>e. gts_endorsement c = Some e \<Longrightarrow> \<exists>b ch. gce_verify G b ch (GcpTdx, mr_td (tq_body q)) = Inr e"
proof -
  from assms obtain d q where g: "genuine_quote E ev now = Inr (d, q)"
    by (auto simp: gcp_tdx_gather_def split: sum.splits)
  obtain r1 s1 w1 where 1: "tdx_set_gather E d q now s w = (r1, s1, w1)" by (metis prod.collapse)
  obtain r2 s2 w2 where 2: "get_if_published (ev_store E) (gce_kind G) (GcpTdx, mr_td (tq_body q)) now s1 w1 = (r2, s2, w2)"
    by (metis prod.collapse)
  from assms g 1 2 obtain us1 got where r1: "r1 = Inr (gts_tdx c, us1)" and r2: "r2 = Inr got"
    and c: "gts_endorsement c = map_option fst got"
    by (auto simp: gcp_tdx_gather_def and_then_Inr_iff Let_def push_used_def split: prod.splits option.splits)
  have "\<exists>b ch. gce_verify G b ch (GcpTdx, mr_td (tq_body q)) = Inr e" if "gts_endorsement c = Some e" for e
  proof -
    from that c obtain u where "got = Some (e, u)" by auto
    with 2 r2 get_if_published_Inr show ?thesis by (metis gce_verify_simp)
  qed
  with g 1 r1 that show thesis by blast
qed

text \<open>Either encoding of a dstack quote is verified as the same TDX evidence.\<close>

lemma normalize_hex_quote:
  assumes "hex_decode hx quote = Some raw" "MIN_TDX_QUOTE_HEX_LEN \<le> length quote"
  shows "normalize_quote_to_base64 hx b64_encode quote = b64_encode raw"
  using assms by (simp add: normalize_quote_to_base64_def)

lemma normalize_base64_quote:
  assumes "hex_decode hx quote = None"
  shows "normalize_quote_to_base64 hx b64_encode quote = quote"
  using assms by (simp add: normalize_quote_to_base64_def)

lemma google_not_panic [panic_free]:
  "gcp_snp_verify L ev p c now \<noteq> Inl Panicked" "gcp_tdx_verify E ev' p' c' now \<noteq> Inl Panicked"
  "dstack_verify E b64 ev'' p'' c'' now \<noteq> Inl Panicked"
  by (auto simp: gcp_snp_verify_def gcp_snp_validate_def gcp_tdx_verify_def dstack_verify_def report_of_def
      parse_report_def tdx_mrtd_def dstack_tdx_evidence_def and_then_Inl_iff ok_or_Inl_iff Let_def
      snp_validate_not_panic snp_verify_not_panic tdx_verify_not_panic parse_tdx_quote_not_panic
      check_field_size_not_panic split: if_splits)

section \<open>The platform contract\<close>

lemma gcp_snp_validate_Inl: "gcp_snp_validate p = Inl e \<Longrightarrow> is_invalid_params e"
  by (auto simp: gcp_snp_validate_def is_invalid_params_def split: if_splits
      dest!: snp_validate_Inl [unfolded is_invalid_params_def])

lemma gcp_snp_gather_forged:
  "\<not> snp_admissible (en_lib E) ev now \<Longrightarrow> \<exists>e. gcp_snp_gather E G ev now s w = (Inl e, s, w)"
  using genuine_report_admissible by (cases "genuine_report (en_lib E) ev now") (force simp: gcp_snp_gather_def)+

lemma gcp_tdx_gather_forged: "\<not> tdx_genuine E ev now \<Longrightarrow> \<exists>e. gcp_tdx_gather E G ev now s w = (Inl e, s, w)"
  using genuine_quote_tdx_genuine by (cases "genuine_quote E ev now") (force simp: gcp_tdx_gather_def)+

lemma gcp_snp_verify_genuine: "gcp_snp_verify L ev p c now = Inr r \<Longrightarrow> snp_genuine L ev (ss_vek (gss_snp c)) now"
  by (erule gcp_snp_verify_Inr) (rule snp_verify_genuine)

lemma gcp_tdx_verify_genuine: "gcp_tdx_verify E ev p c now = Inr r \<Longrightarrow> tdx_genuine E ev now"
  by (erule gcp_tdx_verify_Inr) (rule genuine_quote_tdx_genuine)

definition dstack_genuine :: "('k, 's, 'w) tdx_env \<Rightarrow> (bytes \<Rightarrow> string) \<Rightarrow> dstack_evidence \<Rightarrow> int \<Rightarrow> bool" where
  "dstack_genuine E b64_encode ev now \<longleftrightarrow> (\<exists>tdx. dstack_tdx_evidence (dc_hex (ev_lib E)) b64_encode ev = Inr tdx
     \<and> tdx_genuine E tdx now)"

lemma dstack_gather_forged:
  "\<not> dstack_genuine E b64_encode ev now \<Longrightarrow> \<exists>e. dstack_gather E b64_encode ev now s w = (Inl e, s, w)"
  using tdx_gather_forged
  by (cases "dstack_tdx_evidence (dc_hex (ev_lib E)) b64_encode ev") (auto simp: dstack_gather_def dstack_genuine_def)

lemma dstack_verify_genuine: "dstack_verify E b64_encode ev p c now = Inr r \<Longrightarrow> dstack_genuine E b64_encode ev now"
  by (auto simp: dstack_verify_def dstack_genuine_def and_then_Inr_iff intro: tdx_verify_genuine)

interpretation gcp_snp_code: checked_platform "gcp_snp_platform dec E G" "snp_admissible (en_lib E)"
    "\<lambda>ev c. snp_genuine (en_lib E) ev (ss_vek (gss_snp c))"
  for dec and E :: "('k, 's, 'rk, 'rs, 'w) snp_env" and G :: "('grk, 'grs) gce_lib"
  by (unfold_locales, unfold gcp_snp_platform_def platform.select_convs)
    (fact gcp_snp_gather_forged gcp_snp_validate_Inl gcp_snp_verify_genuine)+

interpretation gcp_tdx_code: checked_platform "gcp_tdx_platform dec E G" "tdx_genuine E" "\<lambda>ev _. tdx_genuine E ev"
  for dec and E :: "('k, 's, 'w) tdx_env" and G :: "('grk, 'grs) gce_lib"
  by (unfold_locales, unfold gcp_tdx_platform_def platform.select_convs)
    (fact gcp_tdx_gather_forged tdx_validate_Inl gcp_tdx_verify_genuine)+

interpretation dstack_code: checked_platform "dstack_platform dec E b64_encode" "dstack_genuine E b64_encode"
    "\<lambda>ev _. dstack_genuine E b64_encode ev"
  for dec and E :: "('k, 's, 'w) tdx_env" and b64_encode
  by (unfold_locales, unfold dstack_platform_def platform.select_convs)
    (fact dstack_gather_forged tdx_validate_Inl dstack_verify_genuine)+

end
