(* ===== verification/CloudToy.thy ===== *)
theory CloudToy
  imports Azure Google SnpToy TpmProps
begin

text \<open>
  Small instances of the libraries of the cloud platforms, with evidence that passes in them:
  an HCL report around the toy SNP report or TDX quote, a vTPM quote over one register, and
  a launch endorsement for the toy report.
\<close>

section \<open>A vTPM\<close>

text \<open>The stand-in for SHA-256 gives one binding for the runtime data and is the identity
  elsewhere.\<close>

definition toy_jwks :: json where
  "toy_jwks = JObj [(''keys'', JArr [JObj [(''kid'', JStr ''HCLAkPub''), (''kty'', JStr ''RSA''),
     (''n'', JStr ''n''), (''e'', JStr ''e'')]])]"

definition toy_hcl :: "u32 \<Rightarrow> bytes" where
  "toy_hcl ty = hcl_report_bytes (replicate 28 0) (replicate 1184 0) (replicate 8 0) ty (replicate 4 0) [9] 0"

definition toy_tpm :: "u32 \<Rightarrow> bytes \<Rightarrow> bytes \<Rightarrow> (unit, unit) tpm_lib" where
  "toy_tpm ty bound d = \<lparr>tl_hash = \<lparr>sha256 = (\<lambda>b. if b = [9] then bound else b), sha384 = id\<rparr>, tl_hex = toy_hex,
     tl_b64url = (\<lambda>s. Some (if s = ''hcl'' then toy_hcl ty else d)), tl_json = (\<lambda>_. Some toy_jwks),
     tl_rsa = \<lparr>rsa_new = (\<lambda>_ _. Some ()), rsa_signature = (\<lambda>_. Some ()), rsa_verify = (\<lambda>_ _ _. True)\<rparr>\<rparr>"

definition toy_tpm_quote :: tpm_quote where
  "toy_tpm_quote = \<lparr>tq_signature = [], tq_message = bytes_str toy_message, tq_pcrs = [bytes_str (replicate 32 7)]\<rparr>"

lemma toy_hcl_parses: "parse_hcl_report (toy_hcl ty) =
  Inr \<lparr>hcl_tee_report = replicate 1184 0, hcl_report_type = ty, hcl_var_data = [9]\<rparr>"
  unfolding toy_hcl_def by (rule parse_hcl_report_bytes) simp_all

lemma toy_b64url: "decode_base64url (tl_b64url (toy_tpm ty bound d)) s =
    Some (if trim_end_matches (CHR ''='') s = ''hcl'' then toy_hcl ty else d)"
  by (simp add: decode_base64url_def toy_tpm_def)

lemma toy_quote_decodes: "decode_tpm_quote toy_hex toy_tpm_quote = Inr ([], toy_message, [replicate 32 7])"
  by (simp add: decode_tpm_quote_def toy_tpm_quote_def toy_hex_def str_bytes_def [of "[]"])

lemma toy_nonce: "extract_tpm_nonce toy_message = Inr []"
proof -
  obtain rest where r: "toy_message = attest_bytes TPM_ATTEST_MAGIC TPM_ST_ATTEST_QUOTE [] [] rest"
    by (simp add: toy_message_def quote_bytes_def)
  show ?thesis unfolding r by (subst extract_tpm_nonce_attest_bytes) simp_all
qed

lemma toy_ak: "ak_pub (tl_json (toy_tpm ty bound d)) (decode_base64url (tl_b64url (toy_tpm ty bound d))) vd = Inr (d, d)"
proof -
  have "trim_end_matches (CHR ''='') ''n'' = ''n''" "trim_end_matches (CHR ''='') ''e'' = ''e''"
    by (simp_all add: trim_end_matches_def)
  moreover have "tl_json (toy_tpm ty bound d) b = Some toy_jwks" for b by (simp add: toy_tpm_def)
  ultimately show ?thesis
    by (simp add: ak_pub_def extract_ak_pub_from_jwk_json_def toy_b64url toy_jwks_def json_index_def str_or_empty_def)
qed

lemma toy_not_nine: "replicate 32 7 \<noteq> [9 :: u8]"
  by (auto dest: arg_cong [of _ _ length])

lemma toy_layer: "tpm_layer (toy_tpm ty bound d) [] toy_message [replicate 32 7] [9] (Some []) [(0, replicate 32 7)]
    = Inr (Some True, Some True)"
  unfolding tpm_layer_Inr_iff
proof (intro conjI)
  show "verify_tpm_signature (tl_json (toy_tpm ty bound d)) (decode_base64url (tl_b64url (toy_tpm ty bound d)))
      (tl_rsa (toy_tpm ty bound d)) [] toy_message [9] = Inr ()"
    unfolding verify_tpm_signature_Inr_iff toy_ak by (simp add: toy_tpm_def)
  show "check_report_data toy_message (Some []) = Inr (Some True)"
    by (simp add: check_report_data_Some_True_iff toy_nonce)
  show "verify_tpm_pcrs (tl_hash (toy_tpm ty bound d)) toy_message [replicate 32 7] = Inr ()"
    by (simp add: verify_tpm_pcrs_Inr_iff toy_message toy_tpm_def toy_not_nine)
  show "check_pcrs toy_message [replicate 32 7] [(0, replicate 32 7)] = Inr (Some True)"
    by (simp add: check_pcrs_Some_iff toy_message)
qed

section \<open>Azure SNP\<close>

definition toy_az_snp_evidence :: az_snp_evidence where
  "toy_az_snp_evidence = \<lparr>as_version = 1, as_tpm_quote = toy_tpm_quote, as_hcl_report = ''hcl'', as_vcek = ''vcek''\<rparr>"

definition toy_az_snp_params :: az_snp_params where
  "toy_az_snp_params = \<lparr>asp_snp = default_snp_params\<lparr>sp_report_data := Some []\<rparr>, asp_pcrs = [(0, replicate 32 7)]\<rparr>"

definition toy_az_snp_tpm :: "(unit, unit) tpm_lib" where
  "toy_az_snp_tpm = toy_tpm HCL_REPORT_TYPE_SNP (take 32 (sr_report_data toy_report)) []"

lemma toy_field_size: "length s \<le> 1000 \<Longrightarrow> check_field_size n (length s) = Inr ()"
  by (simp add: check_field_size_def MAX_EVIDENCE_FIELD_SIZE_def)

lemma toy_message_short: "length (bytes_str toy_message) \<le> 1000"
  by (simp add: toy_message_def quote_bytes_def attest_bytes_def)

lemma toy_trim: "trim_end_matches (CHR ''='') ''hcl'' = ''hcl''" "trim_end_matches (CHR ''='') ''vcek'' = ''vcek''"
  by (simp_all add: trim_end_matches_def)

lemma toy_az_snp_decodes: "az_snp_decode toy_snp_lib toy_az_snp_tpm toy_az_snp_evidence =
  Inr (\<lparr>hcl_tee_report = replicate 1184 0, hcl_report_type = HCL_REPORT_TYPE_SNP, hcl_var_data = [9]\<rparr>, [],
       ([], toy_message, [replicate 32 7]), toy_report)"
proof -
  have q: "decode_tpm_quote (tl_hex toy_az_snp_tpm) toy_tpm_quote = Inr ([], toy_message, [replicate 32 7])"
    using toy_quote_decodes by (simp add: toy_az_snp_tpm_def toy_tpm_def)
  have s: "length (tq_message toy_tpm_quote) \<le> 1000" "length (tq_signature toy_tpm_quote) \<le> 1000"
    using toy_message_short by (simp_all add: toy_tpm_quote_def)
  have b: "decode_base64url (tl_b64url toy_az_snp_tpm) ''hcl'' = Some (toy_hcl HCL_REPORT_TYPE_SNP)"
    "decode_base64url (tl_b64url toy_az_snp_tpm) ''vcek'' = Some []"
    by (simp_all add: toy_az_snp_tpm_def toy_b64url toy_trim)
  have f: "check_field_size n (length ''hcl'') = Inr ()" "check_field_size n (length ''vcek'') = Inr ()" for n
    by (rule toy_field_size, simp)+
  show ?thesis
    using f s unfolding az_snp_decode_def toy_az_snp_evidence_def
    by (simp add: b q toy_hcl_parses toy_field_size parse_report_def AZ_MIN_REPORT_VERSION_def MAX_REPORT_VERSION_def
        del: list.size) (simp add: toy_report_def)
qed

lemma toy_endorsement: "verify_vek_endorsement toy_snp_lib toy_report d Milan 50 = Inr ()"
  using toy_check_report [of d] by (simp add: check_report_Inr_iff)

lemma toy_az_snp_verifies:
  "\<exists>res. az_snp_verify toy_snp_lib toy_az_snp_tpm toy_az_snp_evidence toy_az_snp_params (ss_crl toy_snp_set) 50 = Inr res"
proof -
  have v: "az_snp_validate toy_az_snp_params = Inr ()"
    by (simp add: az_snp_validate_def and_then_Inr_iff snp_validate_Inr_iff toy_az_snp_params_def default_snp_params_def
        check_init_data_len_Inr_iff check_pcr_pin_indexes_Inr_iff)
  have g: "az_gens toy_report = [Milan]"
    by (simp add: az_gens_def toy_report_def from_cpuid_def)
  have b: "verify_hcl_var_data_binding (tl_hash toy_az_snp_tpm) (sr_report_data toy_report) [9] = Inr ()"
    by (simp add: verify_hcl_var_data_binding_Inr_iff toy_az_snp_tpm_def toy_tpm_def)
       (simp add: toy_report_def kmr_report_data_def toy_rev_sha_def)
  have l: "tpm_layer toy_az_snp_tpm [] toy_message [replicate 32 7] [9] (Some []) [(0, replicate 32 7)]
    = Inr (Some True, Some True)"
    unfolding toy_az_snp_tpm_def by (rule toy_layer)
  obtain cl where c: "tpm_claims (tl_hex toy_az_snp_tpm) (snp_extract_claims toy_hex toy_report) [replicate 32 7] toy_message = Inr cl"
  proof -
    obtain ms where "platform_data (snp_extract_claims toy_hex toy_report) = JObj ms"
      by (simp add: snp_extract_claims_def json_obj_def Let_def del: bt_insert.simps)
    with that show thesis by (auto simp: tpm_claims_def toy_nonce pcr_map_def)
  qed
  have p: "sp_report_data (asp_snp toy_az_snp_params) = Some []" "asp_pcrs toy_az_snp_params = [(0, replicate 32 7)]"
    "sp_host_data (asp_snp toy_az_snp_params) = None"
    by (simp_all add: toy_az_snp_params_def default_snp_params_def)
  show ?thesis
    by (simp add: az_snp_verify_def az_snp_verify_report_def v toy_az_snp_decodes p l b g toy_endorsement
        verify_report_signature_def Let_def check_init_data_def check_init_data_len_def evaluate_report_def c toy_not_revoked)
qed

section \<open>Azure TDX\<close>

definition toy_az_tdx_evidence :: az_tdx_evidence where
  "toy_az_tdx_evidence = \<lparr>at_version = 1, at_tpm_quote = toy_tpm_quote, at_hcl_report = ''hcl'', at_td_quote = ''quote''\<rparr>"

definition toy_az_tdx_params :: az_tdx_params where
  "toy_az_tdx_params = \<lparr>atp_tdx = default_tdx_params\<lparr>tp_report_data := Some []\<rparr>, atp_pcrs = [(0, replicate 32 7)]\<rparr>"

definition toy_az_tdx_tpm :: "(unit, unit) tpm_lib" where
  "toy_az_tdx_tpm = toy_tpm HCL_REPORT_TYPE_TDX (replicate 32 0) toy_quote_bytes"

lemma toy_az_tdx_decodes: "az_tdx_decode toy_az_tdx_tpm toy_az_tdx_evidence =
  Inr (\<lparr>hcl_tee_report = replicate 1184 0, hcl_report_type = HCL_REPORT_TYPE_TDX, hcl_var_data = [9]\<rparr>,
       toy_quote_bytes, ([], toy_message, [replicate 32 7]))"
proof -
  have q: "decode_tpm_quote (tl_hex toy_az_tdx_tpm) toy_tpm_quote = Inr ([], toy_message, [replicate 32 7])"
    using toy_quote_decodes by (simp add: toy_az_tdx_tpm_def toy_tpm_def)
  have s: "length (tq_message toy_tpm_quote) \<le> 1000" "length (tq_signature toy_tpm_quote) \<le> 1000"
    using toy_message_short by (simp_all add: toy_tpm_quote_def)
  have "trim_end_matches (CHR ''='') ''quote'' = ''quote''" by (simp add: trim_end_matches_def)
  then have b: "decode_base64url (tl_b64url toy_az_tdx_tpm) ''hcl'' = Some (toy_hcl HCL_REPORT_TYPE_TDX)"
    "decode_base64url (tl_b64url toy_az_tdx_tpm) ''quote'' = Some toy_quote_bytes"
    by (simp_all add: toy_az_tdx_tpm_def toy_b64url toy_trim)
  have f: "check_field_size n (length ''hcl'') = Inr ()" "check_field_size n (length ''quote'') = Inr ()" for n
    by (rule toy_field_size, simp)+
  show ?thesis
    using f s unfolding az_tdx_decode_def toy_az_tdx_evidence_def
    by (simp add: b q toy_hcl_parses toy_field_size del: list.size)
qed

lemma toy_az_tdx_verifies:
  "\<exists>res. az_tdx_verify (toy_tdx_env se) toy_az_tdx_tpm toy_az_tdx_evidence toy_az_tdx_params toy_set 50 = Inr res"
proof -
  have v: "az_tdx_validate toy_az_tdx_params = Inr ()"
    by (simp add: az_tdx_validate_def and_then_Inr_iff tdx_validate_Inr_iff toy_az_tdx_params_def default_tdx_params_def
        check_init_data_len_Inr_iff check_pcr_pin_indexes_Inr_iff)
  have b: "verify_hcl_var_data_binding (tl_hash toy_az_tdx_tpm) (td_report_data (tq_body toy_quote)) [9] = Inr ()"
    by (simp add: verify_hcl_var_data_binding_Inr_iff toy_az_tdx_tpm_def toy_tpm_def toy_quote_def)
  have l: "tpm_layer toy_az_tdx_tpm [] toy_message [replicate 32 7] [9] (Some []) [(0, replicate 32 7)]
    = Inr (Some True, Some True)"
    unfolding toy_az_tdx_tpm_def by (rule toy_layer)
  have p: "tp_report_data (atp_tdx toy_az_tdx_params) = Some []" "atp_pcrs toy_az_tdx_params = [(0, replicate 32 7)]"
    "tp_init_data (atp_tdx toy_az_tdx_params) = None"
    by (simp_all add: toy_az_tdx_params_def default_tdx_params_def)
  have a: "td_attributes (tq_body toy_quote) = replicate 8 0" by (simp add: toy_quote_def)
  obtain r0 where q: "verify_quote toy_dcap toy_quote_bytes (atp_tdx toy_az_tdx_params) 50 = Inr (toy_quote, r0)"
      "tr_claims r0 = tdx_extract_claims toy_hex toy_quote"
    using toy_signature toy_chain by (simp add: verify_quote_def toy_parse at_index_def get_index_def a Let_def)
  obtain cl where c: "tpm_claims (tl_hex toy_az_tdx_tpm) (tr_claims r0) [replicate 32 7] toy_message = Inr cl"
  proof -
    obtain ms where "platform_data (tr_claims r0) = JObj ms"
      by (simp add: q tdx_extract_claims_def json_obj_def Let_def del: bt_insert.simps)
    with that show thesis by (auto simp: tpm_claims_def toy_nonce pcr_map_def)
  qed
  have e: "ev_lib (toy_tdx_env se) = toy_dcap" by (simp add: toy_tdx_env_def)
  show ?thesis
    by (simp add: toy_check_collateral az_tdx_verify_def az_tdx_verify_evidence_def v toy_az_tdx_decodes p l b q(1) e
        Let_def check_init_data_def check_init_data_len_def c)
qed

end
