(* ===== verification/CloudProps.thy ===== *)
theory CloudProps
  imports CloudToy
begin

text \<open>
  The properties of the cloud platforms: what passing verdicts on Azure and Google guests
  mean, and that Google's launch endorsements are read without loss.
\<close>

section \<open>Azure\<close>

text \<open>C10: A verdict on Azure SNP evidence is about evidence that is genuine from end to end:
  AMD's key signed the report, the report's first 32 bytes are the hash of the runtime data,
  the attestation key in the runtime data signed the quote, and the quote's digest is that
  of the register values. It passes exactly when the report meets the params, the quote
  carries the requester's bytes, the init data and the pinned registers, and the CRL does
  not list the issuer of the key.\<close>

theorem az_snp_verdict_meaning:
  assumes "az_snp_verify L T ev params crl now = Inr res"
  shows "\<exists>r vcek gen msg ps rvk. az_snp_genuine L T ev now r vcek gen msg ps \<and> vek_revoked L vcek crl gen = Inr rvk
    \<and> (az_snp_passed res \<longleftrightarrow> report_meets ((asp_snp params)\<lparr>sp_host_data := None\<rparr>) r
       \<and> tpm_meets (tl_hash T) msg ps (sp_report_data (asp_snp params)) (sp_host_data (asp_snp params)) (asp_pcrs params)
       \<and> \<not> rvk)"
  by (rule az_snp_passed_iff [OF assms]) blast

lemma az_snp_genuine_unique:
  "az_snp_genuine L T ev now r vcek gen msg ps \<Longrightarrow> az_snp_decode L T ev = Inr (hcl, vcek', (sig, msg', ps'), r') \<Longrightarrow>
     r = r' \<and> vcek = vcek' \<and> msg = msg' \<and> ps = ps'"
  by (auto simp: az_snp_genuine_def)

theorem az_snp_verdict_meaning_witness:
  "\<exists>res. az_snp_verify toy_snp_lib toy_az_snp_tpm toy_az_snp_evidence toy_az_snp_params (ss_crl toy_snp_set) 50 = Inr res
    \<and> az_snp_passed res"
proof -
  obtain res where res: "az_snp_verify toy_snp_lib toy_az_snp_tpm toy_az_snp_evidence toy_az_snp_params (ss_crl toy_snp_set) 50 = Inr res"
    using toy_az_snp_verifies by blast
  obtain r vcek gen msg ps rvk where g: "az_snp_genuine toy_snp_lib toy_az_snp_tpm toy_az_snp_evidence 50 r vcek gen msg ps"
    and k: "vek_revoked toy_snp_lib vcek (ss_crl toy_snp_set) gen = Inr rvk"
    and p: "az_snp_passed res \<longleftrightarrow> report_meets ((asp_snp toy_az_snp_params)\<lparr>sp_host_data := None\<rparr>) r
       \<and> tpm_meets (tl_hash toy_az_snp_tpm) msg ps (sp_report_data (asp_snp toy_az_snp_params))
           (sp_host_data (asp_snp toy_az_snp_params)) (asp_pcrs toy_az_snp_params) \<and> \<not> rvk"
    using az_snp_verdict_meaning [OF res] by blast
  have u: "r = toy_report" "msg = toy_message" "ps = [replicate 32 7]"
    using az_snp_genuine_unique [OF g toy_az_snp_decodes] by simp_all
  have "gen = Milan"
    using g by (auto simp: az_snp_genuine_def u az_gens_def toy_report_def from_cpuid_def)
  with k have "\<not> rvk" by (simp add: toy_not_revoked)
  moreover have "report_meets ((asp_snp toy_az_snp_params)\<lparr>sp_host_data := None\<rparr>) r"
    by (simp add: u report_meets_def toy_az_snp_params_def default_snp_params_def toy_report_def pinned_def padded_to_def)
  moreover have "tpm_meets (tl_hash toy_az_snp_tpm) msg ps (sp_report_data (asp_snp toy_az_snp_params))
      (sp_host_data (asp_snp toy_az_snp_params)) (asp_pcrs toy_az_snp_params)"
    by (simp add: u tpm_meets_def toy_az_snp_params_def default_snp_params_def toy_nonce toy_message)
  ultimately show ?thesis using res p by blast
qed

text \<open>C11: The same for Azure TDX: the TD quote is genuine under Intel's root, its first 32 bytes
  of report data name the runtime data, whose key signed the vTPM quote; and a verdict passes
  exactly when the quote's measurements, the vTPM's values, the revocation lists and the
  combined TCB status are as the params ask.\<close>

theorem az_tdx_verdict_meaning:
  assumes "az_tdx_verify E T ev params c now = Inr res"
  shows "\<exists>d q msg ps pck st rvk. az_tdx_genuine (ev_lib E) T ev now d q msg ps
    \<and> pck_of (ev_lib E) d q = Inr pck \<and> tp_fmspc (ts_tcb_info c) = pc_fmspc pck \<and> pp_ca (ts_pck_crl c) = pc_ca pck
    \<and> pck_revoked (dc_x509 (ev_lib E)) (pc_der pck) c = Inr rvk
    \<and> quote_status (ev_lib E) d q (pc_der pck) c now = Inr st
    \<and> (az_tdx_passed res \<longleftrightarrow>
       body_meets ((atp_tdx params)\<lparr>tp_report_data := None, tp_init_data := None\<rparr>) (tq_body q)
       \<and> tpm_meets (tl_hash T) msg ps (tp_report_data (atp_tdx params)) (tp_init_data (atp_tdx params)) (atp_pcrs params)
       \<and> \<not> rvk \<and> ds_tcb_status st \<in> set (tp_accepted (atp_tdx params)))"
  by (rule az_tdx_passed_iff [OF assms]) blast

theorem az_tdx_verdict_meaning_witness:
  "\<exists>d q msg ps. az_tdx_genuine toy_dcap toy_az_tdx_tpm toy_az_tdx_evidence 50 d q msg ps \<and> msg = toy_message"
proof -
  obtain res where res: "az_tdx_verify (toy_tdx_env toy_se) toy_az_tdx_tpm toy_az_tdx_evidence toy_az_tdx_params toy_set 50 = Inr res"
    using toy_az_tdx_verifies by blast
  have e: "ev_lib (toy_tdx_env toy_se) = toy_dcap" by (simp add: toy_tdx_env_def)
  obtain d q msg ps where g: "az_tdx_genuine toy_dcap toy_az_tdx_tpm toy_az_tdx_evidence 50 d q msg ps"
    using az_tdx_verdict_meaning [OF res] unfolding e by blast
  then have "msg = toy_message" by (auto simp: az_tdx_genuine_def toy_az_tdx_decodes)
  with g show ?thesis by blast
qed

section \<open>Google\<close>

text \<open>C39: A protobuf message of varint and length-delimited fields, each with a number that is
  not zero, is read back field by field; and an integer is accepted in its shortest form only,
  so a message has one reading and an integer one encoding.\<close>

theorem protobuf_roundtrip:
  assumes "\<forall>f \<in> set fs. pb_field_ok f"
  shows "pb_fields (concat (map pb_field_bytes fs)) = Inr fs
    \<and> (pb_varint buf = Inr (v, rest) \<longleftrightarrow> buf = varint_bytes (unat v) @ rest)"
  using pb_fields_message [OF assms] pb_varint_iff by blast

theorem protobuf_roundtrip_witness:
  "pb_fields (concat (map pb_field_bytes [(1, FBytes [7, 8]), (2, Varint 300)])) = Inr [(1, FBytes [7, 8]), (2, Varint 300)]"
  using protobuf_roundtrip [of "[(1, FBytes [7, 8]), (2, Varint 300)]"] by (simp add: pb_field_ok_def)

text \<open>C12: A run on GCP SNP evidence passes exactly when the bare-metal verification of the same
  report passes and an endorsement signed by Google's firmware signer, under the pinned root,
  lists the report's launch measurement and endorses a guest policy at least as wide: every
  permission the guest has is endorsed, every restriction endorsed is in force, and the ABI
  version is not older.\<close>

theorem gcp_snp_run_meaning:
  assumes r: "run (gcp_snp_platform dec E G) j params now s w = (Inr (res, us), s', w')"
  shows "\<exists>p ev d r gen (c :: gcp_snp_set). params = Some p \<and> dec j = Some ev \<and> parse_evidence (en_lib E) ev = Inr (d, r, gen)
    \<and> snp_verify (en_lib E) ev (gsp_snp p) (gss_snp c) now = Inr (gsr_snp res)
    \<and> (\<forall>e. gss_endorsement c = Some e \<longrightarrow> (\<exists>body golden_bytes cert. last_bytes body 1 = Inr (Some golden_bytes)
         \<and> last_bytes golden_bytes 4 = Inr (Some cert) \<and> google_signed G cert golden_bytes
         \<and> parse_golden golden_bytes = Inr (ge_golden e)))
    \<and> (gcp_snp_passed res \<longleftrightarrow> snp_passed (gsr_snp res)
         \<and> (\<exists>e sev. gss_endorsement c = Some e \<and> gm_sev_snp (ge_golden e) = Some sev
              \<and> sr_measurement r \<in> set (snp_endorsed sev)
              \<and> (\<forall>i \<in> {16, 18, 19, 21}. bit (gp_raw (sr_policy r)) i \<longrightarrow> bit (sg_policy sev) i)
              \<and> (\<forall>i \<in> {20, 22, 23, 24, 25}. bit (sg_policy sev) i \<longrightarrow> bit (gp_raw (sr_policy r)) i)
              \<and> unat (sg_policy sev) mod 2 ^ 16 \<le> unat (gp_raw (sr_policy r)) mod 2 ^ 16))"
proof -
  obtain p ev c where p: "params = Some p" "dec j = Some ev" "gcp_snp_verify (en_lib E) ev p c now = Inr res"
    and g: "gcp_snp_gather E G ev now s w = (Inr (c, us), s', w')"
    by (rule run_Inr [OF r]) (auto simp: gcp_snp_platform_def)
  obtain d r gen where v: "snp_verify (en_lib E) ev (gsp_snp p) (gss_snp c) now = Inr (gsr_snp res)"
      "parse_evidence (en_lib E) ev = Inr (d, r, gen)"
    and m: "gsr_endorsement_match res = Some (\<exists>e. gss_endorsement c = Some e
       \<and> endorses_snp (ge_golden e) (sr_measurement r) (gp_raw (sr_policy r)))"
    by (rule gcp_snp_verify_Inr [OF p(3)])
  have e: "\<exists>body golden_bytes cert. last_bytes body 1 = Inr (Some golden_bytes)
         \<and> last_bytes golden_bytes 4 = Inr (Some cert) \<and> google_signed G cert golden_bytes
         \<and> parse_golden golden_bytes = Inr (ge_golden e)" if held: "gss_endorsement c = Some e" for e
  proof -
    obtain r' :: snp_report and b ch where "gce_verify G b ch (GcpSnp, sr_measurement r') = Inr e"
      by (rule gcp_snp_gather_Inr [OF g]) (use held in blast)
    then obtain nb na where "check_endorsement G b = Inr (ge_golden e, nb, na)"
      using gce_verify_Inr by blast
    then show ?thesis by (rule check_endorsement_Inr) blast
  qed
  have reorder: "(\<exists>e. A e \<and> (\<exists>s. B e s \<and> P s \<and> C s)) \<longleftrightarrow> (\<exists>e s. A e \<and> B e s \<and> C s \<and> P s)"
    for A :: "gce_piece \<Rightarrow> bool" and B and P C :: "sev_snp_golden \<Rightarrow> bool"
    by blast
  have "gcp_snp_passed res \<longleftrightarrow> snp_passed (gsr_snp res) \<and> (\<exists>e. gss_endorsement c = Some e
       \<and> endorses_snp (ge_golden e) (sr_measurement r) (gp_raw (sr_policy r)))"
    by (simp add: gcp_snp_passed_def m)
  note passed = this [unfolded endorses_snp_iff check_snp_policy_iff reorder]
  show ?thesis
    by (rule exI [of _ p], rule exI [of _ ev], rule exI [of _ d], rule exI [of _ r], rule exI [of _ gen], rule exI [of _ c])
       (intro conjI p v allI impI e passed)
qed

text \<open>A launch endorsement for the toy report, held by the store.\<close>

definition pb_message :: "(u64 \<times> field) list \<Rightarrow> bytes" where
  "pb_message fs = concat (map pb_field_bytes fs)"

definition toy_snp_entry :: bytes where "toy_snp_entry = pb_message [(1, Varint 1), (2, FBytes (replicate 48 3))]"
definition toy_golden_snp :: bytes where "toy_golden_snp = pb_message [(2, FBytes toy_snp_entry)]"
definition toy_golden :: bytes where "toy_golden = pb_message [(4, FBytes [5]), (7, FBytes toy_golden_snp)]"
definition toy_endorsement_bytes :: bytes where
  "toy_endorsement_bytes = pb_message [(1, FBytes toy_golden), (2, FBytes [1])]"

definition toy_gce_cert :: gce_cert where
  "toy_gce_cert = \<lparr>gc_issuer = [0], gc_subject = [0], gc_attributes = [(ID_CN, Utf8String, str_bytes SIGNER_CN)],
     gc_algorithm = ID_RSASSA_PSS,
     gc_parameters = Some (Some \<lparr>ps_hash = ID_SHA_256, ps_mask_gen = ID_MGF_1, ps_mask_hash = Some ID_SHA_256, ps_salt_len = 32\<rparr>),
     gc_tbs_der = Some [], gc_signature = [], gc_spki = Some [], gc_not_before = 0, gc_not_after = 100,
     gc_key_usage = Inr (Some True), gc_is_ca = Inr (Some False)\<rparr>"

definition toy_gce :: "(unit, unit) gce_lib" where
  "toy_gce = \<lparr>gl_root = [], gl_cert = (\<lambda>_. Some toy_gce_cert),
     gl_pss = \<lparr>pss_key = (\<lambda>_. Some ()), pss_sig = (\<lambda>_. Some ()), pss_verify = (\<lambda>_ _ _. True)\<rparr>, gl_hex = toy_hex\<rparr>"

definition toy_gce_piece :: gce_piece where
  "toy_gce_piece = \<lparr>ge_golden = default_golden\<lparr>gm_cert := [5], gm_sev_snp := Some \<lparr>sg_svn = 0,
     sg_measurements = [(1, replicate 48 3)], sg_policy = 0, sg_svsm_measurement = []\<rparr>\<rparr>,
     ge_not_before = 0, ge_not_after = 100\<rparr>"

definition toy_gcp_store :: store where
  "toy_gcp_store = toy_store_of (\<lambda>url.
     if url = piece_url (gce_kind toy_gce) (GcpSnp, replicate 48 3) then toy_endorsement_bytes else [])"

lemma varint_bytes_length: "n < 128 * 128 \<Longrightarrow> length (varint_bytes n) \<le> 2"
  using less_mult_imp_div_less [of n 128 128]
  by (simp add: varint_bytes.simps [of n] varint_bytes.simps [of "n div 128"])

lemma pb_field_bytes_length:
  assumes "unat n < 128" "length b < 128 * 128"
  shows "length (pb_field_bytes (n, FBytes b)) \<le> 4 + length b"
  using varint_bytes_length [of "8 * unat n + 2"] varint_bytes_length [of "length b"] assms by simp

lemma toy_message_lengths:
  "length toy_snp_entry \<le> 60" "length toy_golden_snp \<le> 70" "length toy_golden \<le> 90"
proof -
  have v: "length (pb_field_bytes (1, Varint 1)) \<le> 4"
    using varint_bytes_length [of "8"] varint_bytes_length [of 1] by simp
  show 1: "length toy_snp_entry \<le> 60"
    using pb_field_bytes_length [of 2 "replicate 48 3"] v
    by (simp add: toy_snp_entry_def pb_message_def del: pb_field_bytes.simps)
  then show 2: "length toy_golden_snp \<le> 70"
    using pb_field_bytes_length [of 2 toy_snp_entry]
    by (simp add: toy_golden_snp_def pb_message_def del: pb_field_bytes.simps)
  then show "length toy_golden \<le> 90"
    using pb_field_bytes_length [of 4 "[5]"] pb_field_bytes_length [of 7 toy_golden_snp]
    by (simp add: toy_golden_def pb_message_def del: pb_field_bytes.simps)
qed

lemma toy_messages:
  "pb_fields toy_snp_entry = Inr [(1, Varint 1), (2, FBytes (replicate 48 3))]"
  "pb_fields toy_golden_snp = Inr [(2, FBytes toy_snp_entry)]"
  "pb_fields toy_golden = Inr [(4, FBytes [5]), (7, FBytes toy_golden_snp)]"
  "pb_fields toy_endorsement_bytes = Inr [(1, FBytes toy_golden), (2, FBytes [1])]"
  using toy_message_lengths
  by (simp_all add: toy_endorsement_bytes_def toy_golden_def [unfolded pb_message_def] toy_golden_snp_def [unfolded pb_message_def]
      toy_snp_entry_def [unfolded pb_message_def] pb_message_def pb_fields_message pb_field_ok_def
      del: list.map concat.simps)

lemma toy_golden_parses:
  "last_bytes toy_endorsement_bytes 1 = Inr (Some toy_golden)" "last_bytes toy_endorsement_bytes 2 = Inr (Some [1])"
  "last_bytes toy_golden 4 = Inr (Some [5])" "parse_golden toy_golden = Inr (ge_golden toy_gce_piece)"
  by (simp_all add: last_bytes_def toy_messages parse_golden_def golden_step_def parse_sev_snp_def snp_golden_step_def
      snp_entry_step_def default_golden_def toy_gce_piece_def field_int_def)

lemma toy_gce_verifies: "gce_verify toy_gce toy_endorsement_bytes ch (GcpSnp, replicate 48 3) = Inr toy_gce_piece"
proof -
  have "check_signer_role toy_gce_cert = Inr ()" "check_pss_sha256 toy_gce_cert = Inr ()"
    by (simp_all add: check_signer_role_def check_pss_sha256_def toy_gce_cert_def)
  then have "signer_key toy_gce [5] = Inr ((), 0, 100)"
    by (simp add: signer_key_def toy_gce_def gce_rsa_key_def unix_secs_def) (simp add: toy_gce_cert_def)
  then have "check_endorsement toy_gce toy_endorsement_bytes = Inr (ge_golden toy_gce_piece, 0, 100)"
    by (simp add: check_endorsement_def toy_golden_parses)
       (simp add: toy_gce_def toy_gce_piece_def default_golden_def PROVENANCE_REQUIRED_AFTER_def)
  then show ?thesis
    by (simp add: gce_verify_def) (simp add: toy_gce_piece_def snp_endorses_def snp_endorsed_def)
qed

lemma get_if_published_held:
  assumes "st_held s (piece_url k pid) = Some (b, c)" "st_attached s = Map.empty" "st_used s = None"
    and "piece_verify k b c pid = Inr p" and "passes k (piece_floor k pid (st_floors s)) now p"
  shows "\<exists>u. get_if_published env k pid now s w = (Inr (Some (p, u)), s, w)"
proof -
  have "best_of k pid None (on_hand env k pid (piece_url k pid) s w) = Inr (Some (p, b, c, Held))"
    using assms by (simp add: on_hand_def newer_than_best_def is_none_or_def)
  from lookup_on_hand [OF this assms(5)] assms(3) show ?thesis
    by (simp add: get_if_published_def record_used_def)
qed

lemma toy_gcp_run:
  "\<exists>res us. run (gcp_snp_platform (\<lambda>_. Some toy_snp_evidence) (toy_snp_env se) toy_gce) JNull
     (Some \<lparr>gsp_snp = default_snp_params\<rparr>) 50 toy_gcp_store w = (Inr (res, us), toy_gcp_store, w)
     \<and> gcp_snp_passed res"
proof -
  let ?url = "piece_url (gce_kind toy_gce) (GcpSnp, replicate 48 3)"
  have m: "sr_measurement toy_report = replicate 48 3" by (simp add: toy_report_def)
  have "amd_crl_url (Milan, Vcek) \<noteq> ?url"
    by (simp add: amd_crl_url_def AMD_KDS_def gce_kind_def GCE_TCB_INTEGRITY_def)
  then obtain us where g: "snp_set_gather (toy_snp_env se) toy_report Milan (Some []) 50 toy_gcp_store w
      = (Inr (toy_snp_set, us), toy_gcp_store, w)"
    using toy_snp_set_gathers [of "\<lambda>url. if url = ?url then toy_endorsement_bytes else []" se w]
    unfolding toy_gcp_store_def by auto
  have "passes (gce_kind toy_gce) None 50 toy_gce_piece"
    by (simp add: passes_def gce_kind_def acceptable_iff window_def is_none_or_def toy_gce_piece_def)
  then obtain u where e: "get_if_published se (gce_kind toy_gce) (GcpSnp, replicate 48 3) 50 toy_gcp_store w
      = (Inr (Some (toy_gce_piece, u)), toy_gcp_store, w)"
    using get_if_published_held [of toy_gcp_store "gce_kind toy_gce" "(GcpSnp, replicate 48 3)" toy_endorsement_bytes None
        toy_gce_piece 50 se w] toy_gce_verifies
    by (auto simp: toy_gcp_store_def toy_store_of_def held_only_def gce_kind_def)
  have l: "en_lib (toy_snp_env se) = toy_snp_lib" "en_store (toy_snp_env se) = se" by (simp_all add: toy_snp_env_def)
  obtain v where v: "snp_verify toy_snp_lib toy_snp_evidence default_snp_params toy_snp_set 50 = Inr v"
    by (simp add: snp_verify_def snp_validate_def default_snp_params_def toy_parse_evidence toy_check_report toy_not_revoked
        check_report_bindings_def check_allowed_set_def padded_match_def)
  have "report_meets default_snp_params toy_report" "caller_meets toy_snp_lib default_snp_params toy_snp_evidence toy_report"
    by (simp_all add: report_meets_def caller_meets_def default_snp_params_def toy_report_def pinned_def padded_to_def)
  with v have passed: "snp_passed v"
    by (elim snp_verify_passed_iff) (simp add: toy_parse_evidence toy_not_revoked)
  have "check_snp_policy 0 0 = Inr ()" by (simp add: check_snp_policy_def)
  then have "endorses_snp (ge_golden toy_gce_piece) (replicate 48 3) (gp_raw (sr_policy toy_report))"
    by (simp add: endorses_snp_iff toy_gce_piece_def snp_endorsed_def toy_report_def)
  with v have g2: "gcp_snp_verify toy_snp_lib toy_snp_evidence \<lparr>gsp_snp = default_snp_params\<rparr>
      \<lparr>gss_snp = toy_snp_set, gss_endorsement = Some toy_gce_piece\<rparr> 50
      = Inr \<lparr>gsr_snp = v, gsr_endorsement_match = Some True\<rparr>"
    by (simp add: gcp_snp_verify_def gcp_snp_validate_def snp_validate_def default_snp_params_def report_of_def parse_report_def
        check_allowed_set_def m)
  moreover have "gcp_snp_validate \<lparr>gsp_snp = default_snp_params\<rparr> = Inr ()"
    by (simp add: gcp_snp_validate_def snp_validate_def default_snp_params_def check_allowed_set_def)
  ultimately show ?thesis
    by (simp add: gcp_snp_passed_def passed g2 run_def gcp_snp_platform_def gcp_snp_gather_def l toy_genuine_report g m e push_used_def)
qed

theorem gcp_snp_run_meaning_witness:
  "\<exists>res. gcp_snp_passed res \<and> snp_passed (gsr_snp res)
     \<and> (\<exists>us. run (gcp_snp_platform (\<lambda>_. Some toy_snp_evidence) (toy_snp_env toy_se) toy_gce) JNull
       (Some \<lparr>gsp_snp = default_snp_params\<rparr>) 50 toy_gcp_store 0 = (Inr (res, us), toy_gcp_store, 0))"
proof -
  obtain res us where r: "run (gcp_snp_platform (\<lambda>_. Some toy_snp_evidence) (toy_snp_env toy_se) toy_gce) JNull
     (Some \<lparr>gsp_snp = default_snp_params\<rparr>) 50 toy_gcp_store 0 = (Inr (res, us), toy_gcp_store, 0)"
    and p: "gcp_snp_passed res"
    using toy_gcp_run [of toy_se 0] by blast
  from gcp_snp_run_meaning [OF r] p have "snp_passed (gsr_snp res)" by blast
  with r p show ?thesis by blast
qed

end
