(* ===== verification/Jws.thy ===== *)
theory Jws
  imports Complex_Main StoreInv
begin

text \<open>
  The token half of \<open>crates/attestation/src/platforms/nvidia_gpu/verify.rs\<close>: NRAS's answers
  as detached tokens, the compact JWS they are signed as, the certificate chains of the
  signing keys up to NVIDIA's pinned intermediates, and the time claims. Certificates and
  signatures are parameters, as is the value of a number in JSON that is not an integer.
\<close>

section \<open>Numbers\<close>

text \<open>\<open>i as f64\<close>: the nearest number with 53 significant bits, ties to even.\<close>

fun bit_length :: "nat \<Rightarrow> nat" where
  "bit_length n = (if n = 0 then 0 else Suc (bit_length (n div 2)))"

declare bit_length.simps [simp del]

definition round_f64 :: "nat \<Rightarrow> nat" where
  "round_f64 n =
     (let unit = 2 ^ (bit_length n - 53); q = n div unit; r = n mod unit in
      if 2 * r < unit \<or> 2 * r = unit \<and> even q then q * unit else (q + 1) * unit)"

definition f64_of_int :: "int \<Rightarrow> int" where
  "f64_of_int i = (if i < 0 then - int (round_f64 (nat (- i))) else int (round_f64 (nat i)))"

text \<open>\<open>Value::as_f64\<close>; \<open>parse\<close> is the value of a number that is not an integer.\<close>

fun as_f64 :: "(string \<Rightarrow> rat) \<Rightarrow> json \<Rightarrow> rat option" where
  "as_f64 parse (JInt i) = Some (of_int (f64_of_int i))"
| "as_f64 parse (JFloat t) = Some (parse t)"
| "as_f64 parse _ = None"

section \<open>Keys, certificates and signatures\<close>

record jwks_key =
  jk_kid :: string
  jk_kty :: string
  jk_alg :: "string option"
  jk_crv :: "string option"
  jk_x :: "string option"
  jk_y :: "string option"
  jk_x5c :: "string list option"

record jwks =
  jw_keys :: "jwks_key list"

text \<open>What the source reads of a certificate of the \<open>x509_cert\<close> crate: its names, key and
  signed part as they encode again, its validity in Unix seconds, \<open>basicConstraints\<close> with
  the path length, and whether \<open>keyUsage\<close> has \<open>keyCertSign\<close>; \<open>Inl\<close> when an extension does
  not decode.\<close>

record x5c_cert =
  xc_not_before :: nat
  xc_not_after :: nat
  xc_subject :: "bytes option"
  xc_issuer :: "bytes option"
  xc_spki :: "bytes option"
  xc_tbs :: "bytes option"
  xc_alg :: string
  xc_signature :: bytes
  xc_basic :: "string + (bool \<times> nat option) option"
  xc_key_cert_sign :: "string + bool option"

text \<open>One signature scheme: a key from its subject key info, a signature from its bytes, and
  verification.\<close>

record ('k, 's) sig_lib =
  sl_key :: "bytes \<Rightarrow> 'k option"
  sl_sig :: "bytes \<Rightarrow> 's option"
  sl_verify :: "'k \<Rightarrow> bytes \<Rightarrow> 's \<Rightarrow> bool"

record ('k, 's) jws_lib =
  jl_b64url :: "string \<Rightarrow> bytes option"
  jl_b64 :: "string \<Rightarrow> bytes option"
  jl_json :: "bytes \<Rightarrow> json option"
  jl_f64 :: "string \<Rightarrow> rat"
  jl_hex :: hex_lib
  jl_hash :: hash_lib
  jl_cert :: "bytes \<Rightarrow> x5c_cert option"
  jl_p384 :: "('k, 's) sig_lib"
  jl_p384_fixed :: "bytes \<Rightarrow> 's option"
  jl_p256 :: "('k, 's) sig_lib"
  jl_rsa_sha256 :: "('k, 's) sig_lib"
  jl_rsa_sha384 :: "('k, 's) sig_lib"
  jl_jwks :: "bytes \<Rightarrow> jwks option"
  jl_jwks_bytes :: "jwks \<Rightarrow> bytes"

definition ECDSA_WITH_SHA_256 :: string where "ECDSA_WITH_SHA_256 = ''1.2.840.10045.4.3.2''"
definition ECDSA_WITH_SHA_384 :: string where "ECDSA_WITH_SHA_384 = ''1.2.840.10045.4.3.3''"
definition SHA_256_WITH_RSA_ENCRYPTION :: string where "SHA_256_WITH_RSA_ENCRYPTION = ''1.2.840.113549.1.1.11''"
definition SHA_384_WITH_RSA_ENCRYPTION :: string where "SHA_384_WITH_RSA_ENCRYPTION = ''1.2.840.113549.1.1.12''"

text \<open>\<open>verify_ecdsa_p384\<close>, \<open>verify_ecdsa_p256\<close>, \<open>verify_rsa_sha256\<close> and
  \<open>verify_rsa_sha384\<close>, which differ in the scheme only.\<close>

definition verify_by :: "('k, 's) sig_lib \<Rightarrow> bytes \<Rightarrow> bytes \<Rightarrow> bytes \<Rightarrow> bool" where
  "verify_by S issuer_spki tbs sig_bytes = (case sl_key S issuer_spki of
       None \<Rightarrow> False
     | Some key \<Rightarrow>
         (case sl_sig S sig_bytes of
            None \<Rightarrow> False
          | Some sig \<Rightarrow> sl_verify S key tbs sig))"

definition x5c_signature :: "('k, 's) jws_lib \<Rightarrow> x5c_cert \<Rightarrow> x5c_cert \<Rightarrow> unit res" where
  "x5c_signature L c issuer =
     and_then (ok_or (JwsVerification ''x5c issuer spki encode'') (xc_spki issuer)) (\<lambda>spki.
     and_then (ok_or (JwsVerification ''x5c tbs encode'') (xc_tbs c)) (\<lambda>tbs.
     let sig_bytes = xc_signature c; alg = xc_alg c in
     and_then (if alg = ECDSA_WITH_SHA_384 then Inr (verify_by (jl_p384 L) spki tbs sig_bytes)
               else if alg = ECDSA_WITH_SHA_256 then Inr (verify_by (jl_p256 L) spki tbs sig_bytes)
               else if alg = SHA_256_WITH_RSA_ENCRYPTION then Inr (verify_by (jl_rsa_sha256 L) spki tbs sig_bytes)
               else if alg = SHA_384_WITH_RSA_ENCRYPTION then Inr (verify_by (jl_rsa_sha384 L) spki tbs sig_bytes)
               else Inl (JwsVerification ''x5c unsupported signatureAlgorithm'')) (\<lambda>verified.
     require verified (JwsVerification ''x5c not signed by the next certificate''))))"

text \<open>The path length is one byte; the count below it is compared as a \<open>u32\<close>.\<close>

definition check_issuer_is_ca :: "x5c_cert \<Rightarrow> x5c_cert \<Rightarrow> nat \<Rightarrow> unit res" where
  "check_issuer_is_ca issuer subject below =
     and_then (map_err (\<lambda>_. JwsVerification ''x5c basicConstraints decode'') (xc_basic issuer)) (\<lambda>bc.
     and_then (ok_or (JwsVerification ''x5c is not a CA (no basicConstraints)'') bc) (\<lambda>(ca, path_len).
     if \<not> ca then Inl (JwsVerification ''x5c basicConstraints cA=FALSE'')
     else if (case path_len of None \<Rightarrow> False | Some m \<Rightarrow> below mod 2 ^ 32 > m)
     then Inl (JwsVerification ''x5c pathLenConstraint exceeded'')
     else
     and_then (map_err (\<lambda>_. JwsVerification ''x5c keyUsage decode'') (xc_key_cert_sign issuer)) (\<lambda>ku.
     if ku = Some False then Inl (JwsVerification ''x5c keyUsage lacks keyCertSign'')
     else
     and_then (ok_or (JwsVerification ''x5c subject name encode'') (xc_subject issuer)) (\<lambda>issuer_subject.
     and_then (ok_or (JwsVerification ''x5c issuer name encode'') (xc_issuer subject)) (\<lambda>subject_issuer.
     if issuer_subject \<noteq> subject_issuer then Inl (JwsVerification ''x5c broken name chain'') else Inr ())))))"

definition NRAS_TRUSTED_SPKI_SHA256 :: "string list" where
  "NRAS_TRUSTED_SPKI_SHA256 =
     [''fd32837f954e2c45db073105166dfe6985ae0480bb113fba63b091a75affe896'',
      ''ba14d00377699189b6762c22c744a9dbdc62aa9396097ada7150426c6ff39afc'']"

definition x5c_decode :: "('k, 's) jws_lib \<Rightarrow> string \<Rightarrow> x5c_cert res" where
  "x5c_decode L b64 =
     and_then (ok_or (JwsVerification ''x5c b64'') (jl_b64 L b64)) (\<lambda>der.
     ok_or (JwsVerification ''x5c cert parse'') (jl_cert L der))"

text \<open>The validity of one certificate; a time that does not fit \<open>i64\<close> is an error.\<close>

definition x5c_in_validity :: "int \<Rightarrow> x5c_cert \<Rightarrow> unit res" where
  "x5c_in_validity now c =
     (if \<not> xc_not_before c < 2 ^ 63 then Inl (JwsVerification ''x5c not_before overflow'')
      else if now < int (xc_not_before c) then Inl (JwsVerification ''x5c certificate not yet valid'')
      else if \<not> xc_not_after c < 2 ^ 63 then Inl (JwsVerification ''x5c not_after overflow'')
      else if now > int (xc_not_after c) then Inl (JwsVerification ''x5c certificate has expired'')
      else Inr ())"

definition x5c_link :: "('k, 's) jws_lib \<Rightarrow> x5c_cert list \<Rightarrow> nat \<Rightarrow> unit res" where
  "x5c_link L certs i =
     and_then (at_index certs i) (\<lambda>c.
     and_then (at_index certs (i + 1)) (\<lambda>issuer.
     and_then (x5c_signature L c issuer) (\<lambda>_.
     check_issuer_is_ca issuer c i)))"

definition verify_x5c_chain :: "('k, 's) jws_lib \<Rightarrow> string list \<Rightarrow> int option \<Rightarrow> 'k res" where
  "verify_x5c_chain L chain now =
     (if chain = [] then Inl (JwsVerification ''x5c chain is empty'')
      else
      and_then (traverse (x5c_decode L) chain) (\<lambda>certs.
      and_then (case now of None \<Rightarrow> Inr () | Some now \<Rightarrow> check_each (x5c_in_validity now) certs) (\<lambda>_.
      and_then (check_each (x5c_link L certs) [0..<length certs - 1]) (\<lambda>_.
      and_then (at_index certs (length certs - 1)) (\<lambda>top.
      and_then (ok_or (JwsVerification ''x5c top spki encode'') (xc_spki top)) (\<lambda>top_spki.
      let top_spki_hash = hex_encode (jl_hex L) (sha256 (jl_hash L) top_spki) in
      if top_spki_hash \<notin> set NRAS_TRUSTED_SPKI_SHA256
      then Inl (JwsVerification ''x5c chain root SPKI not in trusted set'')
      else
      and_then (at_index certs 0) (\<lambda>leaf.
      and_then (ok_or (JwsVerification ''x5c leaf spki encode'') (xc_spki leaf)) (\<lambda>leaf_spki.
      ok_or (JwsVerification ''x5c leaf ES384 key'') (sl_key (jl_p384 L) leaf_spki)))))))))"

definition es384_key :: "('k, 's) jws_lib \<Rightarrow> jwks_key \<Rightarrow> int option \<Rightarrow> 'k res" where
  "es384_key L key now = (case jk_x5c key of
       Some chain \<Rightarrow>
         if chain \<noteq> [] then verify_x5c_chain L chain now
         else Inl (JwsVerification ''JWKS entry has no x5c chain'')
     | None \<Rightarrow> Inl (JwsVerification ''JWKS entry has no x5c chain''))"

section \<open>Tokens\<close>

definition enforce_time_claims :: "(string \<Rightarrow> rat) \<Rightarrow> json \<Rightarrow> int \<Rightarrow> unit res" where
  "enforce_time_claims parse cl now =
     and_then (ok_or (JwsVerification ''JWT missing or non-numeric exp'')
        (Option.bind (json_get ''exp'' cl) (as_f64 parse))) (\<lambda>exp.
     if now > sat_i64 \<lfloor>exp\<rfloor> then Inl (JwsVerification ''JWT has expired (exp)'')
     else (case json_get ''nbf'' cl of
         None \<Rightarrow> Inr ()
       | Some nbf \<Rightarrow>
           and_then (ok_or (JwsVerification ''JWT nbf is present but non-numeric'') (as_f64 parse nbf)) (\<lambda>nbf.
           if now < sat_i64 \<lceil>nbf\<rceil> then Inl (JwsVerification ''JWT is not yet valid (nbf)'') else Inr ())))"

text \<open>The claims of the payload, once the signature of the key \<open>kid\<close> names has been verified.\<close>

definition verify_jws_es384 :: "('k, 's) jws_lib \<Rightarrow> string \<Rightarrow> jwks \<Rightarrow> int \<Rightarrow> json res" where
  "verify_jws_es384 L token ks now = (case split_on (CHR ''.'') token of
       [header_part, payload_part, sig_part] \<Rightarrow>
         and_then (ok_or (JwsVerification ''header b64'') (jl_b64url L header_part)) (\<lambda>header_bytes.
         and_then (ok_or (JwsVerification ''header json'') (jl_json L header_bytes)) (\<lambda>header.
         if get_str ''alg'' header \<noteq> Some ''ES384'' then Inl (JwsVerification ''unsupported alg'')
         else if json_get ''crit'' header \<noteq> None
         then Inl (JwsVerification ''unsupported crit header parameter'')
         else
         and_then (ok_or (JwsVerification ''missing kid'') (get_str ''kid'' header)) (\<lambda>kid.
         and_then (ok_or (JwksKidNotFound kid) (find (\<lambda>k. jk_kid k = kid) (jw_keys ks))) (\<lambda>key.
         and_then (es384_key L key (Some now)) (\<lambda>verifying_key.
         and_then (ok_or (JwsVerification ''sig b64'') (jl_b64url L sig_part)) (\<lambda>sig_bytes.
         and_then (ok_or (JwsVerification ''ES384 sig parse'') (jl_p384_fixed L sig_bytes)) (\<lambda>signature.
         and_then (require (sl_verify (jl_p384 L) verifying_key
              (str_bytes (header_part @ ''.'' @ payload_part)) signature) (JwsVerification ''ES384 verify'')) (\<lambda>_.
         and_then (ok_or (JwsVerification ''payload b64'') (jl_b64url L payload_part)) (\<lambda>payload.
         and_then (ok_or (JwsVerification ''payload json'') (jl_json L payload)) (\<lambda>cl.
         and_then (enforce_time_claims (jl_f64 L) cl now) (\<lambda>_.
         Inr cl)))))))))))
     | _ \<Rightarrow> Inl (JwsVerification ''not a compact JWS''))"

definition jwt_kid :: "('k, 's) jws_lib \<Rightarrow> string \<Rightarrow> string option" where
  "jwt_kid L token =
     Option.bind (get_index (split_on (CHR ''.'') token) 0) (\<lambda>part.
     Option.bind (jl_b64url L part) (\<lambda>header.
     Option.bind (jl_json L header) (get_str ''kid'')))"

text \<open>The overall token and the submodules' tokens by name.\<close>

definition submodule_token :: "string \<times> json \<Rightarrow> (string \<times> string) res" where
  "submodule_token = (\<lambda>(k, v).
     and_then (ok_or (NrasResponseParse ''EAT submodule value is not a JWT string'') (as_str v)) (\<lambda>s.
     Inr (k, s)))"

definition split_eat_response :: "json \<Rightarrow> (string \<times> (string \<times> string) list) res" where
  "split_eat_response v =
     (if as_str v \<noteq> None then Inl (NrasResponseParse ''NRAS returned a bare JWT string'')
      else (case as_array v of
        Some [a0, a1] \<Rightarrow>
          and_then (ok_or (NrasResponseParse ''EAT[0] is not an array'') (as_array a0)) (\<lambda>inner.
          if Option.bind (get_index inner 0) as_str \<noteq> Some ''JWT''
          then Inl (NrasResponseParse ''EAT[0][0] is not JWT'')
          else
          and_then (ok_or (NrasResponseParse ''missing overall JWT in EAT'')
             (Option.bind (get_index inner 1) as_str)) (\<lambda>overall.
          and_then (ok_or (NrasResponseParse ''EAT[1] is not a submodule object'') (as_object a1)) (\<lambda>m.
          and_then (traverse submodule_token m) (\<lambda>subs.
          Inr (overall, subs)))))
      | _ \<Rightarrow> Inl (NrasResponseParse ''unexpected NRAS response shape'')))"

text \<open>All tokens of an answer.\<close>

definition eat_tokens :: "string \<times> (string \<times> string) list \<Rightarrow> string list" where
  "eat_tokens = (\<lambda>(overall, subs). overall # map snd subs)"

section \<open>Lemmas\<close>

text \<open>Integers up to \<open>2 ^ 53\<close> are exact.\<close>

lemma bit_length_bound: "n < 2 ^ m \<Longrightarrow> bit_length n \<le> m"
proof (induction m arbitrary: n)
  case 0
  then show ?case by (simp add: bit_length.simps)
next
  case (Suc m)
  then show ?case by (subst bit_length.simps) auto
qed

lemma f64_of_int_exact: "\<bar>i\<bar> < 2 ^ 53 \<Longrightarrow> f64_of_int i = i"
proof -
  have "round_f64 n = n" if "n < 2 ^ 53" for n
    using bit_length_bound [OF that] by (simp add: round_f64_def)
  moreover assume "\<bar>i\<bar> < 2 ^ 53"
  ultimately show ?thesis by (auto simp: f64_of_int_def)
qed

text \<open>What a link of the chain is: the upper certificate's key signed the lower one, and it is
  a CA that may have that many CAs below it.\<close>

definition x5c_issued :: "('k, 's) jws_lib \<Rightarrow> x5c_cert \<Rightarrow> x5c_cert \<Rightarrow> nat \<Rightarrow> bool" where
  "x5c_issued L c issuer below \<longleftrightarrow>
     (\<exists>spki tbs S. xc_spki issuer = Some spki \<and> xc_tbs c = Some tbs
        \<and> (xc_alg c, S) \<in> {(ECDSA_WITH_SHA_384, jl_p384 L), (ECDSA_WITH_SHA_256, jl_p256 L),
             (SHA_256_WITH_RSA_ENCRYPTION, jl_rsa_sha256 L), (SHA_384_WITH_RSA_ENCRYPTION, jl_rsa_sha384 L)}
        \<and> verify_by S spki tbs (xc_signature c))
     \<and> (\<exists>path_len. xc_basic issuer = Inr (Some (True, path_len)) \<and> (\<forall>m. path_len = Some m \<longrightarrow> below \<le> m))
     \<and> (\<exists>ku. xc_key_cert_sign issuer = Inr ku \<and> ku \<noteq> Some False)
     \<and> (\<exists>name. xc_subject issuer = Some name \<and> xc_issuer c = Some name)"

lemma x5c_signature_Inr:
  assumes "x5c_signature L c issuer = Inr ()"
  shows "\<exists>spki tbs S. xc_spki issuer = Some spki \<and> xc_tbs c = Some tbs
        \<and> (xc_alg c, S) \<in> {(ECDSA_WITH_SHA_384, jl_p384 L), (ECDSA_WITH_SHA_256, jl_p256 L),
             (SHA_256_WITH_RSA_ENCRYPTION, jl_rsa_sha256 L), (SHA_384_WITH_RSA_ENCRYPTION, jl_rsa_sha384 L)}
        \<and> verify_by S spki tbs (xc_signature c)"
  using assms by (auto simp: x5c_signature_def and_then_Inr_iff ok_or_Inr_iff require_Inr_iff Let_def split: if_splits)

lemma check_issuer_is_ca_Inr:
  assumes "check_issuer_is_ca issuer c below = Inr ()" "below < 2 ^ 32"
  shows "(\<exists>path_len. xc_basic issuer = Inr (Some (True, path_len)) \<and> (\<forall>m. path_len = Some m \<longrightarrow> below \<le> m))
     \<and> (\<exists>ku. xc_key_cert_sign issuer = Inr ku \<and> ku \<noteq> Some False)
     \<and> (\<exists>name. xc_subject issuer = Some name \<and> xc_issuer c = Some name)"
  using assms
  by (auto simp: check_issuer_is_ca_def and_then_Inr_iff ok_or_Inr_iff map_err_Inr_iff split: if_splits option.splits)

lemma x5c_link_Inr:
  assumes "x5c_link L certs i = Inr ()" "i < 2 ^ 32"
  shows "Suc i < length certs \<and> x5c_issued L (certs ! i) (certs ! Suc i) i"
  using assms unfolding x5c_issued_def
  by (auto simp: x5c_link_def and_then_Inr_iff at_index_Inr_iff dest!: x5c_signature_Inr check_issuer_is_ca_Inr)

text \<open>The key of a chain that leads to NVIDIA: every certificate is valid, each is issued by the
  next, and the last one's key is pinned.\<close>

definition nvidia_key :: "('k, 's) jws_lib \<Rightarrow> string list \<Rightarrow> int \<Rightarrow> 'k \<Rightarrow> bool" where
  "nvidia_key L chain now key \<longleftrightarrow>
     (\<exists>certs top_spki leaf_spki. certs \<noteq> [] \<and> traverse (x5c_decode L) chain = Inr certs
        \<and> (\<forall>c \<in> set certs. int (xc_not_before c) \<le> now \<and> now \<le> int (xc_not_after c))
        \<and> (\<forall>i. Suc i < length certs \<longrightarrow> x5c_issued L (certs ! i) (certs ! Suc i) i)
        \<and> xc_spki (last certs) = Some top_spki
        \<and> hex_encode (jl_hex L) (sha256 (jl_hash L) top_spki) \<in> set NRAS_TRUSTED_SPKI_SHA256
        \<and> xc_spki (hd certs) = Some leaf_spki \<and> sl_key (jl_p384 L) leaf_spki = Some key)"

lemma x5c_in_validity_Inr:
  "x5c_in_validity now c = Inr () \<Longrightarrow> int (xc_not_before c) \<le> now \<and> now \<le> int (xc_not_after c)"
  by (auto simp: x5c_in_validity_def split: if_splits)

lemma verify_x5c_chain_Inr:
  assumes "verify_x5c_chain L chain (Some now) = Inr key" "length chain \<le> 2 ^ 32"
  shows "nvidia_key L chain now key"
proof -
  from assms(1) obtain certs top_spki leaf_spki where ne: "chain \<noteq> []"
    and t: "traverse (x5c_decode L) chain = Inr certs"
    and v: "check_each (x5c_in_validity now) certs = Inr ()"
    and l: "check_each (x5c_link L certs) [0..<length certs - 1] = Inr ()"
    and top: "xc_spki (certs ! (length certs - 1)) = Some top_spki"
      "hex_encode (jl_hex L) (sha256 (jl_hash L) top_spki) \<in> set NRAS_TRUSTED_SPKI_SHA256"
    and leaf: "xc_spki (certs ! 0) = Some leaf_spki" "sl_key (jl_p384 L) leaf_spki = Some key"
    unfolding verify_x5c_chain_def
    by (auto simp: and_then_Inr_iff ok_or_Inr_iff at_index_Inr_iff Let_def split: if_splits)
  have len: "length certs = length chain" using length_traverse [OF t] by simp
  with ne have c: "certs \<noteq> []" by auto
  have "x5c_issued L (certs ! i) (certs ! Suc i) i" if "Suc i < length certs" for i
  proof -
    from that l have "x5c_link L certs i = Inr ()" by (simp add: check_each_Inr_iff)
    moreover have "i < 2 ^ 32" using that len assms(2) by linarith
    ultimately show ?thesis using x5c_link_Inr by blast
  qed
  moreover have "\<forall>c \<in> set certs. int (xc_not_before c) \<le> now \<and> now \<le> int (xc_not_after c)"
    using v x5c_in_validity_Inr by (auto simp: check_each_Inr_iff)
  ultimately show ?thesis
    using c t top leaf unfolding nvidia_key_def by (auto simp: last_conv_nth hd_conv_nth)
qed

text \<open>A token NVIDIA signed, with its claims, at a time its claims allow.\<close>

definition in_time :: "(string \<Rightarrow> rat) \<Rightarrow> json \<Rightarrow> int \<Rightarrow> bool" where
  "in_time parse cl now \<longleftrightarrow>
     (\<exists>exp. Option.bind (json_get ''exp'' cl) (as_f64 parse) = Some exp \<and> now \<le> sat_i64 \<lfloor>exp\<rfloor>)
     \<and> (\<forall>nbf. json_get ''nbf'' cl = Some nbf \<longrightarrow> (\<exists>t. as_f64 parse nbf = Some t \<and> sat_i64 \<lceil>t\<rceil> \<le> now))"

definition nvidia_signed :: "('k, 's) jws_lib \<Rightarrow> jwks \<Rightarrow> int \<Rightarrow> string \<Rightarrow> json \<Rightarrow> bool" where
  "nvidia_signed L ks now token cl \<longleftrightarrow>
     (\<exists>h p sg header_bytes header entry chain key sig_bytes sig payload.
        split_on (CHR ''.'') token = [h, p, sg]
        \<and> jl_b64url L h = Some header_bytes \<and> jl_json L header_bytes = Some header \<and> get_str ''alg'' header = Some ''ES384''
        \<and> json_get ''crit'' header = None \<and> entry \<in> set (jw_keys ks) \<and> get_str ''kid'' header = Some (jk_kid entry)
        \<and> jk_x5c entry = Some chain \<and> nvidia_key L chain now key
        \<and> jl_b64url L sg = Some sig_bytes \<and> jl_p384_fixed L sig_bytes = Some sig
        \<and> sl_verify (jl_p384 L) key (str_bytes (h @ ''.'' @ p)) sig
        \<and> jl_b64url L p = Some payload \<and> jl_json L payload = Some cl)
     \<and> in_time (jl_f64 L) cl now"

lemma enforce_time_claims_Inr_iff: "enforce_time_claims parse cl now = Inr () \<longleftrightarrow> in_time parse cl now"
  by (auto simp: enforce_time_claims_def in_time_def and_then_Inr_iff ok_or_Inr_iff not_less split: option.splits if_splits)

definition short_chains :: "jwks \<Rightarrow> bool" where
  "short_chains ks \<longleftrightarrow> (\<forall>k \<in> set (jw_keys ks). \<forall>chain. jk_x5c k = Some chain \<longrightarrow> length chain \<le> 2 ^ 32)"

lemma verify_jws_es384_Inr:
  assumes "verify_jws_es384 L token ks now = Inr cl" "short_chains ks"
  shows "nvidia_signed L ks now token cl"
proof -
  from assms(1) obtain h p sg where t: "split_on (CHR ''.'') token = [h, p, sg]"
    by (auto simp: verify_jws_es384_def split: list.splits)
  with assms(1) obtain hb header kid entry key sb sig payload u where
    "jl_b64url L h = Some hb" "jl_json L hb = Some header" "get_str ''alg'' header = Some ''ES384''"
    "json_get ''crit'' header = None" "get_str ''kid'' header = Some kid"
    and f: "find (\<lambda>k. jk_kid k = kid) (jw_keys ks) = Some entry"
    and k: "es384_key L entry (Some now) = Inr key"
    and "jl_b64url L sg = Some sb" "jl_p384_fixed L sb = Some sig"
    "sl_verify (jl_p384 L) key (str_bytes (h @ ''.'' @ p)) sig"
    "jl_b64url L p = Some payload" "jl_json L payload = Some cl" "enforce_time_claims (jl_f64 L) cl now = Inr u"
    unfolding verify_jws_es384_def t list.case
    by (auto simp only: and_then_Inr_iff ok_or_Inr_iff require_Inr_iff if_Inr_iff sum.inject option.inject not_not)
  moreover have e: "entry \<in> set (jw_keys ks)" "jk_kid entry = kid"
    using f by (auto simp: find_Some_iff)
  moreover from k obtain chain where ch: "jk_x5c entry = Some chain" "verify_x5c_chain L chain (Some now) = Inr key"
    by (auto simp: es384_key_def split: option.splits if_splits)
  moreover have "length chain \<le> 2 ^ 32"
    using assms(2) e(1) ch(1) unfolding short_chains_def by blast
  note verify_x5c_chain_Inr [OF ch(2) this]
  moreover from calculation have "get_str ''kid'' header = Some (jk_kid entry)" "in_time (jl_f64 L) cl now"
    by (simp_all add: enforce_time_claims_Inr_iff)
  moreover note t
  ultimately show ?thesis
    unfolding nvidia_signed_def by (intro exI conjI) assumption+
qed

end
