(* ===== verification/Nvidia.thy ===== *)
theory Nvidia
  imports Jws
begin

text \<open>
  \<open>crates/attestation/src/collateral/nvidia.rs\<close>, the piece kind of NRAS's key set, and
  \<open>jwks_url_for_endpoint\<close> of \<open>platforms/nvidia_gpu/provider.rs\<close>.
\<close>

definition jwks_url_for_endpoint :: "string \<Rightarrow> string res" where
  "jwks_url_for_endpoint endpoint =
     and_then (ok_or (JwksFetch ''invalid NRAS URL'') (split_once_str ''://'' endpoint)) (\<lambda>(scheme, rest).
     and_then (ok_or (JwksFetch ''invalid NRAS URL'') (get_index (split_on (CHR ''/'') rest) 0)) (\<lambda>host.
     Inr (scheme @ ''://'' @ host @ ''/.well-known/jwks.json'')))"

record nras_jwks =
  nj_jwks :: jwks

definition nras_jwks_verify :: "('k, 's) jws_lib \<Rightarrow> bytes \<Rightarrow> string option \<Rightarrow> string \<Rightarrow> nras_jwks res" where
  "nras_jwks_verify L js _ _ =
     and_then (ok_or (refused ''JWKS'') (jl_jwks L js)) (\<lambda>ks.
     if \<not> list_ex (\<lambda>key. is_ok (es384_key L key None)) (jw_keys ks)
     then Inl (refused ''JWKS has no key under the NVIDIA anchor'')
     else Inr \<lparr>nj_jwks = ks\<rparr>)"

definition nras_jwks_kind :: "('k, 's) jws_lib \<Rightarrow> (string, nras_jwks) kind" where
  "nras_jwks_kind L =
     \<lparr>named_by_evidence = False, piece_name = (\<lambda>_. ''nras-jwks''), piece_url = (\<lambda>url. url),
      piece_verify = nras_jwks_verify L, piece_dates = (\<lambda>_. no_dates), piece_floor = (\<lambda>_ _. None)\<rparr>"

section \<open>Lemmas\<close>

lemma nras_jwks_kind_simps [simp]:
  "piece_verify (nras_jwks_kind L) = nras_jwks_verify L" "piece_url (nras_jwks_kind L) url = url"
  by (simp_all add: nras_jwks_kind_def)

lemma nras_jwks_verify_Inr:
  "nras_jwks_verify L js c u = Inr p \<Longrightarrow> jl_jwks L js = Some (nj_jwks p)
     \<and> (\<exists>key \<in> set (jw_keys (nj_jwks p)). \<exists>k. es384_key L key None = Inr k)"
  by (auto simp: nras_jwks_verify_def and_then_Inr_iff ok_or_Inr_iff list_ex_iff is_ok_iff split: if_splits)

text \<open>The key set is looked for on the host of the endpoint.\<close>

lemma jwks_url_for_endpoint_host:
  assumes "CHR ''/'' \<notin> set host" "scheme \<in> {''https'', ''http''}"
  shows "jwks_url_for_endpoint (scheme @ ''://'' @ host @ CHR ''/'' # path) =
    Inr (scheme @ ''://'' @ host @ ''/.well-known/jwks.json'')"
proof -
  have "split_on (CHR ''/'') (host @ CHR ''/'' # path) = host # split_on (CHR ''/'') path"
    using assms(1) by (induction host) auto
  moreover have "split_once_str ''://'' (scheme @ ''://'' @ r) = Some (scheme, r)" for r
    using assms(2) by auto
  ultimately show ?thesis by (simp add: jwks_url_for_endpoint_def get_index_def del: split_once_str.simps)
qed

end
