(* ===== verification/Gpu.thy ===== *)
theory Gpu
  imports Nvidia
begin

text \<open>
  \<open>crates/attestation/src/platforms/nvidia_gpu/verify.rs\<close> and the nonces of its \<open>mod.rs\<close>:
  gathering NRAS's answers for a bundle, and judging them. NRAS's configuration belongs to
  the vendor of the store; it is a field of the environment here, read only when the store
  has a vendor.
\<close>

section \<open>Nonces\<close>

definition MIN_GPU_USER_NONCE_LEN :: nat where "MIN_GPU_USER_NONCE_LEN = 16"

definition check_user_nonce_len :: "bytes \<Rightarrow> unit res" where
  "check_user_nonce_len user_nonce =
     (if length user_nonce < MIN_GPU_USER_NONCE_LEN then Inl (NvidiaGpuNonceTooShort (length user_nonce))
      else Inr ())"

definition GPU_DOMAIN_TAG :: bytes where "GPU_DOMAIN_TAG = str_bytes ''NVIDIA-GPU-EAT-v1''"
definition SWITCH_DOMAIN_TAG :: bytes where "SWITCH_DOMAIN_TAG = str_bytes ''NVIDIA-SWITCH-EAT-v1''"

fun derive_nonce :: "hash_lib \<Rightarrow> bytes \<Rightarrow> bytes \<Rightarrow> gpu_binding \<Rightarrow> bytes" where
  "derive_nonce h user_nonce domain_tag (Concat Sha256) = sha256 h (user_nonce @ domain_tag)"

definition gpu_nonce :: "hash_lib \<Rightarrow> bytes \<Rightarrow> gpu_binding \<Rightarrow> bytes" where
  "gpu_nonce h user_nonce binding = derive_nonce h user_nonce GPU_DOMAIN_TAG binding"

definition switch_nonce :: "hash_lib \<Rightarrow> bytes \<Rightarrow> gpu_binding \<Rightarrow> bytes" where
  "switch_nonce h user_nonce binding = derive_nonce h user_nonce SWITCH_DOMAIN_TAG binding"

fun arch_nonce :: "hash_lib \<Rightarrow> gpu_arch \<Rightarrow> bytes \<Rightarrow> gpu_bundle \<Rightarrow> bytes" where
  "arch_nonce h Ls10 user_nonce bundle = switch_nonce h user_nonce (gb_binding bundle)"
| "arch_nonce h _ user_nonce bundle = gpu_nonce h user_nonce (gb_binding bundle)"

section \<open>Preconditions and groups\<close>

definition MAX_GPU_DEVICES :: nat where "MAX_GPU_DEVICES = 32"

definition check_preconditions :: "gpu_bundle \<Rightarrow> gpu_params \<Rightarrow> bytes res" where
  "check_preconditions bundle params =
     (if gb_devices bundle = [] then Inl NvidiaGpuBundleEmpty
      else if length (gb_devices bundle) > MAX_GPU_DEVICES
      then Inl (NvidiaGpuTooManyDevices (length (gb_devices bundle)) MAX_GPU_DEVICES)
      else
      and_then (ok_or NvidiaGpuUserNonceMissing (gp_user_nonce params)) (\<lambda>user_nonce.
      and_then (check_user_nonce_len user_nonce) (\<lambda>_.
      let bindings = (case gp_allowed_bindings params of Some a \<Rightarrow> a | None \<Rightarrow> [default_binding]) in
      if bindings = [] then Inl (InvalidParams ''allowed_bindings: the allowed set is empty'')
      else if gb_binding bundle \<notin> set bindings then Inl NvidiaGpuBindingNotAllowed
      else Inr user_nonce)))"

text \<open>\<open>by_arch.entry(arch).or_default().push(dev)\<close>, over a map ordered by architecture.\<close>

definition push_device :: "(gpu_arch \<times> gpu_device list) list \<Rightarrow> gpu_device \<Rightarrow> (gpu_arch \<times> gpu_device list) list" where
  "push_device by_arch dev =
     (let devs = (case map_of by_arch (gd_arch dev) of Some ds \<Rightarrow> ds | None \<Rightarrow> [])
      in bt_insert (gd_arch dev) (devs @ [dev]) by_arch)"

definition group_by_arch :: "gpu_bundle \<Rightarrow> (gpu_arch \<times> gpu_device list) list" where
  "group_by_arch bundle = foldl push_device [] (gb_devices bundle)"

section \<open>Gathering\<close>

record gpu_set =
  gs_nras :: "(gpu_arch \<times> json) list"
  gs_jwks :: nras_jwks

record ('k, 's, 'w) gpu_env =
  ge_lib :: "('k, 's) jws_lib"
  ge_store :: "'w store_env"
  ge_nras :: nras

definition the_vendor :: "store \<Rightarrow> vendor option" where
  "the_vendor s = Option.bind (st_native s) nv_vendor"

definition nras_jwks_url :: "nras \<Rightarrow> store \<Rightarrow> string res" where
  "nras_jwks_url nr s =
     (let url = (case the_vendor s of Some _ \<Rightarrow> gpu_url nr | None \<Rightarrow> NRAS_GPU_URL)
      in map_err (\<lambda>_. InvalidParams ''invalid NRAS URL'') (jwks_url_for_endpoint url))"

definition nras_request_of :: "('k, 's) jws_lib \<Rightarrow> gpu_bundle \<Rightarrow> bytes \<Rightarrow> gpu_arch \<Rightarrow> gpu_device list \<Rightarrow> nras_request" where
  "nras_request_of L bundle user_nonce arch devices =
     \<lparr>nq_nonce = hex_encode (jl_hex L) (arch_nonce (jl_hash L) arch user_nonce bundle),
      nq_evidence_list = map (\<lambda>d. \<lparr>ne_evidence = gd_evidence_b64 d, ne_certificate = gd_cert_chain_b64 d\<rparr>) devices,
      nq_arch = arch, nq_claims_version = ''2.0''\<rparr>"

definition nras_answer_url :: "nras_request \<Rightarrow> string" where
  "nras_answer_url req =
     (case nq_arch req of Ls10 \<Rightarrow> NRAS_SWITCH_URL | _ \<Rightarrow> NRAS_GPU_URL) @ ''#nonce='' @ nq_nonce req"

definition token_expired :: "('k, 's) jws_lib \<Rightarrow> int \<Rightarrow> string \<Rightarrow> bool" where
  "token_expired L now token =
     (case Option.bind (Option.bind (get_index (split_on (CHR ''.'') token) 1) (jl_b64url L)) (jl_json L) of
        None \<Rightarrow> False
      | Some cl \<Rightarrow> \<not> is_ok (enforce_time_claims (jl_f64 L) cl now))"

definition expired :: "('k, 's) jws_lib \<Rightarrow> int \<Rightarrow> bytes \<Rightarrow> bool" where
  "expired L now answer =
     (case Option.bind (jl_json L answer) (\<lambda>v. to_option (split_eat_response v)) of
        None \<Rightarrow> False
      | Some eat \<Rightarrow> list_ex (token_expired L now) (eat_tokens eat))"

definition ask_nras ::
  "('k, 's, 'w) gpu_env \<Rightarrow> nras_request \<Rightarrow> store \<Rightarrow> 'w \<Rightarrow> bytes res \<times> 'w" where
  "ask_nras E req s w = (case the_vendor s of
       Some _ \<Rightarrow> nras_attest (se_fetch (ge_store E)) (ge_nras E) req w
     | None \<Rightarrow> (Inl (into_error offline ''NRAS attestation''), w))"

text \<open>\<open>nras_attest\<close>: the held answer unless a token of it has expired, else a new one.\<close>

definition nras_answer ::
  "('k, 's, 'w) gpu_env \<Rightarrow> nras_request \<Rightarrow> int \<Rightarrow> store \<Rightarrow> 'w \<Rightarrow> json res \<times> store \<times> 'w" where
  "nras_answer E req now s w =
     (let key = nras_answer_url req;
          (body, w) = (case held_body s key of
              Some b \<Rightarrow> if \<not> expired (ge_lib E) now b then (Inr b, w) else ask_nras E req s w
            | None \<Rightarrow> ask_nras E req s w)
      in case and_then body (\<lambda>b. map_sum id (\<lambda>v. (b, v))
                (ok_or (NrasResponseParse ''NRAS answer'') (jl_json (ge_lib E) b))) of
           Inl e \<Rightarrow> (Inl e, s, w)
         | Inr (b, answer) \<Rightarrow> (Inr answer, record_used key b None s, w))"

fun nras_answers ::
  "('k, 's, 'w) gpu_env \<Rightarrow> gpu_bundle \<Rightarrow> bytes \<Rightarrow> int \<Rightarrow> (gpu_arch \<times> gpu_device list) list
     \<Rightarrow> (gpu_arch \<times> json) list \<Rightarrow> store \<Rightarrow> 'w \<Rightarrow> (gpu_arch \<times> json) list res \<times> store \<times> 'w" where
  "nras_answers E bundle user_nonce now [] answers s w = (Inr answers, s, w)"
| "nras_answers E bundle user_nonce now ((arch, devices) # groups) answers s w =
     (case nras_answer E (nras_request_of (ge_lib E) bundle user_nonce arch devices) now s w of
        (Inl e, s, w) \<Rightarrow> (Inl e, s, w)
      | (Inr answer, s, w) \<Rightarrow>
          nras_answers E bundle user_nonce now groups (bt_insert arch answer answers) s w)"

text \<open>Whether the key set has every key a token names.\<close>

definition keys_known :: "('k, 's) jws_lib \<Rightarrow> (gpu_arch \<times> json) list \<Rightarrow> nras_jwks \<Rightarrow> bool" where
  "keys_known L answers ks =
     list_all (\<lambda>(_, response). (case split_eat_response response of
         Inl _ \<Rightarrow> False
       | Inr eat \<Rightarrow>
           list_all (\<lambda>t. is_none_or (\<lambda>kid. list_ex (\<lambda>k. jk_kid k = kid) (jw_keys (nj_jwks ks))) (jwt_kid L t))
             (eat_tokens eat))) answers"

definition gather_keys ::
  "('k, 's, 'w) gpu_env \<Rightarrow> (gpu_arch \<times> json) list \<Rightarrow> string \<Rightarrow> int \<Rightarrow> store \<Rightarrow> 'w
     \<Rightarrow> (nras_jwks \<times> collateral_used) res \<times> store \<times> 'w" where
  "gather_keys E answers url now s w =
     (let k = nras_jwks_kind (ge_lib E) in
      case get (ge_store E) k url now s w of
        (Inl e, s, w) \<Rightarrow> (Inl e, s, w)
      | (Inr (ks, u), s, w) \<Rightarrow>
          if keys_known (ge_lib E) answers ks then (Inr (ks, u), s, w)
          else if cu_from u = Attached
          then (Inl (JwsVerification ''the attached NRAS key set lacks a key the tokens name''), s, w)
          else (case store_refresh (ge_store E) k url now s w of
              (Inl e, s, w) \<Rightarrow> (Inl e, s, w)
            | (Inr _, s, w) \<Rightarrow>
                (case get (ge_store E) k url now s w of
                   (Inl e, s, w) \<Rightarrow> (Inl e, s, w)
                 | (Inr (ks, u), s, w) \<Rightarrow>
                     if keys_known (ge_lib E) answers ks then (Inr (ks, u), s, w)
                     else (Inl (into_error (ua_detail_only ''NRAS signed with a key it has not published yet'')
                             (piece_name k url)), s, w))))"

definition gather_bundle ::
  "('k, 's, 'w) gpu_env \<Rightarrow> gpu_bundle \<Rightarrow> gpu_params \<Rightarrow> int \<Rightarrow> store \<Rightarrow> 'w
     \<Rightarrow> (gpu_set \<times> collateral_used) res \<times> store \<times> 'w" where
  "gather_bundle E bundle params now s w = (case check_preconditions bundle params of
       Inl e \<Rightarrow> (Inl e, s, w)
     | Inr user_nonce \<Rightarrow>
         (case nras_jwks_url (ge_nras E) s of
            Inl e \<Rightarrow> (Inl e, s, w)
          | Inr url \<Rightarrow>
              (case nras_answers E bundle user_nonce now (group_by_arch bundle) [] s w of
                 (Inl e, s, w) \<Rightarrow> (Inl e, s, w)
               | (Inr answers, s, w) \<Rightarrow>
                   (case gather_keys E answers url now s w of
                      (Inl e, s, w) \<Rightarrow> (Inl e, s, w)
                    | (Inr (ks, u), s, w) \<Rightarrow> (Inr (\<lparr>gs_nras = answers, gs_jwks = ks\<rparr>, u), s, w)))))"

text \<open>\<open>jwks\<close> with only the keys the tokens name, for attaching.\<close>

definition keys_used :: "('k, 's) jws_lib \<Rightarrow> bytes \<Rightarrow> gpu_set \<Rightarrow> bytes" where
  "keys_used L body answers =
     (let kids = List.map_filter (jwt_kid L)
            (concat (map eat_tokens (List.map_filter (\<lambda>(_, a). to_option (split_eat_response a)) (gs_nras answers))))
      in case jl_jwks L body of
           None \<Rightarrow> body
         | Some ks \<Rightarrow> jl_jwks_bytes L (ks\<lparr>jw_keys := filter (\<lambda>k. jk_kid k \<in> set kids) (jw_keys ks)\<rparr>))"

section \<open>Device claims\<close>

definition ascii_upper :: "char \<Rightarrow> char" where
  "ascii_upper c = (let n = of_char c :: nat in if 97 \<le> n \<and> n \<le> 122 then char_of (n - 32) else c)"

definition arch_from_hwmodel :: "string \<Rightarrow> gpu_arch option" where
  "arch_from_hwmodel s =
     (let up = map ascii_upper s in
      if contains_str ''HOPPER'' up \<or> strip_prefix ''GH100'' up \<noteq> None then Some Hopper
      else if contains_str ''BLACKWELL'' up \<or> strip_prefix ''GB'' up \<noteq> None then Some Blackwell
      else if contains_str ''LS10'' up \<or> contains_str ''SWITCH'' up then Some Ls10
      else None)"

definition device_claims_from_submodule :: "json \<Rightarrow> gpu_device_claims" where
  "device_claims_from_submodule body =
     \<lparr>gc_arch = Option.bind (get_str ''hwmodel'' body) arch_from_hwmodel,
      gc_ueid = get_str ''ueid'' body, gc_hwmodel = get_str ''hwmodel'' body,
      gc_measres = get_str ''measres'' body, gc_secboot = get_bool ''secboot'' body,
      gc_dbgstat = get_str ''dbgstat'' body,
      gc_driver_version = get_str ''x-nvidia-gpu-driver-version'' body,
      gc_vbios_version = get_str ''x-nvidia-gpu-vbios-version'' body,
      gc_arch_check = get_bool ''x-nvidia-gpu-arch-check'' body,
      gc_nonce_match = get_bool ''x-nvidia-gpu-attestation-report-nonce-match'' body,
      gc_report_signature_verified = get_bool ''x-nvidia-gpu-attestation-report-signature-verified'' body,
      gc_driver_rim_fetched = get_bool ''x-nvidia-gpu-driver-rim-fetched'' body,
      gc_vbios_rim_fetched = get_bool ''x-nvidia-gpu-vbios-rim-fetched'' body, gc_raw = body\<rparr>"

definition device_policy_holds :: "gpu_device_claims \<Rightarrow> gpu_device_policy \<Rightarrow> bool" where
  "device_policy_holds dc policy =
     (\<not> (if \<not> allow_debug policy \<and> gc_dbgstat dc \<noteq> Some ''disabled'' then True
         else if require_secboot policy \<and> gc_secboot dc \<noteq> Some True then True
         else require_measres_success policy \<and> gc_measres dc \<noteq> Some ''success''))"

definition check_device_report_nonce :: "string \<Rightarrow> gpu_device_claims \<Rightarrow> unit res" where
  "check_device_report_nonce name dc =
     (if gc_nonce_match dc = Some True then Inr () else Inl (NvidiaGpuSubmoduleNonceMismatch name))"

definition nonce_is :: "hex_lib \<Rightarrow> json \<Rightarrow> bytes \<Rightarrow> bool" where
  "nonce_is hx cl nonce = (case Option.bind (get_str ''eat_nonce'' cl) (hex_decode hx) of
       None \<Rightarrow> False
     | Some decoded \<Rightarrow> decoded = nonce)"

definition check_submodule_nonce :: "hex_lib \<Rightarrow> string \<Rightarrow> json \<Rightarrow> bytes \<Rightarrow> unit res" where
  "check_submodule_nonce hx name cl nonce =
     (if nonce_is hx cl nonce then Inr () else Inl (NvidiaGpuSubmoduleNonceMismatch name))"

section \<open>Verdicts\<close>

record arch_group =
  ag_overall_ok :: bool
  ag_eat_nonce :: "string option"
  ag_overall_raw :: json
  ag_devices :: "gpu_device_claims list"
  ag_policy_met :: bool

definition verify_submodule ::
  "('k, 's) jws_lib \<Rightarrow> jwks \<Rightarrow> bytes \<Rightarrow> int \<Rightarrow> string \<times> string \<Rightarrow> gpu_device_claims res" where
  "verify_submodule L ks nonce now = (\<lambda>(name, sub_jwt).
     and_then (verify_jws_es384 L sub_jwt ks now) (\<lambda>sub_claims.
     and_then (check_submodule_nonce (jl_hex L) name sub_claims nonce) (\<lambda>_.
     let dc = device_claims_from_submodule sub_claims in
     and_then (check_device_report_nonce name dc) (\<lambda>_.
     Inr dc))))"

definition verify_arch_group ::
  "('k, 's) jws_lib \<Rightarrow> json \<Rightarrow> bytes \<Rightarrow> gpu_params \<Rightarrow> jwks \<Rightarrow> int \<Rightarrow> arch_group res" where
  "verify_arch_group L response nonce params ks now =
     and_then (split_eat_response response) (\<lambda>(overall_jwt, submodule_jwts).
     and_then (verify_jws_es384 L overall_jwt ks now) (\<lambda>overall_claims.
     if \<not> nonce_is (jl_hex L) overall_claims nonce then Inl NvidiaGpuBindingMismatch
     else
     and_then (traverse (verify_submodule L ks nonce now) submodule_jwts) (\<lambda>dcs.
     Inr \<lparr>ag_overall_ok = (get_bool ''x-nvidia-overall-att-result'' overall_claims = Some True),
          ag_eat_nonce = get_str ''eat_nonce'' overall_claims, ag_overall_raw = overall_claims,
          ag_devices = dcs,
          ag_policy_met = foldl (\<lambda>met dc. met \<and> device_policy_holds dc (gp_device_policy params)) True dcs\<rparr>)))"

definition fold_arch_group :: "gpu_claims \<Rightarrow> arch_group \<Rightarrow> gpu_claims" where
  "fold_arch_group agg g =
     agg\<lparr>overall_ok := overall_ok agg \<and> ag_overall_ok g,
         eat_nonce := (if eat_nonce agg = None then ag_eat_nonce g else eat_nonce agg),
         overall_raw := ag_overall_raw g,
         gpu_devices := gpu_devices agg @ ag_devices g\<rparr>"

definition archs_match :: "gpu_claims \<Rightarrow> gpu_arch list \<Rightarrow> bool" where
  "archs_match cl archs =
     list_all (\<lambda>d. case gc_arch d of None \<Rightarrow> False | Some arch \<Rightarrow> arch \<in> set archs) (gpu_devices cl)"

fun verify_groups ::
  "('k, 's) jws_lib \<Rightarrow> gpu_bundle \<Rightarrow> gpu_params \<Rightarrow> gpu_set \<Rightarrow> bytes \<Rightarrow> int \<Rightarrow> gpu_arch list
     \<Rightarrow> gpu_claims \<times> bool \<Rightarrow> (gpu_claims \<times> bool) res" where
  "verify_groups L bundle params c user_nonce now [] st = Inr st"
| "verify_groups L bundle params c user_nonce now (arch # archs) (cl, met) =
     and_then (ok_or (NrasResponseParse ''no NRAS answer'') (map_of (gs_nras c) arch)) (\<lambda>response.
     and_then (verify_arch_group L response (arch_nonce (jl_hash L) arch user_nonce bundle) params
                 (nj_jwks (gs_jwks c)) now) (\<lambda>g.
     verify_groups L bundle params c user_nonce now archs (fold_arch_group cl g, met \<and> ag_policy_met g)))"

definition verify_bundle ::
  "('k, 's) jws_lib \<Rightarrow> gpu_bundle \<Rightarrow> gpu_params \<Rightarrow> gpu_set \<Rightarrow> int \<Rightarrow> gpu_result res" where
  "verify_bundle L bundle params c now =
     and_then (check_preconditions bundle params) (\<lambda>user_nonce.
     and_then (verify_groups L bundle params c user_nonce now (map fst (group_by_arch bundle))
                 (\<lparr>overall_ok = True, eat_nonce = None, gpu_devices = [], overall_raw = JNull\<rparr>, True)) (\<lambda>(cl, met).
     Inr \<lparr>gr_claims = cl,
          archs_allowed = map_option (archs_match cl) (gp_expected_archs params),
          device_count_match = (length (gpu_devices cl) = length (gb_devices bundle)),
          device_policy_met = met\<rparr>))"

section \<open>Lemmas\<close>

lemma check_preconditions_Inr_iff:
  "check_preconditions bundle params = Inr n \<longleftrightarrow>
     0 < length (gb_devices bundle) \<and> length (gb_devices bundle) \<le> 32
     \<and> gp_user_nonce params = Some n \<and> 16 \<le> length n
     \<and> gb_binding bundle \<in> set (case gp_allowed_bindings params of Some a \<Rightarrow> a | None \<Rightarrow> [default_binding])"
  by (auto simp: check_preconditions_def check_user_nonce_len_def MAX_GPU_DEVICES_def MIN_GPU_USER_NONCE_LEN_def
      and_then_Inr_iff ok_or_Inr_iff Let_def not_less split: if_splits)

text \<open>The groups partition the devices by architecture, in the order of the architectures.\<close>

lemma map_of_push_device:
  "map_of (push_device m d) a =
     (if a = gd_arch d then Some ((case map_of m a of Some ds \<Rightarrow> ds | None \<Rightarrow> []) @ [d]) else map_of m a)"
  by (simp add: push_device_def Let_def)

lemma map_of_push_devices:
  "map_of (foldl push_device m ds) a = (let f = filter (\<lambda>d. gd_arch d = a) ds in
      case map_of m a of Some old \<Rightarrow> Some (old @ f) | None \<Rightarrow> if f = [] then None else Some f)"
  by (induction ds arbitrary: m) (auto simp: map_of_push_device Let_def split: option.splits)

lemma bt_sorted_push_devices: "bt_sorted m \<Longrightarrow> bt_sorted (foldl push_device m ds)"
  by (induction ds arbitrary: m) (simp_all add: push_device_def Let_def)

lemma group_by_arch_sorted: "bt_sorted (group_by_arch bundle)"
  by (simp add: group_by_arch_def bt_sorted_push_devices)

lemma map_of_group_by_arch:
  "map_of (group_by_arch bundle) a = (let f = filter (\<lambda>d. gd_arch d = a) (gb_devices bundle) in
     if f = [] then None else Some f)"
  by (simp add: group_by_arch_def map_of_push_devices)

lemma group_by_arch_keys: "set (map fst (group_by_arch bundle)) = gd_arch ` set (gb_devices bundle)"
proof -
  have "a \<in> fst ` set (group_by_arch bundle) \<longleftrightarrow> a \<in> gd_arch ` set (gb_devices bundle)" for a
    using map_of_eq_None_iff [of "group_by_arch bundle" a]
    by (auto simp: map_of_group_by_arch Let_def filter_empty_conv split: if_splits)
  then show ?thesis by auto
qed

text \<open>The answer for one architecture, with every token genuine and bound to the nonce.\<close>

definition submodule_genuine ::
  "('k, 's) jws_lib \<Rightarrow> jwks \<Rightarrow> int \<Rightarrow> bytes \<Rightarrow> string \<Rightarrow> gpu_device_claims \<Rightarrow> bool" where
  "submodule_genuine L ks now nonce token dc \<longleftrightarrow>
     (\<exists>cl. nvidia_signed L ks now token cl \<and> nonce_is (jl_hex L) cl nonce
        \<and> dc = device_claims_from_submodule cl \<and> gc_nonce_match dc = Some True)"

definition group_genuine ::
  "('k, 's) jws_lib \<Rightarrow> jwks \<Rightarrow> int \<Rightarrow> bytes \<Rightarrow> json \<Rightarrow> arch_group \<Rightarrow> bool" where
  "group_genuine L ks now nonce response g \<longleftrightarrow>
     (\<exists>overall subs. split_eat_response response = Inr (overall, subs)
        \<and> nvidia_signed L ks now overall (ag_overall_raw g) \<and> nonce_is (jl_hex L) (ag_overall_raw g) nonce
        \<and> list_all2 (submodule_genuine L ks now nonce) (map snd subs) (ag_devices g))"

lemma verify_submodule_Inr:
  assumes "verify_submodule L ks nonce now sub = Inr dc" "short_chains ks"
  shows "submodule_genuine L ks now nonce (snd sub) dc"
  using assms verify_jws_es384_Inr unfolding submodule_genuine_def
  by (fastforce simp: verify_submodule_def and_then_Inr_iff check_submodule_nonce_def check_device_report_nonce_def Let_def
      split: if_splits prod.splits)

lemma foldl_policy: "foldl (\<lambda>met dc. met \<and> p dc) b ds \<longleftrightarrow> b \<and> (\<forall>d \<in> set ds. p d)"
  by (induction ds arbitrary: b) auto

lemma verify_arch_group_Inr:
  assumes "verify_arch_group L response nonce params ks now = Inr g" "short_chains ks"
  shows "group_genuine L ks now nonce response g"
    and "ag_overall_ok g \<longleftrightarrow> json_get ''x-nvidia-overall-att-result'' (ag_overall_raw g) = Some (JBool True)"
    and "ag_policy_met g \<longleftrightarrow> (\<forall>d \<in> set (ag_devices g). device_policy_holds d (gp_device_policy params))"
proof -
  from assms(1) obtain overall subs cl dcs where e: "split_eat_response response = Inr (overall, subs)"
    and j: "verify_jws_es384 L overall ks now = Inr cl" and n: "nonce_is (jl_hex L) cl nonce"
    and t: "traverse (verify_submodule L ks nonce now) subs = Inr dcs"
    and g: "g = \<lparr>ag_overall_ok = (get_bool ''x-nvidia-overall-att-result'' cl = Some True),
          ag_eat_nonce = get_str ''eat_nonce'' cl, ag_overall_raw = cl, ag_devices = dcs,
          ag_policy_met = foldl (\<lambda>met dc. met \<and> device_policy_holds dc (gp_device_policy params)) True dcs\<rparr>"
    by (auto simp: verify_arch_group_def and_then_Inr_iff split: if_splits)
  have "list_all2 (\<lambda>sub dc. verify_submodule L ks nonce now sub = Inr dc) subs dcs"
    using t by (simp add: traverse_Inr_iff)
  then have "list_all2 (\<lambda>sub. submodule_genuine L ks now nonce (snd sub)) subs dcs"
    by (rule list_all2_mono) (rule verify_submodule_Inr [OF _ assms(2)])
  with e j n assms(2) verify_jws_es384_Inr show "group_genuine L ks now nonce response g"
    unfolding group_genuine_def g by (fastforce simp: list_all2_map1)
  show "ag_overall_ok g \<longleftrightarrow> json_get ''x-nvidia-overall-att-result'' (ag_overall_raw g) = Some (JBool True)"
    "ag_policy_met g \<longleftrightarrow> (\<forall>d \<in> set (ag_devices g). device_policy_holds d (gp_device_policy params))"
    by (simp_all add: g get_bool_Some_iff foldl_policy)
qed

lemma verify_groups_Inr:
  assumes "verify_groups L bundle params c un now archs (cl, met) = Inr (cl', met')"
  shows "\<exists>gs. list_all2 (\<lambda>arch g. \<exists>response. map_of (gs_nras c) arch = Some response
       \<and> verify_arch_group L response (arch_nonce (jl_hash L) arch un bundle) params (nj_jwks (gs_jwks c)) now = Inr g) archs gs
     \<and> cl' = foldl fold_arch_group cl gs \<and> (met' \<longleftrightarrow> met \<and> (\<forall>g \<in> set gs. ag_policy_met g))"
  using assms
proof (induction archs arbitrary: cl met)
  case Nil
  then show ?case by simp
next
  case (Cons a archs)
  then obtain response g where r: "map_of (gs_nras c) a = Some response"
      "verify_arch_group L response (arch_nonce (jl_hash L) a un bundle) params (nj_jwks (gs_jwks c)) now = Inr g"
    and rest: "verify_groups L bundle params c un now archs (fold_arch_group cl g, met \<and> ag_policy_met g) = Inr (cl', met')"
    by (auto simp: and_then_Inr_iff ok_or_Inr_iff)
  from Cons.IH [OF rest] obtain gs where "list_all2 (\<lambda>arch g. \<exists>response. map_of (gs_nras c) arch = Some response
       \<and> verify_arch_group L response (arch_nonce (jl_hash L) arch un bundle) params (nj_jwks (gs_jwks c)) now = Inr g) archs gs"
    "cl' = foldl fold_arch_group (fold_arch_group cl g) gs" "met' \<longleftrightarrow> (met \<and> ag_policy_met g) \<and> (\<forall>g \<in> set gs. ag_policy_met g)"
    by blast
  with r show ?case by (intro exI [of _ "g # gs"]) simp
qed

lemma fold_arch_groups:
  "overall_ok (foldl fold_arch_group cl gs) \<longleftrightarrow> overall_ok cl \<and> (\<forall>g \<in> set gs. ag_overall_ok g)"
  "gpu_devices (foldl fold_arch_group cl gs) = gpu_devices cl @ concat (map ag_devices gs)"
  by (induction gs arbitrary: cl) (simp_all add: fold_arch_group_def conj_assoc)

lemma archs_match_iff:
  "archs_match cl archs \<longleftrightarrow> (\<forall>d \<in> set (gpu_devices cl). \<exists>a \<in> set archs. gc_arch d = Some a)"
  by (auto simp: archs_match_def list_all_iff split: option.splits)

text \<open>A token whose key the set lacks is what \<open>keys_known\<close> looks for.\<close>

lemma es384_key_not_kid: "es384_key L key now \<noteq> Inl (JwksKidNotFound kid)"
proof -
  have link: "x5c_link L certs i \<noteq> Inl (JwksKidNotFound kid)" for certs i
    by (auto simp: x5c_link_def x5c_signature_def check_issuer_is_ca_def and_then_Inl_iff ok_or_Inl_iff require_Inl_iff
        at_index_Inl_iff map_err_def Let_def split: if_splits sum.splits)
  have links: "check_each (x5c_link L certs) is' \<noteq> Inl (JwksKidNotFound kid)" for certs is'
    using link check_each_Inl by metis
  have dec: "traverse (x5c_decode L) chain \<noteq> Inl (JwksKidNotFound kid)" for chain
    by (induction chain) (auto simp: x5c_decode_def and_then_Inl_iff ok_or_Inl_iff)
  have val: "check_each (x5c_in_validity t) certs \<noteq> Inl (JwksKidNotFound kid)" for t certs
    by (induction certs) (auto simp: x5c_in_validity_def and_then_Inl_iff)
  show ?thesis
    by (auto simp: es384_key_def verify_x5c_chain_def and_then_Inl_iff ok_or_Inl_iff at_index_Inl_iff links dec val Let_def
        split: option.splits if_splits)
qed

lemma verify_jws_kid_not_found:
  assumes "verify_jws_es384 L token ks now = Inl (JwksKidNotFound kid)"
  shows "jwt_kid L token = Some kid \<and> kid \<notin> jk_kid ` set (jw_keys ks)"
proof -
  from assms obtain h p sg where t: "split_on (CHR ''.'') token = [h, p, sg]"
    by (auto simp: verify_jws_es384_def split: list.splits)
  have time: "enforce_time_claims f cl now \<noteq> Inl (JwksKidNotFound kid)" for f cl
    by (auto simp: enforce_time_claims_def and_then_Inl_iff ok_or_Inl_iff split: if_splits option.splits)
  from assms obtain hb header where "jl_b64url L h = Some hb" "jl_json L hb = Some header"
    "get_str ''kid'' header = Some kid" and f: "find (\<lambda>k. jk_kid k = kid) (jw_keys ks) = None"
    unfolding verify_jws_es384_def t list.case
    by (auto simp: and_then_Inl_iff ok_or_Inl_iff ok_or_Inr_iff require_Inl_iff es384_key_not_kid time split: if_splits)
  with t show ?thesis by (auto simp: jwt_kid_def get_index_def find_None_iff)
qed

lemma keys_known_verifies:
  assumes "keys_known L answers ks" "map_of answers a = Some response"
  shows "is_ok (split_eat_response response)"
    and "verify_arch_group L response nonce params (nj_jwks ks) now \<noteq> Inl (JwksKidNotFound kid)"
proof -
  from assms(2) have m: "(a, response) \<in> set answers" by (rule map_of_SomeD)
  with assms(1) have k: "case split_eat_response response of
         Inl _ \<Rightarrow> False
       | Inr eat \<Rightarrow>
           list_all (\<lambda>t. is_none_or (\<lambda>kid. list_ex (\<lambda>k. jk_kid k = kid) (jw_keys (nj_jwks ks))) (jwt_kid L t))
             (eat_tokens eat)"
    unfolding keys_known_def list_all_iff by blast
  then show "is_ok (split_eat_response response)"
    by (cases "split_eat_response response") simp_all
  have t: "verify_jws_es384 L token (nj_jwks ks) now \<noteq> Inl (JwksKidNotFound kid)"
    if "split_eat_response response = Inr eat" "token \<in> set (eat_tokens eat)" for eat token
  proof
    assume "verify_jws_es384 L token (nj_jwks ks) now = Inl (JwksKidNotFound kid)"
    then have "jwt_kid L token = Some kid" "kid \<notin> jk_kid ` set (jw_keys (nj_jwks ks))"
      using verify_jws_kid_not_found by blast+
    with k that show False by (fastforce simp: list_all_iff list_ex_iff is_none_or_def)
  qed
  have sub: "verify_submodule L (nj_jwks ks) nonce now sub \<noteq> Inl (JwksKidNotFound kid)"
    if "split_eat_response response = Inr (overall, subs)" "sub \<in> set subs" for overall subs sub
    using t [OF that(1), of "snd sub"] that(2)
    by (cases sub) (force simp: verify_submodule_def eat_tokens_def and_then_Inl_iff check_submodule_nonce_def
        check_device_report_nonce_def Let_def image_iff split: if_splits)
  have split: "split_eat_response response \<noteq> Inl (JwksKidNotFound kid)"
    using \<open>is_ok (split_eat_response response)\<close> by (auto simp: is_ok_iff)
  show "verify_arch_group L response nonce params (nj_jwks ks) now \<noteq> Inl (JwksKidNotFound kid)"
  proof
    assume "verify_arch_group L response nonce params (nj_jwks ks) now = Inl (JwksKidNotFound kid)"
    then obtain overall subs where e: "split_eat_response response = Inr (overall, subs)"
      and "verify_jws_es384 L overall (nj_jwks ks) now = Inl (JwksKidNotFound kid)
        \<or> traverse (verify_submodule L (nj_jwks ks) nonce now) subs = Inl (JwksKidNotFound kid)"
      using split by (auto simp: verify_arch_group_def and_then_Inl_iff split: if_splits)
    then show False
      using t [OF e] sub [OF e] by (auto simp: eat_tokens_def dest!: traverse_Inl)
  qed
qed

lemma verify_groups_kid_not_found:
  assumes "keys_known L (gs_nras c) (gs_jwks c)"
  shows "verify_groups L bundle params c un now archs st \<noteq> Inl (JwksKidNotFound kid)"
proof (induction archs arbitrary: st)
  case Nil
  then show ?case by simp
next
  case (Cons a archs)
  show ?case
    using Cons.IH keys_known_verifies(2) [OF assms]
    by (cases st) (auto simp: and_then_Inl_iff ok_or_Inl_iff ok_or_Inr_iff)
qed

text \<open>Where the answers come from.\<close>

lemma held_body_record_used [simp]: "held_body (record_used u b ch s) = held_body s"
  by (auto simp: record_used_def held_body_def fun_eq_iff split: option.splits)

definition answer_for ::
  "('k, 's, 'w) gpu_env \<Rightarrow> gpu_bundle \<Rightarrow> bytes \<Rightarrow> int \<Rightarrow> store \<Rightarrow> gpu_arch \<Rightarrow> gpu_device list \<Rightarrow> json \<Rightarrow> bool" where
  "answer_for E bundle un now s arch devices answer \<longleftrightarrow>
     (let req = nras_request_of (ge_lib E) bundle un arch devices in
      \<exists>body. jl_json (ge_lib E) body = Some answer
        \<and> (held_body s (nras_answer_url req) = Some body \<and> \<not> expired (ge_lib E) now body
           \<or> (\<exists>s' w. fst (ask_nras E req s' w) = Inr body)))"

lemma nras_answer_Inr:
  assumes "nras_answer E req now s w = (Inr answer, s', w')"
  shows "held_body s' = held_body s \<and> (\<exists>body. jl_json (ge_lib E) body = Some answer
    \<and> (held_body s (nras_answer_url req) = Some body \<and> \<not> expired (ge_lib E) now body
       \<or> (\<exists>s' w. fst (ask_nras E req s' w) = Inr body)))"
proof -
  let ?key = "nras_answer_url req" and ?L = "ge_lib E"
  obtain body w1 where b: "(case held_body s ?key of
      Some b \<Rightarrow> if \<not> expired ?L now b then (Inr b, w) else ask_nras E req s w
    | None \<Rightarrow> ask_nras E req s w) = (body, w1)"
    by (rule prod.exhaust)
  with assms have m: "(case and_then body (\<lambda>b. map_sum id (\<lambda>v. (b, v))
        (ok_or (NrasResponseParse ''NRAS answer'') (jl_json ?L b))) of
      Inl e \<Rightarrow> (Inl e, s, w1) | Inr (b, answer) \<Rightarrow> (Inr answer, record_used ?key b None s, w1)) = (Inr answer, s', w')"
    by (simp only: nras_answer_def Let_def case_prod_conv)
  then obtain bs where bs: "body = Inr bs" by (cases body) simp_all
  with m have bs: "body = Inr bs" "jl_json ?L bs = Some answer" "s' = record_used ?key bs None s"
    by (cases "jl_json ?L bs"; simp)+
  have "held_body s ?key = Some bs \<and> \<not> expired ?L now bs \<or> fst (ask_nras E req s w) = Inr bs"
    using b bs(1) by (auto split: option.splits if_splits)
  with bs show ?thesis by auto
qed

lemma nras_answers_Inr:
  assumes "nras_answers E bundle un now groups answers s w = (Inr answers', s', w')" "distinct (map fst groups)"
  shows "held_body s' = held_body s
    \<and> (\<forall>a ds. (a, ds) \<in> set groups \<longrightarrow> (\<exists>answer. map_of answers' a = Some answer \<and> answer_for E bundle un now s a ds answer))
    \<and> (\<forall>a. a \<notin> fst ` set groups \<longrightarrow> map_of answers' a = map_of answers a)"
  using assms
proof (induction groups arbitrary: answers s w)
  case Nil
  then show ?case by simp
next
  case (Cons g groups)
  obtain a ds where g: "g = (a, ds)" by (cases g)
  obtain r s1 w1 where n: "nras_answer E (nras_request_of (ge_lib E) bundle un a ds) now s w = (r, s1, w1)"
    by (metis prod.collapse)
  with Cons.prems g obtain answer where r: "r = Inr answer"
    and rest: "nras_answers E bundle un now groups (bt_insert a answer answers) s1 w1 = (Inr answers', s', w')"
    by (auto split: sum.splits)
  note h = nras_answer_Inr [OF n [unfolded r]]
  have for': "answer_for E bundle un now s a ds answer"
    using h by (simp add: answer_for_def Let_def)
  have same: "answer_for E bundle un now s1 = answer_for E bundle un now s"
    using h by (simp add: answer_for_def Let_def fun_eq_iff)
  have d: "distinct (map fst groups)" "a \<notin> fst ` set groups" using Cons.prems(2) g by auto
  note ih = Cons.IH [OF rest d(1)]
  from ih d(2) have "map_of answers' a = Some answer" by simp
  moreover have "held_body s' = held_body s" using ih h by simp
  ultimately show ?case
    using ih for' same g by auto
qed

lemma gather_keys_Inr:
  assumes "gather_keys E answers url now s w = (Inr (ks, u), s', w')"
  shows "keys_known (ge_lib E) answers ks"
  using assms by (auto simp: gather_keys_def Let_def split: prod.splits sum.splits if_splits)

end
