(* ===== verification/GpuProps.thy ===== *)
theory GpuProps
  imports Gpu TdxToy
begin

text \<open>
  The properties of GPU verification: what a passing verdict means, and that a gathered
  set is complete for the bundle it was gathered for.
\<close>

section \<open>A small instance\<close>

definition toy_scheme :: "(unit, unit) sig_lib" where
  "toy_scheme = \<lparr>sl_key = (\<lambda>_. Some ()), sl_sig = (\<lambda>_. Some ()), sl_verify = (\<lambda>_ _ _. True)\<rparr>"

definition toy_gpu_claims :: json where
  "toy_gpu_claims = JObj [(''eat_nonce'', JStr []), (''exp'', JInt 100), (''x-nvidia-overall-att-result'', JBool True),
     (''x-nvidia-gpu-attestation-report-nonce-match'', JBool True), (''dbgstat'', JStr ''disabled''),
     (''secboot'', JBool True), (''measres'', JStr ''success''), (''hwmodel'', JStr ''GH100'')]"

definition toy_answer :: json where
  "toy_answer = JArr [JArr [JStr ''JWT'', JStr ''h.p.s''], JObj [(''GPU-0'', JStr ''h.p.s'')]]"

definition toy_jws :: "(unit, unit) jws_lib" where
  "toy_jws = \<lparr>jl_b64url = (\<lambda>s. Some (str_bytes s)), jl_b64 = (\<lambda>s. Some (str_bytes s)),
     jl_json = (\<lambda>b. Some (if b = str_bytes ''h'' then JObj [(''alg'', JStr ''ES384''), (''kid'', JStr ''k'')]
       else if b = str_bytes ''p'' then toy_gpu_claims else toy_answer)),
     jl_f64 = (\<lambda>_. 0),
     jl_hex = \<lparr>hex_encode = (\<lambda>_. hd NRAS_TRUSTED_SPKI_SHA256), hex_decode = (\<lambda>_. Some [])\<rparr>,
     jl_hash = \<lparr>sha256 = (\<lambda>_. []), sha384 = id\<rparr>,
     jl_cert = (\<lambda>_. Some \<lparr>xc_not_before = 0, xc_not_after = 100, xc_subject = Some [], xc_issuer = Some [],
       xc_spki = Some [], xc_tbs = Some [], xc_alg = ECDSA_WITH_SHA_384, xc_signature = [], xc_basic = Inr None,
       xc_key_cert_sign = Inr None\<rparr>),
     jl_p384 = toy_scheme, jl_p384_fixed = (\<lambda>_. Some ()), jl_p256 = toy_scheme, jl_rsa_sha256 = toy_scheme,
     jl_rsa_sha384 = toy_scheme,
     jl_jwks = (\<lambda>_. Some \<lparr>jw_keys = [\<lparr>jk_kid = ''k'', jk_kty = ''EC'', jk_alg = None, jk_crv = None, jk_x = None,
       jk_y = None, jk_x5c = Some [''c'']\<rparr>]\<rparr>),
     jl_jwks_bytes = (\<lambda>_. [])\<rparr>"

definition toy_jwks_set :: jwks where
  "toy_jwks_set = the (jl_jwks toy_jws [])"

definition toy_bundle :: gpu_bundle where
  "toy_bundle = \<lparr>gb_devices = [\<lparr>gd_arch = Hopper, gd_uuid = [], gd_evidence_b64 = [], gd_cert_chain_b64 = []\<rparr>],
     gb_binding = default_binding\<rparr>"

definition toy_gpu_params :: gpu_params where
  "toy_gpu_params = default_gpu_params\<lparr>gp_user_nonce := Some (replicate 16 0), gp_expected_archs := Some [Hopper]\<rparr>"

definition toy_gpu_set :: gpu_set where
  "toy_gpu_set = \<lparr>gs_nras = [(Hopper, toy_answer)], gs_jwks = \<lparr>nj_jwks = toy_jwks_set\<rparr>\<rparr>"

lemma toy_jws_verifies: "verify_jws_es384 toy_jws ''h.p.s'' toy_jwks_set 50 = Inr toy_gpu_claims"
proof -
  have s: "split_on (CHR ''.'') ''h.p.s'' = [''h'', ''p'', ''s'']" by simp
  have k: "es384_key toy_jws (hd (jw_keys toy_jwks_set)) (Some 50) = Inr ()"
    by (simp add: es384_key_def verify_x5c_chain_def x5c_decode_def x5c_in_validity_def toy_jws_def toy_jwks_set_def
        toy_scheme_def at_index_def get_index_def NRAS_TRUSTED_SPKI_SHA256_def)
  have t: "enforce_time_claims f toy_gpu_claims 50 = Inr ()" for f
    by (simp add: enforce_time_claims_def toy_gpu_claims_def f64_of_int_exact sat_i64_def I64_MAX_def)
  show ?thesis
    using k t by (simp add: verify_jws_es384_def s toy_jwks_set_def get_str_def) (simp add: toy_jws_def toy_scheme_def get_str_def)
qed

lemma toy_short: "short_chains toy_jwks_set"
  by (simp add: short_chains_def toy_jwks_set_def toy_jws_def)

lemma toy_groups: "group_by_arch toy_bundle = [(Hopper, gb_devices toy_bundle)]"
  by (simp add: group_by_arch_def toy_bundle_def push_device_def)

lemma toy_preconditions: "check_preconditions toy_bundle toy_gpu_params = Inr (replicate 16 0)"
  by (simp add: check_preconditions_Inr_iff toy_bundle_def toy_gpu_params_def default_gpu_params_def)

lemma toy_split: "split_eat_response toy_answer = Inr (''h.p.s'', [(''GPU-0'', ''h.p.s'')])"
  by (simp add: split_eat_response_def toy_answer_def get_index_def submodule_token_def)

lemma toy_device: "device_claims_from_submodule toy_gpu_claims = dc \<Longrightarrow>
    gc_nonce_match dc = Some True \<and> gc_arch dc = Some Hopper \<and> device_policy_holds dc default_device_policy"
proof -
  have "arch_from_hwmodel ''GH100'' = Some Hopper" by code_simp
  then show "device_claims_from_submodule toy_gpu_claims = dc \<Longrightarrow> ?thesis"
    by (auto simp: device_claims_from_submodule_def toy_gpu_claims_def get_str_def get_bool_def
        device_policy_holds_def default_device_policy_def)
qed

lemma toy_bundle_verifies: "\<exists>res. verify_bundle toy_jws toy_bundle toy_gpu_params toy_gpu_set 50 = Inr res"
proof -
  have n: "nonce_is (jl_hex toy_jws) toy_gpu_claims (gpu_nonce (jl_hash toy_jws) un (gb_binding toy_bundle))" for un
    by (simp add: nonce_is_def toy_jws_def toy_gpu_claims_def get_str_def gpu_nonce_def toy_bundle_def default_binding_def)
  let ?dc = "device_claims_from_submodule toy_gpu_claims"
  have "verify_submodule toy_jws toy_jwks_set (arch_nonce (jl_hash toy_jws) Hopper un toy_bundle) 50 (''GPU-0'', ''h.p.s'') = Inr ?dc"
    for un
    using toy_device [OF refl] by (simp add: verify_submodule_def toy_jws_verifies check_submodule_nonce_def n
        check_device_report_nonce_def)
  then have "\<exists>g. verify_arch_group toy_jws toy_answer (arch_nonce (jl_hash toy_jws) Hopper un toy_bundle) toy_gpu_params toy_jwks_set 50 = Inr g"
    for un
    by (simp add: verify_arch_group_def toy_split toy_jws_verifies n)
  then obtain g where "verify_arch_group toy_jws toy_answer (arch_nonce (jl_hash toy_jws) Hopper (replicate 16 0) toy_bundle)
      toy_gpu_params toy_jwks_set 50 = Inr g"
    by blast
  then show ?thesis
    by (simp add: verify_bundle_def toy_preconditions toy_groups toy_gpu_set_def)
qed

section \<open>Verdicts\<close>

text \<open>C13: A verdict on a GPU bundle is about answers NVIDIA gave for this session: for every
  architecture of the bundle there is an answer whose tokens, overall and per device, are
  signed with a key whose certificates lead to a pinned NVIDIA intermediate, are in time,
  and carry the nonce derived from the user nonce for that architecture; and each device's
  report was made for it. It passes exactly when NRAS's overall results are true, every
  device meets the policy and has an expected architecture, and there are as many devices
  as in the bundle.\<close>

theorem gpu_verdict_meaning:
  assumes "verify_bundle L bundle params c now = Inr res" "short_chains (nj_jwks (gs_jwks c))"
  shows "\<exists>user_nonce gs. check_preconditions bundle params = Inr user_nonce
    \<and> list_all2 (\<lambda>arch g. \<exists>response. map_of (gs_nras c) arch = Some response
        \<and> group_genuine L (nj_jwks (gs_jwks c)) now (arch_nonce (jl_hash L) arch user_nonce bundle) response g)
        (map fst (group_by_arch bundle)) gs
    \<and> set (map fst (group_by_arch bundle)) = gd_arch ` set (gb_devices bundle)
    \<and> gpu_devices (gr_claims res) = concat (map ag_devices gs)
    \<and> (gpu_passed res \<longleftrightarrow>
         (\<forall>g \<in> set gs. json_get ''x-nvidia-overall-att-result'' (ag_overall_raw g) = Some (JBool True))
         \<and> (\<forall>d \<in> set (gpu_devices (gr_claims res)). device_policy_holds d (gp_device_policy params))
         \<and> (\<forall>archs. gp_expected_archs params = Some archs \<longrightarrow>
              (\<forall>d \<in> set (gpu_devices (gr_claims res)). \<exists>a \<in> set archs. gc_arch d = Some a))
         \<and> length (gpu_devices (gr_claims res)) = length (gb_devices bundle))"
proof -
  let ?ks = "nj_jwks (gs_jwks c)"
  from assms(1) obtain un cl met where pre: "check_preconditions bundle params = Inr un"
    and v: "verify_groups L bundle params c un now (map fst (group_by_arch bundle))
        (\<lparr>overall_ok = True, eat_nonce = None, gpu_devices = [], overall_raw = JNull\<rparr>, True) = Inr (cl, met)"
    and res: "res = \<lparr>gr_claims = cl, archs_allowed = map_option (archs_match cl) (gp_expected_archs params),
        device_count_match = (length (gpu_devices cl) = length (gb_devices bundle)), device_policy_met = met\<rparr>"
    by (auto simp: verify_bundle_def and_then_Inr_iff)
  from verify_groups_Inr [OF v] obtain gs where
    l: "list_all2 (\<lambda>arch g. \<exists>response. map_of (gs_nras c) arch = Some response
       \<and> verify_arch_group L response (arch_nonce (jl_hash L) arch un bundle) params ?ks now = Inr g)
       (map fst (group_by_arch bundle)) gs"
    and cl: "cl = foldl fold_arch_group \<lparr>overall_ok = True, eat_nonce = None, gpu_devices = [], overall_raw = JNull\<rparr> gs"
    and met: "met \<longleftrightarrow> (\<forall>g \<in> set gs. ag_policy_met g)"
    by blast
  have g: "list_all2 (\<lambda>arch g. \<exists>response. map_of (gs_nras c) arch = Some response
        \<and> group_genuine L ?ks now (arch_nonce (jl_hash L) arch un bundle) response g) (map fst (group_by_arch bundle)) gs"
    using l by (rule list_all2_mono) (use verify_arch_group_Inr(1) [OF _ assms(2)] in blast)
  have "\<exists>nonce response. verify_arch_group L response nonce params ?ks now = Inr g" if "g \<in> set gs" for g
    using l that by (auto simp: list_all2_conv_all_nth in_set_conv_nth) metis
  have ok: "ag_overall_ok g \<longleftrightarrow> json_get ''x-nvidia-overall-att-result'' (ag_overall_raw g) = Some (JBool True)"
      "ag_policy_met g \<longleftrightarrow> (\<forall>d \<in> set (ag_devices g). device_policy_holds d (gp_device_policy params))" if "g \<in> set gs" for g
    using verify_arch_group_Inr(2,3) [OF _ assms(2)] \<open>g \<in> set gs \<Longrightarrow> \<exists>nonce response. verify_arch_group L response nonce params ?ks now = Inr g\<close> that by blast+
  have d: "gpu_devices cl = concat (map ag_devices gs)"
    by (simp add: cl fold_arch_groups)
  have "gpu_passed res \<longleftrightarrow>
         (\<forall>g \<in> set gs. json_get ''x-nvidia-overall-att-result'' (ag_overall_raw g) = Some (JBool True))
         \<and> (\<forall>d \<in> set (gpu_devices (gr_claims res)). device_policy_holds d (gp_device_policy params))
         \<and> (\<forall>archs. gp_expected_archs params = Some archs \<longrightarrow>
              (\<forall>d \<in> set (gpu_devices (gr_claims res)). \<exists>a \<in> set archs. gc_arch d = Some a))
         \<and> length (gpu_devices (gr_claims res)) = length (gb_devices bundle)"
    by (cases "gp_expected_archs params")
       (auto simp: gpu_passed_def res met cl fold_arch_groups archs_match_iff ok)
  moreover have "gpu_devices (gr_claims res) = concat (map ag_devices gs)" by (simp add: res d)
  ultimately show ?thesis
    by (intro exI [of _ un] exI [of _ gs] conjI pre g group_by_arch_keys)
qed

theorem gpu_verdict_meaning_witness:
  "\<exists>res. verify_bundle toy_jws toy_bundle toy_gpu_params toy_gpu_set 50 = Inr res
     \<and> (gpu_passed res \<longrightarrow> length (gpu_devices (gr_claims res)) = 1)"
proof -
  obtain res where r: "verify_bundle toy_jws toy_bundle toy_gpu_params toy_gpu_set 50 = Inr res"
    using toy_bundle_verifies by blast
  have "short_chains (nj_jwks (gs_jwks toy_gpu_set))" using toy_short by (simp add: toy_gpu_set_def)
  from gpu_verdict_meaning [OF r this] have "gpu_passed res \<longrightarrow> length (gpu_devices (gr_claims res)) = length (gb_devices toy_bundle)"
    by blast
  with r show ?thesis by (simp add: toy_bundle_def)
qed

section \<open>Gathering\<close>

text \<open>C14: What is gathered for a bundle is complete for it: there is an answer for every
  architecture, which was held under the URL of that architecture's nonce with no token
  expired, or was NRAS's reply to the request with that nonce; and the key set has every key
  a token names, so that no verification with the set fails for a missing answer or key.\<close>

theorem gathered_set_is_complete:
  assumes "gather_bundle E bundle params now s w = (Inr (c, u), s', w')"
  shows "\<exists>user_nonce. check_preconditions bundle params = Inr user_nonce
    \<and> (\<forall>arch ds. (arch, ds) \<in> set (group_by_arch bundle) \<longrightarrow>
         (\<exists>answer. map_of (gs_nras c) arch = Some answer \<and> answer_for E bundle user_nonce now s arch ds answer
            \<and> is_ok (split_eat_response answer)))
    \<and> (\<forall>later kid. verify_bundle (ge_lib E) bundle params c later \<noteq> Inl (JwksKidNotFound kid))"
proof -
  from assms obtain un url where pre: "check_preconditions bundle params = Inr un" and "nras_jwks_url (ge_nras E) s = Inr url"
    by (auto simp: gather_bundle_def split: sum.splits)
  obtain r s1 w1 where n1: "nras_answers E bundle un now (group_by_arch bundle) [] s w = (r, s1, w1)" by (metis prod.collapse)
  with assms pre \<open>nras_jwks_url (ge_nras E) s = Inr url\<close> obtain answers where r: "r = Inr answers"
    by (cases r) (simp_all add: gather_bundle_def)
  obtain r2 s2 w2 where n2: "gather_keys E answers url now s1 w1 = (r2, s2, w2)" by (metis prod.collapse)
  with assms pre \<open>nras_jwks_url (ge_nras E) s = Inr url\<close> n1 r obtain ks where
    r2: "r2 = Inr (ks, u)" and c: "c = \<lparr>gs_nras = answers, gs_jwks = ks\<rparr>"
    by (cases r2) (auto simp: gather_bundle_def)
  have known: "keys_known (ge_lib E) answers ks"
    using n2 unfolding r2 by (rule gather_keys_Inr)
  have d: "distinct (map fst (group_by_arch bundle))"
    using group_by_arch_sorted by (rule bt_sorted_distinct)
  have "nras_answers E bundle un now (group_by_arch bundle) [] s w = (Inr answers, s1, w1)" using n1 r by simp
  note answers_for = nras_answers_Inr [OF this d]
  have "verify_bundle (ge_lib E) bundle params c later \<noteq> Inl (JwksKidNotFound kid)" for later and kid
    using verify_groups_kid_not_found [of "ge_lib E" c "bundle" params un later] known
    by (auto simp: verify_bundle_def pre c and_then_Inl_iff)
  moreover have "is_ok (split_eat_response answer)" if "map_of answers arch = Some answer" for arch and answer
    using keys_known_verifies(1) [OF known that] by simp
  moreover have "map_of (gs_nras c) = map_of answers" by (simp add: c)
  ultimately show ?thesis
    by (intro exI [of _ un] conjI pre) (use answers_for in metis)+
qed

definition toy_gpu_env :: "(unit, unit, nat) gpu_env" where
  "toy_gpu_env = \<lparr>ge_lib = toy_jws, ge_store = toy_se,
     ge_nras = \<lparr>gpu_url = NRAS_GPU_URL, switch_url = NRAS_SWITCH_URL, allow_hold_cert = False, service_key = None\<rparr>\<rparr>"

lemma toy_jwks_verifies: "nras_jwks_verify toy_jws b ch u = Inr \<lparr>nj_jwks = toy_jwks_set\<rparr>"
proof -
  have "es384_key toy_jws (hd (jw_keys toy_jwks_set)) None = Inr ()"
    by (simp add: es384_key_def verify_x5c_chain_def x5c_decode_def toy_jws_def toy_jwks_set_def toy_scheme_def
        at_index_def get_index_def NRAS_TRUSTED_SPKI_SHA256_def)
  then show ?thesis
    by (simp add: nras_jwks_verify_def toy_jwks_set_def) (simp add: toy_jws_def)
qed

lemma toy_gathers: "\<exists>u. gather_bundle toy_gpu_env toy_bundle toy_gpu_params 50 toy_store 0 = (Inr (toy_gpu_set, u), toy_store, 0)"
proof -
  have l: "ge_lib toy_gpu_env = toy_jws" "ge_store toy_gpu_env = toy_se" by (simp_all add: toy_gpu_env_def)
  have url: "nras_jwks_url nr toy_store = Inr ''https://nras.attestation.nvidia.com/.well-known/jwks.json''" for nr
    by (simp add: nras_jwks_url_def the_vendor_def toy_store_def held_only_def jwks_url_for_endpoint_def
        NRAS_GPU_URL_def get_index_def)
  have t: "enforce_time_claims f toy_gpu_claims 50 = Inr ()" for f
    by (simp add: enforce_time_claims_def toy_gpu_claims_def f64_of_int_exact sat_i64_def I64_MAX_def)
  have j: "jl_json toy_jws [] = Some toy_answer" by (simp add: toy_jws_def str_bytes_def)
  have e: "\<not> expired toy_jws 50 []"
    by (simp add: expired_def j toy_split eat_tokens_def token_expired_def get_index_def)
       (simp add: toy_jws_def str_bytes_def t)
  have "nras_answer toy_gpu_env req 50 toy_store 0 = (Inr toy_answer, toy_store, 0)" for req
    by (simp add: nras_answer_def held_body_def l e j) (simp add: toy_store_def held_only_def record_used_def l e j)
  then have a: "nras_answers toy_gpu_env toy_bundle un 50 (group_by_arch toy_bundle) [] toy_store 0
      = (Inr [(Hopper, toy_answer)], toy_store, 0)" for un
    by (simp add: toy_groups)
  have k: "keys_known toy_jws [(Hopper, toy_answer)] \<lparr>nj_jwks = toy_jwks_set\<rparr>"
    by (simp add: keys_known_def toy_split eat_tokens_def is_none_or_def jwt_kid_def get_index_def)
       (simp add: toy_jws_def toy_jwks_set_def get_str_def)
  have "\<exists>u. get toy_se (nras_jwks_kind toy_jws) url 50 toy_store 0 = (Inr (\<lparr>nj_jwks = toy_jwks_set\<rparr>, u), toy_store, 0)"
    for url
    by (rule get_held [of _ _ _ "[]"])
       (simp_all add: toy_jwks_verifies toy_store_def held_only_def passes_def acceptable_iff nras_jwks_kind_def no_dates_def is_none_or_def)
  then obtain u where "get toy_se (nras_jwks_kind toy_jws) ''https://nras.attestation.nvidia.com/.well-known/jwks.json'' 50
      toy_store 0 = (Inr (\<lparr>nj_jwks = toy_jwks_set\<rparr>, u), toy_store, 0)"
    by blast
  then show ?thesis
    by (simp add: gather_bundle_def toy_preconditions url a gather_keys_def l k toy_gpu_set_def)
qed

theorem gathered_set_is_complete_witness:
  "\<exists>c u. fst (gather_bundle toy_gpu_env toy_bundle toy_gpu_params 50 toy_store 0) = Inr (c, u)
     \<and> map_of (gs_nras c) Hopper \<noteq> None"
proof -
  obtain c u where g: "gather_bundle toy_gpu_env toy_bundle toy_gpu_params 50 toy_store 0 = (Inr (c, u), toy_store, 0)"
    using toy_gathers by blast
  from gathered_set_is_complete [OF g] have "map_of (gs_nras c) Hopper \<noteq> None"
    by (auto simp: toy_groups)
  with g show ?thesis by auto
qed

end
