(* ===== verification/Policies.thy ===== *)
theory Policies
  imports Azure Google Gpu
begin

text \<open>
  \<open>crates/attestation/src/platform.rs\<close>, below the trait: the platforms a caller accepts
  with their params, and the result of whichever platform the evidence came from, as a build
  with every platform has them.
\<close>

section \<open>Policies\<close>

record policies =
  po_tdx :: "tdx_params option"
  po_snp :: "snp_params option"
  po_az_tdx :: "az_tdx_params option"
  po_az_snp :: "az_snp_params option"
  po_gcp_tdx :: "gcp_tdx_params option"
  po_gcp_snp :: "gcp_snp_params option"
  po_dstack :: "tdx_params option"
  po_gpu :: "gpu_params option"
  po_floors :: version_floors

definition all_policies :: policies where
  "all_policies =
     \<lparr>po_tdx = Some default_tdx_params, po_snp = Some default_snp_params,
      po_az_tdx = Some default_az_tdx_params, po_az_snp = Some default_az_snp_params,
      po_gcp_tdx = Some \<lparr>gtp_tdx = default_tdx_params\<rparr>, po_gcp_snp = Some \<lparr>gsp_snp = default_snp_params\<rparr>,
      po_dstack = Some default_tdx_params, po_gpu = None, po_floors = default_floors\<rparr>"

definition tdx_expects :: "bytes \<Rightarrow> tdx_params \<Rightarrow> tdx_params" where
  "tdx_expects d p = p\<lparr>tp_report_data := Some d\<rparr>"

definition snp_expects :: "bytes \<Rightarrow> snp_params \<Rightarrow> snp_params" where
  "snp_expects d p = p\<lparr>sp_report_data := Some d\<rparr>"

definition with_report_data :: "bytes \<Rightarrow> policies \<Rightarrow> policies" where
  "with_report_data d po =
     po\<lparr>po_tdx := map_option (tdx_expects d) (po_tdx po),
        po_snp := map_option (snp_expects d) (po_snp po),
        po_az_tdx := map_option (\<lambda>p. p\<lparr>atp_tdx := tdx_expects d (atp_tdx p)\<rparr>) (po_az_tdx po),
        po_az_snp := map_option (\<lambda>p. p\<lparr>asp_snp := snp_expects d (asp_snp p)\<rparr>) (po_az_snp po),
        po_gcp_tdx := map_option (\<lambda>p. p\<lparr>gtp_tdx := tdx_expects d (gtp_tdx p)\<rparr>) (po_gcp_tdx po),
        po_gcp_snp := map_option (\<lambda>p. p\<lparr>gsp_snp := snp_expects d (gsp_snp p)\<rparr>) (po_gcp_snp po),
        po_dstack := map_option (tdx_expects d) (po_dstack po)\<rparr>"

fun has_params :: "policies \<Rightarrow> platform_type \<Rightarrow> bool" where
  "has_params po Tdx = (po_tdx po \<noteq> None)"
| "has_params po Snp = (po_snp po \<noteq> None)"
| "has_params po AzTdx = (po_az_tdx po \<noteq> None)"
| "has_params po AzSnp = (po_az_snp po \<noteq> None)"
| "has_params po GcpTdx = (po_gcp_tdx po \<noteq> None)"
| "has_params po GcpSnp = (po_gcp_snp po \<noteq> None)"
| "has_params po Dstack = (po_dstack po \<noteq> None)"

definition check_allowed :: "policies \<Rightarrow> platform_type \<Rightarrow> unit res" where
  "check_allowed po pl =
     (if has_params po pl then Inr () else Inl (PlatformNotAllowed (platform_name pl)))"

definition tdx_params_of :: "policies \<Rightarrow> tdx_params list" where
  "tdx_params_of po = List.map_filter (\<lambda>x. x)
     [po_tdx po, map_option atp_tdx (po_az_tdx po), map_option gtp_tdx (po_gcp_tdx po), po_dstack po]"

definition snp_params_of :: "policies \<Rightarrow> snp_params list" where
  "snp_params_of po = List.map_filter (\<lambda>x. x)
     [po_snp po, map_option asp_snp (po_az_snp po), map_option gsp_snp (po_gcp_snp po)]"

fun report_data :: "policies \<Rightarrow> platform_type \<Rightarrow> bytes option" where
  "report_data po Tdx = Option.bind (po_tdx po) tp_report_data"
| "report_data po Snp = Option.bind (po_snp po) sp_report_data"
| "report_data po AzTdx = Option.bind (po_az_tdx po) (\<lambda>p. tp_report_data (atp_tdx p))"
| "report_data po AzSnp = Option.bind (po_az_snp po) (\<lambda>p. sp_report_data (asp_snp p))"
| "report_data po GcpTdx = Option.bind (po_gcp_tdx po) (\<lambda>p. tp_report_data (gtp_tdx p))"
| "report_data po GcpSnp = Option.bind (po_gcp_snp po) (\<lambda>p. sp_report_data (gsp_snp p))"
| "report_data po Dstack = Option.bind (po_dstack po) tp_report_data"

section \<open>Results\<close>

datatype platform_result =
    TdxRes tdx_result
  | SnpRes snp_result
  | AzTdxRes az_tdx_result
  | AzSnpRes az_snp_result
  | GcpTdxRes gcp_tdx_result
  | GcpSnpRes gcp_snp_result
  | DstackRes dstack_result

fun result_platform :: "platform_result \<Rightarrow> platform_type" where
  "result_platform (TdxRes _) = Tdx"
| "result_platform (SnpRes _) = Snp"
| "result_platform (AzTdxRes _) = AzTdx"
| "result_platform (AzSnpRes _) = AzSnp"
| "result_platform (GcpTdxRes _) = GcpTdx"
| "result_platform (GcpSnpRes _) = GcpSnp"
| "result_platform (DstackRes _) = Dstack"

fun result_claims :: "platform_result \<Rightarrow> claims" where
  "result_claims (TdxRes r) = tr_claims r"
| "result_claims (SnpRes r) = sv_claims r"
| "result_claims (AzTdxRes r) = tr_claims (atr_tdx r)"
| "result_claims (AzSnpRes r) = sv_claims (asr_snp r)"
| "result_claims (GcpTdxRes r) = tr_claims (gtr_tdx r)"
| "result_claims (GcpSnpRes r) = sv_claims (gsr_snp r)"
| "result_claims (DstackRes r) = tr_claims (dr_tdx r)"

fun result_passed :: "platform_result \<Rightarrow> bool" where
  "result_passed (TdxRes r) = tdx_passed r"
| "result_passed (SnpRes r) = snp_passed r"
| "result_passed (AzTdxRes r) = az_tdx_passed r"
| "result_passed (AzSnpRes r) = az_snp_passed r"
| "result_passed (GcpTdxRes r) = gcp_tdx_passed r"
| "result_passed (GcpSnpRes r) = gcp_snp_passed r"
| "result_passed (DstackRes r) = dstack_passed r"

record verified =
  vd_platform :: platform_result
  vd_gpu :: "gpu_result option"
  vd_collateral :: "collateral_used list"

definition passed :: "verified \<Rightarrow> bool" where
  "passed v =
     (if (case vd_gpu v of None \<Rightarrow> False | Some gpu \<Rightarrow> \<not> gpu_passed gpu) then False
      else result_passed (vd_platform v) \<and> list_all acceptable (vd_collateral v))"

section \<open>Lemmas\<close>

lemma passed_iff:
  "passed v \<longleftrightarrow> result_passed (vd_platform v) \<and> (\<forall>g. vd_gpu v = Some g \<longrightarrow> gpu_passed g)
     \<and> (\<forall>u \<in> set (vd_collateral v). acceptable u)"
  by (auto simp: passed_def list_all_iff split: option.splits)

lemma check_allowed_Inr_iff [res_simps]: "check_allowed po pl = Inr () \<longleftrightarrow> has_params po pl"
  by (simp add: check_allowed_def)

text \<open>After \<open>with_report_data\<close>, the platforms accepted are the same ones, and each expects the
  given bytes.\<close>

lemma with_report_data_params: "has_params (with_report_data d po) pl = has_params po pl"
  by (cases pl) (simp_all add: with_report_data_def)

lemma report_data_with:
  "report_data (with_report_data d po) pl = (if has_params po pl then Some d else None)"
  by (cases pl) (auto simp: with_report_data_def tdx_expects_def snp_expects_def bind_eq_None_conv
      split: bind_splits)

lemma all_policies_allowed: "check_allowed all_policies pl = Inr ()"
  by (cases pl) (simp_all add: check_allowed_def all_policies_def)

text \<open>The iterators go over the params of every platform of the family.\<close>

lemma tdx_params_of_report_data:
  "p \<in> set (tdx_params_of (with_report_data d po)) \<Longrightarrow> tp_report_data p = Some d"
  by (auto simp: tdx_params_of_def with_report_data_def tdx_expects_def map_filter_def split: if_splits)

lemma snp_params_of_report_data:
  "p \<in> set (snp_params_of (with_report_data d po)) \<Longrightarrow> sp_report_data p = Some d"
  by (auto simp: snp_params_of_def with_report_data_def snp_expects_def map_filter_def split: if_splits)

text \<open>Whether the result says that the requester's bytes were found.\<close>

fun result_report_data :: "platform_result \<Rightarrow> bool option" where
  "result_report_data (TdxRes r) = tr_report_data_match r"
| "result_report_data (SnpRes r) = sv_report_data_match r"
| "result_report_data (AzTdxRes r) = tr_report_data_match (atr_tdx r)"
| "result_report_data (AzSnpRes r) = sv_report_data_match (asr_snp r)"
| "result_report_data (GcpTdxRes r) = tr_report_data_match (gtr_tdx r)"
| "result_report_data (GcpSnpRes r) = sv_report_data_match (gsr_snp r)"
| "result_report_data (DstackRes r) = tr_report_data_match (dr_tdx r)"

lemma passed_report_data: "result_passed r \<Longrightarrow> result_report_data r \<noteq> Some False"
  by (cases r) (auto simp: tdx_passed_def snp_passed_def az_tdx_passed_def az_snp_passed_def gcp_tdx_passed_def
      gcp_snp_passed_def dstack_passed_def)

lemma tdx_verify_report_data:
  assumes "tdx_verify E ev p c now = Inr r" "tp_report_data p = Some d"
  shows "tr_report_data_match r \<noteq> None"
  by (rule tdx_verify_Inr [OF assms(1)]) (simp add: assms(2))

lemma snp_verify_report_data:
  assumes "snp_verify L ev p c now = Inr res" "sp_report_data p = Some d"
  shows "sv_report_data_match res \<noteq> None"
  using assms(1)
proof (rule snp_verify_Inr)
  fix r gen rev res0
  assume b: "check_report_bindings (evaluate_report (sn_hex L) r p (Some (\<not> rev))) r p = Inr res0"
    and n: "sp_registers p = None \<Longrightarrow> res = res0"
    and m: "\<And>expected. sp_registers p = Some expected \<Longrightarrow> \<exists>caller. sp_report_data p = Some caller
       \<and> check_measurement_registers L res0 (sr_report_data r) (sne_event_log ev) caller expected = Inr res"
  show ?thesis
  proof (cases "sp_registers p")
    case None
    with n b assms(2) show ?thesis by (auto simp: check_report_bindings_def res_simps)
  next
    case (Some expected)
    with m obtain caller where
      "check_measurement_registers L res0 (sr_report_data r) (sne_event_log ev) caller expected = Inr res"
      by blast
    then show ?thesis by (rule check_registers_Inr) simp
  qed
qed

lemma check_report_data_asked: "check_report_data m (Some d) = Inr rd \<Longrightarrow> rd \<noteq> None"
  by (cases "tpm_nonce_matches m d") (auto simp: check_report_data_def split: if_splits)

lemma az_snp_verify_report_data:
  assumes "az_snp_verify L T ev p crl now = Inr res" "sp_report_data (asp_snp p) = Some d"
  shows "sv_report_data_match (asr_snp res) \<noteq> None"
proof -
  from assms(1) obtain v where v: "az_snp_verify_report L T ev p now = Inr v"
    and res: "sv_report_data_match (asr_snp res) = sv_report_data_match (asr_snp (vr_result v))"
    by (auto simp: az_snp_verify_def and_then_Inr_iff Let_def)
  show ?thesis
    unfolding res by (rule az_snp_verify_report_Inr [OF v]) (use assms(2) check_report_data_asked in fastforce)
qed

lemma az_tdx_verify_report_data:
  assumes "az_tdx_verify E T ev p c now = Inr res" "tp_report_data (atp_tdx p) = Some d"
  shows "tr_report_data_match (atr_tdx res) \<noteq> None"
proof -
  from assms(1) obtain d q r1 tdx where v: "az_tdx_verify_evidence (ev_lib E) T ev p now = Inr (d, q, r1)"
    and k: "check_collateral (ev_lib E) (atr_tdx r1) d q (atp_tdx p) c now = Inr tdx"
    and res: "res = r1\<lparr>atr_tdx := tdx\<rparr>"
    by (auto simp: az_tdx_verify_def and_then_Inr_iff)
  have "tr_report_data_match tdx = tr_report_data_match (atr_tdx r1)"
    by (rule check_collateral_Inr [OF k]) simp
  then show ?thesis
    unfolding res by - (rule az_tdx_verify_evidence_Inr [OF v], use assms(2) check_report_data_asked in force)
qed

lemma gcp_snp_verify_report_data:
  assumes "gcp_snp_verify L ev p c now = Inr res" "sp_report_data (gsp_snp p) = Some d"
  shows "sv_report_data_match (gsr_snp res) \<noteq> None"
  by (rule gcp_snp_verify_Inr [OF assms(1)]) (rule snp_verify_report_data [OF _ assms(2)])

lemma gcp_tdx_verify_report_data:
  assumes "gcp_tdx_verify E ev p c now = Inr res" "tp_report_data (gtp_tdx p) = Some d"
  shows "tr_report_data_match (gtr_tdx res) \<noteq> None"
  by (rule gcp_tdx_verify_Inr [OF assms(1)]) (rule tdx_verify_report_data [OF _ assms(2)])

lemma dstack_verify_report_data:
  assumes "dstack_verify E b64 ev p c now = Inr res" "tp_report_data p = Some d"
  shows "tr_report_data_match (dr_tdx res) \<noteq> None"
proof -
  from assms(1) obtain tdx where "tdx_verify E tdx p c now = Inr (dr_tdx res)"
    by (auto simp: dstack_verify_def and_then_Inr_iff)
  then show ?thesis by (rule tdx_verify_report_data [OF _ assms(2)])
qed

end
