(* ===== verification/Context.thy ===== *)
theory Context
  imports StoreInv
begin

text \<open>
  \<open>crates/attestation/src/context.rs\<close>: the collateral store and the evaluation time that
  every verification shares, and the builder. NRAS's configuration is a field of the
  store's vendor in the code; it is kept beside the store here and read only when the
  store has a vendor. The builder runs before any view shares the store, which is when
  \<open>native_mut\<close> has a value.
\<close>

record ctx =
  cx_store :: store
  cx_time :: "int option"
  cx_nras :: nras

definition new_ctx :: "nras \<Rightarrow> ctx" where
  "new_ctx nr = \<lparr>cx_store = new_store False, cx_time = None, cx_nras = nr\<rparr>"

definition offline_ctx :: "nras \<Rightarrow> ctx" where
  "offline_ctx nr = \<lparr>cx_store = new_store True, cx_time = None, cx_nras = nr\<rparr>"

definition with_held :: "held_response list \<Rightarrow> ctx \<Rightarrow> ctx" where
  "with_held responses c =
     c\<lparr>cx_store := foldl (\<lambda>s (url, body, chain). hold url body chain s) (cx_store c) responses\<rparr>"

definition held_ctx :: "nras \<Rightarrow> held_response list \<Rightarrow> ctx" where
  "held_ctx nr responses = with_held responses \<lparr>cx_store = held_only, cx_time = None, cx_nras = nr\<rparr>"

text \<open>\<open>native_mut\<close>, and \<open>native_mut().and_then(|n| n.vendor.as_mut())\<close>.\<close>

definition map_native :: "(native \<Rightarrow> native) \<Rightarrow> ctx \<Rightarrow> ctx" where
  "map_native f c = c\<lparr>cx_store := (cx_store c)\<lparr>st_native := map_option f (st_native (cx_store c))\<rparr>\<rparr>"

definition map_vendor :: "(vendor \<Rightarrow> vendor) \<Rightarrow> ctx \<Rightarrow> ctx" where
  "map_vendor f = map_native (\<lambda>n. n\<lparr>nv_vendor := map_option f (nv_vendor n)\<rparr>)"

definition with_cache_dir :: "files \<Rightarrow> ctx \<Rightarrow> ctx" where
  "with_cache_dir dir = map_native (\<lambda>n. n\<lparr>disk := Some dir\<rparr>)"

definition with_upstream :: "url_parser \<Rightarrow> string \<Rightarrow> ctx \<Rightarrow> ctx res" where
  "with_upstream parse up c =
     and_then (ok_or (InvalidParams ''invalid collateral upstream'') (upstream_parse parse up)) (\<lambda>parsed.
     Inr (map_vendor (\<lambda>v. v\<lparr>vn_upstream := parsed\<rparr>) c))"

definition with_upstream_key :: "string option \<Rightarrow> ctx \<Rightarrow> ctx" where
  "with_upstream_key key = map_vendor (\<lambda>v. v\<lparr>vn_upstream_key := key\<rparr>)"

definition with_vendors :: "ctx \<Rightarrow> ctx" where
  "with_vendors = map_vendor (\<lambda>v. v\<lparr>vn_upstream := Vendors\<rparr>)"

definition with_nras_urls :: "url_parser \<Rightarrow> string \<Rightarrow> string \<Rightarrow> ctx \<Rightarrow> ctx res" where
  "with_nras_urls parse gpu switch c =
     and_then (check_each (\<lambda>url. require (allowed parse url) (InvalidParams ''invalid NRAS URL'')) [gpu, switch]) (\<lambda>_.
     Inr (if Option.bind (st_native (cx_store c)) nv_vendor \<noteq> None
          then c\<lparr>cx_nras := (cx_nras c)\<lparr>gpu_url := gpu, switch_url := switch\<rparr>\<rparr> else c))"

definition at_time :: "int \<Rightarrow> ctx \<Rightarrow> ctx res" where
  "at_time unix_seconds c =
     (if \<not> (-62135596800 \<le> unix_seconds \<and> unix_seconds \<le> 253402300799)
      then Inl (InvalidParams ''evaluation time is out of range'')
      else Inr (c\<lparr>cx_time := Some unix_seconds\<rparr>))"

text \<open>\<open>now\<close>; \<open>utc\<close> is the wall clock.\<close>

definition ctx_now :: "('w \<Rightarrow> int) \<Rightarrow> ctx \<Rightarrow> 'w \<Rightarrow> int" where
  "ctx_now utc c w = (case cx_time c of Some t \<Rightarrow> t | None \<Rightarrow> utc w)"

section \<open>Lemmas\<close>

lemma hold_native: "st_native (foldl (\<lambda>s (url, body, chain). hold url body chain s) s rs) = st_native s"
  by (induction rs arbitrary: s) (auto simp: hold_def)

lemma map_vendor_id: "(\<forall>v. f v = v) \<Longrightarrow> map_vendor f c = c"
  by (cases "st_native (cx_store c)"; cases "Option.bind (st_native (cx_store c)) nv_vendor")
     (simp_all add: map_vendor_def map_native_def option.map_ident_strong)

text \<open>An offline context has no vendor, whatever upstream it is given: it fetches nothing.\<close>

definition no_vendor :: "ctx \<Rightarrow> bool" where
  "no_vendor c \<longleftrightarrow> Option.bind (st_native (cx_store c)) nv_vendor = None"

lemma no_vendor_new: "no_vendor (offline_ctx nr)" "no_vendor (held_ctx nr rs)"
  by (simp_all add: offline_ctx_def no_vendor_def new_store_def new_native_def held_ctx_def with_held_def
      hold_native held_only_def)

lemma no_vendor_kept:
  assumes "no_vendor c"
  shows "map_vendor f c = c" "no_vendor (with_cache_dir dir c)" "no_vendor (with_held rs c)"
    "with_upstream parse up c = Inr c' \<Longrightarrow> c' = c" "with_nras_urls parse g sw c = Inr c' \<Longrightarrow> c' = c"
proof -
  show f: "map_vendor f c = c" for f
    using assms by (cases "st_native (cx_store c)") (auto simp: no_vendor_def map_vendor_def map_native_def)
  show "no_vendor (with_cache_dir dir c)"
    using assms by (cases "st_native (cx_store c)") (simp_all add: no_vendor_def with_cache_dir_def map_native_def)
  show "no_vendor (with_held rs c)"
    using assms by (simp add: no_vendor_def with_held_def hold_native)
  show "with_upstream parse up c = Inr c' \<Longrightarrow> c' = c"
    by (auto simp: with_upstream_def and_then_Inr_iff f)
  show "with_nras_urls parse g sw c = Inr c' \<Longrightarrow> c' = c"
    using assms by (auto simp: with_nras_urls_def and_then_Inr_iff no_vendor_def)
qed

text \<open>The evaluation time is the fixed one, which X.509 can name.\<close>

lemma at_time_now:
  "at_time t c = Inr c' \<Longrightarrow> ctx_now utc c' w = t \<and> -62135596800 \<le> t \<and> t \<le> 253402300799"
  by (auto simp: at_time_def ctx_now_def split: if_splits)

end
