(* ===== verification/Verifier.thy ===== *)
theory Verifier
  imports Policies Context
begin

text \<open>
  The verifier of \<open>crates/attestation/src/lib.rs\<close>: an envelope, the policies it is judged
  by, and the platform and GPU verifications it leads to, over one context. Libraries are
  the fields of one record, from which every platform gets its own.
\<close>

record ('k, 's, 'rk, 'rs, 'key, 'sig, 'grk, 'grs, 'nk, 'ns, 'pem, 'w) libs =
  vf_dcap :: "('k, 's) dcap_lib"
  vf_body :: body_lib
  vf_snp :: "('k, 's, 'rk, 'rs) snp_lib"
  vf_tpm :: "('key, 'sig) tpm_lib"
  vf_gce :: "('grk, 'grs) gce_lib"
  vf_jws :: "('nk, 'ns) jws_lib"
  vf_store :: "'w store_env"
  vf_base64 :: "string \<Rightarrow> bytes option"
  vf_base64_encode :: "bytes \<Rightarrow> string"
  vf_pem :: "'pem pem_lib"
  vf_root :: bytes
  vf_utc :: "'w \<Rightarrow> int"
  vf_envelope :: "bytes \<Rightarrow> evidence option"
  vf_envelope_bytes :: "evidence \<Rightarrow> bytes option"
  vf_tdx_evidence :: "json \<Rightarrow> tdx_evidence option"
  vf_snp_evidence :: "json \<Rightarrow> snp_evidence option"
  vf_az_tdx_evidence :: "json \<Rightarrow> az_tdx_evidence option"
  vf_az_snp_evidence :: "json \<Rightarrow> az_snp_evidence option"
  vf_dstack_evidence :: "json \<Rightarrow> dstack_evidence option"

definition the_tdx_env ::
  "('k, 's, 'rk, 'rs, 'key, 'sig, 'grk, 'grs, 'nk, 'ns, 'pem, 'w) libs \<Rightarrow> ('k, 's, 'w) tdx_env" where
  "the_tdx_env V = \<lparr>ev_lib = vf_dcap V, ev_body = vf_body V, ev_base64 = vf_base64 V, ev_store = vf_store V\<rparr>"

definition the_snp_env ::
  "('k, 's, 'rk, 'rs, 'key, 'sig, 'grk, 'grs, 'nk, 'ns, 'pem, 'w) libs \<Rightarrow> ('k, 's, 'rk, 'rs, 'w) snp_env" where
  "the_snp_env V = \<lparr>en_lib = vf_snp V, en_store = vf_store V\<rparr>"

definition the_gpu_env ::
  "('k, 's, 'rk, 'rs, 'key, 'sig, 'grk, 'grs, 'nk, 'ns, 'pem, 'w) libs \<Rightarrow> nras \<Rightarrow> ('nk, 'ns, 'w) gpu_env" where
  "the_gpu_env V nr = \<lparr>ge_lib = vf_jws V, ge_store = vf_store V, ge_nras = nr\<rparr>"

section \<open>Envelopes\<close>

definition MAX_EVIDENCE_SIZE :: nat where "MAX_EVIDENCE_SIZE = 10 * 1024 * 1024"

definition parse_envelope ::
  "('k, 's, 'rk, 'rs, 'key, 'sig, 'grk, 'grs, 'nk, 'ns, 'pem, 'w) libs \<Rightarrow> bytes \<Rightarrow> evidence res" where
  "parse_envelope V evidence_json =
     (if length evidence_json > MAX_EVIDENCE_SIZE
      then Inl (EvidenceTooLarge (length evidence_json) MAX_EVIDENCE_SIZE)
      else ok_or (EvidenceDeserialize ''envelope'') (vf_envelope V evidence_json))"

section \<open>One platform\<close>

definition map_result ::
  "('r \<Rightarrow> platform_result) \<Rightarrow> ('r \<times> collateral_used list) res \<times> store \<times> 'w
     \<Rightarrow> (platform_result \<times> collateral_used list) res \<times> store \<times> 'w" where
  "map_result f = (\<lambda>(r, s, w). (map_sum id (\<lambda>(r, us). (f r, us)) r, s, w))"

fun verify_platform ::
  "('k, 's, 'rk, 'rs, 'key, 'sig, 'grk, 'grs, 'nk, 'ns, 'pem, 'w) libs \<Rightarrow> platform_type \<Rightarrow> json \<Rightarrow> policies
     \<Rightarrow> int \<Rightarrow> store \<Rightarrow> 'w \<Rightarrow> (platform_result \<times> collateral_used list) res \<times> store \<times> 'w" where
  "verify_platform V Snp ev po now s w =
     map_result SnpRes (run (snp_platform (vf_snp_evidence V) (the_snp_env V)) ev (po_snp po) now s w)"
| "verify_platform V Tdx ev po now s w =
     map_result TdxRes (run (tdx_platform (the_tdx_env V) (vf_tdx_evidence V)) ev (po_tdx po) now s w)"
| "verify_platform V AzSnp ev po now s w =
     map_result AzSnpRes (run (az_snp_platform (vf_az_snp_evidence V) (the_snp_env V) (vf_tpm V)) ev (po_az_snp po) now s w)"
| "verify_platform V AzTdx ev po now s w =
     map_result AzTdxRes (run (az_tdx_platform (vf_az_tdx_evidence V) (the_tdx_env V) (vf_tpm V)) ev (po_az_tdx po) now s w)"
| "verify_platform V GcpSnp ev po now s w =
     map_result GcpSnpRes (run (gcp_snp_platform (vf_snp_evidence V) (the_snp_env V) (vf_gce V)) ev (po_gcp_snp po) now s w)"
| "verify_platform V GcpTdx ev po now s w =
     map_result GcpTdxRes (run (gcp_tdx_platform (vf_tdx_evidence V) (the_tdx_env V) (vf_gce V)) ev (po_gcp_tdx po) now s w)"
| "verify_platform V Dstack ev po now s w =
     map_result DstackRes (run (dstack_platform (vf_dstack_evidence V) (the_tdx_env V) (vf_base64_encode V)) ev
       (po_dstack po) now s w)"

section \<open>The verdict on an envelope\<close>

text \<open>The GPU nonce must be the report data the platform is held to.\<close>

definition check_coupling :: "policies \<Rightarrow> platform_type \<Rightarrow> gpu_params \<Rightarrow> unit res" where
  "check_coupling po pl params = (case gp_user_nonce params of
       None \<Rightarrow> Inr ()
     | Some un \<Rightarrow>
         and_then (ok_or NvidiaGpuReportDataRequired (report_data po pl)) (\<lambda>rd.
         if rd \<noteq> un then Inl (InvalidParams ''the GPU user_nonce differs from the platform report_data'')
         else Inr ()))"

definition check_gpu_rules :: "evidence \<Rightarrow> policies \<Rightarrow> unit res" where
  "check_gpu_rules envelope po = (case (ev_nvidia_gpu envelope, po_gpu po) of
       (Some _, None) \<Rightarrow> Inl (PlatformNotAllowed ''nvidia-gpu'')
     | (None, Some params) \<Rightarrow>
         if gp_required params then Inl NvidiaGpuRequired
         else check_coupling po (ev_platform envelope) params
     | (Some gpus, Some params) \<Rightarrow>
         and_then (check_preconditions gpus params) (\<lambda>_.
         check_coupling po (ev_platform envelope) params)
     | (None, None) \<Rightarrow> Inr ())"

definition verify_envelope ::
  "('k, 's, 'rk, 'rs, 'key, 'sig, 'grk, 'grs, 'nk, 'ns, 'pem, 'w) libs \<Rightarrow> ctx \<Rightarrow> evidence \<Rightarrow> policies
     \<Rightarrow> store \<Rightarrow> 'w \<Rightarrow> verified res \<times> store \<times> 'w" where
  "verify_envelope V c envelope po s w =
     (case and_then (check_allowed po (ev_platform envelope)) (\<lambda>_. check_gpu_rules envelope po) of
        Inl e \<Rightarrow> (Inl e, s, w)
      | Inr _ \<Rightarrow>
          let now = ctx_now (vf_utc V) c w in
          (case verify_platform V (ev_platform envelope) (ev_evidence envelope) po now s w of
             (Inl e, s, w) \<Rightarrow> (Inl e, s, w)
           | (Inr (pr, us), s, w) \<Rightarrow>
               (case (ev_nvidia_gpu envelope, po_gpu po) of
                  (Some gpus, Some params) \<Rightarrow>
                    (case gather_bundle (the_gpu_env V (cx_nras c)) gpus params now s w of
                       (Inl e, s, w) \<Rightarrow> (Inl e, s, w)
                     | (Inr (collateral, u), s, w) \<Rightarrow>
                         (and_then (verify_bundle (vf_jws V) gpus params collateral now) (\<lambda>gpu.
                          Inr \<lparr>vd_platform = pr, vd_gpu = Some gpu, vd_collateral = us @ [u]\<rparr>), s, w))
                | _ \<Rightarrow> (Inr \<lparr>vd_platform = pr, vd_gpu = None, vd_collateral = us\<rparr>, s, w))))"

text \<open>\<open>Verifier::verify\<close>: the view holds what came with the envelope; what it shares with the
  store is what \<open>close_view\<close> keeps.\<close>

definition keep :: "ctx \<Rightarrow> 'a res \<times> store \<times> 'w \<Rightarrow> 'a res \<times> ctx \<times> 'w" where
  "keep c = (\<lambda>(r, s, w). (r, c\<lparr>cx_store := close_view (cx_store c) s\<rparr>, w))"

definition verify ::
  "('k, 's, 'rk, 'rs, 'key, 'sig, 'grk, 'grs, 'nk, 'ns, 'pem, 'w) libs \<Rightarrow> bytes \<Rightarrow> policies \<Rightarrow> ctx \<Rightarrow> 'w
     \<Rightarrow> verified res \<times> ctx \<times> 'w" where
  "verify V evidence_json po c w = (case parse_envelope V evidence_json of
       Inl e \<Rightarrow> (Inl e, c, w)
     | Inr envelope \<Rightarrow>
         keep c (verify_envelope V c envelope po
                   (view (cx_store c) (held_collateral envelope) (po_floors po) False) w))"

section \<open>Attaching collateral\<close>

definition gather ::
  "('k, 's, 'rk, 'rs, 'key, 'sig, 'grk, 'grs, 'nk, 'ns, 'pem, 'w) libs \<Rightarrow> ctx \<Rightarrow> evidence \<Rightarrow> bytes \<Rightarrow> policies
     \<Rightarrow> store \<Rightarrow> 'w \<Rightarrow> held_response list res \<times> store \<times> 'w" where
  "gather V c envelope rd po s w =
     (let now = ctx_now (vf_utc V) c w; E = the_gpu_env V (cx_nras c) in
      case verify_platform V (ev_platform envelope) (ev_evidence envelope) po now s w of
        (Inl e, s, w) \<Rightarrow> (Inl e, s, w)
      | (Inr _, s, w) \<Rightarrow>
          (case ev_nvidia_gpu envelope of
             None \<Rightarrow> (Inr (used s), s, w)
           | Some gpus \<Rightarrow>
               (case gather_bundle E gpus (default_gpu_params\<lparr>gp_user_nonce := Some rd\<rparr>) now s w of
                  (Inl e, s, w) \<Rightarrow> (Inl e, s, w)
                | (Inr (answers, _), s, w) \<Rightarrow>
                    (and_then (nras_jwks_url (cx_nras c) s) (\<lambda>jwks_url.
                     Inr (map (\<lambda>(url, body, chain).
                            if url = jwks_url then (url, keys_used (vf_jws V) body answers, chain)
                            else (url, body, chain)) (used s))), s, w))))"

text \<open>What is attached: all of it, or what was gathered before a vendor was out of reach,
  without NRAS's key set.\<close>

definition attachable :: "nras \<Rightarrow> store \<Rightarrow> held_response list res \<Rightarrow> held_response list res" where
  "attachable nr s gathered = (case gathered of
       Inr us \<Rightarrow> Inr us
     | Inl e \<Rightarrow>
         if is_retryable e
         then (case nras_jwks_url nr s of
                 Inr url \<Rightarrow> Inr (filter (\<lambda>(u, _). u \<noteq> url) (used s))
               | Inl _ \<Rightarrow> Inr (used s))
         else Inl e)"

definition attach_collateral ::
  "('k, 's, 'rk, 'rs, 'key, 'sig, 'grk, 'grs, 'nk, 'ns, 'pem, 'w) libs \<Rightarrow> bytes \<Rightarrow> bytes \<Rightarrow> ctx \<Rightarrow> 'w
     \<Rightarrow> bytes res \<times> ctx \<times> 'w" where
  "attach_collateral V evidence_json rd c w = (case parse_envelope V evidence_json of
       Inl e \<Rightarrow> (Inl e, c, w)
     | Inr envelope \<Rightarrow>
         let (gathered, s, w) = gather V c envelope rd all_policies
               (view (cx_store c) (held_collateral envelope) (po_floors all_policies) True) w
         in keep c (and_then (attachable (cx_nras c) s gathered) (\<lambda>us.
              ok_or (EvidenceDeserialize ''envelope'')
                (vf_envelope_bytes V (attach (vf_pem V) (vf_root V) us envelope))), s, w))"

section \<open>What is asked of a request\<close>

text \<open>The params of the platform are valid; the evidence decodes and is what the platform
  asks for before any fetch; and what a verdict says it is.\<close>

fun params_valid :: "policies \<Rightarrow> platform_type \<Rightarrow> bool" where
  "params_valid po Tdx \<longleftrightarrow> (\<forall>p. po_tdx po = Some p \<longrightarrow> tdx_validate p = Inr ())"
| "params_valid po Snp \<longleftrightarrow> (\<forall>p. po_snp po = Some p \<longrightarrow> snp_validate p = Inr ())"
| "params_valid po AzTdx \<longleftrightarrow> (\<forall>p. po_az_tdx po = Some p \<longrightarrow> az_tdx_validate p = Inr ())"
| "params_valid po AzSnp \<longleftrightarrow> (\<forall>p. po_az_snp po = Some p \<longrightarrow> az_snp_validate p = Inr ())"
| "params_valid po GcpTdx \<longleftrightarrow> (\<forall>p. po_gcp_tdx po = Some p \<longrightarrow> tdx_validate (gtp_tdx p) = Inr ())"
| "params_valid po GcpSnp \<longleftrightarrow> (\<forall>p. po_gcp_snp po = Some p \<longrightarrow> gcp_snp_validate p = Inr ())"
| "params_valid po Dstack \<longleftrightarrow> (\<forall>p. po_dstack po = Some p \<longrightarrow> tdx_validate p = Inr ())"

fun admissible ::
  "('k, 's, 'rk, 'rs, 'key, 'sig, 'grk, 'grs, 'nk, 'ns, 'pem, 'w) libs \<Rightarrow> platform_type \<Rightarrow> json \<Rightarrow> int \<Rightarrow> bool" where
  "admissible V Tdx j now \<longleftrightarrow> (\<exists>ev. vf_tdx_evidence V j = Some ev \<and> tdx_genuine (the_tdx_env V) ev now)"
| "admissible V Snp j now \<longleftrightarrow> (\<exists>ev. vf_snp_evidence V j = Some ev \<and> snp_admissible (vf_snp V) ev now)"
| "admissible V AzTdx j now \<longleftrightarrow>
     (\<exists>ev d q msg ps. vf_az_tdx_evidence V j = Some ev \<and> az_tdx_genuine (vf_dcap V) (vf_tpm V) ev now d q msg ps)"
| "admissible V AzSnp j now \<longleftrightarrow>
     (\<exists>ev r vcek gen msg ps. vf_az_snp_evidence V j = Some ev
        \<and> az_snp_genuine (vf_snp V) (vf_tpm V) ev now r vcek gen msg ps)"
| "admissible V GcpTdx j now \<longleftrightarrow> (\<exists>ev. vf_tdx_evidence V j = Some ev \<and> tdx_genuine (the_tdx_env V) ev now)"
| "admissible V GcpSnp j now \<longleftrightarrow> (\<exists>ev. vf_snp_evidence V j = Some ev \<and> snp_admissible (vf_snp V) ev now)"
| "admissible V Dstack j now \<longleftrightarrow>
     (\<exists>ev. vf_dstack_evidence V j = Some ev \<and> dstack_genuine (the_tdx_env V) (vf_base64_encode V) ev now)"

fun genuine_evidence ::
  "('k, 's, 'rk, 'rs, 'key, 'sig, 'grk, 'grs, 'nk, 'ns, 'pem, 'w) libs \<Rightarrow> platform_type \<Rightarrow> json \<Rightarrow> int \<Rightarrow> bool" where
  "genuine_evidence V Snp j now \<longleftrightarrow> (\<exists>ev vek. vf_snp_evidence V j = Some ev \<and> snp_genuine (vf_snp V) ev vek now)"
| "genuine_evidence V GcpSnp j now \<longleftrightarrow> (\<exists>ev vek. vf_snp_evidence V j = Some ev \<and> snp_genuine (vf_snp V) ev vek now)"
| "genuine_evidence V pl j now \<longleftrightarrow> admissible V pl j now"

section \<open>Lemmas\<close>

lemma the_env_simps [simp]:
  "ev_lib (the_tdx_env V) = vf_dcap V" "en_lib (the_snp_env V) = vf_snp V"
  "ge_lib (the_gpu_env V nr) = vf_jws V" "ge_store (the_gpu_env V nr) = vf_store V"
  by (simp_all add: the_tdx_env_def the_snp_env_def the_gpu_env_def)

lemma platform_decodes [simp]:
  "pf_decode (tdx_platform E dt) = dt" "pf_decode (snp_platform ds F) = ds"
  "pf_decode (az_tdx_platform dat E T) = dat" "pf_decode (az_snp_platform das F T) = das"
  "pf_decode (gcp_tdx_platform dt E G) = dt" "pf_decode (gcp_snp_platform ds F G) = ds"
  "pf_decode (dstack_platform dd E b) = dd"
  by (simp_all add: tdx_platform_def snp_platform_def az_tdx_platform_def az_snp_platform_def gcp_tdx_platform_def
      gcp_snp_platform_def dstack_platform_def)

lemma platform_validates [simp]:
  "pf_validate (tdx_platform E dt) = tdx_validate" "pf_validate (snp_platform ds F) = snp_validate"
  "pf_validate (az_tdx_platform dat E T) = az_tdx_validate" "pf_validate (az_snp_platform das F T) = az_snp_validate"
  "pf_validate (gcp_tdx_platform dt E G) = (\<lambda>p. tdx_validate (gtp_tdx p))"
  "pf_validate (gcp_snp_platform ds F G) = gcp_snp_validate" "pf_validate (dstack_platform dd E b) = tdx_validate"
  by (simp_all add: tdx_platform_def snp_platform_def az_tdx_platform_def az_snp_platform_def gcp_tdx_platform_def
      gcp_snp_platform_def dstack_platform_def)

lemma platform_verifies [simp]:
  "pf_verify (tdx_platform E dt) = tdx_verify E" "pf_verify (snp_platform ds F) = snp_verify (en_lib F)"
  "pf_verify (az_tdx_platform dat E T) = az_tdx_verify E T" "pf_verify (az_snp_platform das F T) = az_snp_verify (en_lib F) T"
  "pf_verify (gcp_tdx_platform dt E G) = gcp_tdx_verify E" "pf_verify (gcp_snp_platform ds F G) = gcp_snp_verify (en_lib F)"
  "pf_verify (dstack_platform dd E b) = dstack_verify E b"
  by (simp_all add: tdx_platform_def snp_platform_def az_tdx_platform_def az_snp_platform_def gcp_tdx_platform_def
      gcp_snp_platform_def dstack_platform_def)

lemma map_result_Inr: "map_result f x = (Inr (pr, us), s', w') \<longleftrightarrow> (\<exists>r. x = (Inr (r, us), s', w') \<and> pr = f r)"
  by (cases x rule: prod_cases3; cases "fst x") (auto simp: map_result_def)

lemma map_result_Inl [simp]: "map_result f (Inl e, s, w) = (Inl e, s, w)"
  by (simp add: map_result_def)

lemma map_result_refused: "\<exists>e. x = (Inl e, s, w) \<and> P e \<Longrightarrow> \<exists>e. map_result f x = (Inl e, s, w) \<and> P e"
  by auto

lemma close_view_view [simp]: "close_view s (view s attached floors recording) = s"
  by (simp add: close_view_def view_def)

lemma keep_view [simp]: "keep c (Inl e, view (cx_store c) a f b, w) = (Inl e, c, w)"
  by (simp add: keep_def)

text \<open>Each platform, through its contract.\<close>

lemma verify_platform_misuse:
  assumes "\<not> has_params po pl \<or> \<not> params_valid po pl"
  shows "\<exists>e. verify_platform V pl j po now s w = (Inl e, s, w) \<and> \<not> is_retryable e"
proof (cases pl)
  case Tdx
  with assms show ?thesis by (simp, intro map_result_refused tdx_code.run_misuse) auto
next
  case Snp
  with assms show ?thesis by (simp, intro map_result_refused snp_code.run_misuse) auto
next
  case AzTdx
  with assms show ?thesis by (simp, intro map_result_refused az_tdx_code.run_misuse) auto
next
  case AzSnp
  with assms show ?thesis by (simp, intro map_result_refused az_snp_code.run_misuse) auto
next
  case GcpTdx
  with assms show ?thesis by (simp, intro map_result_refused gcp_tdx_code.run_misuse) auto
next
  case GcpSnp
  with assms show ?thesis by (simp, intro map_result_refused gcp_snp_code.run_misuse) auto
next
  case Dstack
  with assms show ?thesis by (simp, intro map_result_refused dstack_code.run_misuse) auto
qed

lemma map_result_forged: "\<exists>e. x = (Inl e, s, w) \<Longrightarrow> \<exists>e. map_result f x = (Inl e, s, w)"
  by auto

lemma verify_platform_inadmissible:
  assumes "\<not> admissible V pl j now"
  shows "\<exists>e. verify_platform V pl j po now s w = (Inl e, s, w)"
proof (cases pl)
  case Tdx
  with assms show ?thesis by (simp, intro map_result_forged tdx_code.run_forged) auto
next
  case Snp
  with assms show ?thesis by (simp, intro map_result_forged snp_code.run_forged) auto
next
  case AzTdx
  with assms show ?thesis by (simp, intro map_result_forged az_tdx_code.run_forged) auto
next
  case AzSnp
  with assms show ?thesis by (simp, intro map_result_forged az_snp_code.run_forged) auto
next
  case GcpTdx
  with assms show ?thesis by (simp, intro map_result_forged gcp_tdx_code.run_forged) auto
next
  case GcpSnp
  with assms show ?thesis by (simp, intro map_result_forged gcp_snp_code.run_forged) auto
next
  case Dstack
  with assms show ?thesis by (simp, intro map_result_forged dstack_code.run_forged) auto
qed

lemma verify_platform_verdict:
  assumes "verify_platform V pl j po now s w = (Inr (pr, us), s', w')"
  shows "result_platform pr = pl" "genuine_evidence V pl j now"
    and "report_data po pl = Some d \<Longrightarrow> result_report_data pr \<noteq> None"
proof -
  show "result_platform pr = pl" using assms by (cases pl) (auto simp: map_result_Inr)
  have "admissible V pl j now"
    using assms verify_platform_inadmissible [of V pl j now po s w] by (cases "admissible V pl j now") auto
  then show "genuine_evidence V pl j now"
    using assms by (cases pl) (auto simp: map_result_Inr dest!: snp_code.run_genuine gcp_snp_code.run_genuine)
  show "report_data po pl = Some d \<Longrightarrow> result_report_data pr \<noteq> None"
    using assms
    by (cases pl)
       (auto simp: map_result_Inr bind_eq_Some_conv elim!: run_Inr
          dest: tdx_verify_report_data snp_verify_report_data az_tdx_verify_report_data az_snp_verify_report_data
            gcp_tdx_verify_report_data gcp_snp_verify_report_data dstack_verify_report_data)
qed

end
