(* ===== verification/VerifierProps.thy ===== *)
theory VerifierProps
  imports Verifier CloudProps GpuProps
begin

text \<open>
  The properties of the verifier: what a verdict on an envelope means, whatever its
  platform, and that nothing is fetched for a request that is refused without it.
\<close>

section \<open>Refusals\<close>

lemma check_gpu_rules_not_retryable: "check_gpu_rules env po = Inl e \<Longrightarrow> \<not> is_retryable e"
  by (auto simp: check_gpu_rules_def check_coupling_def check_preconditions_def check_user_nonce_len_def
      is_retryable_def and_then_Inl_iff ok_or_Inl_iff Let_def split: option.splits if_splits)

lemma verify_envelope_rules:
  assumes "\<not> (has_params po (ev_platform env) \<and> check_gpu_rules env po = Inr ())"
  shows "\<exists>e. verify_envelope V c env po s w = (Inl e, s, w) \<and> \<not> is_retryable e"
proof (cases "has_params po (ev_platform env)")
  case True
  with assms obtain e where "check_gpu_rules env po = Inl e" by (cases "check_gpu_rules env po") auto
  with True check_gpu_rules_not_retryable show ?thesis by (auto simp: verify_envelope_def check_allowed_def)
qed (simp add: verify_envelope_def check_allowed_def is_retryable_def)

lemma verify_envelope_platform_refused:
  assumes "verify_platform V (ev_platform env) (ev_evidence env) po (ctx_now (vf_utc V) c w) s w = (Inl e, s, w)"
    and "has_params po (ev_platform env)" "check_gpu_rules env po = Inr ()"
  shows "verify_envelope V c env po s w = (Inl e, s, w)"
  using assms by (simp add: verify_envelope_def check_allowed_def Let_def)

text \<open>C2: A request that is refused for what it says is refused before anything is fetched:
  when no params are given for the platform, the GPU rules do not hold, or params are
  invalid, and when the evidence is not what its platform asks for (not genuine, as far as
  that shows without collateral), the store and the network are left as they were; and a
  refusal is only ever called retryable when the request itself was in order.\<close>

theorem bad_request_fetches_nothing:
  assumes "parse_envelope V b = Inr env"
    and "\<not> (has_params po (ev_platform env) \<and> check_gpu_rules env po = Inr () \<and> params_valid po (ev_platform env)
          \<and> admissible V (ev_platform env) (ev_evidence env) (ctx_now (vf_utc V) c w))"
  shows "\<exists>e. verify V b po c w = (Inl e, c, w)
    \<and> (is_retryable e \<longrightarrow> has_params po (ev_platform env) \<and> check_gpu_rules env po = Inr ()
         \<and> params_valid po (ev_platform env))"
proof (cases "has_params po (ev_platform env) \<and> check_gpu_rules env po = Inr ()")
  case False
  let ?s = "view (cx_store c) (held_collateral env) (po_floors po) False"
  from verify_envelope_rules [OF False, of V c ?s w] obtain e where "verify_envelope V c env po ?s w = (Inl e, ?s, w)"
    and "\<not> is_retryable e" by blast
  with assms(1) show ?thesis by (simp add: verify_def)
next
  case True
  let ?s = "view (cx_store c) (held_collateral env) (po_floors po) False"
  let ?run = "verify_platform V (ev_platform env) (ev_evidence env) po (ctx_now (vf_utc V) c w) ?s w"
  have "\<exists>e. ?run = (Inl e, ?s, w) \<and> (is_retryable e \<longrightarrow> params_valid po (ev_platform env))"
  proof (cases "params_valid po (ev_platform env)")
    case True
    with assms(2) \<open>has_params po (ev_platform env) \<and> check_gpu_rules env po = Inr ()\<close> show ?thesis
      using verify_platform_inadmissible [of V "ev_platform env" "ev_evidence env" "ctx_now (vf_utc V) c w" po ?s w] by auto
  qed (use verify_platform_misuse [of po "ev_platform env" V "ev_evidence env" "ctx_now (vf_utc V) c w" ?s w] in auto)
  then obtain e where "?run = (Inl e, ?s, w)" and r: "is_retryable e \<longrightarrow> params_valid po (ev_platform env)" by blast
  with True have "verify_envelope V c env po ?s w = (Inl e, ?s, w)"
    by (intro verify_envelope_platform_refused) simp_all
  with assms(1) have "verify V b po c w = (Inl e, c, w)" by (simp add: verify_def)
  with r True show ?thesis by blast
qed

section \<open>Verdicts\<close>

lemma check_gpu_rules_Inr:
  assumes "check_gpu_rules env po = Inr ()"
  shows "case ev_nvidia_gpu env of None \<Rightarrow> \<forall>p. po_gpu po = Some p \<longrightarrow> \<not> gp_required p
    | Some gpus \<Rightarrow> \<exists>p n. po_gpu po = Some p \<and> check_preconditions gpus p = Inr n \<and> gp_user_nonce p = Some n
        \<and> report_data po (ev_platform env) = Some n"
  using assms
  by (auto simp: check_gpu_rules_def check_coupling_def and_then_Inr_iff ok_or_Inr_iff check_preconditions_Inr_iff
      split: option.splits if_splits)

lemma verify_envelope_Inr:
  assumes "verify_envelope V c env po s w = (Inr v, s', w')"
  shows "has_params po (ev_platform env)" "check_gpu_rules env po = Inr ()"
    and "\<exists>us s1 w1. verify_platform V (ev_platform env) (ev_evidence env) po (ctx_now (vf_utc V) c w) s w
        = (Inr (vd_platform v, us), s1, w1)"
    and "ev_nvidia_gpu env = None \<Longrightarrow> vd_gpu v = None"
    and "ev_nvidia_gpu env = Some gpus \<Longrightarrow> po_gpu po = Some p \<Longrightarrow> \<exists>g answers. vd_gpu v = Some g
        \<and> verify_bundle (vf_jws V) gpus p answers (ctx_now (vf_utc V) c w) = Inr g"
proof -
  let ?run = "verify_platform V (ev_platform env) (ev_evidence env) po (ctx_now (vf_utc V) c w) s w"
  from assms show a: "has_params po (ev_platform env)" "check_gpu_rules env po = Inr ()"
    using verify_envelope_rules [of po env V c s w] by (cases "has_params po (ev_platform env) \<and> check_gpu_rules env po = Inr ()"; auto)+
  obtain r s1 w1 where run: "?run = (r, s1, w1)" by (rule prod_cases3)
  with assms a obtain pr us where r: "r = Inr (pr, us)"
    by (cases r) (auto simp: verify_envelope_def check_allowed_def Let_def)
  show "\<exists>us s1 w1. ?run = (Inr (vd_platform v, us), s1, w1)" "ev_nvidia_gpu env = None \<Longrightarrow> vd_gpu v = None"
      "ev_nvidia_gpu env = Some gpus \<Longrightarrow> po_gpu po = Some p \<Longrightarrow> \<exists>g answers. vd_gpu v = Some g
        \<and> verify_bundle (vf_jws V) gpus p answers (ctx_now (vf_utc V) c w) = Inr g"
    using assms a run r
    by (auto simp: verify_envelope_def check_allowed_def Let_def and_then_Inr_iff split: option.splits prod.splits sum.splits)
qed

lemma verify_Inr:
  assumes "verify V b po c w = (Inr v, c', w')"
  shows "\<exists>env s s1 w1. parse_envelope V b = Inr env \<and> verify_envelope V c env po s w = (Inr v, s1, w1)"
proof -
  from assms obtain env where env: "parse_envelope V b = Inr env"
    by (auto simp: verify_def split: sum.splits)
  let ?s = "view (cx_store c) (held_collateral env) (po_floors po) False"
  from assms env obtain s' w'' where "verify_envelope V c env po ?s w = (Inr v, s', w'')"
    by (cases "verify_envelope V c env po ?s w") (auto simp: verify_def keep_def)
  with env show ?thesis by blast
qed

lemma verify_envelope_evidence:
  assumes "verify_envelope V c env po s w = (Inr v, s', w')"
  shows "result_platform (vd_platform v) = ev_platform env"
    and "genuine_evidence V (ev_platform env) (ev_evidence env) (ctx_now (vf_utc V) c w)"
    and "report_data po (ev_platform env) = Some n \<Longrightarrow> passed v \<Longrightarrow> result_report_data (vd_platform v) = Some True"
proof -
  from verify_envelope_Inr(3) [OF assms] obtain us s1 w1 where run: "verify_platform V (ev_platform env) (ev_evidence env) po
      (ctx_now (vf_utc V) c w) s w = (Inr (vd_platform v, us), s1, w1)" by blast
  note verdict = verify_platform_verdict [OF run]
  show "result_platform (vd_platform v) = ev_platform env"
    "genuine_evidence V (ev_platform env) (ev_evidence env) (ctx_now (vf_utc V) c w)"
    by (rule verdict)+
  show "report_data po (ev_platform env) = Some n \<Longrightarrow> passed v \<Longrightarrow> result_report_data (vd_platform v) = Some True"
    using verdict(3) passed_report_data [of "vd_platform v"]
    by (cases "result_report_data (vd_platform v)") (auto simp: passed_iff)
qed

text \<open>C1: A verdict on an envelope is about genuine evidence of the platform the envelope
  names, which the policies accept. It passes exactly when the platform result and the GPU
  result pass and every piece of collateral used is acceptable. GPU evidence is never
  ignored: a verdict has a GPU result exactly when the envelope has a bundle, and then the
  nonce of the bundle is the report data that the platform was held to and, when the verdict
  passes, that the platform was found to have signed.\<close>

theorem verified_envelope_meaning:
  assumes "verify V b po c w = (Inr v, c', w')"
  shows "\<exists>env. parse_envelope V b = Inr env
    \<and> result_platform (vd_platform v) = ev_platform env \<and> has_params po (ev_platform env)
    \<and> genuine_evidence V (ev_platform env) (ev_evidence env) (ctx_now (vf_utc V) c w)
    \<and> (passed v \<longleftrightarrow> result_passed (vd_platform v) \<and> (\<forall>g. vd_gpu v = Some g \<longrightarrow> gpu_passed g)
         \<and> (\<forall>u \<in> set (vd_collateral v). acceptable u))
    \<and> (case ev_nvidia_gpu env of
         None \<Rightarrow> vd_gpu v = None \<and> (\<forall>p. po_gpu po = Some p \<longrightarrow> \<not> gp_required p)
       | Some gpus \<Rightarrow> \<exists>p n g answers. po_gpu po = Some p \<and> check_preconditions gpus p = Inr n
           \<and> report_data po (ev_platform env) = Some n
           \<and> vd_gpu v = Some g \<and> verify_bundle (vf_jws V) gpus p answers (ctx_now (vf_utc V) c w) = Inr g
           \<and> (passed v \<longrightarrow> result_report_data (vd_platform v) = Some True))"
proof -
  obtain env s s1 w1 where env: "parse_envelope V b = Inr env" and v: "verify_envelope V c env po s w = (Inr v, s1, w1)"
    using verify_Inr [OF assms] by blast
  note e = verify_envelope_Inr [OF v] and verdict = verify_envelope_evidence [OF v]
  show ?thesis
    by (intro exI [of _ env] conjI env verdict(1,2) e(1) passed_iff)
       (use check_gpu_rules_Inr [OF e(2)] e(4,5) verdict(3) in \<open>auto split: option.splits\<close>)
qed

section \<open>A small instance\<close>

definition toy_libs ::
  "(unit, unit, unit, unit, unit, unit, unit, unit, unit, unit, unit, nat) libs" where
  "toy_libs = \<lparr>vf_dcap = toy_dcap, vf_body = ev_body (toy_tdx_env toy_se), vf_snp = toy_snp_lib, vf_tpm = toy_az_snp_tpm,
     vf_gce = toy_gce, vf_jws = toy_jws, vf_store = toy_se, vf_base64 = ev_base64 (toy_tdx_env toy_se),
     vf_base64_encode = bytes_str,
     vf_pem = \<lparr>pem_parse_many = (\<lambda>_. None), pem_contents = (\<lambda>_. []), pem_encode_many = (\<lambda>_. [])\<rparr>,
     vf_root = [], vf_utc = int,
     vf_envelope = (\<lambda>b. Some \<lparr>ev_platform = Tdx, ev_evidence = JNull, ev_nvidia_gpu = Some toy_bundle, ev_collateral = []\<rparr>),
     vf_envelope_bytes = (\<lambda>_. Some []),
     vf_tdx_evidence = (\<lambda>_. Some toy_evidence), vf_snp_evidence = (\<lambda>_. Some toy_snp_evidence),
     vf_az_tdx_evidence = (\<lambda>_. Some toy_az_tdx_evidence), vf_az_snp_evidence = (\<lambda>_. Some toy_az_snp_evidence),
     vf_dstack_evidence = (\<lambda>_. None)\<rparr>"

definition toy_ctx :: ctx where
  "toy_ctx = \<lparr>cx_store = toy_store, cx_time = Some 50, cx_nras = ge_nras toy_gpu_env\<rparr>"

definition toy_policies :: policies where
  "toy_policies = (with_report_data (replicate 16 0) all_policies)\<lparr>po_gpu := Some toy_gpu_params\<rparr>"

lemma toy_env: "parse_envelope toy_libs [] =
    Inr \<lparr>ev_platform = Tdx, ev_evidence = JNull, ev_nvidia_gpu = Some toy_bundle, ev_collateral = []\<rparr>"
  by (simp add: parse_envelope_def MAX_EVIDENCE_SIZE_def toy_libs_def)

lemma toy_view: "view toy_store [] default_floors False = toy_store" "close_view toy_store toy_store = toy_store"
  by (simp_all add: view_def close_view_def toy_store_def held_only_def responses_of_def)

lemma toy_envs: "the_tdx_env toy_libs = toy_tdx_env toy_se" "the_gpu_env toy_libs (cx_nras toy_ctx) = toy_gpu_env"
  by (simp_all add: the_tdx_env_def toy_libs_def toy_tdx_env_def the_gpu_env_def toy_gpu_env_def toy_ctx_def)

lemma toy_policies_simps:
  "po_tdx toy_policies = Some (toy_params (Some (replicate 16 0)))" "po_gpu toy_policies = Some toy_gpu_params"
  "po_floors toy_policies = default_floors" "report_data toy_policies Tdx = Some (replicate 16 0)"
  by (simp_all add: toy_policies_def with_report_data_def all_policies_def toy_params_def tdx_expects_def)

lemma toy_rules: "check_gpu_rules \<lparr>ev_platform = Tdx, ev_evidence = JNull, ev_nvidia_gpu = Some toy_bundle, ev_collateral = []\<rparr>
    toy_policies = Inr ()"
proof -
  have "check_coupling toy_policies Tdx toy_gpu_params = Inr ()"
    unfolding check_coupling_def toy_policies_simps by (simp add: toy_gpu_params_def)
  then show ?thesis by (simp add: check_gpu_rules_def toy_policies_simps toy_preconditions del: report_data.simps)
qed

lemma toy_verified: "\<exists>v. verify toy_libs [] toy_policies toy_ctx 0 = (Inr v, toy_ctx, 0) \<and> vd_gpu v \<noteq> None"
proof -
  let ?env = "\<lparr>ev_platform = Tdx, ev_evidence = JNull, ev_nvidia_gpu = Some toy_bundle, ev_collateral = []\<rparr>"
  have m: "Some (replicate 16 0) \<in> {None, Some (replicate 16 (0 :: u8))}" by simp
  from toy_challenge_run [OF m, of toy_se 0] obtain r us where run:
    "run (tdx_platform (toy_tdx_env toy_se) (\<lambda>_. Some toy_evidence)) JNull
      (Some (toy_params (Some (replicate 16 0)))) 50 toy_store 0 = (Inr (r, us), toy_store, 0)"
    by blast
  obtain u where g: "gather_bundle toy_gpu_env toy_bundle toy_gpu_params 50 toy_store 0 = (Inr (toy_gpu_set, u), toy_store, 0)"
    using toy_gathers by blast
  obtain res where b: "verify_bundle toy_jws toy_bundle toy_gpu_params toy_gpu_set 50 = Inr res"
    using toy_bundle_verifies by blast
  have n: "ctx_now (vf_utc toy_libs) toy_ctx 0 = 50" "cx_store toy_ctx = toy_store"
    by (simp_all add: ctx_now_def toy_ctx_def)
  have l: "vf_tdx_evidence toy_libs = (\<lambda>_. Some toy_evidence)" "vf_jws toy_libs = toy_jws" by (simp_all add: toy_libs_def)
  have allowed: "check_allowed toy_policies Tdx = Inr ()" by (simp add: check_allowed_def toy_policies_simps)
  have "verify_platform toy_libs Tdx JNull toy_policies 50 toy_store 0 = (Inr (TdxRes r, us), toy_store, 0)"
    unfolding verify_platform.simps l toy_envs toy_policies_simps run by (simp add: map_result_def)
  then have "verify_envelope toy_libs toy_ctx ?env toy_policies toy_store 0 =
      (Inr \<lparr>vd_platform = TdxRes r, vd_gpu = Some res, vd_collateral = us @ [u]\<rparr>, toy_store, 0)"
    by (simp add: verify_envelope_def allowed toy_rules n toy_policies_simps toy_envs g l b del: verify_platform.simps)
  then show ?thesis
    by (simp add: verify_def toy_env held_collateral_def toy_policies_simps n toy_view keep_def)
qed

theorem verified_envelope_meaning_witness:
  "\<exists>v. fst (verify toy_libs [] toy_policies toy_ctx 0) = Inr v \<and> vd_gpu v \<noteq> None
     \<and> result_platform (vd_platform v) = Tdx \<and> (passed v \<longrightarrow> result_report_data (vd_platform v) = Some True)"
proof -
  obtain v where v: "verify toy_libs [] toy_policies toy_ctx 0 = (Inr v, toy_ctx, 0)" "vd_gpu v \<noteq> None"
    using toy_verified by blast
  from verified_envelope_meaning [OF v(1)] v show ?thesis
    by (auto simp: toy_env)
qed

text \<open>The same request without params for the platform.\<close>

theorem bad_request_fetches_nothing_witness:
  "\<exists>e. verify toy_libs [] (toy_policies\<lparr>po_tdx := None\<rparr>) toy_ctx 0 = (Inl e, toy_ctx, 0) \<and> \<not> is_retryable e"
proof -
  have "\<not> has_params (toy_policies\<lparr>po_tdx := None\<rparr>) Tdx" by simp
  with bad_request_fetches_nothing [OF toy_env, of "toy_policies\<lparr>po_tdx := None\<rparr>" toy_ctx 0] show ?thesis
    by (auto simp: toy_env)
qed

end
