(* ===== verification/Serve.thy ===== *)
theory Serve
  imports Verifier
begin

text \<open>
  \<open>crates/attestation/src/collateral/serve.rs\<close>: collateral by vendor URL, for the
  attestation-cache. The URL names the piece, the store gets and verifies it, and the
  vendor's bytes are handed on. \<open>Store::serve\<close> is one list of cases in the code, each with
  its own \<open>return self.raw(...)\<close>; here the cases give the piece the URL names, and one more
  step asks the store for it.
\<close>

section \<open>URLs\<close>

datatype piece_id =
    AmdCrlId amd_crl_id
  | VcekId vcek_id
  | QeIdentityId
  | RootCrlId
  | PckCrlId pck_ca
  | TcbInfoId bytes
  | GceId "platform_type \<times> bytes"
  | NrasJwksId string

text \<open>\<open>kv.strip_prefix(name)?.strip_prefix('=')\<close> of the first part that has it.\<close>

definition query_value :: "string \<Rightarrow> string \<Rightarrow> string option" where
  "query_value query name = list_first (List.map_filter (\<lambda>kv. Option.bind (strip_prefix name kv) (strip_prefix ''='')) (split_on (CHR ''&'') query))"

definition spl :: "string \<Rightarrow> string \<Rightarrow> u8 option" where
  "spl query name = map_option of_nat (Option.bind (query_value query name) (from_str_radix (2 ^ 8) 10))"

text \<open>\<open>chip_id.get_mut(..chip.len())?.copy_from_slice(&chip)\<close> on 64 zeros.\<close>

definition pad_chip_id :: "bytes \<Rightarrow> bytes option" where
  "pad_chip_id chip = (if length chip \<le> 64 then Some (chip @ replicate (64 - length chip) 0) else None)"

definition vcek_id_of :: "hex_lib \<Rightarrow> string \<Rightarrow> vcek_id option" where
  "vcek_id_of hx url =
     Option.bind (strip_prefix ''https://kdsintf.amd.com/vcek/v1/'' url) (\<lambda>rest.
     Option.bind (split_once (CHR ''/'') rest) (\<lambda>(generation, rest).
     Option.bind (split_once (CHR ''?'') rest) (\<lambda>(chip, query).
     Option.bind (find (\<lambda>g. product_name g = generation) [Milan, Genoa, Turin]) (\<lambda>generation.
     Option.bind (hex_decode hx chip) (\<lambda>chip.
     Option.bind (pad_chip_id chip) (\<lambda>chip_id.
     Option.bind (spl query ''blSPL'') (\<lambda>bl.
     Option.bind (spl query ''teeSPL'') (\<lambda>tee.
     Option.bind (spl query ''snpSPL'') (\<lambda>snp.
     Option.bind (spl query ''ucodeSPL'') (\<lambda>ucode.
     Some (generation, chip_id,
       \<lparr>tcb_bootloader = bl, tcb_tee = tee, tcb_snp = snp, tcb_microcode = ucode, tcb_fmc = spl query ''fmcSPL''\<rparr>)))))))))))"

definition fmspc_of :: "hex_lib \<Rightarrow> string \<Rightarrow> bytes option" where
  "fmspc_of hx url =
     Option.bind (rsplit_once_str ''fmspc='' url) (\<lambda>(_, f).
     Option.bind (hex_decode hx f) (\<lambda>f. if length f = 6 then Some f else None))"

definition measurement_of :: "hex_lib \<Rightarrow> string \<Rightarrow> bytes option" where
  "measurement_of hx url =
     Option.bind (rsplit_once_str ''/'' url) (\<lambda>(_, file).
     Option.bind (strip_suffix ''.binarypb'' file) (hex_decode hx))"

definition amd_crl_ids :: "amd_crl_id list" where
  "amd_crl_ids = List.product [Milan, Genoa, Turin] [Vcek, Vlek]"

text \<open>The URL of a piece.\<close>

fun url_of :: "('k, 's, 'rk, 'rs, 'key, 'sig, 'grk, 'grs, 'nk, 'ns, 'pem, 'w) libs \<Rightarrow> piece_id \<Rightarrow> string" where
  "url_of V (AmdCrlId i) = piece_url (amd_crl_kind (vf_snp V)) i"
| "url_of V (VcekId i) = piece_url (vcek_kind (vf_snp V)) i"
| "url_of V QeIdentityId = piece_url (qe_identity_kind (vf_dcap V) (vf_body V)) ()"
| "url_of V RootCrlId = piece_url (root_crl_kind (vf_dcap V)) ()"
| "url_of V (PckCrlId ca) = piece_url (pck_crl_kind (vf_dcap V)) ca"
| "url_of V (TcbInfoId f) = piece_url (tcb_info_kind (vf_dcap V) (vf_body V)) f"
| "url_of V (GceId i) = piece_url (gce_kind (vf_gce V)) i"
| "url_of V (NrasJwksId u) = piece_url (nras_jwks_kind (vf_jws V)) u"

text \<open>\<open>jwks_url_for_endpoint(NRAS_GPU_URL).expect(...)\<close>: the built-in URL has a host.\<close>

definition builtin_jwks_url :: string where
  "builtin_jwks_url = (case jwks_url_for_endpoint NRAS_GPU_URL of Inr url \<Rightarrow> url | Inl _ \<Rightarrow> [])"

definition candidates ::
  "('k, 's, 'rk, 'rs, 'key, 'sig, 'grk, 'grs, 'nk, 'ns, 'pem, 'w) libs \<Rightarrow> string \<Rightarrow> piece_id list" where
  "candidates V url =
     map AmdCrlId amd_crl_ids
     @ (case vcek_id_of (sn_hex (vf_snp V)) url of None \<Rightarrow> [] | Some i \<Rightarrow> [VcekId i])
     @ [QeIdentityId, RootCrlId, PckCrlId PlatformCa, PckCrlId ProcessorCa]
     @ (case fmspc_of (dc_hex (vf_dcap V)) url of None \<Rightarrow> [] | Some f \<Rightarrow> [TcbInfoId f])
     @ (case measurement_of (gl_hex (vf_gce V)) url of None \<Rightarrow> [] | Some m \<Rightarrow> [GceId (GcpTdx, m), GceId (GcpSnp, m)])
     @ [NrasJwksId builtin_jwks_url]"

text \<open>The cases in their order: the first candidate whose URL is the one asked for.\<close>

definition url_piece ::
  "('k, 's, 'rk, 'rs, 'key, 'sig, 'grk, 'grs, 'nk, 'ns, 'pem, 'w) libs \<Rightarrow> string \<Rightarrow> piece_id option" where
  "url_piece V url = find (\<lambda>i. url_of V i = url) (candidates V url)"

section \<open>Serving\<close>

datatype served =
    ServedPiece held_response bool source
  | ServedNotPublished string
  | ServedRefused string
  | ServedUnavailable "nat option" string
  | ServedUnknown

definition raw ::
  "'w store_env \<Rightarrow> ('id, 'p) kind \<Rightarrow> 'id \<Rightarrow> int \<Rightarrow> bool \<Rightarrow> store \<Rightarrow> 'w \<Rightarrow> served \<times> store \<times> 'w" where
  "raw env k pid now shared s w =
     (let (r, v, w) = lookup env k pid now (view s [] default_floors True) w;
          answer = (case r of
              Inr (_, u) \<Rightarrow> (case rev (used v) of
                  piece # _ \<Rightarrow> ServedPiece piece shared (cu_from u)
                | [] \<Rightarrow> ServedRefused ''internal error: the store kept no response'')
            | Inl (FNotPublished why) \<Rightarrow> ServedNotPublished why
            | Inl (FUnavailable e) \<Rightarrow>
                if not_found e then ServedNotPublished (ua_detail e)
                else ServedUnavailable (ua_retry_after e) (ua_detail e)
            | Inl (FRefused why) \<Rightarrow> ServedRefused why)
      in (answer, close_view s v, w))"

fun serve_piece ::
  "('k, 's, 'rk, 'rs, 'key, 'sig, 'grk, 'grs, 'nk, 'ns, 'pem, 'w) libs \<Rightarrow> piece_id \<Rightarrow> int \<Rightarrow> store \<Rightarrow> 'w
     \<Rightarrow> served \<times> store \<times> 'w" where
  "serve_piece V (AmdCrlId i) now s w = raw (vf_store V) (amd_crl_kind (vf_snp V)) i now True s w"
| "serve_piece V (VcekId i) now s w = raw (vf_store V) (vcek_kind (vf_snp V)) i now False s w"
| "serve_piece V QeIdentityId now s w = raw (vf_store V) (qe_identity_kind (vf_dcap V) (vf_body V)) () now True s w"
| "serve_piece V RootCrlId now s w = raw (vf_store V) (root_crl_kind (vf_dcap V)) () now True s w"
| "serve_piece V (PckCrlId ca) now s w = raw (vf_store V) (pck_crl_kind (vf_dcap V)) ca now True s w"
| "serve_piece V (TcbInfoId f) now s w = raw (vf_store V) (tcb_info_kind (vf_dcap V) (vf_body V)) f now True s w"
| "serve_piece V (GceId i) now s w = raw (vf_store V) (gce_kind (vf_gce V)) i now False s w"
| "serve_piece V (NrasJwksId u) now s w = raw (vf_store V) (nras_jwks_kind (vf_jws V)) u now True s w"

definition serve ::
  "('k, 's, 'rk, 'rs, 'key, 'sig, 'grk, 'grs, 'nk, 'ns, 'pem, 'w) libs \<Rightarrow> string \<Rightarrow> int \<Rightarrow> store \<Rightarrow> 'w
     \<Rightarrow> served \<times> store \<times> 'w" where
  "serve V url now s w = (case url_piece V url of
       None \<Rightarrow> (ServedUnknown, s, w)
     | Some i \<Rightarrow> serve_piece V i now s w)"

section \<open>Lemmas\<close>

lemma url_piece_url: "url_piece V url = Some i \<Longrightarrow> url_of V i = url"
  by (auto simp: url_piece_def find_Some_iff)

text \<open>What was verified as which piece.\<close>

fun verified_as ::
  "('k, 's, 'rk, 'rs, 'key, 'sig, 'grk, 'grs, 'nk, 'ns, 'pem, 'w) libs \<Rightarrow> piece_id \<Rightarrow> bytes \<Rightarrow> string option \<Rightarrow> bool" where
  "verified_as V (AmdCrlId i) b ch \<longleftrightarrow> is_ok (amd_crl_verify (vf_snp V) b ch i)"
| "verified_as V (VcekId i) b ch \<longleftrightarrow> is_ok (vcek_verify (vf_snp V) b ch i)"
| "verified_as V QeIdentityId b ch \<longleftrightarrow> is_ok (qe_identity_verify (vf_dcap V) (vf_body V) b ch ())"
| "verified_as V RootCrlId b ch \<longleftrightarrow> is_ok (root_crl_verify (vf_dcap V) b ch ())"
| "verified_as V (PckCrlId ca) b ch \<longleftrightarrow> is_ok (pck_crl_verify (vf_dcap V) b ch ca)"
| "verified_as V (TcbInfoId f) b ch \<longleftrightarrow> is_ok (tcb_info_verify (vf_dcap V) (vf_body V) b ch f)"
| "verified_as V (GceId i) b ch \<longleftrightarrow> is_ok (gce_verify (vf_gce V) b ch i)"
| "verified_as V (NrasJwksId u) b ch \<longleftrightarrow> is_ok (nras_jwks_verify (vf_jws V) b ch u)"

text \<open>A recording view has the response that was chosen.\<close>

lemma store_load_used: "store_load env k pid url now s w = (r, s', w') \<Longrightarrow> st_used s' = st_used s"
  by (auto simp: store_load_def split: option.splits prod.splits if_splits)

lemma lookup_recorded:
  assumes "lookup env k pid now s w = (Inr (p, u), s', w')" "st_used s = Some []"
  shows "\<exists>b c. used s' = [(piece_url k pid, b, c)] \<and> piece_verify k b c pid = Inr p"
  using assms(1)
proof (rule lookup_Inr)
  fix best s1 body chain src
  assume b: "best_of k pid None (on_hand env k pid (piece_url k pid) s w) = Inr best"
    and s': "s' = record_used (piece_url k pid) body chain s1"
    and c: "(best = Some (p, body, chain, src) \<and> passes k (piece_floor k pid (st_floors s)) now p
        \<and> s1 = s \<and> w' = w)
     \<or> (\<exists>loaded. store_load env k pid (piece_url k pid) now s w = (loaded, s1, w')
          \<and> take_loaded k pid best loaded = Inr (p, body, chain, src))"
  have v: "best_verified k pid best" using best_of_Inr [OF b] by (simp add: best_verified_def)
  with c have "piece_verify k body chain pid = Inr p"
    by (auto simp: best_verified_def intro: take_loaded_verified)
  moreover have "st_used s1 = Some []" using c assms(2) store_load_used by metis
  ultimately show ?thesis by (simp add: s' record_used_def used_def)
qed

lemma raw_piece:
  assumes "raw env k pid now shared s w = (ServedPiece piece sh src, s', w')"
  shows "\<exists>b c p. piece = (piece_url k pid, b, c) \<and> piece_verify k b c pid = Inr p \<and> sh = shared"
proof -
  let ?v = "view s [] default_floors True"
  obtain r v w1 where l: "lookup env k pid now ?v w = (r, v, w1)" by (rule prod_cases3)
  with assms obtain p u where r: "r = Inr (p, u)"
    by (cases r) (auto simp: raw_def split: failure.splits if_splits)
  have "st_used ?v = Some []" by (simp add: view_def)
  from lookup_recorded [OF l [unfolded r] this] l r assms show ?thesis
    by (auto simp: raw_def)
qed

text \<open>Memory keeps holding only what was verified.\<close>

lemma raw_store_ok:
  assumes "raw env k pid now shared s w = (a, s', w')" "conforms V k" "store_ok V s"
  shows "store_ok V s'"
proof -
  obtain r v w1 where l: "lookup env k pid now (view s [] default_floors True) w = (r, v, w1)" by (rule prod_cases3)
  have "store_ok V (view s [] default_floors True)" using assms(3) by (simp add: store_ok_def view_def)
  from lookup_store_ok [OF l assms(2) this] l assms(1) show ?thesis
    by (auto simp: raw_def store_ok_def close_view_def)
qed

lemma serve_piece_verified:
  assumes "serve_piece V i now s w = (ServedPiece (url, b, c) shared src, s', w')"
  shows "url = url_of V i \<and> verified_as V i b c"
  using assms by (cases i) (auto dest!: raw_piece simp: is_ok_iff gce_verify_simp)

end
