(* ===== verification/Hex.thy ===== *)
theory Hex
  imports Utils
begin

text \<open>
  What the code relies on of the hex crate, and an instance: the encoding the crate writes.
\<close>

text \<open>The hex crate: what it decodes from what it encoded, two lower-case digits a byte.\<close>

definition hex_ok :: "hex_lib \<Rightarrow> bool" where
  "hex_ok hx \<longleftrightarrow> (\<forall>b. hex_decode hx (hex_encode hx b) = Some b
     \<and> set (hex_encode hx b) \<subseteq> set ''0123456789abcdef'')"

lemma hex_okD: "hex_ok hx \<Longrightarrow> hex_decode hx (hex_encode hx b) = Some b"
  "hex_ok hx \<Longrightarrow> c \<notin> set ''0123456789abcdef'' \<Longrightarrow> c \<notin> set (hex_encode hx b)"
  by (auto simp: hex_ok_def simp del: list.set)

text \<open>Hexadecimal as the crate writes it.\<close>

fun hex_pairs :: "string \<Rightarrow> bytes option" where
  "hex_pairs [] = Some []"
| "hex_pairs [_] = None"
| "hex_pairs (h # l # s) = (case (digit_value h, digit_value l, hex_pairs s) of
      (Some h, Some l, Some b) \<Rightarrow> if h < 16 \<and> l < 16 then Some (of_nat (16 * h + l) # b) else None
    | _ \<Rightarrow> None)"

definition hex16 :: hex_lib where
  "hex16 = \<lparr>hex_encode = concat \<circ> map (\<lambda>b. [''0123456789abcdef'' ! (unat b div 16), ''0123456789abcdef'' ! (unat b mod 16)]),
     hex_decode = hex_pairs\<rparr>"

lemma hex_digits: "n < 16 \<Longrightarrow> digit_value (''0123456789abcdef'' ! n) = Some n"
proof -
  have "\<forall>n\<in>{0, 1, 2, 3, 4, 5, 6, 7, 8, 9, 10, 11, 12, 13, 14, 15}. digit_value (''0123456789abcdef'' ! n) = Some n"
    by code_simp
  moreover assume "n < 16"
  then have "n \<in> {0, 1, 2, 3, 4, 5, 6, 7, 8, 9, 10, 11, 12, 13, 14, 15}" by (simp; arith)
  ultimately show ?thesis by blast
qed

lemma hex16_ok: "hex_ok hex16"
proof -
  have l: "unat b div 16 < 16" for b :: u8 using unat_u8_less [of b] by (simp add: less_mult_imp_div_less)
  have c: "n < 16 \<Longrightarrow> ''0123456789abcdef'' ! n \<in> set ''0123456789abcdef''" for n by (rule nth_mem) simp
  have "hex_pairs (hex_encode hex16 b) = Some b" for b
    by (induction b) (simp_all add: hex16_def hex_digits l del: nth_Cons_numeral)
  moreover have "set (hex_encode hex16 b) \<subseteq> set ''0123456789abcdef''" for b
  proof -
    have "set (hex_encode hex16 b) = (\<Union>x\<in>set b. {''0123456789abcdef'' ! (unat x div 16), ''0123456789abcdef'' ! (unat x mod 16)})"
      by (simp add: hex16_def)
    moreover have "{''0123456789abcdef'' ! (unat x div 16), ''0123456789abcdef'' ! (unat x mod 16)} \<subseteq> set ''0123456789abcdef''" for x :: u8
      using c [OF l [of x]] c [of "unat x mod 16"] by (simp del: list.set nth_Cons_numeral add: insert_subset)
    ultimately show ?thesis by blast
  qed
  ultimately show ?thesis by (simp add: hex_ok_def hex16_def)
qed

end
