(* ===== verification/ServeProps.thy ===== *)
theory ServeProps
  imports Serve Hex VerifierProps
begin

text \<open>
  The names of collateral: a URL names one piece, and every piece has a URL that names it;
  and what the store serves under a URL was verified as that piece.
\<close>

section \<open>Names\<close>

lemma split_once_str_first: "c \<notin> set b \<Longrightarrow> split_once_str (c # p) (b @ c # p @ a) = Some (b, a)"
proof (induction b)
  case Nil
  have "strip_prefix (c # p) (c # p @ a) = Some a" by (simp add: strip_prefix_Some_iff)
  then show ?case by simp
qed auto

lemma rsplit_once_str_last:
  assumes "d = e @ [c]" "c \<notin> set b"
  shows "rsplit_once_str d (a @ d @ b) = Some (a, b)"
  using split_once_str_first [of c "rev b" "rev e" "rev a"] assms by (simp add: rsplit_once_str_def del: split_once_str.simps)

lemma strip_suffix_append: "strip_suffix p (s @ p) = Some s"
proof -
  have "strip_prefix (rev p) (rev p @ rev s) = Some (rev s)" by (simp add: strip_prefix_Some_iff)
  then show ?thesis by (simp add: strip_suffix_def)
qed

text \<open>The numbers of a KDS URL.\<close>

lemma digit_chars: "n < 10 \<Longrightarrow> digit_char n \<in> set ''0123456789''"
proof -
  have "\<forall>n\<in>{0, 1, 2, 3, 4, 5, 6, 7, 8, 9}. digit_char n \<in> set ''0123456789''" by code_simp
  moreover assume "n < 10"
  then have "n \<in> {0, 1, 2, 3, 4, 5, 6, 7, 8, 9}" by auto
  ultimately show ?thesis by blast
qed

lemma dec_string_chars: "set (dec_string n) \<subseteq> set ''0123456789''"
proof (induction n rule: dec_string.induct)
  case (1 n)
  have d: "digit_char (n mod 10) \<in> set ''0123456789''" "n < 10 \<Longrightarrow> digit_char n \<in> set ''0123456789''"
    by (rule digit_chars, simp)+
  show ?case
  proof (cases "n < 10")
    case True
    have "set (dec_string n) = {digit_char n}" using True by (subst dec_string.simps) simp
    with d(2) [OF True] show ?thesis by (simp del: list.set)
  next
    case False
    have "set (dec_string n) = insert (digit_char (n mod 10)) (set (dec_string (n div 10)))"
      using False by (subst dec_string.simps) simp
    with d(1) 1 [OF False] show ?thesis by (simp del: list.set)
  qed
qed

lemma u8_dec2_chars: "c \<notin> set ''0123456789'' \<Longrightarrow> c \<notin> set (u8_dec2 b)"
  using dec_string_chars [of "unat b"] by (auto simp: u8_dec2_def u8_dec_def)

lemma spl_value: "from_str_radix 256 10 (u8_dec2 b) = Some (unat b)"
proof -
  have b: "unat b < 256" by simp
  have "digits_value 10 0 (CHR ''0'' # dec_string (unat b)) = Some (unat b)"
    by (simp add: digit_value_def dec_string_value)
  with b have "b < 10 \<Longrightarrow> ?thesis" by (simp add: u8_dec2_def u8_dec_def from_str_radix_def)
  moreover from b have "\<not> b < 10 \<Longrightarrow> ?thesis" by (simp add: u8_dec2_def u8_dec_def from_str_radix_dec_string)
  ultimately show ?thesis by blast
qed

lemma spl_query:
  fixes t :: snp_tcb
  defines "q \<equiv> ''blSPL='' @ u8_dec2 (tcb_bootloader t) @ ''&teeSPL='' @ u8_dec2 (tcb_tee t)
     @ ''&snpSPL='' @ u8_dec2 (tcb_snp t) @ ''&ucodeSPL='' @ u8_dec2 (tcb_microcode t)
     @ (case tcb_fmc t of None \<Rightarrow> [] | Some fmc \<Rightarrow> ''&fmcSPL='' @ u8_dec2 fmc)"
  shows "spl q ''blSPL'' = Some (tcb_bootloader t)" "spl q ''teeSPL'' = Some (tcb_tee t)"
    "spl q ''snpSPL'' = Some (tcb_snp t)" "spl q ''ucodeSPL'' = Some (tcb_microcode t)" "spl q ''fmcSPL'' = tcb_fmc t"
proof -
  have amp: "CHR ''&'' \<notin> set (u8_dec2 b)" for b by (rule u8_dec2_chars) simp
  have parts: "split_on (CHR ''&'') q = [''blSPL='' @ u8_dec2 (tcb_bootloader t), ''teeSPL='' @ u8_dec2 (tcb_tee t),
     ''snpSPL='' @ u8_dec2 (tcb_snp t), ''ucodeSPL='' @ u8_dec2 (tcb_microcode t)]
     @ (case tcb_fmc t of None \<Rightarrow> [] | Some fmc \<Rightarrow> [''fmcSPL='' @ u8_dec2 fmc])"
    by (simp add: q_def split_on_append split_on_last amp split: option.splits)
  show "spl q ''blSPL'' = Some (tcb_bootloader t)" "spl q ''teeSPL'' = Some (tcb_tee t)"
    "spl q ''snpSPL'' = Some (tcb_snp t)" "spl q ''ucodeSPL'' = Some (tcb_microcode t)" "spl q ''fmcSPL'' = tcb_fmc t"
    unfolding spl_def query_value_def parts
    by (auto simp: map_filter_def list_first_def spl_value split: option.splits)
qed

lemma vcek_id_of_url:
  fixes t :: snp_tcb
  assumes hx: "hex_ok hx" and len: "length chip \<le> 64"
  shows "vcek_id_of hx (vcek_url hx (gen, chip, t)) =
     Some (gen, (if gen = Turin then take 8 chip else chip)
       @ replicate (64 - length (if gen = Turin then take 8 chip else chip)) 0, t)"
proof -
  define ch where "ch = (if gen = Turin then take 8 chip else chip)"
  define q where "q = ''blSPL='' @ u8_dec2 (tcb_bootloader t) @ ''&teeSPL='' @ u8_dec2 (tcb_tee t)
     @ ''&snpSPL='' @ u8_dec2 (tcb_snp t) @ ''&ucodeSPL='' @ u8_dec2 (tcb_microcode t)
     @ (case tcb_fmc t of None \<Rightarrow> [] | Some fmc \<Rightarrow> ''&fmcSPL='' @ u8_dec2 fmc)"
  have url: "vcek_url hx (gen, chip, t) = ''https://kdsintf.amd.com/vcek/v1/'' @ product_name gen @ CHR ''/'' #
      hex_encode hx ch @ CHR ''?'' # q"
    by (cases gen; cases "tcb_fmc t") (simp_all add: vcek_url_def AMD_KDS_def ch_def q_def)
  have strip: "strip_prefix p (p @ r) = Some r" for p r :: string by (simp add: strip_prefix_Some_iff)
  have s1: "split_once (CHR ''/'') (product_name gen @ CHR ''/'' # r) = Some (product_name gen, r)" for r
    by (cases gen) simp_all
  have "CHR ''?'' \<notin> set (hex_encode hx ch)" by (rule hex_okD(2) [OF hx]) simp
  then have s2: "split_once (CHR ''?'') (hex_encode hx ch @ CHR ''?'' # q) = Some (hex_encode hx ch, q)"
    by (simp add: split_once_Some_iff)
  have f: "find (\<lambda>g. product_name g = product_name gen) [Milan, Genoa, Turin] = Some gen"
    by (cases gen) simp_all
  have "length ch \<le> 64" using len by (auto simp: ch_def)
  then show ?thesis
    unfolding url vcek_id_of_def strip
    by (simp add: s1 s2 f hex_okD(1) [OF hx] pad_chip_id_def spl_query [of t, folded q_def] ch_def [symmetric] del: find.simps)
qed

lemma fmspc_of_url:
  assumes "hex_ok hx" "length f = 6"
  shows "fmspc_of hx (INTEL_PCS @ ''/tdx/certification/v4/tcb?fmspc='' @ hex_encode hx f) = Some f"
proof -
  have "CHR ''='' \<notin> set (hex_encode hx f)" by (rule hex_okD(2) [OF assms(1)]) simp
  from rsplit_once_str_last [OF _ this, of "''fmspc=''" "''fmspc''" "INTEL_PCS @ ''/tdx/certification/v4/tcb?''"]
  show ?thesis by (simp add: fmspc_of_def hex_okD(1) [OF assms(1)] assms(2))
qed

lemma measurement_of_url:
  assumes "hex_ok hx"
  shows "measurement_of hx (p @ ''/'' @ hex_encode hx m @ ''.binarypb'') = Some m"
proof -
  have "CHR ''/'' \<notin> set (hex_encode hx m)" by (rule hex_okD(2) [OF assms]) simp
  then have "CHR ''/'' \<notin> set (hex_encode hx m @ ''.binarypb'')" by simp
  from rsplit_once_str_last [OF _ this, of "''/''" "[]" p] strip_suffix_append [of "''.binarypb''" "hex_encode hx m"]
  show ?thesis by (simp add: measurement_of_def hex_okD(1) [OF assms])
qed

lemma builtin_jwks: "builtin_jwks_url = ''https://nras.attestation.nvidia.com/.well-known/jwks.json''"
proof -
  have "jwks_url_for_endpoint (''https'' @ ''://'' @ ''nras.attestation.nvidia.com'' @ CHR ''/'' # ''v3/attest/gpu'') =
      Inr (''https'' @ ''://'' @ ''nras.attestation.nvidia.com'' @ ''/.well-known/jwks.json'')"
    by (rule jwks_url_for_endpoint_host) simp_all
  then show ?thesis by (simp add: builtin_jwks_url_def NRAS_GPU_URL_def)
qed

section \<open>A URL names one piece\<close>

text \<open>The piece a URL gives back: a Turin chip is named by its first eight bytes.\<close>

fun canonical :: "piece_id \<Rightarrow> piece_id" where
  "canonical (VcekId (Turin, chip, t)) = VcekId (Turin, take 8 chip @ replicate 56 0, t)"
| "canonical i = i"

definition hexes_ok :: "('k, 's, 'rk, 'rs, 'key, 'sig, 'grk, 'grs, 'nk, 'ns, 'pem, 'w) libs \<Rightarrow> bool" where
  "hexes_ok V \<longleftrightarrow> hex_ok (sn_hex (vf_snp V)) \<and> hex_ok (dc_hex (vf_dcap V)) \<and> hex_ok (gl_hex (vf_gce V))"

text \<open>What a client can ask for.\<close>

fun nameable :: "piece_id \<Rightarrow> bool" where
  "nameable (VcekId (_, chip, _)) \<longleftrightarrow> length chip = 64"
| "nameable (TcbInfoId f) \<longleftrightarrow> length f = 6"
| "nameable (GceId (p, _)) \<longleftrightarrow> p \<in> {GcpTdx, GcpSnp}"
| "nameable (NrasJwksId u) \<longleftrightarrow> u = builtin_jwks_url"
| "nameable _ \<longleftrightarrow> True"

lemmas url_defs = amd_crl_kind_def vcek_kind_def qe_identity_kind_def root_crl_kind_def pck_crl_kind_def
  tcb_info_kind_def gce_kind_def nras_jwks_kind_def INTEL_PCS_def INTEL_CERTS_def AMD_KDS_def
  GCE_TCB_INTEGRITY_def

lemma canonical_candidate:
  assumes "hexes_ok V" "nameable i"
  shows "canonical i \<in> set (candidates V (url_of V i))"
proof (cases i)
  case (VcekId v)
  obtain gen chip t where v: "v = (gen, chip, t)" by (rule prod_cases3)
  with VcekId assms have hx: "hex_ok (sn_hex (vf_snp V))" "length chip = 64" by (simp_all add: hexes_ok_def)
  with vcek_id_of_url [OF hx(1), of chip gen t]
  have "vcek_id_of (sn_hex (vf_snp V)) (url_of V i) =
      Some (if gen = Turin then (Turin, take 8 chip @ replicate 56 0, t) else v)"
    by (simp add: VcekId v vcek_kind_def)
  then show ?thesis by (cases gen) (simp_all add: candidates_def VcekId v)
next
  case (TcbInfoId f)
  with assms have "hex_ok (dc_hex (vf_dcap V))" "length f = 6" by (simp_all add: hexes_ok_def)
  from fmspc_of_url [OF this] show ?thesis by (simp add: candidates_def TcbInfoId tcb_info_kind_def)
next
  case (GceId v)
  obtain p m where v: "v = (p, m)" by (cases v)
  from assms GceId v have "hex_ok (gl_hex (vf_gce V))" "p \<in> {GcpTdx, GcpSnp}" by (simp_all add: hexes_ok_def)
  with measurement_of_url [OF this(1), of "GCE_TCB_INTEGRITY @ ''/'' @ gce_dir p" m] show ?thesis
    by (auto simp: candidates_def GceId v gce_kind_def)
next
  case (AmdCrlId x)
  obtain gen k where "x = (gen, k)" by (cases x)
  then show ?thesis by (cases gen; cases k) (simp_all add: AmdCrlId candidates_def amd_crl_ids_def)
next
  case (PckCrlId ca)
  then show ?thesis by (cases ca) (simp_all add: candidates_def)
next
  case (NrasJwksId u)
  then show ?thesis using assms by (simp add: candidates_def)
qed (simp_all add: candidates_def)

text \<open>Each kind of piece has its own part of the vendors' URLs.\<close>

fun url_start :: "piece_id \<Rightarrow> string" where
  "url_start (AmdCrlId _) = ''https://kdsintf.amd.com/''"
| "url_start (VcekId _) = ''https://kdsintf.amd.com/''"
| "url_start QeIdentityId = ''https://api.trustedservices.intel.com/tdx/certification/v4/qe''"
| "url_start RootCrlId = ''https://certificates''"
| "url_start (PckCrlId _) = ''https://api.trustedservices.intel.com/sgx''"
| "url_start (TcbInfoId _) = ''https://api.trustedservices.intel.com/tdx/certification/v4/tcb''"
| "url_start (GceId _) = ''https://storage''"
| "url_start (NrasJwksId _) = ''https://nras''"

lemma url_starts:
  assumes "nameable i"
  shows "take (length (url_start i)) (url_of V i) = url_start i"
  using assms by (cases i) (auto simp: url_defs amd_crl_url_def vcek_url_def builtin_jwks Let_def split: option.splits prod.splits)

lemma same_start:
  assumes "url_of V i = url_of V j" "nameable i" "nameable j"
  shows "url_start i = url_start j"
proof -
  have "take (length (url_start i)) (url_of V j) = url_start i" using url_starts [OF assms(2), of V] assms(1) by simp
  moreover have "take (length (url_start j)) (url_of V j) = url_start j" by (rule url_starts [OF assms(3)])
  ultimately have "take (length (url_start i)) (url_start j) = take (length (url_start j)) (url_start i)"
    by (metis min.commute take_take)
  then show ?thesis by (cases i; cases j) simp_all
qed

lemma candidate_cases:
  assumes "i \<in> set (candidates V url)"
  shows "nameable i \<and> (\<forall>v. i = VcekId v \<longrightarrow> vcek_id_of (sn_hex (vf_snp V)) url = Some v)
    \<and> (\<forall>f. i = TcbInfoId f \<longrightarrow> fmspc_of (dc_hex (vf_dcap V)) url = Some f)
    \<and> (\<forall>p m. i = GceId (p, m) \<longrightarrow> measurement_of (gl_hex (vf_gce V)) url = Some m)"
proof -
  have v: "length (fst (snd x)) = 64" if "vcek_id_of hx url = Some x" for hx x
    using that by (auto simp: vcek_id_of_def pad_chip_id_def bind_eq_Some_conv split: if_splits)
  have f: "length x = 6" if "fmspc_of hx url = Some x" for hx x
    using that by (auto simp: fmspc_of_def bind_eq_Some_conv split: if_splits)
  from assms consider (amd) x where "i = AmdCrlId x"
    | (vcek) x where "i = VcekId x" "vcek_id_of (sn_hex (vf_snp V)) url = Some x"
    | (fixed) "i \<in> {QeIdentityId, RootCrlId, PckCrlId PlatformCa, PckCrlId ProcessorCa, NrasJwksId builtin_jwks_url}"
    | (tcb) x where "i = TcbInfoId x" "fmspc_of (dc_hex (vf_dcap V)) url = Some x"
    | (gce) p m where "i = GceId (p, m)" "p \<in> {GcpTdx, GcpSnp}" "measurement_of (gl_hex (vf_gce V)) url = Some m"
    unfolding candidates_def set_append Un_iff
    by (elim disjE) (force split: option.splits)+
  then show ?thesis
  proof cases
    case (vcek x)
    with v show ?thesis by (cases x) auto
  qed (auto dest: f)
qed

lemma amd_urls_differ:
  "url_of V (AmdCrlId i) = url_of V (AmdCrlId j) \<Longrightarrow> i = j"
  "url_of V (AmdCrlId i) \<noteq> url_of V (VcekId v)"
proof -
  show "url_of V (AmdCrlId i) = url_of V (AmdCrlId j) \<Longrightarrow> i = j"
    by (cases i; cases j; cases "fst i"; cases "fst j"; cases "snd i"; cases "snd j")
      (simp_all add: url_defs amd_crl_url_def)
  have "CHR ''?'' \<notin> set (url_of V (AmdCrlId i))"
    by (cases i; cases "fst i"; cases "snd i") (simp_all add: url_defs amd_crl_url_def)
  moreover have "CHR ''?'' \<in> set (url_of V (VcekId v))"
    by (cases v) (simp add: url_defs vcek_url_def Let_def split: option.splits)
  ultimately show "url_of V (AmdCrlId i) \<noteq> url_of V (VcekId v)" by metis
qed

lemma candidate_unique:
  assumes "i \<in> set (candidates V url)" "j \<in> set (candidates V url)" "url_of V i = url" "url_of V j = url"
  shows "i = j"
proof -
  note ci = candidate_cases [OF assms(1)] and cj = candidate_cases [OF assms(2)]
  have u: "url_of V i = url_of V j" by (simp add: assms)
  with same_start ci cj have s: "url_start i = url_start j" by blast
  show ?thesis
  proof (cases i)
    case (AmdCrlId x)
    then show ?thesis using s u amd_urls_differ [of V] by (cases j) auto
  next
    case (VcekId v)
    then show ?thesis using s u not_sym [OF amd_urls_differ(2) [of V]] ci cj by (cases j) auto
  next
    case (PckCrlId ca)
    with s obtain ca' where "j = PckCrlId ca'" by (cases j) simp_all
    with u PckCrlId show ?thesis by (cases ca; cases ca') (simp_all add: url_defs)
  next
    case (TcbInfoId f)
    then show ?thesis using s ci cj by (cases j) auto
  next
    case (GceId x)
    then show ?thesis using s u ci cj
      by (cases j; cases x) (auto simp: url_defs gce_dir_def split: if_splits)
  next
    case (NrasJwksId y)
    then show ?thesis using s ci cj by (cases j) auto
  qed (use s in \<open>cases j; simp\<close>)+
qed

lemma find_unique:
  assumes "x \<in> set xs" "P x" "\<And>y. y \<in> set xs \<Longrightarrow> P y \<Longrightarrow> y = x"
  shows "find P xs = Some x"
proof (cases "find P xs")
  case None
  with assms(1,2) show ?thesis by (simp add: find_None_iff)
next
  case (Some y)
  then have "y \<in> set xs" "P y" by (auto simp: find_Some_iff)
  with assms(3) Some show ?thesis by blast
qed

lemma canonical_url: "nameable i \<Longrightarrow> url_of V (canonical i) = url_of V i"
  by (cases i rule: canonical.cases) (simp_all add: vcek_kind_def vcek_url_def)

lemma url_piece_canonical:
  assumes "hexes_ok V" "nameable i"
  shows "url_piece V (url_of V i) = Some (canonical i)"
proof -
  note c = canonical_candidate [OF assms] and u = canonical_url [OF assms(2), of V]
  show ?thesis
    unfolding url_piece_def
  proof (rule find_unique)
    show "canonical i \<in> set (candidates V (url_of V i))" by (rule c)
    show "url_of V (canonical i) = url_of V i" by (rule u)
    show "j = canonical i" if "j \<in> set (candidates V (url_of V i))" "url_of V j = url_of V i" for j
      by (rule candidate_unique [OF that(1) c that(2) u])
  qed
qed

section \<open>Serving\<close>

text \<open>C33: What is served under a URL is the piece the URL names: every piece a client can
  ask for has a URL that names it and no other piece, and a response served there is the
  one of that URL and verified as that piece (a Turin chip is named by its first eight
  bytes).\<close>

theorem served_is_the_named_piece:
  assumes "hexes_ok V" "nameable i"
    and "serve V (url_of V i) now s w = (ServedPiece (url, body, chain) shared src, s', w')"
  shows "url_piece V (url_of V i) = Some (canonical i) \<and> url = url_of V i \<and> verified_as V (canonical i) body chain"
proof -
  note u = url_piece_canonical [OF assms(1,2)]
  from assms(3) u have "serve_piece V (canonical i) now s w = (ServedPiece (url, body, chain) shared src, s', w')"
    by (simp add: serve_def)
  from serve_piece_verified [OF this] canonical_url [OF assms(2), of V] u show ?thesis by simp
qed

definition toy_serving ::
  "(unit, unit, unit, unit, unit, unit, unit, unit, unit, unit, unit, nat) libs" where
  "toy_serving = toy_libs\<lparr>vf_snp := toy_snp_lib\<lparr>sn_hex := hex16\<rparr>, vf_dcap := toy_dcap\<lparr>dc_hex := hex16\<rparr>,
     vf_gce := toy_gce\<lparr>gl_hex := hex16\<rparr>\<rparr>"

lemma toy_serving_hexes: "hexes_ok toy_serving"
  by (simp add: hexes_ok_def toy_serving_def hex16_ok)

lemma toy_served:
  "\<exists>body chain src. fst (serve toy_serving builtin_jwks_url 50 toy_store 0) = ServedPiece (builtin_jwks_url, body, chain) True src"
proof -
  have n: "nameable (NrasJwksId builtin_jwks_url)" by simp
  have e: "vf_jws toy_serving = toy_jws" "vf_store toy_serving = toy_se" by (simp_all add: toy_serving_def toy_libs_def)
  let ?v = "view toy_store [] default_floors True"
  obtain body ch where held: "st_held toy_store builtin_jwks_url = Some (body, Some ch)"
    by (simp add: toy_store_def)
  then have "best_of (nras_jwks_kind toy_jws) builtin_jwks_url None
      (on_hand toy_se (nras_jwks_kind toy_jws) builtin_jwks_url (piece_url (nras_jwks_kind toy_jws) builtin_jwks_url) ?v 0) =
      Inr (Some (\<lparr>nj_jwks = toy_jwks_set\<rparr>, body, Some ch, Held))"
    by (simp add: on_hand_def view_def responses_of_def toy_jwks_verifies newer_than_best_def is_none_or_def)
  from lookup_on_hand [OF this, of 50]
  have "\<exists>u. lookup toy_se (nras_jwks_kind toy_jws) builtin_jwks_url 50 ?v 0 = (Inr (\<lparr>nj_jwks = toy_jwks_set\<rparr>, u),
      record_used builtin_jwks_url body (Some ch) ?v, 0)"
    by (simp add: passes_def acceptable_iff nras_jwks_kind_def no_dates_def is_none_or_def)
  then obtain u where "lookup toy_se (nras_jwks_kind toy_jws) builtin_jwks_url 50 ?v 0 = (Inr (\<lparr>nj_jwks = toy_jwks_set\<rparr>, u),
      record_used builtin_jwks_url body (Some ch) ?v, 0)" by blast
  then have "fst (raw toy_se (nras_jwks_kind toy_jws) builtin_jwks_url 50 True toy_store 0) =
      ServedPiece (builtin_jwks_url, body, Some ch) True (cu_from u)"
    by (simp add: raw_def) (simp add: view_def record_used_def used_def)
  then have "fst (serve toy_serving builtin_jwks_url 50 toy_store 0) =
      ServedPiece (builtin_jwks_url, body, Some ch) True (cu_from u)"
    using url_piece_canonical [OF toy_serving_hexes n] by (simp add: serve_def e)
  then show ?thesis by blast
qed

theorem served_is_the_named_piece_witness:
  "\<exists>body chain src. fst (serve toy_serving builtin_jwks_url 50 toy_store 0) = ServedPiece (builtin_jwks_url, body, chain) True src
    \<and> url_piece toy_serving builtin_jwks_url = Some (NrasJwksId builtin_jwks_url)
    \<and> verified_as toy_serving (NrasJwksId builtin_jwks_url) body chain"
proof -
  obtain body chain src s' w' where "serve toy_serving (url_of toy_serving (NrasJwksId builtin_jwks_url)) 50 toy_store 0 =
      (ServedPiece (builtin_jwks_url, body, chain) True src, s', w')"
    using toy_served by (auto simp: prod_eq_iff toy_serving_def)
  from served_is_the_named_piece [OF toy_serving_hexes _ this] this show ?thesis by auto
qed

end
