(* ===== verification/CacheServer.thy ===== *)
theory CacheServer
  imports Serve
begin

text \<open>
  \<open>crates/attestation-cache\<close>: the server that hands on verified vendor responses at
  \<open>GET /{vendor host}/{vendor path}\<close>. The state is the context with its store, the URLs
  kept fresh, the URLs being fetched now and whether the server is ready. A handler gives
  its answer with the source of the piece it served, which the code logs. What two
  requests share while both wait is the step relation at the end: a request is admitted,
  then answered or dropped, and a sweep looks at the known pieces one by one.
\<close>

section \<open>Configuration\<close>

record cache_config =
  cf_dir :: string
  cf_upstream :: "string option"
  cf_listen :: string
  cf_vsock_port :: "nat option"
  cf_warm :: "string list"
  cf_upstream_key :: "string option"
  cf_keys :: "string list"

definition default_cache_config :: cache_config where
  "default_cache_config = \<lparr>cf_dir = ''/var/lib/attestation-cache'', cf_upstream = None,
     cf_listen = ''127.0.0.1:8455'', cf_vsock_port = None, cf_warm = [], cf_upstream_key = None, cf_keys = []\<rparr>"

text \<open>\<open>load_config\<close> (main.rs): the file as read, and the TOML reader.\<close>

datatype read_error = FileMissing | FileUnreadable
datatype load_error = ConfigIo read_error | ConfigToml

definition load_config ::
  "(string \<Rightarrow> cache_config option) \<Rightarrow> read_error + string \<Rightarrow> bool \<Rightarrow> load_error + cache_config" where
  "load_config toml file must_exist = (case file of
       Inr content \<Rightarrow> ok_or ConfigToml (toml content)
     | Inl e \<Rightarrow> if \<not> must_exist \<and> e = FileMissing then Inr default_cache_config else Inl (ConfigIo e))"

text \<open>\<open>Config::context\<close>; \<open>files_of\<close> is the directory's content.\<close>

definition config_context :: "nras \<Rightarrow> url_parser \<Rightarrow> (string \<Rightarrow> files) \<Rightarrow> cache_config \<Rightarrow> ctx res" where
  "config_context nr parse files_of cf =
     (let c = with_cache_dir (files_of (cf_dir cf)) (new_ctx nr) in
      case cf_upstream cf of
        Some up \<Rightarrow> and_then (with_upstream parse up c) (\<lambda>c. Inr (with_upstream_key (cf_upstream_key cf) c))
      | None \<Rightarrow> Inr (with_vendors c))"

section \<open>The cache\<close>

definition PIECE_HEADERS :: "(string \<times> string) list" where
  "PIECE_HEADERS =
     [(''/tcb?'', ''TCB-Info-Issuer-Chain''),
      (''/qe/identity'', ''SGX-Enclave-Identity-Issuer-Chain''),
      (''/pckcrl?'', ''SGX-PCK-CRL-Issuer-Chain'')]"

definition MAX_KNOWN :: nat where "MAX_KNOWN = 1024"
definition MAX_COLD :: nat where "MAX_COLD = 16"
definition BUSY_RETRY_AFTER :: nat where "BUSY_RETRY_AFTER = 5"

record cache =
  ca_ctx :: ctx
  ca_known :: "string set"
  ca_cold :: "string set"
  ca_keys :: "string list"
  ca_ready :: bool

definition new_cache :: "ctx \<Rightarrow> string list \<Rightarrow> cache" where
  "new_cache c warm = \<lparr>ca_ctx = c, ca_known = set warm, ca_cold = {}, ca_keys = [], ca_ready = False\<rparr>"

definition with_keys :: "string list \<Rightarrow> cache \<Rightarrow> cache" where
  "with_keys ks c = c\<lparr>ca_keys := ks\<rparr>"

definition set_ready :: "cache \<Rightarrow> cache" where
  "set_ready c = c\<lparr>ca_ready := True\<rparr>"

definition remember :: "string \<Rightarrow> cache \<Rightarrow> cache" where
  "remember url c = (if card (ca_known c) < MAX_KNOWN then c\<lparr>ca_known := insert url (ca_known c)\<rparr> else c)"

text \<open>\<open>cache.ctx.store().serve(url, cache.ctx.now())\<close>.\<close>

definition cache_serve ::
  "('k, 's, 'rk, 'rs, 'key, 'sig, 'grk, 'grs, 'nk, 'ns, 'pem, 'w) libs \<Rightarrow> string \<Rightarrow> cache \<Rightarrow> 'w
     \<Rightarrow> served \<times> cache \<times> 'w" where
  "cache_serve V url c w =
     (let (r, s, w) = serve V url (ctx_now (vf_utc V) (ca_ctx c) w) (cx_store (ca_ctx c)) w
      in (r, c\<lparr>ca_ctx := (ca_ctx c)\<lparr>cx_store := s\<rparr>\<rparr>, w))"

definition is_piece :: "served \<Rightarrow> bool" where
  "is_piece r = (case r of ServedPiece _ _ _ \<Rightarrow> True | _ \<Rightarrow> False)"

text \<open>One round of \<open>keep_fresh\<close>.\<close>

fun sweep_urls ::
  "('k, 's, 'rk, 'rs, 'key, 'sig, 'grk, 'grs, 'nk, 'ns, 'pem, 'w) libs \<Rightarrow> string list \<Rightarrow> bool \<Rightarrow> cache \<Rightarrow> 'w
     \<Rightarrow> bool \<times> cache \<times> 'w" where
  "sweep_urls V [] any c w = (any, c, w)"
| "sweep_urls V (url # urls) any c w =
     (let (r, c, w) = cache_serve V url c w in sweep_urls V urls (any \<or> is_piece r) c w)"

definition sweep ::
  "('k, 's, 'rk, 'rs, 'key, 'sig, 'grk, 'grs, 'nk, 'ns, 'pem, 'w) libs \<Rightarrow> cache \<Rightarrow> 'w \<Rightarrow> cache \<times> 'w" where
  "sweep V c w =
     (let urls = sorted_list_of_set (ca_known c);
          (any, c, w) = sweep_urls V urls (urls = []) c w
      in (if any then set_ready c else c, w))"

section \<open>Requests\<close>

datatype http_method = HttpGet | HttpOptions | HttpOther

text \<open>\<open>hq_authorization\<close> is the header's bytes.\<close>

record http_request =
  hq_method :: http_method
  hq_path :: string
  hq_query :: "string option"
  hq_authorization :: "bytes option"

record http_response =
  hr_status :: nat
  hr_headers :: "string \<rightharpoonup> bytes"
  hr_body :: bytes

definition http_status :: "nat \<Rightarrow> string \<Rightarrow> http_response" where
  "http_status code detail = \<lparr>hr_status = code, hr_headers = Map.empty, hr_body = str_bytes detail\<rparr>"

definition header_insert :: "string \<Rightarrow> string \<Rightarrow> http_response \<Rightarrow> http_response" where
  "header_insert name v r = r\<lparr>hr_headers := (hr_headers r)(name \<mapsto> str_bytes v)\<rparr>"

definition authorized :: "string list \<Rightarrow> bytes option \<Rightarrow> bool" where
  "authorized ks header =
     (if ks = [] then True
      else
        let sent = (case Option.bind (Option.bind header header_str) (strip_prefix ''Bearer '') of
              Some v \<Rightarrow> v | None \<Rightarrow> [])
        in foldl (\<lambda>found key. found \<or> constant_time_eq (str_bytes key) (str_bytes sent)) False ks)"

definition upper_hex :: "nat \<Rightarrow> char" where
  "upper_hex n = ''0123456789ABCDEF'' ! n"

definition unreserved :: "char \<Rightarrow> bool" where
  "unreserved c = (let n = of_char c :: nat in
     65 \<le> n \<and> n \<le> 90 \<or> 97 \<le> n \<and> n \<le> 122 \<or> 48 \<le> n \<and> n \<le> 57 \<or> c \<in> {CHR ''-'', CHR ''.'', CHR ''_'', CHR ''~''})"

definition percent_encode :: "string \<Rightarrow> string" where
  "percent_encode s = concat (map (\<lambda>c. if unreserved c then [c]
     else [CHR ''%'', upper_hex (of_char c div 16), upper_hex (of_char c mod 16)]) s)"

text \<open>\<open>HeaderValue::from_str\<close>: visible text and tabs.\<close>

definition header_from_str :: "string \<Rightarrow> string option" where
  "header_from_str s = (if list_all (\<lambda>b. 32 \<le> b \<and> b \<noteq> 127 \<or> b = 9) (str_bytes s) then Some s else None)"

definition request_url :: "http_request \<Rightarrow> string" where
  "request_url rq = (case hq_query rq of
       Some query \<Rightarrow> ''https:/'' @ hq_path rq @ ''?'' @ query
     | None \<Rightarrow> ''https:/'' @ hq_path rq)"

text \<open>The first half of \<open>answer\<close>, up to the fetch: whether the request may go on, and
  whether it is the one that holds the URL in \<open>cold\<close>.\<close>

definition admit :: "string \<Rightarrow> cache \<Rightarrow> (http_response + bool) \<times> cache" where
  "admit url c =
     (if holds (cx_store (ca_ctx c)) url then (Inr False, c)
      else if card (ca_cold c) \<ge> MAX_COLD \<and> url \<notin> ca_cold c
      then (Inl (header_insert ''retry-after'' (dec_string BUSY_RETRY_AFTER) (http_status 503 ''busy'')), c)
      else (Inr (url \<notin> ca_cold c), c\<lparr>ca_cold := insert url (ca_cold c)\<rparr>))"

text \<open>\<open>Fetching\<close> dropped.\<close>

definition release :: "string \<Rightarrow> bool \<Rightarrow> cache \<Rightarrow> cache" where
  "release url fetching c = (if fetching then c\<lparr>ca_cold := ca_cold c - {url}\<rparr> else c)"

definition piece_response :: "string \<Rightarrow> bytes \<Rightarrow> string option \<Rightarrow> http_response res" where
  "piece_response url body chain =
     (let r = \<lparr>hr_status = 200, hr_headers = Map.empty, hr_body = body\<rparr>;
          name = map_option snd (find (\<lambda>(path, _). contains_str path url) PIECE_HEADERS)
      in case (name, chain) of
           (Some name, Some chain) \<Rightarrow> (case header_from_str (percent_encode chain) of
               Some v \<Rightarrow> Inr (header_insert name v r)
             | None \<Rightarrow> Inl Panicked)
         | _ \<Rightarrow> Inr r)"

text \<open>The second half of \<open>answer\<close>.\<close>

definition serve_answer ::
  "('k, 's, 'rk, 'rs, 'key, 'sig, 'grk, 'grs, 'nk, 'ns, 'pem, 'w) libs \<Rightarrow> string \<Rightarrow> cache \<Rightarrow> 'w
     \<Rightarrow> (http_response \<times> source option) res \<times> cache \<times> 'w" where
  "serve_answer V url c w =
     (let (r, c, w) = cache_serve V url c w in
      case r of
        ServedPiece (_, body, chain) shared from \<Rightarrow>
          let c = set_ready c;
              c = (if shared then remember url c else c)
          in (and_then (piece_response url body chain) (\<lambda>resp. Inr (resp, Some from)), c, w)
      | ServedNotPublished why \<Rightarrow> (Inr (http_status 404 why, None), c, w)
      | ServedUnknown \<Rightarrow> (Inr (http_status 404 ''not a collateral URL'', None), c, w)
      | ServedRefused why \<Rightarrow> (Inr (http_status 502 why, None), c, w)
      | ServedUnavailable retry_after detail \<Rightarrow>
          (Inr ((case retry_after of
               Some seconds \<Rightarrow> header_insert ''retry-after'' (dec_string seconds) (http_status 503 detail)
             | None \<Rightarrow> http_status 503 detail), None), c, w))"

definition answer ::
  "('k, 's, 'rk, 'rs, 'key, 'sig, 'grk, 'grs, 'nk, 'ns, 'pem, 'w) libs \<Rightarrow> http_request \<Rightarrow> cache \<Rightarrow> 'w
     \<Rightarrow> (http_response \<times> source option) res \<times> cache \<times> 'w" where
  "answer V rq c w =
     (let url = request_url rq in
      case admit url c of
        (Inl busy, c) \<Rightarrow> (Inr (busy, None), c, w)
      | (Inr fetching, c) \<Rightarrow>
          let (r, c, w) = serve_answer V url c w in (r, release url fetching c, w))"

definition preflight :: http_response where
  "preflight = header_insert ''access-control-allow-headers'' ''Authorization''
     (header_insert ''access-control-allow-methods'' ''GET'' (http_status 204 []))"

text \<open>What every response gets.\<close>

definition cors :: "http_response \<Rightarrow> http_response" where
  "cors resp = header_insert ''access-control-expose-headers''
     ''TCB-Info-Issuer-Chain, SGX-Enclave-Identity-Issuer-Chain, SGX-PCK-CRL-Issuer-Chain''
     (header_insert ''access-control-allow-origin'' ''*'' resp)"

definition handle ::
  "('k, 's, 'rk, 'rs, 'key, 'sig, 'grk, 'grs, 'nk, 'ns, 'pem, 'w) libs \<Rightarrow> http_request \<Rightarrow> cache \<Rightarrow> 'w
     \<Rightarrow> (http_response \<times> source option) res \<times> cache \<times> 'w" where
  "handle V rq c w =
     (let ready = ca_ready c;
          (r, c, w) =
            (if hq_method rq = HttpOptions
             then (Inr (preflight, None), c, w)
             else if hq_method rq \<noteq> HttpGet then (Inr (http_status 405 ''GET only'', None), c, w)
             else if hq_path rq = ''/health'' then (Inr (http_status 200 ''ok'', None), c, w)
             else if hq_path rq = ''/ready'' then
               (Inr (if ready then http_status 200 ''ready'' else http_status 503 ''warming up'', None), c, w)
             else if \<not> authorized (ca_keys c) (hq_authorization rq)
             then (Inr (http_status 401 ''a bearer key is required'', None), c, w)
             else answer V rq c w)
      in (and_then r (\<lambda>(resp, from). Inr (cors resp, from)), c, w))"

section \<open>Requests at the same time\<close>

text \<open>The requests that were admitted and not answered yet, each with the URL, whether it is cold (its
  piece was not in memory when it came and has not come there since, so it fetches it or waits for the
  fetch) and whether it holds the URL. A connection may be closed while its request waits, and the
  memory may evict a piece.\<close>

type_synonym in_flight = "(string \<times> bool \<times> bool) list"

definition arrived :: "cache \<Rightarrow> in_flight \<Rightarrow> in_flight" where
  "arrived c fl = map (\<lambda>(url, cold, fetching). (url, cold \<and> \<not> holds (cx_store (ca_ctx c)) url, fetching)) fl"

definition evict_piece :: "string \<Rightarrow> cache \<Rightarrow> cache" where
  "evict_piece url c = c\<lparr>ca_ctx := map_native (\<lambda>n. n\<lparr>mem := (mem n)(url := None)\<rparr>) (ca_ctx c)\<rparr>"

inductive server_step ::
  "('k, 's, 'rk, 'rs, 'key, 'sig, 'grk, 'grs, 'nk, 'ns, 'pem, 'w) libs
     \<Rightarrow> cache \<times> in_flight \<times> 'w \<Rightarrow> cache \<times> in_flight \<times> 'w \<Rightarrow> bool"
  for V where
  admitted: "admit url c = (Inr fetching, c') \<Longrightarrow>
    server_step V (c, fl, w) (c', (url, \<not> holds (cx_store (ca_ctx c)) url, fetching) # fl, w)"
| turned_away: "admit url c = (Inl busy, c') \<Longrightarrow> server_step V (c, fl, w) (c', fl, w)"
| answered: "fl = before @ (url, cold, fetching) # after \<Longrightarrow> serve_answer V url c w = (r, c', w') \<Longrightarrow>
    server_step V (c, fl, w) (release url fetching c', arrived c' (before @ after), w')"
| closed: "fl = before @ (url, cold, fetching) # after \<Longrightarrow>
    server_step V (c, fl, w) (release url fetching c, before @ after, w)"
| looked_at: "url \<in> ca_known c \<Longrightarrow> cache_serve V url c w = (r, c', w') \<Longrightarrow>
    server_step V (c, fl, w) (if is_piece r then set_ready c' else c', arrived c' fl, w')"
| nothing_to_warm: "ca_known c = {} \<Longrightarrow> server_step V (c, fl, w) (set_ready c, fl, w)"
| evicted: "server_step V (c, fl, w) (evict_piece url c, fl, w)"

inductive_cases server_stepE: "server_step V (c, fl, w) (c', fl', w')"

inductive server_reaches ::
  "('k, 's, 'rk, 'rs, 'key, 'sig, 'grk, 'grs, 'nk, 'ns, 'pem, 'w) libs \<Rightarrow> cache
     \<Rightarrow> cache \<times> in_flight \<times> 'w \<Rightarrow> bool"
  for V c0 where
  start: "server_reaches V c0 (c0, [], w)"
| step: "server_reaches V c0 x \<Longrightarrow> server_step V x y \<Longrightarrow> server_reaches V c0 y"

end
