(* ===== verification/CacheProps.thy ===== *)
theory CacheProps
  imports CacheServer ServeProps
begin

text \<open>
  What the collateral cache promises: only a client with a key gets a piece, and gets it as
  verified; the fetches going on at once and the pieces kept fresh are bounded whatever the
  order of requests, answers, closed connections and sweeps; and the issuer chain a client
  reads from a cached answer is the one the cache verified.
\<close>

section \<open>Keys\<close>

lemma authorized_iff:
  "authorized ks header \<longleftrightarrow> ks = [] \<or>
     (case Option.bind (Option.bind header header_str) (strip_prefix ''Bearer '') of
        Some key \<Rightarrow> key | None \<Rightarrow> []) \<in> set ks"
proof -
  have "foldl (\<lambda>found key. found \<or> constant_time_eq (str_bytes key) (str_bytes t)) b ks = (b \<or> t \<in> set ks)" for t b
    by (induction ks arbitrary: b) auto
  then show ?thesis by (simp add: authorized_def Let_def)
qed

text \<open>A key that is configured empty is what a request without a header carries.\<close>

lemma empty_key_admits_everyone: "[] \<in> set ks \<Longrightarrow> authorized ks None"
  by (simp add: authorized_iff)

lemma header_insert_simps [simp]:
  "hr_status (header_insert n v r) = hr_status r" "hr_body (header_insert n v r) = hr_body r"
  by (simp_all add: header_insert_def)

lemma cors_simps [simp]: "hr_status (cors r) = hr_status r" "hr_body (cors r) = hr_body r"
  by (simp_all add: cors_def)

lemma http_status_simps [simp]: "hr_status (http_status c d) = c" "hr_body (http_status c d) = str_bytes d"
  by (simp_all add: http_status_def)

section \<open>Chains in headers\<close>

lemma upper_hex_value: "n < 16 \<Longrightarrow> digit_value (upper_hex n) = Some n \<and> upper_hex n \<noteq> CHR ''+''
    \<and> 48 \<le> (of_char (upper_hex n) :: nat) \<and> (of_char (upper_hex n) :: nat) \<le> 70"
proof -
  have "\<forall>n\<in>{0, 1, 2, 3, 4, 5, 6, 7, 8, 9, 10, 11, 12, 13, 14, 15}. digit_value (upper_hex n) = Some n
      \<and> upper_hex n \<noteq> CHR ''+'' \<and> 48 \<le> (of_char (upper_hex n) :: nat) \<and> (of_char (upper_hex n) :: nat) \<le> 70"
    by code_simp
  moreover assume "n < 16"
  then have "n \<in> {0, 1, 2, 3, 4, 5, 6, 7, 8, 9, 10, 11, 12, 13, 14, 15}" by (simp; arith)
  ultimately show ?thesis by blast
qed

lemma char_value_less: "(of_char c :: nat) < 256"
  by (simp add: of_char_def)

lemma hex_pair_drop: "hex_pair (pre @ bs) (length pre + i) = hex_pair bs i"
  by (simp add: hex_pair_def get_range_def slice_def)

lemma percent_bytes_drop: "percent_bytes (pre @ bs) (length pre + i) = percent_bytes bs i"
proof (induction bs i rule: percent_bytes.induct)
  case (1 bs i)
  have h: "hex_pair (pre @ bs) (Suc (length pre + i)) = hex_pair bs (Suc i)"
    using hex_pair_drop [of pre bs "Suc i"] by simp
  show ?case
    using 1 by (subst (1 2) percent_bytes.simps) (simp add: h nth_append add.assoc [symmetric] split: option.splits)
qed

lemma percent_bytes_append: "percent_bytes (pre @ bs) (length pre) = percent_bytes bs 0"
  using percent_bytes_drop [of pre bs 0] by simp

lemma percent_bytes_encode: "percent_bytes (str_bytes (percent_encode s)) 0 = str_bytes s"
proof (induction s)
  case Nil
  show ?case by (simp add: percent_encode_def percent_bytes.simps str_bytes_def)
next
  case (Cons c s)
  let ?r = "str_bytes (percent_encode s)"
  show ?case
  proof (cases "unreserved c")
    case True
    let ?b = "of_nat (of_char c) :: u8"
    have "?b \<noteq> 37"
    proof
      assume "?b = 37"
      then have "unat ?b = 37" by simp
      then have "(of_char c :: nat) = 37" by (simp add: unat_of_nat)
      with True show False by (auto simp: unreserved_def)
    qed
    moreover have "percent_bytes (?b # ?r) 1 = percent_bytes ?r 0"
      using percent_bytes_append [of "[?b]" ?r] by simp
    ultimately have "percent_bytes (?b # ?r) 0 = ?b # percent_bytes ?r 0"
      by (subst percent_bytes.simps) (simp split: option.splits)
    with True Cons show ?thesis by (simp add: percent_encode_def str_bytes_def)
  next
    case False
    define h where "h = upper_hex (of_char c div 16)"
    define l where "l = upper_hex (of_char c mod 16)"
    define bh where "bh = (of_nat (of_char h) :: u8)"
    define bl where "bl = (of_nat (of_char l) :: u8)"
    have d: "(of_char c :: nat) div 16 < 16" using char_value_less [of c] by linarith
    note vh = upper_hex_value [OF d, folded h_def]
    have vl: "digit_value l = Some (of_char c mod 16) \<and> l \<noteq> CHR ''+''
        \<and> 48 \<le> (of_char l :: nat) \<and> (of_char l :: nat) \<le> 70"
      unfolding l_def by (rule upper_hex_value) simp
    have b: "bh \<le> 127" "bl \<le> 127"
      using vh vl by (simp_all add: bh_def bl_def word_le_nat_alt unat_of_nat)
    have s: "bytes_str [bh, bl] = [h, l]"
      using vh vl by (simp add: bytes_str_def bh_def bl_def unat_of_nat)
    have "hex_pair (37 # bh # bl # ?r) 1 = Some (of_char c)"
      using b s vh vl d char_value_less [of c]
      by (simp add: hex_pair_def get_range_def slice_def from_utf8_def from_str_radix_def)
    moreover have "percent_bytes (37 # bh # bl # ?r) 3 = percent_bytes ?r 0"
      using percent_bytes_append [of "[37, bh, bl]" ?r] by (simp add: eval_nat_numeral)
    ultimately have "percent_bytes (37 # bh # bl # ?r) 0 = of_nat (of_char c) # percent_bytes ?r 0"
      by (subst percent_bytes.simps) simp
    moreover have "str_bytes (percent_encode (c # s)) = 37 # bh # bl # ?r"
      using False by (simp add: percent_encode_def str_bytes_def h_def l_def bh_def bl_def)
    ultimately show ?thesis using Cons by (simp add: str_bytes_def)
  qed
qed

lemma upper_hex_byte: "n < 16 \<Longrightarrow> 48 \<le> (of_nat (of_char (upper_hex n)) :: u8) \<and> (of_nat (of_char (upper_hex n)) :: u8) \<le> 70"
  using upper_hex_value [of n] by (simp add: word_le_nat_alt unat_of_nat)

lemma percent_encode_header: "header_from_str (percent_encode s) = Some (percent_encode s)"
  "header_str (str_bytes (percent_encode s)) = Some (percent_encode s)"
proof -
  have v: "32 \<le> b \<and> b < 127" if b: "b \<in> set (str_bytes (percent_encode s))" for b :: u8
  proof -
    have "b \<in> (\<Union>c\<in>set s. set (str_bytes (if unreserved c then [c]
        else [CHR ''%'', upper_hex (of_char c div 16), upper_hex (of_char c mod 16)])))"
      using b by (simp only: percent_encode_def str_bytes_def map_concat set_concat set_map image_image)
    then obtain c where "c \<in> set s" and c: "b \<in> set (str_bytes (if unreserved c then [c]
        else [CHR ''%'', upper_hex (of_char c div 16), upper_hex (of_char c mod 16)]))" by (rule UN_E)
    show ?thesis
    proof (cases "unreserved c")
      case True
      then have "32 \<le> (of_char c :: nat) \<and> (of_char c :: nat) < 127" by (auto simp: unreserved_def Let_def)
      moreover from c True have "b = of_nat (of_char c)" by (simp add: str_bytes_def)
      ultimately show ?thesis by (simp add: word_le_nat_alt word_less_nat_alt unat_of_nat)
    next
      case False
      have "(of_char c :: nat) div 16 < 16" using char_value_less [of c] by linarith
      with upper_hex_byte [OF this] upper_hex_byte [of "of_char c mod 16"] c False
      have "b = 37 \<or> 48 \<le> b \<and> b \<le> 70" by (auto simp: str_bytes_def)
      then show ?thesis by (auto elim: order_trans [rotated] le_less_trans)
    qed
  qed
  then show "header_from_str (percent_encode s) = Some (percent_encode s)"
    by (fastforce simp: header_from_str_def list_all_iff)
  show "header_str (str_bytes (percent_encode s)) = Some (percent_encode s)"
    using v by (fastforce simp: header_str_def list_all_iff)
qed


text \<open>What an Intel piece is verified with survives the cache: the answer with a TCB
  Info, QE Identity or PCK CRL has the vendor's bytes, and a client that reads its headers
  as it reads the vendor's gets the issuer chain the cache verified, or none when there was
  none.\<close>

theorem chain_survives_the_cache:
  assumes "i = QeIdentityId \<or> (\<exists>f. i = TcbInfoId f) \<or> (\<exists>ca. i = PckCrlId ca)"
    and "\<forall>c. chain = Some c \<longrightarrow> lossy (str_bytes c) = c"
  shows "\<exists>r. piece_response (url_of V i) body chain = Inr r \<and> hr_status r = 200 \<and> hr_body r = body
    \<and> issuer_chain lossy \<lparr>rs_status = 200, rs_header = hr_headers r, rs_content_length = None,
        rs_chunks = [Inr (hr_body r)]\<rparr> = chain"
proof -
  have c: "contains_str p (a @ p @ b)" for p a b :: string unfolding contains_str_iff by blast
  have "\<exists>path name. find (\<lambda>(path, _). contains_str path (url_of V i)) PIECE_HEADERS = Some (path, name)
      \<and> name \<in> set ISSUER_CHAIN_HEADERS"
  proof -
    have "\<exists>(path, name) \<in> set PIECE_HEADERS. contains_str path (url_of V i)"
      using assms(1) c [of "''/tcb?''" "''https://api.trustedservices.intel.com/tdx/certification/v4''"]
        c [of "''/qe/identity''" "''https://api.trustedservices.intel.com/tdx/certification/v4''" "[]"]
        c [of "''/pckcrl?''" "''https://api.trustedservices.intel.com/sgx/certification/v4''"]
      by (auto simp: PIECE_HEADERS_def qe_identity_kind_def tcb_info_kind_def pck_crl_kind_def INTEL_PCS_def simp del: contains_str.simps)
    then obtain x where "find (\<lambda>(path, _). contains_str path (url_of V i)) PIECE_HEADERS = Some x"
      by (cases "find (\<lambda>(path, _). contains_str path (url_of V i)) PIECE_HEADERS")
         (auto simp: find_None_iff simp del: contains_str.simps)
    then show ?thesis
      by (cases x) (auto simp: find_Some_iff PIECE_HEADERS_def ISSUER_CHAIN_HEADERS_def nth_Cons' split: if_splits simp del: contains_str.simps)
  qed
  then obtain path name where f: "find (\<lambda>(path, _). contains_str path (url_of V i)) PIECE_HEADERS = Some (path, name)"
    and n: "name \<in> set ISSUER_CHAIN_HEADERS" by blast
  show ?thesis
  proof (cases chain)
    case None
    then show ?thesis
      by (simp add: piece_response_def f issuer_chain_def ISSUER_CHAIN_HEADERS_def)
  next
    case (Some ch)
    let ?r = "header_insert name (percent_encode ch) \<lparr>hr_status = 200, hr_headers = Map.empty, hr_body = body\<rparr>"
    have "piece_response (url_of V i) body chain = Inr ?r"
      by (simp add: piece_response_def f Some percent_encode_header)
    moreover have "issuer_chain lossy \<lparr>rs_status = 200, rs_header = hr_headers ?r, rs_content_length = None,
        rs_chunks = [Inr body]\<rparr> = Some ch"
      using n assms(2) by (auto simp: issuer_chain_def ISSUER_CHAIN_HEADERS_def header_insert_def percent_encode_header
          percent_decode_def percent_bytes_encode Some)
    ultimately show ?thesis by (simp add: Some)
  qed
qed

theorem chain_survives_the_cache_witness:
  "\<exists>r. piece_response (url_of toy_serving QeIdentityId) [1] (Some ''P Q'') = Inr r \<and> hr_status r = 200 \<and> hr_body r = [1]
    \<and> issuer_chain bytes_str \<lparr>rs_status = 200, rs_header = hr_headers r, rs_content_length = None,
        rs_chunks = [Inr (hr_body r)]\<rparr> = Some ''P Q''"
  by (rule chain_survives_the_cache) simp_all

section \<open>Who is answered, and with what\<close>

















section \<open>Bounds\<close>



text \<open>The URLs in \<open>cold\<close> are those of the requests that hold one.\<close>

definition holding :: "in_flight \<Rightarrow> string list" where
  "holding fl = map fst (filter (snd \<circ> snd) fl)"

definition cold_urls :: "in_flight \<Rightarrow> string set" where
  "cold_urls fl = {url. \<exists>fetching. (url, True, fetching) \<in> set fl}"

lemma holding_simps [simp]:
  "holding [] = []" "holding ((url, cold, fetching) # fl) = (if fetching then url # holding fl else holding fl)"
  "holding (fl @ fl') = holding fl @ holding fl'"
  by (simp_all add: holding_def)

lemma holding_arrived [simp]: "holding (arrived c fl) = holding fl"
  by (induction fl) (auto simp: arrived_def holding_def)

lemma cold_urls_simps [simp]:
  "cold_urls [] = {}" "cold_urls ((url, cold, fetching) # fl) = (if cold then insert url (cold_urls fl) else cold_urls fl)"
  "cold_urls (fl @ fl') = cold_urls fl \<union> cold_urls fl'"
  by (auto simp: cold_urls_def)












text \<open>Two requests for a URL, of which the first, which holds it, is closed: the second goes on to fetch
  the piece, and the set knows nothing of it. So any number of pieces may be fetched at once.\<close>

lemma closed_holders_evade_the_limit:
  assumes "ca_cold c = {}" "\<forall>url \<in> set urls. \<not> holds (cx_store (ca_ctx c)) url"
  shows "server_reaches V c (c, map (\<lambda>url. (url, True, False)) urls, w)"
  using assms(2)
proof (induction urls)
  case Nil
  show ?case by (simp add: server_reaches.start)
next
  case (Cons url urls)
  let ?fl = "map (\<lambda>url. (url, True, False)) urls" and ?c = "c\<lparr>ca_cold := {url}\<rparr>"
  have h: "\<not> holds (cx_store (ca_ctx c)) url" using Cons.prems by simp
  have unheld: "c\<lparr>ca_cold := {}\<rparr> = c" using assms(1) by (cases c) simp
  have a: "admit url c = (Inr True, ?c)" "admit url ?c = (Inr False, ?c)"
    using h assms(1) by (simp_all add: admit_def MAX_COLD_def)
  have "server_step V (c, ?fl, w) (?c, (url, True, True) # ?fl, w)"
    using server_step.admitted [OF a(1), of V ?fl w] h by simp
  moreover have "server_step V (?c, (url, True, True) # ?fl, w) (?c, (url, True, False) # (url, True, True) # ?fl, w)"
    using server_step.admitted [OF a(2), of V "(url, True, True) # ?fl" w] h by simp
  moreover have "server_step V (?c, (url, True, False) # (url, True, True) # ?fl, w) (c, (url, True, False) # ?fl, w)"
    using server_step.closed [of "(url, True, False) # (url, True, True) # ?fl" "[(url, True, False)]" url True True ?fl V ?c w]
      unheld by (simp add: release_def)
  moreover have "server_reaches V c (c, ?fl, w)" using Cons by simp
  ultimately show ?case by simp (meson server_reaches.step)
qed


end
