(* ===== verification/Machine.thy ===== *)
theory Machine
  imports X509 Json
begin

text \<open>
  The machine that evidence is generated on, as far as the code drives it: files, the
  environment, devices and sockets. Each is a parameter, a function of the machine's state that
  gives an answer and the next state; the code that drives them is translated over these.
  Logging is left out.
\<close>

section \<open>Actions\<close>

datatype io_error = NotFound | OtherIo

type_synonym ('a, 'm) io = "'m \<Rightarrow> (io_error + 'a) \<times> 'm"
type_synonym ('a, 'm) act = "'m \<Rightarrow> 'a res \<times> 'm"

text \<open>\<open>?\<close> on a call that changes the machine, and on one that does not.\<close>

definition act_then :: "('a, 'm) act \<Rightarrow> ('a \<Rightarrow> ('b, 'm) act) \<Rightarrow> ('b, 'm) act" where
  "act_then a k m = (case a m of (Inl e, m) \<Rightarrow> (Inl e, m) | (Inr x, m) \<Rightarrow> k x m)"

definition act_of :: "'a res \<Rightarrow> ('a, 'm) act" where
  "act_of r m = (r, m)"

text \<open>\<open>map_err(|e| HardwareAccessFailed(..))\<close>.\<close>

definition hw :: "string \<Rightarrow> ('a, 'm) io \<Rightarrow> ('a, 'm) act" where
  "hw what f m = (case f m of (r, m) \<Rightarrow> (map_err (\<lambda>_. HardwareAccessFailed what) r, m))"

text \<open>A value dropped when its function returns, and one dropped on the error paths only.\<close>

definition finally_do :: "('m \<Rightarrow> 'm) \<Rightarrow> ('a, 'm) act \<Rightarrow> ('a, 'm) act" where
  "finally_do f a m = (case a m of (r, m) \<Rightarrow> (r, f m))"

definition on_error :: "('m \<Rightarrow> 'm) \<Rightarrow> ('a, 'm) act \<Rightarrow> ('a, 'm) act" where
  "on_error f a m = (case a m of (Inl e, m) \<Rightarrow> (Inl e, f m) | (Inr x, m) \<Rightarrow> (Inr x, m))"

section \<open>The machine\<close>

text \<open>What the \<open>sev\<close> and \<open>az_cvm_vtpm\<close> crates return: the certificates of the host's table by
  type, and a TPM quote with the values of its SHA-256 PCRs.\<close>

datatype cert_type = VcekCert | VlekCert | AskCert | ArkCert | OtherCert

record vtpm_quote =
  vq_signature :: bytes
  vq_message :: bytes
  vq_pcrs_sha256 :: "bytes list"

text \<open>\<open>mc_drop_dir\<close> is what dropping a temporary directory does, \<open>mc_td_report\<close> the report
  ioctl of the TDX guest device, \<open>mc_vsock_timeout\<close> sets the receive (true) or send timeout in
  seconds, and \<open>mc_vsock_recv\<close> is \<open>read_exact\<close>. An HTTP request that cannot be sent says whether
  its failure is a time-out, a failed connection or a failed request; an answer has its status and
  its body, if the body arrives. \<open>mc_gpu_collect\<close> and \<open>mc_switch_collect\<close> take the nonce in
  hexadecimal and give whether the evidence is empty and its JSON; \<open>mc_sleep\<close> takes nanoseconds.\<close>

record 'm machine =
  mc_env :: "string \<Rightarrow> string option"
  mc_exists :: "string \<Rightarrow> 'm \<Rightarrow> bool"
  mc_read :: "string \<Rightarrow> (bytes, 'm) io"
  mc_write :: "string \<Rightarrow> bytes \<Rightarrow> (unit, 'm) io"
  mc_open :: "string \<Rightarrow> (unit, 'm) io"
  mc_tempdir_in :: "string \<Rightarrow> (string, 'm) io"
  mc_remove_dir :: "string \<Rightarrow> (unit, 'm) io"
  mc_drop_dir :: "string \<Rightarrow> 'm \<Rightarrow> 'm"
  mc_td_report :: "bytes \<Rightarrow> (bytes, 'm) io"
  mc_vsock_socket :: "(unit, 'm) io"
  mc_vsock_connect :: "nat \<Rightarrow> nat \<Rightarrow> (unit, 'm) io"
  mc_vsock_timeout :: "bool \<Rightarrow> nat \<Rightarrow> (unit, 'm) io"
  mc_vsock_send :: "bytes \<Rightarrow> (unit, 'm) io"
  mc_vsock_recv :: "nat \<Rightarrow> (bytes, 'm) io"
  mc_vsock_close :: "'m \<Rightarrow> 'm"
  mc_sev_open :: "(unit, 'm) io"
  mc_ext_report :: "bytes \<Rightarrow> (bytes \<times> (cert_type \<times> bytes) list option, 'm) io"
  mc_vtpm_report :: "(bytes, 'm) io"
  mc_vtpm_report_with :: "bytes \<Rightarrow> (bytes, 'm) io"
  mc_vtpm_quote :: "bytes \<Rightarrow> (vtpm_quote, 'm) io"
  mc_http_client :: "nat \<Rightarrow> nat \<Rightarrow> (unit, 'm) io"
  mc_get :: "string \<Rightarrow> (string \<times> string) list \<Rightarrow> 'm \<Rightarrow> (bool + nat \<times> bytes option) \<times> 'm"
  mc_post_json :: "string \<Rightarrow> json \<Rightarrow> (nat \<times> bytes option, 'm) io"
  mc_sleep :: "nat \<Rightarrow> 'm \<Rightarrow> 'm"
  mc_unix_connect :: "string \<Rightarrow> (unit, 'm) io"
  mc_unix_write :: "bytes \<Rightarrow> (unit, 'm) io"
  mc_unix_read :: "nat \<Rightarrow> (bytes, 'm) io"
  mc_unix_close :: "'m \<Rightarrow> 'm"
  mc_expired :: "nat \<Rightarrow> 'm \<Rightarrow> 'm \<Rightarrow> bool"
  mc_nvat_options :: "(unit, 'm) io"
  mc_nvat_init :: "(unit, 'm) io"
  mc_gpu_source :: "(unit, 'm) io"
  mc_gpu_collect :: "string \<Rightarrow> (bool \<times> string option, 'm) io"
  mc_switch_source :: "(unit, 'm) io"
  mc_switch_collect :: "string \<Rightarrow> (bool \<times> string option, 'm) io"

definition read_to_string :: "'m machine \<Rightarrow> string \<Rightarrow> (string, 'm) io" where
  "read_to_string M path m = (case mc_read M path m of
       (Inl e, m) \<Rightarrow> (Inl e, m)
     | (Inr b, m) \<Rightarrow> (ok_or OtherIo (from_utf8 b), m))"

text \<open>\<open>Path::join\<close> of a directory and a name.\<close>

definition join :: "string \<Rightarrow> string \<Rightarrow> string" where
  "join dir name = dir @ ''/'' @ name"

section \<open>Lemmas\<close>

named_theorems act_simps "what a successful action says about its steps"

lemma act_then_Inr_iff [act_simps]:
  "act_then a k m = (Inr y, m') \<longleftrightarrow> (\<exists>x m1. a m = (Inr x, m1) \<and> k x m1 = (Inr y, m'))"
  by (auto simp: act_then_def split: prod.splits sum.splits)

lemma act_of_Inr_iff [act_simps]: "act_of r m = (Inr y, m') \<longleftrightarrow> r = Inr y \<and> m' = m"
  by (auto simp: act_of_def)

lemma hw_Inr_iff [act_simps]: "hw what f m = (Inr y, m') \<longleftrightarrow> f m = (Inr y, m')"
  by (auto simp: hw_def map_err_Inr_iff split: prod.splits)

lemma on_error_Inr_iff [act_simps]: "on_error f a m = (Inr y, m') \<longleftrightarrow> a m = (Inr y, m')"
  by (auto simp: on_error_def split: prod.splits sum.splits)

lemma finally_do_Inr_iff [act_simps]:
  "finally_do f a m = (Inr y, m') \<longleftrightarrow> (\<exists>m1. a m = (Inr y, m1) \<and> m' = f m1)"
  by (auto simp: finally_do_def split: prod.splits)

end
