(* ===== verification/TdxAttest.thy ===== *)
theory TdxAttest
  imports Machine Tdx
begin

text \<open>
  \<open>crates/attestation/src/platforms/tdx/attest.rs\<close>: a TDX quote from the kernel's ConfigFS
  reports or from the quote service over vsock, and the evidence made of it. An array of the
  code is a list here; \<open>td_report_sized\<close> is what the type of the ioctl's buffer says.
\<close>

section \<open>Constants\<close>

definition TSM_REPORT_PATH :: string where "TSM_REPORT_PATH = ''/sys/kernel/config/tsm/report''"
definition TDX_GUEST_DEV :: string where "TDX_GUEST_DEV = ''/dev/tdx_guest''"
definition CCEL_DATA_PATH :: string where "CCEL_DATA_PATH = ''/sys/firmware/acpi/tables/data/CCEL''"
definition QGS_VSOCK_PORT :: nat where "QGS_VSOCK_PORT = 4050"
definition VSOCK_CID_HOST :: nat where "VSOCK_CID_HOST = 2"
definition TDREPORT_SIZE :: nat where "TDREPORT_SIZE = 1024"
definition QGS_MSG_GET_QUOTE_REQ :: nat where "QGS_MSG_GET_QUOTE_REQ = 0"
definition QGS_MSG_GET_QUOTE_RESP :: u32 where "QGS_MSG_GET_QUOTE_RESP = 1"

datatype quote_method = AutoMethod | VsockMethod | ConfigFsMethod

section \<open>Availability\<close>

definition is_tdx_provider :: "string \<Rightarrow> bool" where
  "is_tdx_provider provider = contains_str ''tdx_guest'' (str_trim provider)"

definition check_tsm_provider :: "'m machine \<Rightarrow> 'm \<Rightarrow> bool \<times> 'm" where
  "check_tsm_provider M m =
     (if \<not> mc_exists M TSM_REPORT_PATH m then (False, m)
      else (case mc_tempdir_in M TSM_REPORT_PATH m of
         (Inl _, m) \<Rightarrow> (False, m)
       | (Inr dir, m) \<Rightarrow>
           (case read_to_string M (join dir ''provider'') m of
              (provider, m) \<Rightarrow>
                (is_tdx_provider (case provider of Inr p \<Rightarrow> p | Inl _ \<Rightarrow> ''''),
                 snd (mc_remove_dir M dir m)))))"

definition tdx_is_available :: "'m machine \<Rightarrow> 'm \<Rightarrow> bool \<times> 'm" where
  "tdx_is_available M m = (case check_tsm_provider M m of
       (True, m) \<Rightarrow> (True, m)
     | (False, m) \<Rightarrow> (mc_exists M TDX_GUEST_DEV m, m))"

section \<open>ConfigFS\<close>

definition tsm_quote_in :: "'m machine \<Rightarrow> string \<Rightarrow> bytes \<Rightarrow> (bytes, 'm) act" where
  "tsm_quote_in M dir report_data =
     act_then (hw ''read TSM provider'' (read_to_string M (join dir ''provider''))) (\<lambda>provider.
     if \<not> is_tdx_provider provider then act_of (Inl (HardwareAccessFailed ''TSM provider is not tdx_guest''))
     else act_then (hw ''write inblob'' (mc_write M (join dir ''inblob'') report_data)) (\<lambda>_.
     act_then (hw ''read outblob'' (mc_read M (join dir ''outblob''))) (\<lambda>quote.
     if quote = [] then act_of (Inl (HardwareAccessFailed ''ConfigFS TSM returned an empty quote''))
     else act_then (hw ''read generation'' (read_to_string M (join dir ''generation''))) (\<lambda>gen_str.
     act_then (act_of (ok_or (HardwareAccessFailed ''parse generation'') (from_str_radix (2 ^ 32) 10 (str_trim gen_str))))
       (\<lambda>generation.
     if generation > 1 then act_of (Inl (HardwareAccessFailed ''inblob write race detected''))
     else act_of (Inr quote))))))"

definition generate_quote_tsm :: "'m machine \<Rightarrow> bytes \<Rightarrow> (bytes, 'm) act" where
  "generate_quote_tsm M report_data m =
     (if \<not> mc_exists M TSM_REPORT_PATH m then (Inl (HardwareAccessFailed ''ConfigFS TSM not available''), m)
      else act_then (hw ''create TSM report dir'' (mc_tempdir_in M TSM_REPORT_PATH)) (\<lambda>dir.
           act_then (on_error (mc_drop_dir M dir) (tsm_quote_in M dir report_data)) (\<lambda>quote m.
           (Inr quote, snd (mc_remove_dir M dir m)))) m)"

section \<open>The quote service\<close>

definition generate_tdreport :: "'m machine \<Rightarrow> bytes \<Rightarrow> (bytes, 'm) act" where
  "generate_tdreport M report_data =
     act_then (hw ''open /dev/tdx_guest'' (mc_open M TDX_GUEST_DEV)) (\<lambda>_.
     hw ''TDX_CMD_GET_REPORT0 ioctl failed'' (mc_td_report M report_data))"

definition build_qgs_get_quote_request :: "bytes \<Rightarrow> bytes" where
  "build_qgs_get_quote_request tdreport =
     (let inner_size = 16 + 4 + 4 + TDREPORT_SIZE in
      be_bytes 4 inner_size @ le_bytes 2 1 @ le_bytes 2 0 @ le_bytes 4 QGS_MSG_GET_QUOTE_REQ
        @ le_bytes 4 inner_size @ le_bytes 4 0 @ le_bytes 4 TDREPORT_SIZE @ le_bytes 4 0 @ tdreport)"

definition vsock_exchange :: "'m machine \<Rightarrow> bytes \<Rightarrow> (bytes, 'm) act" where
  "vsock_exchange M request =
     act_then (hw ''vsock connect failed'' (mc_vsock_connect M VSOCK_CID_HOST QGS_VSOCK_PORT)) (\<lambda>_.
     act_then (hw ''setsockopt SO_RCVTIMEO failed'' (mc_vsock_timeout M True 10)) (\<lambda>_.
     act_then (hw ''setsockopt SO_SNDTIMEO failed'' (mc_vsock_timeout M False 10)) (\<lambda>_.
     act_then (hw ''vsock send failed'' (mc_vsock_send M request)) (\<lambda>_.
     act_then (hw ''vsock read response size failed'' (mc_vsock_recv M 4)) (\<lambda>size_buf.
     let body_size = unat (u32_from_be_bytes size_buf) in
     if \<not> (16 \<le> body_size \<and> body_size \<le> 65536)
     then act_of (Inl (HardwareAccessFailed ''vsock response body size out of range''))
     else hw ''vsock read response body failed'' (mc_vsock_recv M body_size))))))"

definition vsock_send_receive :: "'m machine \<Rightarrow> bytes \<Rightarrow> (bytes, 'm) act" where
  "vsock_send_receive M request =
     act_then (hw ''vsock socket creation failed'' (mc_vsock_socket M)) (\<lambda>_.
     finally_do (mc_vsock_close M) (vsock_exchange M request))"

text \<open>\<open>checked_add\<close> of the two \<open>u32\<close> sizes does not overflow a 64-bit \<open>usize\<close>.\<close>

definition parse_qgs_get_quote_response :: "bytes \<Rightarrow> bytes res" where
  "parse_qgs_get_quote_response response =
     (if length response < 24 then Inl (HardwareAccessFailed ''QGS response too short'')
      else
        let major = u16_from_le_bytes (slice response 0 2);
            msg_type = u32_from_le_bytes (slice response 4 8);
            msg_size = u32_from_le_bytes (slice response 8 12);
            error_code = u32_from_le_bytes (slice response 12 16)
        in
        if major \<noteq> 1 then Inl (HardwareAccessFailed ''QGS response: unsupported major version'')
        else if msg_type \<noteq> QGS_MSG_GET_QUOTE_RESP
        then Inl (HardwareAccessFailed ''QGS response: unexpected message type'')
        else if unat msg_size \<noteq> length response
        then Inl (HardwareAccessFailed ''QGS response msg_size is not the body size'')
        else if error_code \<noteq> 0 then Inl (HardwareAccessFailed ''QGS returned an error code'')
        else
          let selected_id_size = unat (u32_from_le_bytes (slice response 16 20));
              quote_size = unat (u32_from_le_bytes (slice response 20 24))
          in
          if quote_size = 0 then Inl (HardwareAccessFailed ''QGS returned empty quote'')
          else
            let quote_offset = 24 + selected_id_size; quote_end = quote_offset + quote_size in
            if quote_end > length response then Inl (HardwareAccessFailed ''QGS response truncated'')
            else at_range response quote_offset quote_end)"

definition generate_quote_vsock :: "'m machine \<Rightarrow> bytes \<Rightarrow> (bytes, 'm) act" where
  "generate_quote_vsock M report_data =
     act_then (generate_tdreport M report_data) (\<lambda>tdreport.
     act_then (vsock_send_receive M (build_qgs_get_quote_request tdreport)) (\<lambda>qgs_response.
     act_of (parse_qgs_get_quote_response qgs_response)))"

section \<open>Evidence\<close>

definition generate_quote_auto :: "'m machine \<Rightarrow> bytes \<Rightarrow> (bytes, 'm) act" where
  "generate_quote_auto M report_data m = (case generate_quote_vsock M report_data m of
       (Inr q, m) \<Rightarrow> (Inr q, m)
     | (Inl _, m) \<Rightarrow> (case generate_quote_tsm M report_data m of
           (Inr q, m) \<Rightarrow> (Inr q, m)
         | (Inl _, m) \<Rightarrow> (Inl (HardwareAccessFailed ''no quote generation service available''), m)))"

fun generate_quote :: "'m machine \<Rightarrow> quote_method \<Rightarrow> bytes \<Rightarrow> (bytes, 'm) act" where
  "generate_quote M AutoMethod = generate_quote_auto M"
| "generate_quote M VsockMethod = generate_quote_vsock M"
| "generate_quote M ConfigFsMethod = generate_quote_tsm M"

definition read_eventlog :: "'m machine \<Rightarrow> (bytes \<Rightarrow> string) \<Rightarrow> (string option, 'm) act" where
  "read_eventlog M b64 m =
     (if \<not> mc_exists M CCEL_DATA_PATH m then (Inr None, m)
      else act_then (hw ''read CCEL'' (mc_read M CCEL_DATA_PATH)) (\<lambda>data.
           act_of (Inr (if data = [] then None else Some (b64 data)))) m)"

definition tdx_generate_evidence_with ::
  "'m machine \<Rightarrow> (bytes \<Rightarrow> string) \<Rightarrow> bytes \<Rightarrow> quote_method \<Rightarrow> (tdx_evidence, 'm) act" where
  "tdx_generate_evidence_with M b64 report_data method =
     act_then (act_of (pad_report_data report_data 64)) (\<lambda>padded.
     act_then (generate_quote M method padded) (\<lambda>quote_bytes m.
     if quote_bytes = []
     then (Inl (HardwareAccessFailed ''quote generation returned an empty quote''), m)
     else (case read_eventlog M b64 m of
         (log, m) \<Rightarrow>
           (Inr \<lparr>te_quote = b64 quote_bytes, te_eventlog = (case log of Inr l \<Rightarrow> l | Inl _ \<Rightarrow> None)\<rparr>, m))))"

end
