(* ===== verification/ApiConfig.thy ===== *)
theory ApiConfig
  imports Verifier TdxAttest
begin

text \<open>
  The configuration and the errors of the attestation API
  (\<open>crates/attestation-api/src/config.rs\<close> and \<open>error.rs\<close>), and its API-key check
  (\<open>middleware/auth.rs\<close>). The TOML reader, the parser of socket addresses and the
  environment are parameters.
\<close>

section \<open>Platforms\<close>

definition SUPPORTED_ATTESTATION_PLATFORMS :: "string list" where
  "SUPPORTED_ATTESTATION_PLATFORMS = [''snp'', ''tdx'', ''az-snp'', ''az-tdx'', ''gcp-snp'', ''gcp-tdx'']"

text \<open>\<open>eq_ignore_ascii_case\<close>.\<close>

definition ascii_lower :: "char \<Rightarrow> char" where
  "ascii_lower c = (let n = of_char c :: nat in if 65 \<le> n \<and> n \<le> 90 then char_of (n + 32) else c)"

definition eq_ignore_ascii_case :: "string \<Rightarrow> string \<Rightarrow> bool" where
  "eq_ignore_ascii_case a b \<longleftrightarrow> map ascii_lower a = map ascii_lower b"

definition normalize_platform :: "string \<Rightarrow> string option" where
  "normalize_platform name = find (\<lambda>p. eq_ignore_ascii_case p name) SUPPORTED_ATTESTATION_PLATFORMS"

section \<open>Configuration\<close>

record tls_config =
  tl_enabled :: bool
  tl_cert_path :: string
  tl_key_path :: string

record server_config =
  sc_bind :: string
  sc_tls :: tls_config

record auth_config =
  au_api_keys :: "string list"

record nras_config =
  nc_gpu_url :: string
  nc_switch_url :: string

record token_config =
  tk_enabled :: bool
  tk_issuer :: string
  tk_duration_minutes :: u64
  tk_key_path :: string

record attestation_config =
  at_enabled :: bool
  at_platforms :: "string list"
  at_allow_debug :: bool
  at_allow_revoked_or_unlisted_tcb :: bool
  at_allow_nonzero_vmpl :: bool
  at_tdx_quote_method :: string

record api_config =
  ac_server :: server_config
  ac_auth :: auth_config
  ac_nras :: nras_config
  ac_token :: token_config
  ac_attestation :: attestation_config

definition default_server_config :: server_config where
  "default_server_config = \<lparr>sc_bind = ''0.0.0.0:8400'', sc_tls = \<lparr>tl_enabled = False, tl_cert_path = [], tl_key_path = []\<rparr>\<rparr>"

definition default_token_config :: token_config where
  "default_token_config = \<lparr>tk_enabled = False, tk_issuer = ''attestation-api'', tk_duration_minutes = 5, tk_key_path = []\<rparr>"

definition default_attestation_config :: attestation_config where
  "default_attestation_config = \<lparr>at_enabled = True,
     at_platforms = [''snp'', ''tdx'', ''az-snp'', ''az-tdx'', ''gcp-snp'', ''gcp-tdx''],
     at_allow_debug = False, at_allow_revoked_or_unlisted_tcb = False, at_allow_nonzero_vmpl = False,
     at_tdx_quote_method = ''auto''\<rparr>"

definition default_api_config :: api_config where
  "default_api_config = \<lparr>ac_server = default_server_config, ac_auth = \<lparr>au_api_keys = []\<rparr>,
     ac_nras = \<lparr>nc_gpu_url = [], nc_switch_url = []\<rparr>, ac_token = default_token_config,
     ac_attestation = default_attestation_config\<rparr>"

definition resolve_nras_gpu_url :: "(string \<Rightarrow> string option) \<Rightarrow> nras_config \<Rightarrow> string" where
  "resolve_nras_gpu_url env c =
     (if nc_gpu_url c \<noteq> [] then nc_gpu_url c
      else case env ''NV_NRAS_GPU_URL'' of Some u \<Rightarrow> u | None \<Rightarrow> NRAS_GPU_URL)"

definition resolve_nras_switch_url :: "(string \<Rightarrow> string option) \<Rightarrow> nras_config \<Rightarrow> string" where
  "resolve_nras_switch_url env c =
     (if nc_switch_url c \<noteq> [] then nc_switch_url c
      else case env ''NV_NRAS_SWITCH_URL'' of Some u \<Rightarrow> u | None \<Rightarrow> NRAS_SWITCH_URL)"

definition attest_options :: "attestation_config \<Rightarrow> quote_method" where
  "attest_options c =
     (if at_tdx_quote_method c = ''vsock'' then VsockMethod
      else if at_tdx_quote_method c = ''configfs'' then ConfigFsMethod
      else AutoMethod)"

text \<open>\<open>Config::validate\<close>.\<close>

definition validate_config :: "(string \<Rightarrow> bool) \<Rightarrow> api_config \<Rightarrow> string + unit" where
  "validate_config is_socket_addr c =
     (if \<not> is_socket_addr (sc_bind (ac_server c)) then Inl ''invalid server.bind address''
      else if tl_enabled (sc_tls (ac_server c)) then Inl ''server.tls.enabled is not supported''
      else if tk_enabled (ac_token c) \<and> tk_duration_minutes (ac_token c) = 0
      then Inl ''token.duration_minutes must be > 0 when token is enabled''
      else if at_tdx_quote_method (ac_attestation c) \<notin> {''auto'', ''vsock'', ''configfs''}
      then Inl ''invalid attestation.tdx_quote_method''
      else if list_ex (\<lambda>p. normalize_platform p = None) (at_platforms (ac_attestation c))
      then Inl ''unknown platform in attestation.platforms''
      else Inr ())"

section \<open>Errors\<close>

text \<open>\<open>Body\<close> is axum's rejection of a request body, by its status.\<close>

datatype api_error =
    Verification attestation_error
  | NoPlatform
  | AttestNotAvailable
  | BadRequest string
  | BodyRejected nat string
  | TokenNotConfigured
  | Internal string

definition API_MAX_RETRY_AFTER :: nat where "API_MAX_RETRY_AFTER = 3600"

text \<open>The status and the key of an error.\<close>

fun api_status :: "api_error \<Rightarrow> nat \<times> string" where
  "api_status (Verification e) =
     (case e of
        CollateralUnavailable _ _ _ \<Rightarrow> (502, ''collateral_unavailable'')
      | PlatformNotAllowed _ \<Rightarrow>
          if is_invalid_params e then (400, ''bad_request'') else (422, ''platform_not_allowed'')
      | _ \<Rightarrow> if is_invalid_params e then (400, ''bad_request'') else (422, ''verification_failed''))"
| "api_status NoPlatform = (503, ''no_platform'')"
| "api_status AttestNotAvailable = (400, ''attest_not_available'')"
| "api_status (BadRequest _) = (400, ''bad_request'')"
| "api_status (BodyRejected status _) =
     (if status = 413 then (413, ''payload_too_large'')
      else if status = 415 then (415, ''unsupported_media_type'')
      else (400, ''bad_request''))"
| "api_status TokenNotConfigured = (400, ''token_not_configured'')"
| "api_status (Internal _) = (500, ''internal_error'')"

text \<open>The message: \<open>show\<close> is how the library writes an error.\<close>

fun api_message :: "(attestation_error \<Rightarrow> string) \<Rightarrow> api_error \<Rightarrow> string" where
  "api_message sh (Internal _) = ''an internal error occurred''"
| "api_message sh (Verification e) =
     (if is_retryable e \<or> is_invalid_params e then sh e else ''verification failed: '' @ sh e)"
| "api_message sh NoPlatform = ''no TEE platform detected''"
| "api_message sh AttestNotAvailable = ''attestation is disabled''"
| "api_message sh (BadRequest d) = ''invalid request: '' @ d"
| "api_message sh (BodyRejected _ d) = ''invalid request: '' @ d"
| "api_message sh TokenNotConfigured = ''token issuer not configured''"

fun api_retry_after :: "api_error \<Rightarrow> nat option" where
  "api_retry_after (Verification e) = map_option (\<lambda>s. min s API_MAX_RETRY_AFTER) (err_retry_after e)"
| "api_retry_after _ = None"

record error_response =
  er_status :: nat
  er_error :: string
  er_message :: string
  er_retry_after :: "nat option"

definition api_into_response :: "(attestation_error \<Rightarrow> string) \<Rightarrow> api_error \<Rightarrow> error_response" where
  "api_into_response sh e = \<lparr>er_status = fst (api_status e), er_error = snd (api_status e),
     er_message = api_message sh e, er_retry_after = api_retry_after e\<rparr>"

section \<open>API keys\<close>

definition verify_api_key :: "hash_lib \<Rightarrow> string \<Rightarrow> string list \<Rightarrow> bool" where
  "verify_api_key H provided ks =
     (let provided_hash = sha256 H (str_bytes provided) in
      foldl (\<lambda>found expected. found \<or> sha256 H (str_bytes expected) = provided_hash) False ks)"

text \<open>\<open>api_key_auth\<close>: the refusal, or the request goes on. The header's bytes are given.\<close>

definition api_key_auth :: "hash_lib \<Rightarrow> string list \<Rightarrow> bytes option \<Rightarrow> error_response + unit" where
  "api_key_auth H ks header =
     (let refuse = (\<lambda>why. Inl \<lparr>er_status = 401, er_error = ''unauthorized'', er_message = why, er_retry_after = None\<rparr>) in
      case header of
        None \<Rightarrow> refuse ''missing Authorization header''
      | Some v \<Rightarrow> (case header_str v of
            None \<Rightarrow> refuse ''malformed Authorization header''
          | Some s \<Rightarrow> (case strip_prefix ''Bearer '' s of
                Some key \<Rightarrow> if verify_api_key H key ks then Inr () else refuse ''invalid API key''
              | None \<Rightarrow> refuse ''Authorization header must use Bearer scheme'')))"

section \<open>Lemmas\<close>

lemma normalize_platform_Some:
  "normalize_platform s = Some p \<longleftrightarrow> p \<in> set SUPPORTED_ATTESTATION_PLATFORMS \<and> eq_ignore_ascii_case p s"
proof
  assume "normalize_platform s = Some p"
  then show "p \<in> set SUPPORTED_ATTESTATION_PLATFORMS \<and> eq_ignore_ascii_case p s"
    by (auto simp: normalize_platform_def find_Some_iff)
next
  assume a: "p \<in> set SUPPORTED_ATTESTATION_PLATFORMS \<and> eq_ignore_ascii_case p s"
  have d: "\<forall>q \<in> set SUPPORTED_ATTESTATION_PLATFORMS. \<forall>r \<in> set SUPPORTED_ATTESTATION_PLATFORMS.
      map ascii_lower q = map ascii_lower r \<longrightarrow> q = r"
    by code_simp
  obtain q where q: "normalize_platform s = Some q"
    using a by (cases "normalize_platform s") (auto simp: normalize_platform_def find_None_iff)
  then have "q \<in> set SUPPORTED_ATTESTATION_PLATFORMS \<and> eq_ignore_ascii_case q s"
    by (auto simp: normalize_platform_def find_Some_iff)
  with a d have "q = p" by (metis eq_ignore_ascii_case_def)
  with q show "normalize_platform s = Some p" by simp
qed

lemma verify_api_key_iff:
  "verify_api_key H provided ks \<longleftrightarrow> (\<exists>key \<in> set ks. sha256 H (str_bytes key) = sha256 H (str_bytes provided))"
proof -
  have "foldl (\<lambda>found expected. found \<or> sha256 H (str_bytes expected) = h) b ks
      \<longleftrightarrow> b \<or> (\<exists>key \<in> set ks. sha256 H (str_bytes key) = h)" for b h
    by (induction ks arbitrary: b) auto
  then show ?thesis by (simp add: verify_api_key_def)
qed

lemma api_key_auth_Inr_iff:
  "api_key_auth H ks header = Inr () \<longleftrightarrow>
     (\<exists>v key. header = Some v \<and> header_str v = Some (''Bearer '' @ key) \<and> verify_api_key H key ks)"
  by (auto simp: api_key_auth_def Let_def strip_prefix_Some_iff split: option.splits)

end
