(* ===== verification/ApiServer.thy ===== *)
theory ApiServer
  imports ApiConfig
begin

text \<open>
  The handlers of the attestation API (\<open>crates/attestation-api\<close>): \<open>/verify\<close> with the
  server's floors, the tokens it signs (\<open>token/issuer.rs\<close>), the key set, \<open>/platform\<close> and the
  rules of \<open>/attest\<close> that come before evidence is generated. Routing is the library's: a
  route is protected when API keys are configured. The request body decoder, JSON text, ES256
  and the clock are parameters.
\<close>

section \<open>Tokens\<close>

text \<open>\<open>es_point\<close> is the public point's coordinates, \<open>il_verified\<close> and \<open>il_policies\<close> the JSON
  forms serde derives.\<close>

record 'key issuer_lib =
  il_hash :: hash_lib
  il_b64url :: "bytes \<Rightarrow> string"
  il_point :: "'key \<Rightarrow> bytes option \<times> bytes option"
  il_sign :: "'key \<Rightarrow> bytes \<Rightarrow> bytes"
  il_to_vec :: "json \<Rightarrow> bytes option"
  il_verified :: "verified \<Rightarrow> json option"
  il_policies :: "policies \<Rightarrow> json option"

record 'key token_issuer =
  ti_signing_key :: 'key
  ti_kid :: string
  ti_issuer :: string
  ti_duration :: u64
  ti_jwks :: json

text \<open>\<open>PassedVerification::new\<close>; only what it returns is signed.\<close>

definition passed_verification :: "verified \<Rightarrow> verified option" where
  "passed_verification v = (if passed v then Some v else None)"

text \<open>A string of JSON without escapes.\<close>

definition quoted :: "string \<Rightarrow> string" where
  "quoted s = CHR 0x22 # s @ [CHR 0x22]"

text \<open>The JWK thumbprint of RFC 7638.\<close>

definition jwk_thumbprint :: "'key issuer_lib \<Rightarrow> string \<Rightarrow> string \<Rightarrow> string" where
  "jwk_thumbprint L x y =
     il_b64url L (sha256 (il_hash L) (str_bytes
       (''{'' @ quoted ''crv'' @ '':'' @ quoted ''P-256'' @ '','' @ quoted ''kty'' @ '':'' @ quoted ''EC''
         @ '','' @ quoted ''x'' @ '':'' @ quoted x @ '','' @ quoted ''y'' @ '':'' @ quoted y @ ''}'')))"

definition build_jwks :: "'key issuer_lib \<Rightarrow> 'key \<Rightarrow> api_error + json" where
  "build_jwks L k =
     and_then (ok_or (Internal ''missing x coordinate'') (fst (il_point L k))) (\<lambda>x.
     and_then (ok_or (Internal ''missing y coordinate'') (snd (il_point L k))) (\<lambda>y.
     let x = il_b64url L x; y = il_b64url L y;
         kid = jwk_thumbprint L x y;
         jwk = json_obj [(''kty'', JStr ''EC''), (''crv'', JStr ''P-256''), (''x'', JStr x), (''y'', JStr y),
           (''use'', JStr ''sig''), (''alg'', JStr ''ES256''), (''kid'', JStr kid)]
     in Inr (json_obj [(''keys'', JArr [jwk])])))"

text \<open>\<open>jwks["keys"][0]["kid"].as_str()\<close>.\<close>

definition extract_kid :: "json \<Rightarrow> api_error + string" where
  "extract_kid ks = ok_or (Internal ''JWKS missing kid'')
     (Option.bind (json_get ''keys'' ks) (\<lambda>a.
      Option.bind (as_array a) (\<lambda>l.
      Option.bind (get_index l 0) (get_str ''kid''))))"

definition new_issuer :: "'key issuer_lib \<Rightarrow> 'key \<Rightarrow> string \<Rightarrow> u64 \<Rightarrow> api_error + 'key token_issuer" where
  "new_issuer L k iss duration =
     and_then (build_jwks L k) (\<lambda>ks.
     and_then (extract_kid ks) (\<lambda>kid.
     Inr \<lparr>ti_signing_key = k, ti_kid = kid, ti_issuer = iss, ti_duration = duration, ti_jwks = ks\<rparr>))"

definition b64_encode_json :: "'key issuer_lib \<Rightarrow> json \<Rightarrow> api_error + string" where
  "b64_encode_json L v = and_then (ok_or (Internal ''JSON serialization failed'') (il_to_vec L v)) (\<lambda>b. Inr (il_b64url L b))"

text \<open>\<open>JwtHeader\<close> and \<open>JwtClaims\<close>, in the order of their fields.\<close>

definition jwt_header :: "string \<Rightarrow> json" where
  "jwt_header kid = JObj [(''alg'', JStr ''ES256''), (''typ'', JStr ''JWT''), (''kid'', JStr kid)]"

definition jwt_claims :: "string \<Rightarrow> string \<Rightarrow> u64 \<Rightarrow> u64 \<Rightarrow> string \<Rightarrow> json \<Rightarrow> json \<Rightarrow> json" where
  "jwt_claims iss jti now duration platform result policy = JObj
     [(''iss'', JStr iss), (''jti'', JStr jti), (''iat'', JInt (uint now)), (''nbf'', JInt (uint now)),
      (''exp'', JInt (uint (now + duration))), (''platform'', JStr platform), (''result'', result), (''policy'', policy)]"

text \<open>\<open>now\<close> is the seconds since the epoch, or none before it; \<open>jti\<close> the fresh UUID.\<close>

definition issue ::
  "'key issuer_lib \<Rightarrow> 'key token_issuer \<Rightarrow> u64 option \<Rightarrow> string \<Rightarrow> verified \<Rightarrow> policies \<Rightarrow> api_error + string" where
  "issue L ti now jti v po =
     and_then (ok_or (Internal ''system time error'') now) (\<lambda>now.
     and_then (ok_or (Internal ''failed to serialize result'') (il_verified L v)) (\<lambda>result.
     and_then (ok_or (Internal ''failed to serialize policy'') (il_policies L po)) (\<lambda>policy.
     and_then (b64_encode_json L (jwt_header (ti_kid ti))) (\<lambda>header.
     and_then (b64_encode_json L (jwt_claims (ti_issuer ti) jti now (ti_duration ti)
       (platform_name (result_platform (vd_platform v))) result policy)) (\<lambda>claims.
     let message = header @ ''.'' @ claims
     in Inr (message @ ''.'' @ il_b64url L (il_sign L (ti_signing_key ti) (str_bytes message))))))))"

section \<open>The rules of a verify request\<close>

definition all_platforms :: "platform_type list" where
  "all_platforms = [Tdx, Snp, AzTdx, AzSnp, GcpSnp, GcpTdx, Dstack]"

definition canonical_platform :: "string option \<Rightarrow> api_error + platform_type" where
  "canonical_platform platform =
     and_then (ok_or (BadRequest ''platform is required for evidence verification'') platform) (\<lambda>p.
     ok_or (BadRequest ''unknown platform'')
       (Option.bind (normalize_platform p) (\<lambda>n. find (\<lambda>t. platform_name t = n) all_platforms)))"

definition check_server_floors :: "policies \<Rightarrow> attestation_config \<Rightarrow> api_error + unit" where
  "check_server_floors po config =
     (let gpu = map_option gp_device_policy (po_gpu po);
          debug = (list_ex tp_allow_debug (tdx_params_of po) \<or> list_ex sp_allow_debug (snp_params_of po)
            \<or> (case gpu of None \<Rightarrow> False | Some p \<Rightarrow> gpu_device_policy.allow_debug p)) in
      if debug \<and> \<not> at_allow_debug config
      then Inl (BadRequest ''allow_debug is disabled by server configuration'')
      else if \<not> at_allow_revoked_or_unlisted_tcb config
        \<and> list_ex (\<lambda>st. st \<notin> set (tp_accepted default_tdx_params)) (concat (map tp_accepted (tdx_params_of po)))
      then Inl (BadRequest ''accepting this TCB status is disabled by server configuration'')
      else if \<not> at_allow_nonzero_vmpl config \<and> list_ex (\<lambda>p. sp_max_vmpl p > 0) (snp_params_of po)
      then Inl (BadRequest ''max_vmpl above 0 is disabled by server configuration'')
      else if lowers (po_floors po) default_floors
      then Inl (BadRequest ''floors may raise, not lower, the collateral versions accepted'')
      else if (case gpu of None \<Rightarrow> False | Some p \<Rightarrow> \<not> require_secboot p \<or> \<not> require_measres_success p)
      then Inl (BadRequest ''nvidia_gpu.device_policy must require secboot and measres success'')
      else Inr ())"

definition is_attestation_envelope :: "json \<Rightarrow> bool" where
  "is_attestation_envelope ev \<longleftrightarrow> json_get ''platform'' ev \<noteq> None \<and> json_get ''evidence'' ev \<noteq> None"

definition build_evidence_envelope ::
  "(json \<Rightarrow> bytes option) \<Rightarrow> string \<Rightarrow> json \<Rightarrow> json option \<Rightarrow> json option \<Rightarrow> api_error + bytes" where
  "build_evidence_envelope to_vec platform ev gpu collateral =
     (if is_attestation_envelope ev
      then Inl (BadRequest ''evidence must be platform-specific evidence; put platform at the top level'')
      else
        let envelope = json_obj [(''platform'', JStr platform), (''evidence'', ev)];
            envelope = (case gpu of None \<Rightarrow> envelope | Some g \<Rightarrow> object_set ''nvidia_gpu'' g envelope);
            envelope = (case collateral of None \<Rightarrow> envelope | Some c \<Rightarrow> object_set ''collateral'' c envelope)
        in ok_or (BadRequest ''invalid evidence JSON'') (to_vec envelope))"

text \<open>\<open>api_policies\<close>: only the keys this service supports reach the library's reader.\<close>

definition api_policies :: "((string \<times> json) list \<Rightarrow> policies option) \<Rightarrow> (string \<times> json) list \<Rightarrow> policies option" where
  "api_policies read members =
     (if list_all (\<lambda>(key, _). key \<in> set SUPPORTED_ATTESTATION_PLATFORMS \<or> key \<in> {''floors'', ''nvidia_gpu''}) members
      then read members else None)"

section \<open>The server\<close>

record verify_request =
  vq_platform :: "string option"
  vq_evidence :: json
  vq_nvidia_gpu :: "json option"
  vq_collateral :: "json option"
  vq_policies :: policies
  vq_issue_token :: bool

record verify_response =
  vp_result :: verified
  vp_passed :: bool
  vp_token :: "string option"

text \<open>\<open>sa_detected\<close> is the platform found once for the process.\<close>

record 'key app_state =
  sa_config :: api_config
  sa_issuer :: "'key token_issuer option"
  sa_ctx :: ctx
  sa_detected :: "platform_type option option"

text \<open>The parameters: the verifier's, the issuer's, the wall clock and fresh identifiers, what
  the machine is, and whether a TDX device is there.\<close>

record ('k, 's, 'rk, 'rs, 'key, 'sig, 'grk, 'grs, 'nk, 'ns, 'pem, 'tk, 'w) api_env =
  ae_libs :: "('k, 's, 'rk, 'rs, 'key, 'sig, 'grk, 'grs, 'nk, 'ns, 'pem, 'w) libs"
  ae_issuer :: "'tk issuer_lib"
  ae_unix :: "'w \<Rightarrow> u64 option"
  ae_uuid :: "'w \<Rightarrow> string"
  ae_detect :: "platform_type option"
  ae_tdx_available :: bool

text \<open>\<open>/verify\<close>: the rules of the request, and the token of a result.\<close>

definition check_request ::
  "(json \<Rightarrow> bytes option) \<Rightarrow> attestation_config \<Rightarrow> verify_request \<Rightarrow> api_error + bytes" where
  "check_request to_vec config req =
     and_then (canonical_platform (vq_platform req)) (\<lambda>platform.
     and_then (check_server_floors (vq_policies req) config) (\<lambda>_.
     if vq_issue_token req \<and> (case report_data (vq_policies req) platform of None \<Rightarrow> True | Some d \<Rightarrow> d = [])
     then Inl (BadRequest ''issue_token requires a non-empty report_data'')
     else build_evidence_envelope to_vec (platform_name platform) (vq_evidence req) (vq_nvidia_gpu req) (vq_collateral req)))"

definition token_of ::
  "'key issuer_lib \<Rightarrow> 'key token_issuer option \<Rightarrow> u64 option \<Rightarrow> string \<Rightarrow> verify_request \<Rightarrow> verified
     \<Rightarrow> api_error + string option" where
  "token_of L issuer now jti req result = (case passed_verification result of
       Some v \<Rightarrow>
         if vq_issue_token req
         then and_then (ok_or TokenNotConfigured issuer) (\<lambda>ti.
              and_then (issue L ti now jti v (vq_policies req)) (\<lambda>t. Inr (Some t)))
         else Inr None
     | None \<Rightarrow> Inr None)"

definition verify_handler ::
  "('k, 's, 'rk, 'rs, 'key, 'sig, 'grk, 'grs, 'nk, 'ns, 'pem, 'tk, 'w) api_env \<Rightarrow> 'tk app_state
     \<Rightarrow> api_error + verify_request \<Rightarrow> 'w \<Rightarrow> (api_error + verify_response) \<times> 'tk app_state \<times> 'w" where
  "verify_handler E st payload w =
     (case and_then payload (\<lambda>req.
           and_then (check_request (il_to_vec (ae_issuer E)) (ac_attestation (sa_config st)) req) (\<lambda>envelope.
           Inr (req, envelope))) of
        Inl e \<Rightarrow> (Inl e, st, w)
      | Inr (req, envelope) \<Rightarrow>
          (case verify (ae_libs E) envelope (vq_policies req) (sa_ctx st) w of
             (Inl e, c, w) \<Rightarrow> (Inl (Verification e), st\<lparr>sa_ctx := c\<rparr>, w)
           | (Inr result, c, w) \<Rightarrow>
               (and_then (token_of (ae_issuer E) (sa_issuer st) (ae_unix E w) (ae_uuid E w) req result) (\<lambda>token.
                  Inr \<lparr>vp_result = result, vp_passed = (passed_verification result \<noteq> None), vp_token = token\<rparr>),
                st\<lparr>sa_ctx := c\<rparr>, w)))"

text \<open>\<open>/token/jwks\<close>.\<close>

definition jwks_handler :: "'key app_state \<Rightarrow> api_error + json" where
  "jwks_handler st = and_then (ok_or TokenNotConfigured (sa_issuer st)) (\<lambda>ti. Inr (ti_jwks ti))"

text \<open>\<open>supported_detection\<close> and the memoized \<open>detect_platform\<close>.\<close>

definition supported_detection :: "platform_type \<Rightarrow> bool \<Rightarrow> platform_type option" where
  "supported_detection platform tdx_available =
     (if normalize_platform (platform_name platform) \<noteq> None then Some platform
      else if platform_name platform = ''dstack'' \<and> tdx_available then Some Tdx
      else None)"

definition detect_platform ::
  "('k, 's, 'rk, 'rs, 'key, 'sig, 'grk, 'grs, 'nk, 'ns, 'pem, 'tk, 'w) api_env \<Rightarrow> 'tk app_state
     \<Rightarrow> (api_error + platform_type) \<times> 'tk app_state" where
  "detect_platform E st =
     (let d = (case sa_detected st of
           Some d \<Rightarrow> d
         | None \<Rightarrow> Option.bind (ae_detect E) (\<lambda>p. supported_detection p (ae_tdx_available E)))
      in (ok_or NoPlatform d, st\<lparr>sa_detected := Some d\<rparr>))"

definition platform_handler ::
  "('k, 's, 'rk, 'rs, 'key, 'sig, 'grk, 'grs, 'nk, 'ns, 'pem, 'tk, 'w) api_env \<Rightarrow> 'tk app_state
     \<Rightarrow> (api_error + string) \<times> 'tk app_state" where
  "platform_handler E st = (let (d, st) = detect_platform E st in (map_sum id platform_name d, st))"

text \<open>Which platform \<open>/attest\<close> is asked for, and whether it may be.\<close>

definition resolve_platform ::
  "('k, 's, 'rk, 'rs, 'key, 'sig, 'grk, 'grs, 'nk, 'ns, 'pem, 'tk, 'w) api_env \<Rightarrow> string \<Rightarrow> 'tk app_state
     \<Rightarrow> (api_error + platform_type) \<times> 'tk app_state" where
  "resolve_platform E name st =
     (if name = ''auto'' then detect_platform E st
      else if name = ''snp'' then (Inr Snp, st)
      else if name = ''tdx'' then (Inr Tdx, st)
      else if name = ''az-snp'' then (Inr AzSnp, st)
      else if name = ''az-tdx'' then (Inr AzTdx, st)
      else if name = ''gcp-snp'' then (Inr GcpSnp, st)
      else if name = ''gcp-tdx'' then (Inr GcpTdx, st)
      else (Inl (BadRequest ''unknown platform''), st))"

definition ensure_platform_allowed :: "string list \<Rightarrow> platform_type \<Rightarrow> api_error + unit" where
  "ensure_platform_allowed accepted platform =
     (if platform_name platform \<in> set (List.map_filter normalize_platform accepted) then Inr ()
      else Inl (BadRequest ''platform is not allowed by attestation.platforms''))"

text \<open>\<open>build_router\<close>: \<open>/health\<close> is open; the others need a key when keys are configured.\<close>

definition route_guard :: "hash_lib \<Rightarrow> auth_config \<Rightarrow> string \<Rightarrow> bytes option \<Rightarrow> error_response + unit" where
  "route_guard H c path header =
     (if au_api_keys c = [] \<or> path = ''/health'' then Inr () else api_key_auth H (au_api_keys c) header)"

text \<open>\<open>main\<close>: the issuer of the configuration. \<open>load_key\<close> is \<open>load_or_generate\<close>.\<close>

definition token_issuer_of ::
  "'key issuer_lib \<Rightarrow> (string \<Rightarrow> api_error + 'key) \<Rightarrow> token_config \<Rightarrow> api_error + 'key token_issuer option" where
  "token_issuer_of L load_key c =
     (if tk_enabled c
      then and_then (load_key (tk_key_path c)) (\<lambda>k.
           and_then (new_issuer L k (tk_issuer c) (tk_duration_minutes c * 60)) (\<lambda>ti. Inr (Some ti)))
      else Inr None)"

end
