(* ===== verification/ApiProps.thy ===== *)
theory ApiProps
  imports ApiServer Hex VerifierProps
begin

text \<open>
  What the attestation API promises: what a token stands for and how a relying party finds
  its key, what the server's configuration keeps every request to, who may call it, and how
  its errors read.
\<close>

section \<open>Server floors\<close>

lemma not_lowers_default: "\<not> lowers default_floors default_floors"
  by (rule not_lowers_refl)

lemma check_server_floors_Inr_iff:
  "check_server_floors po c = Inr () \<longleftrightarrow>
     (at_allow_debug c \<or> (\<forall>p \<in> set (tdx_params_of po). \<not> tp_allow_debug p) \<and> (\<forall>p \<in> set (snp_params_of po). \<not> sp_allow_debug p)
        \<and> (\<forall>g. po_gpu po = Some g \<longrightarrow> \<not> gpu_device_policy.allow_debug (gp_device_policy g)))
     \<and> (at_allow_revoked_or_unlisted_tcb c \<or> (\<forall>p \<in> set (tdx_params_of po). set (tp_accepted p) \<subseteq> set (tp_accepted default_tdx_params)))
     \<and> (at_allow_nonzero_vmpl c \<or> (\<forall>p \<in> set (snp_params_of po). sp_max_vmpl p = 0))
     \<and> \<not> lowers (po_floors po) default_floors
     \<and> (\<forall>g. po_gpu po = Some g \<longrightarrow> require_secboot (gp_device_policy g) \<and> require_measres_success (gp_device_policy g))"
proof -
  have v: "\<not> list_ex (\<lambda>p. sp_max_vmpl p > 0) ps \<longleftrightarrow> (\<forall>p \<in> set ps. sp_max_vmpl p = 0)" for ps
    by (auto simp: list_ex_iff word_gt_0)
  have a: "\<not> list_ex (\<lambda>st. st \<notin> set (tp_accepted default_tdx_params)) (concat (map tp_accepted ps))
      \<longleftrightarrow> (\<forall>p \<in> set ps. set (tp_accepted p) \<subseteq> set (tp_accepted default_tdx_params))" for ps
    by (auto simp: list_ex_iff)
  show ?thesis
    using v [of "snp_params_of po"] a [of "tdx_params_of po"]
    by (cases "po_gpu po") (auto simp: check_server_floors_def Let_def list_ex_iff)
qed

section \<open>Tokens\<close>

lemma issue_Inr:
  assumes "issue L ti now jti v po = Inr t"
  shows "\<exists>n result policy header claims hb cb. now = Some n \<and> il_verified L v = Some result \<and> il_policies L po = Some policy
    \<and> il_to_vec L (jwt_header (ti_kid ti)) = Some hb \<and> header = il_b64url L hb
    \<and> il_to_vec L (jwt_claims (ti_issuer ti) jti n (ti_duration ti) (platform_name (result_platform (vd_platform v))) result policy) = Some cb
    \<and> claims = il_b64url L cb
    \<and> t = header @ ''.'' @ claims @ ''.'' @ il_b64url L (il_sign L (ti_signing_key ti) (str_bytes (header @ ''.'' @ claims)))"
  using assms by (auto simp: issue_def b64_encode_json_def and_then_Inr_iff ok_or_Inr_iff Let_def)

lemma check_request_Inr:
  assumes "check_request to_vec config req = Inr b"
  shows "\<exists>platform. canonical_platform (vq_platform req) = Inr platform
    \<and> check_server_floors (vq_policies req) config = Inr ()
    \<and> (vq_issue_token req \<longrightarrow> (\<exists>d. report_data (vq_policies req) platform = Some d \<and> d \<noteq> []))
    \<and> build_evidence_envelope to_vec (platform_name platform) (vq_evidence req) (vq_nvidia_gpu req) (vq_collateral req) = Inr b"
  using assms by (auto simp: check_request_def and_then_Inr_iff split: if_splits option.splits)

lemma token_of_Inr:
  assumes "token_of L issuer now jti req v = Inr token"
  shows "case token of None \<Rightarrow> \<not> (vq_issue_token req \<and> passed v)
    | Some t \<Rightarrow> vq_issue_token req \<and> passed v \<and> (\<exists>ti. issuer = Some ti \<and> issue L ti now jti v (vq_policies req) = Inr t)"
  using assms
  by (auto simp: token_of_def passed_verification_def and_then_Inr_iff ok_or_Inr_iff split: if_splits option.splits)

lemma envelope_members:
  assumes "build_evidence_envelope to_vec platform ev gpu collateral = Inr b"
  shows "\<exists>j. to_vec j = Some b \<and> json_get ''platform'' j = Some (JStr platform) \<and> json_get ''evidence'' j = Some ev"
  using assms
  by (auto simp: build_evidence_envelope_def ok_or_Inr_iff Let_def object_set_def json_obj_def split: if_splits option.splits)

text \<open>What serde promises of an envelope: its text is read back with the platform and the evidence it was
  written with.\<close>

definition envelopes_read_back ::
  "('k, 's, 'rk, 'rs, 'key, 'sig, 'grk, 'grs, 'nk, 'ns, 'pem, 'w) libs \<Rightarrow> (json \<Rightarrow> bytes option) \<Rightarrow> bool" where
  "envelopes_read_back V to_vec \<longleftrightarrow> (\<forall>j b env. to_vec j = Some b \<longrightarrow> parse_envelope V b = Inr env \<longrightarrow>
     json_get ''platform'' j = Some (JStr (platform_name (ev_platform env)))
     \<and> json_get ''evidence'' j = Some (ev_evidence env))"

lemma verify_handler_Inr:
  assumes "verify_handler E st payload w = (Inr resp, st', w')"
  shows "\<exists>req b c. payload = Inr req
    \<and> check_request (il_to_vec (ae_issuer E)) (ac_attestation (sa_config st)) req = Inr b
    \<and> verify (ae_libs E) b (vq_policies req) (sa_ctx st) w = (Inr (vp_result resp), c, w') \<and> st' = st\<lparr>sa_ctx := c\<rparr>
    \<and> (vp_passed resp \<longleftrightarrow> passed (vp_result resp))
    \<and> token_of (ae_issuer E) (sa_issuer st) (ae_unix E w') (ae_uuid E w') req (vp_result resp) = Inr (vp_token resp)"
proof -
  from assms obtain req b where req: "payload = Inr req"
    and b: "check_request (il_to_vec (ae_issuer E)) (ac_attestation (sa_config st)) req = Inr b"
    by (cases payload; cases "check_request (il_to_vec (ae_issuer E)) (ac_attestation (sa_config st)) (projr payload)")
       (auto simp: verify_handler_def)
  obtain r c w1 where v: "verify (ae_libs E) b (vq_policies req) (sa_ctx st) w = (r, c, w1)" by (rule prod_cases3)
  with assms req b show ?thesis
    by (cases r) (auto simp: verify_handler_def and_then_Inr_iff passed_verification_def split: if_splits)
qed

text \<open>The result of a request is the library's verdict on an envelope of the platform and the evidence in
  the request, with its policies, and these meet the server's floors.\<close>

definition verdict_on_request ::
  "('k, 's, 'rk, 'rs, 'key, 'sig, 'grk, 'grs, 'nk, 'ns, 'pem, 'ik, 'w) api_env \<Rightarrow> 'ik app_state \<Rightarrow> verify_request \<Rightarrow> platform_type
     \<Rightarrow> verified \<Rightarrow> 'w \<Rightarrow> bool" where
  "verdict_on_request E st req platform v w \<longleftrightarrow> canonical_platform (vq_platform req) = Inr platform
     \<and> check_server_floors (vq_policies req) (ac_attestation (sa_config st)) = Inr ()
     \<and> (\<exists>b env s s1 w1. parse_envelope (ae_libs E) b = Inr env \<and> ev_platform env = platform \<and> ev_evidence env = vq_evidence req
          \<and> fst (verify (ae_libs E) b (vq_policies req) (sa_ctx st) w) = Inr v
          \<and> verify_envelope (ae_libs E) (sa_ctx st) env (vq_policies req) s w = (Inr v, s1, w1))"

lemma verify_handler_verdict:
  assumes h: "verify_handler E st payload w = (Inr resp, st', w')"
    and serde: "envelopes_read_back (ae_libs E) (il_to_vec (ae_issuer E))"
  obtains req platform where "payload = Inr req" "verdict_on_request E st req platform (vp_result resp) w"
    "vp_passed resp \<longleftrightarrow> passed (vp_result resp)"
    "vq_issue_token req \<longrightarrow> (\<exists>d. report_data (vq_policies req) platform = Some d \<and> d \<noteq> [])"
    "token_of (ae_issuer E) (sa_issuer st) (ae_unix E w') (ae_uuid E w') req (vp_result resp) = Inr (vp_token resp)"
proof -
  obtain req b c where req: "payload = Inr req" and b: "check_request (il_to_vec (ae_issuer E)) (ac_attestation (sa_config st)) req = Inr b"
    and v: "verify (ae_libs E) b (vq_policies req) (sa_ctx st) w = (Inr (vp_result resp), c, w')"
    and p: "vp_passed resp \<longleftrightarrow> passed (vp_result resp)"
    and t: "token_of (ae_issuer E) (sa_issuer st) (ae_unix E w') (ae_uuid E w') req (vp_result resp) = Inr (vp_token resp)"
    using verify_handler_Inr [OF h] by blast
  obtain platform where platform: "canonical_platform (vq_platform req) = Inr platform"
    and floors: "check_server_floors (vq_policies req) (ac_attestation (sa_config st)) = Inr ()"
    and rd: "vq_issue_token req \<longrightarrow> (\<exists>d. report_data (vq_policies req) platform = Some d \<and> d \<noteq> [])"
    and env: "build_evidence_envelope (il_to_vec (ae_issuer E)) (platform_name platform) (vq_evidence req)
      (vq_nvidia_gpu req) (vq_collateral req) = Inr b"
    using check_request_Inr [OF b] by blast
  obtain e s s1 w1 where e: "parse_envelope (ae_libs E) b = Inr e"
    and ve: "verify_envelope (ae_libs E) (sa_ctx st) e (vq_policies req) s w = (Inr (vp_result resp), s1, w1)"
    using verify_Inr [OF v] by blast
  obtain j where j: "il_to_vec (ae_issuer E) j = Some b" "json_get ''platform'' j = Some (JStr (platform_name platform))"
    "json_get ''evidence'' j = Some (vq_evidence req)" using envelope_members [OF env] by blast
  from serde j(1) e have "json_get ''platform'' j = Some (JStr (platform_name (ev_platform e)))"
    "json_get ''evidence'' j = Some (ev_evidence e)" unfolding envelopes_read_back_def by blast+
  with j have "ev_platform e = platform" "ev_evidence e = vq_evidence req" by simp_all
  with platform floors e ve v have "verdict_on_request E st req platform (vp_result resp) w"
    unfolding verdict_on_request_def by (metis fst_conv)
  from that [OF req this p rd t] show thesis .
qed

text \<open>C15: A result of \<open>/verify\<close> is the library's verdict on the evidence of the request as evidence of the
  platform it names, with the request's policies, which meet the server's floors; it passes exactly when
  the verdict does, and a token is signed exactly for a passing one it was asked for. A token then stands
  for the evidence of the request being genuine evidence of that platform, whose signed report data is
  the non-empty value the policies ask for, and what is signed is that result with those policies.
  Envelopes are read back as they were written.\<close>

theorem token_stands_for_a_verdict:
  assumes h: "verify_handler E st payload w = (Inr resp, st', w')"
    and serde: "envelopes_read_back (ae_libs E) (il_to_vec (ae_issuer E))"
  shows "\<exists>req platform. payload = Inr req \<and> verdict_on_request E st req platform (vp_result resp) w
    \<and> (vp_passed resp \<longleftrightarrow> passed (vp_result resp))
    \<and> (vp_token resp \<noteq> None \<longleftrightarrow> vq_issue_token req \<and> passed (vp_result resp))
    \<and> result_platform (vd_platform (vp_result resp)) = platform
    \<and> genuine_evidence (ae_libs E) platform (vq_evidence req) (ctx_now (vf_utc (ae_libs E)) (sa_ctx st) w)
    \<and> (\<forall>t. vp_token resp = Some t \<longrightarrow>
        (\<exists>d ti. report_data (vq_policies req) platform = Some d \<and> d \<noteq> []
           \<and> result_report_data (vd_platform (vp_result resp)) = Some True
           \<and> sa_issuer st = Some ti
           \<and> issue (ae_issuer E) ti (ae_unix E w') (ae_uuid E w') (vp_result resp) (vq_policies req) = Inr t))"
proof (rule verify_handler_verdict [OF h serde])
  fix req platform
  assume req: "payload = Inr req" and vr: "verdict_on_request E st req platform (vp_result resp) w"
    and p: "vp_passed resp \<longleftrightarrow> passed (vp_result resp)"
    and rd: "vq_issue_token req \<longrightarrow> (\<exists>d. report_data (vq_policies req) platform = Some d \<and> d \<noteq> [])"
    and t: "token_of (ae_issuer E) (sa_issuer st) (ae_unix E w') (ae_uuid E w') req (vp_result resp) = Inr (vp_token resp)"
  obtain env s s1 w1 where pl: "ev_platform env = platform" "ev_evidence env = vq_evidence req"
    and ve: "verify_envelope (ae_libs E) (sa_ctx st) env (vq_policies req) s w = (Inr (vp_result resp), s1, w1)"
    using vr by (auto simp: verdict_on_request_def)
  note ev = verify_envelope_evidence [OF ve, unfolded pl]
  note tok = token_of_Inr [OF t]
  have "\<exists>d ti. report_data (vq_policies req) platform = Some d \<and> d \<noteq> []
           \<and> result_report_data (vd_platform (vp_result resp)) = Some True
           \<and> sa_issuer st = Some ti
           \<and> issue (ae_issuer E) ti (ae_unix E w') (ae_uuid E w') (vp_result resp) (vq_policies req) = Inr t0"
    if "vp_token resp = Some t0" for t0
  proof -
    from tok that have i: "vq_issue_token req" "passed (vp_result resp)" by simp_all
    from rd i(1) obtain d where d: "report_data (vq_policies req) platform = Some d" "d \<noteq> []" by blast
    from tok that obtain ti where "sa_issuer st = Some ti"
      "issue (ae_issuer E) ti (ae_unix E w') (ae_uuid E w') (vp_result resp) (vq_policies req) = Inr t0" by auto
    with d ev(3) [of d] i(2) show ?thesis by blast
  qed
  moreover have "vp_token resp \<noteq> None \<longleftrightarrow> vq_issue_token req \<and> passed (vp_result resp)"
    using tok by (cases "vp_token resp") auto
  ultimately show ?thesis using req vr p ev(1,2) by blast
qed

section \<open>A small server\<close>

definition toy_issuer_lib :: "unit issuer_lib" where
  "toy_issuer_lib = \<lparr>il_hash = toy_sha, il_b64url = (\<lambda>b. replicate (length b) (CHR ''A'')), il_point = (\<lambda>_. (Some [], Some [])),
     il_sign = (\<lambda>_ _. []), il_to_vec = (\<lambda>j. Some (if json_get ''platform'' j = Some (JStr ''tdx'') \<and> json_get ''evidence'' j = Some JNull then [] else [0])),
     il_verified = (\<lambda>_. Some JNull), il_policies = (\<lambda>_. Some JNull)\<rparr>"

definition toy_plain_envelope :: evidence where
  "toy_plain_envelope = \<lparr>ev_platform = Tdx, ev_evidence = JNull, ev_nvidia_gpu = None, ev_collateral = []\<rparr>"

definition toy_api_libs ::
  "(unit, unit, unit, unit, unit, unit, unit, unit, unit, unit, unit, nat) libs" where
  "toy_api_libs = toy_libs\<lparr>vf_envelope := (\<lambda>b. if b = [] then Some toy_plain_envelope else None)\<rparr>"

definition toy_api :: "(unit, unit, unit, unit, unit, unit, unit, unit, unit, unit, unit, unit, nat) api_env" where
  "toy_api = \<lparr>ae_libs = toy_api_libs, ae_issuer = toy_issuer_lib, ae_unix = (\<lambda>_. Some 50), ae_uuid = (\<lambda>_. ''id''),
     ae_detect = Some Tdx, ae_tdx_available = True\<rparr>"

definition toy_issuer :: "unit token_issuer" where
  "toy_issuer = \<lparr>ti_signing_key = (), ti_kid = ''kid'', ti_issuer = ''iss'', ti_duration = 300, ti_jwks = JNull\<rparr>"

definition toy_app :: "unit app_state" where
  "toy_app = \<lparr>sa_config = default_api_config, sa_issuer = Some toy_issuer, sa_ctx = toy_ctx, sa_detected = None\<rparr>"

definition toy_api_policies :: policies where
  "toy_api_policies = \<lparr>po_tdx = Some (toy_params (Some (replicate 16 0))), po_snp = None, po_az_tdx = None, po_az_snp = None,
     po_gcp_tdx = None, po_gcp_snp = None, po_dstack = None, po_gpu = None, po_floors = default_floors\<rparr>"

definition toy_verify_request :: verify_request where
  "toy_verify_request = \<lparr>vq_platform = Some ''TDX'', vq_evidence = JNull, vq_nvidia_gpu = None, vq_collateral = None,
     vq_policies = toy_api_policies, vq_issue_token = True\<rparr>"

lemma toy_canonical: "canonical_platform (Some ''TDX'') = Inr Tdx"
  by code_simp

lemma toy_request_checked: "check_request (il_to_vec toy_issuer_lib) default_attestation_config toy_verify_request = Inr []"
proof -
  have "tdx_params_of toy_api_policies = [toy_params (Some (replicate 16 0))]" "snp_params_of toy_api_policies = []"
    by (simp_all add: tdx_params_of_def snp_params_of_def toy_api_policies_def map_filter_def)
  then have "check_server_floors toy_api_policies default_attestation_config = Inr ()"
    unfolding check_server_floors_Inr_iff
    by (simp add: toy_api_policies_def toy_params_def default_tdx_params_def)
  moreover have "report_data toy_api_policies Tdx = Some (replicate 16 0)"
    by (simp add: toy_api_policies_def toy_params_def)
  ultimately show ?thesis
    by (simp add: check_request_def toy_verify_request_def toy_canonical build_evidence_envelope_def is_attestation_envelope_def
        json_obj_def toy_issuer_lib_def)
qed

lemma toy_api_verified: "\<exists>v. verify toy_api_libs [] toy_api_policies toy_ctx 0 = (Inr v, toy_ctx, 0) \<and> passed v"
proof -
  have m: "Some (replicate 16 0) \<in> {None, Some (replicate 16 (0 :: u8))}" by simp
  from toy_challenge_run [OF m, of toy_se 0] obtain r us where run:
    "run (tdx_platform (toy_tdx_env toy_se) (\<lambda>_. Some toy_evidence)) JNull
      (Some (toy_params (Some (replicate 16 0)))) 50 toy_store 0 = (Inr (r, us), toy_store, 0)"
    and p: "tdx_passed r" "list_all acceptable us"
    by blast
  have n: "ctx_now (vf_utc toy_api_libs) toy_ctx 0 = 50" "cx_store toy_ctx = toy_store"
    by (simp_all add: ctx_now_def toy_ctx_def)
  have l: "vf_tdx_evidence toy_api_libs = (\<lambda>_. Some toy_evidence)" "the_tdx_env toy_api_libs = toy_tdx_env toy_se"
    by (simp_all add: toy_api_libs_def toy_libs_def the_tdx_env_def toy_tdx_env_def)
  have po: "po_tdx toy_api_policies = Some (toy_params (Some (replicate 16 0)))" "po_gpu toy_api_policies = None"
    "po_floors toy_api_policies = default_floors"
    by (simp_all add: toy_api_policies_def)
  have "verify_platform toy_api_libs Tdx JNull toy_api_policies 50 toy_store 0 = (Inr (TdxRes r, us), toy_store, 0)"
    unfolding verify_platform.simps l po run by (simp add: map_result_def)
  then have "verify_envelope toy_api_libs toy_ctx toy_plain_envelope toy_api_policies toy_store 0 =
      (Inr \<lparr>vd_platform = TdxRes r, vd_gpu = None, vd_collateral = us\<rparr>, toy_store, 0)"
    by (simp add: verify_envelope_def toy_plain_envelope_def check_allowed_def check_gpu_rules_def po n del: verify_platform.simps)
  moreover have "parse_envelope toy_api_libs [] = Inr toy_plain_envelope"
    by (simp add: parse_envelope_def MAX_EVIDENCE_SIZE_def toy_api_libs_def)
  ultimately have "verify toy_api_libs [] toy_api_policies toy_ctx 0 =
      (Inr \<lparr>vd_platform = TdxRes r, vd_gpu = None, vd_collateral = us\<rparr>, toy_ctx, 0)"
    by (simp add: verify_def toy_plain_envelope_def held_collateral_def po n toy_view keep_def)
  then show ?thesis using p by (auto simp: passed_iff list_all_iff)
qed

lemma toy_handled: "\<exists>resp. verify_handler toy_api toy_app (Inr toy_verify_request) 0 = (Inr resp, toy_app, 0)
    \<and> vp_passed resp \<and> vp_token resp \<noteq> None"
proof -
  obtain v where v: "verify toy_api_libs [] toy_api_policies toy_ctx 0 = (Inr v, toy_ctx, 0)" "passed v"
    using toy_api_verified by blast
  obtain t where t: "issue toy_issuer_lib toy_issuer (Some 50) ''id'' v toy_api_policies = Inr t"
    by (simp add: issue_def toy_issuer_lib_def b64_encode_json_def)
  have "token_of toy_issuer_lib (Some toy_issuer) (Some 50) ''id'' toy_verify_request v = Inr (Some t)"
    using v(2) t by (simp add: token_of_def passed_verification_def toy_verify_request_def)
  then have "verify_handler toy_api toy_app (Inr toy_verify_request) 0 =
      (Inr \<lparr>vp_result = v, vp_passed = True, vp_token = Some t\<rparr>, toy_app\<lparr>sa_ctx := toy_ctx\<rparr>, 0)"
    using toy_request_checked v
    by (simp add: verify_handler_def toy_api_def toy_app_def default_api_config_def passed_verification_def)
       (simp add: toy_verify_request_def passed_verification_def)
  moreover have "toy_app\<lparr>sa_ctx := toy_ctx\<rparr> = toy_app" by (simp add: toy_app_def)
  ultimately show ?thesis by simp
qed

section \<open>Witnesses and further properties\<close>

lemma toy_reads_back: "envelopes_read_back (ae_libs toy_api) (il_to_vec (ae_issuer toy_api))"
  by (auto simp: envelopes_read_back_def toy_api_def toy_api_libs_def toy_issuer_lib_def parse_envelope_def
      toy_plain_envelope_def ok_or_Inr_iff split: if_splits)

theorem token_stands_for_a_verdict_witness:
  "\<exists>resp t ti. fst (verify_handler toy_api toy_app (Inr toy_verify_request) 0) = Inr resp \<and> vp_token resp = Some t
    \<and> verdict_on_request toy_api toy_app toy_verify_request Tdx (vp_result resp) 0
    \<and> result_report_data (vd_platform (vp_result resp)) = Some True
    \<and> issue toy_issuer_lib ti (Some 50) ''id'' (vp_result resp) toy_api_policies = Inr t"
proof -
  obtain resp where h: "verify_handler toy_api toy_app (Inr toy_verify_request) 0 = (Inr resp, toy_app, 0)"
    and p: "vp_passed resp" "vp_token resp \<noteq> None" using toy_handled by blast
  have c: "canonical_platform (vq_platform toy_verify_request) = Inr Tdx"
    by (simp add: toy_verify_request_def toy_canonical)
  then have "verdict_on_request toy_api toy_app toy_verify_request platform v w \<Longrightarrow> platform = Tdx" for platform v w
    by (simp add: verdict_on_request_def)
  with token_stands_for_a_verdict [OF h toy_reads_back] p h show ?thesis
    by (fastforce simp: toy_api_def toy_verify_request_def)
qed

text \<open>The quote, certificate, collateral and status a TDX result on a piece of evidence is about, and the
  report and collateral an SNP result is about.\<close>

definition genuine_tdx_result ::
  "('k, 's, 'rk, 'rs, 'key, 'sig, 'grk, 'grs, 'nk, 'ns, 'pem, 'w) libs \<Rightarrow> tdx_evidence \<Rightarrow> tdx_result \<Rightarrow> int \<Rightarrow> bytes \<Rightarrow> tdx_quote
     \<Rightarrow> pck_chain_of \<Rightarrow> tdx_set \<Rightarrow> dcap_status \<Rightarrow> bool" where
  "genuine_tdx_result V ev r now d q pck col status \<longleftrightarrow>
     (\<exists>p. tdx_verify (the_tdx_env V) ev p col now = Inr r) \<and> genuine_quote (the_tdx_env V) ev now = Inr (d, q)
     \<and> quote_trust (vf_dcap V) d q now \<and> pck_of (vf_dcap V) d q = Inr pck
     \<and> quote_status (vf_dcap V) d q (pc_der pck) col now = Inr status"

definition genuine_snp_result ::
  "('k, 's, 'rk, 'rs, 'key, 'sig, 'grk, 'grs, 'nk, 'ns, 'pem, 'w) libs \<Rightarrow> snp_evidence \<Rightarrow> snp_result \<Rightarrow> int
     \<Rightarrow> snp_report \<Rightarrow> snp_set \<Rightarrow> bool" where
  "genuine_snp_result V ev r now report col \<longleftrightarrow>
     (\<exists>p. snp_verify (vf_snp V) ev p col now = Inr r)
     \<and> (\<exists>d gen. parse_evidence (vf_snp V) ev = Inr (d, report, gen) \<and> check_report (vf_snp V) report (ss_vek col) gen now = Inr ())"

lemma verified_tdx_result:
  assumes run: "verify_platform V pl j po now s w = (Inr (TdxRes r, us), s', w')"
    and f: "\<forall>p \<in> set (tdx_params_of po). \<not> tp_allow_debug p \<and> set (tp_accepted p) \<subseteq> set (tp_accepted default_tdx_params)"
    and p: "tdx_passed r"
  shows "\<exists>ev d q pck col status. vf_tdx_evidence V j = Some ev \<and> genuine_tdx_result V ev r now d q pck col status
        \<and> td_attributes (tq_body q) ! 0 AND 1 = 0 \<and> ds_tcb_status status \<notin> {Revoked, NoMatchingLevel}"
proof -
  have "pl = Tdx" using verify_platform_verdict(1) [OF run] by simp
  with run have "run (tdx_platform (the_tdx_env V) (vf_tdx_evidence V)) j (po_tdx po) now s w = (Inr (r, us), s', w')"
    by (auto simp: map_result_Inr)
  then obtain prm ev col where prm: "po_tdx po = Some prm" and ev: "vf_tdx_evidence V j = Some ev"
    and v: "tdx_verify (the_tdx_env V) ev prm col now = Inr r"
    by (rule run_Inr) (auto simp: tdx_platform_def)
  have "prm \<in> set (tdx_params_of po)" by (simp add: prm tdx_params_of_def map_filter_def)
  with f have a: "\<not> tp_allow_debug prm" "set (tp_accepted prm) \<subseteq> set (tp_accepted default_tdx_params)" by auto
  show ?thesis
  proof (rule tdx_verify_passed_iff [OF v])
    fix d q pck st rev
    assume q: "genuine_quote (the_tdx_env V) ev now = Inr (d, q)" "quote_trust (ev_lib (the_tdx_env V)) d q now"
      "pck_of (ev_lib (the_tdx_env V)) d q = Inr pck"
      "quote_status (ev_lib (the_tdx_env V)) d q (pc_der pck) col now = Inr st"
      and m: "tdx_passed r \<longleftrightarrow> body_meets prm (tq_body q) \<and> \<not> rev \<and> ds_tcb_status st \<in> set (tp_accepted prm)"
    have "td_attributes (tq_body q) ! 0 AND 1 = 0" using m p a(1) by (auto simp: body_meets_def)
    moreover have "ds_tcb_status st \<notin> {Revoked, NoMatchingLevel}" using m p a(2) by (auto simp: default_tdx_params_def)
    moreover have "genuine_tdx_result V ev r now d q pck col st" using q v by (auto simp: genuine_tdx_result_def)
    ultimately show ?thesis using ev by blast
  qed
qed

lemma snp_verify_reports:
  assumes "snp_verify L ev p c now = Inr res" "parse_evidence L ev = Inr (d, report, gen)"
  shows "sv_debug res = gp_debug (sr_policy report)" "sv_vmpl res = sr_vmpl report"
  using assms
  by (auto simp: snp_verify_def and_then_Inr_iff check_report_bindings_def check_measurement_registers_def
      evaluate_report_def ok_or_Inr_iff Let_def split: option.splits)

lemma verified_snp_result:
  assumes run: "verify_platform V pl j po now s w = (Inr (SnpRes r, us), s', w')"
    and f: "\<forall>p \<in> set (snp_params_of po). \<not> sp_allow_debug p \<and> sp_max_vmpl p = 0"
    and p: "snp_passed r"
  shows "\<exists>ev report col. vf_snp_evidence V j = Some ev \<and> genuine_snp_result V ev r now report col
        \<and> \<not> gp_debug (sr_policy report) \<and> sr_vmpl report = 0 \<and> \<not> sv_debug r \<and> sv_vmpl r = 0"
proof -
  have "pl = Snp" using verify_platform_verdict(1) [OF run] by simp
  with run have "run (snp_platform (vf_snp_evidence V) (the_snp_env V)) j (po_snp po) now s w = (Inr (r, us), s', w')"
    by (auto simp: map_result_Inr)
  then obtain prm ev col where prm: "po_snp po = Some prm" and ev: "vf_snp_evidence V j = Some ev"
    and v: "snp_verify (vf_snp V) ev prm col now = Inr r"
    by (rule run_Inr) (auto simp: snp_platform_def)
  have "prm \<in> set (snp_params_of po)" by (simp add: prm snp_params_of_def map_filter_def)
  with f have a: "\<not> sp_allow_debug prm" "sp_max_vmpl prm = 0" by auto
  show ?thesis
  proof (rule snp_verify_passed_iff [OF v])
    fix d report gen rev
    assume q: "parse_evidence (vf_snp V) ev = Inr (d, report, gen)" "check_report (vf_snp V) report (ss_vek col) gen now = Inr ()"
      and m: "snp_passed r \<longleftrightarrow> report_meets prm report \<and> caller_meets (vf_snp V) prm ev report \<and> \<not> rev"
    have "\<not> gp_debug (sr_policy report)" "sr_vmpl report = 0" using m p a by (auto simp: report_meets_def)
    moreover have "genuine_snp_result V ev r now report col" using q v by (auto simp: genuine_snp_result_def)
    ultimately show ?thesis using ev snp_verify_reports [OF v q(1)] by auto
  qed
qed

text \<open>C21: A server that allows neither debug guests, nor revoked or unlisted TCB levels, nor
  VMPLs above 0 passes no result for one, whatever params a request brings: a passing TDX
  result is one on a genuine quote in the request's evidence with the debug bit off whose TCB status is
  none of the two, and a passing SNP result one on a report in the request's evidence, signed by its
  VEK, with debug off and VMPL 0, and says so. Envelopes are read back as they were written.\<close>

theorem server_floors_bind_every_request:
  assumes h: "verify_handler E st payload w = (Inr resp, st', w')" and p: "vp_passed resp"
    and c: "\<not> at_allow_debug (ac_attestation (sa_config st))" "\<not> at_allow_nonzero_vmpl (ac_attestation (sa_config st))"
      "\<not> at_allow_revoked_or_unlisted_tcb (ac_attestation (sa_config st))"
    and serde: "envelopes_read_back (ae_libs E) (il_to_vec (ae_issuer E))"
  shows "\<exists>req. payload = Inr req \<and> (case vd_platform (vp_result resp) of
      TdxRes r \<Rightarrow> \<exists>ev d q pck col status. vf_tdx_evidence (ae_libs E) (vq_evidence req) = Some ev
        \<and> genuine_tdx_result (ae_libs E) ev r (ctx_now (vf_utc (ae_libs E)) (sa_ctx st) w) d q pck col status
        \<and> td_attributes (tq_body q) ! 0 AND 1 = 0 \<and> ds_tcb_status status \<notin> {Revoked, NoMatchingLevel}
    | SnpRes r \<Rightarrow> \<exists>ev report col. vf_snp_evidence (ae_libs E) (vq_evidence req) = Some ev
        \<and> genuine_snp_result (ae_libs E) ev r (ctx_now (vf_utc (ae_libs E)) (sa_ctx st) w) report col
        \<and> \<not> gp_debug (sr_policy report) \<and> sr_vmpl report = 0 \<and> \<not> sv_debug r \<and> sv_vmpl r = 0
    | _ \<Rightarrow> True)"
proof (rule verify_handler_verdict [OF h serde])
  fix req platform
  assume req: "payload = Inr req" and vr: "verdict_on_request E st req platform (vp_result resp) w"
    and pp: "vp_passed resp \<longleftrightarrow> passed (vp_result resp)"
  from vr have "check_server_floors (vq_policies req) (ac_attestation (sa_config st)) = Inr ()"
    by (simp add: verdict_on_request_def)
  with c have f: "\<forall>p \<in> set (tdx_params_of (vq_policies req)). \<not> tp_allow_debug p \<and> set (tp_accepted p) \<subseteq> set (tp_accepted default_tdx_params)"
    "\<forall>p \<in> set (snp_params_of (vq_policies req)). \<not> sp_allow_debug p \<and> sp_max_vmpl p = 0"
    unfolding check_server_floors_Inr_iff by blast+
  obtain env s s1 w1 where j: "ev_evidence env = vq_evidence req"
    and ve: "verify_envelope (ae_libs E) (sa_ctx st) env (vq_policies req) s w = (Inr (vp_result resp), s1, w1)"
    using vr by (auto simp: verdict_on_request_def)
  from verify_envelope_Inr(3) [OF ve] obtain us s2 w2 where
    run: "verify_platform (ae_libs E) (ev_platform env) (vq_evidence req) (vq_policies req)
      (ctx_now (vf_utc (ae_libs E)) (sa_ctx st) w) s w = (Inr (vd_platform (vp_result resp), us), s2, w2)"
    unfolding j by blast
  have ps: "result_passed (vd_platform (vp_result resp))" using p pp by (simp add: passed_iff)
  show ?thesis
  proof (cases "vd_platform (vp_result resp)")
    case (TdxRes r)
    with ps req verified_tdx_result [OF run [unfolded TdxRes] f(1)] show ?thesis by simp
  next
    case (SnpRes r)
    with ps req verified_snp_result [OF run [unfolded SnpRes] f(2)] show ?thesis by simp
  qed (use req in simp_all)
qed

theorem server_floors_bind_every_request_witness:
  "\<exists>resp r ev d q pck col status. fst (verify_handler toy_api toy_app (Inr toy_verify_request) 0) = Inr resp
    \<and> vd_platform (vp_result resp) = TdxRes r \<and> genuine_tdx_result toy_api_libs ev r 50 d q pck col status
    \<and> td_attributes (tq_body q) ! 0 AND 1 = 0 \<and> ds_tcb_status status \<notin> {Revoked, NoMatchingLevel}"
proof -
  obtain resp where h: "verify_handler toy_api toy_app (Inr toy_verify_request) 0 = (Inr resp, toy_app, 0)"
    and p: "vp_passed resp" "vp_token resp \<noteq> None" using toy_handled by blast
  have c: "\<not> at_allow_debug (ac_attestation (sa_config toy_app))" "\<not> at_allow_nonzero_vmpl (ac_attestation (sa_config toy_app))"
    "\<not> at_allow_revoked_or_unlisted_tcb (ac_attestation (sa_config toy_app))"
    by (simp_all add: toy_app_def default_api_config_def default_attestation_config_def)
  have l: "ae_libs toy_api = toy_api_libs" by (simp add: toy_api_def)
  have n: "ctx_now (vf_utc toy_api_libs) (sa_ctx toy_app) 0 = 50"
    by (simp add: ctx_now_def toy_app_def toy_ctx_def)
  obtain r where r: "vd_platform (vp_result resp) = TdxRes r"
  proof (rule verify_handler_verdict [OF h toy_reads_back])
    fix req platform
    assume "Inr toy_verify_request = Inr req" and vr: "verdict_on_request toy_api toy_app req platform (vp_result resp) 0"
    then have "req = toy_verify_request" by simp
    with vr have "platform = Tdx" by (simp add: verdict_on_request_def) (simp add: toy_verify_request_def toy_canonical)
    with vr have "result_platform (vd_platform (vp_result resp)) = Tdx"
      by (auto simp: verdict_on_request_def dest!: verify_envelope_evidence(1))
    then show thesis by (cases "vd_platform (vp_result resp)") (auto intro: that)
  qed
  obtain ev d q pck col status where g: "genuine_tdx_result toy_api_libs ev r 50 d q pck col status"
    "td_attributes (tq_body q) ! 0 AND 1 = 0" "ds_tcb_status status \<notin> {Revoked, NoMatchingLevel}"
    using server_floors_bind_every_request [OF h p(1) c toy_reads_back] unfolding l n r by auto
  have "fst (verify_handler toy_api toy_app (Inr toy_verify_request) 0) = Inr resp" by (simp add: h)
  with r g show ?thesis by blast
qed

text \<open>C22: A relying party can check a token with the key set the server publishes: the
  token's three parts decode to a header, the claims and a signature; the header's \<open>kid\<close> is
  that of the one key of the set, whose coordinates are those of the key that signed header
  and claims; and the claims are the issuer, the platform, the result and the policies the
  token was asked for, valid from the time of issue for the configured duration.\<close>

theorem key_set_verifies_tokens:
  assumes ti: "new_issuer L k iss duration = Inr ti" and t: "issue L ti (Some n) jti v po = Inr t"
    and codec: "\<forall>b. CHR ''.'' \<notin> set (il_b64url L b) \<and> url_decode (il_b64url L b) = Some b"
    and json: "\<forall>j b. il_to_vec L j = Some b \<longrightarrow> from_slice b = Some j"
    and es: "\<forall>m. es_verify (il_point L k) m (il_sign L k m)"
  shows "\<exists>h c sg hb cb sb header claims jwk x y px py. split_on (CHR ''.'') t = [h, c, sg]
    \<and> url_decode h = Some hb \<and> from_slice hb = Some header \<and> url_decode c = Some cb \<and> from_slice cb = Some claims
    \<and> url_decode sg = Some sb
    \<and> json_get ''keys'' (ti_jwks ti) = Some (JArr [jwk]) \<and> get_str ''kid'' jwk \<noteq> None
    \<and> get_str ''kid'' header = get_str ''kid'' jwk
    \<and> get_str ''x'' jwk = Some x \<and> get_str ''y'' jwk = Some y \<and> url_decode x = Some px \<and> url_decode y = Some py
    \<and> es_verify (Some px, Some py) (str_bytes (h @ ''.'' @ c)) sb
    \<and> get_str ''iss'' claims = Some iss \<and> get_str ''platform'' claims = Some (platform_name (result_platform (vd_platform v)))
    \<and> json_get ''result'' claims = il_verified L v \<and> json_get ''policy'' claims = il_policies L po
    \<and> json_get ''nbf'' claims = Some (JInt (uint n)) \<and> json_get ''exp'' claims = Some (JInt (uint (n + duration)))"
proof -
  obtain px py where pt: "il_point L k = (Some px, Some py)"
    and ks: "build_jwks L k = Inr (ti_jwks ti)" and kid: "extract_kid (ti_jwks ti) = Inr (ti_kid ti)"
    and f: "ti_signing_key ti = k" "ti_issuer ti = iss" "ti_duration ti = duration"
    using ti by (cases "il_point L k")
      (auto simp: new_issuer_def build_jwks_def and_then_Inr_iff ok_or_Inr_iff simp del: json_get.simps)
  define jwk where "jwk = json_obj [(''kty'', JStr ''EC''), (''crv'', JStr ''P-256''), (''x'', JStr (il_b64url L px)),
    (''y'', JStr (il_b64url L py)), (''use'', JStr ''sig''), (''alg'', JStr ''ES256''), (''kid'', JStr (ti_kid ti))]"
  have "build_jwks L k = Inr (json_obj [(''keys'', JArr [json_obj [(''kty'', JStr ''EC''), (''crv'', JStr ''P-256''),
      (''x'', JStr (il_b64url L px)), (''y'', JStr (il_b64url L py)), (''use'', JStr ''sig''), (''alg'', JStr ''ES256''),
      (''kid'', JStr (jwk_thumbprint L (il_b64url L px) (il_b64url L py)))]])])"
    by (simp add: build_jwks_def pt Let_def)
  with ks have "ti_jwks ti = json_obj [(''keys'', JArr [json_obj [(''kty'', JStr ''EC''), (''crv'', JStr ''P-256''),
      (''x'', JStr (il_b64url L px)), (''y'', JStr (il_b64url L py)), (''use'', JStr ''sig''), (''alg'', JStr ''ES256''),
      (''kid'', JStr (jwk_thumbprint L (il_b64url L px) (il_b64url L py)))]])]"
    by simp
  with kid have j: "json_get ''keys'' (ti_jwks ti) = Some (JArr [jwk])"
    by (auto simp: extract_kid_def ok_or_Inr_iff json_obj_def get_str_def get_index_def jwk_def)
  have jk: "get_str ''kid'' jwk = Some (ti_kid ti)" "get_str ''x'' jwk = Some (il_b64url L px)"
    "get_str ''y'' jwk = Some (il_b64url L py)"
    by (simp_all add: jwk_def json_obj_def get_str_def)
  obtain result policy hb cb where i: "il_verified L v = Some result" "il_policies L po = Some policy"
    "il_to_vec L (jwt_header (ti_kid ti)) = Some hb"
    "il_to_vec L (jwt_claims iss jti n duration (platform_name (result_platform (vd_platform v))) result policy) = Some cb"
    and tok: "t = il_b64url L hb @ ''.'' @ il_b64url L cb @ ''.''
      @ il_b64url L (il_sign L k (str_bytes (il_b64url L hb @ ''.'' @ il_b64url L cb)))"
    using issue_Inr [OF t] by (auto simp: f)
  have parts: "split_on (CHR ''.'') t = [il_b64url L hb, il_b64url L cb,
      il_b64url L (il_sign L k (str_bytes (il_b64url L hb @ ''.'' @ il_b64url L cb)))]"
    using codec by (simp add: tok split_on_append split_on_last)
  define header where "header = jwt_header (ti_kid ti)"
  define claims where "claims = jwt_claims iss jti n duration (platform_name (result_platform (vd_platform v))) result policy"
  have dec: "url_decode (il_b64url L b) = Some b" for b using codec by blast
  have fs: "from_slice hb = Some header" "from_slice cb = Some claims" using json i(3,4) by (auto simp: header_def claims_def)
  have hk: "get_str ''kid'' header = get_str ''kid'' jwk" by (simp add: header_def jwt_header_def get_str_def jk(1) [unfolded get_str_def])
  have kn: "get_str ''kid'' jwk \<noteq> None" by (simp add: jk(1))
  have sig: "es_verify (Some px, Some py) m (il_sign L k m)" for m using es by (simp add: pt)
  have cl: "get_str ''iss'' claims = Some iss"
    "get_str ''platform'' claims = Some (platform_name (result_platform (vd_platform v)))"
    "json_get ''result'' claims = il_verified L v" "json_get ''policy'' claims = il_policies L po"
    "json_get ''nbf'' claims = Some (JInt (uint n))" "json_get ''exp'' claims = Some (JInt (uint (n + duration)))"
    by (simp_all add: claims_def jwt_claims_def get_str_def i(1,2))
  show ?thesis
    by (intro exI conjI) (rule parts dec fs j kn hk jk(2,3) sig cl)+
qed

text \<open>A signer for the witness: hexadecimal for base64, the message as its own signature, and
  JSON text for the two values of one token.\<close>

definition toy_signer0 :: "unit issuer_lib" where
  "toy_signer0 = \<lparr>il_hash = toy_sha, il_b64url = hex_encode hex16, il_point = (\<lambda>_. (Some [1], Some [2])),
     il_sign = (\<lambda>_ m. m), il_to_vec = (\<lambda>_. None), il_verified = (\<lambda>_. Some JNull), il_policies = (\<lambda>_. Some JNull)\<rparr>"

definition toy_token_header :: json where
  "toy_token_header = jwt_header (jwk_thumbprint toy_signer0 (hex_encode hex16 [1]) (hex_encode hex16 [2]))"

definition toy_token_claims :: json where
  "toy_token_claims = jwt_claims ''iss'' ''id'' 50 300 ''tdx'' JNull JNull"

definition toy_signer :: "unit issuer_lib" where
  "toy_signer = toy_signer0\<lparr>il_to_vec := (\<lambda>j. if j = toy_token_header then Some [1] else if j = toy_token_claims then Some [2] else None)\<rparr>"

definition toy_from_slice :: "bytes \<Rightarrow> json option" where
  "toy_from_slice b = (if b = [1] then Some toy_token_header else if b = [2] then Some toy_token_claims else None)"

definition toy_result :: verified where
  "toy_result = \<lparr>vd_platform = TdxRes \<lparr>tr_claims = tdx_extract_claims toy_hex toy_quote, tr_report_data_match = None,
       tr_init_data_match = None, tr_mrtd_match = None, tr_rtmr_match = [None, None, None, None],
       tr_debug = False, tr_allow_debug = False, tr_crl_ok = Some True, tr_tcb_status = None, tr_tcb_status_accepted = Some True\<rparr>,
     vd_gpu = None, vd_collateral = []\<rparr>"

lemma toy_signer_issues:
  "\<exists>ti t. new_issuer toy_signer () ''iss'' 300 = Inr ti \<and> issue toy_signer ti (Some 50) ''id'' toy_result toy_api_policies = Inr t"
proof -
  let ?kid = "jwk_thumbprint toy_signer0 (hex_encode hex16 [1]) (hex_encode hex16 [2])"
  have k: "jwk_thumbprint toy_signer x y = jwk_thumbprint toy_signer0 x y" for x y
    by (simp add: jwk_thumbprint_def toy_signer_def toy_signer0_def)
  have l: "il_point toy_signer () = (Some [1], Some [2])" "il_b64url toy_signer = hex_encode hex16"
    "il_to_vec toy_signer toy_token_header = Some [1]" "il_to_vec toy_signer toy_token_claims \<noteq> None"
    "il_verified toy_signer v = Some JNull" "il_policies toy_signer po = Some JNull" for v po
    by (simp_all add: toy_signer_def toy_signer0_def)
  have "\<exists>ks. build_jwks toy_signer () = Inr ks \<and> extract_kid ks = Inr ?kid"
    by (simp add: build_jwks_def l k extract_kid_def json_obj_def get_str_def get_index_def ok_or_Inr_iff Let_def)
  then obtain ks where ks: "build_jwks toy_signer () = Inr ks" "extract_kid ks = Inr ?kid" by blast
  then have "new_issuer toy_signer () ''iss'' 300 = Inr \<lparr>ti_signing_key = (), ti_kid = ?kid, ti_issuer = ''iss'', ti_duration = 300, ti_jwks = ks\<rparr>"
    by (simp add: new_issuer_def)
  moreover have "\<exists>t. issue toy_signer \<lparr>ti_signing_key = (), ti_kid = ?kid, ti_issuer = ''iss'', ti_duration = 300, ti_jwks = ks\<rparr>
      (Some 50) ''id'' toy_result toy_api_policies = Inr t"
    using l(3,4) by (auto simp: issue_def b64_encode_json_def l toy_result_def toy_token_header_def toy_token_claims_def
        and_then_Inr_iff ok_or_Inr_iff Let_def)
  ultimately show ?thesis by blast
qed

theorem key_set_verifies_tokens_witness:
  "\<exists>ti t h c sg jwk kid. issue toy_signer ti (Some 50) ''id'' toy_result toy_api_policies = Inr t
    \<and> split_on (CHR ''.'') t = [h, c, sg] \<and> json_get ''keys'' (ti_jwks ti) = Some (JArr [jwk]) \<and> get_str ''kid'' jwk = Some kid"
proof -
  obtain ti t where t: "new_issuer toy_signer () ''iss'' 300 = Inr ti"
    "issue toy_signer ti (Some 50) ''id'' toy_result toy_api_policies = Inr t" using toy_signer_issues by blast
  have enc: "il_b64url toy_signer = hex_encode hex16" by (simp add: toy_signer_def toy_signer0_def)
  have a: "\<forall>b. CHR ''.'' \<notin> set (il_b64url toy_signer b) \<and> hex_decode hex16 (il_b64url toy_signer b) = Some b"
    using hex_okD [OF hex16_ok] by (simp add: enc)
  have "toy_token_header \<noteq> toy_token_claims" by (simp add: toy_token_header_def toy_token_claims_def jwt_header_def jwt_claims_def)
  then have b: "\<forall>j b. il_to_vec toy_signer j = Some b \<longrightarrow> toy_from_slice b = Some j"
    by (auto simp: toy_signer_def toy_from_slice_def)
  have c: "\<forall>m. (\<lambda>p m s. p = (Some [1], Some [2]) \<and> s = m) (il_point toy_signer ()) m (il_sign toy_signer () m)"
    by (simp add: toy_signer_def toy_signer0_def)
  from key_set_verifies_tokens [where url_decode = "hex_decode hex16" and from_slice = toy_from_slice
      and es_verify = "\<lambda>p m s. p = (Some [1], Some [2]) \<and> s = m", OF t a b c]
  obtain h c sg jwk where "split_on (CHR ''.'') t = [h, c, sg]" "json_get ''keys'' (ti_jwks ti) = Some (JArr [jwk])"
    "get_str ''kid'' jwk \<noteq> None"
    by (elim exE conjE)
  then show ?thesis using t(2) by blast
qed

text \<open>A request for a protected route goes on exactly when no key is configured or it
  carries, as a bearer token, one of the configured keys; a request without the header is
  refused with 401 even when a configured key is empty. \<open>/health\<close> is always open. The keys
  are compared by their hashes, which are assumed not to collide on them.\<close>

theorem routes_need_a_key:
  assumes "\<And>a b. sha256 H a = sha256 H b \<Longrightarrow> a = b"
  shows "route_guard H c path header =
    (if au_api_keys c = [] \<or> path = ''/health'' \<or> (\<exists>v key. header = Some v \<and> header_str v = Some (''Bearer '' @ key) \<and> key \<in> set (au_api_keys c))
     then Inr ()
     else Inl \<lparr>er_status = 401, er_error = ''unauthorized'',
       er_message = (case Option.bind header header_str of
           None \<Rightarrow> if header = None then ''missing Authorization header'' else ''malformed Authorization header''
         | Some s \<Rightarrow> if strip_prefix ''Bearer '' s = None then ''Authorization header must use Bearer scheme'' else ''invalid API key''),
       er_retry_after = None\<rparr>)"
proof -
  have k: "verify_api_key H key ks \<longleftrightarrow> key \<in> set ks" for key ks
    by (auto simp: verify_api_key_iff dest!: assms)
  show ?thesis
    by (cases header; cases "Option.bind header header_str"; cases "strip_prefix ''Bearer '' (the (Option.bind header header_str))")
       (auto simp: route_guard_def api_key_auth_def k strip_prefix_Some_iff Let_def)
qed

theorem routes_need_a_key_witness:
  "route_guard \<lparr>sha256 = id, sha384 = id\<rparr> \<lparr>au_api_keys = [[]]\<rparr> ''/verify'' None =
    Inl \<lparr>er_status = 401, er_error = ''unauthorized'', er_message = ''missing Authorization header'', er_retry_after = None\<rparr>"
  by (subst routes_need_a_key) simp_all

lemma wait_bounded: "(\<exists>n \<le> API_MAX_RETRY_AFTER. map_option (\<lambda>s. min s API_MAX_RETRY_AFTER) r = Some n) \<longleftrightarrow> r \<noteq> None"
  by (cases r) auto

text \<open>An error answer tells the caller what to do: 502 with \<open>collateral_unavailable\<close> exactly
  when a vendor was out of reach and the request may be retried, with a wait of at most an
  hour passed on and only then; 400 when params or body are wrong; 422 when evidence is
  refused, and only then; and what went wrong inside the server is never in the message.\<close>

theorem errors_say_who_must_act:
  "(er_status (api_into_response sh e) = 502 \<longleftrightarrow> (\<exists>x. e = Verification x \<and> is_retryable x))
    \<and> (er_status (api_into_response sh e) = 502 \<longleftrightarrow> er_error (api_into_response sh e) = ''collateral_unavailable'')
    \<and> (er_retry_after (api_into_response sh e) = None \<or> er_status (api_into_response sh e) = 502 \<and> (\<exists>n \<le> 3600. er_retry_after (api_into_response sh e) = Some n))
    \<and> (er_status (api_into_response sh e) = 422 \<longleftrightarrow> (\<exists>x. e = Verification x \<and> \<not> is_retryable x \<and> \<not> is_invalid_params x))
    \<and> (er_status (api_into_response sh e) = 500 \<longleftrightarrow> (\<exists>d. e = Internal d))
    \<and> er_message (api_into_response sh (Internal d)) = er_message (api_into_response sh (Internal d'))"
proof (cases e)
  case (Verification x)
  then show ?thesis
    using wait_bounded [unfolded API_MAX_RETRY_AFTER_def]
    by (cases x) (auto simp: api_into_response_def is_retryable_def is_invalid_params_def err_retry_after_def API_MAX_RETRY_AFTER_def
        simp del: map_option_eq_Some)
qed (auto simp: api_into_response_def)

end
