(* ===== verification/CloudAttest.thy ===== *)
theory CloudAttest
  imports TdxAttest Azure Google
begin

text \<open>
  Evidence of the other platforms, under \<open>crates/attestation/src/platforms\<close>: \<open>snp/attest.rs\<close>,
  \<open>gcp_snp/attest.rs\<close>, \<open>gcp_tdx/attest.rs\<close>, \<open>az_snp/attest.rs\<close>, \<open>az_tdx/attest.rs\<close> and
  \<open>dstack/attest.rs\<close>. The codecs, the HCL report of the \<open>az_cvm_vtpm\<close> crate and the JSON the
  services answer with are parameters.
\<close>

record get_quote_response =
  gq_quote :: string
  gq_event_log :: string
  gq_vm_config :: string

datatype hcl_kind = HclSnp | HclTdx | HclOther

record gen_lib =
  gl_base64 :: "bytes \<Rightarrow> string"
  gl_base64url :: "bytes \<Rightarrow> string"
  gl_base64url_decode :: "string \<Rightarrow> bytes option"
  gl_hex :: hex_lib
  gl_pem :: "string \<Rightarrow> bytes option"
  gl_hcl_kind :: "bytes \<Rightarrow> hcl_kind option"
  gl_td_report :: "bytes \<Rightarrow> bytes option"
  gl_imds_vcek :: "bytes \<Rightarrow> string option"
  gl_imds_quote :: "bytes \<Rightarrow> string option"
  gl_dstack :: "bytes \<Rightarrow> get_quote_response option"

section \<open>SEV-SNP\<close>

definition SEV_GUEST_DEVICE_PATH :: string where "SEV_GUEST_DEVICE_PATH = ''/dev/sev-guest''"
definition EVENT_LOG_PATH :: string where "EVENT_LOG_PATH = ''/sys/class/misc/sev-guest/event_log''"
definition DMI_BOARD_VENDOR_PATH :: string where "DMI_BOARD_VENDOR_PATH = ''/sys/class/dmi/id/board_vendor''"

definition snp_is_available :: "'m machine \<Rightarrow> 'm \<Rightarrow> bool" where
  "snp_is_available M m = mc_exists M SEV_GUEST_DEVICE_PATH m"

text \<open>The loop over the table, with its three variables: of two certificates of one type the
  later one stays.\<close>

fun cert_entries ::
  "(bytes \<Rightarrow> string) \<Rightarrow> (cert_type \<times> bytes) list \<Rightarrow> string option \<times> string option \<times> string option
     \<Rightarrow> string option \<times> string option \<times> string option" where
  "cert_entries b64 [] v = v"
| "cert_entries b64 ((t, data) # es) (vcek, ask, ark) =
     cert_entries b64 es (case t of
         VcekCert \<Rightarrow> (Some (b64 data), ask, ark)
       | VlekCert \<Rightarrow> (Some (b64 data), ask, ark)
       | AskCert \<Rightarrow> (vcek, Some (b64 data), ark)
       | ArkCert \<Rightarrow> (vcek, ask, Some (b64 data))
       | OtherCert \<Rightarrow> (vcek, ask, ark))"

definition certs_to_chain :: "(bytes \<Rightarrow> string) \<Rightarrow> (cert_type \<times> bytes) list \<Rightarrow> snp_cert_chain option" where
  "certs_to_chain b64 certs = (case cert_entries b64 certs (None, None, None) of (vcek, ask, ark) \<Rightarrow>
     map_option (\<lambda>v. \<lparr>sc_vcek = v, sc_ask = ask, sc_ark = ark\<rparr>) vcek)"

definition read_event_log :: "'m machine \<Rightarrow> (bytes \<Rightarrow> string) \<Rightarrow> string \<Rightarrow> (string option, 'm) act" where
  "read_event_log M b64 path m = (case mc_read M path m of
       (Inr log, m) \<Rightarrow> (Inr (Some (b64 log)), m)
     | (Inl NotFound, m) \<Rightarrow> (Inr None, m)
     | (Inl OtherIo, m) \<Rightarrow> (Inl (HardwareAccessFailed ''read event log''), m))"

definition snp_generate_evidence :: "'m machine \<Rightarrow> gen_lib \<Rightarrow> bytes \<Rightarrow> (snp_evidence, 'm) act" where
  "snp_generate_evidence M G report_data =
     act_then (act_of (pad_report_data report_data 64)) (\<lambda>data.
     act_then (hw ''Firmware::open failed'' (mc_sev_open M)) (\<lambda>_.
     act_then (hw ''get_ext_report failed'' (mc_ext_report M data)) (\<lambda>(report_bytes, certs).
     let cert_chain = Option.bind certs (certs_to_chain (gl_base64 G)) in
     act_then (read_event_log M (gl_base64 G) EVENT_LOG_PATH) (\<lambda>event_log.
     act_of (Inr \<lparr>sne_report = gl_base64 G report_bytes, sne_cert_chain = cert_chain,
                  sne_event_log = event_log\<rparr>)))))"

section \<open>Google\<close>

definition is_google :: "'m machine \<Rightarrow> 'm \<Rightarrow> bool \<times> 'm" where
  "is_google M m = (case read_to_string M DMI_BOARD_VENDOR_PATH m of
       (Inr vendor, m) \<Rightarrow> (str_trim vendor = ''Google'', m)
     | (Inl _, m) \<Rightarrow> (False, m))"

definition gcp_snp_is_available :: "'m machine \<Rightarrow> 'm \<Rightarrow> bool \<times> 'm" where
  "gcp_snp_is_available M m =
     (if \<not> mc_exists M SEV_GUEST_DEVICE_PATH m then (False, m) else is_google M m)"

definition gcp_tdx_is_available :: "'m machine \<Rightarrow> 'm \<Rightarrow> bool \<times> 'm" where
  "gcp_tdx_is_available M m = (case tdx_is_available M m of
       (False, m) \<Rightarrow> (False, m)
     | (True, m) \<Rightarrow> is_google M m)"

definition gcp_snp_generate_evidence :: "'m machine \<Rightarrow> gen_lib \<Rightarrow> bytes \<Rightarrow> (snp_evidence, 'm) act" where
  "gcp_snp_generate_evidence M G report_data = snp_generate_evidence M G report_data"

definition gcp_tdx_generate_evidence_with ::
  "'m machine \<Rightarrow> gen_lib \<Rightarrow> bytes \<Rightarrow> quote_method \<Rightarrow> (tdx_evidence, 'm) act" where
  "gcp_tdx_generate_evidence_with M G report_data method =
     tdx_generate_evidence_with M (gl_base64 G) report_data
       (case method of AutoMethod \<Rightarrow> ConfigFsMethod | explicit \<Rightarrow> explicit)"

section \<open>Azure\<close>

definition VTPM_DEVICE_PATH :: string where "VTPM_DEVICE_PATH = ''/dev/tpm0''"
definition AZURE_CHASSIS_ASSET_TAG :: string where
  "AZURE_CHASSIS_ASSET_TAG = ''7783-7084-3265-9085-8269-3286-77''"
definition IMDS_CERT_URL :: string where
  "IMDS_CERT_URL = ''http://169.254.169.254/metadata/THIM/amd/certification''"
definition IMDS_QUOTE_URL :: string where "IMDS_QUOTE_URL = ''http://169.254.169.254/acc/tdquote''"
definition IMDS_ATTEMPTS :: u32 where "IMDS_ATTEMPTS = 3"
definition IMDS_RETRY_DELAY :: nat where "IMDS_RETRY_DELAY = 200 * 1000000"

definition azure_vtpm_available :: "'m machine \<Rightarrow> 'm \<Rightarrow> bool \<times> 'm" where
  "azure_vtpm_available M m =
     (case read_to_string M ''/sys/class/dmi/id/chassis_asset_tag'' m of
        (Inr tag, m) \<Rightarrow>
          if str_trim tag = AZURE_CHASSIS_ASSET_TAG
          then (case mc_open M VTPM_DEVICE_PATH m of (r, m) \<Rightarrow> (is_ok r, m))
          else (False, m)
      | (Inl _, m) \<Rightarrow> (False, m))"

definition az_is_available :: "'m machine \<Rightarrow> gen_lib \<Rightarrow> hcl_kind \<Rightarrow> 'm \<Rightarrow> bool \<times> 'm" where
  "az_is_available M G kind m = (case azure_vtpm_available M m of
       (False, m) \<Rightarrow> (False, m)
     | (True, m) \<Rightarrow> (case mc_vtpm_report M m of
           (Inl _, m) \<Rightarrow> (False, m)
         | (Inr report, m) \<Rightarrow> (gl_hcl_kind G report = Some kind, m)))"

definition quote_to_tpm_quote :: "hex_lib \<Rightarrow> vtpm_quote \<Rightarrow> tpm_quote" where
  "quote_to_tpm_quote hx q = \<lparr>tq_signature = hex_encode hx (vq_signature q),
     tq_message = hex_encode hx (vq_message q), tq_pcrs = map (hex_encode hx) (vq_pcrs_sha256 q)\<rparr>"

definition is_success :: "nat \<Rightarrow> bool" where
  "is_success status \<longleftrightarrow> 200 \<le> status \<and> status < 300"

definition status_is_retryable :: "nat \<Rightarrow> bool" where
  "status_is_retryable status \<longleftrightarrow> status = 429 \<or> 500 \<le> status \<and> status < 600"

text \<open>One attempt: an error with whether a retry is worth doing, or the certificate's PEM.\<close>

definition fetch_imds_certs :: "'m machine \<Rightarrow> gen_lib \<Rightarrow> 'm \<Rightarrow> (attestation_error \<times> bool + string) \<times> 'm" where
  "fetch_imds_certs M G m = (case mc_get M IMDS_CERT_URL [(''Metadata'', ''true'')] m of
       (Inl transient, m) \<Rightarrow> (Inl (HardwareAccessFailed ''IMDS request failed'', transient), m)
     | (Inr (status, body), m) \<Rightarrow>
         if \<not> is_success status
         then (Inl (HardwareAccessFailed ''IMDS returned an error'', status_is_retryable status), m)
         else (ok_or (HardwareAccessFailed ''failed to parse IMDS cert response'', False)
                 (Option.bind body (gl_imds_vcek G)), m))"

text \<open>The retry loop: \<open>None\<close> would be a loop that never returns. A \<open>Duration\<close> has 64 bits of
  seconds, and doubling one past that panics. The loop's \<open>attempt\<close> is a \<open>u32\<close>.\<close>

definition DURATION_BOUND :: nat where "DURATION_BOUND = 2 ^ 64 * 1000000000"

partial_function (option) retry_loop ::
  "('m \<Rightarrow> (attestation_error \<times> bool + 'a) \<times> 'm) \<Rightarrow> (nat \<Rightarrow> 'm \<Rightarrow> 'm) \<Rightarrow> u32 \<Rightarrow> nat \<Rightarrow> u32 \<Rightarrow> 'm
     \<Rightarrow> ('a res \<times> 'm) option" where
  "retry_loop attempt_fn pause attempts delay attempt m = (case attempt_fn m of
       (Inr v, m) \<Rightarrow> Some (Inr v, m)
     | (Inl (err, retryable), m) \<Rightarrow>
         if \<not> retryable \<or> attempts \<le> attempt then Some (Inl err, m)
         else if 2 * delay \<ge> DURATION_BOUND then Some (Inl Panicked, pause delay m)
         else retry_loop attempt_fn pause attempts (2 * delay) (attempt + 1) (pause delay m))"

definition retry_transient ::
  "(nat \<Rightarrow> 'm \<Rightarrow> 'm) \<Rightarrow> u32 \<Rightarrow> nat \<Rightarrow> ('m \<Rightarrow> (attestation_error \<times> bool + 'a) \<times> 'm) \<Rightarrow> 'm
     \<Rightarrow> ('a res \<times> 'm) option" where
  "retry_transient pause attempts base_delay attempt_fn m =
     retry_loop attempt_fn pause attempts base_delay 1 m"

text \<open>A loop that does not return leaves the caller waiting for ever, which no value stands for;
  that the retries always return is a property of the attester's side (AttestProps).\<close>

definition get_imds_certs :: "'m machine \<Rightarrow> gen_lib \<Rightarrow> (string, 'm) act" where
  "get_imds_certs M G =
     act_then (hw ''build HTTP client'' (mc_http_client M 30 10)) (\<lambda>_ m.
     the (retry_transient (mc_sleep M) IMDS_ATTEMPTS IMDS_RETRY_DELAY (fetch_imds_certs M G) m))"

definition az_snp_generate_evidence :: "'m machine \<Rightarrow> gen_lib \<Rightarrow> bytes \<Rightarrow> (az_snp_evidence, 'm) act" where
  "az_snp_generate_evidence M G report_data =
     act_then (act_of (pad_report_data report_data 50)) (\<lambda>_.
     act_then (hw ''vtpm::get_report failed'' (mc_vtpm_report M)) (\<lambda>hcl_report_bytes.
     act_then (hw ''vtpm::get_quote failed'' (mc_vtpm_quote M report_data)) (\<lambda>quote.
     let tpm_quote = quote_to_tpm_quote (gl_hex G) quote in
     act_then (get_imds_certs M G) (\<lambda>vcek.
     act_then (act_of (ok_or (HardwareAccessFailed ''failed to decode VCEK PEM'') (gl_pem G vcek))) (\<lambda>vcek_der.
     act_of (Inr \<lparr>as_version = 1, as_tpm_quote = tpm_quote, as_hcl_report = gl_base64url G hcl_report_bytes,
                  as_vcek = gl_base64url G vcek_der\<rparr>))))))"

definition get_td_quote_from_imds :: "'m machine \<Rightarrow> gen_lib \<Rightarrow> bytes \<Rightarrow> (bytes, 'm) act" where
  "get_td_quote_from_imds M G td_report =
     (let body = json_obj [(''report'', JStr (gl_base64url G td_report))] in
      act_then (hw ''build HTTP client'' (mc_http_client M 30 10)) (\<lambda>_.
      act_then (hw ''IMDS POST failed'' (mc_post_json M IMDS_QUOTE_URL body)) (\<lambda>(status, answer).
      if \<not> is_success status then act_of (Inl (HardwareAccessFailed ''IMDS returned an error''))
      else act_of
        (and_then (ok_or (HardwareAccessFailed ''IMDS response parse failed'') (Option.bind answer (gl_imds_quote G))) (\<lambda>q.
         ok_or (HardwareAccessFailed ''IMDS quote base64 decode failed'') (decode_base64url (gl_base64url_decode G) q))))))"

definition az_tdx_generate_evidence :: "'m machine \<Rightarrow> gen_lib \<Rightarrow> bytes \<Rightarrow> (az_tdx_evidence, 'm) act" where
  "az_tdx_generate_evidence M G report_data =
     act_then (act_of (pad_report_data report_data 64)) (\<lambda>_.
     act_then (hw ''vtpm::get_report_with_report_data failed'' (mc_vtpm_report_with M report_data)) (\<lambda>hcl_report_bytes.
     act_then (act_of (ok_or (HardwareAccessFailed ''HclReport::new failed'') (gl_hcl_kind G hcl_report_bytes))) (\<lambda>_.
     act_then (act_of (ok_or (HardwareAccessFailed ''failed to extract TdReport from HCL'') (gl_td_report G hcl_report_bytes)))
       (\<lambda>td_report.
     act_then (get_td_quote_from_imds M G td_report) (\<lambda>td_quote_bytes.
     act_then (hw ''vtpm::get_quote failed'' (mc_vtpm_quote M report_data)) (\<lambda>quote.
     act_of (Inr \<lparr>at_version = 1, at_tpm_quote = quote_to_tpm_quote (gl_hex G) quote,
                  at_hcl_report = gl_base64url G hcl_report_bytes, at_td_quote = gl_base64url G td_quote_bytes\<rparr>)))))))"

definition az_tdx_generate_evidence_with ::
  "'m machine \<Rightarrow> gen_lib \<Rightarrow> bytes \<Rightarrow> quote_method \<Rightarrow> (az_tdx_evidence, 'm) act" where
  "az_tdx_generate_evidence_with M G report_data method = az_tdx_generate_evidence M G report_data"

section \<open>dstack\<close>

definition DEFAULT_DSTACK_SOCKET :: string where "DEFAULT_DSTACK_SOCKET = ''/var/run/dstack.sock''"
definition DSTACK_MAX_RESPONSE_SIZE :: nat where "DSTACK_MAX_RESPONSE_SIZE = 10 * 1024 * 1024"

definition dstack_socket :: "'m machine \<Rightarrow> string" where
  "dstack_socket M = (case mc_env M ''DSTACK_SOCKET'' of Some p \<Rightarrow> p | None \<Rightarrow> DEFAULT_DSTACK_SOCKET)"

definition dstack_is_available :: "'m machine \<Rightarrow> 'm \<Rightarrow> bool" where
  "dstack_is_available M m = mc_exists M (dstack_socket M) m"

definition crlf :: string where "crlf = [CHR 0x0D, CHR 0x0A]"

definition dstack_body :: "hex_lib \<Rightarrow> bytes \<Rightarrow> string" where
  "dstack_body hx report_data =
     ''{'' @ [CHR 0x22] @ ''report_data'' @ [CHR 0x22] @ '':'' @ [CHR 0x22] @ hex_encode hx report_data @ [CHR 0x22] @ ''}''"

definition dstack_request :: "string \<Rightarrow> string" where
  "dstack_request body =
     ''POST /GetQuote HTTP/1.1'' @ crlf @ ''Host: localhost'' @ crlf @ ''Content-Type: application/json'' @ crlf
       @ ''Content-Length: '' @ dec_string (length body) @ crlf @ ''Connection: close'' @ crlf @ crlf"

text \<open>\<open>windows(4).position(..)\<close>, and \<open>split_whitespace().nth(1)\<close>.\<close>

definition find_blank_line :: "bytes \<Rightarrow> nat option" where
  "find_blank_line response = find (\<lambda>i. slice response i (i + 4) = str_bytes (crlf @ crlf)) [0..<length response - 3]"

fun take_word :: "bytes \<Rightarrow> bytes" where
  "take_word [] = []"
| "take_word (b # bs) = (if skip_white_space (b # bs) \<noteq> b # bs then [] else b # take_word bs)"

definition second_word :: "string \<Rightarrow> string" where
  "second_word s =
     (let s = skip_white_space (str_bytes s); s = skip_white_space (drop (length (take_word s)) s)
      in bytes_str (take_word s))"

definition status_code_of :: "string \<Rightarrow> nat" where
  "status_code_of headers =
     (let status_line = (case str_lines headers of [] \<Rightarrow> '''' | l # _ \<Rightarrow> l)
      in case from_str_radix (2 ^ 16) 10 (second_word status_line) of Some n \<Rightarrow> n | None \<Rightarrow> 0)"

definition decode_quote_hex :: "hex_lib \<Rightarrow> get_quote_response \<Rightarrow> bytes res" where
  "decode_quote_hex hx r = ok_or (HardwareAccessFailed ''failed to decode dstack quote hex'') (hex_decode hx (gq_quote r))"

definition parse_dstack_response :: "gen_lib \<Rightarrow> bytes \<Rightarrow> get_quote_response res" where
  "parse_dstack_response G response =
     and_then (ok_or (HardwareAccessFailed ''malformed HTTP response from dstack'') (find_blank_line response)) (\<lambda>header_end.
     and_then (ok_or (HardwareAccessFailed ''invalid HTTP headers from dstack'') (from_utf8 (take header_end response))) (\<lambda>headers.
     if status_code_of headers \<noteq> 200 then Inl (HardwareAccessFailed ''dstack returned an error'')
     else
     and_then (ok_or (HardwareAccessFailed ''failed to parse dstack response'') (gl_dstack G (drop (header_end + 4) response)))
       (\<lambda>parsed.
     and_then (decode_quote_hex (gl_hex G) parsed) (\<lambda>_. Inr parsed))))"

definition get_quote_via_socket :: "'m machine \<Rightarrow> gen_lib \<Rightarrow> string \<Rightarrow> bytes \<Rightarrow> (get_quote_response, 'm) act" where
  "get_quote_via_socket M G socket_path report_data =
     act_then (hw ''failed to connect to dstack socket'' (mc_unix_connect M socket_path)) (\<lambda>_.
     finally_do (mc_unix_close M)
       (let body = dstack_body (gl_hex G) report_data in
        act_then (hw ''failed to write to dstack socket'' (mc_unix_write M (str_bytes (dstack_request body)))) (\<lambda>_.
        act_then (hw ''failed to write body to dstack socket'' (mc_unix_write M (str_bytes body))) (\<lambda>_.
        act_then (hw ''failed to read from dstack socket'' (mc_unix_read M DSTACK_MAX_RESPONSE_SIZE)) (\<lambda>response.
        act_of (parse_dstack_response G response))))))"

text \<open>\<open>tokio::time::timeout\<close>; a call that is cut short leaves the machine as it had become.\<close>

definition within_timeout :: "'m machine \<Rightarrow> nat \<Rightarrow> string \<Rightarrow> ('a, 'm) act \<Rightarrow> ('a, 'm) act" where
  "within_timeout M seconds what a m = (case a m of
       (r, m') \<Rightarrow> if mc_expired M seconds m m' then (Inl (HardwareAccessFailed what), m') else (r, m'))"

definition non_empty :: "string \<Rightarrow> string option" where
  "non_empty s = (if s = [] then None else Some s)"

definition dstack_generate_evidence :: "'m machine \<Rightarrow> gen_lib \<Rightarrow> bytes \<Rightarrow> (dstack_evidence, 'm) act" where
  "dstack_generate_evidence M G report_data =
     act_then (act_of (pad_report_data report_data 64)) (\<lambda>padded.
     act_then (within_timeout M 30 ''dstack GetQuote timed out'' (get_quote_via_socket M G (dstack_socket M) padded)) (\<lambda>response.
     act_then (act_of (decode_quote_hex (gl_hex G) response)) (\<lambda>quote_bytes.
     act_of (Inr \<lparr>de_quote = gl_base64 G quote_bytes, de_event_log = non_empty (gq_event_log response),
                  de_vm_config = non_empty (gq_vm_config response)\<rparr>))))"

end
