(* ===== verification/Attest.thy ===== *)
theory Attest
  imports CloudAttest Verifier
begin

text \<open>
  The attester's half of \<open>crates/attestation/src/lib.rs\<close>: which platform the machine is, and
  evidence in its envelope; with \<open>nvidia_gpu/attest.rs\<close>, the GPU bundle, and the form in which
  the evidence of each platform is written (the derived serializers of the \<open>evidence.rs\<close> files).
  What a process remembers, the detected platform and whether the GPU SDK runs, is a part of
  the state beside the machine.
\<close>

section \<open>Evidence as JSON\<close>

definition opt_json :: "string option \<Rightarrow> json" where
  "opt_json s = (case s of None \<Rightarrow> JNull | Some s \<Rightarrow> JStr s)"

definition opt_member :: "string \<Rightarrow> string option \<Rightarrow> (string \<times> json) list" where
  "opt_member k s = (case s of None \<Rightarrow> [] | Some s \<Rightarrow> [(k, JStr s)])"

definition snp_cert_chain_json :: "snp_cert_chain \<Rightarrow> json" where
  "snp_cert_chain_json c =
     json_obj [(''vcek'', JStr (sc_vcek c)), (''ask'', opt_json (sc_ask c)), (''ark'', opt_json (sc_ark c))]"

definition snp_evidence_json :: "snp_evidence \<Rightarrow> json" where
  "snp_evidence_json ev = json_obj
     ([(''attestation_report'', JStr (sne_report ev)),
       (''cert_chain'', case sne_cert_chain ev of None \<Rightarrow> JNull | Some c \<Rightarrow> snp_cert_chain_json c)]
      @ opt_member ''event_log'' (sne_event_log ev))"

definition tdx_evidence_json :: "tdx_evidence \<Rightarrow> json" where
  "tdx_evidence_json ev =
     json_obj [(''quote'', JStr (te_quote ev)), (''cc_eventlog'', opt_json (te_eventlog ev))]"

definition tpm_quote_json :: "tpm_quote \<Rightarrow> json" where
  "tpm_quote_json q = json_obj [(''signature'', JStr (tq_signature q)), (''message'', JStr (tq_message q)),
     (''pcrs'', JArr (map JStr (tq_pcrs q)))]"

definition az_snp_evidence_json :: "az_snp_evidence \<Rightarrow> json" where
  "az_snp_evidence_json ev = json_obj
     [(''version'', JInt (int (unat (as_version ev)))), (''tpm_quote'', tpm_quote_json (as_tpm_quote ev)),
      (''hcl_report'', JStr (as_hcl_report ev)), (''vcek'', JStr (as_vcek ev))]"

definition az_tdx_evidence_json :: "az_tdx_evidence \<Rightarrow> json" where
  "az_tdx_evidence_json ev = json_obj
     [(''version'', JInt (int (unat (at_version ev)))), (''tpm_quote'', tpm_quote_json (at_tpm_quote ev)),
      (''hcl_report'', JStr (at_hcl_report ev)), (''td_quote'', JStr (at_td_quote ev))]"

definition dstack_evidence_json :: "dstack_evidence \<Rightarrow> json" where
  "dstack_evidence_json ev = json_obj
     ((''quote'', JStr (de_quote ev)) # opt_member ''event_log'' (de_event_log ev)
      @ opt_member ''vm_config'' (de_vm_config ev))"

text \<open>The envelope; the forms of a GPU bundle and of attached collateral are the derived ones of
  their types.\<close>

definition envelope_json :: "(gpu_bundle \<Rightarrow> json) \<Rightarrow> (attached_collateral list \<Rightarrow> json) \<Rightarrow> evidence \<Rightarrow> json" where
  "envelope_json bundle_json collateral_json e = json_obj
     ([(''platform'', JStr (platform_name (ev_platform e))), (''evidence'', ev_evidence e)]
      @ (case ev_nvidia_gpu e of None \<Rightarrow> [] | Some g \<Rightarrow> [(''nvidia_gpu'', bundle_json g)])
      @ (if ev_collateral e = [] then [] else [(''collateral'', collateral_json (ev_collateral e))]))"

section \<open>Detection\<close>

text \<open>A probe that found nothing leads to the next one.\<close>

definition probe :: "platform_type \<Rightarrow> ('m \<Rightarrow> bool \<times> 'm) \<Rightarrow> (platform_type, 'm) act \<Rightarrow> (platform_type, 'm) act" where
  "probe p available rest m = (case available m of
       (True, m) \<Rightarrow> (Inr p, m)
     | (False, m) \<Rightarrow> rest m)"

definition detect_uncached :: "'m machine \<Rightarrow> gen_lib \<Rightarrow> (platform_type, 'm) act" where
  "detect_uncached M G =
     probe AzTdx (az_is_available M G HclTdx)
     (probe AzSnp (az_is_available M G HclSnp)
     (probe GcpTdx (gcp_tdx_is_available M)
     (probe GcpSnp (gcp_snp_is_available M)
     (probe Dstack (\<lambda>m. (dstack_is_available M m, m))
     (probe Tdx (tdx_is_available M)
     (probe Snp (\<lambda>m. (snp_is_available M m, m))
     (act_of (Inl NoPlatformDetected))))))))"

definition detect ::
  "'m machine \<Rightarrow> gen_lib \<Rightarrow> platform_type option option \<times> 'm
     \<Rightarrow> platform_type res \<times> platform_type option option \<times> 'm" where
  "detect M G = (\<lambda>(detected, m). case detected of
       Some d \<Rightarrow> (ok_or NoPlatformDetected d, detected, m)
     | None \<Rightarrow> (case detect_uncached M G m of
           (r, m) \<Rightarrow> (ok_or NoPlatformDetected (to_option r), Some (to_option r), m)))"

section \<open>Evidence in its envelope\<close>

definition generate_value :: "'m machine \<Rightarrow> gen_lib \<Rightarrow> platform_type \<Rightarrow> bytes \<Rightarrow> quote_method \<Rightarrow> (json, 'm) act" where
  "generate_value M G platform rd method = (case platform of
       Snp \<Rightarrow> act_then (snp_generate_evidence M G rd) (\<lambda>ev. act_of (Inr (snp_evidence_json ev)))
     | Tdx \<Rightarrow> act_then (tdx_generate_evidence_with M (gl_base64 G) rd method) (\<lambda>ev. act_of (Inr (tdx_evidence_json ev)))
     | AzSnp \<Rightarrow> act_then (az_snp_generate_evidence M G rd) (\<lambda>ev. act_of (Inr (az_snp_evidence_json ev)))
     | AzTdx \<Rightarrow> act_then (az_tdx_generate_evidence_with M G rd method) (\<lambda>ev. act_of (Inr (az_tdx_evidence_json ev)))
     | GcpSnp \<Rightarrow> act_then (gcp_snp_generate_evidence M G rd) (\<lambda>ev. act_of (Inr (snp_evidence_json ev)))
     | GcpTdx \<Rightarrow> act_then (gcp_tdx_generate_evidence_with M G rd method) (\<lambda>ev. act_of (Inr (tdx_evidence_json ev)))
     | Dstack \<Rightarrow> act_then (dstack_generate_evidence M G rd) (\<lambda>ev. act_of (Inr (dstack_evidence_json ev))))"

text \<open>\<open>to_vec\<close> is \<open>serde_json::to_vec\<close> of an envelope, \<open>from_slice\<close> its reader.\<close>

definition attest ::
  "'m machine \<Rightarrow> gen_lib \<Rightarrow> (evidence \<Rightarrow> bytes option) \<Rightarrow> platform_type \<Rightarrow> bytes \<Rightarrow> quote_method \<Rightarrow> (bytes, 'm) act" where
  "attest M G to_vec platform rd method =
     act_then (generate_value M G platform rd method) (\<lambda>v.
     act_of (ok_or (EvidenceDeserialize ''envelope'')
       (to_vec \<lparr>ev_platform = platform, ev_evidence = v, ev_nvidia_gpu = None, ev_collateral = []\<rparr>)))"

section \<open>The GPU bundle\<close>

record sdk_entry =
  se_arch :: string
  se_uuid :: "string option"
  se_evidence :: string
  se_certificate :: string

record nvat_lib =
  na_hash :: hash_lib
  na_hex :: hex_lib
  na_nonce_ok :: "string \<Rightarrow> bool"
  na_entries :: "string \<Rightarrow> sdk_entry list option"

definition gpu_error :: "string \<Rightarrow> attestation_error" where
  "gpu_error what = NvidiaGpuEvidenceCollection what"

definition gpu_ctx :: "string \<Rightarrow> ('a, 'm) io \<Rightarrow> ('a, 'm) act" where
  "gpu_ctx what f m = (case f m of (r, m) \<Rightarrow> (map_err (\<lambda>_. gpu_error what) r, m))"

text \<open>The latch: only a success is kept.\<close>

definition ensure_sdk_init :: "'m machine \<Rightarrow> (unit, bool \<times> 'm) act" where
  "ensure_sdk_init M = (\<lambda>(initialized, m).
     if initialized then (Inr (), initialized, m)
     else (case act_then (gpu_ctx ''NVAT SDK init: SdkOptions::new'' (mc_nvat_options M)) (\<lambda>_.
                gpu_ctx ''NVAT SDK init: NvatSdk::init'' (mc_nvat_init M)) m of
         (Inr _, m) \<Rightarrow> (Inr (), True, m)
       | (Inl e, m) \<Rightarrow> (Inl e, False, m)))"

definition collect_entries ::
  "nvat_lib \<Rightarrow> (unit, 'm) io \<Rightarrow> (string \<Rightarrow> (bool \<times> string option, 'm) io) \<Rightarrow> string \<Rightarrow> (sdk_entry list, 'm) act" where
  "collect_entries N source collect nonce m = (case source m of
       (Inl _, m) \<Rightarrow> (Inr [], m)
     | (Inr _, m) \<Rightarrow> (case collect nonce m of
           (Inr (is_empty, json), m) \<Rightarrow>
             if is_empty then (Inr [], m)
             else (and_then (ok_or (gpu_error ''to_json'') json) (\<lambda>j.
                   ok_or (gpu_error ''parse json'') (na_entries N j)), m)
         | (Inl _, m) \<Rightarrow> (Inr [], m)))"

definition collect_gpu_entries :: "'m machine \<Rightarrow> nvat_lib \<Rightarrow> string \<Rightarrow> (sdk_entry list, 'm) act" where
  "collect_gpu_entries M N = collect_entries N (mc_gpu_source M) (mc_gpu_collect M)"

definition collect_switch_entries :: "'m machine \<Rightarrow> nvat_lib \<Rightarrow> string \<Rightarrow> (sdk_entry list, 'm) act" where
  "collect_switch_entries M N = collect_entries N (mc_switch_source M) (mc_switch_collect M)"

definition arch_named :: "string \<Rightarrow> gpu_arch option" where
  "arch_named s =
     (if s = ''HOPPER'' then Some Hopper
      else if s = ''BLACKWELL'' then Some Blackwell
      else if s = ''LS10'' then Some Ls10 else None)"

definition sdk_entry_to_device :: "nvat_lib \<Rightarrow> sdk_entry \<Rightarrow> gpu_device res" where
  "sdk_entry_to_device N e =
     and_then (ok_or (gpu_error ''unknown arch from SDK'') (arch_named (map ascii_upper (se_arch e)))) (\<lambda>arch.
     let cert_chain_b64 = se_certificate e;
         uuid = (case se_uuid e of Some u \<Rightarrow> u
           | None \<Rightarrow> ''gpu-cert:'' @ hex_encode (na_hex N) (take 16 (sha256 (na_hash N) (str_bytes cert_chain_b64))))
     in Inr \<lparr>gd_arch = arch, gd_uuid = uuid, gd_evidence_b64 = se_evidence e, gd_cert_chain_b64 = cert_chain_b64\<rparr>)"

definition nonce_hex :: "nvat_lib \<Rightarrow> string \<Rightarrow> bytes \<Rightarrow> string res" where
  "nonce_hex N what nonce =
     (let s = hex_encode (na_hex N) nonce in if na_nonce_ok N s then Inr s else Inl (gpu_error what))"

definition collect_bundle :: "'m machine \<Rightarrow> nvat_lib \<Rightarrow> bytes \<Rightarrow> gpu_binding \<Rightarrow> (gpu_bundle, bool \<times> 'm) act" where
  "collect_bundle M N user_nonce binding =
     act_then (ensure_sdk_init M) (\<lambda>_ (initialized, m).
       (case act_then (act_of (nonce_hex N ''Nonce gpu'' (gpu_nonce (na_hash N) user_nonce binding))) (\<lambda>gpu_n.
             act_then (act_of (nonce_hex N ''Nonce switch'' (switch_nonce (na_hash N) user_nonce binding))) (\<lambda>switch_n.
             act_then (collect_gpu_entries M N gpu_n) (\<lambda>gpus.
             act_then (collect_switch_entries M N switch_n) (\<lambda>switches.
             let entries = gpus @ switches in
             if entries = [] then act_of (Inl (gpu_error ''no CC GPUs or switches reported by NVAT SDK''))
             else act_of (and_then (traverse (sdk_entry_to_device N) entries) (\<lambda>devices.
                  Inr \<lparr>gb_devices = sort_key gd_uuid devices, gb_binding = binding\<rparr>)))))) m of
          (r, m) \<Rightarrow> (r, initialized, m)))"

definition lift_act :: "('a, 'm) act \<Rightarrow> ('a, 's \<times> 'm) act" where
  "lift_act a = (\<lambda>(s, m). case a m of (r, m) \<Rightarrow> (r, s, m))"

definition attest_with_nvidia_gpu ::
  "'m machine \<Rightarrow> gen_lib \<Rightarrow> nvat_lib \<Rightarrow> (evidence \<Rightarrow> bytes option) \<Rightarrow> (bytes \<Rightarrow> evidence option)
     \<Rightarrow> platform_type \<Rightarrow> bytes \<Rightarrow> quote_method \<Rightarrow> (bytes, bool \<times> 'm) act" where
  "attest_with_nvidia_gpu M G N to_vec from_slice platform user_nonce method =
     act_then (act_of (check_user_nonce_len user_nonce)) (\<lambda>_.
     act_then (lift_act (attest M G to_vec platform user_nonce method)) (\<lambda>cpu_envelope_bytes.
     act_then (act_of (ok_or (EvidenceDeserialize ''envelope'') (from_slice cpu_envelope_bytes))) (\<lambda>envelope.
     act_then (collect_bundle M N user_nonce default_binding) (\<lambda>bundle.
     act_of (ok_or (EvidenceDeserialize ''envelope'') (to_vec (envelope\<lparr>ev_nvidia_gpu := Some bundle\<rparr>)))))))"

end
