(* ===== verification/Cli.thy ===== *)
theory Cli
  imports Attest
begin

text \<open>
  The command line, \<open>crates/attestation-cli/src/main.rs\<close>, built with the \<open>attest\<close> and
  \<open>nvidia-gpu-attest\<close> features: what its flags ask of the evidence, and with which code each
  command exits. A usage error is the exit with code 2 and its message; the progress and the
  summary written to standard error are left out. \<open>clap\<close>'s reading of the arguments, the files
  and the standard input are parameters.
\<close>

section \<open>Arguments\<close>

datatype platform_arg = SnpArg | TdxArg | AzSnpArg | AzTdxArg | GcpSnpArg | GcpTdxArg

fun to_platform_type :: "platform_arg \<Rightarrow> platform_type" where
  "to_platform_type SnpArg = Snp"
| "to_platform_type TdxArg = Tdx"
| "to_platform_type AzSnpArg = AzSnp"
| "to_platform_type AzTdxArg = AzTdx"
| "to_platform_type GcpSnpArg = GcpSnp"
| "to_platform_type GcpTdxArg = GcpTdx"

record report_data_group =
  rg_report_data :: "string option"
  rg_report_data_hex :: "string option"
  rg_report_data_file :: "string option"

record attest_args =
  aa_platform :: "platform_arg option"
  aa_data :: report_data_group
  aa_nvidia_gpu :: bool
  aa_output :: "string option"

record verify_args =
  va_evidence :: "string option"
  va_platform :: "platform_arg list"
  va_offline :: bool
  va_at :: "int option"
  expected_report_data :: "string option"
  expected_init_data :: "string option"
  expected_mrtd :: "string list"
  expected_rtmr0 :: "string list"
  expected_rtmr1 :: "string list"
  expected_rtmr2 :: "string list"
  expected_rtmr3 :: "string list"
  expected_launch_digest :: "string list"
  expected_pcr :: "string list"
  expected_mr :: "string list"
  nvidia_gpu_user_nonce :: "string option"
  nvidia_gpu_required :: bool
  nvidia_gpu_expected_archs :: "string list option"

text \<open>A command that ends the process: its exit code and message.\<close>

type_synonym 'a cmd = "nat \<times> string + 'a"

definition usage_error :: "string \<Rightarrow> 'a cmd" where
  "usage_error msg = Inl (2, msg)"

definition or_usage :: "string \<Rightarrow> 'a option \<Rightarrow> 'a cmd" where
  "or_usage msg x = ok_or (2, msg) x"

section \<open>Values\<close>

definition parse_hex :: "hex_lib \<Rightarrow> string \<Rightarrow> string \<Rightarrow> bytes cmd" where
  "parse_hex hx hex_str flag = or_usage (''invalid hex for --'' @ flag) (hex_decode hx hex_str)"

definition parse_digest :: "hex_lib \<Rightarrow> string \<Rightarrow> string \<Rightarrow> bytes cmd" where
  "parse_digest hx hex_str flag =
     and_then (parse_hex hx hex_str flag) (\<lambda>b.
     if length b = 48 then Inr b else usage_error (''--'' @ flag @ '' must be 48 bytes''))"

definition parse_index_pin :: "hex_lib \<Rightarrow> nat \<Rightarrow> string \<Rightarrow> nat \<Rightarrow> string + u8 \<times> bytes" where
  "parse_index_pin hx n pin top_index =
     and_then (ok_or ''expected INDEX=HEX'' (split_once (CHR ''='') pin)) (\<lambda>(index, value).
     and_then (case from_str_radix 256 10 index of
           Some i \<Rightarrow> if i \<le> top_index then Inr i else Inl ''index out of range''
         | None \<Rightarrow> Inl ''index out of range'') (\<lambda>index.
     and_then (ok_or ''bad hex'' (hex_decode hx value)) (\<lambda>bytes.
     if length bytes = n then Inr (of_nat index, bytes) else Inl ''value has another length'')))"

fun parse_index_pins_loop :: "hex_lib \<Rightarrow> nat \<Rightarrow> string \<Rightarrow> nat \<Rightarrow> string list \<Rightarrow> pins \<Rightarrow> pins cmd" where
  "parse_index_pins_loop hx n flag top_index [] values = Inr values"
| "parse_index_pins_loop hx n flag top_index (pin # ps) values =
     and_then (map_err (\<lambda>e. (2, ''invalid --'' @ flag @ '': '' @ e)) (parse_index_pin hx n pin top_index)) (\<lambda>(index, value).
     if map_of values index \<noteq> None then usage_error (''--'' @ flag @ '' pins an index more than once'')
     else parse_index_pins_loop hx n flag top_index ps (bt_insert index value values))"

definition parse_index_pins :: "hex_lib \<Rightarrow> nat \<Rightarrow> string list \<Rightarrow> string \<Rightarrow> nat \<Rightarrow> pins cmd" where
  "parse_index_pins hx n ps flag top_index = parse_index_pins_loop hx n flag top_index ps []"

section \<open>The platforms accepted\<close>

definition ALL_PLATFORMS :: "platform_type list" where "ALL_PLATFORMS = [Tdx, AzTdx, GcpTdx, Snp, AzSnp, GcpSnp]"
definition TDX_PLATFORMS :: "platform_type list" where "TDX_PLATFORMS = [Tdx, AzTdx, GcpTdx]"
definition SNP_PLATFORMS :: "platform_type list" where "SNP_PLATFORMS = [Snp, AzSnp, GcpSnp]"
definition AZURE_PLATFORMS :: "platform_type list" where "AZURE_PLATFORMS = [AzTdx, AzSnp]"

text \<open>The pins given, with the platforms each applies to.\<close>

definition pins_given :: "verify_args \<Rightarrow> (string \<times> platform_type list) list" where
  "pins_given args =
     (let rtmr_pinned = list_ex (\<lambda>r. r \<noteq> [])
            [expected_rtmr0 args, expected_rtmr1 args, expected_rtmr2 args, expected_rtmr3 args]
      in (if expected_mrtd args \<noteq> [] \<or> rtmr_pinned then [(''--expected-mrtd/--expected-rtmrN'', TDX_PLATFORMS)] else [])
       @ (if expected_launch_digest args \<noteq> [] then [(''--expected-launch-digest'', SNP_PLATFORMS)] else [])
       @ (if expected_pcr args \<noteq> [] then [(''--expected-pcr'', AZURE_PLATFORMS)] else [])
       @ (if expected_mr args \<noteq> [] then [(''--expected-mr'', [Snp])] else []))"

definition accepted_platforms :: "verify_args \<Rightarrow> platform_type list cmd" where
  "accepted_platforms args =
     (let given = pins_given args in
      and_then
        (if va_platform args = []
         then if given = [] then usage_error ''say which platform the evidence must come from with --platform''
              else Inr (filter (\<lambda>p. list_all (\<lambda>(_, applies). p \<in> set applies) given) ALL_PLATFORMS)
         else Inr (map to_platform_type (va_platform args))) (\<lambda>platforms.
      if platforms = [] then usage_error ''the pins given do not all apply to any one platform''
      else and_then (check_each (\<lambda>platform. check_each (\<lambda>(flag, applies).
               if platform \<in> set applies then Inr ()
               else usage_error (flag @ '' does not apply to '' @ platform_name platform @ '' evidence'')) given)
             platforms) (\<lambda>_. Inr platforms)))"

section \<open>Policies\<close>

definition digests :: "hex_lib \<Rightarrow> string list \<Rightarrow> string \<Rightarrow> bytes list option cmd" where
  "digests hx values flag =
     (if values = [] then Inr None else map_sum id Some (traverse (\<lambda>h. parse_digest hx h flag) values))"

definition opt_hex :: "hex_lib \<Rightarrow> string option \<Rightarrow> string \<Rightarrow> bytes option cmd" where
  "opt_hex hx value flag = transpose_option (map_option (\<lambda>h. parse_hex hx h flag) value)"

text \<open>Registers below the highest one pinned that are not pinned are zero.\<close>

definition registers_of :: "pins \<Rightarrow> bytes list" where
  "registers_of ps =
     (let len = (if ps = [] then 0 else unat (fst (last ps)) + 1)
      in map (\<lambda>i. case map_of ps (of_nat i) of Some v \<Rightarrow> v | None \<Rightarrow> replicate 48 0) [0..<len])"

definition opt_registers :: "hex_lib \<Rightarrow> string list \<Rightarrow> bytes list option cmd" where
  "opt_registers hx values =
     (if values = [] then Inr None
      else map_sum id (\<lambda>ps. Some (registers_of ps)) (parse_index_pins hx 48 values ''expected-mr'' 15))"

definition arch_arg :: "string \<Rightarrow> gpu_arch cmd" where
  "arch_arg a = or_usage ''unknown arch for --nvidia-gpu-expected-archs'' (arch_named (map ascii_upper a))"

text \<open>The GPU's params, and the report data, which is the GPU nonce when it is not given.\<close>

definition gpu_policy :: "hex_lib \<Rightarrow> verify_args \<Rightarrow> bytes option \<Rightarrow> (gpu_params option \<times> bytes option) cmd" where
  "gpu_policy hx args rd =
     (if nvidia_gpu_user_nonce args \<noteq> None \<or> nvidia_gpu_required args \<or> nvidia_gpu_expected_archs args \<noteq> None
      then and_then (opt_hex hx (nvidia_gpu_user_nonce args) ''nvidia-gpu-user-nonce'') (\<lambda>user_nonce.
           and_then (transpose_option (map_option (traverse arch_arg) (nvidia_gpu_expected_archs args))) (\<lambda>archs.
           Inr (Some (default_gpu_params\<lparr>gp_user_nonce := user_nonce, gp_required := nvidia_gpu_required args,
                        gp_expected_archs := archs\<rparr>),
                case rd of None \<Rightarrow> user_nonce | Some _ \<Rightarrow> rd)))
      else Inr (None, rd))"

definition default_policies :: policies where
  "default_policies = \<lparr>po_tdx = None, po_snp = None, po_az_tdx = None, po_az_snp = None, po_gcp_tdx = None,
     po_gcp_snp = None, po_dstack = None, po_gpu = None, po_floors = default_floors\<rparr>"

fun set_policy :: "tdx_params \<Rightarrow> snp_params \<Rightarrow> pins \<Rightarrow> platform_type \<Rightarrow> policies \<Rightarrow> policies" where
  "set_policy tdx snp ps Tdx po = po\<lparr>po_tdx := Some tdx\<rparr>"
| "set_policy tdx snp ps AzTdx po = po\<lparr>po_az_tdx := Some \<lparr>atp_tdx = tdx, atp_pcrs = ps\<rparr>\<rparr>"
| "set_policy tdx snp ps GcpTdx po = po\<lparr>po_gcp_tdx := Some \<lparr>gtp_tdx = tdx\<rparr>\<rparr>"
| "set_policy tdx snp ps Snp po = po\<lparr>po_snp := Some snp\<rparr>"
| "set_policy tdx snp ps AzSnp po = po\<lparr>po_az_snp := Some \<lparr>asp_snp = snp, asp_pcrs = ps\<rparr>\<rparr>"
| "set_policy tdx snp ps GcpSnp po = po\<lparr>po_gcp_snp := Some \<lparr>gsp_snp = snp\<rparr>\<rparr>"
| "set_policy tdx snp ps Dstack po = po"

definition build_policies :: "hex_lib \<Rightarrow> verify_args \<Rightarrow> policies cmd" where
  "build_policies hx args =
     and_then (accepted_platforms args) (\<lambda>platforms.
     and_then (opt_hex hx (expected_report_data args) ''expected-report-data'') (\<lambda>rd.
     and_then (opt_hex hx (expected_init_data args) ''expected-init-data'') (\<lambda>init_data.
     and_then (digests hx (expected_mrtd args) ''expected-mrtd'') (\<lambda>mrtd.
     and_then (digests hx (expected_rtmr0 args) ''expected-rtmr0'') (\<lambda>rtmr0.
     and_then (digests hx (expected_rtmr1 args) ''expected-rtmr1'') (\<lambda>rtmr1.
     and_then (digests hx (expected_rtmr2 args) ''expected-rtmr2'') (\<lambda>rtmr2.
     and_then (digests hx (expected_rtmr3 args) ''expected-rtmr3'') (\<lambda>rtmr3.
     and_then (digests hx (expected_launch_digest args) ''expected-launch-digest'') (\<lambda>launch_digest.
     and_then (parse_index_pins hx 32 (expected_pcr args) ''expected-pcr'' 23) (\<lambda>pcrs.
     and_then (opt_registers hx (expected_mr args)) (\<lambda>registers.
     and_then (gpu_policy hx args rd) (\<lambda>(gpu, rd).
     let tdx = default_tdx_params\<lparr>tp_report_data := rd, tp_init_data := init_data, tp_mrtd := mrtd,
                 tp_rtmr0 := rtmr0, tp_rtmr1 := rtmr1, tp_rtmr2 := rtmr2, tp_rtmr3 := rtmr3\<rparr>;
         snp = default_snp_params\<lparr>sp_report_data := rd, sp_host_data := init_data,
                 sp_launch_digest := launch_digest, sp_registers := registers\<rparr>
     in Inr (fold (set_policy tdx snp pcrs) platforms (default_policies\<lparr>po_gpu := gpu\<rparr>))))))))))))))"

section \<open>Verifying\<close>

text \<open>What a run reads: files with their sizes, standard input up to a number of bytes, the
  hex codec, the JSON of a verdict, the collateral kept from earlier runs, the NRAS
  configuration, and the wall clock of the library.\<close>

record cli_env =
  cl_hex :: hex_lib
  cl_stat :: "string \<Rightarrow> nat option"
  cl_read :: "string \<Rightarrow> bytes option"
  cl_stdin :: "nat \<Rightarrow> bytes option"
  cl_verdict_json :: "verified \<Rightarrow> json"
  cl_cache :: "files option"
  cl_nras :: nras

definition read_evidence :: "cli_env \<Rightarrow> verify_args \<Rightarrow> string + bytes" where
  "read_evidence C args = (case va_evidence args of
       Some path \<Rightarrow>
         and_then (ok_or ''failed to stat the evidence file'' (cl_stat C path)) (\<lambda>len.
         if len > MAX_EVIDENCE_SIZE then Inl ''evidence file too large''
         else ok_or ''failed to read the evidence file'' (cl_read C path))
     | None \<Rightarrow>
         and_then (ok_or ''failed to read stdin'' (cl_stdin C (MAX_EVIDENCE_SIZE + 1))) (\<lambda>buf.
         if length buf > MAX_EVIDENCE_SIZE then Inl ''evidence from stdin too large'' else Inr buf))"

definition exit_for_error :: "attestation_error \<Rightarrow> nat \<times> string" where
  "exit_for_error e =
     (if is_invalid_params e then (2, error_display e)
      else if is_retryable e then (3, error_display e)
      else (1, error_display e))"

text \<open>The context keeps collateral between runs.\<close>

definition cli_context :: "cli_env \<Rightarrow> ctx \<Rightarrow> ctx" where
  "cli_context C c = (case cl_cache C of Some dir \<Rightarrow> with_cache_dir dir c | None \<Rightarrow> c)"

definition verify_context :: "cli_env \<Rightarrow> verify_args \<Rightarrow> ctx cmd" where
  "verify_context C args =
     (let c = (if va_offline args then offline_ctx (cl_nras C) else new_ctx (cl_nras C)) in
      map_sum id (cli_context C) (case va_at args of
          Some t \<Rightarrow> map_err (\<lambda>e. (2, error_display e)) (at_time t c)
        | None \<Rightarrow> Inr c))"

text \<open>The exit code, and the JSON printed.\<close>

definition cmd_verify ::
  "('k, 's, 'rk, 'rs, 'key, 'sig, 'grk, 'grs, 'nk, 'ns, 'pem, 'w) libs \<Rightarrow> cli_env \<Rightarrow> verify_args \<Rightarrow> 'w
     \<Rightarrow> (nat \<times> json option) \<times> 'w" where
  "cmd_verify V C args w =
     (case and_then (map_err (\<lambda>e. (2, e)) (read_evidence C args)) (\<lambda>evidence_json.
           and_then (build_policies (cl_hex C) args) (\<lambda>po.
           and_then (verify_context C args) (\<lambda>c. Inr (evidence_json, po, c)))) of
        Inl (code, _) \<Rightarrow> ((code, None), w)
      | Inr (evidence_json, po, c) \<Rightarrow>
          (case verify V evidence_json po c w of
             (Inl e, _, w) \<Rightarrow> ((fst (exit_for_error e), None), w)
           | (Inr vd, _, w) \<Rightarrow>
               ((if passed vd then 0 else 1,
                 Some (object_set ''passed'' (JBool (passed vd)) (cl_verdict_json C vd))), w)))"

section \<open>Attesting\<close>

definition resolve_report_data :: "cli_env \<Rightarrow> report_data_group \<Rightarrow> string + bytes" where
  "resolve_report_data C g = (case rg_report_data g of
       Some s \<Rightarrow> Inr (str_bytes s)
     | None \<Rightarrow> (case rg_report_data_hex g of
           Some h \<Rightarrow> ok_or ''invalid hex for --report-data-hex'' (hex_decode (cl_hex C) h)
         | None \<Rightarrow> (case rg_report_data_file g of
               Some path \<Rightarrow> ok_or ''failed to read the report data file'' (cl_read C path)
             | None \<Rightarrow> Inr [])))"

definition cmd_detect :: "'m machine \<Rightarrow> gen_lib \<Rightarrow> 'm \<Rightarrow> (nat \<times> string option) \<times> 'm" where
  "cmd_detect M G m = (case detect M G (None, m) of
       (Inr platform, _, m) \<Rightarrow> ((0, Some (platform_name platform)), m)
     | (Inl _, _, m) \<Rightarrow> ((1, None), m))"

text \<open>The platform attested: the one named, or the one detected.\<close>

definition attest_platform :: "'m machine \<Rightarrow> gen_lib \<Rightarrow> attest_args \<Rightarrow> (platform_type, 'm) act" where
  "attest_platform M G args m = (case aa_platform args of
       Some p \<Rightarrow> (Inr (to_platform_type p), m)
     | None \<Rightarrow> (case detect M G (None, m) of (r, _, m) \<Rightarrow> (r, m)))"

text \<open>What is written: to the file named, or to standard output with a final line feed.\<close>

definition terminated :: "bytes \<Rightarrow> bytes" where
  "terminated b = (if b \<noteq> [] \<and> last b = 0x0A then b else b @ [0x0A])"

definition write_evidence ::
  "'m machine \<Rightarrow> (bytes \<Rightarrow> (unit, 'm) io) \<Rightarrow> attest_args \<Rightarrow> bytes \<Rightarrow> 'm \<Rightarrow> nat \<times> 'm" where
  "write_evidence M stdout args evidence_json m = (case aa_output args of
       Some path \<Rightarrow> (case mc_write M path evidence_json m of (r, m) \<Rightarrow> (if is_ok r then 0 else 1, m))
     | None \<Rightarrow> (case stdout (terminated evidence_json) m of (r, m) \<Rightarrow> (if is_ok r then 0 else 1, m)))"

definition cli_evidence ::
  "('k, 's, 'rk, 'rs, 'key, 'sig, 'grk, 'grs, 'nk, 'ns, 'pem, 'w) libs \<Rightarrow> cli_env \<Rightarrow> 'm machine \<Rightarrow> gen_lib \<Rightarrow> nvat_lib
     \<Rightarrow> attest_args \<Rightarrow> bytes \<Rightarrow> platform_type \<Rightarrow> (bytes, 'm) act" where
  "cli_evidence V C M G N args rd platform m =
     (if aa_nvidia_gpu args
      then (case attest_with_nvidia_gpu M G N (vf_envelope_bytes V) (vf_envelope V) platform rd AutoMethod (False, m) of
              (r, _, m) \<Rightarrow> (r, m))
      else attest M G (vf_envelope_bytes V) platform rd AutoMethod m)"

definition cmd_attest ::
  "('k, 's, 'rk, 'rs, 'key, 'sig, 'grk, 'grs, 'nk, 'ns, 'pem, 'w) libs \<Rightarrow> cli_env \<Rightarrow> 'm machine \<Rightarrow> gen_lib \<Rightarrow> nvat_lib
     \<Rightarrow> (bytes \<Rightarrow> (unit, 'm) io) \<Rightarrow> attest_args \<Rightarrow> 'm \<Rightarrow> 'w \<Rightarrow> nat \<times> 'm \<times> 'w" where
  "cmd_attest V C M G N stdout args m w = (case resolve_report_data C (aa_data args) of
       Inl _ \<Rightarrow> (1, m, w)
     | Inr rd \<Rightarrow> (case act_then (attest_platform M G args) (cli_evidence V C M G N args rd) m of
           (Inl _, m) \<Rightarrow> (1, m, w)
         | (Inr evidence_json, m) \<Rightarrow>
             (case attach_collateral V evidence_json rd (cli_context C (new_ctx (cl_nras C))) w of
                (r, _, w) \<Rightarrow>
                  (case write_evidence M stdout args (case r of Inr json \<Rightarrow> json | Inl _ \<Rightarrow> evidence_json) m of
                     (code, m) \<Rightarrow> (code, m, w)))))"

end
