(* ===== verification/Wasm.thy ===== *)
theory Wasm
  imports Verifier
begin

text \<open>
  The verifier for browsers, \<open>crates/attestation-wasm/src/lib.rs\<close>: the entry points under their
  JavaScript wrappers. There is no network: what the evidence does not carry, the caller fetches
  and hands over. Reading the policies and the collateral from JSON are parameters. The entry
  points call the verification of 64 bits; in the browser, whose \<open>usize\<close> has 32, a quote
  with a size near the largest one panics instead of being refused (\<open>browser_build_panics\<close> in TdxQuote).
\<close>

record wasm_failure =
  fl_kind :: string
  fl_message :: string

definition bad_request :: "string \<Rightarrow> wasm_failure" where
  "bad_request msg = \<lparr>fl_kind = ''bad_request'', fl_message = msg\<rparr>"

definition failure_of :: "attestation_error \<Rightarrow> wasm_failure" where
  "failure_of e = \<lparr>fl_kind =
       (if is_retryable e then ''collateral_unavailable''
        else if is_invalid_params e then ''bad_request''
        else case e of PlatformNotAllowed _ \<Rightarrow> ''platform_not_allowed'' | _ \<Rightarrow> ''verification_failed''),
     fl_message = error_display e\<rparr>"

definition collateral_needed ::
  "('k, 's, 'rk, 'rs, 'key, 'sig, 'grk, 'grs, 'nk, 'ns, 'pem, 'w) libs \<Rightarrow> nras \<Rightarrow> bytes \<Rightarrow> 'w
     \<Rightarrow> (wasm_failure + string list) \<times> 'w" where
  "collateral_needed V nr envelope_json w = (case verify V envelope_json all_policies (held_ctx nr []) w of
       (Inl e, c, w) \<Rightarrow> (if \<not> is_retryable e then Inl (failure_of e) else Inr (st_missing (cx_store c)), w)
     | (Inr _, c, w) \<Rightarrow> (Inr (st_missing (cx_store c)), w))"

text \<open>\<open>evaluate_impl\<close>; \<open>now\<close> is the time of the tests.\<close>

definition evaluate ::
  "('k, 's, 'rk, 'rs, 'key, 'sig, 'grk, 'grs, 'nk, 'ns, 'pem, 'w) libs \<Rightarrow> nras \<Rightarrow> (string \<Rightarrow> policies option)
     \<Rightarrow> (string \<Rightarrow> attached_collateral list option) \<Rightarrow> (verified \<Rightarrow> json) \<Rightarrow> bytes \<Rightarrow> string \<Rightarrow> string \<Rightarrow> int option \<Rightarrow> 'w
     \<Rightarrow> (wasm_failure + json) \<times> 'w" where
  "evaluate V nr read_policies read_collateral to_json envelope_json policies_json collateral_json now w =
     (case and_then (ok_or (bad_request ''policies deserialize'') (read_policies policies_json)) (\<lambda>po.
           and_then (ok_or (bad_request ''collateral deserialize'') (read_collateral collateral_json)) (\<lambda>held.
           let c = held_ctx nr (map (\<lambda>h. (ac_url h, ac_body h, ac_issuer_chain h)) held) in
           map_sum id (Pair po) (case now of Some t \<Rightarrow> map_err failure_of (at_time t c) | None \<Rightarrow> Inr c))) of
        Inl f \<Rightarrow> (Inl f, w)
      | Inr (po, c) \<Rightarrow> (case verify V envelope_json po c w of
            (Inl e, _, w) \<Rightarrow> (Inl (failure_of e), w)
          | (Inr vd, _, w) \<Rightarrow> (Inr (object_set ''passed'' (JBool (passed vd)) (to_json vd)), w)))"

end
