(* ===== verification/Offline.thy ===== *)
theory Offline
  imports Verifier
begin

text \<open>
  Without a vendor the store asks nobody: lookups, the gathering of every platform, and with
  them a whole verification leave the network as it was, and the store still without a vendor.
  This is what an offline command-line run and the verifier for browsers rest on.
\<close>

definition quiet :: "store \<Rightarrow> bool" where
  "quiet s \<longleftrightarrow> Option.bind (st_native s) nv_vendor = None"

text \<open>What a step does to a quiet store.\<close>

definition stays_quiet :: "(store \<Rightarrow> 'w \<Rightarrow> 'a \<times> store \<times> 'w) \<Rightarrow> bool" where
  "stays_quiet f \<longleftrightarrow> (\<forall>s w r s' w'. quiet s \<longrightarrow> f s w = (r, s', w') \<longrightarrow> quiet s' \<and> w' = w)"

named_theorems quiet_steps "steps that ask nobody without a vendor"

lemma stays_quietD: "stays_quiet f \<Longrightarrow> f s w = (r, s', w') \<Longrightarrow> quiet s \<Longrightarrow> quiet s' \<and> w' = w"
  by (auto simp: stays_quiet_def)

lemma stays_quietI: "(\<And>s w r s' w'. quiet s \<Longrightarrow> f s w = (r, s', w') \<Longrightarrow> quiet s' \<and> w' = w) \<Longrightarrow> stays_quiet f"
  by (simp add: stays_quiet_def)

section \<open>The store\<close>

lemma fetch_quiet:
  "nv_vendor n = None \<Longrightarrow> fetch env k pid url cold n w = (r, n', w') \<Longrightarrow> nv_vendor n' = None \<and> w' = w \<and> (\<exists>f. r = Inl f)"
  by (auto simp: fetch_def before_fetch_def)

lemma refresh_quiet:
  assumes "nv_vendor n = None" "refresh env k pid url force now n w = (r, n', w')"
  shows "nv_vendor n' = None \<and> w' = w"
proof -
  obtain r1 n1 w1 where f: "fetch env k pid url False n w = (r1, n1, w1)" by (rule prod_cases3)
  from fetch_quiet [OF assms(1) f] assms f show ?thesis
    by (auto simp: refresh_def Let_def split: if_splits option.splits)
qed

lemma load_quiet:
  assumes "nv_vendor n = None" "load env k pid url now n w = (r, n', w')"
  shows "nv_vendor n' = None \<and> w' = w"
proof -
  let ?d = "disk_copy env k pid url n w"
  obtain r1 n1 w1 where f: "fetch env k pid url (?d = None) n w = (r1, n1, w1)" by (rule prod_cases3)
  from fetch_quiet [OF assms(1) f] assms f show ?thesis
    by (cases ?d) (auto simp: load_def Let_def split: if_splits)
qed

lemma native_entry_quiet:
  assumes "nv_vendor n = None" "native_entry env k pid url now n w = (r, n', w')"
  shows "nv_vendor n' = None \<and> w' = w"
proof (cases "mem n url")
  case None
  obtain r1 n1 w1 where l: "load env k pid url now n w = (r1, n1, w1)" by (rule prod_cases3)
  from load_quiet [OF assms(1) l] assms(2) l None show ?thesis
    by (cases r1) (auto simp: native_entry_def)
next
  case (Some e)
  obtain r1 n1 w1 where l: "refresh env k pid url False now n w = (r1, n1, w1)" by (rule prod_cases3)
  obtain a b c where r1: "r1 = (a, b, c)" by (rule prod_cases3)
  from refresh_quiet [OF assms(1) l] assms l Some r1 show ?thesis
    by (auto simp: native_entry_def Let_def split: if_splits)
qed

lemma store_load_quiet: "stays_quiet (store_load env k pid url now)"
proof (rule stays_quietI)
  fix s w r s' w'
  assume q: "quiet s" and l: "store_load env k pid url now s w = (r, s', w')"
  show "quiet s' \<and> w' = w"
  proof (cases "st_native s")
    case None
    with q l show ?thesis by (auto simp: store_load_def quiet_def split: if_splits)
  next
    case (Some n)
    obtain r1 n1 w1 where e: "native_entry env k pid url now n w = (r1, n1, w1)" by (rule prod_cases3)
    from q Some have "nv_vendor n = None" by (simp add: quiet_def)
    from native_entry_quiet [OF this e] l e Some show ?thesis by (auto simp: store_load_def quiet_def)
  qed
qed

lemma record_used_quiet [simp]: "quiet (record_used u b c s) = quiet s"
  by (simp add: quiet_def)

lemma lookup_quiet: "stays_quiet (lookup env k pid now)"
proof (rule stays_quietI)
  fix s w r s' w'
  assume q: "quiet s" and l: "lookup env k pid now s w = (r, s', w')"
  obtain r1 s1 w1 where e: "store_load env k pid (piece_url k pid) now s w = (r1, s1, w1)" by (rule prod_cases3)
  from stays_quietD [OF store_load_quiet e q] q l e show "quiet s' \<and> w' = w"
    by (auto simp: lookup_def Let_def split: sum.splits if_splits prod.splits)
qed

lemma get_quiet [quiet_steps]: "stays_quiet (get env k pid now)"
proof (rule stays_quietI)
  fix s w r s' w'
  assume q: "quiet s" and l: "get env k pid now s w = (r, s', w')"
  obtain r1 s1 w1 where e: "lookup env k pid now s w = (r1, s1, w1)" by (rule prod_cases3)
  from stays_quietD [OF lookup_quiet e q] l e show "quiet s' \<and> w' = w" by (simp add: get_def)
qed

lemma get_if_published_quiet [quiet_steps]: "stays_quiet (get_if_published env k pid now)"
proof (rule stays_quietI)
  fix s w r s' w'
  assume q: "quiet s" and l: "get_if_published env k pid now s w = (r, s', w')"
  obtain r1 s1 w1 where e: "lookup env k pid now s w = (r1, s1, w1)" by (rule prod_cases3)
  from stays_quietD [OF lookup_quiet e q] l e show "quiet s' \<and> w' = w" by (simp add: get_if_published_def)
qed

section \<open>The platforms\<close>

text \<open>A platform whose gathering goes through the store alone.\<close>

locale store_bound_platform = checked_platform +
  assumes gather_quiet: "stays_quiet (pf_gather pf ev now)"
begin

lemma run_quiet: "stays_quiet (run pf j params now)"
proof (rule stays_quietI)
  fix s w r s' w'
  assume q: "quiet s" and run: "run pf j params now s w = (r, s', w')"
  show "quiet s' \<and> w' = w"
  proof (cases "params = None \<or> pf_decode pf j = None \<or> (\<exists>p e. params = Some p \<and> pf_validate pf p = Inl e)")
    case True
    from run_refused_before_gather [OF this, of now s w] q run show ?thesis by auto
  next
    case False
    then obtain p ev where pe: "params = Some p" "pf_decode pf j = Some ev" "pf_validate pf p = Inr ()"
      by (cases params; cases "pf_decode pf j"; cases "pf_validate pf (the params)") auto
    obtain g s1 w1 where g: "pf_gather pf ev now s w = (g, s1, w1)" by (rule prod_cases3)
    from stays_quietD [OF gather_quiet g q] run g pe show ?thesis
      by (auto simp: run_def split: sum.splits prod.splits)
  qed
qed

end


lemma tdx_set_gather_quiet [quiet_steps]: "stays_quiet (tdx_set_gather E d quote now)"
proof (rule stays_quietI)
  fix s w r s' w'
  assume q: "quiet s" and l: "tdx_set_gather E d quote now s w = (r, s', w')"
  show "quiet s' \<and> w' = w"
  proof (cases "pck_of (ev_lib E) d quote")
    case (Inl e)
    with q l show ?thesis by (simp add: tdx_set_gather_def)
  next
    case (Inr pck)
    obtain r1 s1 w1 where 1: "get (ev_store E) (tcb_info_kind (ev_lib E) (ev_body E)) (pc_fmspc pck) now s w = (r1, s1, w1)"
      by (rule prod_cases3)
    obtain r2 s2 w2 where 2: "get (ev_store E) (qe_identity_kind (ev_lib E) (ev_body E)) () now s1 w1 = (r2, s2, w2)"
      by (rule prod_cases3)
    obtain r3 s3 w3 where 3: "get (ev_store E) (pck_crl_kind (ev_lib E)) (pc_ca pck) now s2 w2 = (r3, s3, w3)"
      by (rule prod_cases3)
    obtain r4 s4 w4 where 4: "get (ev_store E) (root_crl_kind (ev_lib E)) () now s3 w3 = (r4, s4, w4)"
      by (rule prod_cases3)
    note a1 = stays_quietD [OF get_quiet 1 q]
    note a2 = stays_quietD [OF get_quiet 2 conjunct1 [OF a1]]
    note a3 = stays_quietD [OF get_quiet 3 conjunct1 [OF a2]]
    note a4 = stays_quietD [OF get_quiet 4 conjunct1 [OF a3]]
    from l Inr 1 2 3 4 have "s' = s4" "w' = w4" by (simp_all add: tdx_set_gather_def Let_def)
    with a1 a2 a3 a4 show ?thesis by simp
  qed
qed

lemma snp_set_gather_quiet [quiet_steps]: "stays_quiet (snp_set_gather E r gen inline now)"
proof (rule stays_quietI)
  fix s w res s' w'
  assume q: "quiet s" and l: "snp_set_gather E r gen inline now s w = (res, s', w')"
  show "quiet s' \<and> w' = w"
  proof (cases inline)
    case None
    obtain r1 s1 w1 where 1: "get (en_store E) (vcek_kind (en_lib E)) (gen, sr_chip_id r, snp_tcb_of (sr_reported_tcb r)) now s w
      = (r1, s1, w1)" by (rule prod_cases3)
    obtain r2 s2 w2 where 2: "get (en_store E) (amd_crl_kind (en_lib E)) (gen, Vcek) now s1 w1 = (r2, s2, w2)"
      by (rule prod_cases3)
    note a1 = stays_quietD [OF get_quiet 1 q]
    note a2 = stays_quietD [OF get_quiet 2 conjunct1 [OF a1]]
    from l None 1 2 a1 a2 q show ?thesis by (auto simp: snp_set_gather_def Let_def split: if_splits)
  next
    case (Some vek)
    show ?thesis
    proof (cases "of_vek (sn_x509 (en_lib E)) vek")
      case (Inl e)
      with l Some q show ?thesis by (simp add: snp_set_gather_def)
    next
      case (Inr key)
      obtain r1 s1 w1 where 1: "get (en_store E) (amd_crl_kind (en_lib E)) (gen, key) now s w = (r1, s1, w1)"
        by (rule prod_cases3)
      with l Some Inr stays_quietD [OF get_quiet 1 q] show ?thesis by (simp add: snp_set_gather_def)
    qed
  qed
qed


text \<open>A gathering that first decides, from the evidence alone, whether to ask.\<close>

lemma stays_quiet_sum:
  assumes "\<And>v. d = Inr v \<Longrightarrow> stays_quiet (k v)"
  shows "stays_quiet (\<lambda>s w. case d of Inl e \<Rightarrow> (Inl e, s, w) | Inr v \<Rightarrow> k v s w)"
  using assms by (cases d) (auto simp: stays_quiet_def)

lemma stays_quiet_then:
  assumes "stays_quiet f" "stays_quiet g"
  shows "stays_quiet (\<lambda>s w. case f s w of (a, s, w) \<Rightarrow> (case g s w of (b, x) \<Rightarrow> (h a b, x)))"
proof (rule stays_quietI)
  fix s w r s' w'
  assume q: "quiet s" and l: "(case f s w of (a, s, w) \<Rightarrow> (case g s w of (b, x) \<Rightarrow> (h a b, x))) = (r, s', w')"
  obtain a s1 w1 where 1: "f s w = (a, s1, w1)" by (rule prod_cases3)
  obtain b s2 w2 where 2: "g s1 w1 = (b, s2, w2)" by (rule prod_cases3)
  note a1 = stays_quietD [OF assms(1) 1 q]
  from stays_quietD [OF assms(2) 2 conjunct1 [OF a1]] a1 l 1 2 show "quiet s' \<and> w' = w" by simp
qed

lemma stays_quiet_map:
  assumes "stays_quiet f"
  shows "stays_quiet (\<lambda>s w. case f s w of (a, x) \<Rightarrow> (h a, x))"
  using assms by (auto simp: stays_quiet_def split: prod.splits)

lemma snp_gather_quiet: "stays_quiet (snp_gather E ev now)"
  unfolding snp_gather_def [abs_def]
  by (rule stays_quiet_sum) (auto simp: snp_set_gather_quiet split: prod.splits)

lemma tdx_gather_quiet: "stays_quiet (tdx_gather E ev now)"
  unfolding tdx_gather_def [abs_def]
  by (rule stays_quiet_sum) (auto simp: tdx_set_gather_quiet split: prod.splits)

lemma az_tdx_gather_quiet: "stays_quiet (az_tdx_gather E T ev now)"
  unfolding az_tdx_gather_def [abs_def]
  by (rule stays_quiet_sum) (auto simp: tdx_set_gather_quiet split: prod.splits)

lemma az_snp_gather_quiet: "stays_quiet (az_snp_gather E T ev now)"
  unfolding az_snp_gather_def [abs_def] Let_def [of "en_lib E"]
  by (rule stays_quiet_sum) (auto intro!: stays_quiet_map get_quiet split: prod.splits)

lemma gcp_snp_gather_quiet: "stays_quiet (gcp_snp_gather E G ev now)"
  unfolding gcp_snp_gather_def [abs_def]
  by (rule stays_quiet_sum)
     (auto intro!: stays_quiet_then snp_set_gather_quiet get_if_published_quiet split: prod.splits)

lemma gcp_tdx_gather_quiet: "stays_quiet (gcp_tdx_gather E G ev now)"
  unfolding gcp_tdx_gather_def [abs_def]
  by (rule stays_quiet_sum)
     (auto intro!: stays_quiet_then tdx_set_gather_quiet get_if_published_quiet split: prod.splits)

lemma dstack_gather_quiet: "stays_quiet (dstack_gather E b64 ev now)"
  unfolding dstack_gather_def [abs_def]
  by (rule stays_quiet_sum) (rule tdx_gather_quiet)


interpretation tdx_store: store_bound_platform "tdx_platform E dec" "tdx_genuine E" "\<lambda>ev _. tdx_genuine E ev"
  by unfold_locales (simp add: tdx_platform_def tdx_gather_quiet)

interpretation snp_store: store_bound_platform "snp_platform dec E" "snp_admissible (en_lib E)"
  "\<lambda>ev c. snp_genuine (en_lib E) ev (ss_vek c)"
  by unfold_locales (simp add: snp_platform_def snp_gather_quiet)

interpretation dstack_store: store_bound_platform "dstack_platform dec E b64_encode" "dstack_genuine E b64_encode"
  "\<lambda>ev _. dstack_genuine E b64_encode ev"
  by unfold_locales (simp add: dstack_platform_def dstack_gather_quiet)


interpretation az_tdx_store: store_bound_platform "az_tdx_platform dec E T"
    "\<lambda>ev now. \<exists>d q msg ps. az_tdx_genuine (ev_lib E) T ev now d q msg ps"
    "\<lambda>ev _ now. \<exists>d q msg ps. az_tdx_genuine (ev_lib E) T ev now d q msg ps"
  by unfold_locales (simp add: az_tdx_platform_def az_tdx_gather_quiet)

interpretation az_snp_store: store_bound_platform "az_snp_platform dec E T"
    "\<lambda>ev now. \<exists>r vcek gen msg ps. az_snp_genuine (en_lib E) T ev now r vcek gen msg ps"
    "\<lambda>ev _ now. \<exists>r vcek gen msg ps. az_snp_genuine (en_lib E) T ev now r vcek gen msg ps"
  by unfold_locales (simp add: az_snp_platform_def az_snp_gather_quiet)

interpretation gcp_tdx_store: store_bound_platform "gcp_tdx_platform dec E G" "tdx_genuine E" "\<lambda>ev _. tdx_genuine E ev"
  by unfold_locales (simp add: gcp_tdx_platform_def gcp_tdx_gather_quiet)

interpretation gcp_snp_store: store_bound_platform "gcp_snp_platform dec E G" "snp_admissible (en_lib E)"
    "\<lambda>ev c. snp_genuine (en_lib E) ev (ss_vek (gss_snp c))"
  by unfold_locales (simp add: gcp_snp_platform_def gcp_snp_gather_quiet)

section \<open>The verifier\<close>

lemma map_result_quiet: "stays_quiet f \<Longrightarrow> stays_quiet (\<lambda>s w. map_result g (f s w))"
  by (auto simp: stays_quiet_def map_result_def split: prod.splits)

lemma verify_platform_quiet: "stays_quiet (verify_platform V pl j po now)"
  by (cases pl) (simp_all add: verify_platform.simps [abs_def] map_result_quiet tdx_store.run_quiet snp_store.run_quiet az_tdx_store.run_quiet
      az_snp_store.run_quiet gcp_tdx_store.run_quiet gcp_snp_store.run_quiet dstack_store.run_quiet
      del: verify_platform.simps)

lemma ask_nras_quiet: "quiet s \<Longrightarrow> ask_nras E req s w = (Inl (into_error offline ''NRAS attestation''), w)"
  by (simp add: ask_nras_def the_vendor_def quiet_def)

lemma nras_answer_quiet: "stays_quiet (nras_answer E req now)"
  by (rule stays_quietI)
     (auto simp: nras_answer_def Let_def ask_nras_quiet split: option.splits if_splits sum.splits)

lemma nras_answers_quiet: "stays_quiet (nras_answers E bundle un now groups answers)"
proof (induction groups arbitrary: answers)
  case Nil
  then show ?case by (auto simp: stays_quiet_def)
next
  case (Cons g groups)
  obtain arch devices where g: "g = (arch, devices)" by fastforce
  show ?case
  proof (rule stays_quietI)
    fix s w r s' w'
    assume q: "quiet s" and l: "nras_answers E bundle un now (g # groups) answers s w = (r, s', w')"
    let ?req = "nras_request_of (ge_lib E) bundle un arch devices"
    obtain a s1 w1 where 1: "nras_answer E ?req now s w = (a, s1, w1)" by (rule prod_cases3)
    note a1 = stays_quietD [OF nras_answer_quiet 1 q]
    show "quiet s' \<and> w' = w"
    proof (cases a)
      case (Inl e)
      with l 1 g a1 show ?thesis by simp
    next
      case (Inr answer)
      with l 1 g have "nras_answers E bundle un now groups (bt_insert arch answer answers) s1 w1 = (r, s', w')" by simp
      from stays_quietD [OF Cons.IH this] a1 show ?thesis by simp
    qed
  qed
qed

lemma store_refresh_quiet: "stays_quiet (store_refresh env k pid now)"
proof (rule stays_quietI)
  fix s w r s' w'
  assume q: "quiet s" and l: "store_refresh env k pid now s w = (r, s', w')"
  show "quiet s' \<and> w' = w"
  proof (cases "st_native s")
    case None
    with q l show ?thesis by (auto simp: store_refresh_def)
  next
    case (Some n)
    obtain a n1 w1 where e: "refresh env k pid (piece_url k pid) True now n w = (a, n1, w1)" by (rule prod_cases3)
    obtain b c d where a: "a = (b, c, d)" by (rule prod_cases3)
    from q Some have "nv_vendor n = None" by (simp add: quiet_def)
    from refresh_quiet [OF this e] q l e a Some show ?thesis
      by (auto simp: store_refresh_def Let_def quiet_def split: if_splits)
  qed
qed

text \<open>A step whose error ends the whole.\<close>

lemma stays_quiet_bind:
  assumes "stays_quiet f" "\<And>v. stays_quiet (k v)"
  shows "stays_quiet (\<lambda>s w. case f s w of (Inl e, s, w) \<Rightarrow> (Inl e, s, w) | (Inr v, s, w) \<Rightarrow> k v s w)"
proof (rule stays_quietI)
  fix s w r s' w'
  assume q: "quiet s" and l: "(case f s w of (Inl e, s, w) \<Rightarrow> (Inl e, s, w) | (Inr v, s, w) \<Rightarrow> k v s w) = (r, s', w')"
  obtain a s1 w1 where 1: "f s w = (a, s1, w1)" by (rule prod_cases3)
  note a1 = stays_quietD [OF assms(1) 1 q]
  show "quiet s' \<and> w' = w"
  proof (cases a)
    case (Inl e)
    with l 1 a1 show ?thesis by simp
  next
    case (Inr v)
    with l 1 have "k v s1 w1 = (r, s', w')" by simp
    from stays_quietD [OF assms(2) this] a1 show ?thesis by simp
  qed
qed

lemma stays_quiet_ret [simp]: "stays_quiet (\<lambda>s w. (x, s, w))"
  by (simp add: stays_quiet_def)


lemma stays_quiet_if: "stays_quiet f \<Longrightarrow> stays_quiet g \<Longrightarrow> stays_quiet (\<lambda>s w. if b then f s w else g s w)"
  by (cases b) simp_all

lemma gather_keys_quiet: "stays_quiet (gather_keys E answers url now)"
proof -
  let ?k = "nras_jwks_kind (ge_lib E)"
  have "gather_keys E answers url now = (\<lambda>s w. case get (ge_store E) ?k url now s w of
      (Inl e, s, w) \<Rightarrow> (Inl e, s, w)
    | (Inr x, s, w) \<Rightarrow>
        if keys_known (ge_lib E) answers (fst x) then (Inr x, s, w)
        else if cu_from (snd x) = Attached
        then (Inl (JwsVerification ''the attached NRAS key set lacks a key the tokens name''), s, w)
        else (case store_refresh (ge_store E) ?k url now s w of
            (Inl e, s, w) \<Rightarrow> (Inl e, s, w)
          | (Inr _, s, w) \<Rightarrow> (case get (ge_store E) ?k url now s w of
                (Inl e, s, w) \<Rightarrow> (Inl e, s, w)
              | (Inr x, s, w) \<Rightarrow>
                  if keys_known (ge_lib E) answers (fst x) then (Inr x, s, w)
                  else (Inl (into_error (ua_detail_only ''NRAS signed with a key it has not published yet'')
                         (piece_name ?k url)), s, w))))"
    by (intro ext) (auto simp: gather_keys_def Let_def split: prod.splits sum.splits)
  then show ?thesis
    by (simp only:) (intro stays_quiet_bind stays_quiet_if get_quiet store_refresh_quiet stays_quiet_ret)
qed

lemma gather_bundle_quiet: "stays_quiet (gather_bundle E bundle params now)"
proof (rule stays_quietI)
  fix s w r s' w'
  assume q: "quiet s" and l: "gather_bundle E bundle params now s w = (r, s', w')"
  show "quiet s' \<and> w' = w"
  proof (cases "\<exists>un url. check_preconditions bundle params = Inr un \<and> nras_jwks_url (ge_nras E) s = Inr url")
    case False
    with q l show ?thesis by (auto simp: gather_bundle_def split: sum.splits)
  next
    case True
    then obtain un url where u: "check_preconditions bundle params = Inr un" "nras_jwks_url (ge_nras E) s = Inr url"
      by blast
    let ?f = "\<lambda>s w. case nras_answers E bundle un now (group_by_arch bundle) [] s w of
         (Inl e, s, w) \<Rightarrow> (Inl e, s, w)
       | (Inr answers, s, w) \<Rightarrow>
           (case gather_keys E answers url now s w of
              (Inl e, s, w) \<Rightarrow> (Inl e, s, w)
            | (Inr x, s, w) \<Rightarrow> (Inr (\<lparr>gs_nras = answers, gs_jwks = fst x\<rparr>, snd x), s, w))"
    have "stays_quiet ?f"
      by (intro stays_quiet_bind nras_answers_quiet gather_keys_quiet stays_quiet_ret)
    moreover have "?f s w = (r, s', w')"
      using l u by (auto simp: gather_bundle_def split: prod.splits sum.splits)
    ultimately show ?thesis using q by (auto dest: stays_quietD)
  qed
qed

lemma verify_envelope_quiet: "stays_quiet (verify_envelope V c env po)"
proof (rule stays_quietI)
  fix s w r s' w'
  assume q: "quiet s" and l: "verify_envelope V c env po s w = (r, s', w')"
  show "quiet s' \<and> w' = w"
  proof (cases "and_then (check_allowed po (ev_platform env)) (\<lambda>_. check_gpu_rules env po)")
    case (Inl e)
    with q l show ?thesis by (simp add: verify_envelope_def)
  next
    case (Inr u)
    let ?now = "ctx_now (vf_utc V) c w"
    obtain a s1 w1 where 1: "verify_platform V (ev_platform env) (ev_evidence env) po ?now s w = (a, s1, w1)"
      by (rule prod_cases3)
    note a1 = stays_quietD [OF verify_platform_quiet 1 q]
    show ?thesis
    proof (cases "\<exists>pr us gpus params. a = Inr (pr, us) \<and> ev_nvidia_gpu env = Some gpus \<and> po_gpu po = Some params")
      case False
      with l Inr 1 a1 show ?thesis
        by (cases a) (auto simp: verify_envelope_def Let_def split: option.splits prod.splits)
    next
      case True
      then obtain pr us gpus params where t: "a = Inr (pr, us)" "ev_nvidia_gpu env = Some gpus" "po_gpu po = Some params"
        by blast
      obtain b s2 w2 where 2: "gather_bundle (the_gpu_env V (cx_nras c)) gpus params ?now s1 w1 = (b, s2, w2)"
        by (rule prod_cases3)
      from stays_quietD [OF gather_bundle_quiet 2] a1 l Inr 1 2 t show ?thesis
        by (cases b) (auto simp: verify_envelope_def Let_def split: prod.splits)
    qed
  qed
qed

text \<open>A context without a vendor verifies without the network.\<close>

lemma verify_quiet:
  assumes "no_vendor c" "verify V b po c w = (r, c', w')"
  shows "w' = w" "no_vendor c'"
proof -
  have "w' = w \<and> no_vendor c'"
  proof (cases "parse_envelope V b")
    case (Inl e)
    with assms show ?thesis by (simp add: verify_def)
  next
    case (Inr env)
    let ?s = "view (cx_store c) (held_collateral env) (po_floors po) False"
    obtain a s1 w1 where 1: "verify_envelope V c env po ?s w = (a, s1, w1)" by (rule prod_cases3)
    have "quiet ?s" using assms(1) by (simp add: quiet_def no_vendor_def view_def)
    from stays_quietD [OF verify_envelope_quiet 1 this] 1 Inr assms(2) show ?thesis
      by (auto simp: verify_def keep_def no_vendor_def close_view_def quiet_def)
  qed
  then show "w' = w" "no_vendor c'" by simp_all
qed

end
