(* ===== verification/CliProps.thy ===== *)
theory CliProps
  imports Cli Wasm Offline VerifierProps Hex
begin

text \<open>
  The properties of the command line and of the verifier for browsers: what the flags pin, what an
  exit code says, and that neither an offline run nor a browser touches the network.
\<close>

section \<open>What the flags pin\<close>

lemma check_applies_Inr:
  "check_each (\<lambda>platform. check_each (\<lambda>(flag, applies).
      if platform \<in> set applies then Inr ()
      else usage_error (flag @ '' does not apply to '' @ platform_name platform @ '' evidence'')) given) platforms = Inr ()
   \<longleftrightarrow> (\<forall>p \<in> set platforms. \<forall>x \<in> set given. p \<in> set (snd x))"
  by (simp add: check_each_Inr_iff usage_error_def case_prod_beta)

text \<open>Where the pins given make sense: measurements of a TDX guest on the TDX platforms, a launch digest
  on the SNP ones, PCRs on Azure, measurement registers on bare-metal SNP.\<close>

definition pins_apply :: "verify_args \<Rightarrow> platform_type \<Rightarrow> bool" where
  "pins_apply args pl \<longleftrightarrow>
     (expected_mrtd args \<noteq> [] \<or> expected_rtmr0 args \<noteq> [] \<or> expected_rtmr1 args \<noteq> [] \<or> expected_rtmr2 args \<noteq> []
        \<or> expected_rtmr3 args \<noteq> [] \<longrightarrow> pl \<in> {Tdx, AzTdx, GcpTdx})
     \<and> (expected_launch_digest args \<noteq> [] \<longrightarrow> pl \<in> {Snp, AzSnp, GcpSnp})
     \<and> (expected_pcr args \<noteq> [] \<longrightarrow> pl \<in> {AzTdx, AzSnp})
     \<and> (expected_mr args \<noteq> [] \<longrightarrow> pl = Snp)"

lemma pins_given_apply: "(\<forall>x \<in> set (pins_given args). p \<in> set (snd x)) \<longleftrightarrow> pins_apply args p"
  by (auto simp: pins_given_def pins_apply_def TDX_PLATFORMS_def SNP_PLATFORMS_def AZURE_PLATFORMS_def Let_def)

lemma accepted_platforms_Inr:
  assumes "accepted_platforms args = Inr platforms"
  shows "platforms \<noteq> []" "\<forall>p \<in> set platforms. pins_apply args p"
    and "va_platform args \<noteq> [] \<Longrightarrow> platforms = map to_platform_type (va_platform args)"
    and "va_platform args = [] \<Longrightarrow> (\<exists>p. \<not> pins_apply args p) \<and> set platforms = {p. p \<noteq> Dstack \<and> pins_apply args p}"
    and "Dstack \<notin> set platforms"
proof -
  from assms obtain ps where ps: "ps \<noteq> []"
    "check_each (\<lambda>platform. check_each (\<lambda>(flag, applies).
       if platform \<in> set applies then Inr ()
       else usage_error (flag @ '' does not apply to '' @ platform_name platform @ '' evidence'')) (pins_given args)) ps = Inr ()"
    "ps = platforms"
    by (auto simp: accepted_platforms_def Let_def and_then_Inr_iff usage_error_def split: if_splits)
  from ps(1,3) show "platforms \<noteq> []" by simp
  from ps(2,3) show "\<forall>p \<in> set platforms. pins_apply args p"
    by (simp only: check_applies_Inr pins_given_apply)
  from assms show "va_platform args \<noteq> [] \<Longrightarrow> platforms = map to_platform_type (va_platform args)"
    by (auto simp: accepted_platforms_def Let_def and_then_Inr_iff usage_error_def split: if_splits)
  show "(\<exists>p. \<not> pins_apply args p) \<and> set platforms = {p. p \<noteq> Dstack \<and> pins_apply args p}" if "va_platform args = []"
  proof -
    from assms that have g: "pins_given args \<noteq> []"
      and p: "platforms = filter (\<lambda>p. list_all (\<lambda>(_, applies). p \<in> set applies) (pins_given args)) ALL_PLATFORMS"
      by (auto simp: accepted_platforms_def Let_def and_then_Inr_iff usage_error_def split: if_splits)
    have "\<not> pins_apply args Dstack"
      using g by (auto simp: pins_apply_def pins_given_def Let_def split: if_splits)
    moreover have "list_all (\<lambda>(_, applies). p \<in> set applies) (pins_given args) \<longleftrightarrow> pins_apply args p" for p
      by (simp add: pins_given_apply [symmetric] list_all_iff case_prod_beta)
    moreover have "p \<in> set ALL_PLATFORMS \<longleftrightarrow> p \<noteq> Dstack" for p by (cases p) (simp_all add: ALL_PLATFORMS_def)
    ultimately show ?thesis unfolding p by auto
  qed
  have "to_platform_type p \<noteq> Dstack" for p by (cases p) simp_all
  then have "Dstack \<notin> set (map to_platform_type ps)" for ps by (auto dest: sym)
  moreover have "Dstack \<notin> set ALL_PLATFORMS" by (simp add: ALL_PLATFORMS_def)
  ultimately show "Dstack \<notin> set platforms" using assms
    by (auto simp: accepted_platforms_def Let_def and_then_Inr_iff usage_error_def split: if_splits)
qed

text \<open>The policies of the platforms set, in any order.\<close>

lemma fold_set_policy:
  "has_params (fold (set_policy tdx snp ps) platforms po) p
     \<longleftrightarrow> p \<in> set platforms \<and> p \<noteq> Dstack \<or> has_params po p"
proof (induction platforms arbitrary: po)
  case (Cons q platforms)
  have "has_params (set_policy tdx snp ps q po) p \<longleftrightarrow> p = q \<and> p \<noteq> Dstack \<or> has_params po p"
    by (cases q; cases p) simp_all
  with Cons show ?case by auto
qed simp

lemma fold_set_policy_params:
  assumes "set (tdx_params_of po) \<subseteq> {tdx}" "set (snp_params_of po) \<subseteq> {snp}"
  shows "set (tdx_params_of (fold (set_policy tdx snp ps) platforms po)) \<subseteq> {tdx}
    \<and> set (snp_params_of (fold (set_policy tdx snp ps) platforms po)) \<subseteq> {snp}"
  using assms
proof (induction platforms arbitrary: po)
  case (Cons q platforms)
  have "set (tdx_params_of (set_policy tdx snp ps q po)) \<subseteq> {tdx}" "set (snp_params_of (set_policy tdx snp ps q po)) \<subseteq> {snp}"
    using Cons.prems by (cases q; auto simp: tdx_params_of_def snp_params_of_def map_filter_def split: option.splits if_splits)+
  from Cons.IH [OF this] show ?case by simp
qed simp

lemma fold_set_policy_pcrs:
  assumes "\<forall>p. po_az_tdx po = Some p \<longrightarrow> atp_pcrs p = ps" "\<forall>p. po_az_snp po = Some p \<longrightarrow> asp_pcrs p = ps"
  shows "(\<forall>p. po_az_tdx (fold (set_policy tdx snp ps) platforms po) = Some p \<longrightarrow> atp_pcrs p = ps)
    \<and> (\<forall>p. po_az_snp (fold (set_policy tdx snp ps) platforms po) = Some p \<longrightarrow> asp_pcrs p = ps)"
  using assms
proof (induction platforms arbitrary: po)
  case (Cons q platforms)
  have "\<forall>p. po_az_tdx (set_policy tdx snp ps q po) = Some p \<longrightarrow> atp_pcrs p = ps"
    "\<forall>p. po_az_snp (set_policy tdx snp ps q po) = Some p \<longrightarrow> asp_pcrs p = ps"
    using Cons.prems by (cases q; simp)+
  from Cons.IH [OF this] show ?case by simp
qed simp

lemma fold_set_policy_gpu:
  "po_gpu (fold (set_policy tdx snp ps) platforms po) = po_gpu po
   \<and> po_floors (fold (set_policy tdx snp ps) platforms po) = po_floors po"
proof (induction platforms arbitrary: po)
  case (Cons q platforms)
  have "po_gpu (set_policy tdx snp ps q po) = po_gpu po \<and> po_floors (set_policy tdx snp ps q po) = po_floors po"
    by (cases q) simp_all
  with Cons show ?case by simp
qed simp

text \<open>The pins of one index list: each given value is the one pinned at its index.\<close>

lemma parse_index_pins_loop_Inr:
  assumes "parse_index_pins_loop hx n flag t pins vals = Inr out"
  shows "(\<forall>pin \<in> set pins. \<exists>i v. parse_index_pin hx n pin t = Inr (i, v) \<and> map_of out i = Some v)
    \<and> (\<forall>i v. map_of vals i = Some v \<longrightarrow> map_of out i = Some v)
    \<and> (\<forall>i v. map_of out i = Some v \<longrightarrow>
          map_of vals i = Some v \<or> (\<exists>pin \<in> set pins. parse_index_pin hx n pin t = Inr (i, v)))"
  using assms
proof (induction pins arbitrary: vals)
  case Nil
  then show ?case by simp
next
  case (Cons pin pins)
  from Cons.prems obtain i v where s: "parse_index_pin hx n pin t = Inr (i, v)" "map_of vals i = None"
    "parse_index_pins_loop hx n flag t pins (bt_insert i v vals) = Inr out"
    by (auto simp: and_then_Inr_iff map_err_Inr_iff usage_error_def split: if_splits)
  note ih = Cons.IH [OF s(3)]
  have "map_of out i = Some v" using ih by simp
  moreover have "map_of vals i' = Some v' \<longrightarrow> map_of out i' = Some v'" for i' v'
    using ih s(2) by (cases "i' = i") simp_all
  moreover have "map_of vals i' = Some v' \<or> (\<exists>pin \<in> set (pin # pins). parse_index_pin hx n pin t = Inr (i', v'))"
    if o: "map_of out i' = Some v'" for i' v'
  proof -
    from o ih have "map_of (bt_insert i v vals) i' = Some v' \<or> (\<exists>pin \<in> set pins. parse_index_pin hx n pin t = Inr (i', v'))"
      by blast
    with s(1) show ?thesis by (cases "i' = i") auto
  qed
  ultimately show ?case using ih s(1) by auto
qed


text \<open>What a flag asks and what the policy holds: a value in hexadecimal, digests of 48 bytes,
  registers by index with the others zero, and values by index.\<close>

definition asked_hex :: "hex_lib \<Rightarrow> string option \<Rightarrow> bytes option \<Rightarrow> bool" where
  "asked_hex hx given held \<longleftrightarrow> (case given of None \<Rightarrow> held = None | Some h \<Rightarrow> \<exists>v. held = Some v \<and> hex_decode hx h = Some v)"

definition asked_digests :: "hex_lib \<Rightarrow> string list \<Rightarrow> bytes list option \<Rightarrow> bool" where
  "asked_digests hx given held \<longleftrightarrow> (if given = [] then held = None
     else \<exists>ds. held = Some ds \<and> map (hex_decode hx) given = map Some ds \<and> (\<forall>d \<in> set ds. length d = 48))"

definition asked_pins :: "hex_lib \<Rightarrow> nat \<Rightarrow> nat \<Rightarrow> string list \<Rightarrow> pins \<Rightarrow> bool" where
  "asked_pins hx n top_index given held \<longleftrightarrow>
     (\<forall>pin \<in> set given. \<exists>i v. parse_index_pin hx n pin top_index = Inr (i, v) \<and> map_of held i = Some v)
     \<and> (\<forall>i v. map_of held i = Some v \<longrightarrow> (\<exists>pin \<in> set given. parse_index_pin hx n pin top_index = Inr (i, v)))"

definition asked_registers :: "hex_lib \<Rightarrow> string list \<Rightarrow> bytes list option \<Rightarrow> bool" where
  "asked_registers hx given held \<longleftrightarrow> (if given = [] then held = None
     else \<exists>rs. held = Some rs \<and> length rs \<le> 16
       \<and> (\<forall>pin \<in> set given. \<exists>i v. parse_index_pin hx 48 pin 15 = Inr (i, v) \<and> unat i < length rs \<and> rs ! unat i = v)
       \<and> (\<forall>j < length rs. (\<exists>pin \<in> set given. parse_index_pin hx 48 pin 15 = Inr (of_nat j, rs ! j)) \<or> rs ! j = replicate 48 0))"

lemma opt_hex_Inr: "opt_hex hx given flag = Inr held \<Longrightarrow> asked_hex hx given held"
  by (cases given; cases "hex_decode hx (the given)")
     (auto simp: opt_hex_def asked_hex_def parse_hex_def or_usage_def transpose_option_def)

lemma digests_Inr:
  assumes "digests hx given flag = Inr held"
  shows "asked_digests hx given held"
proof (cases "given = []")
  case False
  with assms obtain ds where ds: "held = Some ds" "traverse (\<lambda>h. parse_digest hx h flag) given = Inr ds"
    by (cases "traverse (\<lambda>h. parse_digest hx h flag) given") (auto simp: digests_def)
  have "parse_digest hx h flag = Inr d \<longleftrightarrow> hex_decode hx h = Some d \<and> length d = 48" for h d
    by (auto simp: parse_digest_def parse_hex_def or_usage_def usage_error_def and_then_Inr_iff ok_or_Inr_iff
        split: if_splits)
  with ds(2) have "list_all2 (\<lambda>h d. hex_decode hx h = Some d \<and> length d = 48) given ds"
    by (simp add: traverse_Inr_iff)
  then have "map (hex_decode hx) given = map Some ds \<and> (\<forall>d \<in> set ds. length d = 48)"
    by (induction rule: list_all2_induct) auto
  with False ds(1) show ?thesis by (simp add: asked_digests_def)
qed (use assms in \<open>simp add: digests_def asked_digests_def\<close>)

lemma parse_index_pins_Inr:
  "parse_index_pins hx n given flag t = Inr held \<Longrightarrow> asked_pins hx n t given held"
  unfolding parse_index_pins_def asked_pins_def by (drule parse_index_pins_loop_Inr) auto

lemma parse_index_pin_bound: "parse_index_pin hx n pin t = Inr (i, v) \<Longrightarrow> t < 256 \<Longrightarrow> unat i \<le> t"
  by (auto simp: parse_index_pin_def and_then_Inr_iff ok_or_Inr_iff unat_of_nat split: option.splits if_splits)

lemma parse_index_pins_sorted:
  "parse_index_pins_loop hx n flag t given vals = Inr out \<Longrightarrow> bt_sorted vals \<Longrightarrow> bt_sorted out"
  by (induction given arbitrary: vals) (auto simp: and_then_Inr_iff usage_error_def split: if_splits)

lemma last_is_highest:
  assumes "bt_sorted out" "(i, v) \<in> set out"
  shows "i \<le> fst (last out)"
  using assms
  by (induction out) (auto simp: bt_sorted_def sorted_wrt_append last_in_set less_imp_le split: if_splits)


lemma opt_registers_Inr:
  assumes "opt_registers hx given = Inr held"
  shows "asked_registers hx given held"
proof (cases "given = []")
  case False
  with assms obtain ps where ps: "held = Some (registers_of ps)"
    "parse_index_pins_loop hx 48 ''expected-mr'' 15 given [] = Inr ps"
    by (cases "parse_index_pins hx 48 given ''expected-mr'' 15") (auto simp: opt_registers_def parse_index_pins_def)
  note a = parse_index_pins_loop_Inr [OF ps(2)] and srt = parse_index_pins_sorted [OF ps(2) bt_sorted_Nil]
  have entry: "(i, v) \<in> set ps \<longleftrightarrow> map_of ps i = Some v" for i v by (rule bt_entry_iff [OF srt])
  have "ps \<noteq> []" using a False by (cases given) auto
  let ?l = "fst (last ps)" and ?rs = "registers_of ps"
  have len: "length ?rs = unat ?l + 1" using \<open>ps \<noteq> []\<close> by (simp add: registers_of_def)
  have nth: "?rs ! j = (case map_of ps (of_nat j) of Some v \<Rightarrow> v | None \<Rightarrow> replicate 48 0)" if "j < length ?rs" for j
    using that len \<open>ps \<noteq> []\<close> by (simp add: registers_of_def nth_map del: upt_Suc)
  have "(?l, snd (last ps)) \<in> set ps" using \<open>ps \<noteq> []\<close> by simp
  then have "map_of ps ?l = Some (snd (last ps))" by (simp only: entry)
  with a obtain pin where "parse_index_pin hx 48 pin 15 = Inr (?l, snd (last ps))" by fastforce
  then have "unat ?l \<le> 15" by (rule parse_index_pin_bound) simp
  moreover have "\<exists>i v. parse_index_pin hx 48 pin 15 = Inr (i, v) \<and> unat i < length ?rs \<and> ?rs ! unat i = v"
    if "pin \<in> set given" for pin
  proof -
    from a that obtain i v where iv: "parse_index_pin hx 48 pin 15 = Inr (i, v)" "map_of ps i = Some v" by blast
    then have "i \<le> ?l" by (intro last_is_highest [OF srt]) (simp add: entry)
    then have "unat i < length ?rs" using len by (simp add: word_le_nat_alt)
    with iv nth [of "unat i"] show ?thesis by simp
  qed
  moreover have "(\<exists>pin \<in> set given. parse_index_pin hx 48 pin 15 = Inr (of_nat j, ?rs ! j)) \<or> ?rs ! j = replicate 48 0"
    if "j < length ?rs" for j
    using nth [OF that] a by (cases "map_of ps (of_nat j)") auto
  ultimately show ?thesis using False len ps(1) by (auto simp: asked_registers_def)
qed (use assms in \<open>simp add: opt_registers_def asked_registers_def\<close>)

text \<open>The architectures named, in any case, and the params of the GPUs.\<close>

definition asked_archs :: "string list option \<Rightarrow> gpu_arch list option \<Rightarrow> bool" where
  "asked_archs given held \<longleftrightarrow> (case given of None \<Rightarrow> held = None
     | Some names \<Rightarrow> \<exists>archs. held = Some archs \<and> map (\<lambda>a. arch_named (map ascii_upper a)) names = map Some archs)"

definition gpu_asked :: "hex_lib \<Rightarrow> verify_args \<Rightarrow> gpu_params option \<Rightarrow> bool" where
  "gpu_asked hx args gpu \<longleftrightarrow>
     (gpu \<noteq> None \<longleftrightarrow> nvidia_gpu_user_nonce args \<noteq> None \<or> nvidia_gpu_required args \<or> nvidia_gpu_expected_archs args \<noteq> None)
     \<and> (\<forall>p. gpu = Some p \<longrightarrow> asked_hex hx (nvidia_gpu_user_nonce args) (gp_user_nonce p)
          \<and> gp_required p = nvidia_gpu_required args
          \<and> asked_archs (nvidia_gpu_expected_archs args) (gp_expected_archs p)
          \<and> gp_allowed_bindings p = gp_allowed_bindings default_gpu_params \<and> gp_device_policy p = default_device_policy)"

lemma arch_args_Inr:
  assumes "transpose_option (map_option (traverse arch_arg) given) = Inr held"
  shows "asked_archs given held"
proof (cases given)
  case (Some names)
  with assms obtain archs where a: "held = Some archs" "traverse arch_arg names = Inr archs"
    by (cases "traverse arch_arg names") auto
  have "arch_arg n = Inr a \<longleftrightarrow> arch_named (map ascii_upper n) = Some a" for n a
    by (auto simp: arch_arg_def or_usage_def ok_or_Inr_iff)
  with a(2) have "list_all2 (\<lambda>n a. arch_named (map ascii_upper n) = Some a) names archs"
    by (simp add: traverse_Inr_iff)
  then have "map (\<lambda>a. arch_named (map ascii_upper a)) names = map Some archs"
    by (induction rule: list_all2_induct) auto
  with Some a(1) show ?thesis by (simp add: asked_archs_def)
qed (use assms in \<open>simp add: asked_archs_def\<close>)

lemma gpu_policy_Inr:
  assumes "gpu_policy hx args rd = Inr (gpu, rd')"
  shows "gpu_asked hx args gpu" and "rd' = (case rd of Some d \<Rightarrow> Some d | None \<Rightarrow> Option.bind gpu gp_user_nonce)"
proof -
  let ?given = "nvidia_gpu_user_nonce args \<noteq> None \<or> nvidia_gpu_required args \<or> nvidia_gpu_expected_archs args \<noteq> None"
  have "gpu_asked hx args gpu \<and> rd' = (case rd of Some d \<Rightarrow> Some d | None \<Rightarrow> Option.bind gpu gp_user_nonce)"
  proof (cases ?given)
    case True
    with assms obtain un archs where u: "opt_hex hx (nvidia_gpu_user_nonce args) ''nvidia-gpu-user-nonce'' = Inr un"
      "transpose_option (map_option (traverse arch_arg) (nvidia_gpu_expected_archs args)) = Inr archs"
      "gpu = Some (default_gpu_params\<lparr>gp_user_nonce := un, gp_required := nvidia_gpu_required args, gp_expected_archs := archs\<rparr>)"
      "rd' = (case rd of None \<Rightarrow> un | Some _ \<Rightarrow> rd)"
      by (simp only: gpu_policy_def if_True and_then_Inr_iff) auto
    from True u opt_hex_Inr [OF u(1)] arch_args_Inr [OF u(2)] show ?thesis
      by (auto simp: gpu_asked_def default_gpu_params_def split: option.splits)
  next
    case False
    with assms show ?thesis by (auto simp: gpu_policy_def gpu_asked_def split: option.splits)
  qed
  then show "gpu_asked hx args gpu" "rd' = (case rd of Some d \<Rightarrow> Some d | None \<Rightarrow> Option.bind gpu gp_user_nonce)" by simp_all
qed


definition report_data_flag :: "verify_args \<Rightarrow> string option" where
  "report_data_flag args =
     (if expected_report_data args = None then nvidia_gpu_user_nonce args else expected_report_data args)"

definition tdx_asked :: "hex_lib \<Rightarrow> verify_args \<Rightarrow> tdx_params \<Rightarrow> bool" where
  "tdx_asked hx args p \<longleftrightarrow>
     asked_hex hx (report_data_flag args) (tp_report_data p) \<and> asked_hex hx (expected_init_data args) (tp_init_data p)
     \<and> asked_digests hx (expected_mrtd args) (tp_mrtd p) \<and> asked_digests hx (expected_rtmr0 args) (tp_rtmr0 p)
     \<and> asked_digests hx (expected_rtmr1 args) (tp_rtmr1 p) \<and> asked_digests hx (expected_rtmr2 args) (tp_rtmr2 p)
     \<and> asked_digests hx (expected_rtmr3 args) (tp_rtmr3 p)
     \<and> \<not> tp_allow_debug p \<and> tp_accepted p = tp_accepted default_tdx_params"

definition snp_asked :: "hex_lib \<Rightarrow> verify_args \<Rightarrow> snp_params \<Rightarrow> bool" where
  "snp_asked hx args p \<longleftrightarrow>
     asked_hex hx (report_data_flag args) (sp_report_data p) \<and> asked_hex hx (expected_init_data args) (sp_host_data p)
     \<and> asked_digests hx (expected_launch_digest args) (sp_launch_digest p)
     \<and> asked_registers hx (expected_mr args) (sp_registers p) \<and> \<not> sp_allow_debug p \<and> sp_max_vmpl p = 0
     \<and> sp_min_tcb p = None"

definition platforms_asked :: "verify_args \<Rightarrow> policies \<Rightarrow> bool" where
  "platforms_asked args po \<longleftrightarrow>
     (\<forall>pl. has_params po pl \<longleftrightarrow>
        (if va_platform args = [] then pl \<noteq> Dstack \<and> pins_apply args pl else pl \<in> to_platform_type ` set (va_platform args)))
     \<and> (\<forall>pl. has_params po pl \<longrightarrow> pins_apply args pl) \<and> (\<exists>pl. has_params po pl)
     \<and> (va_platform args = [] \<longrightarrow> (\<exists>pl. \<not> pins_apply args pl))"

lemma build_policies_asked:
  assumes "build_policies hx args = Inr po"
  shows "platforms_asked args po
    \<and> (\<forall>p \<in> set (tdx_params_of po). tdx_asked hx args p) \<and> (\<forall>p \<in> set (snp_params_of po). snp_asked hx args p)
    \<and> (\<forall>p. po_az_tdx po = Some p \<longrightarrow> asked_pins hx 32 23 (expected_pcr args) (atp_pcrs p))
    \<and> (\<forall>p. po_az_snp po = Some p \<longrightarrow> asked_pins hx 32 23 (expected_pcr args) (asp_pcrs p))
    \<and> gpu_asked hx args (po_gpu po) \<and> po_floors po = default_floors"
proof -
  from assms obtain platforms rd0 init_data mrtd rtmr0 rtmr1 rtmr2 rtmr3 launch pcrs registers gpu rd where
    pl: "accepted_platforms args = Inr platforms"
    and rd0: "opt_hex hx (expected_report_data args) ''expected-report-data'' = Inr rd0"
    and ini: "opt_hex hx (expected_init_data args) ''expected-init-data'' = Inr init_data"
    and mrtd: "digests hx (expected_mrtd args) ''expected-mrtd'' = Inr mrtd"
    and rtmr: "digests hx (expected_rtmr0 args) ''expected-rtmr0'' = Inr rtmr0"
      "digests hx (expected_rtmr1 args) ''expected-rtmr1'' = Inr rtmr1"
      "digests hx (expected_rtmr2 args) ''expected-rtmr2'' = Inr rtmr2"
      "digests hx (expected_rtmr3 args) ''expected-rtmr3'' = Inr rtmr3"
    and la: "digests hx (expected_launch_digest args) ''expected-launch-digest'' = Inr launch"
    and pc: "parse_index_pins hx 32 (expected_pcr args) ''expected-pcr'' 23 = Inr pcrs"
    and re: "opt_registers hx (expected_mr args) = Inr registers"
    and gp: "gpu_policy hx args rd0 = Inr (gpu, rd)"
    and po: "po = fold (set_policy
       (default_tdx_params\<lparr>tp_report_data := rd, tp_init_data := init_data, tp_mrtd := mrtd,
          tp_rtmr0 := rtmr0, tp_rtmr1 := rtmr1, tp_rtmr2 := rtmr2, tp_rtmr3 := rtmr3\<rparr>)
       (default_snp_params\<lparr>sp_report_data := rd, sp_host_data := init_data,
          sp_launch_digest := launch, sp_registers := registers\<rparr>) pcrs) platforms (default_policies\<lparr>po_gpu := gpu\<rparr>)"
    by (auto simp: build_policies_def and_then_Inr_iff Let_def)
  have none: "\<not> has_params (default_policies\<lparr>po_gpu := gpu\<rparr>) p" for p
    by (cases p) (simp_all add: default_policies_def)
  note a = accepted_platforms_Inr [OF pl]
  have h: "has_params po p \<longleftrightarrow> p \<in> set platforms" for p
    unfolding po fold_set_policy using none a(5) by auto
  have platforms: "platforms_asked args po"
  proof (cases "va_platform args = []")
    case True
    from a(4) [OF True] have p: "\<exists>p. \<not> pins_apply args p" "\<And>pl. pl \<in> set platforms \<longleftrightarrow> pl \<noteq> Dstack \<and> pins_apply args pl"
      by auto
    have "\<exists>pl. pl \<in> set platforms" using a(1) by (cases platforms) auto
    with True p show ?thesis unfolding platforms_asked_def h by simp
  next
    case False
    with a(1-3) show ?thesis by (auto simp: platforms_asked_def h)
  qed
  have rd: "asked_hex hx (report_data_flag args) rd"
    using opt_hex_Inr [OF rd0] gpu_policy_Inr [OF gp]
    by (cases gpu) (auto simp: asked_hex_def report_data_flag_def gpu_asked_def split: option.splits)
  have e: "set (tdx_params_of (default_policies\<lparr>po_gpu := gpu\<rparr>)) \<subseteq> A" "set (snp_params_of (default_policies\<lparr>po_gpu := gpu\<rparr>)) \<subseteq> B" for A B
    by (simp_all add: tdx_params_of_def snp_params_of_def default_policies_def map_filter_def)
  note ps = fold_set_policy_params [OF e, of "default_tdx_params\<lparr>tp_report_data := rd, tp_init_data := init_data, tp_mrtd := mrtd,
          tp_rtmr0 := rtmr0, tp_rtmr1 := rtmr1, tp_rtmr2 := rtmr2, tp_rtmr3 := rtmr3\<rparr>"
       "default_snp_params\<lparr>sp_report_data := rd, sp_host_data := init_data,
          sp_launch_digest := launch, sp_registers := registers\<rparr>" pcrs platforms, folded po]
  have tdx: "\<forall>p \<in> set (tdx_params_of po). tdx_asked hx args p"
    using ps rd opt_hex_Inr [OF ini] digests_Inr [OF mrtd] digests_Inr [OF rtmr(1)] digests_Inr [OF rtmr(2)]
      digests_Inr [OF rtmr(3)] digests_Inr [OF rtmr(4)]
    by (auto simp: tdx_asked_def default_tdx_params_def)
  have snp: "\<forall>p \<in> set (snp_params_of po). snp_asked hx args p"
    using ps rd opt_hex_Inr [OF ini] digests_Inr [OF la] opt_registers_Inr [OF re]
    by (auto simp: snp_asked_def default_snp_params_def)
  have "(\<forall>p. po_az_tdx po = Some p \<longrightarrow> asked_pins hx 32 23 (expected_pcr args) (atp_pcrs p))
      \<and> (\<forall>p. po_az_snp po = Some p \<longrightarrow> asked_pins hx 32 23 (expected_pcr args) (asp_pcrs p))"
    unfolding po using parse_index_pins_Inr [OF pc] fold_set_policy_pcrs [of "default_policies\<lparr>po_gpu := gpu\<rparr>" pcrs]
    by (simp add: default_policies_def)
  moreover have "gpu_asked hx args (po_gpu po) \<and> po_floors po = default_floors"
    using gpu_policy_Inr(1) [OF gp] by (simp add: po fold_set_policy_gpu default_policies_def)
  ultimately show ?thesis using platforms tdx snp by blast
qed

text \<open>C17: No flag is dropped. The policies built from the flags accept exactly the platforms that are
  named or, when none is, exactly those that every pin given applies to (and then at least one pin is);
  a pin never meets a platform it does not apply to. The params of each accepted platform hold the values
  of the flags, decoded, and the defaults for the rest: the report data (which is the GPU nonce when it
  is not given), the init data, the digests, the registers with the others zero, the PCRs, and the
  GPU's nonce, architectures and whether evidence of one is required.\<close>

theorem pins_are_enforced:
  assumes "build_policies hx args = Inr po"
  shows "platforms_asked args po
    \<and> (\<forall>p \<in> set (tdx_params_of po). tdx_asked hx args p) \<and> (\<forall>p \<in> set (snp_params_of po). snp_asked hx args p)
    \<and> (\<forall>p. po_az_tdx po = Some p \<longrightarrow> asked_pins hx 32 23 (expected_pcr args) (atp_pcrs p))
    \<and> (\<forall>p. po_az_snp po = Some p \<longrightarrow> asked_pins hx 32 23 (expected_pcr args) (asp_pcrs p))
    \<and> gpu_asked hx args (po_gpu po) \<and> po_floors po = default_floors"
  by (rule build_policies_asked [OF assms])


section \<open>What an exit code says\<close>

text \<open>Whatever stops the reading of the flags is a usage error.\<close>

definition usage_only :: "'a cmd \<Rightarrow> bool" where
  "usage_only r \<longleftrightarrow> (\<forall>e. r = Inl e \<longrightarrow> fst e = 2)"

named_theorems usage_steps "steps that fail with a usage error only"

lemma usage_only_basic [usage_steps]:
  "usage_only (Inr x)" "usage_only (usage_error msg)" "usage_only (or_usage msg y)"
  "(\<And>e. fst (f e) = 2) \<Longrightarrow> usage_only (map_err f r)"
  by (cases y; cases r; simp add: usage_only_def usage_error_def or_usage_def)+

lemma usage_only_then [usage_steps]:
  "usage_only r \<Longrightarrow> (\<And>x. usage_only (k x)) \<Longrightarrow> usage_only (and_then r k)"
  by (cases r) (auto simp: usage_only_def)

lemma usage_only_if [usage_steps]: "usage_only a \<Longrightarrow> usage_only b \<Longrightarrow> usage_only (if c then a else b)"
  by simp

lemma usage_only_map [usage_steps]: "usage_only r \<Longrightarrow> usage_only (map_sum id f r)"
  by (cases r) (auto simp: usage_only_def)

lemma usage_only_transpose [usage_steps]: "(\<And>x. usage_only (f x)) \<Longrightarrow> usage_only (transpose_option (map_option f y))"
proof (cases y)
  case (Some a)
  assume "\<And>x. usage_only (f x)"
  from this [of a] Some show ?thesis by (cases "f a") (simp_all add: usage_only_def)
qed (simp add: usage_only_def)

lemma usage_only_traverse [usage_steps]: "(\<And>x. usage_only (f x)) \<Longrightarrow> usage_only (traverse f xs)"
  by (induction xs) (simp_all add: usage_steps)

lemma usage_only_each [usage_steps]: "(\<And>x. usage_only (f x)) \<Longrightarrow> usage_only (check_each f xs)"
  by (induction xs) (simp_all add: usage_steps)

lemma usage_only_pins [usage_steps]: "usage_only (parse_index_pins_loop hx n flag t pins vals)"
  by (induction pins arbitrary: vals) (auto intro!: usage_steps split: prod.splits)

lemma usage_only_values [usage_steps]:
  "usage_only (parse_hex hx h flag)" "usage_only (parse_digest hx h flag)" "usage_only (arch_arg a)"
  by (auto simp: parse_hex_def parse_digest_def arch_arg_def intro!: usage_steps)

lemma usage_only_flags [usage_steps]:
  "usage_only (digests hx given flag)" "usage_only (opt_hex hx v flag)" "usage_only (opt_registers hx given)"
  "usage_only (parse_index_pins hx n given flag t)" "usage_only (gpu_policy hx args rd)"
  by (auto simp: digests_def opt_hex_def opt_registers_def parse_index_pins_def gpu_policy_def intro!: usage_steps)

lemma usage_only_platforms [usage_steps]: "usage_only (accepted_platforms args)"
  unfolding accepted_platforms_def Let_def by (auto intro!: usage_steps split: prod.splits)

lemma usage_only_policies: "usage_only (build_policies hx args)"
  unfolding build_policies_def by (auto intro!: usage_steps simp: Let_def split: prod.splits)

lemma usage_only_context: "usage_only (verify_context C args)"
  unfolding verify_context_def by (auto intro!: usage_steps simp: Let_def split: option.splits)

text \<open>What a run reads before it verifies.\<close>

definition verify_inputs :: "cli_env \<Rightarrow> verify_args \<Rightarrow> bytes \<Rightarrow> policies \<Rightarrow> ctx \<Rightarrow> bool" where
  "verify_inputs C args b po c \<longleftrightarrow>
     read_evidence C args = Inr b \<and> build_policies (cl_hex C) args = Inr po \<and> verify_context C args = Inr c"

lemma cmd_verify_cases:
  assumes "cmd_verify V C args w = ((code, out), w')"
  obtains (usage) "code = 2" "out = None" "w' = w" "\<nexists>b po c. verify_inputs C args b po c"
  | (ran) b po c r c' where "verify_inputs C args b po c" "verify V b po c w = (r, c', w')"
      "case r of Inl e \<Rightarrow> code = fst (exit_for_error e) \<and> out = None
         | Inr vd \<Rightarrow> code = (if passed vd then 0 else 1)
             \<and> out = Some (object_set ''passed'' (JBool (passed vd)) (cl_verdict_json C vd))"
proof -
  let ?start = "and_then (map_err (\<lambda>e. (2, e)) (read_evidence C args)) (\<lambda>evidence_json.
           and_then (build_policies (cl_hex C) args) (\<lambda>po.
           and_then (verify_context C args) (\<lambda>c. Inr (evidence_json, po, c))))"
  have u: "usage_only ?start" by (auto intro!: usage_steps usage_only_policies usage_only_context)
  have s: "?start = Inr (b, po, c) \<longleftrightarrow> verify_inputs C args b po c" for b po c
    by (auto simp: verify_inputs_def and_then_Inr_iff map_err_Inr_iff)
  show thesis
  proof (cases ?start)
    case (Inl e)
    with u have "fst e = 2" by (simp add: usage_only_def)
    moreover have "\<nexists>b po c. verify_inputs C args b po c" using Inl s by simp
    ultimately show thesis using Inl assms by (intro usage) (cases e; simp add: cmd_verify_def)+
  next
    case (Inr x)
    obtain b po c where x: "x = (b, po, c)" by (rule prod_cases3)
    with Inr s have i: "verify_inputs C args b po c" by simp
    obtain r c' w1 where v: "verify V b po c w = (r, c', w1)" by (rule prod_cases3)
    show thesis
      by (rule ran [OF i, of r c']) (use assms Inr x v in \<open>auto simp: cmd_verify_def split: sum.splits\<close>)
  qed
qed

lemma verify_inputs_unique:
  "verify_inputs C args b po c \<Longrightarrow> verify_inputs C args b' po' c' \<longleftrightarrow> b' = b \<and> po' = po \<and> c' = c"
  by (auto simp: verify_inputs_def)

lemma policies_report_data:
  assumes "build_policies hx args = Inr po" "has_params po pl" "report_data_flag args \<noteq> None"
  shows "report_data po pl \<noteq> None"
proof -
  have a: "platforms_asked args po" "\<forall>p \<in> set (tdx_params_of po). tdx_asked hx args p"
      "\<forall>p \<in> set (snp_params_of po). snp_asked hx args p"
    using build_policies_asked [OF assms(1)] by simp_all
  have "(\<exists>p \<in> set (tdx_params_of po). report_data po pl = tp_report_data p)
      \<or> (\<exists>p \<in> set (snp_params_of po). report_data po pl = sp_report_data p)"
    using assms(2) by (cases pl) (auto simp: tdx_params_of_def snp_params_of_def map_filter_def)
  moreover have "tp_report_data p \<noteq> None" if "tdx_asked hx args p" for p
    using that assms(3) by (auto simp: tdx_asked_def asked_hex_def)
  moreover have "sp_report_data p \<noteq> None" if "snp_asked hx args p" for p
    using that assms(3) by (auto simp: snp_asked_def asked_hex_def)
  ultimately show ?thesis using a(2,3) by force
qed

text \<open>C16: The exit code tells a deployment gate the truth. A run exits with 0 exactly when its input
  was read and the verdict passed, with 1 exactly when it did not pass or the evidence is refused for
  good, with 3 exactly for an error that trying again may clear, and with 2 exactly when the flags,
  the input or the params they make are no good. A verdict is printed exactly when there is one, and
  says whether it passed. Exit code 0 means that the evidence is genuine, of an accepted platform, and
  met every rule the flags set, the report data among them when it is given.\<close>

theorem exit_codes_tell_the_truth:
  assumes "cmd_verify V C args w = ((code, out), w')"
  shows "(code = 0 \<longleftrightarrow> (\<exists>b po c vd c'. verify_inputs C args b po c \<and> verify V b po c w = (Inr vd, c', w') \<and> passed vd))
    \<and> (code = 1 \<longleftrightarrow> (\<exists>b po c r c'. verify_inputs C args b po c \<and> verify V b po c w = (r, c', w')
         \<and> (case r of Inr vd \<Rightarrow> \<not> passed vd | Inl e \<Rightarrow> \<not> is_invalid_params e \<and> \<not> is_retryable e)))
    \<and> (code = 3 \<longleftrightarrow> (\<exists>b po c e c'. verify_inputs C args b po c \<and> verify V b po c w = (Inl e, c', w')
         \<and> \<not> is_invalid_params e \<and> is_retryable e))
    \<and> (code = 2 \<longleftrightarrow> (\<forall>b po c. verify_inputs C args b po c \<longrightarrow>
         (\<exists>e c'. verify V b po c w = (Inl e, c', w') \<and> is_invalid_params e)))
    \<and> code \<in> {0, 1, 2, 3}
    \<and> (\<forall>b po c r c'. verify_inputs C args b po c \<longrightarrow> verify V b po c w = (r, c', w') \<longrightarrow>
         out = (case r of Inl _ \<Rightarrow> None | Inr vd \<Rightarrow> Some (object_set ''passed'' (JBool (passed vd)) (cl_verdict_json C vd))))
    \<and> ((\<nexists>b po c. verify_inputs C args b po c) \<longrightarrow> out = None)
    \<and> (code = 0 \<longrightarrow> (\<exists>b po c env vd c'. verify_inputs C args b po c \<and> parse_envelope V b = Inr env
         \<and> verify V b po c w = (Inr vd, c', w')
         \<and> has_params po (ev_platform env) \<and> result_platform (vd_platform vd) = ev_platform env
         \<and> genuine_evidence V (ev_platform env) (ev_evidence env) (ctx_now (vf_utc V) c w) \<and> passed vd
         \<and> (report_data_flag args \<noteq> None \<longrightarrow> result_report_data (vd_platform vd) = Some True)))"
  using assms
proof (cases rule: cmd_verify_cases)
  case usage
  then show ?thesis by auto
next
  case (ran b po c r c')
  note u = verify_inputs_unique [OF ran(1)]
  show ?thesis
  proof (cases r)
    case (Inl e)
    with ran u show ?thesis by (auto simp: exit_for_error_def split: if_splits)
  next
    case (Inr vd)
    with ran(2) have "verify V b po c w = (Inr vd, c', w')" by simp
    from verify_Inr [OF this] obtain env s s1 w1 where env: "parse_envelope V b = Inr env"
      and v: "verify_envelope V c env po s w = (Inr vd, s1, w1)" by (elim exE conjE)
    note h = verify_envelope_Inr(1) [OF v] and verdict = verify_envelope_evidence [OF v]
    have "build_policies (cl_hex C) args = Inr po" using ran(1) by (simp add: verify_inputs_def)
    then have "report_data_flag args \<noteq> None \<longrightarrow> passed vd \<longrightarrow> result_report_data (vd_platform vd) = Some True"
      using policies_report_data [OF _ h] verdict(3) by auto
    with ran u Inr env h verdict(1,2) show ?thesis by (auto split: if_splits)
  qed
qed

section \<open>Without the network\<close>

lemma verify_context_offline:
  assumes "va_offline args" "verify_context C args = Inr c"
  shows "no_vendor c"
proof -
  have "no_vendor (cli_context C c)" if "no_vendor c" for c
    using that no_vendor_kept(2) [OF that] by (cases "cl_cache C") (simp_all add: cli_context_def)
  moreover have "no_vendor c1" if "at_time t (offline_ctx nr) = Inr c1" for t c1 nr
    using that no_vendor_new(1) [of nr] by (auto simp: at_time_def no_vendor_def split: if_splits)
  ultimately show ?thesis using assms no_vendor_new(1) [of "cl_nras C"]
    by (cases "va_at args"; cases "at_time (the (va_at args)) (offline_ctx (cl_nras C))") (auto simp: verify_context_def)
qed

lemma at_time_no_vendor: "at_time t c = Inr c' \<Longrightarrow> no_vendor c' = no_vendor c"
  by (auto simp: at_time_def no_vendor_def split: if_splits)

text \<open>C20: Nothing is fetched where nothing may be: a command-line run with \<open>--offline\<close>, asking
  which collateral a piece of evidence needs in a browser, and evaluating it there with what
  the page hands over leave the network as it was, whatever the evidence says.\<close>

theorem offline_runs_ask_nobody:
  assumes "va_offline args"
  shows "snd (cmd_verify V C args w) = w \<and> snd (collateral_needed V nr envelope w) = w
    \<and> snd (evaluate V nr read_policies read_collateral to_json envelope po_json col_json now w) = w"
proof (intro conjI)
  obtain code out w' where r: "cmd_verify V C args w = ((code, out), w')" by (metis prod.exhaust)
  then show "snd (cmd_verify V C args w) = w"
    by (cases rule: cmd_verify_cases)
       (use r verify_quiet(1) [OF verify_context_offline [OF assms]] in \<open>auto simp: verify_inputs_def\<close>)
  obtain r c' w1 where v: "verify V envelope all_policies (held_ctx nr []) w = (r, c', w1)" by (rule prod_cases3)
  then show "snd (collateral_needed V nr envelope w) = w"
    using verify_quiet(1) [OF no_vendor_new(2) v] by (auto simp: collateral_needed_def split: sum.splits)
  have held: "snd (case verify V envelope po c w of (Inl e, _, w) \<Rightarrow> (Inl (failure_of e), w)
      | (Inr vd, _, w) \<Rightarrow> (Inr (object_set ''passed'' (JBool (passed vd)) (to_json vd)), w)) = w"
    if "no_vendor c" for po c
  proof -
    obtain r c' w1 where v: "verify V envelope po c w = (r, c', w1)" by (rule prod_cases3)
    with verify_quiet(1) [OF that v] show ?thesis by (cases r) simp_all
  qed
  let ?start = "and_then (ok_or (bad_request ''policies deserialize'') (read_policies po_json)) (\<lambda>po.
           and_then (ok_or (bad_request ''collateral deserialize'') (read_collateral col_json)) (\<lambda>held.
           let c = held_ctx nr (map (\<lambda>h. (ac_url h, ac_body h, ac_issuer_chain h)) held) in
           map_sum id (Pair po) (case now of Some t \<Rightarrow> map_err failure_of (at_time t c) | None \<Rightarrow> Inr c)))"
  have nv: "no_vendor c" if "?start = Inr (po, c)" for po c
    using that no_vendor_new(2) [of nr] at_time_no_vendor
    by (cases now; cases "read_policies po_json"; cases "read_collateral col_json";
        cases "at_time (the now) (held_ctx nr (map (\<lambda>h. (ac_url h, ac_body h, ac_issuer_chain h)) (the (read_collateral col_json))))")
       auto
  show "snd (evaluate V nr read_policies read_collateral to_json envelope po_json col_json now w) = w"
  proof (cases ?start)
    case (Inl f)
    then show ?thesis by (simp add: evaluate_def)
  next
    case (Inr x)
    then obtain po c where x: "x = (po, c)" by fastforce
    with Inr nv have "no_vendor c" by simp
    from held [OF this] show ?thesis unfolding evaluate_def Inr x by simp
  qed
qed


section \<open>A small run\<close>

definition toy_verify_args :: verify_args where
  "toy_verify_args = \<lparr>va_evidence = None, va_platform = [], va_offline = True, va_at = Some 50,
     expected_report_data = Some (hex_encode hex16 [1, 2]), expected_init_data = None,
     expected_mrtd = [hex_encode hex16 (replicate 48 7)], expected_rtmr0 = [], expected_rtmr1 = [],
     expected_rtmr2 = [], expected_rtmr3 = [], expected_launch_digest = [],
     expected_pcr = [], expected_mr = [], nvidia_gpu_user_nonce = None, nvidia_gpu_required = False,
     nvidia_gpu_expected_archs = None\<rparr>"

definition toy_cli :: cli_env where
  "toy_cli = \<lparr>cl_hex = hex16, cl_stat = (\<lambda>_. None), cl_read = (\<lambda>_. None), cl_stdin = (\<lambda>_. Some []),
     cl_verdict_json = (\<lambda>_. JObj []), cl_cache = None, cl_nras = ge_nras toy_gpu_env\<rparr>"

lemma toy_accepted: "accepted_platforms toy_verify_args = Inr [Tdx, AzTdx, GcpTdx]"
  by (simp add: accepted_platforms_def pins_given_def toy_verify_args_def ALL_PLATFORMS_def TDX_PLATFORMS_def)

lemma toy_builds: "\<exists>po. build_policies hex16 toy_verify_args = Inr po \<and> has_params po Tdx"
proof -
  have h: "hex_decode hex16 (hex_encode hex16 b) = Some b" for b by (rule hex_okD(1) [OF hex16_ok])
  have "digests hex16 (expected_mrtd toy_verify_args) ''expected-mrtd'' = Inr (Some [replicate 48 7])"
    by (simp add: digests_def toy_verify_args_def parse_digest_def parse_hex_def or_usage_def h del: replicate.simps)
  moreover have "opt_hex hex16 (expected_report_data toy_verify_args) ''expected-report-data'' = Inr (Some [1, 2])"
    by (simp add: opt_hex_def toy_verify_args_def parse_hex_def or_usage_def h)
  moreover have "opt_hex hex16 (expected_init_data toy_verify_args) f = Inr None" for f
    by (simp add: opt_hex_def toy_verify_args_def)
  moreover have "digests hex16 (expected_rtmr0 toy_verify_args) f = Inr None" "digests hex16 (expected_rtmr1 toy_verify_args) f = Inr None"
    "digests hex16 (expected_rtmr2 toy_verify_args) f = Inr None" "digests hex16 (expected_rtmr3 toy_verify_args) f = Inr None"
    "digests hex16 (expected_launch_digest toy_verify_args) f = Inr None"
    "parse_index_pins hex16 32 (expected_pcr toy_verify_args) f t = Inr []" "opt_registers hex16 (expected_mr toy_verify_args) = Inr None"
    "gpu_policy hex16 toy_verify_args rd = Inr (None, rd)" for f t rd
    by (simp_all add: digests_def toy_verify_args_def parse_index_pins_def opt_registers_def gpu_policy_def)
  ultimately show ?thesis by (simp add: build_policies_def toy_accepted Let_def)
qed

theorem pins_are_enforced_witness:
  "\<exists>po p. build_policies hex16 toy_verify_args = Inr po \<and> po_tdx po = Some p \<and> tdx_asked hex16 toy_verify_args p
     \<and> tp_report_data p = Some [1, 2]"
proof -
  obtain po where po: "build_policies hex16 toy_verify_args = Inr po" "has_params po Tdx" using toy_builds by blast
  then obtain p where p: "po_tdx po = Some p" by auto
  then have "p \<in> set (tdx_params_of po)" by (simp add: tdx_params_of_def map_filter_def)
  with pins_are_enforced [OF po(1)] have a: "tdx_asked hex16 toy_verify_args p" by blast
  then have "tp_report_data p = Some [1, 2]"
    by (simp add: tdx_asked_def report_data_flag_def toy_verify_args_def asked_hex_def hex_okD(1) [OF hex16_ok])
  with po(1) p a show ?thesis by blast
qed

text \<open>The evidence on standard input is of another platform than the pins are for.\<close>

definition toy_cli_libs :: "(unit, unit, unit, unit, unit, unit, unit, unit, unit, unit, unit, nat) libs" where
  "toy_cli_libs = toy_libs\<lparr>vf_envelope :=
     (\<lambda>_. Some \<lparr>ev_platform = Snp, ev_evidence = JNull, ev_nvidia_gpu = None, ev_collateral = []\<rparr>)\<rparr>"

lemma toy_cli_run: "fst (cmd_verify toy_cli_libs toy_cli toy_verify_args 0) = (1, None)"
proof -
  obtain po where po: "build_policies hex16 toy_verify_args = Inr po" using toy_builds by blast
  have "\<not> has_params po Snp"
    using build_policies_asked [OF po]
    by (simp add: platforms_asked_def toy_verify_args_def pins_apply_def del: has_params.simps)
  then have "verify_envelope toy_cli_libs c \<lparr>ev_platform = Snp, ev_evidence = JNull, ev_nvidia_gpu = None, ev_collateral = []\<rparr> po s w
      = (Inl (PlatformNotAllowed (platform_name Snp)), s, w)" for c s w
    by (simp add: verify_envelope_def check_allowed_def del: has_params.simps)
  then have v: "\<exists>c'. verify toy_cli_libs [] po c w = (Inl (PlatformNotAllowed (platform_name Snp)), c', w)" for c w
    by (auto simp: verify_def parse_envelope_def toy_cli_libs_def keep_def)
  let ?c = "(offline_ctx (cl_nras toy_cli))\<lparr>cx_time := Some 50\<rparr>"
  have c: "verify_context toy_cli toy_verify_args = Inr ?c"
    by (simp add: verify_context_def toy_verify_args_def at_time_def cli_context_def toy_cli_def)
  have b: "read_evidence toy_cli toy_verify_args = Inr []"
    by (simp add: read_evidence_def toy_verify_args_def toy_cli_def)
  have h: "cl_hex toy_cli = hex16" by (simp add: toy_cli_def)
  obtain c' where "verify toy_cli_libs [] po ?c 0 = (Inl (PlatformNotAllowed (platform_name Snp)), c', 0)"
    using v by blast
  with b c h po show ?thesis
    by (simp add: cmd_verify_def exit_for_error_def is_invalid_params_def is_retryable_def)
qed

text \<open>A run that passes: the evidence of the small TDX instance with its collateral attached, and flags
  that name the platform and the report data.\<close>

definition passing_args :: verify_args where
  "passing_args = toy_verify_args\<lparr>va_platform := [TdxArg], expected_mrtd := [],
     expected_report_data := Some (hex_encode hex16 (replicate 16 0))\<rparr>"

definition attached_envelope :: evidence where
  "attached_envelope = \<lparr>ev_platform = Tdx, ev_evidence = JNull, ev_nvidia_gpu = None,
     ev_collateral = map (\<lambda>url. \<lparr>ac_url = url, ac_body = [], ac_issuer_chain = snd (toy_response url)\<rparr>) toy_urls\<rparr>"

definition passing_libs :: "(unit, unit, unit, unit, unit, unit, unit, unit, unit, unit, unit, nat) libs" where
  "passing_libs = toy_libs\<lparr>vf_envelope := (\<lambda>_. Some attached_envelope)\<rparr>"

lemma passing_builds: "build_policies hex16 passing_args = Inr (default_policies\<lparr>po_tdx := Some (toy_params (Some (replicate 16 0)))\<rparr>)"
proof -
  have h: "hex_decode hex16 (hex_encode hex16 b) = Some b" for b by (rule hex_okD(1) [OF hex16_ok])
  note a = passing_args_def toy_verify_args_def
  have "opt_hex hex16 (expected_report_data passing_args) f = Inr (Some (replicate 16 0))" for f
    by (simp add: opt_hex_def a parse_hex_def or_usage_def h)
  moreover have "accepted_platforms passing_args = Inr [Tdx]"
    by (simp add: accepted_platforms_def pins_given_def a)
  moreover have "opt_hex hex16 (expected_init_data passing_args) f = Inr None"
    "digests hex16 (expected_mrtd passing_args) f = Inr None"
    "digests hex16 (expected_rtmr0 passing_args) f = Inr None" "digests hex16 (expected_rtmr1 passing_args) f = Inr None"
    "digests hex16 (expected_rtmr2 passing_args) f = Inr None" "digests hex16 (expected_rtmr3 passing_args) f = Inr None"
    "digests hex16 (expected_launch_digest passing_args) f = Inr None"
    "parse_index_pins hex16 32 (expected_pcr passing_args) f t = Inr []" "opt_registers hex16 (expected_mr passing_args) = Inr None"
    "gpu_policy hex16 passing_args rd = Inr (None, rd)" for f t rd
    by (simp_all add: opt_hex_def digests_def a parse_index_pins_def opt_registers_def gpu_policy_def)
  moreover have "default_policies\<lparr>po_gpu := None\<rparr> = default_policies" by (simp add: default_policies_def)
  ultimately show ?thesis
    by (simp add: build_policies_def Let_def toy_params_def default_tdx_params_def)
qed

lemma passing_run: "\<exists>out w'. cmd_verify passing_libs toy_cli passing_args 0 = ((0, Some out), w')"
proof -
  let ?po = "default_policies\<lparr>po_tdx := Some (toy_params (Some (replicate 16 0)))\<rparr>"
  let ?c = "(offline_ctx (cl_nras toy_cli))\<lparr>cx_time := Some 50\<rparr>"
  have c: "verify_context toy_cli passing_args = Inr ?c"
    by (simp add: verify_context_def passing_args_def toy_verify_args_def at_time_def cli_context_def toy_cli_def)
  have b: "read_evidence toy_cli passing_args = Inr []"
    by (simp add: read_evidence_def passing_args_def toy_verify_args_def toy_cli_def)
  have h: "cl_hex toy_cli = hex16" by (simp add: toy_cli_def)
  let ?s = "view (cx_store ?c) (held_collateral attached_envelope) default_floors False"
  have "held_collateral attached_envelope = map (\<lambda>url. (url, toy_response url)) toy_urls"
    by (simp add: held_collateral_def attached_envelope_def toy_urls_def toy_response_def)
  then have o: "toy_offers ?s"
    by (simp add: toy_offers_def view_def offline_ctx_def new_store_def held_only_def new_native_def toy_urls_def
        responses_of_def)
  have m: "Some (replicate 16 0) \<in> {None, Some (replicate 16 (0 :: u8))}" by simp
  from toy_offered_run [OF m o, of toy_se 0] obtain r us where run:
    "run (tdx_platform (toy_tdx_env toy_se) (\<lambda>_. Some toy_evidence)) JNull
      (Some (toy_params (Some (replicate 16 0)))) 50 ?s 0 = (Inr (r, us), ?s, 0)"
    and p: "tdx_passed r" "list_all acceptable us"
    by blast
  have n: "ctx_now (vf_utc passing_libs) ?c 0 = 50" by (simp add: ctx_now_def)
  have l: "vf_tdx_evidence passing_libs = (\<lambda>_. Some toy_evidence)" "the_tdx_env passing_libs = toy_tdx_env toy_se"
    by (simp_all add: passing_libs_def toy_libs_def the_tdx_env_def toy_tdx_env_def)
  have po: "po_tdx ?po = Some (toy_params (Some (replicate 16 0)))" "po_gpu ?po = None" "po_floors ?po = default_floors"
    by (simp_all add: default_policies_def)
  have e: "ev_platform attached_envelope = Tdx" "ev_evidence attached_envelope = JNull" "ev_nvidia_gpu attached_envelope = None"
    by (simp_all add: attached_envelope_def)
  have "verify_platform passing_libs Tdx JNull ?po 50 ?s 0 = (Inr (TdxRes r, us), ?s, 0)"
    unfolding verify_platform.simps l po run by (simp add: map_result_def)
  then have "verify_envelope passing_libs ?c attached_envelope ?po ?s 0 =
      (Inr \<lparr>vd_platform = TdxRes r, vd_gpu = None, vd_collateral = us\<rparr>, ?s, 0)"
    by (simp add: verify_envelope_def e check_allowed_def check_gpu_rules_def po n del: verify_platform.simps)
  moreover have "parse_envelope passing_libs [] = Inr attached_envelope"
    by (simp add: parse_envelope_def MAX_EVIDENCE_SIZE_def passing_libs_def)
  ultimately obtain c' where "verify passing_libs [] ?po ?c 0 = (Inr \<lparr>vd_platform = TdxRes r, vd_gpu = None, vd_collateral = us\<rparr>, c', 0)"
    by (simp add: verify_def po keep_def)
  then show ?thesis
    using b c h passing_builds p by (simp add: cmd_verify_def passed_iff list_all_iff)
qed

theorem exit_codes_tell_the_truth_witness:
  "\<exists>out w' b po c env vd. cmd_verify passing_libs toy_cli passing_args 0 = ((0, Some out), w')
     \<and> verify_inputs toy_cli passing_args b po c \<and> parse_envelope passing_libs b = Inr env \<and> passed vd
     \<and> result_report_data (vd_platform vd) = Some True"
proof -
  obtain out w' where r: "cmd_verify passing_libs toy_cli passing_args 0 = ((0, Some out), w')"
    using passing_run by blast
  have f: "report_data_flag passing_args \<noteq> None" by (simp add: report_data_flag_def passing_args_def)
  from exit_codes_tell_the_truth [OF r, THEN conjunct2, THEN conjunct2, THEN conjunct2, THEN conjunct2, THEN conjunct2,
      THEN conjunct2, THEN conjunct2, THEN mp, OF refl]
  obtain b po c env vd where "verify_inputs toy_cli passing_args b po c" "parse_envelope passing_libs b = Inr env" "passed vd"
    "result_report_data (vd_platform vd) = Some True" using f by (elim exE conjE) simp
  with r show ?thesis by blast
qed

theorem offline_runs_ask_nobody_witness:
  "va_offline toy_verify_args \<and> snd (cmd_verify toy_cli_libs toy_cli toy_verify_args 0) = 0
   \<and> fst (cmd_verify toy_cli_libs toy_cli toy_verify_args 0) = (1, None)"
proof -
  have o: "va_offline toy_verify_args" by (simp add: toy_verify_args_def)
  from offline_runs_ask_nobody [OF o, of toy_cli_libs toy_cli 0] toy_cli_run o show ?thesis by blast
qed

end
