(* ===== verification/ApiAttest.thy ===== *)
theory ApiAttest
  imports ApiServer Attest
begin

text \<open>
  \<open>/attest\<close> of \<open>crates/attestation-api/src/api/attest.rs\<close>, for a build with the
  \<open>nvidia-gpu-attest\<close> feature on Linux. The state is the server's, the GPU SDK's latch, the
  machine and the network; \<open>from_value\<close> is \<open>serde_json::from_slice\<close> into a \<open>Value\<close>.
\<close>

record attest_request =
  aq_report_data :: "string option"
  aq_platform :: string
  aq_nvidia_gpu :: bool

record attest_response =
  ar_platform :: string
  ar_evidence :: json
  ar_nvidia_gpu :: "json option"
  ar_collateral :: "json option"

definition default_platform :: string where "default_platform = ''auto''"

record attest_host =
  ah_gen :: gen_lib
  ah_nvat :: nvat_lib
  ah_base64 :: "string \<Rightarrow> bytes option"
  ah_value :: "bytes \<Rightarrow> json option"

text \<open>\<open>as_object_mut().and_then(|obj| obj.remove(key))\<close>.\<close>

definition object_remove :: "string \<Rightarrow> json \<Rightarrow> json option \<times> json" where
  "object_remove k j = (case j of
       JObj ms \<Rightarrow> (map_of ms k, JObj (filter (\<lambda>(k', _). k' \<noteq> k) ms))
     | _ \<Rightarrow> (None, j))"

text \<open>The answer: the envelope's parts.\<close>

definition split_envelope :: "platform_type \<Rightarrow> json \<Rightarrow> attest_response" where
  "split_envelope platform envelope =
     (let (gpu_field, envelope) = object_remove ''nvidia_gpu'' envelope;
          (collateral, envelope) = object_remove ''collateral'' envelope
      in \<lparr>ar_platform = platform_name platform,
          ar_evidence = (case json_get ''evidence'' envelope of Some e \<Rightarrow> e | None \<Rightarrow> envelope),
          ar_nvidia_gpu = gpu_field, ar_collateral = collateral\<rparr>)"

text \<open>What is attested, or why nothing is; the platform may be detected on the way.\<close>

definition check_attest_request ::
  "('k, 's, 'rk, 'rs, 'key, 'sig, 'grk, 'grs, 'nk, 'ns, 'pem, 'tk, 'w) api_env \<Rightarrow> attest_host \<Rightarrow> attest_request
     \<Rightarrow> 'tk app_state \<Rightarrow> (api_error + bytes \<times> platform_type) \<times> 'tk app_state" where
  "check_attest_request E A req st =
     (if \<not> at_enabled (ac_attestation (sa_config st)) then (Inl AttestNotAvailable, st)
      else (case (case aq_report_data req of
                    Some b64 \<Rightarrow> ok_or (BadRequest ''invalid base64 report_data'') (ah_base64 A b64)
                  | None \<Rightarrow> Inr []) of
         Inl e \<Rightarrow> (Inl e, st)
       | Inr rd \<Rightarrow> (case resolve_platform E (aq_platform req) st of
             (Inl e, st) \<Rightarrow> (Inl e, st)
           | (Inr platform, st) \<Rightarrow>
               (map_sum id (\<lambda>_. (rd, platform))
                  (ensure_platform_allowed (at_platforms (ac_attestation (sa_config st))) platform), st))))"

text \<open>The evidence with its collateral: collateral that cannot be had leaves the evidence as
  it was.\<close>

definition with_collateral ::
  "('k, 's, 'rk, 'rs, 'key, 'sig, 'grk, 'grs, 'nk, 'ns, 'pem, 'w) libs \<Rightarrow> bytes \<Rightarrow> bytes \<Rightarrow> ctx \<Rightarrow> 'w
     \<Rightarrow> bytes \<times> ctx \<times> 'w" where
  "with_collateral V evidence_bytes rd c w = (case attach_collateral V evidence_bytes rd c w of
       (Inr attached, c, w) \<Rightarrow> (attached, c, w)
     | (Inl _, c, w) \<Rightarrow> (evidence_bytes, c, w))"

definition generate_evidence_bytes ::
  "('k, 's, 'rk, 'rs, 'key, 'sig, 'grk, 'grs, 'nk, 'ns, 'pem, 'tk, 'w) api_env \<Rightarrow> attest_host \<Rightarrow> 'm machine
     \<Rightarrow> bool \<Rightarrow> platform_type \<Rightarrow> bytes \<Rightarrow> quote_method \<Rightarrow> (bytes, bool \<times> 'm) act" where
  "generate_evidence_bytes E A M nvidia_gpu platform rd method =
     (if nvidia_gpu
      then attest_with_nvidia_gpu M (ah_gen A) (ah_nvat A) (vf_envelope_bytes (ae_libs E)) (vf_envelope (ae_libs E))
             platform rd method
      else lift_act (attest M (ah_gen A) (vf_envelope_bytes (ae_libs E)) platform rd method))"

definition attest_handler ::
  "('k, 's, 'rk, 'rs, 'key, 'sig, 'grk, 'grs, 'nk, 'ns, 'pem, 'tk, 'w) api_env \<Rightarrow> attest_host \<Rightarrow> 'm machine
     \<Rightarrow> attest_request \<Rightarrow> 'tk app_state \<Rightarrow> bool \<times> 'm \<Rightarrow> 'w
     \<Rightarrow> (api_error + attest_response) \<times> 'tk app_state \<times> (bool \<times> 'm) \<times> 'w" where
  "attest_handler E A M req st p w = (case check_attest_request E A req st of
       (Inl e, st) \<Rightarrow> (Inl e, st, p, w)
     | (Inr (rd, platform), st) \<Rightarrow>
         (case generate_evidence_bytes E A M (aq_nvidia_gpu req) platform rd
                 (attest_options (ac_attestation (sa_config st))) p of
            (Inl e, p) \<Rightarrow> (Inl (Verification e), st, p, w)
          | (Inr evidence_bytes, p) \<Rightarrow>
              (case with_collateral (ae_libs E) evidence_bytes rd (sa_ctx st) w of
                 (evidence_bytes, c, w) \<Rightarrow>
                   (and_then (ok_or (Internal ''failed to parse evidence'') (ah_value A evidence_bytes)) (\<lambda>envelope.
                    Inr (split_envelope platform envelope)), st\<lparr>sa_ctx := c\<rparr>, p, w))))"

end
