(* ===== verification/ApiService.thy ===== *)
theory ApiService
  imports ApiAttest
begin

text \<open>
  The service of \<open>crates/attestation-api\<close> as a whole: how it starts (\<open>main.rs\<close>,
  \<open>token/keys.rs\<close>), \<open>/health\<close>, and its routes (\<open>server.rs\<close>) over the handlers. Reading
  TOML, PEM keys and addresses, fresh keys and the count of the memory cache are parameters.
  Listening, tracing and shutting down are library code, and so is the limit on a request's body;
  a body of \<open>/attest\<close> that does not decode is refused before the handler.
\<close>

section \<open>Starting\<close>

text \<open>The files of the server, as far as it starts from them.\<close>

record 'key startup =
  su_exists :: "string \<Rightarrow> bool"
  su_read :: "string \<Rightarrow> string option"
  su_toml :: "string \<Rightarrow> api_config option"
  su_env :: "string \<Rightarrow> string option"
  su_socket_addr :: "string \<Rightarrow> bool"
  su_random :: 'key
  su_pkcs8 :: "string \<Rightarrow> 'key option"
  su_url :: url_parser
  su_nras :: nras

datatype start_error = ConfigUnreadable | InvalidConfig string | NoIssuer api_error | NrasRefused attestation_error

definition load_or_generate :: "'key startup \<Rightarrow> string \<Rightarrow> api_error + 'key" where
  "load_or_generate S key_path =
     (if key_path = [] then Inr (su_random S)
      else if \<not> su_exists S key_path then Inl (Internal ''token key file not found'')
      else and_then (ok_or (Internal ''failed to read key file'') (su_read S key_path)) (\<lambda>pem.
           ok_or (Internal ''failed to parse EC P-256 key'') (su_pkcs8 S pem)))"

text \<open>\<open>Config::load\<close>, and the configuration \<open>main\<close> runs with.\<close>

definition load_api_config :: "'key startup \<Rightarrow> string \<Rightarrow> start_error + api_config" where
  "load_api_config S path = ok_or ConfigUnreadable (Option.bind (su_read S path) (su_toml S))"

definition startup_config :: "'key startup \<Rightarrow> string \<Rightarrow> start_error + api_config" where
  "startup_config S path =
     and_then (if su_exists S path then load_api_config S path else Inr default_api_config) (\<lambda>config.
     and_then (map_err InvalidConfig (validate_config (su_socket_addr S) config)) (\<lambda>_. Inr config))"

definition start_server :: "'key startup \<Rightarrow> 'key issuer_lib \<Rightarrow> string \<Rightarrow> start_error + 'key app_state" where
  "start_server S L path =
     and_then (startup_config S path) (\<lambda>config.
     and_then (map_err NoIssuer (token_issuer_of L (load_or_generate S) (ac_token config))) (\<lambda>issuer.
     let gpu = resolve_nras_gpu_url (su_env S) (ac_nras config);
         switch = resolve_nras_switch_url (su_env S) (ac_nras config)
     in and_then (map_err NrasRefused (with_nras_urls (su_url S) gpu switch (new_ctx (su_nras S)))) (\<lambda>c.
     Inr \<lparr>sa_config = config, sa_issuer = issuer, sa_ctx = c, sa_detected = None\<rparr>)))"

section \<open>Health\<close>

record health_response =
  hs_status :: string
  hs_platform :: "string option"
  hs_collateral :: nat
  hs_token_issuer :: bool

text \<open>\<open>Store::count\<close>; \<open>entries\<close> is the cache's own count of what it holds.\<close>

definition store_count :: "(native \<Rightarrow> nat) \<Rightarrow> store \<Rightarrow> nat" where
  "store_count entries s = (case st_native s of None \<Rightarrow> 0 | Some n \<Rightarrow> entries n)"

definition health_handler ::
  "('k, 's, 'rk, 'rs, 'key, 'sig, 'grk, 'grs, 'nk, 'ns, 'pem, 'tk, 'w) api_env \<Rightarrow> (native \<Rightarrow> nat) \<Rightarrow> 'tk app_state
     \<Rightarrow> health_response \<times> 'tk app_state" where
  "health_handler E entries st =
     (let (platform, st) = detect_platform E st in
      (\<lparr>hs_status = ''ok'', hs_platform = map_option platform_name (to_option platform),
        hs_collateral = store_count entries (cx_store (sa_ctx st)), hs_token_issuer = (sa_issuer st \<noteq> None)\<rparr>, st))"

section \<open>Routes\<close>

text \<open>A request by its route, with the body its handler takes, and the answers.\<close>

datatype api_call =
    CallHealth
  | CallPlatform
  | CallAttest attest_request
  | CallVerify "api_error + verify_request"
  | CallJwks

datatype api_answer =
    AnswerHealth health_response
  | AnswerPlatform string
  | AnswerAttest attest_response
  | AnswerVerify verify_response
  | AnswerJwks json
  | AnswerError error_response

fun route_path :: "api_call \<Rightarrow> string" where
  "route_path CallHealth = ''/health''"
| "route_path CallPlatform = ''/platform''"
| "route_path (CallAttest _) = ''/attest''"
| "route_path (CallVerify _) = ''/verify''"
| "route_path CallJwks = ''/token/jwks''"

record ('tk, 'm, 'w) service_state =
  ss_app :: "'tk app_state"
  ss_machine :: "bool \<times> 'm"
  ss_world :: 'w

definition answer_or_error :: "('a \<Rightarrow> api_answer) \<Rightarrow> api_error + 'a \<Rightarrow> api_answer" where
  "answer_or_error f r = (case r of Inr x \<Rightarrow> f x | Inl e \<Rightarrow> AnswerError (api_into_response error_display e))"

fun dispatch ::
  "('k, 's, 'rk, 'rs, 'key, 'sig, 'grk, 'grs, 'nk, 'ns, 'pem, 'tk, 'w) api_env \<Rightarrow> attest_host \<Rightarrow> 'm machine \<Rightarrow> (native \<Rightarrow> nat)
     \<Rightarrow> api_call \<Rightarrow> ('tk, 'm, 'w) service_state \<Rightarrow> api_answer \<times> ('tk, 'm, 'w) service_state" where
  "dispatch E A M entries CallHealth s =
     (case health_handler E entries (ss_app s) of (h, st) \<Rightarrow> (AnswerHealth h, s\<lparr>ss_app := st\<rparr>))"
| "dispatch E A M entries CallPlatform s =
     (case platform_handler E (ss_app s) of (r, st) \<Rightarrow> (answer_or_error AnswerPlatform r, s\<lparr>ss_app := st\<rparr>))"
| "dispatch E A M entries (CallAttest req) s =
     (case attest_handler E A M req (ss_app s) (ss_machine s) (ss_world s) of (r, st, p, w) \<Rightarrow>
        (answer_or_error AnswerAttest r, \<lparr>ss_app = st, ss_machine = p, ss_world = w\<rparr>))"
| "dispatch E A M entries (CallVerify payload) s =
     (case verify_handler E (ss_app s) payload (ss_world s) of (r, st, w) \<Rightarrow>
        (answer_or_error AnswerVerify r, s\<lparr>ss_app := st, ss_world := w\<rparr>))"
| "dispatch E A M entries CallJwks s = (answer_or_error AnswerJwks (jwks_handler (ss_app s)), s)"

definition respond ::
  "('k, 's, 'rk, 'rs, 'key, 'sig, 'grk, 'grs, 'nk, 'ns, 'pem, 'tk, 'w) api_env \<Rightarrow> hash_lib \<Rightarrow> attest_host \<Rightarrow> 'm machine
     \<Rightarrow> (native \<Rightarrow> nat) \<Rightarrow> bytes option \<Rightarrow> api_call \<Rightarrow> ('tk, 'm, 'w) service_state
     \<Rightarrow> api_answer \<times> ('tk, 'm, 'w) service_state" where
  "respond E H A M entries header call s =
     (case route_guard H (ac_auth (sa_config (ss_app s))) (route_path call) header of
        Inl e \<Rightarrow> (AnswerError e, s)
      | Inr _ \<Rightarrow> dispatch E A M entries call s)"

text \<open>The requests a process has answered, the last one last.\<close>

inductive service_run ::
  "('k, 's, 'rk, 'rs, 'key, 'sig, 'grk, 'grs, 'nk, 'ns, 'pem, 'tk, 'w) api_env \<Rightarrow> hash_lib \<Rightarrow> attest_host \<Rightarrow> 'm machine
     \<Rightarrow> (native \<Rightarrow> nat) \<Rightarrow> ('tk, 'm, 'w) service_state \<Rightarrow> (bytes option \<times> api_call \<times> api_answer) list
     \<Rightarrow> ('tk, 'm, 'w) service_state \<Rightarrow> bool" for E H A M entries s where
  run_nil: "service_run E H A M entries s [] s"
| run_step: "service_run E H A M entries s tr s1 \<Longrightarrow> respond E H A M entries header call s1 = (ans, s2)
    \<Longrightarrow> service_run E H A M entries s (tr @ [(header, call, ans)]) s2"

section \<open>Lemmas\<close>

text \<open>No handler changes the configuration or the issuer, and the platform is found once, one the
  service supports.\<close>

definition detected_ok :: "'tk app_state \<Rightarrow> bool" where
  "detected_ok st \<longleftrightarrow> (\<forall>p. sa_detected st = Some (Some p) \<longrightarrow> normalize_platform (platform_name p) \<noteq> None)"

lemma supported_detection_ok: "supported_detection p tdx = Some q \<Longrightarrow> normalize_platform (platform_name q) \<noteq> None"
proof -
  have "normalize_platform (platform_name Tdx) \<noteq> None" by code_simp
  then show "supported_detection p tdx = Some q \<Longrightarrow> normalize_platform (platform_name q) \<noteq> None"
    by (auto simp: supported_detection_def split: if_splits)
qed

definition same_service :: "'tk app_state \<Rightarrow> 'tk app_state \<Rightarrow> bool" where
  "same_service st st' \<longleftrightarrow> sa_config st' = sa_config st \<and> sa_issuer st' = sa_issuer st
     \<and> (\<forall>d. sa_detected st = Some d \<longrightarrow> sa_detected st' = Some d)
     \<and> (detected_ok st \<longrightarrow> detected_ok st')"

lemma same_service_refl [simp]: "same_service st st" "same_service st (st\<lparr>sa_ctx := c\<rparr>)"
  by (simp_all add: same_service_def detected_ok_def)

lemma same_service_trans [trans]: "same_service a b \<Longrightarrow> same_service b c \<Longrightarrow> same_service a c"
  by (auto simp: same_service_def)

lemma detect_platform_cases:
  assumes "detect_platform E st = (r, st')"
  shows "same_service st st'" "\<exists>d. sa_detected st' = Some d \<and> r = ok_or NoPlatform d"
proof -
  define d where "d = (case sa_detected st of Some d \<Rightarrow> d
    | None \<Rightarrow> Option.bind (ae_detect E) (\<lambda>p. supported_detection p (ae_tdx_available E)))"
  have e: "r = ok_or NoPlatform d" "st' = st\<lparr>sa_detected := Some d\<rparr>"
    using assms by (auto simp: detect_platform_def d_def Let_def)
  have "normalize_platform (platform_name p) \<noteq> None" if p: "d = Some p" "detected_ok st" for p
  proof (cases "sa_detected st")
    case None
    with p(1) obtain q where "supported_detection q (ae_tdx_available E) = Some p"
      by (auto simp: d_def bind_eq_Some_conv)
    then show ?thesis by (rule supported_detection_ok)
  next
    case (Some x)
    with p(1) have "sa_detected st = Some (Some p)" by (simp add: d_def)
    with p(2) show ?thesis unfolding detected_ok_def by blast
  qed
  then have "detected_ok st \<longrightarrow> detected_ok st'" unfolding e detected_ok_def by simp
  moreover have "\<forall>x. sa_detected st = Some x \<longrightarrow> d = x" by (simp add: d_def)
  ultimately show "same_service st st'" unfolding e same_service_def by simp
  show "\<exists>d. sa_detected st' = Some d \<and> r = ok_or NoPlatform d" by (simp add: e)
qed

lemma detect_same: "same_service st (snd (detect_platform E st))"
  using detect_platform_cases(1) [of E st "fst (detect_platform E st)" "snd (detect_platform E st)"] by simp

lemma resolve_same: "same_service st (snd (resolve_platform E name st))"
  using detect_same [of st E] by (simp add: resolve_platform_def)

lemma check_attest_request_same: "same_service st (snd (check_attest_request E A req st))"
  using resolve_same [of st E "aq_platform req"]
  by (auto simp: check_attest_request_def split: sum.splits prod.splits)

lemma attest_handler_same:
  assumes "attest_handler E A M req st p w = (r, st', p', w')"
  shows "same_service st st'"
proof -
  obtain q st1 where c: "check_attest_request E A req st = (q, st1)" by fastforce
  have s: "same_service st st1" using check_attest_request_same [of st E A req] c by simp
  have "same_service st1 st'"
    using assms c by (auto simp: attest_handler_def split: sum.splits prod.splits)
  with s show ?thesis by (rule same_service_trans)
qed

lemma verify_handler_same: "verify_handler E st payload w = (r, st', w') \<Longrightarrow> same_service st st'"
  by (auto simp: verify_handler_def split: sum.splits prod.splits)

lemma dispatch_same: "same_service (ss_app s) (ss_app (snd (dispatch E A M entries call s)))"
proof (cases call)
  case CallHealth
  then show ?thesis using detect_same [of "ss_app s" E] by (simp add: health_handler_def case_prod_beta)
next
  case CallPlatform
  then show ?thesis using detect_same [of "ss_app s" E] by (simp add: platform_handler_def case_prod_beta)
next
  case (CallAttest req)
  then show ?thesis by (auto dest!: attest_handler_same split: prod.splits)
next
  case (CallVerify payload)
  then show ?thesis by (auto dest!: verify_handler_same split: prod.splits)
qed simp

lemma respond_same: "respond E H A M entries header call s = (ans, s') \<Longrightarrow> same_service (ss_app s) (ss_app s')"
  using dispatch_same [of s E A M entries call] by (auto simp: respond_def split: sum.splits)

lemma service_run_same: "service_run E H A M entries s tr s' \<Longrightarrow> same_service (ss_app s) (ss_app s')"
  by (induction rule: service_run.induct) (auto dest: respond_same intro: same_service_trans)

text \<open>What a handler answers, from the handler's state.\<close>


end
