(* ===== verification/AttestProps.thy ===== *)
theory AttestProps
  imports ApiService ApiProps
begin

text \<open>
  What the attester's side guarantees: the retries of the certificate service end and wait as
  they should, the reply of the quote service is read for what it says, evidence never carries
  an empty quote, and the service answers only for the platforms it is configured for.
\<close>

section \<open>Retries\<close>

text \<open>The loop run on a machine that keeps a log of the calls and the pauses.\<close>

datatype retry_event = Asked | Slept nat

definition traced :: "('m \<Rightarrow> 'r \<times> 'm) \<Rightarrow> 'm \<times> retry_event list \<Rightarrow> 'r \<times> 'm \<times> retry_event list" where
  "traced f = (\<lambda>(m, log). case f m of (r, m) \<Rightarrow> (r, m, log @ [Asked]))"

definition slept :: "(nat \<Rightarrow> 'm \<Rightarrow> 'm) \<Rightarrow> nat \<Rightarrow> 'm \<times> retry_event list \<Rightarrow> 'm \<times> retry_event list" where
  "slept pause d = (\<lambda>(m, log). (pause d m, log @ [Slept d]))"

lemma traced_slept [simp]:
  "traced f (m, es) = (case f m of (r, m) \<Rightarrow> (r, m, es @ [Asked]))" "slept pause d (m, es) = (pause d m, es @ [Slept d])"
  by (simp_all add: traced_def slept_def)

text \<open>The schedule of \<open>k\<close> retries: the pauses double.\<close>

fun backoff :: "nat \<Rightarrow> nat \<Rightarrow> retry_event list" where
  "backoff d 0 = [Asked]"
| "backoff d (Suc k) = Asked # Slept d # backoff (2 * d) k"

text \<open>Why the last call was the last.\<close>

definition last_call :: "('m \<Rightarrow> (attestation_error \<times> bool + 'a) \<times> 'm) \<Rightarrow> bool \<Rightarrow> 'a res \<Rightarrow> 'm \<Rightarrow> bool" where
  "last_call f spent r m' \<longleftrightarrow> (\<exists>m. case r of
       Inr v \<Rightarrow> f m = (Inr v, m')
     | Inl e \<Rightarrow> \<exists>retryable. f m = (Inl (e, retryable), m') \<and> (retryable \<longrightarrow> spent))"

lemma retry_loop_runs:
  assumes "n = unat attempts - unat attempt" "delay * 2 ^ n < DURATION_BOUND"
  shows "\<exists>r m' k. retry_loop (traced f) (slept pause) attempts delay attempt (m, es) = Some (r, m', es @ backoff delay k)
    \<and> retry_loop f pause attempts delay attempt m = Some (r, m') \<and> k \<le> n \<and> last_call f (k = n) r m'"
  using assms
proof (induction n arbitrary: attempt delay m es)
  case 0
  then have "attempts \<le> attempt" by (simp add: word_le_nat_alt)
  moreover obtain x m1 where f: "f m = (x, m1)" by fastforce
  moreover have "last_call f True r m1" if "f m = (Inl (e, b), m1) \<and> r = Inl e \<or> f m = (Inr v, m1) \<and> r = Inr v" for r e b v
    using that unfolding last_call_def by (intro exI [of _ m]) auto
  ultimately show ?case
    by (cases x) (auto simp: retry_loop.simps [of _ _ attempts delay attempt]  intro!: exI [of _ "0 :: nat"])
next
  case (Suc n)
  then have lt: "\<not> attempts \<le> attempt" by (simp add: word_le_nat_alt)
  then have "unat attempt < unat attempts" by (simp add: word_le_nat_alt)
  moreover from this have "unat (attempt + 1) = unat attempt + 1"
    using unat_lt [of attempts] by (simp add: unat_word_ariths)
  ultimately have n: "n = unat attempts - unat (attempt + 1)" using Suc.prems(1) by simp
  have d: "2 * delay * 2 ^ n < DURATION_BOUND" using Suc.prems(2) by (simp add: mult.commute mult.left_commute)
  moreover have "2 * delay \<le> 2 * delay * 2 ^ n" by simp
  ultimately have b: "2 * delay < DURATION_BOUND" by linarith
  obtain x m1 where f: "f m = (x, m1)" by fastforce
  consider (again) e where "x = Inl (e, True)" | (failed) e where "x = Inl (e, False)" | (found) v where "x = Inr v"
    by (metis (full_types) old.prod.exhaust sum.exhaust)
  then show ?case
  proof cases
    case again
    obtain r m' k where ih:
      "retry_loop (traced f) (slept pause) attempts (2 * delay) (attempt + 1) (pause delay m1, es @ [Asked, Slept delay])
         = Some (r, m', (es @ [Asked, Slept delay]) @ backoff (2 * delay) k)"
      "retry_loop f pause attempts (2 * delay) (attempt + 1) (pause delay m1) = Some (r, m')"
      "k \<le> n" "last_call f (k = n) r m'"
      using Suc.IH [OF n d, of "pause delay m1" "es @ [Asked, Slept delay]"] by (elim exE conjE)
    show ?thesis
      using ih lt b by (intro exI [of _ r] exI [of _ m'] exI [of _ "Suc k"])
        (simp add: retry_loop.simps [of _ _ attempts delay attempt] f again)
  next
    case failed
    have "last_call f False (Inl e) m1"
      using f failed unfolding last_call_def by (intro exI [of _ m]) auto
    then show ?thesis
      by (intro exI [of _ "Inl e"] exI [of _ m1] exI [of _ "0 :: nat"])
        (simp add: retry_loop.simps [of _ _ attempts delay attempt] f failed)
  next
    case found
    have "last_call f False (Inr v) m1"
      using f found unfolding last_call_def by (intro exI [of _ m]) auto
    then show ?thesis
      by (intro exI [of _ "Inr v"] exI [of _ m1] exI [of _ "0 :: nat"])
        (simp add: retry_loop.simps [of _ _ attempts delay attempt] f found)
  qed
qed

text \<open>C30: The request for the chip's certificate ends. Whatever the service answers, the loop
  returns; it asks at most the configured number of times and at least once, pauses after each
  failed try but the last with pauses that double, and returns the last answer, which is
  a success, an error trying again would not clear, or the error of the last try allowed. No pause
  overflows as long as the longest one has a representation.\<close>

theorem retry_returns:
  assumes "base * 2 ^ (unat attempts - 1) < DURATION_BOUND"
  shows "\<exists>r m' k. retry_transient (slept pause) attempts base (traced f) (m, []) = Some (r, m', backoff base k)
    \<and> retry_transient pause attempts base f m = Some (r, m')
    \<and> k \<le> unat attempts - 1 \<and> last_call f (k = unat attempts - 1) r m'"
  using retry_loop_runs [of "unat attempts - 1" attempts 1 base f pause m "[]"] assms
  by (simp add: retry_transient_def)

text \<open>The service's three tries, all answered with a fault of the server: two pauses.\<close>

theorem retry_returns_witness:
  "\<exists>r m' k. retry_transient (slept (\<lambda>_ m. m)) IMDS_ATTEMPTS IMDS_RETRY_DELAY
      (traced (\<lambda>m. (Inl (NoPlatformDetected, m < (5 :: nat)), Suc m))) (0, []) = Some (r :: unit res, m', backoff IMDS_RETRY_DELAY k)
    \<and> k \<le> 2"
  using retry_returns [of IMDS_RETRY_DELAY IMDS_ATTEMPTS "\<lambda>_ m. m" "\<lambda>m. (Inl (NoPlatformDetected, m < (5 :: nat)), Suc m)" 0]
  by (auto simp: IMDS_ATTEMPTS_def IMDS_RETRY_DELAY_def DURATION_BOUND_def)

section \<open>The quote service's reply\<close>

lemma u32_field:
  assumes "b = a + 4" "b \<le> length r" "n < 2 ^ 32"
  shows "unat (u32_from_le_bytes (slice r a b)) = n \<longleftrightarrow> slice r a b = le_bytes 4 n"
proof -
  have l: "length (slice r a b) = 4" using assms by simp
  show ?thesis
    using le_bytes_le_nat [of "slice r a b"] assms(3) l
    by (auto simp: unat_u32_from_le_bytes le_nat_le_bytes)
qed

lemma u32_field_eq:
  assumes "b = a + 4" "b \<le> length r"
  shows "u32_from_le_bytes (slice r a b) = w \<longleftrightarrow> slice r a b = le_bytes 4 (unat w)"
proof -
  have "unat w < 2 ^ 32" using unat_lt [of w] by simp
  from u32_field [OF assms this] show ?thesis by (simp add: word_unat_eq_iff)
qed

lemma u16_one:
  assumes "2 \<le> length r"
  shows "u16_from_le_bytes (slice r 0 2) = 1 \<longleftrightarrow> slice r 0 2 = le_bytes 2 1"
proof -
  have l: "length (slice r 0 2) = 2" using assms by simp
  have "u16_from_le_bytes (slice r 0 2) = 1 \<longleftrightarrow> le_nat (slice r 0 2) = 1"
    by (simp only: word_unat_eq_iff unat_u16_from_le_bytes [OF l]) simp
  also have "\<dots> \<longleftrightarrow> slice r 0 2 = le_bytes 2 1"
    using le_bytes_le_nat [of "slice r 0 2"] l by (auto simp: le_nat_le_bytes)
  finally show ?thesis .
qed

text \<open>The reply is read for exactly what its frame says.\<close>

lemma parse_qgs_iff:
  "parse_qgs_get_quote_response r = Inr q \<longleftrightarrow>
     24 \<le> length r \<and> length r < 2 ^ 32 \<and> slice r 0 2 = le_bytes 2 1 \<and> slice r 4 8 = le_bytes 4 1
     \<and> slice r 8 12 = le_bytes 4 (length r) \<and> slice r 12 16 = le_bytes 4 0
     \<and> (\<exists>n. slice r 16 20 = le_bytes 4 n \<and> n < 2 ^ 32 \<and> slice r 20 24 = le_bytes 4 (length q) \<and> length q < 2 ^ 32
         \<and> q \<noteq> [] \<and> 24 + n + length q \<le> length r \<and> q = slice r (24 + n) (24 + n + length q))"
proof (cases "24 \<le> length r")
  case True
  let ?n = "unat (u32_from_le_bytes (slice r 16 20))" and ?m = "unat (u32_from_le_bytes (slice r 20 24))"
  have b: "?n < 2 ^ 32" "?m < 2 ^ 32" "unat (u32_from_le_bytes (slice r 8 12)) < 2 ^ 32"
    using unat_lt [of "u32_from_le_bytes _"] by simp_all
  have t: "u32_from_le_bytes (slice r 4 8) = 1 \<longleftrightarrow> slice r 4 8 = le_bytes 4 1"
    "u32_from_le_bytes (slice r 12 16) = 0 \<longleftrightarrow> slice r 12 16 = le_bytes 4 0"
    using u32_field_eq [of 8 4 r 1] u32_field_eq [of 16 12 r 0] True by simp_all
  have n: "?n = n \<longleftrightarrow> slice r 16 20 = le_bytes 4 n" if "n < 2 ^ 32" for n
    using u32_field [OF _ _ that, of 20 16 r] True by simp
  have m: "?m = n \<longleftrightarrow> slice r 20 24 = le_bytes 4 n" if "n < 2 ^ 32" for n
    using u32_field [OF _ _ that, of 24 20 r] True by simp
  have l: "unat (u32_from_le_bytes (slice r 8 12)) = length r
      \<longleftrightarrow> length r < 2 ^ 32 \<and> slice r 8 12 = le_bytes 4 (length r)"
    using u32_field [of 12 8 r "length r"] True b(3) by auto
  have "parse_qgs_get_quote_response r = Inr q \<longleftrightarrow> u16_from_le_bytes (slice r 0 2) = 1
      \<and> u32_from_le_bytes (slice r 4 8) = 1 \<and> unat (u32_from_le_bytes (slice r 8 12)) = length r
      \<and> u32_from_le_bytes (slice r 12 16) = 0 \<and> ?m \<noteq> 0 \<and> 24 + ?n + ?m \<le> length r
      \<and> q = slice r (24 + ?n) (24 + ?n + ?m)"
    using True by (auto simp: parse_qgs_get_quote_response_def Let_def QGS_MSG_GET_QUOTE_RESP_def at_range_def
        get_range_def ok_or_Inr_iff simp del: slice_zero)
  also have "?m \<noteq> 0 \<and> 24 + ?n + ?m \<le> length r \<and> q = slice r (24 + ?n) (24 + ?n + ?m) \<longleftrightarrow>
      ?m = length q \<and> q \<noteq> [] \<and> 24 + ?n + length q \<le> length r \<and> q = slice r (24 + ?n) (24 + ?n + length q)"
  proof
    assume a: "?m \<noteq> 0 \<and> 24 + ?n + ?m \<le> length r \<and> q = slice r (24 + ?n) (24 + ?n + ?m)"
    then have "length (slice r (24 + ?n) (24 + ?n + ?m)) = ?m" by (subst length_slice) simp_all
    with a have len: "length q = ?m" by (simp only:)
    have "q \<noteq> []"
    proof
      assume "q = []"
      with len have "?m = 0" by (simp only: list.size)
      with a show False by blast
    qed
    with a show "?m = length q \<and> q \<noteq> [] \<and> 24 + ?n + length q \<le> length r \<and> q = slice r (24 + ?n) (24 + ?n + length q)"
      unfolding len by blast
  qed auto
  also have "(u16_from_le_bytes (slice r 0 2) = 1
      \<and> u32_from_le_bytes (slice r 4 8) = 1 \<and> unat (u32_from_le_bytes (slice r 8 12)) = length r
      \<and> u32_from_le_bytes (slice r 12 16) = 0 \<and> ?m = length q \<and> q \<noteq> [] \<and> 24 + ?n + length q \<le> length r
      \<and> q = slice r (24 + ?n) (24 + ?n + length q)) \<longleftrightarrow> slice r 0 2 = le_bytes 2 1 \<and> slice r 4 8 = le_bytes 4 1
      \<and> (length r < 2 ^ 32 \<and> slice r 8 12 = le_bytes 4 (length r)) \<and> slice r 12 16 = le_bytes 4 0
      \<and> (?m = length q \<and> q \<noteq> [] \<and> 24 + ?n + length q \<le> length r \<and> q = slice r (24 + ?n) (24 + ?n + length q))"
    using True unfolding t l by (subst u16_one) simp_all
  also have "\<dots> \<longleftrightarrow> slice r 0 2 = le_bytes 2 1 \<and> slice r 4 8 = le_bytes 4 1
      \<and> (length r < 2 ^ 32 \<and> slice r 8 12 = le_bytes 4 (length r)) \<and> slice r 12 16 = le_bytes 4 0
      \<and> (\<exists>n. ?n = n \<and> n < 2 ^ 32 \<and> ?m = length q \<and> length q < 2 ^ 32 \<and> q \<noteq> [] \<and> 24 + n + length q \<le> length r
           \<and> q = slice r (24 + n) (24 + n + length q))"
    using b by auto
  finally show ?thesis using n m True by (auto simp del: slice_zero)
next
  case False
  then show ?thesis by (simp add: parse_qgs_get_quote_response_def)
qed

lemma split_reply:
  assumes "24 + n + k \<le> length r"
  shows "r = slice r 0 2 @ slice r 2 4 @ slice r 4 8 @ slice r 8 12 @ slice r 12 16 @ slice r 16 20 @ slice r 20 24
    @ slice r 24 (24 + n) @ slice r (24 + n) (24 + n + k) @ drop (24 + n + k) r"
proof -
  have "r = slice r 0 (24 + n + k) @ drop (24 + n + k) r" by simp
  also have "slice r 0 (24 + n + k) = slice r 0 24 @ slice r 24 (24 + n) @ slice r (24 + n) (24 + n + k)"
    using slice_split [of 0 24 "24 + n + k" r] slice_split [of 24 "24 + n" "24 + n + k" r] by simp
  also have "slice r 0 24 = slice r 0 2 @ slice r 2 4 @ slice r 4 8 @ slice r 8 12 @ slice r 12 16 @ slice r 16 20 @ slice r 20 24"
    using slice_split [of 0 2 24 r] slice_split [of 2 4 24 r] slice_split [of 4 8 24 r] slice_split [of 8 12 24 r]
      slice_split [of 12 16 24 r] slice_split [of 16 20 24 r] by (simp del: slice_zero)
  finally show ?thesis by simp
qed

lemma parse_qgs_not_panic [panic_free]: "parse_qgs_get_quote_response r \<noteq> Inl Panicked"
  by (auto simp: parse_qgs_get_quote_response_def Let_def at_range_def get_range_def)

lemma parse_dstack_response_not_panic [panic_free]: "parse_dstack_response G r \<noteq> Inl Panicked"
  by (auto simp: parse_dstack_response_def decode_quote_hex_def err_simps)

text \<open>A reply as the service frames it: a header of version 1 for a quote, with the message's
  own size and no error, then the sizes of an identifier and of the quote, and both.\<close>

definition qgs_reply :: "bytes \<Rightarrow> bytes \<Rightarrow> bytes \<Rightarrow> bytes \<Rightarrow> bytes \<Rightarrow> bool" where
  "qgs_reply r minor sel q rest \<longleftrightarrow> length minor = 2 \<and> length r < 2 ^ 32
     \<and> r = le_bytes 2 1 @ minor @ le_bytes 4 1 @ le_bytes 4 (length r) @ le_bytes 4 0
         @ le_bytes 4 (length sel) @ le_bytes 4 (length q) @ sel @ q @ rest"

text \<open>C29: The quote taken from a reply of the quote service is the one the reply frames: a
  reply is accepted exactly when it is a message of version 1 and of the quote type, with its own
  size and no error, whose body holds an identifier and a quote that is not empty; the quote is
  then what is returned. Any other reply is an error, whatever sizes it claims.\<close>

theorem quote_is_what_the_reply_frames:
  "(parse_qgs_get_quote_response r = Inr q \<longleftrightarrow> q \<noteq> [] \<and> (\<exists>minor sel rest. qgs_reply r minor sel q rest))
   \<and> (parse_qgs_get_quote_response r \<noteq> Inl Panicked)"
proof
  show "parse_qgs_get_quote_response r = Inr q \<longleftrightarrow> q \<noteq> [] \<and> (\<exists>minor sel rest. qgs_reply r minor sel q rest)"
  proof
    assume "parse_qgs_get_quote_response r = Inr q"
    then obtain n where h: "24 \<le> length r" "length r < 2 ^ 32" "slice r 0 2 = le_bytes 2 1" "slice r 4 8 = le_bytes 4 1"
      "slice r 8 12 = le_bytes 4 (length r)" "slice r 12 16 = le_bytes 4 0" "slice r 16 20 = le_bytes 4 n"
      "slice r 20 24 = le_bytes 4 (length q)" "q \<noteq> []" "24 + n + length q \<le> length r"
      "slice r (24 + n) (24 + n + length q) = q"
      unfolding parse_qgs_iff by (elim exE conjE) (rule that, assumption+, simp)
    have "length (slice r 24 (24 + n)) = n" using h(10) by simp
    then have "qgs_reply r (slice r 2 4) (slice r 24 (24 + n)) q (drop (24 + n + length q) r)"
      using split_reply [OF h(10)] h(1,2) unfolding qgs_reply_def h(3-8,11) by simp
    with h(9) show "q \<noteq> [] \<and> (\<exists>minor sel rest. qgs_reply r minor sel q rest)" by blast
  next
    assume "q \<noteq> [] \<and> (\<exists>minor sel rest. qgs_reply r minor sel q rest)"
    then obtain minor sel rest where q: "q \<noteq> []" and len: "length minor = 2" "length r < 2 ^ 32"
      and r: "r = le_bytes 2 1 @ minor @ le_bytes 4 1 @ le_bytes 4 (length r) @ le_bytes 4 0
         @ le_bytes 4 (length sel) @ le_bytes 4 (length q) @ sel @ q @ rest"
      unfolding qgs_reply_def by blast
    define size where "size = length r"
    with r have r: "r = le_bytes 2 1 @ minor @ le_bytes 4 1 @ le_bytes 4 size @ le_bytes 4 0
         @ le_bytes 4 (length sel) @ le_bytes 4 (length q) @ sel @ q @ rest" by simp
    have l: "length r = 24 + length sel + length q + length rest" using len(1) by (subst r) simp
    have f: "slice r 0 2 = le_bytes 2 1" "slice r 4 8 = le_bytes 4 1" "slice r 8 12 = le_bytes 4 size"
      "slice r 12 16 = le_bytes 4 0" "slice r 16 20 = le_bytes 4 (length sel)" "slice r 20 24 = le_bytes 4 (length q)"
      "slice r (24 + length sel) (24 + length sel + length q) = q"
      by (subst r, simp add: slice_def len(1))+
    show "parse_qgs_get_quote_response r = Inr q"
      unfolding parse_qgs_iff using f len(2) l q by (auto simp: size_def intro!: exI [of _ "length sel"])
  qed
  show "parse_qgs_get_quote_response r \<noteq> Inl Panicked" by (rule parse_qgs_not_panic)
qed

section \<open>The service\<close>

text \<open>What an answer says, given the configuration the service started with and the platform it
  found.\<close>

definition answered_soundly ::
  "'tk issuer_lib \<Rightarrow> hash_lib \<Rightarrow> 'tk app_state \<Rightarrow> bytes option \<times> api_call \<times> api_answer \<Rightarrow> bool" where
  "answered_soundly L H st = (\<lambda>(header, call, ans).
     (\<forall>a. ans = AnswerAttest a \<longrightarrow> at_enabled (ac_attestation (sa_config st))
        \<and> ar_platform a \<in> set (List.map_filter normalize_platform (at_platforms (ac_attestation (sa_config st)))))
     \<and> (\<forall>n. ans = AnswerPlatform n \<longrightarrow> (\<exists>p. sa_detected st = Some (Some p) \<and> n = platform_name p))
     \<and> (\<forall>h. ans = AnswerHealth h \<longrightarrow> (\<exists>d. sa_detected st = Some d \<and> hs_platform h = map_option platform_name d))
     \<and> (\<forall>v t. ans = AnswerVerify v \<longrightarrow> vp_token v = Some t \<longrightarrow> passed (vp_result v)
          \<and> (\<exists>ti now jti po. sa_issuer st = Some ti \<and> issue L ti now jti (vp_result v) po = Inr t))
     \<and> (\<forall>j. ans = AnswerJwks j \<longrightarrow> (\<exists>ti. sa_issuer st = Some ti \<and> ti_jwks ti = j))
     \<and> (au_api_keys (ac_auth (sa_config st)) \<noteq> [] \<longrightarrow> call \<noteq> CallHealth \<longrightarrow> (\<forall>e. ans \<noteq> AnswerError e) \<longrightarrow>
          (\<exists>v key. header = Some v \<and> header_str v = Some (''Bearer '' @ key)
             \<and> (\<exists>k \<in> set (au_api_keys (ac_auth (sa_config st))). sha256 H (str_bytes k) = sha256 H (str_bytes key)))))"

lemma answered_soundly_mono:
  "same_service st st' \<Longrightarrow> answered_soundly L H st x \<Longrightarrow> answered_soundly L H st' x"
  unfolding answered_soundly_def same_service_def by (cases x) auto

lemma answer_or_error_Inr:
  assumes "answer_or_error f r = a" "\<And>e. a \<noteq> AnswerError e"
  obtains x where "r = Inr x" "a = f x"
  using assms by (cases r) (auto simp: answer_or_error_def)

lemma attest_handler_Inr:
  assumes "attest_handler E A M req st p w = (Inr a, st', p', w')"
  obtains rd platform st1 b b' c envelope where
    "check_attest_request E A req st = (Inr (rd, platform), st1)"
    "generate_evidence_bytes E A M (aq_nvidia_gpu req) platform rd (attest_options (ac_attestation (sa_config st1))) p = (Inr b, p')"
    "with_collateral (ae_libs E) b rd (sa_ctx st1) w = (b', c, w')"
    "ah_value A b' = Some envelope" "a = split_envelope platform envelope"
proof -
  obtain q st1 where c: "check_attest_request E A req st = (q, st1)" by (rule prod.exhaust)
  obtain rd platform where q: "q = Inr (rd, platform)"
    using assms c by (cases q) (auto simp: attest_handler_def)
  obtain g p1 where g: "generate_evidence_bytes E A M (aq_nvidia_gpu req) platform rd
      (attest_options (ac_attestation (sa_config st1))) p = (g, p1)" by (rule prod.exhaust)
  obtain b where b: "g = Inr b" using assms c q g by (cases g) (auto simp: attest_handler_def)
  obtain b' c' w1 where w: "with_collateral (ae_libs E) b rd (sa_ctx st1) w = (b', c', w1)" by (rule prod_cases3)
  have "p1 = p'" "w1 = w'" "\<exists>envelope. ah_value A b' = Some envelope \<and> a = split_envelope platform envelope"
    using assms by (auto simp: attest_handler_def c q g b w and_then_Inr_iff ok_or_Inr_iff)
  with that c q g b w show ?thesis by blast
qed

lemma attest_answer_allowed:
  assumes "attest_handler E A M req st p w = (Inr a, st', p', w')"
  shows "at_enabled (ac_attestation (sa_config st))"
    "ar_platform a \<in> set (List.map_filter normalize_platform (at_platforms (ac_attestation (sa_config st))))"
proof -
  obtain rd platform st1 where c: "check_attest_request E A req st = (Inr (rd, platform), st1)"
    and a: "ar_platform a = platform_name platform"
    by (rule attest_handler_Inr [OF assms]) (simp add: split_envelope_def case_prod_beta Let_def)
  show "at_enabled (ac_attestation (sa_config st))"
    using c by (auto simp: check_attest_request_def split: if_splits)
  obtain rd' where "resolve_platform E (aq_platform req) st = (Inr platform, st1)"
    and e: "ensure_platform_allowed (at_platforms (ac_attestation (sa_config st1))) platform = Inr ()"
    using c by (auto simp: check_attest_request_def split: if_splits sum.splits prod.splits)
      (auto simp: map_sum_def split: sum.splits)
  then have "same_service st st1" using resolve_same [of st E "aq_platform req"] by simp
  with e show "ar_platform a \<in> set (List.map_filter normalize_platform (at_platforms (ac_attestation (sa_config st))))"
    by (auto simp: a ensure_platform_allowed_def same_service_def split: if_splits)
qed

lemma verify_answer_token:
  assumes "verify_handler E st payload w = (Inr v, st', w')" "vp_token v = Some t"
  shows "passed (vp_result v)
    \<and> (\<exists>ti now jti po. sa_issuer st = Some ti \<and> issue (ae_issuer E) ti now jti (vp_result v) po = Inr t)"
proof -
  obtain req where "token_of (ae_issuer E) (sa_issuer st) (ae_unix E w') (ae_uuid E w') req (vp_result v) = Inr (vp_token v)"
    using verify_handler_Inr [OF assms(1)] by blast
  from token_of_Inr [OF this] assms(2) show ?thesis by auto
qed

lemma route_guard_key:
  "route_guard H c path header = Inr () \<Longrightarrow> au_api_keys c \<noteq> [] \<Longrightarrow> path \<noteq> ''/health'' \<Longrightarrow>
     \<exists>v key. header = Some v \<and> header_str v = Some (''Bearer '' @ key) \<and> (\<exists>k \<in> set (au_api_keys c). sha256 H (str_bytes k) = sha256 H (str_bytes key))"
  by (simp add: route_guard_def api_key_auth_Inr_iff verify_api_key_iff)

lemma dispatch_sound:
  assumes r: "dispatch E A M entries call s = (ans, s')"
    and key: "au_api_keys (ac_auth (sa_config (ss_app s))) \<noteq> [] \<Longrightarrow> call \<noteq> CallHealth \<Longrightarrow>
      \<exists>v key. header = Some v \<and> header_str v = Some (''Bearer '' @ key)
        \<and> (\<exists>k \<in> set (au_api_keys (ac_auth (sa_config (ss_app s)))). sha256 H (str_bytes k) = sha256 H (str_bytes key))"
  shows "answered_soundly (ae_issuer E) H (ss_app s') (header, call, ans)"
proof -
  have same: "same_service (ss_app s) (ss_app s')" using dispatch_same [of s E A M entries call] r by simp
  then have c: "sa_config (ss_app s') = sa_config (ss_app s)" "sa_issuer (ss_app s') = sa_issuer (ss_app s)"
    by (simp_all add: same_service_def)
  from key have k: "au_api_keys (ac_auth (sa_config (ss_app s))) \<noteq> [] \<longrightarrow> call \<noteq> CallHealth \<longrightarrow>
      (\<exists>v key. header = Some v \<and> header_str v = Some (''Bearer '' @ key)
        \<and> (\<exists>k \<in> set (au_api_keys (ac_auth (sa_config (ss_app s)))). sha256 H (str_bytes k) = sha256 H (str_bytes key)))" by blast
  show ?thesis
  proof (cases call)
    case CallHealth
    obtain q st where d: "detect_platform E (ss_app s) = (q, st)" by fastforce
    from detect_platform_cases(2) [OF d] obtain y where y: "sa_detected st = Some y" "q = ok_or NoPlatform y" by blast
    have "to_option q = y" using y(2) by (cases y) (simp_all add: ok_or_def)
    with CallHealth r d y(1) show ?thesis by (auto simp: answered_soundly_def health_handler_def)
  next
    case CallPlatform
    obtain q st where d: "detect_platform E (ss_app s) = (q, st)" by fastforce
    from detect_platform_cases(2) [OF d] obtain y where y: "sa_detected st = Some y" "q = ok_or NoPlatform y" by blast
    with CallPlatform r d key c show ?thesis
      by (cases y) (auto simp: answered_soundly_def platform_handler_def answer_or_error_def ok_or_def)
  next
    case (CallAttest req)
    obtain q st p w where h: "attest_handler E A M req (ss_app s) (ss_machine s) (ss_world s) = (q, st, p, w)"
      by (rule prod_cases4)
    with CallAttest r key c attest_answer_allowed [of E A M req "ss_app s" "ss_machine s" "ss_world s"] show ?thesis
      by (cases q) (auto simp: answered_soundly_def answer_or_error_def)
  next
    case (CallVerify payload)
    obtain q st w where h: "verify_handler E (ss_app s) payload (ss_world s) = (q, st, w)"
      by (rule prod_cases3)
    with CallVerify r key c verify_answer_token [of E "ss_app s" payload "ss_world s"] show ?thesis
      by (cases q) (fastforce simp: answered_soundly_def answer_or_error_def)+
  next
    case CallJwks
    with r have e: "s' = s" "ans = answer_or_error AnswerJwks (jwks_handler (ss_app s))" by auto
    show ?thesis
      using k CallJwks by (cases "sa_issuer (ss_app s)")
        (simp_all add: e answered_soundly_def answer_or_error_def jwks_handler_def ok_or_def)
  qed
qed

lemma respond_sound:
  assumes r: "respond E H A M entries header call s = (ans, s')"
  shows "answered_soundly (ae_issuer E) H (ss_app s') (header, call, ans)"
proof (cases "route_guard H (ac_auth (sa_config (ss_app s))) (route_path call) header")
  case (Inl e)
  with r show ?thesis by (auto simp: respond_def answered_soundly_def)
next
  case (Inr u)
  have "route_path call \<noteq> ''/health''" if "call \<noteq> CallHealth" using that by (cases call) simp_all
  with Inr r show ?thesis by (auto simp: respond_def dest!: route_guard_key intro!: dispatch_sound)
qed

lemma service_run_sound:
  "service_run E H A M entries s tr s' \<Longrightarrow> \<forall>x \<in> set tr. answered_soundly (ae_issuer E) H (ss_app s') x"
proof (induction rule: service_run.induct)
  case (run_step tr s1 header call ans s2)
  have "same_service (ss_app s1) (ss_app s2)" using run_step.hyps by (auto dest: respond_same)
  with run_step.IH have "\<forall>x \<in> set tr. answered_soundly (ae_issuer E) H (ss_app s2) x" by (blast intro: answered_soundly_mono)
  with respond_sound [OF run_step.hyps(2)] show ?case by simp
qed simp

lemma start_server_Inr:
  assumes "start_server S L path = Inr st"
  shows "startup_config S path = Inr (sa_config st)" "sa_issuer st \<noteq> None \<longleftrightarrow> tk_enabled (ac_token (sa_config st))"
    "sa_detected st = None"
  using assms by (auto simp: start_server_def token_issuer_of_def Let_def and_then_Inr_iff map_err_Inr_iff split: if_splits)

lemma startup_config_valid:
  "startup_config S path = Inr config \<Longrightarrow> validate_config (su_socket_addr S) config = Inr ()"
  by (auto simp: startup_config_def and_then_Inr_iff map_err_Inr_iff)

lemma valid_platforms:
  "validate_config ok config = Inr () \<Longrightarrow> p \<in> set (at_platforms (ac_attestation config)) \<Longrightarrow> normalize_platform p \<noteq> None"
  by (auto simp: validate_config_def list_ex_iff split: if_splits)

text \<open>C18: A server runs as it was configured. Whatever requests a process answers, in whatever
  order: the configuration is the one read and found valid at the start, and so is the key, which is
  there exactly when tokens are enabled, signs every token and is the one published; evidence is
  generated only when enabled and only for a platform the configuration lists; the platform is found
  once, every answer names that one, and it is one the service supports; a token goes only with a
  passing verdict; and when keys are configured, every request but for health that gets more than an
  error carried one, or one with the SHA-256 hash of one.\<close>

theorem service_answers_as_configured:
  assumes "start_server S L path = Inr st" "service_run E H A M entries s tr s'" "ss_app s = st"
  shows "startup_config S path = Inr (sa_config (ss_app s'))
    \<and> sa_config (ss_app s') = sa_config st \<and> sa_issuer (ss_app s') = sa_issuer st
    \<and> (\<forall>p \<in> set (at_platforms (ac_attestation (sa_config (ss_app s')))). normalize_platform p \<noteq> None)
    \<and> (sa_issuer (ss_app s') \<noteq> None \<longleftrightarrow> tk_enabled (ac_token (sa_config (ss_app s'))))
    \<and> (\<forall>p. sa_detected (ss_app s') = Some (Some p) \<longrightarrow> normalize_platform (platform_name p) \<noteq> None)
    \<and> (\<forall>x \<in> set tr. answered_soundly (ae_issuer E) H (ss_app s') x)"
proof -
  note st = start_server_Inr [OF assms(1)]
  have same: "same_service st (ss_app s')" using service_run_same [OF assms(2)] assms(3) by simp
  then have c: "sa_config (ss_app s') = sa_config st" "sa_issuer (ss_app s') = sa_issuer st"
    by (simp_all add: same_service_def)
  have "detected_ok st" using st(3) by (simp add: detected_ok_def)
  then have "detected_ok (ss_app s')" using same by (simp add: same_service_def)
  moreover have "\<forall>p \<in> set (at_platforms (ac_attestation (sa_config st))). normalize_platform p \<noteq> None"
    using valid_platforms [OF startup_config_valid [OF st(1)]] by blast
  ultimately show ?thesis
    using st(1,2) service_run_sound [OF assms(2)] unfolding c detected_ok_def by blast
qed

end
