(* ===== verification/AttestRoundtrip.thy ===== *)
theory AttestRoundtrip
  imports AttestProps
begin

text \<open>
  From \<open>/attest\<close> to \<open>/verify\<close>: the answer of the one, sent to the other as it is, is read as the
  very envelope that was made, with the collateral that was attached.
\<close>

section \<open>What is generated\<close>

text \<open>No platform's evidence could be taken for an envelope.\<close>

lemma generated_not_envelope:
  assumes "generate_value M G platform rd method m = (Inr v, m')"
  shows "\<not> is_attestation_envelope v"
proof -
  have "json_get ''platform'' v = None"
    using assms
    by (cases platform)
       (auto simp: generate_value_def act_simps snp_evidence_json_def tdx_evidence_json_def az_snp_evidence_json_def
         az_tdx_evidence_json_def dstack_evidence_json_def json_obj_def opt_member_def split: option.splits)
  then show ?thesis by (simp add: is_attestation_envelope_def)
qed

text \<open>A bundle holds at least one device, under the binding asked for.\<close>

lemma traverse_length: "traverse f xs = Inr ys \<Longrightarrow> length ys = length xs"
  by (induction xs arbitrary: ys) (auto simp: and_then_Inr_iff)

lemma kept_state_Inr: "(case a of (r, m) \<Rightarrow> (r, i, m)) = (Inr y, p) \<longleftrightarrow> (\<exists>m. a = (Inr y, m) \<and> p = (i, m))"
  by (auto split: prod.splits)

lemma collect_bundle_devices:
  assumes "collect_bundle M N rd binding p = (Inr gb, p')"
  shows "gb_binding gb = binding" "gb_devices gb \<noteq> []" "sorted (map gd_uuid (gb_devices gb))"
proof -
  obtain entries devices where "entries \<noteq> []" "traverse (sdk_entry_to_device N) entries = Inr devices"
    "gb = \<lparr>gb_devices = sort_key gd_uuid devices, gb_binding = binding\<rparr>"
    using assms
    by (auto simp: collect_bundle_def act_simps kept_state_Inr Let_def and_then_Inr_iff simp del: append_is_Nil_conv
      split: if_split_asm)
  then have "gb_binding gb = binding" "length (gb_devices gb) = length entries" "entries \<noteq> []"
    "sorted (map gd_uuid (gb_devices gb))"
    by (simp_all add: traverse_length)
  then show "gb_binding gb = binding" "gb_devices gb \<noteq> []" "sorted (map gd_uuid (gb_devices gb))" by auto
qed

text \<open>What attesting with GPUs writes.\<close>

lemma attest_gpu_envelope:
  assumes g: "attest_with_nvidia_gpu M G N to_vec from_slice platform rd method p = (Inr b, p')"
    and wire: "\<And>env b. to_vec env = Some b \<Longrightarrow> from_slice b = Some env"
  obtains v gb m' where
    "to_vec \<lparr>ev_platform = platform, ev_evidence = v, ev_nvidia_gpu = Some gb, ev_collateral = []\<rparr> = Some b"
    "generate_value M G platform rd method (snd p) = (Inr v, m')" "check_user_nonce_len rd = Inr ()"
    "gb_binding gb = default_binding" "gb_devices gb \<noteq> []" "sorted (map gd_uuid (gb_devices gb))"
proof -
  obtain s m where p: "p = (s, m)" by (rule prod.exhaust)
  from g obtain env b1 p1 gb p2 where n: "check_user_nonce_len rd = Inr ()"
    and a: "lift_act (attest M G to_vec platform rd method) (s, m) = (Inr b1, p1)"
    and e: "from_slice b1 = Some env"
    and c: "collect_bundle M N rd default_binding p1 = (Inr gb, p2)"
    and b: "to_vec (env\<lparr>ev_nvidia_gpu := Some gb\<rparr>) = Some b"
    by (auto simp: attest_with_nvidia_gpu_def act_simps ok_or_Inr_iff p)
  from a obtain m1 where "attest M G to_vec platform rd method m = (Inr b1, m1)"
    by (auto simp: lift_act_def split: prod.splits)
  then obtain v where v: "generate_value M G platform rd method m = (Inr v, m1)"
    "to_vec \<lparr>ev_platform = platform, ev_evidence = v, ev_nvidia_gpu = None, ev_collateral = []\<rparr> = Some b1"
    by (auto simp: attest_def act_simps ok_or_Inr_iff)
  from wire [OF v(2)] e have env: "env = \<lparr>ev_platform = platform, ev_evidence = v, ev_nvidia_gpu = None, ev_collateral = []\<rparr>"
    by simp
  show ?thesis
    by (rule that [of v gb m1]) (use v(1) n b collect_bundle_devices [OF c] in \<open>simp_all add: env p\<close>)
qed

text \<open>The envelope in what is generated, for a reader that reads what the writer writes.\<close>

lemma generated_envelope:
  assumes g: "generate_evidence_bytes E A M nvidia_gpu platform rd method p = (Inr b, p')"
    and wire: "\<And>env b. vf_envelope_bytes (ae_libs E) env = Some b \<Longrightarrow> vf_envelope (ae_libs E) b = Some env"
  obtains env m' where "vf_envelope_bytes (ae_libs E) env = Some b" "ev_platform env = platform" "ev_collateral env = []"
    "generate_value M (ah_gen A) platform rd method (snd p) = (Inr (ev_evidence env), m')"
    "nvidia_gpu \<longleftrightarrow> ev_nvidia_gpu env \<noteq> None"
    "\<forall>gb. ev_nvidia_gpu env = Some gb \<longrightarrow> check_user_nonce_len rd = Inr () \<and> gb_binding gb = default_binding
       \<and> gb_devices gb \<noteq> []"
proof (cases nvidia_gpu)
  case False
  obtain s m where p: "p = (s, m)" by (rule prod.exhaust)
  from g False obtain m1 where "attest M (ah_gen A) (vf_envelope_bytes (ae_libs E)) platform rd method m = (Inr b, m1)"
    by (auto simp: generate_evidence_bytes_def lift_act_def p split: prod.splits)
  then obtain v where "generate_value M (ah_gen A) platform rd method m = (Inr v, m1)"
    "vf_envelope_bytes (ae_libs E) \<lparr>ev_platform = platform, ev_evidence = v, ev_nvidia_gpu = None, ev_collateral = []\<rparr> = Some b"
    by (auto simp: attest_def act_simps ok_or_Inr_iff)
  with False show ?thesis
    by (intro that [of "\<lparr>ev_platform = platform, ev_evidence = v, ev_nvidia_gpu = None, ev_collateral = []\<rparr>" m1])
      (simp_all add: p)
next
  case True
  with g have "attest_with_nvidia_gpu M (ah_gen A) (ah_nvat A) (vf_envelope_bytes (ae_libs E)) (vf_envelope (ae_libs E))
      platform rd method p = (Inr b, p')"
    by (simp add: generate_evidence_bytes_def)
  from attest_gpu_envelope [OF this wire] obtain v gb m' where
    "vf_envelope_bytes (ae_libs E) \<lparr>ev_platform = platform, ev_evidence = v, ev_nvidia_gpu = Some gb, ev_collateral = []\<rparr> = Some b"
    "generate_value M (ah_gen A) platform rd method (snd p) = (Inr v, m')" "check_user_nonce_len rd = Inr ()"
    "gb_binding gb = default_binding" "gb_devices gb \<noteq> []" by metis
  with True show ?thesis
    by (intro that [of "\<lparr>ev_platform = platform, ev_evidence = v, ev_nvidia_gpu = Some gb, ev_collateral = []\<rparr>" m']) simp_all
qed

text \<open>Attaching changes the collateral only, and what cannot be attached to stays.\<close>

lemma with_collateral_envelope:
  assumes w: "with_collateral V b rd c w = (b', c', w')" and b: "vf_envelope_bytes V env = Some b"
    and wire: "\<And>env b. vf_envelope_bytes V env = Some b \<Longrightarrow> vf_envelope V b = Some env"
  obtains env' where "vf_envelope_bytes V env' = Some b'"
    "case fst (attach_collateral V b rd c w) of
       Inl _ \<Rightarrow> env' = env
     | Inr _ \<Rightarrow> \<exists>us. env' = attach (vf_pem V) (vf_root V) us env"
proof -
  obtain r c1 w1 where a: "attach_collateral V b rd c w = (r, c1, w1)" by (rule prod_cases3)
  show ?thesis
  proof (cases r)
    case (Inl e)
    with w a have "b' = b" by (simp add: with_collateral_def)
    with b show ?thesis by (intro that [of env]) (simp_all add: a Inl)
  next
    case (Inr x)
    with w a have x: "b' = x" by (simp add: with_collateral_def)
    obtain us where "vf_envelope_bytes V (attach (vf_pem V) (vf_root V) us env) = Some x"
      using a wire [OF b]
      by (auto simp: Inr attach_collateral_def parse_envelope_def keep_def and_then_Inr_iff ok_or_Inr_iff
          case_prod_beta Let_def split: if_splits)
    with x show ?thesis
      by (intro that [of "attach (vf_pem V) (vf_root V) us env"]) (auto simp: a Inr)
  qed
qed

text \<open>The envelope read back is the one made in everything but the collateral.\<close>

lemma attached_fields:
  assumes "case (q :: bytes res) of Inl _ \<Rightarrow> env' = env | Inr _ \<Rightarrow> \<exists>us. env' = attach pl rt us env"
  shows "ev_platform env' = ev_platform env" "ev_evidence env' = ev_evidence env" "ev_nvidia_gpu env' = ev_nvidia_gpu env"
  using assms by (auto simp: attach_def Let_def split: sum.splits)

text \<open>Taking an envelope apart and putting it together again.\<close>

lemma split_then_build:
  assumes "\<not> is_attestation_envelope (ev_evidence env)"
    and a: "a = split_envelope (ev_platform env) (envelope_json bj cj env)"
  shows "ar_platform a = platform_name (ev_platform env)"
    and "build_evidence_envelope to_vec (ar_platform a) (ar_evidence a) (ar_nvidia_gpu a) (ar_collateral a)
      = ok_or (BadRequest ''invalid evidence JSON'') (to_vec (envelope_json bj cj env))"
proof -
  obtain p v g col where env: "env = \<lparr>ev_platform = p, ev_evidence = v, ev_nvidia_gpu = g, ev_collateral = col\<rparr>"
    by (cases env)
  have "ar_platform a = platform_name p \<and> ar_evidence a = v \<and> ar_nvidia_gpu a = map_option bj g
      \<and> ar_collateral a = (if col = [] then None else Some (cj col))"
    by (cases g; cases col) (simp_all add: a env split_envelope_def envelope_json_def json_obj_def object_remove_def)
  then have f: "ar_platform a = platform_name p" "ar_evidence a = v" "ar_nvidia_gpu a = map_option bj g"
    "ar_collateral a = (if col = [] then None else Some (cj col))" by simp_all
  show "ar_platform a = platform_name (ev_platform env)" by (simp add: f env)
  show "build_evidence_envelope to_vec (ar_platform a) (ar_evidence a) (ar_nvidia_gpu a) (ar_collateral a)
      = ok_or (BadRequest ''invalid evidence JSON'') (to_vec (envelope_json bj cj env))"
    using assms(1) unfolding f
    by (cases g; cases col) (simp_all add: env build_evidence_envelope_def envelope_json_def json_obj_def object_set_def)
qed

lemma canonical_of_supported:
  assumes "normalize_platform n = Some (platform_name p)"
  shows "canonical_platform (Some (platform_name p)) = Inr p"
proof -
  have all: "\<forall>q \<in> set [Tdx, Snp, AzTdx, AzSnp, GcpSnp, GcpTdx]. canonical_platform (Some (platform_name q)) = Inr q"
    by code_simp
  have "platform_name p \<in> set SUPPORTED_ATTESTATION_PLATFORMS" using assms by (simp add: normalize_platform_Some)
  moreover have "platform_name Dstack \<notin> set SUPPORTED_ATTESTATION_PLATFORMS" by code_simp
  ultimately show ?thesis using all by (cases p) auto
qed

lemma attest_request_checked:
  assumes "check_attest_request E A req st = (Inr (rd, platform), st1)"
  shows "\<exists>n \<in> set (at_platforms (ac_attestation (sa_config st1))). normalize_platform n = Some (platform_name platform)"
    and "(case aq_report_data req of Some b64 \<Rightarrow> ah_base64 A b64 = Some rd | None \<Rightarrow> rd = [])"
proof -
  obtain r where "ensure_platform_allowed (at_platforms (ac_attestation (sa_config st1))) platform = Inr r"
    and d: "(case aq_report_data req of Some b64 \<Rightarrow> ok_or (BadRequest ''invalid base64 report_data'') (ah_base64 A b64)
                  | None \<Rightarrow> Inr []) = Inr rd"
    using assms by (auto simp: check_attest_request_def split: if_splits sum.splits prod.splits)
      (auto simp: map_sum_def split: sum.splits)
  then show "\<exists>n \<in> set (at_platforms (ac_attestation (sa_config st1))). normalize_platform n = Some (platform_name platform)"
    by (auto simp: ensure_platform_allowed_def List.map_filter_def split: if_splits)
  show "(case aq_report_data req of Some b64 \<Rightarrow> ah_base64 A b64 = Some rd | None \<Rightarrow> rd = [])"
    using d by (auto simp: ok_or_Inr_iff split: option.splits)
qed

text \<open>C19: What \<open>/attest\<close> answers round-trips through \<open>/verify\<close> unchanged: the platform, the
  evidence, the GPU bundle and the collateral of an answer, sent back as they are, name a
  platform \<open>/verify\<close> knows and are read as the very envelope that was made: the one in the generated
  bytes with the collateral attached to it, or just that one where collateral cannot be had. It is
  for the platform asked for or detected, holds the evidence generated for the report data asked for,
  and a GPU bundle of at least one device exactly when it was asked for. This is for a writer of JSON
  whose text its reader reads back.\<close>

theorem attest_answer_is_verified_as_made:
  assumes h: "attest_handler E A M req st p w = (Inr a, st', p', w')"
    and env_text: "\<And>env b. vf_envelope_bytes (ae_libs E) env = Some b
      \<Longrightarrow> vf_envelope (ae_libs E) b = Some env \<and> ah_value A b = Some (envelope_json bj cj env)"
    and value_text: "\<And>j b. ah_value A b = Some j
      \<Longrightarrow> \<exists>b'. il_to_vec (ae_issuer E) j = Some b' \<and> vf_envelope (ae_libs E) b' = vf_envelope (ae_libs E) b"
  shows "\<exists>rd platform st1 made b0 b1 c env b m'. check_attest_request E A req st = (Inr (rd, platform), st1)
    \<and> (case aq_report_data req of Some b64 \<Rightarrow> ah_base64 A b64 = Some rd | None \<Rightarrow> rd = [])
    \<and> generate_evidence_bytes E A M (aq_nvidia_gpu req) platform rd (attest_options (ac_attestation (sa_config st1))) p = (Inr b0, p')
    \<and> vf_envelope (ae_libs E) b0 = Some made \<and> ev_platform made = platform \<and> ev_collateral made = []
    \<and> generate_value M (ah_gen A) platform rd (attest_options (ac_attestation (sa_config st1))) (snd p) = (Inr (ev_evidence made), m')
    \<and> (aq_nvidia_gpu req \<longleftrightarrow> ev_nvidia_gpu made \<noteq> None)
    \<and> (\<forall>g. ev_nvidia_gpu made = Some g \<longrightarrow> gb_devices g \<noteq> [] \<and> check_user_nonce_len rd = Inr ())
    \<and> with_collateral (ae_libs E) b0 rd (sa_ctx st1) w = (b1, c, w') \<and> vf_envelope (ae_libs E) b1 = Some env
    \<and> (case fst (attach_collateral (ae_libs E) b0 rd (sa_ctx st1) w) of
         Inl _ \<Rightarrow> env = made
       | Inr _ \<Rightarrow> \<exists>us. env = attach (vf_pem (ae_libs E)) (vf_root (ae_libs E)) us made)
    \<and> canonical_platform (Some (ar_platform a)) = Inr platform
    \<and> build_evidence_envelope (il_to_vec (ae_issuer E)) (ar_platform a) (ar_evidence a) (ar_nvidia_gpu a) (ar_collateral a) = Inr b
    \<and> vf_envelope (ae_libs E) b = Some env"
proof -
  have wire: "vf_envelope_bytes (ae_libs E) env = Some b \<Longrightarrow> vf_envelope (ae_libs E) b = Some env" for env b
    using env_text by blast
  obtain rd platform st1 b b' c j where c: "check_attest_request E A req st = (Inr (rd, platform), st1)"
    and g: "generate_evidence_bytes E A M (aq_nvidia_gpu req) platform rd (attest_options (ac_attestation (sa_config st1))) p = (Inr b, p')"
    and col: "with_collateral (ae_libs E) b rd (sa_ctx st1) w = (b', c, w')"
    and j: "ah_value A b' = Some j" "a = split_envelope platform j"
    by (rule attest_handler_Inr [OF h])
  obtain env m' where env: "vf_envelope_bytes (ae_libs E) env = Some b" "ev_platform env = platform" "ev_collateral env = []"
    "generate_value M (ah_gen A) platform rd (attest_options (ac_attestation (sa_config st1))) (snd p) = (Inr (ev_evidence env), m')"
    "aq_nvidia_gpu req \<longleftrightarrow> ev_nvidia_gpu env \<noteq> None"
    "\<forall>gb. ev_nvidia_gpu env = Some gb \<longrightarrow> check_user_nonce_len rd = Inr () \<and> gb_binding gb = default_binding
       \<and> gb_devices gb \<noteq> []"
    by (rule generated_envelope [OF g wire])
  obtain env' where env': "vf_envelope_bytes (ae_libs E) env' = Some b'"
    and at: "case fst (attach_collateral (ae_libs E) b rd (sa_ctx st1) w) of
       Inl _ \<Rightarrow> env' = env
     | Inr _ \<Rightarrow> \<exists>us. env' = attach (vf_pem (ae_libs E)) (vf_root (ae_libs E)) us env"
    by (rule with_collateral_envelope [OF col env(1) wire])
  note same = attached_fields [OF at]
  have j': "j = envelope_json bj cj env'" using env_text [OF env'] j(1) by simp
  have ne: "\<not> is_attestation_envelope (ev_evidence env')"
    using generated_not_envelope [OF env(4)] same(2) by simp
  have a: "a = split_envelope (ev_platform env') (envelope_json bj cj env')" using j(2) j' env(2) same(1) by simp
  obtain b'' where b'': "il_to_vec (ae_issuer E) j = Some b''" "vf_envelope (ae_libs E) b'' = vf_envelope (ae_libs E) b'"
    using value_text [OF j(1)] by blast
  obtain n where n: "normalize_platform n = Some (platform_name platform)" using attest_request_checked(1) [OF c] by blast
  have "ar_platform a = platform_name platform" using split_then_build(1) [OF ne a] env(2) same(1) by simp
  then have "canonical_platform (Some (ar_platform a)) = Inr platform" using canonical_of_supported [OF n] by simp
  moreover have "build_evidence_envelope (il_to_vec (ae_issuer E)) (ar_platform a) (ar_evidence a) (ar_nvidia_gpu a) (ar_collateral a) = Inr b''"
    using split_then_build(2) [OF ne a, of "il_to_vec (ae_issuer E)"] b''(1) j' by (simp add: ok_or_def)
  moreover have "vf_envelope (ae_libs E) b'' = Some env'" using b''(2) wire [OF env'] by simp
  ultimately show ?thesis
    using c attest_request_checked(2) [OF c] env(2-6) g wire [OF env(1)] col wire [OF env'] at
    by (intro exI [of _ rd] exI [of _ platform] exI [of _ st1] exI [of _ env] exI [of _ b] exI [of _ b'] exI [of _ c]
        exI [of _ env'] exI [of _ b''] exI [of _ m']) simp
qed

text \<open>C32: GPU evidence is made as its verifier asks. What attesting with GPUs writes is an envelope of
  the platform with the evidence for the caller's nonce and a bundle, its devices in the order of
  their identifiers, and it meets every GPU rule of a verifier that expects that nonce as
  report data and GPU nonce, but one: the attester does not limit the number of devices, and a verifier
  refuses more than 32.\<close>

theorem gpu_evidence_meets_its_verifier:
  assumes a: "attest_with_nvidia_gpu M G N to_vec from_slice platform rd method p = (Inr b, p')"
    and reads: "\<And>env b. to_vec env = Some b \<Longrightarrow> from_slice b = Some env"
    and po: "po_gpu po = Some params" "gp_user_nonce params = Some rd" "gp_allowed_bindings params = None"
      "report_data po platform = Some rd"
  shows "\<exists>env g m'. from_slice b = Some env \<and> ev_platform env = platform \<and> ev_nvidia_gpu env = Some g
    \<and> sorted (map gd_uuid (gb_devices g))
    \<and> generate_value M G platform rd method (snd p) = (Inr (ev_evidence env), m')
    \<and> check_gpu_rules env po =
        (if MAX_GPU_DEVICES < length (gb_devices g)
         then Inl (NvidiaGpuTooManyDevices (length (gb_devices g)) MAX_GPU_DEVICES) else Inr ())"
proof -
  obtain v g m' where w: "to_vec \<lparr>ev_platform = platform, ev_evidence = v, ev_nvidia_gpu = Some g, ev_collateral = []\<rparr> = Some b"
    and v: "generate_value M G platform rd method (snd p) = (Inr v, m')" and n: "check_user_nonce_len rd = Inr ()"
    and g: "gb_binding g = default_binding" "gb_devices g \<noteq> []" "sorted (map gd_uuid (gb_devices g))"
    by (rule attest_gpu_envelope [OF a reads])
  show ?thesis
    using reads [OF w] v n g po by (simp add: check_gpu_rules_def check_preconditions_def check_coupling_def Let_def ok_or_def)
qed

section \<open>A small machine\<close>

text \<open>An SEV-SNP guest with a report, no certificates and no event log; nothing else answers.\<close>

definition silent :: "('a, unit) io" where
  "silent m = (Inl OtherIo, m)"

definition toy_machine :: "unit machine" where
  "toy_machine = \<lparr>mc_env = (\<lambda>_. None), mc_exists = (\<lambda>_ _. False), mc_read = (\<lambda>_ m. (Inl NotFound, m)),
     mc_write = (\<lambda>_ _. silent), mc_open = (\<lambda>_. silent), mc_tempdir_in = (\<lambda>_. silent), mc_remove_dir = (\<lambda>_. silent),
     mc_drop_dir = (\<lambda>_ m. m), mc_td_report = (\<lambda>_. silent), mc_vsock_socket = silent, mc_vsock_connect = (\<lambda>_ _. silent),
     mc_vsock_timeout = (\<lambda>_ _. silent), mc_vsock_send = (\<lambda>_. silent), mc_vsock_recv = (\<lambda>_. silent), mc_vsock_close = (\<lambda>m. m),
     mc_sev_open = (\<lambda>m. (Inr (), m)), mc_ext_report = (\<lambda>_ m. (Inr ([7], None), m)),
     mc_vtpm_report = silent, mc_vtpm_report_with = (\<lambda>_. silent), mc_vtpm_quote = (\<lambda>_. silent),
     mc_http_client = (\<lambda>_ _. silent), mc_get = (\<lambda>_ _ m. (Inl True, m)), mc_post_json = (\<lambda>_ _. silent), mc_sleep = (\<lambda>_ m. m),
     mc_unix_connect = (\<lambda>_. silent), mc_unix_write = (\<lambda>_. silent), mc_unix_read = (\<lambda>_. silent), mc_unix_close = (\<lambda>m. m),
     mc_expired = (\<lambda>_ _ _. False), mc_nvat_options = silent, mc_nvat_init = silent, mc_gpu_source = silent,
     mc_gpu_collect = (\<lambda>_. silent), mc_switch_source = silent, mc_switch_collect = (\<lambda>_. silent)\<rparr>"

definition toy_gen_lib :: gen_lib where
  "toy_gen_lib = \<lparr>gl_base64 = bytes_str, gl_base64url = bytes_str, gl_base64url_decode = (\<lambda>_. None), gl_hex = hex16,
     gl_pem = (\<lambda>_. None), gl_hcl_kind = (\<lambda>_. None), gl_td_report = (\<lambda>_. None), gl_imds_vcek = (\<lambda>_. None),
     gl_imds_quote = (\<lambda>_. None), gl_dstack = (\<lambda>_. None)\<rparr>"

definition toy_made :: evidence where
  "toy_made = \<lparr>ev_platform = Snp, ev_evidence = snp_evidence_json \<lparr>sne_report = bytes_str [7], sne_cert_chain = None, sne_event_log = None\<rparr>,
     ev_nvidia_gpu = None, ev_collateral = []\<rparr>"

definition toy_attest_libs ::
  "(unit, unit, unit, unit, unit, unit, unit, unit, unit, unit, unit, nat) libs" where
  "toy_attest_libs = toy_libs\<lparr>vf_envelope := (\<lambda>b. if b = [1] then Some toy_made else None),
     vf_envelope_bytes := (\<lambda>e. if e = toy_made then Some [1] else None)\<rparr>"

definition toy_attest_api :: "(unit, unit, unit, unit, unit, unit, unit, unit, unit, unit, unit, unit, nat) api_env" where
  "toy_attest_api = toy_api\<lparr>ae_libs := toy_attest_libs, ae_issuer := toy_issuer_lib\<lparr>il_to_vec := (\<lambda>_. Some [1])\<rparr>\<rparr>"

definition toy_host :: attest_host where
  "toy_host = \<lparr>ah_gen = toy_gen_lib, ah_nvat = \<lparr>na_hash = toy_sha, na_hex = hex16, na_nonce_ok = (\<lambda>_. True), na_entries = (\<lambda>_. None)\<rparr>,
     ah_base64 = (\<lambda>_. None),
     ah_value = (\<lambda>b. if b = [1] then Some (envelope_json (\<lambda>_. JNull) (\<lambda>_. JNull) toy_made) else None)\<rparr>"

definition toy_attest_request :: attest_request where
  "toy_attest_request = \<lparr>aq_report_data = None, aq_platform = ''snp'', aq_nvidia_gpu = False\<rparr>"

lemma toy_attest_request_checked:
  "check_attest_request toy_attest_api toy_host toy_attest_request toy_app = (Inr ([], Snp), toy_app)"
proof -
  have "ensure_platform_allowed (at_platforms default_attestation_config) Snp = Inr ()" by code_simp
  moreover have "at_enabled default_attestation_config" by code_simp
  ultimately show ?thesis
    by (simp add: check_attest_request_def toy_attest_request_def toy_app_def default_api_config_def resolve_platform_def)
qed

lemma toy_generated:
  "generate_evidence_bytes toy_attest_api toy_host toy_machine False Snp [] method (False, ()) = (Inr [1], False, ())"
  by (simp add: generate_evidence_bytes_def lift_act_def attest_def generate_value_def snp_generate_evidence_def act_then_def
      act_of_def pad_report_data_def hw_def map_err_def read_event_log_def toy_machine_def toy_host_def toy_gen_lib_def
      toy_attest_api_def toy_attest_libs_def toy_made_def ok_or_def Let_def)

lemma toy_attested:
  "\<exists>a st' p' w'. attest_handler toy_attest_api toy_host toy_machine toy_attest_request toy_app (False, ()) 0 = (Inr a, st', p', w')"
proof -
  obtain b c w where w: "with_collateral (ae_libs toy_attest_api) [1] [] (sa_ctx toy_app) 0 = (b, c, w)" by (rule prod_cases3)
  have e: "vf_envelope_bytes (ae_libs toy_attest_api) toy_made = Some [1]"
    "\<And>env b. vf_envelope_bytes (ae_libs toy_attest_api) env = Some b \<Longrightarrow> vf_envelope (ae_libs toy_attest_api) b = Some env"
    by (auto simp: toy_attest_api_def toy_attest_libs_def split: if_splits)
  obtain env where "vf_envelope_bytes (ae_libs toy_attest_api) env = Some b"
    by (rule with_collateral_envelope [OF w e])
  then have "b = [1]" by (auto simp: toy_attest_api_def toy_attest_libs_def split: if_splits)
  then have "ah_value toy_host b = Some (envelope_json (\<lambda>_. JNull) (\<lambda>_. JNull) toy_made)" by (simp add: toy_host_def)
  then show ?thesis
    using toy_attest_request_checked toy_generated w
    by (auto simp: attest_handler_def toy_attest_request_def ok_or_def)
qed

text \<open>The guest with one GPU.\<close>

definition toy_gpu_machine :: "unit machine" where
  "toy_gpu_machine = toy_machine\<lparr>mc_nvat_options := (\<lambda>m. (Inr (), m)), mc_nvat_init := (\<lambda>m. (Inr (), m)),
     mc_gpu_source := (\<lambda>m. (Inr (), m)), mc_gpu_collect := (\<lambda>_ m. (Inr (False, Some []), m))\<rparr>"

definition toy_nvat :: nvat_lib where
  "toy_nvat = \<lparr>na_hash = toy_sha, na_hex = hex16, na_nonce_ok = (\<lambda>_. True),
     na_entries = (\<lambda>_. Some [\<lparr>se_arch = ''hopper'', se_uuid = Some ''u'', se_evidence = [], se_certificate = []\<rparr>])\<rparr>"

definition toy_made_gpu :: evidence where
  "toy_made_gpu = toy_made\<lparr>ev_nvidia_gpu := Some \<lparr>gb_devices = [\<lparr>gd_arch = Hopper, gd_uuid = ''u'', gd_evidence_b64 = [],
     gd_cert_chain_b64 = []\<rparr>], gb_binding = default_binding\<rparr>\<rparr>"

definition toy_to_vec :: "evidence \<Rightarrow> bytes option" where
  "toy_to_vec e = (if e = toy_made then Some [1] else if e = toy_made_gpu then Some [2] else None)"

definition toy_of_vec :: "bytes \<Rightarrow> evidence option" where
  "toy_of_vec b = (if b = [1] then Some toy_made else if b = [2] then Some toy_made_gpu else None)"

lemma toy_gpu_attested:
  "attest_with_nvidia_gpu toy_gpu_machine toy_gen_lib toy_nvat toy_to_vec toy_of_vec Snp (replicate 32 0) AutoMethod (False, ())
     = (Inr [2], True, ())"
proof -
  have a: "attest toy_gpu_machine toy_gen_lib toy_to_vec Snp (replicate 32 0) AutoMethod () = (Inr [1], ())"
    by (simp add: attest_def generate_value_def snp_generate_evidence_def act_then_def
      act_of_def pad_report_data_def hw_def map_err_def read_event_log_def toy_gpu_machine_def toy_machine_def toy_gen_lib_def
      toy_made_def toy_to_vec_def ok_or_def Let_def)
  have up: "ascii_upper (CHR ''h'') = CHR ''H''" "ascii_upper (CHR ''o'') = CHR ''O''" "ascii_upper (CHR ''p'') = CHR ''P''"
    "ascii_upper (CHR ''e'') = CHR ''E''" "ascii_upper (CHR ''r'') = CHR ''R''"
    by (simp_all add: ascii_upper_def Let_def of_char_def char_of_def bit_0)
  have c: "collect_bundle toy_gpu_machine toy_nvat (replicate 32 0) default_binding (False, ()) =
      (Inr (the (ev_nvidia_gpu toy_made_gpu)), True, ())"
    by (simp add: collect_bundle_def ensure_sdk_init_def gpu_ctx_def nonce_hex_def collect_gpu_entries_def collect_switch_entries_def
        collect_entries_def act_then_def act_of_def map_err_def sdk_entry_to_device_def arch_named_def up ok_or_def Let_def
        toy_gpu_machine_def toy_machine_def toy_nvat_def silent_def toy_made_gpu_def toy_made_def)
  have "toy_made\<lparr>ev_nvidia_gpu := Some (the (ev_nvidia_gpu toy_made_gpu))\<rparr> = toy_made_gpu" "toy_made_gpu \<noteq> toy_made"
    by (simp_all add: toy_made_gpu_def toy_made_def)
  then show ?thesis
    by (simp add: attest_with_nvidia_gpu_def act_then_def act_of_def lift_act_def a c check_user_nonce_len_def
        MIN_GPU_USER_NONCE_LEN_def toy_of_vec_def toy_to_vec_def ok_or_def)
qed

theorem gpu_evidence_meets_its_verifier_witness:
  "\<exists>po. report_data po Snp = Some (replicate 32 0) \<and> check_gpu_rules toy_made_gpu po = Inr ()"
proof -
  define po where "po = all_policies\<lparr>po_snp := Some (default_snp_params\<lparr>sp_report_data := Some (replicate 32 0)\<rparr>),
    po_gpu := Some (default_gpu_params\<lparr>gp_user_nonce := Some (replicate 32 0)\<rparr>)\<rparr>"
  have po: "po_gpu po = Some (default_gpu_params\<lparr>gp_user_nonce := Some (replicate 32 0)\<rparr>)"
    "gp_user_nonce (default_gpu_params\<lparr>gp_user_nonce := Some (replicate 32 0)\<rparr>) = Some (replicate 32 0)"
    "gp_allowed_bindings (default_gpu_params\<lparr>gp_user_nonce := Some (replicate 32 0)\<rparr>) = None"
    "report_data po Snp = Some (replicate 32 0)"
    by (simp_all add: po_def default_gpu_params_def)
  have t: "toy_of_vec b = Some env" if "toy_to_vec env = Some b" for env b
    using that by (auto simp: toy_to_vec_def toy_of_vec_def split: if_splits)
  obtain env g where "toy_of_vec [2] = Some env" "ev_nvidia_gpu env = Some g"
    and c: "check_gpu_rules env po = (if MAX_GPU_DEVICES < length (gb_devices g)
         then Inl (NvidiaGpuTooManyDevices (length (gb_devices g)) MAX_GPU_DEVICES) else Inr ())"
    using gpu_evidence_meets_its_verifier [OF toy_gpu_attested t po] by blast
  then have "env = toy_made_gpu" "length (gb_devices g) = 1" by (auto simp: toy_of_vec_def toy_made_gpu_def)
  with c po(4) show ?thesis by (intro exI [of _ po]) (simp add: MAX_GPU_DEVICES_def)
qed

theorem attest_answer_is_verified_as_made_witness:
  "\<exists>a st' p' w' b. attest_handler toy_attest_api toy_host toy_machine toy_attest_request toy_app (False, ()) 0 = (Inr a, st', p', w')
    \<and> build_evidence_envelope (\<lambda>_. Some [1]) (ar_platform a) (ar_evidence a) (ar_nvidia_gpu a) (ar_collateral a) = Inr b
    \<and> vf_envelope toy_attest_libs b = Some toy_made"
proof -
  obtain a st' p' w' where h:
    "attest_handler toy_attest_api toy_host toy_machine toy_attest_request toy_app (False, ()) 0 = (Inr a, st', p', w')"
    using toy_attested by blast
  have t: "vf_envelope (ae_libs toy_attest_api) b = Some env
      \<and> ah_value toy_host b = Some (envelope_json (\<lambda>_. JNull) (\<lambda>_. JNull) env)"
    if "vf_envelope_bytes (ae_libs toy_attest_api) env = Some b" for env b
    using that by (auto simp: toy_attest_api_def toy_attest_libs_def toy_host_def split: if_splits)
  have v: "\<exists>b'. il_to_vec (ae_issuer toy_attest_api) j = Some b'
      \<and> vf_envelope (ae_libs toy_attest_api) b' = vf_envelope (ae_libs toy_attest_api) b"
    if "ah_value toy_host b = Some j" for j b
    using that by (auto simp: toy_attest_api_def toy_host_def split: if_splits)
  obtain b env where b: "build_evidence_envelope (il_to_vec (ae_issuer toy_attest_api)) (ar_platform a) (ar_evidence a)
      (ar_nvidia_gpu a) (ar_collateral a) = Inr b" "vf_envelope (ae_libs toy_attest_api) b = Some env"
    using attest_answer_is_verified_as_made [OF h t v] by blast
  then have "env = toy_made" by (auto simp: toy_attest_api_def toy_attest_libs_def split: if_splits)
  with b have "build_evidence_envelope (\<lambda>_. Some [1]) (ar_platform a) (ar_evidence a) (ar_nvidia_gpu a) (ar_collateral a) = Inr b
      \<and> vf_envelope toy_attest_libs b = Some toy_made"
    by (simp add: toy_attest_api_def)
  with h show ?thesis by blast
qed

section \<open>A small service\<close>

definition toy_startup :: "unit startup" where
  "toy_startup = \<lparr>su_exists = (\<lambda>_. False), su_read = (\<lambda>_. None), su_toml = (\<lambda>_. None), su_env = (\<lambda>_. None),
     su_socket_addr = (\<lambda>_. True), su_random = (), su_pkcs8 = (\<lambda>_. None),
     su_url = (\<lambda>_. Some \<lparr>pu_scheme = ''https'', pu_host = Some (Ipv4 0), pu_has_query = False, pu_has_fragment = False,
       pu_username = [], pu_password = None\<rparr>), su_nras = cx_nras toy_ctx\<rparr>"

lemma toy_started: "\<exists>st. start_server toy_startup toy_issuer_lib ''config.toml'' = Inr st"
proof -
  have "validate_config (\<lambda>_. True) default_api_config = Inr ()" by code_simp
  moreover have "\<not> tk_enabled (ac_token default_api_config)" by code_simp
  moreover have "allowed (su_url toy_startup) url" for url by (simp add: allowed_def toy_startup_def)
  ultimately show ?thesis
    by (simp add: start_server_def startup_config_def toy_startup_def map_err_def token_issuer_of_def with_nras_urls_def
        require_def Let_def)
qed

theorem service_answers_as_configured_witness:
  "\<exists>st s' h. start_server toy_startup toy_issuer_lib ''config.toml'' = Inr st
    \<and> service_run toy_attest_api toy_sha toy_host toy_machine (\<lambda>_. 0) \<lparr>ss_app = st, ss_machine = (False, ()), ss_world = 0\<rparr>
        [(None, CallHealth, AnswerHealth h)] s'
    \<and> answered_soundly (ae_issuer toy_attest_api) toy_sha (ss_app s') (None, CallHealth, AnswerHealth h) \<and> hs_status h = ''ok''"
proof -
  obtain st where st: "start_server toy_startup toy_issuer_lib ''config.toml'' = Inr st" using toy_started by blast
  let ?s = "\<lparr>ss_app = st, ss_machine = (False, ()), ss_world = 0\<rparr>"
  obtain h s' where r: "respond toy_attest_api toy_sha toy_host toy_machine (\<lambda>_. 0) None CallHealth ?s = (AnswerHealth h, s')"
    "hs_status h = ''ok''"
    by (auto simp: respond_def route_guard_def health_handler_def case_prod_beta Let_def)
  have run: "service_run toy_attest_api toy_sha toy_host toy_machine (\<lambda>_. 0) ?s [(None, CallHealth, AnswerHealth h)] s'"
    using run_step [OF run_nil r(1)] by simp
  have "ss_app ?s = st" by simp
  from service_answers_as_configured [OF st run this] run st r(2) show ?thesis
    by (intro exI [of _ st] exI [of _ s'] exI [of _ h]) simp
qed

end
