(* ===== verification/Spec2Isabelle.thy ===== *)
theory Spec2Isabelle
  imports StoreProps TpmProps TdxProps TypeProps SnpProps CloudProps GpuProps VerifierProps ServeProps CacheProps
    ApiProps CliProps AttestRoundtrip
begin

text \<open>
  attestation-rs: evidence of confidential guests, made on the guest and judged elsewhere.

  The program. A guest asks its platform for evidence and wraps it in an envelope with the
  platform's name (the attester). The envelope may carry the vendor's collateral. A verifier
  reads the envelope, checks the caller's policies, gathers what the vendors sign (certificates,
  revocation lists, TCB documents, launch endorsements, NRAS answers and keys) from the
  collateral store, and returns a verdict; a genuine guest that misses a policy gets a
  verdict that does not pass, forged evidence gets an error. The collateral store is the one
  place collateral comes from: what the caller holds, what the evidence carries, memory, the
  disk, and last the vendor or a cache server in front of it. Around the library stand the
  cache server, an HTTP service, a command line, and a verifier for browsers. All paths below
  are under \<open>src/crates\<close>; those without a crate are under \<open>attestation/src\<close>.

  What every theory uses.
  \<^item> Prelude: words for the machine integers, results as sums with the steps of \<open>?\<close>,
    little- and big-endian reading, splitting of lists and strings.
  \<^item> Errors: \<open>error.rs\<close>. A panic of the source is the error value \<open>Panicked\<close>, so it is a
    branch like the others. Json: the JSON values the source reads by hand.
  \<^item> Collateral, Types, Utils: \<open>collateral/mod.rs\<close> (a kind of piece as a record of its name,
    URL, verification and floor), \<open>types.rs\<close>, \<open>utils.rs\<close>. Hex: what the hex crate does.
  \<^item> X509: what the certificate and signature libraries return; Extend: registers that can
    only be extended, with the lemma that a value fixes its history.

  The collateral store: Vendor, Disk, Store (\<open>collateral/vendor.rs\<close>, \<open>disk.rs\<close>, \<open>store.rs\<close>).
  The state is a record of the copies held, attached and in memory, the failures, the pauses
  of hosts, and the rate windows; every operation returns the new state and the new outside
  world. StoreInv has its invariants: what a lookup returns is the newest verified copy (over
  the locale \<open>recency\<close>), and the native store's steps are an inductive relation. Context
  (\<open>context.rs\<close>) puts a store and an evaluation time together. Serve (\<open>collateral/serve.rs\<close>)
  finds the piece a vendor URL names.

  The platforms, one group of theories each.
  \<^item> TDX: TdxQuote and Tdx (\<open>platforms/tdx/verify.rs\<close>), Dcap and DcapTcb (\<open>tdx/dcap.rs\<close>, the
    chain and the TCB), Ccel (\<open>tdx/ccel.rs\<close>), Intel (\<open>collateral/intel.rs\<close>).
  \<^item> SEV-SNP: SnpReport and Snp (\<open>platforms/snp/verify.rs\<close>), SnpRegisters
    (\<open>snp/measurement_registers.rs\<close>), Amd (\<open>collateral/amd.rs\<close>).
  \<^item> Azure: Tpm and TpmQuote (\<open>platforms/tpm_common.rs\<close>), Azure (\<open>az_snp\<close> and \<open>az_tdx\<close>).
  \<^item> Google and dstack: Protobuf and Gce (\<open>platforms/gcp_endorsement.rs\<close>, \<open>collateral/gce.rs\<close>),
    Google (\<open>gcp_snp\<close>, \<open>gcp_tdx\<close>, \<open>dstack\<close>).
  \<^item> NVIDIA GPUs: Jws and Gpu (\<open>platforms/nvidia_gpu/verify.rs\<close>), Nvidia (\<open>collateral/nvidia.rs\<close>).
  Platform (\<open>platform.rs\<close>) has the trait as a record and its documented promises as the locale
  \<open>checked_platform\<close>: evidence that is not admissible asks nobody anything, misuse of params is
  reported as such, a verdict is about genuine evidence. Each of the seven platforms is an
  interpretation. Policies and Verifier (\<open>platform.rs\<close>, \<open>lib.rs\<close>) are what a caller accepts, the
  dispatch, the coupling of GPU evidence to its host, \<open>verify\<close>, \<open>gather\<close> and
  \<open>attach_collateral\<close>. Offline extends the contract (\<open>store_bound_platform\<close>, again interpreted
  for all seven): without a vendor nothing reaches the network.

  The attester: Machine (the files, devices and sockets the code drives, as functions of the
  machine's state), TdxAttest and CloudAttest (the \<open>attest.rs\<close> of every platform), Attest
  (detection, envelopes and the GPU bundle, \<open>lib.rs\<close> and \<open>platforms/nvidia_gpu/attest.rs\<close>).

  The programs: CacheServer (\<open>attestation-cache\<close>), ApiConfig, ApiServer, ApiAttest and
  ApiService (\<open>attestation-api\<close>: configuration and errors, \<open>/verify\<close> with tokens, \<open>/attest\<close>,
  and the service from its start), Cli (\<open>attestation-cli/src/main.rs\<close>), Wasm
  (\<open>attestation-wasm/src/lib.rs\<close>). Cache server and service are also relations of the steps a
  running process takes, so that the invariants are about every interleaving and every run.

  What the lemmas show. Theories named Props hold the properties of their component; a Toy
  theory builds small libraries and evidence that passes in them, which show that the
  hypotheses can hold together.
  \<^item> Verdicts (TdxProps, SnpProps, CloudProps, GpuProps, VerifierProps): what evidence a verdict
    is about, and exactly when it passes; which bytes and which collateral decide it; that
    replayed registers fix the log; that refused requests ask nobody.
  \<^item> Store (StoreProps, ServeProps): newest verified copy, only verified pieces in memory,
    never an older issue, bounded questions to the vendor, a piece the vendor has is obtained,
    URLs name one piece.
  \<^item> Servers (CacheProps, ApiProps, AttestProps): keys, what is bounded under every interleaving and
    what is only when no connection is closed, tokens that stand for a verdict on the request's
    evidence, server floors, a run that answers as configured.
  \<^item> Attester (AttestProps, AttestRoundtrip): the quote service's framing, the retries, and that
    the answer of \<open>/attest\<close> is read by \<open>/verify\<close> as what was made.
  \<^item> Command line and browsers (CliProps): pins, exit codes, no network offline.
  \<^item> Typing (TypeProps, TpmProps): array lengths of parsed quotes, signed registers.
  This theory has the property that spans all components: nothing panics.

  Loops and bounds. Loops over bytes are recursions with a measure (the CCEL log, protobuf
  fields, percent decoding); loops over lists are structural. The retry loop of the metadata
  service is a \<open>partial_function\<close> in the option monad, and it is proved to return; there is
  no fuel. Integers are words of their width where the source computes in them; lengths and
  \<open>usize\<close> offsets are naturals, as on a 64-bit machine, where an offset within the input plus a
  size of 32 bits fits. The quote parsers add such sizes unchecked, so they are written for a
  \<open>usize\<close> of any width (\<open>parse_tdx_quote_on\<close>, \<open>compute_body_end_on\<close>, \<open>parse_auth_data_on\<close>) with a sum past the
  width as a panic, as the repository builds with overflow checks; without the suffix they are those of
  64 bits, which the verification uses. On the 32 bits of a browser a quote or its
  certification data with a size near the largest one panics where 64 bits report an error, and no
  other input is read differently. Everywhere else the source compares before it adds, adds with
  \<open>checked_add\<close>, or adds 16-bit sizes; a CCEL log with an event size near the largest
  one is an error on 32 bits, where 64 bits report the log too short or stop reading.
  Times are integers in seconds, instants nanoseconds.

  Assumed of libraries, as arguments. Hashing, signatures, X.509, CRL and ASN.1 parsing, the
  sev crate's chain checks, JSON and base64 text, TOML, the network, files, devices and the GPU
  SDK are fields of records. Properties that need more than their type say what: that a hash
  tells the inputs at hand apart, that decoding inverts encoding, that a signature verifies
  under its own key. Nothing is assumed of a signature's security: genuine means that the
  source's checks against the pinned roots passed, as stated from the evidence's bytes.

  Not modelled.
  \<^item> Tests, benches, examples, fuzz targets, \<open>testing.rs\<close> and the load-test program: they exercise
    the code and are not part of it. In many files they are more than half of the lines.
  \<^item> Text: most error messages are shortened to what tells them apart; logs and what goes to
    standard error are left out.
  \<^item> Derived code: clap's parsing of flags, serde's forms of most types, and axum's parsing of
    HTTP requests; the handlers start from what these give them.
  \<^item> Features: the model is of a build for Linux with every platform, \<open>attest\<close> and NVIDIA
    support; the stubs of smaller builds are left out.
  \<^item> Concurrency inside one lookup: callers that wait for one another's fetch (moka) appear as
    the order of steps, not as shared futures. Copies that the memory cache drops are steps of
    their own, for the store and for the cache server.
\<close>

section \<open>Properties of the whole\<close>

text \<open>C40: On a 64-bit machine no bytes, however malformed, make the code panic: every parser of
  evidence and of the quote services' replies, every check of collateral and the verification of every
  platform ends with a value or an error. A \<open>usize\<close> of another width (32 bits in a browser) changes
  what the parsers of a quote and of its certification data answer only by a panic, and only for
  bytes that 64 bits refuse with an error.\<close>

theorem no_input_panics:
  "parse_hcl_report b \<noteq> Inl Panicked \<and> parse_quote_info b \<noteq> Inl Panicked
   \<and> extract_ak_pub_from_var_data b \<noteq> Inl Panicked \<and> verify_tpm_pcrs h b pcrs \<noteq> Inl Panicked
   \<and> verify_tpm_signature js b64 rsa sig b vd \<noteq> Inl Panicked
   \<and> parse_tdx_quote b \<noteq> Inl Panicked \<and> parse_auth_data b e \<noteq> Inl Panicked \<and> parse_ccel b \<noteq> Inl Panicked
   \<and> genuine_quote E ev now \<noteq> Inl Panicked \<and> tdx_verify E ev params c now \<noteq> Inl Panicked
   \<and> kmr_verify h reported b caller \<noteq> Inl Panicked \<and> snp_verify L sev sp sc now \<noteq> Inl Panicked
   \<and> vcek_verify L b ch vid \<noteq> Inl Panicked \<and> amd_crl_verify L b ch cid \<noteq> Inl Panicked
   \<and> gce_verify G b ch gid \<noteq> Inl Panicked
   \<and> az_snp_verify L T aev ap crl now \<noteq> Inl Panicked \<and> az_tdx_verify E T tev tp c now \<noteq> Inl Panicked
   \<and> gcp_snp_verify L sev gp gc now \<noteq> Inl Panicked \<and> gcp_tdx_verify E ev gtp gtc now \<noteq> Inl Panicked
   \<and> dstack_verify E b64' dev params c now \<noteq> Inl Panicked
   \<and> parse_qgs_get_quote_response b \<noteq> Inl Panicked \<and> parse_dstack_response GL b \<noteq> Inl Panicked
   \<and> same_or_panics (parse_tdx_quote_on bits b) (parse_tdx_quote b)
   \<and> same_or_panics (parse_auth_data_on bits b e) (parse_auth_data b e)"
proof -
  have "genuine_quote E ev now \<noteq> Inl Panicked"
    by (auto simp: genuine_quote_def decode_quote_def err_simps Let_def check_field_size_not_panic
        parse_tdx_quote_not_panic verify_quote_signature_not_panic verify_dcap_chain_not_panic)
  then show ?thesis
    by (simp add: panic_free parse_hcl_report_not_panic parse_quote_info_not_panic extract_ak_pub_from_var_data_not_panic
        verify_tpm_pcrs_not_panic verify_tpm_signature_not_panic parse_tdx_quote_not_panic parse_ccel_not_panic
        tdx_verify_not_panic kmr_verify_not_panic parse_qgs_not_panic parse_dstack_response_not_panic
        parse_tdx_quote_width parse_auth_data_width)
qed

end
